(* ===== verification/Ps2Prelude.thy ===== *)
theory Ps2Prelude
  imports Main "HOL-Library.Word" "HOL-Library.Monad_Syntax"
begin

unbundle bit_operations_syntax

text \<open>
  Prelude of the development: the machine integers of the drivers, the proof-rule
  collections the components fill, and the generic lemmas on bytes, options and lists
  that more than one component uses.
\<close>

section \<open>Machine integers\<close>

text \<open>
  \<open>UInt8\<close>, \<open>UInt16\<close> and \<open>UInt32\<close> keep their width; \<open>SInt32\<close> is the same
  word read through \<open>sint\<close>.
\<close>

type_synonym u8 = "8 word"
type_synonym u16 = "16 word"
type_synonym u32 = "32 word"

text \<open>The C test \<open>if (word & mask)\<close>.\<close>

definition any_bit :: "'a::len word \<Rightarrow> 'a word \<Rightarrow> bool" where
  "any_bit w m \<longleftrightarrow> w AND m \<noteq> 0"

section \<open>Collections of rules\<close>

named_theorems frame_simps \<open>fields an operation leaves alone\<close>

section \<open>Errors of kernel code\<close>

text \<open>
  What C++ leaves undefined and a kernel extension dies of is an error value: a call through a
  null pointer, a read or a write outside an array, a read of a stack frame that is gone. \<open>and_then\<close>
  goes on with the result of a step that has none.
\<close>

datatype kernel_error = NullDereference | OutOfBoundsRead | OutOfBoundsWrite | DanglingPointer

definition and_then :: "kernel_error + 'a \<Rightarrow> ('a \<Rightarrow> kernel_error + 'b) \<Rightarrow> kernel_error + 'b" where
  "and_then r f = (case r of Inl e \<Rightarrow> Inl e | Inr a \<Rightarrow> f a)"

definition non_null :: "'a option \<Rightarrow> kernel_error + 'a" where
  "non_null p = (case p of None \<Rightarrow> Inl NullDereference | Some a \<Rightarrow> Inr a)"

lemma and_then_simps [simp]: "and_then (Inl e) f = Inl e" "and_then (Inr a) f = f a"
  by (simp_all add: and_then_def)

lemma non_null_simps [simp]: "non_null None = Inl NullDereference" "non_null (Some a) = Inr a"
  by (simp_all add: non_null_def)

lemma and_then_Inr_iff [simp]: "and_then r f = Inr y \<longleftrightarrow> (\<exists>a. r = Inr a \<and> f a = Inr y)"
  by (cases r) auto

lemma and_then_assoc: "and_then (and_then r f) g = and_then r (\<lambda>a. and_then (f a) g)"
  by (cases r) auto

lemma non_null_Inr_iff [simp]: "non_null p = Inr a \<longleftrightarrow> p = Some a"
  by (cases p) auto

section \<open>Lemmas on bytes\<close>

lemma any_bit_zero [simp]: "\<not> any_bit 0 m" "\<not> any_bit w 0"
  by (simp_all add: any_bit_def)

lemma any_bit_numeral [simp]:
  "any_bit (numeral a) (numeral b :: 'a::len word) \<longleftrightarrow> (numeral a :: 'a word) AND numeral b \<noteq> 0"
  "any_bit 1 (numeral b :: 'a::len word) \<longleftrightarrow> (1 :: 'a word) AND numeral b \<noteq> 0"
  "any_bit (numeral a :: 'a::len word) 1 \<longleftrightarrow> (numeral a :: 'a word) AND 1 \<noteq> 0"
  by (simp_all add: any_bit_def)

lemma any_bit_one [simp]: "any_bit (1 :: 'a::len word) 1"
  by (simp add: any_bit_def)

lemma any_bit_or: "any_bit (a OR b) m \<longleftrightarrow> any_bit a m \<or> any_bit b m"
  unfolding any_bit_def by (metis bit.conj_disj_distrib2 or_eq_0_iff)

lemma any_bit_clear_same: "\<not> any_bit (w AND NOT m) m"
proof -
  have "(w AND NOT m) AND m = 0"
    by (rule bit_word_eqI) (auto simp: bit_and_iff bit_not_iff)
  then show ?thesis by (simp add: any_bit_def)
qed

lemma any_bit_clear_disjoint:
  fixes m m' :: "'a::len word"
  assumes "m AND m' = 0"
  shows "any_bit (w AND NOT m) m' \<longleftrightarrow> any_bit w m'"
proof -
  have "bit m n \<longrightarrow> \<not> bit m' n" for n
    using assms by (metis bit_and_iff bit_0_eq bot_apply bot_bool_def)
  then have "(w AND NOT m) AND m' = w AND m'"
    by (intro bit_word_eqI) (auto simp: bit_and_iff bit_not_iff)
  then show ?thesis by (simp add: any_bit_def)
qed

text \<open>
  Setting the bits \<open>s\<close> and then clearing the bits \<open>c\<close>: what the resulting word
  holds, bit by bit. The read-modify-write loops of all the drivers are instances.
\<close>

lemma set_clear_bits:
  fixes w s c :: "'a::len word"
  shows "bit ((w OR s) AND NOT c) n \<longleftrightarrow> n < LENGTH('a) \<and> (bit w n \<or> bit s n) \<and> \<not> bit c n"
  by (auto simp: bit_and_iff bit_or_iff bit_not_iff dest: bit_imp_le_length)

lemma set_clear_idem:
  fixes w s c :: "'a::len word"
  shows "(((w OR s) AND NOT c) OR s) AND NOT c = (w OR s) AND NOT c"
  by (rule bit_word_eqI) (auto simp: bit_and_iff bit_or_iff bit_not_iff)

lemma any_bit_push: "any_bit w (push_bit n 1) \<longleftrightarrow> bit w n"
  by (simp add: any_bit_def bit_iff_and_push_bit_not_eq_0)

text \<open>Words small enough keep their value as signed integers.\<close>

lemma sint_word_of_int_range:
  assumes "- 2147483648 \<le> i" "i < 2147483648"
  shows "sint (word_of_int i :: u32) = i"
proof -
  have "(i + 2 ^ 31) mod 2 ^ 32 = i + 2 ^ 31"
    using assms by (intro mod_pos_pos_trivial) simp_all
  then show ?thesis
    by (simp add: sint_sbintrunc' signed_take_bit_eq_take_bit_shift take_bit_eq_mod)
qed

lemma sint_of_small: "unat (w :: u32) < 2 ^ 31 \<Longrightarrow> sint w = int (unat w)"
  and sint_minus_small: "unat (w :: u32) < 2 ^ 31 \<Longrightarrow> sint (- w) = - int (unat w)"
proof -
  assume "unat w < 2 ^ 31"
  then have "int (unat w) < int (2 ^ 31)" by (simp only: of_nat_less_iff)
  then have w: "int (unat w) < 2147483648" by (simp only: of_nat_power) simp
  have "sint (word_of_int (int (unat w)) :: u32) = int (unat w)"
    by (rule sint_word_of_int_range) (use w in linarith)+
  then show "sint w = int (unat w)" by simp
  have "sint (word_of_int (- int (unat w)) :: u32) = - int (unat w)"
    by (rule sint_word_of_int_range) (use w in linarith)+
  then show "sint (- w) = - int (unat w)" by simp
qed

section \<open>Lemmas on lists and options\<close>

lemma bind_Some_iff:
  "Option.bind x f = Some y \<longleftrightarrow> (\<exists>a. x = Some a \<and> f a = Some y)"
  by (cases x) auto

lemma bind_assoc_split:
  "Option.bind (case p of (a, b) \<Rightarrow> f a b) g = (case p of (a, b) \<Rightarrow> Option.bind (f a b) g)"
  by (simp add: split_beta)

lemma not_None_ex: "x \<noteq> None \<longleftrightarrow> (\<exists>y. x = Some y)"
  by (cases x) auto

lemma map_nth_update_notin:
  "i \<notin> set is \<Longrightarrow> map (\<lambda>k. xs[i := x] ! k) is = map (\<lambda>k. xs ! k) is"
  by (auto intro!: nth_list_update_neq)

lemma distinct_snoc_iff: "distinct (xs @ [x]) \<longleftrightarrow> distinct xs \<and> x \<notin> set xs"
  by auto

end
