(* ===== verification/KeyQueue.thy ===== *)
theory KeyQueue
  imports Ps2Prelude
begin

text \<open>
  The keyboard data queue of \<open>ApplePS2Controller\<close>: scan codes read at interrupt time
  wait here until the work loop or a request takes them. The source allocates an array of
  \<open>kKeyboardQueueSize\<close> elements once and moves each element between two intrusive
  queues, \<open>_keyboardQueue\<close> (holding data) and \<open>_keyboardQueueUnused\<close>. The model keeps the
  array as a list of data bytes and the two queues as lists of element numbers.
\<close>

section \<open>State and operations\<close>

abbreviation (input) kKeyboardQueueSize :: nat where "kKeyboardQueueSize \<equiv> 32"

record key_queue =
  keyboardQueueAlloc :: "u8 list"
  keyboardQueue :: "nat list"
  keyboardQueueUnused :: "nat list"

text \<open>\<open>init\<close> leaves both queues empty and the array unallocated.\<close>

definition init_keyboardQueue :: key_queue where
  "init_keyboardQueue =
     \<lparr>keyboardQueueAlloc = [], keyboardQueue = [], keyboardQueueUnused = []\<rparr>"

text \<open>
  \<open>start\<close> allocates the array (its bytes, as \<open>IOMalloc\<close> leaves them, are \<open>ds\<close>) and
  enters every element into the unused queue.
\<close>

definition start_keyboardQueue :: "u8 list \<Rightarrow> key_queue \<Rightarrow> key_queue" where
  "start_keyboardQueue ds q =
     fold (\<lambda>index q. q\<lparr>keyboardQueueUnused := keyboardQueueUnused q @ [index]\<rparr>)
       [0..<kKeyboardQueueSize] (q\<lparr>keyboardQueueAlloc := ds\<rparr>)"

text \<open>A byte that finds no unused element is dropped.\<close>

definition enqueueKeyboardData :: "u8 \<Rightarrow> key_queue \<Rightarrow> key_queue" where
  "enqueueKeyboardData key q =
     (case keyboardQueueUnused q of
        [] \<Rightarrow> q
      | element # unused \<Rightarrow>
          q\<lparr>keyboardQueueUnused := unused,
            keyboardQueueAlloc := (keyboardQueueAlloc q)[element := key],
            keyboardQueue := keyboardQueue q @ [element]\<rparr>)"

text \<open>The result \<open>None\<close> is the source's \<open>false\<close>.\<close>

definition dequeueKeyboardData :: "key_queue \<Rightarrow> u8 option \<times> key_queue" where
  "dequeueKeyboardData q =
     (case keyboardQueue q of
        [] \<Rightarrow> (None, q)
      | element # used \<Rightarrow>
          (Some (keyboardQueueAlloc q ! element),
           q\<lparr>keyboardQueue := used,
             keyboardQueueUnused := keyboardQueueUnused q @ [element]\<rparr>))"

section \<open>The contract of a bounded byte queue\<close>

text \<open>
  What the rest of the controller relies on: first in, first out, a capacity, and a byte
  that arrives at a full queue is lost while the bytes already queued are not.
\<close>

locale bounded_fifo =
  fixes enq :: "'a \<Rightarrow> 'q \<Rightarrow> 'q"
    and deq :: "'q \<Rightarrow> 'a option \<times> 'q"
    and contents :: "'q \<Rightarrow> 'a list"
    and wf :: "'q \<Rightarrow> bool"
    and cap :: nat
  assumes wf_enq: "wf q \<Longrightarrow> wf (enq x q)"
    and wf_deq: "wf q \<Longrightarrow> wf (snd (deq q))"
    and contents_enq: "wf q \<Longrightarrow>
          contents (enq x q) = (if length (contents q) < cap then contents q @ [x] else contents q)"
    and deq_empty: "wf q \<Longrightarrow> contents q = [] \<Longrightarrow> deq q = (None, q)"
    and fst_deq: "wf q \<Longrightarrow> contents q \<noteq> [] \<Longrightarrow> fst (deq q) = Some (hd (contents q))"
    and contents_deq: "wf q \<Longrightarrow> contents (snd (deq q)) = tl (contents q)"
    and contents_cap: "wf q \<Longrightarrow> length (contents q) \<le> cap"
begin

lemma deq_None_iff: "wf q \<Longrightarrow> fst (deq q) = None \<longleftrightarrow> contents q = []"
  by (metis deq_empty fst_conv fst_deq option.distinct(1))

lemma deq_SomeD:
  "wf q \<Longrightarrow> deq q = (Some x, q') \<Longrightarrow> contents q = x # contents q' \<and> wf q'"
  by (metis contents_deq deq_None_iff fst_conv fst_deq hd_Cons_tl option.distinct(1)
      option.inject snd_conv wf_deq)

text \<open>A run of arrivals: the queue takes the longest prefix that fits.\<close>

lemma contents_enq_list:
  "wf q \<Longrightarrow> wf (fold enq xs q) \<and>
     contents (fold enq xs q) = contents q @ take (cap - length (contents q)) xs"
proof (induction xs arbitrary: q)
  case Nil
  then show ?case by simp
next
  case (Cons x xs)
  have room: "length (contents q) < cap \<or> cap - length (contents q) = 0"
    by linarith
  from Cons.IH [OF wf_enq [OF Cons.prems, of x]] room show ?case
    by (auto simp: contents_enq [OF Cons.prems] take_Cons' dest: Suc_diff_Suc)
qed

text \<open>Taking \<open>n\<close> bytes out yields the first \<open>n\<close> that went in.\<close>

primrec deqs :: "nat \<Rightarrow> 'q \<Rightarrow> 'a option list \<times> 'q" where
  "deqs 0 q = ([], q)"
| "deqs (Suc n) q =
     (let (x, q') = deq q; (xs, q'') = deqs n q' in (x # xs, q''))"

lemma deqs_contents:
  "wf q \<Longrightarrow> n \<le> length (contents q) \<Longrightarrow>
     fst (deqs n q) = map Some (take n (contents q)) \<and>
     contents (snd (deqs n q)) = drop n (contents q) \<and> wf (snd (deqs n q))"
proof (induction n arbitrary: q)
  case 0
  then show ?case by simp
next
  case (Suc n)
  then have ne: "contents q \<noteq> []" by auto
  obtain x q' where d: "deq q = (x, q')" by (cases "deq q")
  have x: "x = Some (hd (contents q))" using fst_deq [OF Suc.prems(1) ne] d by simp
  have c: "contents q' = tl (contents q)" using contents_deq [OF Suc.prems(1)] d by simp
  have w: "wf q'" using wf_deq [OF Suc.prems(1)] d by simp
  have len: "n \<le> length (contents q')" using Suc.prems(2) c by simp
  show ?case
    using Suc.IH [OF w len] d x c ne
    by (cases "contents q") (auto simp: split_beta)
qed

lemma fifo_roundtrip:
  assumes "wf q" "contents q = []" "length xs \<le> cap"
  shows "fst (deqs (length xs) (fold enq xs q)) = map Some xs"
  using contents_enq_list [OF assms(1), of xs] deqs_contents [of "fold enq xs q" "length xs"]
    assms(2,3) by simp

end

section \<open>The pool of elements implements the contract\<close>

text \<open>
  The invariant: every element of the array is in exactly one of the two queues.
\<close>

definition kq_wf :: "key_queue \<Rightarrow> bool" where
  "kq_wf q \<longleftrightarrow> length (keyboardQueueAlloc q) = kKeyboardQueueSize \<and>
     distinct (keyboardQueue q @ keyboardQueueUnused q) \<and>
     set (keyboardQueue q @ keyboardQueueUnused q) = {0..<kKeyboardQueueSize}"

definition kq_contents :: "key_queue \<Rightarrow> u8 list" where
  "kq_contents q = map (\<lambda>e. keyboardQueueAlloc q ! e) (keyboardQueue q)"

lemma kq_wf_length:
  assumes "kq_wf q"
  shows "length (keyboardQueue q) + length (keyboardQueueUnused q) = kKeyboardQueueSize"
proof -
  have "card (set (keyboardQueue q @ keyboardQueueUnused q)) =
      length (keyboardQueue q @ keyboardQueueUnused q)"
    using assms unfolding kq_wf_def by (intro distinct_card) blast
  then show ?thesis using assms by (simp add: kq_wf_def)
qed

lemma kq_full_iff:
  "kq_wf q \<Longrightarrow> length (keyboardQueue q) < kKeyboardQueueSize \<longleftrightarrow> keyboardQueueUnused q \<noteq> []"
  using kq_wf_length [of q] by (cases "keyboardQueueUnused q") auto

lemma fold_snoc_unused:
  "fold (\<lambda>index q. q\<lparr>keyboardQueueUnused := keyboardQueueUnused q @ [index]\<rparr>) is q =
     q\<lparr>keyboardQueueUnused := keyboardQueueUnused q @ is\<rparr>"
  by (induction "is" arbitrary: q) auto

lemma start_keyboardQueue_eq:
  "start_keyboardQueue ds init_keyboardQueue =
     \<lparr>keyboardQueueAlloc = ds, keyboardQueue = [], keyboardQueueUnused = [0..<kKeyboardQueueSize]\<rparr>"
  by (simp only: start_keyboardQueue_def fold_snoc_unused init_keyboardQueue_def
      key_queue.simps append.simps)

lemma start_keyboardQueue_wf:
  "length ds = kKeyboardQueueSize \<Longrightarrow> kq_wf (start_keyboardQueue ds init_keyboardQueue)"
  unfolding start_keyboardQueue_eq kq_wf_def by simp

lemma enqueue_cases:
  assumes "kq_wf q"
  obtains (full) "keyboardQueueUnused q = []" "enqueueKeyboardData x q = q"
  | (room) e es where "keyboardQueueUnused q = e # es"
      "enqueueKeyboardData x q = q\<lparr>keyboardQueueUnused := es,
         keyboardQueueAlloc := (keyboardQueueAlloc q)[e := x],
         keyboardQueue := keyboardQueue q @ [e]\<rparr>"
      "e < length (keyboardQueueAlloc q)" "e \<notin> set (keyboardQueue q)"
proof (cases "keyboardQueueUnused q")
  case Nil
  then show ?thesis using full by (simp add: enqueueKeyboardData_def)
next
  case (Cons e es)
  moreover have "e \<in> {0..<kKeyboardQueueSize}"
    using assms Cons unfolding kq_wf_def by auto
  ultimately show ?thesis
    using room [of e es] assms by (auto simp: enqueueKeyboardData_def kq_wf_def)
qed

lemma kq_wf_enqueue: "kq_wf q \<Longrightarrow> kq_wf (enqueueKeyboardData x q)"
  by (cases rule: enqueue_cases [of q x], assumption) (auto simp: kq_wf_def)

lemma kq_wf_dequeue: "kq_wf q \<Longrightarrow> kq_wf (snd (dequeueKeyboardData q))"
  by (auto simp: dequeueKeyboardData_def kq_wf_def split: list.splits)

lemma kq_contents_enqueue:
  assumes "kq_wf q"
  shows "kq_contents (enqueueKeyboardData x q) =
    (if length (kq_contents q) < kKeyboardQueueSize then kq_contents q @ [x] else kq_contents q)"
  using assms
proof (cases rule: enqueue_cases [where x = x])
  case full
  then show ?thesis using kq_full_iff [OF assms] by (simp add: kq_contents_def)
next
  case (room e es)
  then have "length (keyboardQueue q) < kKeyboardQueueSize"
    using kq_full_iff [OF assms] by simp
  then show ?thesis
    using room by (simp add: kq_contents_def map_nth_update_notin)
qed

lemma kq_contents_dequeue:
  "dequeueKeyboardData q =
     (case kq_contents q of [] \<Rightarrow> (None, q)
      | x # xs \<Rightarrow> (Some x, snd (dequeueKeyboardData q)))"
  "kq_contents (snd (dequeueKeyboardData q)) = tl (kq_contents q)"
  by (auto simp: dequeueKeyboardData_def kq_contents_def split: list.splits)

interpretation kq: bounded_fifo enqueueKeyboardData dequeueKeyboardData kq_contents kq_wf
  kKeyboardQueueSize
proof (unfold_locales, goal_cases)
  case (1 q x)
  then show ?case by (rule kq_wf_enqueue)
next
  case (2 q)
  then show ?case by (rule kq_wf_dequeue)
next
  case (3 q x)
  then show ?case by (rule kq_contents_enqueue)
next
  case (4 q)
  then show ?case by (subst kq_contents_dequeue(1)) simp
next
  case (5 q)
  then show ?case by (subst kq_contents_dequeue(1)) (auto split: list.splits)
next
  case (6 q)
  then show ?case by (simp add: kq_contents_dequeue(2))
next
  case (7 q)
  then show ?case using kq_wf_length [of q] by (simp add: kq_contents_def)
qed

end
