(* ===== verification/Ps2Device.thy ===== *)
theory Ps2Device
  imports Ps2Prelude
begin

text \<open>
  The vocabulary of \<open>ApplePS2Device.h\<close> and \<open>ApplePS2Controller.h\<close>: ports, status and
  command-byte bits, commands, special scan codes, and the request structure the drivers
  fill in and the controller executes.
\<close>

section \<open>Ports and bits\<close>

abbreviation (input) kDataPort :: u16 where "kDataPort \<equiv> 0x60"
abbreviation (input) kCommandPort :: u16 where "kCommandPort \<equiv> 0x64"

abbreviation (input) kOutputReady :: u8 where "kOutputReady \<equiv> 0x01"
abbreviation (input) kInputBusy :: u8 where "kInputBusy \<equiv> 0x02"
abbreviation (input) kMouseData :: u8 where "kMouseData \<equiv> 0x20"

abbreviation (input) kCB_EnableKeyboardIRQ :: u8 where "kCB_EnableKeyboardIRQ \<equiv> 0x01"
abbreviation (input) kCB_EnableMouseIRQ :: u8 where "kCB_EnableMouseIRQ \<equiv> 0x02"
abbreviation (input) kCB_DisableKeyboardClock :: u8 where "kCB_DisableKeyboardClock \<equiv> 0x10"
abbreviation (input) kCB_DisableMouseClock :: u8 where "kCB_DisableMouseClock \<equiv> 0x20"
abbreviation (input) kCB_TranslateMode :: u8 where "kCB_TranslateMode \<equiv> 0x40"

abbreviation (input) kLED_NumLock :: u8 where "kLED_NumLock \<equiv> 0x02"
abbreviation (input) kLED_CapsLock :: u8 where "kLED_CapsLock \<equiv> 0x04"

section \<open>Commands and scan codes\<close>

abbreviation (input) kDP_SetMouseScaling1To1 :: u8 where "kDP_SetMouseScaling1To1 \<equiv> 0xE6"
abbreviation (input) kDP_SetMouseScaling2To1 :: u8 where "kDP_SetMouseScaling2To1 \<equiv> 0xE7"
abbreviation (input) kDP_SetMouseResolution :: u8 where "kDP_SetMouseResolution \<equiv> 0xE8"
abbreviation (input) kDP_GetMouseInformation :: u8 where "kDP_GetMouseInformation \<equiv> 0xE9"
abbreviation (input) kDP_SetMouseStreamMode :: u8 where "kDP_SetMouseStreamMode \<equiv> 0xEA"
abbreviation (input) kDP_SetKeyboardLEDs :: u8 where "kDP_SetKeyboardLEDs \<equiv> 0xED"
abbreviation (input) kDP_TestKeyboardEcho :: u8 where "kDP_TestKeyboardEcho \<equiv> 0xEE"
abbreviation (input) kDP_GetId :: u8 where "kDP_GetId \<equiv> 0xF2"
abbreviation (input) kDP_SetMouseSampleRate :: u8 where "kDP_SetMouseSampleRate \<equiv> 0xF3"
abbreviation (input) kDP_Enable :: u8 where "kDP_Enable \<equiv> 0xF4"
abbreviation (input) kDP_SetDefaultsAndDisable :: u8 where "kDP_SetDefaultsAndDisable \<equiv> 0xF5"
abbreviation (input) kDP_SetDefaults :: u8 where "kDP_SetDefaults \<equiv> 0xF6"

abbreviation (input) kCP_GetCommandByte :: u8 where "kCP_GetCommandByte \<equiv> 0x20"
abbreviation (input) kCP_SetCommandByte :: u8 where "kCP_SetCommandByte \<equiv> 0x60"
abbreviation (input) kCP_DisableMouseClock :: u8 where "kCP_DisableMouseClock \<equiv> 0xA7"
abbreviation (input) kCP_EnableMouseClock :: u8 where "kCP_EnableMouseClock \<equiv> 0xA8"
abbreviation (input) kCP_TransmitToMouse :: u8 where "kCP_TransmitToMouse \<equiv> 0xD4"

abbreviation (input) kSC_Acknowledge :: u8 where "kSC_Acknowledge \<equiv> 0xFA"
abbreviation (input) kSC_Extend :: u8 where "kSC_Extend \<equiv> 0xE0"
abbreviation (input) kSC_Pause :: u8 where "kSC_Pause \<equiv> 0xE1"
abbreviation (input) kSC_Resend :: u8 where "kSC_Resend \<equiv> 0xFE"
abbreviation (input) kSC_UpBit :: u8 where "kSC_UpBit \<equiv> 0x80"
abbreviation (input) kSC_Alt :: u8 where "kSC_Alt \<equiv> 0x38"
abbreviation (input) kSC_Ctrl :: u8 where "kSC_Ctrl \<equiv> 0x1D"
abbreviation (input) kSC_ShiftLeft :: u8 where "kSC_ShiftLeft \<equiv> 0x2A"
abbreviation (input) kSC_ShiftRight :: u8 where "kSC_ShiftRight \<equiv> 0x36"
abbreviation (input) kSC_WindowsLeft :: u8 where "kSC_WindowsLeft \<equiv> 0x5B"
abbreviation (input) kSC_WindowsRight :: u8 where "kSC_WindowsRight \<equiv> 0x5C"
abbreviation (input) kSC_Delete :: u8 where "kSC_Delete \<equiv> 0x53"

section \<open>Device types and requests\<close>

datatype PS2DeviceType = kDT_Keyboard | kDT_Mouse

primrec other_device :: "PS2DeviceType \<Rightarrow> PS2DeviceType" where
  "other_device kDT_Keyboard = kDT_Mouse"
| "other_device kDT_Mouse = kDT_Keyboard"

datatype PS2CommandEnum =
    kPS2C_ReadDataPort
  | kPS2C_ReadDataPortAndCompare
  | kPS2C_WriteDataPort
  | kPS2C_WriteCommandPort
  | kPS2C_SendMouseCommandAndCompareAck

record PS2Command =
  command :: PS2CommandEnum
  inOrOut :: u8

text \<open>
  A request. Its completion is \<open>None\<close> when no completion target and action were supplied
  (the request is then freed by the controller). The only completion action of the program
  is \<open>submitRequestAndBlockCompletion\<close>, so a supplied completion is its parameter: 0, or
  the \<open>IOSyncer\<close> of the blocked thread.
\<close>

record PS2Request =
  commandsCount :: u8
  commands :: "PS2Command list"
  completion :: "nat option"

abbreviation (input) kMaxCommands :: nat where "kMaxCommands \<equiv> 20"

text \<open>A request as \<open>allocateRequest\<close> hands it out: zeroed.\<close>

definition zeroed_request :: PS2Request where
  "zeroed_request = \<lparr>commandsCount = 0,
     commands = replicate kMaxCommands \<lparr>command = kPS2C_ReadDataPort, inOrOut = 0\<rparr>,
     completion = None\<rparr>"

text \<open>
  The drivers' idiom: assign the first commands one after the other, then the count. The
  remaining commands keep what they held.
\<close>

definition set_commands :: "(PS2CommandEnum \<times> u8) list \<Rightarrow> PS2Request \<Rightarrow> PS2Request" where
  "set_commands cs r = r\<lparr>
     commands := map (\<lambda>(c, b). \<lparr>command = c, inOrOut = b\<rparr>) cs @ drop (length cs) (commands r),
     commandsCount := of_nat (length cs)\<rparr>"

definition request_wf :: "PS2Request \<Rightarrow> bool" where
  "request_wf r \<longleftrightarrow> length (commands r) = kMaxCommands \<and> unat (commandsCount r) \<le> kMaxCommands"

lemma other_device_simps [simp]:
  "other_device d \<noteq> d" "d \<noteq> other_device d" "other_device (other_device d) = d"
  "other_device d = kDT_Mouse \<longleftrightarrow> d = kDT_Keyboard"
  "other_device d = kDT_Keyboard \<longleftrightarrow> d = kDT_Mouse"
  by (cases d; simp)+

lemma request_wf_zeroed [simp]: "request_wf zeroed_request"
  by (simp add: request_wf_def zeroed_request_def)

lemma request_wf_set_commands:
  assumes "request_wf r" "length cs \<le> kMaxCommands"
  shows "request_wf (set_commands cs r)"
proof -
  have "unat (of_nat (length cs) :: u8) = length cs"
    using assms(2) by (simp add: unat_of_nat)
  with assms show ?thesis by (simp add: request_wf_def set_commands_def)
qed

lemma unat_commandsCount_set_commands:
  "length cs \<le> kMaxCommands \<Longrightarrow> unat (commandsCount (set_commands cs r)) = length cs"
  by (simp add: set_commands_def unat_of_nat)

end
