(* ===== verification/Ps2Controller.thy ===== *)
theory Ps2Controller
  imports KeyQueue Ps2Device
begin

text \<open>
  The state of \<open>ApplePS2Controller\<close> and its port routines: waiting for the input buffer,
  writing the command and data ports, delivering a byte to the driver that owns it, and the
  two versions of \<open>readDataPort\<close>.
\<close>

section \<open>State\<close>

text \<open>
  Object pointers and function pointers are numbers, 0 for a null pointer. Everything the
  controller calls on other objects (the provider, the work loop, an event source, a
  driver's registered action, the log) is recorded in \<open>calls\<close>, oldest first.
\<close>

type_synonym obj = nat
type_synonym action = nat

datatype event_source = SourceKeyboard | SourceMouse | SourceQueue

datatype controller_call =
    RegisterInterrupt nat
  | UnregisterInterrupt nat
  | EnableInterrupt nat
  | DisableInterrupt nat
  | AddEventSource event_source
  | RemoveEventSource event_source
  | InterruptOccurred event_source
  | InterruptAction PS2DeviceType u8
  | PowerControlAction PS2DeviceType u32
  | SyncerSignal nat
  | LogTimedOut PS2DeviceType
  | LogBadPowerState u32
  | Debugger
  | AcknowledgeSetPowerState

text \<open>
  The record is extensible: the drivers add their own state to it. \<open>hw\<close> is the state of
  the hardware behind the two ports, of a type the model leaves open. \<open>inGate\<close> says whether
  the current thread holds the work loop's gate, \<open>refs\<close> counts the retains less the releases
  of each object, \<open>selfRefs\<close> those of the controller itself, \<open>liveRequests\<close> the requests allocated
  and not freed; \<open>powerChangeThreadCall\<close> is the power state a pending thread call carries.
\<close>

record 'h ctl =
  hw :: 'h
  kq :: key_queue
  debuggingEnabled :: bool
  extendedState :: bool
  modifierState :: u16
  inGate :: bool
  requestQueue :: "PS2Request list"
  liveRequests :: int
  interruptTargetKeyboard :: obj
  interruptTargetMouse :: obj
  interruptActionKeyboard :: action
  interruptActionMouse :: action
  interruptInstalledKeyboard :: bool
  interruptInstalledMouse :: bool
  powerControlTargetKeyboard :: obj
  powerControlTargetMouse :: obj
  powerControlActionKeyboard :: action
  powerControlActionMouse :: action
  powerControlInstalledKeyboard :: bool
  powerControlInstalledMouse :: bool
  currentPowerState :: u32
  hardwareOffline :: bool
  powerChangeThreadCall :: "u32 option"
  selfRefs :: int
  refs :: "obj \<Rightarrow> int"
  calls :: "controller_call list"

text \<open>
  The state after \<open>init\<close>. The fields that \<open>init\<close> does not assign are zero, as IOKit hands
  out zeroed objects; \<open>h\<close> is the hardware as the driver finds it.
\<close>

definition init_controller :: "'h \<Rightarrow> 'h ctl" where
  "init_controller h = \<lparr>hw = h, kq = init_keyboardQueue, debuggingEnabled = False,
     extendedState = False, modifierState = 0, inGate = False,
     requestQueue = [], liveRequests = 0,
     interruptTargetKeyboard = 0, interruptTargetMouse = 0,
     interruptActionKeyboard = 0, interruptActionMouse = 0,
     interruptInstalledKeyboard = False, interruptInstalledMouse = False,
     powerControlTargetKeyboard = 0, powerControlTargetMouse = 0,
     powerControlActionKeyboard = 0, powerControlActionMouse = 0,
     powerControlInstalledKeyboard = False, powerControlInstalledMouse = False,
     currentPowerState = 2, hardwareOffline = False,
     powerChangeThreadCall = None, selfRefs = 0,
     refs = (\<lambda>_. 0), calls = []\<rparr>"

lemma init_controller_simps [simp]:
  "hw (init_controller h) = h" "kq (init_controller h) = init_keyboardQueue"
  "extendedState (init_controller h) = False" "modifierState (init_controller h) = 0"
  "requestQueue (init_controller h) = []" "calls (init_controller h) = []"
  "hardwareOffline (init_controller h) = False" "currentPowerState (init_controller h) = 2"
  "powerChangeThreadCall (init_controller h) = None" "selfRefs (init_controller h) = 0"
  "inGate (init_controller h) = False" "refs (init_controller h) = (\<lambda>_. 0)"
  "interruptInstalledKeyboard (init_controller h) = False"
  "interruptInstalledMouse (init_controller h) = False"
  "powerControlInstalledKeyboard (init_controller h) = False"
  "powerControlInstalledMouse (init_controller h) = False"
  by (simp_all add: init_controller_def)

text \<open>
  What the controller is linked with: the two port instructions, the functions behind the
  registered action pointers (\<open>None\<close>: the call does not return), and the kernel debugger.
\<close>

record ('h, 'z) env =
  inb :: "u16 \<Rightarrow> 'h \<Rightarrow> u8 \<times> 'h"
  outb :: "u16 \<Rightarrow> u8 \<Rightarrow> 'h \<Rightarrow> 'h"
  runInterruptAction ::
    "action \<Rightarrow> obj \<Rightarrow> u8 \<Rightarrow> ('h, 'z) ctl_scheme \<Rightarrow> ('h, 'z) ctl_scheme option"
  runPowerControlAction ::
    "action \<Rightarrow> obj \<Rightarrow> u32 \<Rightarrow> ('h, 'z) ctl_scheme \<Rightarrow> ('h, 'z) ctl_scheme option"
  runDebugger :: "('h, 'z) ctl_scheme \<Rightarrow> ('h, 'z) ctl_scheme"

definition log_call :: "controller_call \<Rightarrow> ('h, 'z) ctl_scheme \<Rightarrow> ('h, 'z) ctl_scheme" where
  "log_call c s = s\<lparr>calls := calls s @ [c]\<rparr>"

section \<open>Port access\<close>

definition port_in ::
  "('h, 'z) env \<Rightarrow> u16 \<Rightarrow> ('h, 'z) ctl_scheme \<Rightarrow> u8 \<times> ('h, 'z) ctl_scheme" where
  "port_in E p s = (case inb E p (hw s) of (b, h) \<Rightarrow> (b, s\<lparr>hw := h\<rparr>))"

definition port_out ::
  "('h, 'z) env \<Rightarrow> u16 \<Rightarrow> u8 \<Rightarrow> ('h, 'z) ctl_scheme \<Rightarrow> ('h, 'z) ctl_scheme" where
  "port_out E p b s = s\<lparr>hw := outb E p b (hw s)\<rparr>"

text \<open>
  \<open>while (inb(kCommandPort) & kInputBusy) IODelay(kDataDelay);\<close> has no time-out: when the
  controller stays busy it does not return.
\<close>

partial_function (option) wait_input ::
  "('h, 'z) env \<Rightarrow> ('h, 'z) ctl_scheme \<Rightarrow> ('h, 'z) ctl_scheme option" where
  "wait_input E s =
     (case port_in E kCommandPort s of (st, s') \<Rightarrow>
        if any_bit st kInputBusy then wait_input E s' else Some s')"

definition writeDataPort ::
  "('h, 'z) env \<Rightarrow> u8 \<Rightarrow> ('h, 'z) ctl_scheme \<Rightarrow> ('h, 'z) ctl_scheme option" where
  "writeDataPort E byte s = do {
     s \<leftarrow> wait_input E s;
     Some (port_out E kDataPort byte s)
   }"

definition writeCommandPort ::
  "('h, 'z) env \<Rightarrow> u8 \<Rightarrow> ('h, 'z) ctl_scheme \<Rightarrow> ('h, 'z) ctl_scheme option" where
  "writeCommandPort E byte s = do {
     s \<leftarrow> wait_input E s;
     Some (port_out E kCommandPort byte s)
   }"

section \<open>Delivering data to a driver\<close>

definition dispatchDriverInterrupt ::
  "('h, 'z) env \<Rightarrow> PS2DeviceType \<Rightarrow> u8 \<Rightarrow> ('h, 'z) ctl_scheme \<Rightarrow> ('h, 'z) ctl_scheme option" where
  "dispatchDriverInterrupt E deviceType data s =
     (if deviceType = kDT_Mouse
      then if interruptInstalledMouse s
           then runInterruptAction E (interruptActionMouse s) (interruptTargetMouse s) data
                  (log_call (InterruptAction kDT_Mouse data) s)
           else Some s
      else if interruptInstalledKeyboard s
           then runInterruptAction E (interruptActionKeyboard s) (interruptTargetKeyboard s) data
                  (log_call (InterruptAction kDT_Keyboard data) s)
           else Some s)"

section \<open>Reading the data port\<close>

text \<open>
  The wait for the output buffer. The counter is the source's \<open>timeoutCounter\<close>; it is
  also the recursion's measure.
\<close>

fun poll_output ::
  "('h, 'z) env \<Rightarrow> nat \<Rightarrow> u8 \<Rightarrow> ('h, 'z) ctl_scheme \<Rightarrow> nat \<times> u8 \<times> ('h, 'z) ctl_scheme" where
  "poll_output E 0 status s = (0, status, s)"
| "poll_output E (Suc n) status s =
     (case port_in E kCommandPort s of (status', s') \<Rightarrow>
        if any_bit status' kOutputReady then (Suc n, status', s')
        else poll_output E n status' s')"

text \<open>
  One round of the reading loop, the same in both versions of \<open>readDataPort\<close>: for the
  keyboard the internal queue comes first; then the wait, the time-out, the read, and the
  decision whether the byte arrived on the requested stream.
\<close>

datatype fetched = TimedOut | Fetched bool u8

definition fetch_byte ::
  "('h, 'z) env \<Rightarrow> PS2DeviceType \<Rightarrow> nat \<Rightarrow> ('h, 'z) ctl_scheme
     \<Rightarrow> nat \<times> fetched \<times> ('h, 'z) ctl_scheme" where
  "fetch_byte E deviceType timeoutCounter s =
     (case (if deviceType = kDT_Keyboard then dequeueKeyboardData (kq s) else (None, kq s)) of
        (Some readByte, q) \<Rightarrow> (timeoutCounter, Fetched True readByte, s\<lparr>kq := q\<rparr>)
      | (None, _) \<Rightarrow>
          (case poll_output E timeoutCounter 0 s of (n, status, s1) \<Rightarrow>
             if n = 0 then (n, TimedOut, s1)
             else (case port_in E kDataPort s1 of (readByte, s2) \<Rightarrow>
               (n, Fetched (if any_bit status kMouseData then deviceType = kDT_Mouse
                            else deviceType = kDT_Keyboard) readByte, s2))))"

partial_function (option) readDataPort_loop ::
  "('h, 'z) env \<Rightarrow> PS2DeviceType \<Rightarrow> nat \<Rightarrow> ('h, 'z) ctl_scheme
     \<Rightarrow> (u8 \<times> ('h, 'z) ctl_scheme) option" where
  "readDataPort_loop E deviceType n s =
     (case fetch_byte E deviceType n s of (n', r, s1) \<Rightarrow>
        (case r of
           TimedOut \<Rightarrow> Some (0, log_call (LogTimedOut deviceType) s1)
         | Fetched requestedStream readByte \<Rightarrow>
             if requestedStream then Some (readByte, s1)
             else Option.bind (dispatchDriverInterrupt E (other_device deviceType) readByte s1)
                    (\<lambda>s2. readDataPort_loop E deviceType n' s2)))"

abbreviation (input) readTimeout :: nat where "readTimeout \<equiv> 10000"

definition readDataPort ::
  "('h, 'z) env \<Rightarrow> PS2DeviceType \<Rightarrow> ('h, 'z) ctl_scheme
     \<Rightarrow> (u8 \<times> ('h, 'z) ctl_scheme) option" where
  "readDataPort E deviceType s = readDataPort_loop E deviceType readTimeout s"

text \<open>
  The version that expects a byte: a first byte of the requested stream that differs is
  held back (\<open>held\<close>, the source's \<open>firstByteHeld\<close> and \<open>firstByte\<close>) and the device gets a
  second chance.
\<close>

partial_function (option) readDataPort_expect_loop ::
  "('h, 'z) env \<Rightarrow> PS2DeviceType \<Rightarrow> u8 \<Rightarrow> u8 option \<Rightarrow> nat \<Rightarrow> ('h, 'z) ctl_scheme
     \<Rightarrow> (u8 \<times> ('h, 'z) ctl_scheme) option" where
  "readDataPort_expect_loop E deviceType expectedByte held n s =
     (case fetch_byte E deviceType n s of (n', r, s1) \<Rightarrow>
        (case r of
           TimedOut \<Rightarrow>
             (case held of
                Some firstByte \<Rightarrow> Some (firstByte, s1)
              | None \<Rightarrow> Some (0, log_call (LogTimedOut deviceType) s1))
         | Fetched requestedStream readByte \<Rightarrow>
             if requestedStream then
               (if readByte = expectedByte then
                  (case held of
                     None \<Rightarrow> Some (readByte, s1)
                   | Some firstByte \<Rightarrow>
                       Option.bind (dispatchDriverInterrupt E deviceType firstByte s1)
                         (\<lambda>s2. Some (readByte, s2)))
                else
                  (case held of
                     None \<Rightarrow>
                       readDataPort_expect_loop E deviceType expectedByte (Some readByte) n' s1
                   | Some firstByte \<Rightarrow>
                       Option.bind (dispatchDriverInterrupt E deviceType readByte s1)
                         (\<lambda>s2. Some (firstByte, s2))))
             else Option.bind (dispatchDriverInterrupt E (other_device deviceType) readByte s1)
                    (\<lambda>s2. readDataPort_expect_loop E deviceType expectedByte held n' s2)))"

definition readDataPort_expect ::
  "('h, 'z) env \<Rightarrow> PS2DeviceType \<Rightarrow> u8 \<Rightarrow> ('h, 'z) ctl_scheme
     \<Rightarrow> (u8 \<times> ('h, 'z) ctl_scheme) option" where
  "readDataPort_expect E deviceType expectedByte s =
     readDataPort_expect_loop E deviceType expectedByte None readTimeout s"

end
