(* ===== verification/Ps2Reading.thy ===== *)
theory Ps2Reading
  imports Ps2Controller "HOL-Library.Multiset"
begin

text \<open>
  What the two \<open>readDataPort\<close> routines return, which bytes they hand to which driver and
  when they return at all, for hardware that keeps the output-buffer protocol and drivers
  whose interrupt actions do not re-enter the controller.
\<close>

section \<open>The hardware and driver hypotheses\<close>

text \<open>
  The output-buffer protocol of the keyboard controller, relative to the bytes it still has
  to deliver: reading the status port changes nothing, its output-ready bit is set exactly
  when a byte waits, its mouse bit says where the waiting byte comes from, and reading the
  data port takes that byte.
\<close>

definition output_buffer_law ::
  "('h, 'z) env \<Rightarrow> ('h \<Rightarrow> (PS2DeviceType \<times> u8) list) \<Rightarrow> bool" where
  "output_buffer_law E pend \<longleftrightarrow>
     (\<forall>h. (case inb E kCommandPort h of (st, h') \<Rightarrow>
             pend h' = pend h \<and>
             (any_bit st kOutputReady \<longleftrightarrow> pend h \<noteq> []) \<and>
             (pend h \<noteq> [] \<longrightarrow> (any_bit st kMouseData \<longleftrightarrow> fst (hd (pend h)) = kDT_Mouse))) \<and>
          (pend h \<noteq> [] \<longrightarrow>
             fst (inb E kDataPort h) = snd (hd (pend h)) \<and>
             pend (snd (inb E kDataPort h)) = tl (pend h)))"

text \<open>A passive action returns and leaves every field of the controller alone.\<close>

definition passive_actions :: "('h, 'z) env \<Rightarrow> bool" where
  "passive_actions E \<longleftrightarrow>
     (\<forall>a t b s. \<exists>s'. runInterruptAction E a t b s = Some s' \<and> ctl.truncate s' = ctl.truncate s)"

primrec interruptInstalled :: "('h, 'z) ctl_scheme \<Rightarrow> PS2DeviceType \<Rightarrow> bool" where
  "interruptInstalled s kDT_Keyboard = interruptInstalledKeyboard s"
| "interruptInstalled s kDT_Mouse = interruptInstalledMouse s"

text \<open>The calls by which bytes of a device reach its driver.\<close>

definition deliveries :: "('h, 'z) ctl_scheme \<Rightarrow> PS2DeviceType \<Rightarrow> u8 list \<Rightarrow> controller_call list" where
  "deliveries s d xs = (if interruptInstalled s d then map (InterruptAction d) xs else [])"

lemma deliveries_Nil [simp]: "deliveries s d [] = []"
  by (simp add: deliveries_def)

lemma deliveries_append: "deliveries s d (xs @ ys) = deliveries s d xs @ deliveries s d ys"
  by (simp add: deliveries_def)

lemma deliveries_Cons: "deliveries s d [x] @ deliveries s d xs = deliveries s d (x # xs)"
  by (simp add: deliveries_def)

text \<open>
  The frame: \<open>s'\<close> is \<open>s\<close> with hardware state \<open>h\<close> and the calls \<open>cs\<close> added; only the drivers'
  own fields may differ besides.
\<close>

definition advanced ::
  "('h, 'z) ctl_scheme \<Rightarrow> 'h \<Rightarrow> controller_call list \<Rightarrow> ('h, 'z) ctl_scheme \<Rightarrow> bool" where
  "advanced s h cs s' \<longleftrightarrow> ctl.truncate s' = (ctl.truncate s)\<lparr>hw := h, calls := calls s @ cs\<rparr>"

lemma advanced_fields:
  assumes "advanced s h cs s'"
  shows "hw s' = h" "calls s' = calls s @ cs" "kq s' = kq s"
    "interruptInstalled s' d = interruptInstalled s d" "deliveries s' d xs = deliveries s d xs"
    "requestQueue s' = requestQueue s" "hardwareOffline s' = hardwareOffline s"
  using assms by (cases d; simp add: advanced_def ctl.truncate_def deliveries_def)+

lemma advanced_refl [simp]: "advanced s (hw s) [] s"
  by (simp add: advanced_def ctl.truncate_def)

lemma advanced_hw [simp]: "advanced s h [] (s\<lparr>hw := h\<rparr>)"
  by (simp add: advanced_def ctl.truncate_def)

lemma advanced_from_hw [simp]: "advanced (s\<lparr>hw := h\<rparr>) h' cs s' \<longleftrightarrow> advanced s h' cs s'"
  by (simp add: advanced_def ctl.truncate_def)

lemma advanced_trans:
  "advanced s h cs s' \<Longrightarrow> advanced s' h' cs' s'' \<Longrightarrow> advanced s h' (cs @ cs') s''"
  by (simp add: advanced_def ctl.truncate_def)

lemma advanced_log: "advanced s (hw s) [c] (log_call c s)"
  by (simp add: advanced_def ctl.truncate_def log_call_def)

section \<open>Single steps\<close>

lemma dispatch_passive:
  assumes "passive_actions E"
  obtains s' where "dispatchDriverInterrupt E d x s = Some s'"
    "advanced s (hw s) (deliveries s d [x]) s'"
proof (cases "interruptInstalled s d")
  case False
  then have "dispatchDriverInterrupt E d x s = Some s"
    by (cases d) (auto simp: dispatchDriverInterrupt_def)
  with False show ?thesis using that by (simp add: deliveries_def)
next
  case True
  define a t where "a = (if d = kDT_Mouse then interruptActionMouse s else interruptActionKeyboard s)"
    and "t = (if d = kDT_Mouse then interruptTargetMouse s else interruptTargetKeyboard s)"
  from assms obtain s' where
    s': "runInterruptAction E a t x (log_call (InterruptAction d x) s) = Some s'"
      "ctl.truncate s' = ctl.truncate (log_call (InterruptAction d x) s)"
    unfolding passive_actions_def by blast
  have "dispatchDriverInterrupt E d x s = Some s'"
    using True s'(1) by (cases d) (simp_all add: dispatchDriverInterrupt_def a_def t_def)
  moreover have "advanced s (hw s) (deliveries s d [x]) s'"
    using s'(2) True by (simp add: advanced_def deliveries_def ctl.truncate_def log_call_def)
  ultimately show ?thesis using that by blast
qed

lemma dispatch_passive_hw:
  assumes "passive_actions E"
  obtains s' where "dispatchDriverInterrupt E d x (s\<lparr>hw := h\<rparr>) = Some s'"
    "advanced s h (deliveries s d [x]) s'"
proof -
  have eq: "deliveries (s\<lparr>hw := h\<rparr>) d [x] = deliveries s d [x]"
    by (rule advanced_fields(5) [OF advanced_hw])
  obtain s' where s': "dispatchDriverInterrupt E d x (s\<lparr>hw := h\<rparr>) = Some s'"
    "advanced (s\<lparr>hw := h\<rparr>) (hw (s\<lparr>hw := h\<rparr>)) (deliveries (s\<lparr>hw := h\<rparr>) d [x]) s'"
    by (rule dispatch_passive [OF assms])
  have "advanced s (hw (s\<lparr>hw := h\<rparr>)) ([] @ deliveries s d [x]) s'"
    using advanced_trans [OF advanced_hw s'(2)] unfolding eq by simp
  then show ?thesis using that s'(1) by simp
qed

lemma poll_pending:
  assumes "output_buffer_law E pend" "pend (hw s) \<noteq> []" "0 < n"
  obtains st h where "poll_output E n st0 s = (n, st, s\<lparr>hw := h\<rparr>)" "pend h = pend (hw s)"
    "any_bit st kMouseData \<longleftrightarrow> fst (hd (pend (hw s))) = kDT_Mouse"
proof -
  obtain st h where i: "inb E kCommandPort (hw s) = (st, h)" by fastforce
  from assms(1,2) i have "pend h = pend (hw s)" "any_bit st kOutputReady"
    "any_bit st kMouseData \<longleftrightarrow> fst (hd (pend (hw s))) = kDT_Mouse"
    unfolding output_buffer_law_def by (auto split: prod.splits)
  moreover from this(2) assms(3) i have "poll_output E n st0 s = (n, st, s\<lparr>hw := h\<rparr>)"
    by (cases n) (auto simp: port_in_def)
  ultimately show ?thesis using that by blast
qed

lemma poll_empty:
  assumes "output_buffer_law E pend" "pend (hw s) = []"
  shows "\<exists>st h. poll_output E n st0 s = (0, st, s\<lparr>hw := h\<rparr>) \<and> pend h = []"
  using assms(2)
proof (induction n arbitrary: st0 s)
  case 0
  have "s\<lparr>hw := hw s\<rparr> = s" by simp
  then show ?case using 0 by (metis poll_output.simps(1))
next
  case (Suc n)
  obtain st h where i: "inb E kCommandPort (hw s) = (st, h)" by fastforce
  from assms(1) Suc.prems i have h: "pend h = []" "\<not> any_bit st kOutputReady"
    unfolding output_buffer_law_def by (auto split: prod.splits)
  from Suc.IH [of "s\<lparr>hw := h\<rparr>" st] h i show ?case by (auto simp: port_in_def)
qed

lemma fetch_pending:
  assumes "output_buffer_law E pend" "pend (hw s) = (d, x) # rest" "0 < n"
    and "dt = kDT_Keyboard \<longrightarrow> keyboardQueue (kq s) = []"
  obtains h where "fetch_byte E dt n s = (n, Fetched (d = dt) x, s\<lparr>hw := h\<rparr>)" "pend h = rest"
proof -
  have noq: "(if dt = kDT_Keyboard then dequeueKeyboardData (kq s) else (None, kq s)) = (None, kq s)"
    using assms(4) by (auto simp: dequeueKeyboardData_def)
  have "pend (hw s) \<noteq> []" using assms(2) by simp
  then obtain st h where p: "poll_output E n 0 s = (n, st, s\<lparr>hw := h\<rparr>)" "pend h = pend (hw s)"
    "any_bit st kMouseData \<longleftrightarrow> d = kDT_Mouse"
    using poll_pending [OF assms(1) _ assms(3), of s 0] assms(2) by (metis fst_conv list.sel(1))
  from assms(1) p(2) assms(2) have i: "fst (inb E kDataPort h) = x" "pend (snd (inb E kDataPort h)) = rest"
    unfolding output_buffer_law_def by auto
  have "(if any_bit st kMouseData then dt = kDT_Mouse else dt = kDT_Keyboard) = (d = dt)"
    using p(3) by (cases d; cases dt; simp)
  then have "fetch_byte E dt n s = (n, Fetched (d = dt) x, s\<lparr>hw := snd (inb E kDataPort h)\<rparr>)"
    using noq p(1) assms(3) i(1) by (simp add: fetch_byte_def port_in_def split_beta)
  then show ?thesis using that i(2) by blast
qed

lemma fetch_empty:
  assumes "output_buffer_law E pend" "pend (hw s) = []"
    and "dt = kDT_Keyboard \<longrightarrow> keyboardQueue (kq s) = []"
  obtains h where "fetch_byte E dt n s = (0, TimedOut, s\<lparr>hw := h\<rparr>)" "pend h = []"
proof -
  have "(if dt = kDT_Keyboard then dequeueKeyboardData (kq s) else (None, kq s)) = (None, kq s)"
    using assms(3) by (auto simp: dequeueKeyboardData_def)
  with poll_empty [OF assms(1,2), of n 0] show ?thesis
    using that by (auto simp: fetch_byte_def)
qed

section \<open>Bytes of the other stream are passed on first\<close>

text \<open>
  Stated once for any loop \<open>F\<close> that, on a byte of the other stream, delivers it and starts
  over; both reading loops are of this kind.
\<close>

lemma skip_other_stream:
  assumes "output_buffer_law E pend" "passive_actions E" "0 < n"
    and loop: "\<And>s x s1 s2. fetch_byte E dt n s = (n, Fetched False x, s1) \<Longrightarrow>
          dispatchDriverInterrupt E (other_device dt) x s1 = Some s2 \<Longrightarrow> F s = F s2"
    and "dt = kDT_Keyboard \<longrightarrow> keyboardQueue (kq s) = []"
    and "pend (hw s) = map (Pair (other_device dt)) xs @ rest"
  shows "\<exists>s'. advanced s (hw s') (deliveries s (other_device dt) xs) s' \<and> pend (hw s') = rest \<and>
           F s = F s'"
  using assms(5,6)
proof (induction xs arbitrary: s)
  case Nil
  then show ?case by (intro exI [of _ s]) simp
next
  case (Cons x xs)
  let ?d = "other_device dt"
  from Cons.prems(2) have p: "pend (hw s) = (?d, x) # map (Pair ?d) xs @ rest" by simp
  obtain h where f: "fetch_byte E dt n s = (n, Fetched False x, s\<lparr>hw := h\<rparr>)"
    "pend h = map (Pair ?d) xs @ rest"
    using fetch_pending [OF assms(1) p assms(3) Cons.prems(1)] by auto
  obtain s2 where d: "dispatchDriverInterrupt E ?d x (s\<lparr>hw := h\<rparr>) = Some s2"
    and a: "advanced s h (deliveries s ?d [x]) s2"
    by (rule dispatch_passive_hw [OF assms(2)])
  note fields = advanced_fields [OF a]
  have "\<exists>s'. advanced s2 (hw s') (deliveries s2 ?d xs) s' \<and> pend (hw s') = rest \<and> F s2 = F s'"
    using Cons.prems(1) f(2) by (intro Cons.IH) (simp_all add: fields)
  then obtain s' where s': "advanced s2 (hw s') (deliveries s ?d xs) s'" "pend (hw s') = rest"
    "F s2 = F s'" by (auto simp: fields)
  have "advanced s (hw s') (deliveries s ?d (x # xs)) s'"
    using advanced_trans [OF a s'(1)] by (simp add: deliveries_Cons)
  with s'(2,3) loop [OF f(1) d] show ?case by auto
qed

lemma readDataPort_loop_again:
  "fetch_byte E dt n s = (n, Fetched False x, s1) \<Longrightarrow>
   dispatchDriverInterrupt E (other_device dt) x s1 = Some s2 \<Longrightarrow>
   readDataPort_loop E dt n s = readDataPort_loop E dt n s2"
  by (subst readDataPort_loop.simps) simp

lemma readDataPort_expect_loop_again:
  "fetch_byte E dt n s = (n, Fetched False x, s1) \<Longrightarrow>
   dispatchDriverInterrupt E (other_device dt) x s1 = Some s2 \<Longrightarrow>
   readDataPort_expect_loop E dt e held n s = readDataPort_expect_loop E dt e held n s2"
  by (subst readDataPort_expect_loop.simps) simp

lemma readTimeout_pos: "0 < readTimeout"
  by simp

lemma readDataPort_loop_skip:
  assumes "output_buffer_law E pend" "passive_actions E" "0 < n"
    and "dt = kDT_Keyboard \<longrightarrow> keyboardQueue (kq s) = []"
    and "pend (hw s) = map (Pair (other_device dt)) xs @ rest"
  obtains s' where "advanced s (hw s') (deliveries s (other_device dt) xs) s'" "pend (hw s') = rest"
    "readDataPort_loop E dt n s = readDataPort_loop E dt n s'"
    "dt = kDT_Keyboard \<longrightarrow> keyboardQueue (kq s') = []"
proof -
  have "\<exists>s'. advanced s (hw s') (deliveries s (other_device dt) xs) s' \<and> pend (hw s') = rest \<and>
      readDataPort_loop E dt n s = readDataPort_loop E dt n s'"
    by (rule skip_other_stream [OF assms(1-3) _ assms(4,5)]) (rule readDataPort_loop_again)
  then obtain s' where s': "advanced s (hw s') (deliveries s (other_device dt) xs) s'"
    "pend (hw s') = rest" "readDataPort_loop E dt n s = readDataPort_loop E dt n s'" by blast
  have "dt = kDT_Keyboard \<longrightarrow> keyboardQueue (kq s') = []"
    using assms(4) advanced_fields(3) [OF s'(1)] by simp
  with s' show ?thesis by (rule that)
qed

lemma readDataPort_expect_loop_skip:
  assumes "output_buffer_law E pend" "passive_actions E" "0 < n"
    and "dt = kDT_Keyboard \<longrightarrow> keyboardQueue (kq s) = []"
    and "pend (hw s) = map (Pair (other_device dt)) xs @ rest"
  obtains s' where "advanced s (hw s') (deliveries s (other_device dt) xs) s'" "pend (hw s') = rest"
    "readDataPort_expect_loop E dt e held n s = readDataPort_expect_loop E dt e held n s'"
    "dt = kDT_Keyboard \<longrightarrow> keyboardQueue (kq s') = []"
proof -
  have "\<exists>s'. advanced s (hw s') (deliveries s (other_device dt) xs) s' \<and> pend (hw s') = rest \<and>
      readDataPort_expect_loop E dt e held n s = readDataPort_expect_loop E dt e held n s'"
    by (rule skip_other_stream [OF assms(1-3) _ assms(4,5)]) (rule readDataPort_expect_loop_again)
  then obtain s' where s': "advanced s (hw s') (deliveries s (other_device dt) xs) s'"
    "pend (hw s') = rest" "readDataPort_expect_loop E dt e held n s = readDataPort_expect_loop E dt e held n s'" by blast
  have "dt = kDT_Keyboard \<longrightarrow> keyboardQueue (kq s') = []"
    using assms(4) advanced_fields(3) [OF s'(1)] by simp
  with s' show ?thesis by (rule that)
qed

section \<open>What readDataPort returns\<close>

text \<open>
  A concrete instance of the hypotheses, used by the closed examples: the hardware is the
  list of bytes it still delivers, and the actions do nothing.
\<close>

definition fifo_env :: "((PS2DeviceType \<times> u8) list, 'z) env" where
  "fifo_env = \<lparr>
     inb = (\<lambda>p h. if p = kCommandPort
              then ((case h of [] \<Rightarrow> 0
                     | (d, _) # _ \<Rightarrow> if d = kDT_Mouse then kOutputReady OR kMouseData else kOutputReady), h)
              else (case h of [] \<Rightarrow> (0, []) | (_, x) # r \<Rightarrow> (x, r))),
     outb = (\<lambda>p b h. h),
     runInterruptAction = (\<lambda>a t b s. Some s),
     runPowerControlAction = (\<lambda>a t w s. Some s),
     runDebugger = (\<lambda>s. s)\<rparr>"

lemma fifo_env_law: "output_buffer_law fifo_env (\<lambda>h. h)"
  by (auto simp: output_buffer_law_def fifo_env_def any_bit_def split: list.splits prod.splits)

lemma fifo_env_passive: "passive_actions fifo_env"
  by (auto simp: passive_actions_def fifo_env_def)

lemma readDataPort_own:
  assumes "output_buffer_law E pend" "passive_actions E"
    and "dt = kDT_Keyboard \<longrightarrow> keyboardQueue (kq s) = []"
    and "pend (hw s) = map (Pair (other_device dt)) xs @ (dt, b) # rest"
  shows "\<exists>s'. readDataPort E dt s = Some (b, s') \<and> pend (hw s') = rest \<and>
           advanced s (hw s') (deliveries s (other_device dt) xs) s'"
proof -
  obtain s1 where s1: "advanced s (hw s1) (deliveries s (other_device dt) xs) s1"
    "pend (hw s1) = (dt, b) # rest"
    "readDataPort_loop E dt readTimeout s = readDataPort_loop E dt readTimeout s1"
    and q: "dt = kDT_Keyboard \<longrightarrow> keyboardQueue (kq s1) = []"
    by (rule readDataPort_loop_skip [OF assms(1,2) readTimeout_pos assms(3,4)])
  obtain h where f: "fetch_byte E dt readTimeout s1 = (readTimeout, Fetched True b, s1\<lparr>hw := h\<rparr>)"
    "pend h = rest"
    using fetch_pending [OF assms(1) s1(2) _ q, of readTimeout] by auto
  have "readDataPort E dt s = Some (b, s1\<lparr>hw := h\<rparr>)"
    unfolding readDataPort_def s1(3) using f(1) by (subst readDataPort_loop.simps) simp
  moreover have "advanced s h (deliveries s (other_device dt) xs) (s1\<lparr>hw := h\<rparr>)"
    using advanced_trans [OF s1(1) advanced_hw] by simp
  ultimately show ?thesis using f(2) by auto
qed

text \<open>For every state of the controller: \<open>readDataPort\<close> returns the first byte of the
  requested stream that the hardware holds. Every byte of the other stream in front of it is
  delivered to the other driver, in order, if one is installed; nothing behind it is read and
  no other field of the controller changes.\<close>

theorem readDataPort_first_own_byte:
  assumes "output_buffer_law E pend" "passive_actions E"
    and "dt = kDT_Keyboard \<longrightarrow> keyboardQueue (kq s) = []"
    and "pend (hw s) = map (Pair (other_device dt)) xs @ (dt, b) # rest"
  shows "\<exists>s'. readDataPort E dt s = Some (b, s') \<and> pend (hw s') = rest \<and>
           advanced s (hw s') (deliveries s (other_device dt) xs) s'"
  by (rule readDataPort_own [OF assms])

theorem readDataPort_first_own_byte_witness:
  "\<exists>s'. readDataPort fifo_env kDT_Mouse
      (init_controller [(kDT_Keyboard, 0x1E), (kDT_Mouse, 0xFA), (kDT_Mouse, 3)]) = Some (0xFA, s') \<and>
    hw s' = [(kDT_Mouse, 3)]"
  using readDataPort_first_own_byte [OF fifo_env_law fifo_env_passive, where dt = kDT_Mouse and
      s = "init_controller [(kDT_Keyboard, 0x1E), (kDT_Mouse, 0xFA), (kDT_Mouse, 3)]" and
      xs = "[0x1E]" and b = "0xFA" and rest = "[(kDT_Mouse, 3)]"]
  by (auto simp: init_controller_def)

lemma readDataPort_none:
  assumes "output_buffer_law E pend" "passive_actions E"
    and "dt = kDT_Keyboard \<longrightarrow> keyboardQueue (kq s) = []"
    and "pend (hw s) = map (Pair (other_device dt)) xs"
  shows "\<exists>s'. readDataPort E dt s = Some (0, s') \<and> pend (hw s') = [] \<and>
           advanced s (hw s') (deliveries s (other_device dt) xs @ [LogTimedOut dt]) s'"
proof -
  have p: "pend (hw s) = map (Pair (other_device dt)) xs @ []" using assms(4) by simp
  obtain s1 where s1: "advanced s (hw s1) (deliveries s (other_device dt) xs) s1"
    "pend (hw s1) = []" "readDataPort_loop E dt readTimeout s = readDataPort_loop E dt readTimeout s1"
    and q: "dt = kDT_Keyboard \<longrightarrow> keyboardQueue (kq s1) = []"
    by (rule readDataPort_loop_skip [OF assms(1,2) readTimeout_pos assms(3) p])
  obtain h where f: "fetch_byte E dt readTimeout s1 = (0, TimedOut, s1\<lparr>hw := h\<rparr>)" "pend h = []"
    by (rule fetch_empty [OF assms(1) s1(2) q])
  have "readDataPort E dt s = Some (0, log_call (LogTimedOut dt) (s1\<lparr>hw := h\<rparr>))"
    unfolding readDataPort_def s1(3) using f(1) by (subst readDataPort_loop.simps) simp
  moreover have "advanced s h (deliveries s (other_device dt) xs @ [LogTimedOut dt])
      (log_call (LogTimedOut dt) (s1\<lparr>hw := h\<rparr>))"
    using advanced_trans [OF advanced_trans [OF s1(1) advanced_hw] advanced_log] by simp
  ultimately show ?thesis using f(2) by (auto simp: log_call_def)
qed

text \<open>The time-out: when the hardware holds no byte of the requested stream, \<open>readDataPort\<close>
  does return, after delivering what it holds for the other driver; the result is the fake
  value 0 and the time-out is logged.\<close>

theorem readDataPort_timeout:
  assumes "output_buffer_law E pend" "passive_actions E"
    and "dt = kDT_Keyboard \<longrightarrow> keyboardQueue (kq s) = []"
    and "pend (hw s) = map (Pair (other_device dt)) xs"
  shows "\<exists>s'. readDataPort E dt s = Some (0, s') \<and> pend (hw s') = [] \<and>
           advanced s (hw s') (deliveries s (other_device dt) xs @ [LogTimedOut dt]) s'"
  by (rule readDataPort_none [OF assms])

theorem readDataPort_timeout_witness:
  "\<exists>s'. readDataPort fifo_env kDT_Keyboard (init_controller [(kDT_Mouse, 8)]) = Some (0, s') \<and>
    calls s' = [LogTimedOut kDT_Keyboard]"
  using readDataPort_timeout [OF fifo_env_law fifo_env_passive, where dt = kDT_Keyboard and
      s = "init_controller [(kDT_Mouse, 8)]" and xs = "[8]"]
  by (auto simp: init_controller_def init_keyboardQueue_def deliveries_def dest: advanced_fields(2))

text \<open>Keyboard bytes that the interrupt handler already queued come before anything in
  the hardware: the oldest is returned and the ports are not touched.\<close>

theorem readDataPort_queue_first:
  assumes "kq_wf (kq s)" "kq_contents (kq s) = b # bs"
  shows "\<exists>q. readDataPort E kDT_Keyboard s = Some (b, s\<lparr>kq := q\<rparr>) \<and> kq_wf q \<and> kq_contents q = bs"
proof -
  obtain q where d: "dequeueKeyboardData (kq s) = (Some b, q)"
    using kq.fst_deq [OF assms(1)] assms(2) by (metis list.discI list.sel(1) prod.collapse)
  then have "readDataPort E kDT_Keyboard s = Some (b, s\<lparr>kq := q\<rparr>)"
    unfolding readDataPort_def by (subst readDataPort_loop.simps) (simp add: fetch_byte_def)
  with kq.deq_SomeD [OF assms(1) d] assms(2) show ?thesis by auto
qed

theorem readDataPort_queue_first_witness:
  "\<exists>q. readDataPort fifo_env kDT_Keyboard
      ((init_controller [(kDT_Keyboard, 9)])\<lparr>kq := enqueueKeyboardData 0x1C
          (start_keyboardQueue (replicate 32 0) init_keyboardQueue)\<rparr>) =
     Some (0x1C, (init_controller [(kDT_Keyboard, 9)])\<lparr>kq := q\<rparr>)"
proof -
  let ?q0 = "start_keyboardQueue (replicate 32 0) init_keyboardQueue"
  have wf: "kq_wf ?q0" by (rule start_keyboardQueue_wf) simp
  have c: "kq_contents ?q0 = []" by (simp add: start_keyboardQueue_eq kq_contents_def)
  show ?thesis
    using readDataPort_queue_first [of "(init_controller [(kDT_Keyboard, 9)])
        \<lparr>kq := enqueueKeyboardData 0x1C ?q0\<rparr>" "0x1C" "[]" fifo_env]
      kq_wf_enqueue [OF wf] kq_contents_enqueue [OF wf] c by auto
qed

section \<open>The second chance\<close>

text \<open>
  What \<open>readDataPort\<close> with an expected byte promises, as a function of the bytes the hardware
  will deliver: the result, the bytes handed to the drivers in order, the bytes left, and
  whether it gave up without any byte of its own stream.
\<close>

fun second_chance ::
  "PS2DeviceType \<Rightarrow> u8 \<Rightarrow> u8 option \<Rightarrow> (PS2DeviceType \<times> u8) list
     \<Rightarrow> u8 \<times> (PS2DeviceType \<times> u8) list \<times> (PS2DeviceType \<times> u8) list \<times> bool" where
  "second_chance dt e None [] = (0, [], [], True)"
| "second_chance dt e (Some f) [] = (f, [], [], False)"
| "second_chance dt e held ((d, x) # p) =
     (if d \<noteq> dt then (case second_chance dt e held p of (b, out, r, t) \<Rightarrow> (b, (d, x) # out, r, t))
      else case held of
          None \<Rightarrow> if x = e then (x, [], p, False) else second_chance dt e (Some x) p
        | Some f \<Rightarrow> if x = e then (x, [(dt, f)], p, False) else (f, [(dt, x)], p, False))"

definition deliver_all ::
  "('h, 'z) ctl_scheme \<Rightarrow> (PS2DeviceType \<times> u8) list \<Rightarrow> controller_call list" where
  "deliver_all s ps = concat (map (\<lambda>(d, x). deliveries s d [x]) ps)"

lemma deliver_all_simps [simp]:
  "deliver_all s [] = []"
  "deliver_all s ((d, x) # ps) = deliveries s d [x] @ deliver_all s ps"
  by (simp_all add: deliver_all_def)

lemma advanced_deliver_all: "advanced s h cs s' \<Longrightarrow> deliver_all s' ps = deliver_all s ps"
  by (simp add: deliver_all_def advanced_fields(5))

lemma deliver_all_hw [simp]: "deliver_all (s\<lparr>hw := h\<rparr>) ps = deliver_all s ps"
  by (rule advanced_deliver_all [OF advanced_hw])

definition expect_post ::
  "('h \<Rightarrow> (PS2DeviceType \<times> u8) list) \<Rightarrow> PS2DeviceType \<Rightarrow> u8 \<Rightarrow> u8 option \<Rightarrow>
     ('h, 'z) ctl_scheme \<Rightarrow> (u8 \<times> ('h, 'z) ctl_scheme) option \<Rightarrow> bool" where
  "expect_post pend dt e held s res \<longleftrightarrow>
     (case second_chance dt e held (pend (hw s)) of (b, out, rest, t) \<Rightarrow>
        \<exists>s'. res = Some (b, s') \<and> pend (hw s') = rest \<and>
             advanced s (hw s') (deliver_all s out @ (if t then [LogTimedOut dt] else [])) s')"

lemma readDataPort_expect_loop_refines:
  assumes "output_buffer_law E pend" "passive_actions E" "0 < n"
    and "dt = kDT_Keyboard \<longrightarrow> keyboardQueue (kq s) = []" and "pend (hw s) = p"
  shows "expect_post pend dt e held s (readDataPort_expect_loop E dt e held n s)"
  using assms(4,5)
proof (induction p arbitrary: held s)
  case Nil
  obtain h where f: "fetch_byte E dt n s = (0, TimedOut, s\<lparr>hw := h\<rparr>)" "pend h = []"
    by (rule fetch_empty [OF assms(1) Nil(2,1)])
  have a: "advanced s h ([] @ [LogTimedOut dt]) (log_call (LogTimedOut dt) (s\<lparr>hw := h\<rparr>))"
    using advanced_trans [OF advanced_hw advanced_log] by simp
  show ?case
    using f Nil(2) a unfolding expect_post_def
    by (subst readDataPort_expect_loop.simps) (cases held; simp add: log_call_def)
next
  case (Cons dx p)
  obtain d x where dx: "dx = (d, x)" by fastforce
  obtain h where f: "fetch_byte E dt n s = (n, Fetched (d = dt) x, s\<lparr>hw := h\<rparr>)" "pend h = p"
    using fetch_pending [OF assms(1) _ assms(3) Cons.prems(1)] Cons.prems(2) dx by auto
  let ?s1 = "s\<lparr>hw := h\<rparr>"
  consider (other) "d \<noteq> dt" | (hold) "d = dt" "held = None" "x \<noteq> e"
    | (hit) "d = dt" "held = None" "x = e" | (second) g where "d = dt" "held = Some g" by blast
  then show ?case
  proof cases
    case other
    then have od: "d = other_device dt" by (cases d; cases dt; simp)
    obtain s2 where s2: "dispatchDriverInterrupt E d x ?s1 = Some s2"
      and a: "advanced s h (deliveries s d [x]) s2"
      by (rule dispatch_passive_hw [OF assms(2)])
    note fld = advanced_fields [OF a]
    have "expect_post pend dt e held s2 (readDataPort_expect_loop E dt e held n s2)"
      using Cons.prems(1) f(2) by (intro Cons.IH) (simp_all add: fld)
    moreover have "readDataPort_expect_loop E dt e held n s = readDataPort_expect_loop E dt e held n s2"
      using f(1) s2 other od by (intro readDataPort_expect_loop_again) auto
    ultimately show ?thesis
      using other Cons.prems(2) dx f(2) fld(1) advanced_deliver_all [OF a]
      unfolding expect_post_def
      by (auto split: prod.splits dest: advanced_trans [OF a])
  next
    case hold
    have "expect_post pend dt e (Some x) ?s1 (readDataPort_expect_loop E dt e (Some x) n ?s1)"
      using Cons.prems(1) f(2) by (intro Cons.IH) simp_all
    moreover have "readDataPort_expect_loop E dt e held n s = readDataPort_expect_loop E dt e (Some x) n ?s1"
      using f(1) hold by (subst readDataPort_expect_loop.simps) simp
    ultimately show ?thesis
      using hold Cons.prems(2) dx f(2) unfolding expect_post_def by (auto split: prod.splits)
  next
    case hit
    then have "readDataPort_expect_loop E dt e held n s = Some (x, ?s1)"
      using f(1) by (subst readDataPort_expect_loop.simps) simp
    then show ?thesis using hit Cons.prems(2) dx f(2) by (simp add: expect_post_def)
  next
    case (second g)
    define y z where "y = (if x = e then g else x)" and "z = (if x = e then x else g)"
    obtain s2 where s2: "dispatchDriverInterrupt E dt y ?s1 = Some s2"
      and a: "advanced s h (deliveries s dt [y]) s2"
      by (rule dispatch_passive_hw [OF assms(2)])
    have "readDataPort_expect_loop E dt e held n s = Some (z, s2)"
      using f(1) second s2 by (subst readDataPort_expect_loop.simps) (auto simp: y_def z_def)
    then show ?thesis
      using second Cons.prems(2) dx f(2) a advanced_fields(1) [OF a]
      by (auto simp: expect_post_def y_def z_def)
  qed
qed

text \<open>C22. \<open>readDataPort\<close> with an expected byte computes the abstract \<open>second_chance\<close>: for every
  sequence of bytes the hardware holds it returns (it does not hang), with the result, the
  deliveries to the drivers, the bytes left and the time-out that the function prescribes,
  and it changes nothing else in the controller. For a read from the keyboard the keyboard queue is
  empty (otherwise the queued byte comes first).\<close>

theorem readDataPort_expect_refines:
  assumes "output_buffer_law E pend" "passive_actions E"
    and "dt = kDT_Keyboard \<longrightarrow> keyboardQueue (kq s) = []"
    and "second_chance dt e None (pend (hw s)) = (b, out, rest, t)"
  shows "\<exists>s'. readDataPort_expect E dt e s = Some (b, s') \<and> pend (hw s') = rest \<and>
           advanced s (hw s') (deliver_all s out @ (if t then [LogTimedOut dt] else [])) s'"
  using readDataPort_expect_loop_refines [OF assms(1,2) readTimeout_pos assms(3) refl, of e None]
    assms(4)
  by (simp add: readDataPort_expect_def expect_post_def)

theorem readDataPort_expect_refines_witness:
  "\<exists>s'. readDataPort_expect fifo_env kDT_Mouse 0xFA
      (init_controller [(kDT_Mouse, 8), (kDT_Keyboard, 0x1E), (kDT_Mouse, 0xFA), (kDT_Mouse, 3)]) =
        Some (0xFA, s') \<and> hw s' = [(kDT_Mouse, 3)]"
  using readDataPort_expect_refines [OF fifo_env_law fifo_env_passive, where dt = kDT_Mouse and
      e = "0xFA" and
      s = "init_controller [(kDT_Mouse, 8), (kDT_Keyboard, 0x1E), (kDT_Mouse, 0xFA), (kDT_Mouse, 3)]"]
  by (simp add: init_controller_def) blast

lemma second_chance_conserves:
  "second_chance dt e held p = (b, out, rest, t) \<Longrightarrow>
     mset (map (Pair dt) (case held of None \<Rightarrow> [] | Some f \<Rightarrow> [f]) @ p) =
     mset ((if t then [] else [(dt, b)]) @ out @ rest) \<and> (\<exists>c. p = c @ rest) \<and> (t \<longrightarrow> rest = [])"
  by (induction dt e held p arbitrary: b out rest t rule: second_chance.induct)
    (force split: if_splits option.splits prod.splits)+

lemma second_chance_timeout: "second_chance dt e held p = (b, out, rest, t) \<Longrightarrow> t \<longrightarrow> b = 0"
  by (induction dt e held p arbitrary: b out rest t rule: second_chance.induct)
    (force split: if_splits option.splits prod.splits)+

text \<open>C39. No byte is lost or duplicated by the reordering. With both drivers' actions
  installed, the bytes taken from the hardware are, as a multiset, the bytes delivered to the
  drivers and the byte returned (none is returned only when the read timed out, and then the
  hardware holds nothing more). For a read from the keyboard the keyboard queue is empty.\<close>

theorem readDataPort_expect_conserves:
  assumes "output_buffer_law E pend" "passive_actions E"
    and "dt = kDT_Keyboard \<longrightarrow> keyboardQueue (kq s) = []"
    and "interruptInstalled s kDT_Keyboard" "interruptInstalled s kDT_Mouse"
  shows "\<exists>b s' taken out t. readDataPort_expect E dt e s = Some (b, s') \<and>
      pend (hw s) = taken @ pend (hw s') \<and>
      calls s' = calls s @ map (\<lambda>(d, x). InterruptAction d x) out @ (if t then [LogTimedOut dt] else []) \<and>
      mset taken = mset out + (if t then {#} else {#(dt, b)#}) \<and>
      (t \<longrightarrow> b = 0 \<and> pend (hw s') = [])"
proof -
  obtain b out rest t where sc: "second_chance dt e None (pend (hw s)) = (b, out, rest, t)"
    by (metis surj_pair)
  then obtain s' where s': "readDataPort_expect E dt e s = Some (b, s')" "pend (hw s') = rest"
    "advanced s (hw s') (deliver_all s out @ (if t then [LogTimedOut dt] else [])) s'"
    using readDataPort_expect_loop_refines [OF assms(1,2) readTimeout_pos assms(3) refl, of e None]
    by (auto simp: readDataPort_expect_def expect_post_def)
  have all: "deliver_all s out = map (\<lambda>(d, x). InterruptAction d x) out"
  proof (induction out)
    case (Cons dx out)
    then show ?case using assms(4,5) by (cases dx; cases "fst dx") (auto simp: deliveries_def)
  qed simp
  from second_chance_conserves [OF sc] obtain c where
    c: "pend (hw s) = c @ rest" "t \<longrightarrow> rest = []"
      "mset (pend (hw s)) = mset ((if t then [] else [(dt, b)]) @ out @ rest)" by auto
  have "t \<longrightarrow> b = 0" using sc by (rule second_chance_timeout)
  moreover have "mset c = mset out + (if t then {#} else {#(dt, b)#})" using c(1,3) by auto
  ultimately show ?thesis
    using s'(1,2) c(1,2) advanced_fields(2) [OF s'(3)] all
    by (intro exI [of _ b] exI [of _ s'] exI [of _ c] exI [of _ out] exI [of _ t]) simp
qed

theorem readDataPort_expect_conserves_witness:
  "\<exists>b s'. readDataPort_expect fifo_env kDT_Keyboard 0xFA
      ((init_controller [(kDT_Keyboard, 0x1E), (kDT_Mouse, 8), (kDT_Keyboard, 0xFA)])
        \<lparr>interruptInstalledKeyboard := True, interruptInstalledMouse := True\<rparr>) = Some (b, s')"
  using readDataPort_expect_conserves [OF fifo_env_law fifo_env_passive, where dt = kDT_Keyboard and
      e = "0xFA" and s = "(init_controller [(kDT_Keyboard, 0x1E), (kDT_Mouse, 8), (kDT_Keyboard, 0xFA)])
        \<lparr>interruptInstalledKeyboard := True, interruptInstalledMouse := True\<rparr>"]
  by (auto simp: init_controller_def init_keyboardQueue_def)

lemma second_chance_skip:
  "second_chance dt e held (map (Pair (other_device dt)) zs @ p) =
     (case second_chance dt e held p of
        (b, out, r, t) \<Rightarrow> (b, map (Pair (other_device dt)) zs @ out, r, t))"
  by (induction zs) (simp_all split: prod.split)

text \<open>The case the feature exists for: one asynchronous byte \<open>f\<close> of the device arrives just
  before the expected response \<open>e\<close>, possibly interleaved with bytes of the other device. The
  caller gets \<open>e\<close>; \<open>f\<close> goes to the device's own driver, after the bytes of the other device.\<close>

theorem readDataPort_expect_second_chance:
  assumes "output_buffer_law E pend" "passive_actions E"
    and "dt = kDT_Keyboard \<longrightarrow> keyboardQueue (kq s) = []"
    and "f \<noteq> e"
    and "pend (hw s) = map (Pair (other_device dt)) xs @ (dt, f) #
           map (Pair (other_device dt)) ys @ (dt, e) # rest"
  shows "\<exists>s'. readDataPort_expect E dt e s = Some (e, s') \<and> pend (hw s') = rest \<and>
           advanced s (hw s') (deliveries s (other_device dt) (xs @ ys) @ deliveries s dt [f]) s'"
proof -
  let ?o = "map (Pair (other_device dt))"
  have "second_chance dt e None (pend (hw s)) = (e, ?o xs @ ?o ys @ [(dt, f)], rest, False)"
    using assms(4,5) by (simp add: second_chance_skip)
  moreover have "deliver_all s (?o zs @ ps) = deliveries s (other_device dt) zs @ deliver_all s ps"
    for zs ps
    by (induction zs) (simp_all add: deliveries_def)
  ultimately show ?thesis
    using readDataPort_expect_loop_refines [OF assms(1,2) readTimeout_pos assms(3) refl, of e None]
    by (simp add: readDataPort_expect_def expect_post_def deliveries_append)
qed

theorem readDataPort_expect_second_chance_witness:
  "\<exists>s'. readDataPort_expect fifo_env kDT_Mouse 0xFA
      (init_controller [(kDT_Mouse, 8), (kDT_Mouse, 0xFA), (kDT_Mouse, 3)]) = Some (0xFA, s') \<and>
    hw s' = [(kDT_Mouse, 3)]"
  using readDataPort_expect_second_chance [OF fifo_env_law fifo_env_passive, where dt = kDT_Mouse and
      f = 8 and e = "0xFA" and xs = "[]" and ys = "[]" and rest = "[(kDT_Mouse, 3)]" and
      s = "init_controller [(kDT_Mouse, 8), (kDT_Mouse, 0xFA), (kDT_Mouse, 3)]"]
  by (simp add: init_controller_def) blast

end
