(* ===== verification/Ps2Requests.thy ===== *)
theory Ps2Requests
  imports Ps2Reading
begin

text \<open>
  Requests: allocation, asynchronous and blocking submission, and their execution by the
  work loop (\<open>processRequest\<close>, \<open>processRequestQueue\<close>).
\<close>

section \<open>Operations\<close>

definition allocateRequest :: "('h, 'z) ctl_scheme \<Rightarrow> PS2Request \<times> ('h, 'z) ctl_scheme" where
  "allocateRequest s = (zeroed_request, s\<lparr>liveRequests := liveRequests s + 1\<rparr>)"

definition freeRequest :: "('h, 'z) ctl_scheme \<Rightarrow> ('h, 'z) ctl_scheme" where
  "freeRequest s = s\<lparr>liveRequests := liveRequests s - 1\<rparr>"

text \<open>The queue lock is held only around the insertion; the work loop is then woken.\<close>

definition submitRequest :: "PS2Request \<Rightarrow> ('h, 'z) ctl_scheme \<Rightarrow> ('h, 'z) ctl_scheme" where
  "submitRequest r s =
     log_call (InterruptOccurred SourceQueue) (s\<lparr>requestQueue := requestQueue s @ [r]\<rparr>)"

definition submitRequestAndBlockCompletion ::
  "nat \<Rightarrow> ('h, 'z) ctl_scheme \<Rightarrow> ('h, 'z) ctl_scheme" where
  "submitRequestAndBlockCompletion param s =
     (if param \<noteq> 0 then log_call (SyncerSignal param) s else s)"

text \<open>
  One command of a request: the new device mode and transmit flag, the command with its
  result, whether it failed, and the new state.
\<close>

definition process_command ::
  "('h, 'z) env \<Rightarrow> PS2DeviceType \<Rightarrow> bool \<Rightarrow> PS2Command \<Rightarrow> ('h, 'z) ctl_scheme
     \<Rightarrow> (PS2DeviceType \<times> bool \<times> PS2Command \<times> bool \<times> ('h, 'z) ctl_scheme) option" where
  "process_command E deviceMode transmitToMouse c s =
     (case command c of
        kPS2C_ReadDataPort \<Rightarrow> do {
          (byte, s) \<leftarrow> readDataPort E deviceMode s;
          Some (deviceMode, transmitToMouse, c\<lparr>inOrOut := byte\<rparr>, False, s)
        }
      | kPS2C_ReadDataPortAndCompare \<Rightarrow> do {
          (byte, s) \<leftarrow> readDataPort_expect E deviceMode (inOrOut c) s;
          Some (deviceMode, transmitToMouse, c, byte \<noteq> inOrOut c, s)
        }
      | kPS2C_WriteDataPort \<Rightarrow> do {
          s \<leftarrow> writeDataPort E (inOrOut c) s;
          if transmitToMouse then Some (kDT_Mouse, False, c, False, s)
          else Some (kDT_Keyboard, transmitToMouse, c, False, s)
        }
      | kPS2C_WriteCommandPort \<Rightarrow> do {
          s \<leftarrow> writeCommandPort E (inOrOut c) s;
          Some (deviceMode, if inOrOut c = kCP_TransmitToMouse then True else transmitToMouse,
                c, False, s)
        }
      | kPS2C_SendMouseCommandAndCompareAck \<Rightarrow> do {
          s \<leftarrow> writeCommandPort E kCP_TransmitToMouse s;
          s \<leftarrow> writeDataPort E (inOrOut c) s;
          (byte, s) \<leftarrow> readDataPort_expect E kDT_Mouse kSC_Acknowledge s;
          Some (kDT_Mouse, transmitToMouse, c, byte \<noteq> kSC_Acknowledge, s)
        })"

text \<open>
  The loop over the commands: the commands with their results, the index of the command
  that failed (if one did), and the state.
\<close>

fun process_commands ::
  "('h, 'z) env \<Rightarrow> PS2DeviceType \<Rightarrow> bool \<Rightarrow> PS2Command list \<Rightarrow> ('h, 'z) ctl_scheme
     \<Rightarrow> (PS2Command list \<times> nat option \<times> ('h, 'z) ctl_scheme) option" where
  "process_commands E deviceMode transmitToMouse [] s = Some ([], None, s)"
| "process_commands E deviceMode transmitToMouse (c # cs) s = do {
     (deviceMode', transmitToMouse', c', failed, s) \<leftarrow>
        process_command E deviceMode transmitToMouse c s;
     if failed then Some (c' # cs, Some 0, s)
     else do {
       (cs', index, s) \<leftarrow> process_commands E deviceMode' transmitToMouse' cs s;
       Some (c' # cs', map_option Suc index, s)
     }
   }"

text \<open>
  A request is executed unless the hardware is off line, then its failure index is stored
  and it is completed: the completion routine is called, or the request is freed.
\<close>

definition complete_request ::
  "PS2Request \<Rightarrow> ('h, 'z) ctl_scheme \<Rightarrow> ('h, 'z) ctl_scheme" where
  "complete_request r s =
     (case completion r of
        Some param \<Rightarrow> submitRequestAndBlockCompletion param s
      | None \<Rightarrow> freeRequest s)"

definition processRequest ::
  "('h, 'z) env \<Rightarrow> PS2Request \<Rightarrow> ('h, 'z) ctl_scheme
     \<Rightarrow> (PS2Request \<times> ('h, 'z) ctl_scheme) option" where
  "processRequest E r s =
     (if hardwareOffline s then Some (r\<lparr>commandsCount := 0\<rparr>, complete_request r s)
      else do {
        let n = unat (commandsCount r);
        (cs, index, s) \<leftarrow>
          process_commands E kDT_Keyboard False (take n (commands r)) s;
        let r' = (case index of
                    None \<Rightarrow> r\<lparr>commands := cs @ drop n (commands r)\<rparr>
                  | Some i \<Rightarrow> r\<lparr>commands := cs @ drop n (commands r), commandsCount := of_nat i\<rparr>);
        Some (r', complete_request r' s)
      })"

text \<open>
  The queue is moved to a local queue first, so requests that arrive while these are being
  processed wait for the next round. The result lists the processed requests.
\<close>

fun process_local_queue ::
  "('h, 'z) env \<Rightarrow> PS2Request list \<Rightarrow> ('h, 'z) ctl_scheme
     \<Rightarrow> (PS2Request list \<times> ('h, 'z) ctl_scheme) option" where
  "process_local_queue E [] s = Some ([], s)"
| "process_local_queue E (r # rs) s = do {
     (r', s) \<leftarrow> processRequest E r s;
     (rs', s) \<leftarrow> process_local_queue E rs s;
     Some (r' # rs', s)
   }"

definition processRequestQueue ::
  "('h, 'z) env \<Rightarrow> ('h, 'z) ctl_scheme
     \<Rightarrow> (PS2Request list \<times> ('h, 'z) ctl_scheme) option" where
  "processRequestQueue E s =
     process_local_queue E (requestQueue s) (s\<lparr>requestQueue := []\<rparr>)"

text \<open>
  Blocking submission. Inside the gate the queue is processed first and then the request
  itself. Outside, the request is queued with a syncer (here number 1) and the thread sleeps
  until the work loop, which runs in the gate, has processed the queue; the request is the
  last one in it.
\<close>

definition submitRequestAndBlock ::
  "('h, 'z) env \<Rightarrow> PS2Request \<Rightarrow> ('h, 'z) ctl_scheme
     \<Rightarrow> (PS2Request \<times> ('h, 'z) ctl_scheme) option" where
  "submitRequestAndBlock E r s =
     (if inGate s then do {
        (_, s) \<leftarrow> processRequestQueue E s;
        processRequest E (r\<lparr>completion := Some 0\<rparr>) s
      }
      else do {
        let s = submitRequest (r\<lparr>completion := Some 1\<rparr>) s;
        (rs, s) \<leftarrow> processRequestQueue E (s\<lparr>inGate := True\<rparr>);
        Some (last rs, s\<lparr>inGate := False\<rparr>)
      })"

end
