(* ===== verification/Ps2RequestProps.thy ===== *)
theory Ps2RequestProps
  imports Ps2Requests
begin

text \<open>
  Properties of request processing: the failure index, the composite mouse command, the
  order of the queue, the two ways to block on a request, and that the work loop is never
  stuck in a request.
\<close>

section \<open>The failure index and the results\<close>

definition compares :: "PS2CommandEnum \<Rightarrow> bool" where
  "compares c \<longleftrightarrow> c = kPS2C_ReadDataPortAndCompare \<or> c = kPS2C_SendMouseCommandAndCompareAck"

lemma process_command_result:
  "process_command E m x c s = Some (m', x', c', failed, s') \<Longrightarrow>
     command c' = command c \<and> (command c \<noteq> kPS2C_ReadDataPort \<longrightarrow> c' = c) \<and>
     (failed \<longrightarrow> compares (command c))"
  by (cases "command c")
    (auto simp: process_command_def compares_def Option.bind_eq_Some_conv split: prod.splits if_splits)

definition only_reads_changed :: "PS2Command list \<Rightarrow> PS2Command list \<Rightarrow> bool" where
  "only_reads_changed cs cs' \<longleftrightarrow>
     list_all2 (\<lambda>c c'. command c' = command c \<and> (command c \<noteq> kPS2C_ReadDataPort \<longrightarrow> c' = c)) cs cs'"

lemma only_reads_changed_refl [simp]: "only_reads_changed cs cs"
  by (simp add: only_reads_changed_def list_all2_refl)

lemma only_reads_changed_Cons [simp]:
  "only_reads_changed (c # cs) (c' # cs') \<longleftrightarrow>
     (command c' = command c \<and> (command c \<noteq> kPS2C_ReadDataPort \<longrightarrow> c' = c)) \<and> only_reads_changed cs cs'"
  by (simp add: only_reads_changed_def)

lemma only_reads_changed_length: "only_reads_changed cs cs' \<Longrightarrow> length cs' = length cs"
  unfolding only_reads_changed_def by (drule list_all2_lengthD) simp

lemma only_reads_changed_append:
  "only_reads_changed cs cs' \<Longrightarrow> only_reads_changed (cs @ ds) (cs' @ ds)"
  unfolding only_reads_changed_def by (rule list_all2_appendI) (auto simp: list_all2_refl)

lemma process_commands_result:
  "process_commands E m x cs s = Some (cs', index, s') \<Longrightarrow>
     only_reads_changed cs cs' \<and>
     (\<forall>i. index = Some i \<longrightarrow> i < length cs \<and> compares (command (cs ! i)) \<and> drop i cs' = drop i cs)"
proof (induction cs arbitrary: m x s cs' index)
  case Nil
  then show ?case by simp
next
  case (Cons c cs)
  from Cons.prems obtain m' x' c' failed s1 where
    step: "process_command E m x c s = Some (m', x', c', failed, s1)"
    and rest: "(if failed then Some (c' # cs, Some 0, s1)
       else do { (cs', index, s) \<leftarrow> process_commands E m' x' cs s1;
                 Some (c' # cs', map_option Suc index, s) }) = Some (cs', index, s')"
    by (auto simp: Option.bind_eq_Some_conv)
  note r = process_command_result [OF step]
  show ?case
  proof (cases failed)
    case True
    then show ?thesis using rest r by (auto simp: compares_def)
  next
    case False
    then obtain cs1 i1 where more: "process_commands E m' x' cs s1 = Some (cs1, i1, s')"
      "cs' = c' # cs1" "index = map_option Suc i1"
      using rest by (auto simp: Option.bind_eq_Some_conv)
    with Cons.IH [OF more(1)] r show ?thesis by auto
  qed
qed

text \<open>
  Which stream a command reads: that of the keyboard, or that of the mouse once a byte was sent
  to it, by the composite command or by a data byte after \<open>kCP_TransmitToMouse\<close>.
\<close>

fun mode_step :: "PS2DeviceType \<times> bool \<Rightarrow> PS2Command \<Rightarrow> PS2DeviceType \<times> bool" where
  "mode_step (m, x) c =
     (case command c of
        kPS2C_WriteDataPort \<Rightarrow> (if x then kDT_Mouse else kDT_Keyboard, False)
      | kPS2C_WriteCommandPort \<Rightarrow> (m, x \<or> inOrOut c = kCP_TransmitToMouse)
      | kPS2C_SendMouseCommandAndCompareAck \<Rightarrow> (kDT_Mouse, x)
      | _ \<Rightarrow> (m, x))"

definition read_stream :: "PS2Command list \<Rightarrow> PS2DeviceType" where
  "read_stream cs = fst (foldl mode_step (kDT_Keyboard, False) cs)"

text \<open>What one command has to do at the ports, and when it counts as failed.\<close>

definition answered ::
  "('h, 'z) env \<Rightarrow> PS2DeviceType \<Rightarrow> PS2Command \<Rightarrow> PS2Command \<Rightarrow> bool
     \<Rightarrow> ('h, 'z) ctl_scheme \<Rightarrow> ('h, 'z) ctl_scheme \<Rightarrow> bool" where
  "answered E m c c' failed s s' \<longleftrightarrow>
     (case command c of
        kPS2C_ReadDataPort \<Rightarrow> \<not> failed \<and> (\<exists>b. readDataPort E m s = Some (b, s') \<and> c' = c\<lparr>inOrOut := b\<rparr>)
      | kPS2C_ReadDataPortAndCompare \<Rightarrow> c' = c \<and>
          (\<exists>b. readDataPort_expect E m (inOrOut c) s = Some (b, s') \<and> (failed \<longleftrightarrow> b \<noteq> inOrOut c))
      | kPS2C_WriteDataPort \<Rightarrow> \<not> failed \<and> c' = c \<and> writeDataPort E (inOrOut c) s = Some s'
      | kPS2C_WriteCommandPort \<Rightarrow> \<not> failed \<and> c' = c \<and> writeCommandPort E (inOrOut c) s = Some s'
      | kPS2C_SendMouseCommandAndCompareAck \<Rightarrow> c' = c \<and>
          (\<exists>s1 s2 b. writeCommandPort E kCP_TransmitToMouse s = Some s1 \<and>
             writeDataPort E (inOrOut c) s1 = Some s2 \<and>
             readDataPort_expect E kDT_Mouse kSC_Acknowledge s2 = Some (b, s') \<and>
             (failed \<longleftrightarrow> b \<noteq> kSC_Acknowledge)))"

lemma process_command_answered:
  "process_command E m x c s = Some (m', x', c', failed, s') \<Longrightarrow>
     answered E m c c' failed s s' \<and> (m', x') = mode_step (m, x) c"
  by (cases "command c")
    (auto simp: process_command_def answered_def Option.bind_eq_Some_conv split: prod.splits if_splits)

lemma process_commands_answered:
  "process_commands E m x cs s = Some (cs', index, s') \<Longrightarrow>
     \<exists>t. t 0 = s \<and> t (case index of None \<Rightarrow> length cs | Some i \<Rightarrow> Suc i) = s' \<and>
       (\<forall>i < length cs. (\<forall>j. index = Some j \<longrightarrow> i \<le> j) \<longrightarrow>
          answered E (fst (foldl mode_step (m, x) (take i cs))) (cs ! i) (cs' ! i) (index = Some i)
            (t i) (t (Suc i))) \<and>
       (\<forall>j. index = Some j \<longrightarrow> drop (Suc j) cs' = drop (Suc j) cs)"
proof (induction cs arbitrary: m x s cs' index)
  case Nil
  then show ?case by (auto intro: exI [of _ "\<lambda>_. s"])
next
  case (Cons c cs)
  from Cons.prems obtain m' x' c' failed s1 where
    step: "process_command E m x c s = Some (m', x', c', failed, s1)"
    and rest: "(if failed then Some (c' # cs, Some 0, s1)
       else do { (cs', index, s) \<leftarrow> process_commands E m' x' cs s1;
                 Some (c' # cs', map_option Suc index, s) }) = Some (cs', index, s')"
    by (auto simp: Option.bind_eq_Some_conv)
  note a = process_command_answered [OF step]
  show ?case
  proof (cases failed)
    case True
    then show ?thesis
      using rest a by (intro exI [of _ "case_nat s (\<lambda>_. s1)"]) auto
  next
    case False
    then obtain cs1 i1 where more: "process_commands E m' x' cs s1 = Some (cs1, i1, s')"
      "cs' = c' # cs1" "index = map_option Suc i1"
      using rest by (auto simp: Option.bind_eq_Some_conv)
    from Cons.IH [OF more(1)] obtain t where t: "t 0 = s1"
      "t (case i1 of None \<Rightarrow> length cs | Some i \<Rightarrow> Suc i) = s'"
      "\<And>i. i < length cs \<Longrightarrow> (\<forall>j. i1 = Some j \<longrightarrow> i \<le> j) \<Longrightarrow>
         answered E (fst (foldl mode_step (m', x') (take i cs))) (cs ! i) (cs1 ! i) (i1 = Some i)
           (t i) (t (Suc i))"
      "\<forall>j. i1 = Some j \<longrightarrow> drop (Suc j) cs1 = drop (Suc j) cs" by blast
    have "answered E (fst (foldl mode_step (m, x) (take i (c # cs)))) ((c # cs) ! i) (cs' ! i)
        (index = Some i) (case_nat s t i) (case_nat s t (Suc i))"
      if "i < length (c # cs)" "\<forall>j. index = Some j \<longrightarrow> i \<le> j" for i
    proof (cases i)
      case 0
      then show ?thesis using a False more t(1) by (cases i1) simp_all
    next
      case (Suc n)
      then show ?thesis
        using t(3) [of n] that a more(2,3) by (auto simp del: mode_step.simps)
    qed
    then show ?thesis
      using t(2,4) more(2,3) by (intro exI [of _ "case_nat s t"]) (auto split: option.splits)
  qed
qed

text \<open>C33. The contract of \<open>commandsCount\<close>: processing a request with the hardware on line runs its
  commands one after the other, each on the state the last one left, and stops at the first
  comparing command that fails. Every command up to there does its port accesses on the stream
  the commands before it selected; a read command receives the byte that \<open>readDataPort\<close>
  returns, and the others are not rewritten. When a comparison fails, the count becomes its
  zero-based index and the commands after it are neither run nor changed; the count stays the
  original one exactly when none fails. This holds for any hardware and any drivers.\<close>

theorem processRequest_index:
  assumes "processRequest E r s = Some (r', s')" "request_wf r" "\<not> hardwareOffline s"
    and n: "n = unat (commandsCount r)" and k: "k = unat (commandsCount r')"
  shows "k \<le> n \<and> (k < n \<longrightarrow> compares (command (commands r ! k))) \<and>
    (\<exists>t. t 0 = s \<and> s' = complete_request r' (t (min n (Suc k))) \<and>
      (\<forall>i < n. i \<le> k \<longrightarrow>
         answered E (read_stream (take i (commands r))) (commands r ! i) (commands r' ! i) (i = k)
           (t i) (t (Suc i)))) \<and>
    drop (min n (Suc k)) (commands r') = drop (min n (Suc k)) (commands r) \<and>
    only_reads_changed (commands r) (commands r')"
proof -
  have wf: "n \<le> length (commands r)" "n \<le> 20" using assms(2) n by (auto simp: request_wf_def)
  from assms(1,3) obtain cs index s1 where
    run: "process_commands E kDT_Keyboard False (take n (commands r)) s = Some (cs, index, s1)"
    and r': "r' = (case index of
                None \<Rightarrow> r\<lparr>commands := cs @ drop n (commands r)\<rparr>
              | Some i \<Rightarrow> r\<lparr>commands := cs @ drop n (commands r), commandsCount := of_nat i\<rparr>)"
    and s': "s' = complete_request r' s1"
    by (auto simp: processRequest_def Option.bind_eq_Some_conv Let_def simp flip: n)
  note res = process_commands_result [OF run]
  have len: "length cs = n" using only_reads_changed_length [OF conjunct1 [OF res]] wf(1) by simp
  have cs': "commands r' = cs @ drop n (commands r)" using r' by (simp split: option.splits)
  have ch: "only_reads_changed (commands r) (commands r')"
    using only_reads_changed_append [OF conjunct1 [OF res], of "drop n (commands r)"] cs' by simp
  have n_take: "length (take n (commands r)) = n" using wf(1) by simp
  obtain t where t: "t 0 = s" "t (case index of None \<Rightarrow> n | Some i \<Rightarrow> Suc i) = s1"
    "\<forall>i < n. (\<forall>j. index = Some j \<longrightarrow> i \<le> j) \<longrightarrow>
       answered E (fst (foldl mode_step (kDT_Keyboard, False) (take i (take n (commands r)))))
         (take n (commands r) ! i) (cs ! i) (index = Some i) (t i) (t (Suc i))"
    "\<forall>j. index = Some j \<longrightarrow> drop (Suc j) cs = drop (Suc j) (take n (commands r))"
    using process_commands_answered [OF run] unfolding n_take by blast
  have each: "answered E (read_stream (take i (commands r))) (commands r ! i) (cs ! i) (index = Some i)
      (t i) (t (Suc i))" if "i < n" "\<forall>j. index = Some j \<longrightarrow> i \<le> j" for i
    using t(3) that by (simp add: read_stream_def min.absorb1)
  show ?thesis
  proof (cases index)
    case None
    then have kn: "k = n" using r' n k by simp
    have "answered E (read_stream (take i (commands r))) (commands r ! i) (commands r' ! i) (i = k)
        (t i) (t (Suc i))" if "i < n" for i
      using each [OF that] that kn len cs' None by (simp add: nth_append)
    then show ?thesis using kn ch t(1,2) s' cs' len None by auto
  next
    case (Some j)
    with res wf have j: "j < n" "compares (command (commands r ! j))" by auto
    have kj: "k = j" using Some r' j(1) wf(2) k by (simp add: unat_of_nat)
    have "answered E (read_stream (take i (commands r))) (commands r ! i) (commands r' ! i) (i = k)
        (t i) (t (Suc i))" if "i < n" "i \<le> k" for i
      using each [OF that(1)] that kj len cs' Some by (simp add: nth_append eq_commute)
    moreover have "drop (Suc j) (commands r') = drop (Suc j) (commands r)"
      using t(4) Some cs' len j(1) wf(1)
      by (metis Suc_leI append_take_drop_id diff_is_0_eq' drop0 drop_append length_take min.absorb2)
    moreover have "min n (Suc k) = Suc j" using kj j(1) by simp
    moreover have "t (Suc j) = s1" using t(2) Some by simp
    ultimately show ?thesis using kj j ch t(1) s' by (auto intro!: exI [of _ t])
  qed
qed

theorem processRequest_index_witness:
  "\<exists>r' s'. processRequest fifo_env
      (set_commands [(kPS2C_ReadDataPort, 0), (kPS2C_ReadDataPortAndCompare, 0xFA)] zeroed_request)
      (init_controller [(kDT_Keyboard, 5), (kDT_Keyboard, 0xFE)]) = Some (r', s') \<and>
    commandsCount r' = 1 \<and> inOrOut (commands r' ! 0) = 5"
proof -
  let ?r = "set_commands [(kPS2C_ReadDataPort, 0), (kPS2C_ReadDataPortAndCompare, 0xFA)] zeroed_request"
  let ?s = "init_controller [(kDT_Keyboard, 5), (kDT_Keyboard, 0xFE)]"
  obtain s1 where rd: "readDataPort fifo_env kDT_Keyboard ?s = Some (5, s1)"
    "hw s1 = [(kDT_Keyboard, 0xFE)]" "kq s1 = kq ?s"
    using readDataPort_own [OF fifo_env_law fifo_env_passive, where dt = kDT_Keyboard
        and s = ?s and xs = "[]" and b = 5 and rest = "[(kDT_Keyboard, 0xFE)]"]
    by (auto simp: init_controller_def init_keyboardQueue_def dest: advanced_fields(3))
  then obtain s2 where cmp: "readDataPort_expect fifo_env kDT_Keyboard 0xFA s1 = Some (0xFE, s2)"
    using readDataPort_expect_loop_refines [OF fifo_env_law fifo_env_passive readTimeout_pos,
        of kDT_Keyboard s1 _ "0xFA" None]
    by (force simp: readDataPort_expect_def expect_post_def init_controller_def init_keyboardQueue_def)
  obtain r' s' where p: "processRequest fifo_env ?r ?s = Some (r', s')"
    using rd(1) cmp by (simp add: processRequest_def set_commands_def zeroed_request_def
        process_command_def init_controller_def Let_def)
  have wf: "request_wf ?r" by (rule request_wf_set_commands) simp_all
  have r: "commands ?r ! 0 = \<lparr>command = kPS2C_ReadDataPort, inOrOut = 0\<rparr>"
    "commands ?r ! 1 = \<lparr>command = kPS2C_ReadDataPortAndCompare, inOrOut = 0xFA\<rparr>"
    "unat (commandsCount ?r) = 2" by (simp_all add: set_commands_def zeroed_request_def)
  have "\<not> hardwareOffline ?s" by (simp add: init_controller_def)
  from processRequest_index [OF p wf this refl refl] r obtain t where
    k: "unat (commandsCount r') \<le> 2"
      "unat (commandsCount r') < 2 \<longrightarrow> compares (command (commands ?r ! unat (commandsCount r')))"
    and t: "t 0 = ?s" "\<And>i. i < 2 \<Longrightarrow> i \<le> unat (commandsCount r') \<Longrightarrow>
      answered fifo_env (read_stream (take i (commands ?r))) (commands ?r ! i) (commands r' ! i)
        (i = unat (commandsCount r')) (t i) (t (Suc i))"
    by auto
  have m: "read_stream (take 1 (commands ?r)) = kDT_Keyboard"
    by (simp add: read_stream_def set_commands_def zeroed_request_def)
  have k0: "unat (commandsCount r') \<noteq> 0" using k(2) r(1) by (cases "unat (commandsCount r') = 0") (simp_all add: compares_def)
  have "t 1 = s1" "inOrOut (commands r' ! 0) = 5"
    using t(2) [of 0] t(1) rd(1) r(1) by (auto simp: answered_def read_stream_def)
  moreover from this have "unat (commandsCount r') = 1"
    using t(2) [of 1] k0 cmp m r(2) by (auto simp: answered_def)
  then have "commandsCount r' = 1" by (metis unat_1 unsigned_word_eqI)
  ultimately show ?thesis using p by blast
qed

section \<open>The composite mouse command\<close>

text \<open>\<open>kPS2C_SendMouseCommandAndCompareAck\<close> is equivalent to the three commands it
  stands for (transmit to mouse, write, read and compare with the acknowledge): for any
  hardware and drivers it ends in the same controller state, reads the same stream next, and
  one fails exactly when the other does (the composite at its own index, the sequence at its
  third command).\<close>

theorem composite_mouse_command:
  "map_option (\<lambda>(m, x, c, failed, s). (failed, s))
     (process_command E m False \<lparr>command = kPS2C_SendMouseCommandAndCompareAck, inOrOut = b\<rparr> s) =
   map_option (\<lambda>(cs, index, s). (index = Some 2, s))
     (process_commands E m False
        [\<lparr>command = kPS2C_WriteCommandPort, inOrOut = kCP_TransmitToMouse\<rparr>,
         \<lparr>command = kPS2C_WriteDataPort, inOrOut = b\<rparr>,
         \<lparr>command = kPS2C_ReadDataPortAndCompare, inOrOut = kSC_Acknowledge\<rparr>] s)"
proof (cases "writeCommandPort E kCP_TransmitToMouse s")
  case None
  then show ?thesis by (simp add: process_command_def)
next
  case (Some s1)
  note w1 = this
  show ?thesis
  proof (cases "writeDataPort E b s1")
    case None
    with w1 show ?thesis by (simp add: process_command_def)
  next
    case (Some s2)
    with w1 show ?thesis
      by (cases "readDataPort_expect E kDT_Mouse kSC_Acknowledge s2")
        (auto simp: process_command_def split: prod.splits)
  qed
qed

section \<open>Order of the queue\<close>

lemma process_local_queue_append:
  "process_local_queue E (rs @ qs) s = do {
     (rs', s) \<leftarrow> process_local_queue E rs s;
     (qs', s) \<leftarrow> process_local_queue E qs s;
     Some (rs' @ qs', s)
   }"
proof (induction rs arbitrary: s)
  case Nil
  show ?case by (cases "process_local_queue E qs s") auto
next
  case (Cons r rs)
  show ?case
    by (cases "processRequest E r s") (auto simp: Cons.IH split: prod.splits simp: split_beta)
qed

text \<open>The completion parameter of a blocked request does not influence its execution.\<close>

lemma processRequest_completion:
  "processRequest E (r\<lparr>completion := Some (Suc 0)\<rparr>) s = do {
     (r', s') \<leftarrow> processRequest E (r\<lparr>completion := Some 0\<rparr>) s;
     Some (r'\<lparr>completion := Some (Suc 0)\<rparr>, log_call (SyncerSignal (Suc 0)) s')
   }"
  by (cases "process_commands E kDT_Keyboard False
        (take (unat (commandsCount r)) (commands r)) s")
    (auto simp: processRequest_def complete_request_def submitRequestAndBlockCompletion_def Let_def
      split: option.splits)

text \<open>A driver gets the same answer whether it blocks on a request inside the work
  loop's gate (from an interrupt) or outside it (from start or a user call): outside, the
  result and every effect are those of the gated path run after the queue was woken, followed
  by the signal to the waiting thread.\<close>

theorem submitRequestAndBlock_gate:
  "submitRequestAndBlock E r (s\<lparr>inGate := False\<rparr>) = do {
     (r', s') \<leftarrow> submitRequestAndBlock E r
        (s\<lparr>inGate := True, calls := calls s @ [InterruptOccurred SourceQueue]\<rparr>);
     Some (r'\<lparr>completion := Some 1\<rparr>, (log_call (SyncerSignal 1) s')\<lparr>inGate := False\<rparr>)
   }"
proof -
  define q where "q = process_local_queue E (requestQueue s)
    (s\<lparr>calls := calls s @ [InterruptOccurred SourceQueue], inGate := True, requestQueue := []\<rparr>)"
  have "s\<lparr>inGate := True, calls := calls s @ [InterruptOccurred SourceQueue], requestQueue := []\<rparr> =
      s\<lparr>calls := calls s @ [InterruptOccurred SourceQueue], inGate := True, requestQueue := []\<rparr>"
    by simp
  then have q': "process_local_queue E (requestQueue s)
    (s\<lparr>inGate := True, calls := calls s @ [InterruptOccurred SourceQueue], requestQueue := []\<rparr>) = q"
    by (simp only: q_def)
  show ?thesis
    by (cases q) (simp_all add: submitRequestAndBlock_def processRequestQueue_def submitRequest_def
        log_call_def process_local_queue_append processRequest_completion q_def [symmetric] q'
        bind_assoc_split case_prod_unfold)
qed

section \<open>The work loop is never stuck in a request\<close>

definition input_ready_law :: "('h, 'z) env \<Rightarrow> bool" where
  "input_ready_law E \<longleftrightarrow> (\<forall>h. \<not> any_bit (fst (inb E kCommandPort h)) kInputBusy)"

text \<open>The fields that executing a request may change; the drivers' own are left open.\<close>

definition served :: "('h, 'z) ctl_scheme \<Rightarrow> ('h, 'z) ctl_scheme \<Rightarrow> bool" where
  "served s s' \<longleftrightarrow> ctl.truncate s' =
     (ctl.truncate s)\<lparr>hw := hw s', kq := kq s', calls := calls s', liveRequests := liveRequests s'\<rparr>"

text \<open>The threads that a series of calls wakes, in order.\<close>

definition signals :: "controller_call list \<Rightarrow> nat list" where
  "signals cs = concat (map (\<lambda>c. case c of SyncerSignal p \<Rightarrow> [p] | _ \<Rightarrow> []) cs)"

lemma signals_simps [simp]:
  "signals [] = []" "signals (cs @ ds) = signals cs @ signals ds"
  "signals (SyncerSignal p # cs) = p # signals cs" "signals (LogTimedOut dt # cs) = signals cs"
  "signals (deliveries s d xs) = []"
  by (auto simp: signals_def deliveries_def)

lemma signals_deliver_all [simp]: "signals (deliver_all s out) = []"
  by (induction out) auto

text \<open>What running the commands of a request may change: it frees no request and wakes nobody.\<close>

definition quiet :: "('h, 'z) ctl_scheme \<Rightarrow> ('h, 'z) ctl_scheme \<Rightarrow> bool" where
  "quiet s s' \<longleftrightarrow> ctl.truncate s' = (ctl.truncate s)\<lparr>hw := hw s', kq := kq s', calls := calls s'\<rparr> \<and>
     signals (calls s') = signals (calls s)"

lemma quiet_refl [simp]: "quiet s s"
  by (simp add: quiet_def ctl.truncate_def)

lemma quiet_trans: "quiet s s' \<Longrightarrow> quiet s' s'' \<Longrightarrow> quiet s s''"
  by (simp add: quiet_def ctl.truncate_def)

lemma advanced_quiet: "advanced s h cs s' \<Longrightarrow> signals cs = [] \<Longrightarrow> quiet s s'"
  by (simp add: quiet_def advanced_def ctl.truncate_def)

lemma quiet_updates [simp]: "quiet s (s\<lparr>hw := h\<rparr>)" "quiet s (s\<lparr>kq := q\<rparr>)"
  by (simp_all add: quiet_def ctl.truncate_def)

lemma quiet_served: "quiet s s' \<Longrightarrow> served s s'"
  by (simp add: served_def quiet_def ctl.truncate_def)

lemma served_refl [simp]: "served s s"
  by (simp add: served_def ctl.truncate_def)

lemma served_trans: "served s s' \<Longrightarrow> served s' s'' \<Longrightarrow> served s s''"
  by (simp add: served_def ctl.truncate_def)

lemma advanced_served: "advanced s h cs s' \<Longrightarrow> served s s'"
  by (simp add: served_def advanced_def ctl.truncate_def)

lemma served_updates [simp]:
  "served s (s\<lparr>hw := h\<rparr>)" "served s (s\<lparr>kq := q\<rparr>)" "served s (log_call c s)"
  "served s (port_out E p b s)" "served s (snd (port_in E p s))" "served s (freeRequest s)"
  by (simp_all add: served_def ctl.truncate_def log_call_def port_out_def port_in_def freeRequest_def
      split_beta)

lemma served_fields:
  assumes "served s s'"
  shows "requestQueue s' = requestQueue s" "hardwareOffline s' = hardwareOffline s"
    "inGate s' = inGate s" "currentPowerState s' = currentPowerState s"
    "interruptInstalled s' d = interruptInstalled s d" "refs s' = refs s"
  using assms by (cases d; simp add: served_def ctl.truncate_def)+

lemma write_ready:
  assumes "input_ready_law E"
  shows "\<exists>h. writeDataPort E b s = Some (s\<lparr>hw := h\<rparr>)"
    and "\<exists>h. writeCommandPort E b s = Some (s\<lparr>hw := h\<rparr>)"
proof -
  have "wait_input E s = Some (snd (port_in E kCommandPort s))"
    using assms by (subst wait_input.simps) (simp add: input_ready_law_def port_in_def split_beta)
  then show "\<exists>h. writeDataPort E b s = Some (s\<lparr>hw := h\<rparr>)"
    and "\<exists>h. writeCommandPort E b s = Some (s\<lparr>hw := h\<rparr>)"
    by (auto simp: writeDataPort_def writeCommandPort_def port_out_def port_in_def split_beta)
qed

lemma fifo_env_ready: "input_ready_law fifo_env"
  by (auto simp: input_ready_law_def fifo_env_def split: list.splits)

lemma write_quiet:
  assumes "input_ready_law E"
  shows "\<exists>s'. writeDataPort E b s = Some s' \<and> quiet s s'"
    and "\<exists>s'. writeCommandPort E b s = Some s' \<and> quiet s s'"
  using write_ready [OF assms, of b s] by (metis quiet_updates(1))+

lemma stream_cases:
  obtains (none) xs where "p = map (Pair (other_device dt)) xs"
  | (own) xs b rest where "p = map (Pair (other_device dt)) xs @ (dt, b) # rest"
proof (induction p arbitrary: thesis)
  case Nil
  then show ?case by simp
next
  case (Cons dx p)
  obtain d x where dx: "dx = (d, x)" by fastforce
  show ?case
  proof (cases "d = dt")
    case True
    then show ?thesis using Cons.prems(2) [of "[]" x p] dx by simp
  next
    case False
    then have d: "d = other_device dt" by (cases d; cases dt; simp)
    show ?thesis
    proof (rule Cons.IH)
      fix xs
      assume "p = map (Pair (other_device dt)) xs"
      then show thesis using Cons.prems(1) [of "x # xs"] d dx by simp
    next
      fix xs b rest
      assume "p = map (Pair (other_device dt)) xs @ (dt, b) # rest"
      then show thesis using Cons.prems(2) [of "x # xs" b rest] d dx by simp
    qed
  qed
qed

lemma fetch_queue:
  assumes "keyboardQueue (kq s) \<noteq> []"
  shows "\<exists>q b. fetch_byte E kDT_Keyboard n s = (n, Fetched True b, s\<lparr>kq := q\<rparr>)"
  using assms by (cases "keyboardQueue (kq s)") (auto simp: fetch_byte_def dequeueKeyboardData_def)

lemma readDataPort_quiet:
  assumes "output_buffer_law E pend" "passive_actions E"
  shows "\<exists>b s'. readDataPort E dt s = Some (b, s') \<and> quiet s s'"
proof (cases "dt = kDT_Keyboard \<longrightarrow> keyboardQueue (kq s) = []")
  case True
  show ?thesis
  proof (cases rule: stream_cases [of "pend (hw s)" dt])
    case (none xs)
    from readDataPort_none [OF assms True none] show ?thesis by (force elim: advanced_quiet)
  next
    case (own xs b rest)
    from readDataPort_own [OF assms True own] show ?thesis by (force elim: advanced_quiet)
  qed
next
  case False
  then obtain q b where "fetch_byte E dt readTimeout s = (readTimeout, Fetched True b, s\<lparr>kq := q\<rparr>)"
    using fetch_queue by blast
  then have "readDataPort E dt s = Some (b, s\<lparr>kq := q\<rparr>)"
    unfolding readDataPort_def by (subst readDataPort_loop.simps) simp
  then show ?thesis by simp
qed

lemma readDataPort_expect_loop_quiet:
  assumes "output_buffer_law E pend" "passive_actions E"
    and "dt = kDT_Keyboard \<longrightarrow> keyboardQueue (kq s) = []"
  shows "\<exists>b s'. readDataPort_expect_loop E dt e held readTimeout s = Some (b, s') \<and> quiet s s'"
  using readDataPort_expect_loop_refines [OF assms(1,2) readTimeout_pos assms(3) refl, of e held]
  unfolding expect_post_def by (auto split: prod.splits dest: advanced_quiet)

lemma dispatch_quiet:
  assumes "passive_actions E"
  shows "\<exists>s'. dispatchDriverInterrupt E d x s = Some s' \<and> quiet s s'"
  by (rule dispatch_passive [OF assms, of d x s]) (auto dest: advanced_quiet)

lemma readDataPort_expect_held_quiet:
  assumes "output_buffer_law E pend" "passive_actions E"
  shows "\<exists>b s'. readDataPort_expect_loop E dt e (Some f) readTimeout s = Some (b, s') \<and> quiet s s'"
proof (cases "dt = kDT_Keyboard \<longrightarrow> keyboardQueue (kq s) = []")
  case True
  then show ?thesis by (rule readDataPort_expect_loop_quiet [OF assms])
next
  case False
  then obtain q b where dt: "dt = kDT_Keyboard"
    and f: "fetch_byte E dt readTimeout s = (readTimeout, Fetched True b, s\<lparr>kq := q\<rparr>)"
    using fetch_queue by blast
  obtain s1 where s1: "dispatchDriverInterrupt E dt (if b = e then f else b) (s\<lparr>kq := q\<rparr>) = Some s1"
    "quiet (s\<lparr>kq := q\<rparr>) s1" using dispatch_quiet [OF assms(2)] by blast
  have "readDataPort_expect_loop E dt e (Some f) readTimeout s = Some (if b = e then b else f, s1)"
    using f s1(1) by (subst readDataPort_expect_loop.simps) auto
  then show ?thesis using quiet_trans [OF _ s1(2)] by auto
qed

lemma readDataPort_expect_quiet:
  assumes "output_buffer_law E pend" "passive_actions E"
  shows "\<exists>b s'. readDataPort_expect E dt e s = Some (b, s') \<and> quiet s s'"
proof (cases "dt = kDT_Keyboard \<longrightarrow> keyboardQueue (kq s) = []")
  case True
  then show ?thesis
    unfolding readDataPort_expect_def by (rule readDataPort_expect_loop_quiet [OF assms])
next
  case False
  then obtain q b where
    f: "fetch_byte E dt readTimeout s = (readTimeout, Fetched True b, s\<lparr>kq := q\<rparr>)"
    using fetch_queue by blast
  have "readDataPort_expect E dt e s = (if b = e then Some (b, s\<lparr>kq := q\<rparr>)
      else readDataPort_expect_loop E dt e (Some b) readTimeout (s\<lparr>kq := q\<rparr>))"
    unfolding readDataPort_expect_def using f by (subst readDataPort_expect_loop.simps) simp
  then show ?thesis
    using readDataPort_expect_held_quiet [OF assms, of dt e b "s\<lparr>kq := q\<rparr>"]
      quiet_trans [OF quiet_updates(2)] by auto
qed

lemma process_command_quiet:
  assumes "output_buffer_law E pend" "passive_actions E" "input_ready_law E"
  shows "\<exists>m' x' c' f s'. process_command E m x c s = Some (m', x', c', f, s') \<and> quiet s s'"
proof (cases "command c")
  case kPS2C_ReadDataPort
  with readDataPort_quiet [OF assms(1,2), of m s] show ?thesis
    by (auto simp: process_command_def)
next
  case kPS2C_ReadDataPortAndCompare
  with readDataPort_expect_quiet [OF assms(1,2), of m "inOrOut c" s] show ?thesis
    by (auto simp: process_command_def)
next
  case kPS2C_WriteDataPort
  with write_quiet(1) [OF assms(3), of "inOrOut c" s] show ?thesis
    by (auto simp: process_command_def)
next
  case kPS2C_WriteCommandPort
  with write_quiet(2) [OF assms(3), of "inOrOut c" s] show ?thesis
    by (auto simp: process_command_def)
next
  case kPS2C_SendMouseCommandAndCompareAck
  obtain s1 where s1: "writeCommandPort E kCP_TransmitToMouse s = Some s1" "quiet s s1"
    using write_quiet(2) [OF assms(3)] by blast
  obtain s2 where s2: "writeDataPort E (inOrOut c) s1 = Some s2" "quiet s1 s2"
    using write_quiet(1) [OF assms(3)] by blast
  obtain b s3 where s3: "readDataPort_expect E kDT_Mouse kSC_Acknowledge s2 = Some (b, s3)" "quiet s2 s3"
    using readDataPort_expect_quiet [OF assms(1,2)] by blast
  have "quiet s s3" using s1(2) s2(2) s3(2) by (blast intro: quiet_trans)
  with kPS2C_SendMouseCommandAndCompareAck s1(1) s2(1) s3(1) show ?thesis
    by (simp add: process_command_def)
qed

lemma process_commands_quiet:
  assumes "output_buffer_law E pend" "passive_actions E" "input_ready_law E"
  shows "\<exists>cs' i s'. process_commands E m x cs s = Some (cs', i, s') \<and> quiet s s'"
proof (induction cs arbitrary: m x s)
  case Nil
  then show ?case by simp
next
  case (Cons c cs)
  obtain m' x' c' f s1 where step: "process_command E m x c s = Some (m', x', c', f, s1)" "quiet s s1"
    using process_command_quiet [OF assms] by blast
  obtain cs' i s2 where more: "process_commands E m' x' cs s1 = Some (cs', i, s2)" "quiet s1 s2"
    using Cons.IH by blast
  show ?case
    using step more by (cases f) (auto intro: quiet_trans)
qed

lemma write_served:
  assumes "input_ready_law E"
  shows "\<exists>s'. writeDataPort E b s = Some s' \<and> served s s'"
    and "\<exists>s'. writeCommandPort E b s = Some s' \<and> served s s'"
  using write_quiet [OF assms, of b s] quiet_served by blast+

lemma readDataPort_served:
  assumes "output_buffer_law E pend" "passive_actions E"
  shows "\<exists>b s'. readDataPort E dt s = Some (b, s') \<and> served s s'"
  using readDataPort_quiet [OF assms] quiet_served by blast

text \<open>The threads that requests wake when they are completed, and the requests that nobody waits for.\<close>

definition waiters :: "PS2Request list \<Rightarrow> nat list" where
  "waiters rs = concat (map (\<lambda>r. case completion r of
     Some p \<Rightarrow> if p \<noteq> 0 then [p] else [] | None \<Rightarrow> []) rs)"

definition asynchronous :: "PS2Request list \<Rightarrow> PS2Request list" where
  "asynchronous rs = filter (\<lambda>r. completion r = None) rs"

definition completes :: "PS2Request list \<Rightarrow> ('h, 'z) ctl_scheme \<Rightarrow> ('h, 'z) ctl_scheme \<Rightarrow> bool" where
  "completes rs s s' \<longleftrightarrow> served s s' \<and> liveRequests s' = liveRequests s - int (length (asynchronous rs)) \<and>
     signals (calls s') = signals (calls s) @ waiters rs"

lemma completes_Nil [simp]: "completes [] s s"
  by (simp add: completes_def asynchronous_def waiters_def)

lemma completes_Cons: "completes [r] s s1 \<Longrightarrow> completes rs s1 s2 \<Longrightarrow> completes (r # rs) s s2"
  by (auto simp: completes_def asynchronous_def waiters_def intro: served_trans)

lemma complete_request_completes:
  assumes "quiet s s1" "completion r' = completion r"
  shows "completes [r] s (complete_request r' s1)"
proof -
  have "served s (complete_request r' s1)"
    using served_trans [OF quiet_served [OF assms(1)]]
    by (simp add: complete_request_def submitRequestAndBlockCompletion_def split: option.splits)
  moreover have "liveRequests s1 = liveRequests s" "signals (calls s1) = signals (calls s)"
    using assms(1) by (simp_all add: quiet_def ctl.truncate_def)
  ultimately show ?thesis
    using assms(2) by (auto simp: completes_def complete_request_def submitRequestAndBlockCompletion_def
        freeRequest_def log_call_def asynchronous_def waiters_def split: option.splits)
qed

lemma processRequest_completes:
  assumes "output_buffer_law E pend" "passive_actions E" "input_ready_law E"
  obtains r' s' where "processRequest E r s = Some (r', s')" "completes [r] s s'"
proof (cases "hardwareOffline s")
  case True
  have "completes [r] s (complete_request r s)" by (rule complete_request_completes) simp_all
  then show ?thesis using that True by (simp add: processRequest_def)
next
  case False
  obtain cs i s1 where run: "process_commands E kDT_Keyboard False
      (take (unat (commandsCount r)) (commands r)) s = Some (cs, i, s1)" "quiet s s1"
    using process_commands_quiet [OF assms] by blast
  then show ?thesis
    using False that complete_request_completes [OF run(2), of _ r]
    by (auto simp: processRequest_def Let_def split: option.splits)
qed

lemma process_local_queue_completes:
  assumes "output_buffer_law E pend" "passive_actions E" "input_ready_law E"
  shows "\<exists>rs st. process_local_queue E qs s = Some (rs, st (length qs)) \<and> length rs = length qs \<and>
    st 0 = s \<and> (\<forall>i < length qs. processRequest E (qs ! i) (st i) = Some (rs ! i, st (Suc i))) \<and>
    completes qs s (st (length qs))"
proof (induction qs arbitrary: s)
  case Nil
  show ?case by (auto intro: exI [of _ "\<lambda>_. s"])
next
  case (Cons q qs)
  obtain q' s1 where q: "processRequest E q s = Some (q', s1)" "completes [q] s s1"
    by (rule processRequest_completes [OF assms])
  from Cons.IH [of s1] obtain rs st where more: "process_local_queue E qs s1 = Some (rs, st (length qs))"
    "length rs = length qs" "st 0 = s1"
    "\<forall>i < length qs. processRequest E (qs ! i) (st i) = Some (rs ! i, st (Suc i))"
    "completes qs s1 (st (length qs))" by blast
  have "processRequest E ((q # qs) ! i) (case_nat s st i) = Some ((q' # rs) ! i, case_nat s st (Suc i))"
    if "i < length (q # qs)" for i using that q(1) more(3,4) by (cases i) auto
  then show ?case using q more completes_Cons [OF q(2) more(5)]
    by (intro exI [of _ "q' # rs"] exI [of _ "case_nat s st"]) auto
qed

lemma submitRequest_queue:
  "requestQueue (submitRequest r (init_controller h)) = [r]"
  by (simp add: submitRequest_def init_controller_def log_call_def)

text \<open>C25. The work loop always comes back from its request queue: with hardware that keeps the
  output-buffer protocol and is not busy for ever, and with drivers whose interrupt actions do
  not re-enter the controller, processing the queue returns (the reading time-outs see to
  that, whatever bytes arrive). The requests are processed first to last, each on the state the
  one before it left, and every one is completed: the waiting threads are woken in the order of
  the queue, exactly the requests that nobody waits for are freed, and the queue is left empty.\<close>

theorem processRequestQueue_returns:
  assumes "output_buffer_law E pend" "passive_actions E" "input_ready_law E"
  shows "\<exists>rs st s'. processRequestQueue E s = Some (rs, s') \<and> length rs = length (requestQueue s) \<and>
    st 0 = s\<lparr>requestQueue := []\<rparr> \<and> st (length rs) = s' \<and>
    (\<forall>i < length rs. processRequest E (requestQueue s ! i) (st i) = Some (rs ! i, st (Suc i))) \<and>
    signals (calls s') = signals (calls s) @ waiters (requestQueue s) \<and>
    liveRequests s' = liveRequests s - int (length (asynchronous (requestQueue s))) \<and>
    requestQueue s' = [] \<and> hardwareOffline s' = hardwareOffline s"
proof -
  let ?s = "s\<lparr>requestQueue := []\<rparr>" and ?n = "length (requestQueue s)"
  obtain rs st where run: "process_local_queue E (requestQueue s) ?s = Some (rs, st ?n)" "length rs = ?n"
    "st 0 = ?s" "\<forall>i < ?n. processRequest E (requestQueue s ! i) (st i) = Some (rs ! i, st (Suc i))"
    and c: "completes (requestQueue s) ?s (st ?n)"
    using process_local_queue_completes [OF assms] by metis
  then have "served ?s (st ?n)" by (simp add: completes_def)
  from served_fields(1,2) [OF this] show ?thesis
    using run c by (intro exI [of _ rs] exI [of _ st] exI [of _ "st ?n"])
      (simp add: processRequestQueue_def completes_def)
qed

theorem processRequestQueue_returns_witness:
  "\<exists>rs s'. processRequestQueue fifo_env (submitRequest (set_commands
      [(kPS2C_WriteDataPort, kDP_Enable), (kPS2C_ReadDataPortAndCompare, kSC_Acknowledge)]
      zeroed_request\<lparr>completion := Some 3\<rparr>) (init_controller [])) = Some (rs, s') \<and> length rs = 1 \<and>
    signals (calls s') = [3]"
proof -
  let ?r = "set_commands [(kPS2C_WriteDataPort, kDP_Enable),
    (kPS2C_ReadDataPortAndCompare, kSC_Acknowledge)] zeroed_request\<lparr>completion := Some 3\<rparr>"
  let ?s = "submitRequest ?r (init_controller [])"
  have "waiters [?r] = [3]" "signals (calls ?s) = []"
    by (simp_all add: waiters_def submitRequest_def log_call_def init_controller_def signals_def)
  then show ?thesis
    using processRequestQueue_returns [OF fifo_env_law fifo_env_passive fifo_env_ready, of ?s]
    unfolding submitRequest_queue by auto
qed

end
