(* ===== verification/Ps2Interrupts.thy ===== *)
theory Ps2Interrupts
  imports Ps2RequestProps
begin

text \<open>
  The interrupt side of \<open>ApplePS2Controller\<close>: the two interrupt handlers, the escape-key
  recogniser of the mini-monitor, the work loop's \<open>interruptOccurred\<close>, and the registration
  of the drivers' interrupt actions.
\<close>

section \<open>The escape-key recogniser\<close>

abbreviation (input) kModifierShiftLeft :: u16 where "kModifierShiftLeft \<equiv> 0x01"
abbreviation (input) kModifierShiftRight :: u16 where "kModifierShiftRight \<equiv> 0x02"
abbreviation (input) kModifierCtrlLeft :: u16 where "kModifierCtrlLeft \<equiv> 0x04"
abbreviation (input) kModifierCtrlRight :: u16 where "kModifierCtrlRight \<equiv> 0x08"
abbreviation (input) kModifierAltLeft :: u16 where "kModifierAltLeft \<equiv> 0x10"
abbreviation (input) kModifierAltRight :: u16 where "kModifierAltRight \<equiv> 0x20"
abbreviation (input) kModifierWindowsLeft :: u16 where "kModifierWindowsLeft \<equiv> 0x40"
abbreviation (input) kModifierWindowsRight :: u16 where "kModifierWindowsRight \<equiv> 0x80"

text \<open>Scan code, extended flag and modifier bit; the table's terminator is the list's end.\<close>

definition modifierTable :: "(u8 \<times> bool \<times> u16) list" where
  "modifierTable =
    [(kSC_Alt, False, kModifierAltLeft),
     (kSC_Alt, True, kModifierAltRight),
     (kSC_Ctrl, False, kModifierCtrlLeft),
     (kSC_Ctrl, True, kModifierCtrlRight),
     (kSC_ShiftLeft, False, kModifierShiftLeft),
     (kSC_ShiftRight, False, kModifierShiftRight),
     (kSC_WindowsLeft, True, kModifierWindowsLeft),
     (kSC_WindowsRight, True, kModifierWindowsRight)]"

definition enqueue_key :: "u8 \<Rightarrow> ('h, 'z) ctl_scheme \<Rightarrow> ('h, 'z) ctl_scheme" where
  "enqueue_key key s = s\<lparr>kq := enqueueKeyboardData key (kq s)\<rparr>"

text \<open>The release codes of the modifiers that are down, entered into the keyboard queue.\<close>

definition release_codes :: "u16 \<Rightarrow> u8 list" where
  "release_codes ms = concat (map (\<lambda>(code, extended, m).
     if any_bit ms m then (if extended then [kSC_Extend] else []) @ [code OR kSC_UpBit] else [])
     modifierTable)"

text \<open>
  \<open>doEscape\<close>: the result says whether the scan code is to be dropped. It is \<open>None\<close> when the
  input buffer never empties while the mouse clock is switched.
\<close>

definition doEscape ::
  "('h, 'z) env \<Rightarrow> u8 \<Rightarrow> ('h, 'z) ctl_scheme \<Rightarrow> (bool \<times> ('h, 'z) ctl_scheme) option" where
  "doEscape E scancode s =
     (let upBit = any_bit scancode kSC_UpBit;
          code = scancode AND NOT kSC_UpBit
      in if scancode = kSC_Extend then Some (False, s\<lparr>extendedState := True\<rparr>)
         else case find (\<lambda>(c, x, m). c = code \<and> x = extendedState s) modifierTable of
           Some (c, x, m) \<Rightarrow>
             Some (False, s\<lparr>modifierState := (if upBit then modifierState s AND NOT m
                                            else modifierState s OR m),
                            extendedState := False\<rparr>)
         | None \<Rightarrow>
             if code = kSC_Delete \<and> modifierState s = (kModifierAltLeft OR kModifierAltRight)
             then do {
               s \<leftarrow> writeCommandPort E kCP_DisableMouseClock s;
               let s = runDebugger E (log_call Debugger s);
               s \<leftarrow> writeCommandPort E kCP_EnableMouseClock s;
               let s = fold enqueue_key (release_codes (modifierState s)) s;
               Some (True, s\<lparr>modifierState := 0, extendedState := False\<rparr>)
             }
             else Some (False, s\<lparr>extendedState := False\<rparr>))"

section \<open>Interrupt time\<close>

definition interruptHandlerMouse :: "('h, 'z) ctl_scheme \<Rightarrow> ('h, 'z) ctl_scheme" where
  "interruptHandlerMouse s = log_call (InterruptOccurred SourceMouse) s"

text \<open>
  The handler runs with the controller lock held, so it is one step with respect to the work
  loop's accesses to the keyboard queue.
\<close>

definition interruptHandlerKeyboard ::
  "('h, 'z) env \<Rightarrow> ('h, 'z) ctl_scheme \<Rightarrow> ('h, 'z) ctl_scheme option" where
  "interruptHandlerKeyboard E s =
     (case port_in E kCommandPort s of (status, s) \<Rightarrow>
        if any_bit status kOutputReady then
          if any_bit status kMouseData then Some (interruptHandlerMouse s)
          else (case port_in E kDataPort s of (key, s) \<Rightarrow> do {
            (dropped, s) \<leftarrow> (if \<not> debuggingEnabled s then Some (False, s) else doEscape E key s);
            let s = (if dropped then s else enqueue_key key s);
            Some (log_call (InterruptOccurred SourceKeyboard) s)
          })
        else Some s)"

section \<open>The work loop's handler\<close>

partial_function (option) interruptOccurred_loop ::
  "('h, 'z) env \<Rightarrow> ('h, 'z) ctl_scheme \<Rightarrow> ('h, 'z) ctl_scheme option" where
  "interruptOccurred_loop E s =
     (case dequeueKeyboardData (kq s) of
        (Some key, q) \<Rightarrow>
          Option.bind (dispatchDriverInterrupt E kDT_Keyboard key (s\<lparr>kq := q\<rparr>))
            (\<lambda>s. interruptOccurred_loop E s)
      | (None, _) \<Rightarrow>
          (case port_in E kCommandPort s of (status, s1) \<Rightarrow>
             if status AND (kOutputReady OR kMouseData) = kOutputReady OR kMouseData
             then (case port_in E kDataPort s1 of (byte, s2) \<Rightarrow>
                     Option.bind (dispatchDriverInterrupt E kDT_Mouse byte s2)
                       (\<lambda>s. interruptOccurred_loop E s))
             else Some s1))"

definition interruptOccurred ::
  "('h, 'z) env \<Rightarrow> ('h, 'z) ctl_scheme \<Rightarrow> ('h, 'z) ctl_scheme option" where
  "interruptOccurred E s =
     (if hardwareOffline s then Some s else interruptOccurred_loop E s)"

section \<open>Registration of interrupt actions\<close>

abbreviation (input) kIRQ_Keyboard :: nat where "kIRQ_Keyboard \<equiv> 1"
abbreviation (input) kIRQ_Mouse :: nat where "kIRQ_Mouse \<equiv> 12"

definition retain :: "obj \<Rightarrow> ('h, 'z) ctl_scheme \<Rightarrow> ('h, 'z) ctl_scheme" where
  "retain t s = s\<lparr>refs := (refs s)(t := refs s t + 1)\<rparr>"

definition release :: "obj \<Rightarrow> ('h, 'z) ctl_scheme \<Rightarrow> ('h, 'z) ctl_scheme" where
  "release t s = s\<lparr>refs := (refs s)(t := refs s t - 1)\<rparr>"

definition installInterruptAction ::
  "PS2DeviceType \<Rightarrow> obj \<Rightarrow> action \<Rightarrow> ('h, 'z) ctl_scheme \<Rightarrow> ('h, 'z) ctl_scheme" where
  "installInterruptAction deviceType target action s =
     (if deviceType = kDT_Keyboard \<and> interruptInstalledKeyboard s = False then
        (let s = retain target s;
             s = s\<lparr>interruptTargetKeyboard := target, interruptActionKeyboard := action\<rparr>;
             s = log_call (AddEventSource SourceKeyboard) s;
             s = log_call (RegisterInterrupt kIRQ_Keyboard) s;
             s = log_call (EnableInterrupt kIRQ_Keyboard) s
         in s\<lparr>interruptInstalledKeyboard := True\<rparr>)
      else if deviceType = kDT_Mouse \<and> interruptInstalledMouse s = False then
        (let s = retain target s;
             s = s\<lparr>interruptTargetMouse := target, interruptActionMouse := action\<rparr>;
             s = log_call (AddEventSource SourceMouse) s;
             s = log_call (RegisterInterrupt kIRQ_Mouse) s;
             s = log_call (EnableInterrupt kIRQ_Mouse) s
         in s\<lparr>interruptInstalledMouse := True\<rparr>)
      else s)"

definition uninstallInterruptAction ::
  "PS2DeviceType \<Rightarrow> ('h, 'z) ctl_scheme \<Rightarrow> ('h, 'z) ctl_scheme" where
  "uninstallInterruptAction deviceType s =
     (if deviceType = kDT_Keyboard \<and> interruptInstalledKeyboard s = True then
        (let s = log_call (DisableInterrupt kIRQ_Keyboard) s;
             s = log_call (UnregisterInterrupt kIRQ_Keyboard) s;
             s = log_call (RemoveEventSource SourceKeyboard) s;
             s = s\<lparr>interruptInstalledKeyboard := False, interruptActionKeyboard := 0\<rparr>;
             s = release (interruptTargetKeyboard s) s
         in s\<lparr>interruptTargetKeyboard := 0\<rparr>)
      else if deviceType = kDT_Mouse \<and> interruptInstalledMouse s = True then
        (let s = log_call (DisableInterrupt kIRQ_Mouse) s;
             s = log_call (UnregisterInterrupt kIRQ_Mouse) s;
             s = log_call (RemoveEventSource SourceMouse) s;
             s = s\<lparr>interruptInstalledMouse := False, interruptActionMouse := 0\<rparr>;
             s = release (interruptTargetMouse s) s
         in s\<lparr>interruptTargetMouse := 0\<rparr>)
      else s)"

end
