(* ===== verification/Ps2Power.thy ===== *)
theory Ps2Power
  imports Ps2Interrupts
begin

text \<open>
  Power management of \<open>ApplePS2Controller\<close>: the drivers' power-control actions, the
  transition between sleep and the working states, the thread call that carries a power
  change, and the controller's start-up of the hardware and shut-down of its queue.
\<close>

section \<open>Power control actions\<close>

abbreviation (input) kPS2C_DisableDevice :: u32 where "kPS2C_DisableDevice \<equiv> 0"
abbreviation (input) kPS2C_EnableDevice :: u32 where "kPS2C_EnableDevice \<equiv> 1"

definition installPowerControlAction ::
  "PS2DeviceType \<Rightarrow> obj \<Rightarrow> action \<Rightarrow> ('h, 'z) ctl_scheme \<Rightarrow> ('h, 'z) ctl_scheme" where
  "installPowerControlAction deviceType target action s =
     (if deviceType = kDT_Keyboard \<and> powerControlInstalledKeyboard s = False then
        (retain target s)\<lparr>powerControlTargetKeyboard := target,
          powerControlActionKeyboard := action, powerControlInstalledKeyboard := True\<rparr>
      else if deviceType = kDT_Mouse \<and> powerControlInstalledMouse s = False then
        (retain target s)\<lparr>powerControlTargetMouse := target,
          powerControlActionMouse := action, powerControlInstalledMouse := True\<rparr>
      else s)"

definition uninstallPowerControlAction ::
  "PS2DeviceType \<Rightarrow> ('h, 'z) ctl_scheme \<Rightarrow> ('h, 'z) ctl_scheme" where
  "uninstallPowerControlAction deviceType s =
     (if deviceType = kDT_Keyboard \<and> powerControlInstalledKeyboard s = True then
        (release (powerControlTargetKeyboard s) s)\<lparr>powerControlInstalledKeyboard := False,
          powerControlActionKeyboard := 0, powerControlTargetKeyboard := 0\<rparr>
      else if deviceType = kDT_Mouse \<and> powerControlInstalledMouse s = True then
        (release (powerControlTargetMouse s) s)\<lparr>powerControlInstalledMouse := False,
          powerControlActionMouse := 0, powerControlTargetMouse := 0\<rparr>
      else s)"

definition dispatchDriverPowerControl ::
  "('h, 'z) env \<Rightarrow> u32 \<Rightarrow> ('h, 'z) ctl_scheme \<Rightarrow> ('h, 'z) ctl_scheme option" where
  "dispatchDriverPowerControl E whatToDo s = do {
     s \<leftarrow> (if powerControlInstalledMouse s
          then runPowerControlAction E (powerControlActionMouse s) (powerControlTargetMouse s)
                 whatToDo (log_call (PowerControlAction kDT_Mouse whatToDo) s)
          else Some s);
     (if powerControlInstalledKeyboard s
      then runPowerControlAction E (powerControlActionKeyboard s) (powerControlTargetKeyboard s)
             whatToDo (log_call (PowerControlAction kDT_Keyboard whatToDo) s)
      else Some s)
   }"

section \<open>Power state changes\<close>

abbreviation (input) kPS2PowerStateSleep :: u32 where "kPS2PowerStateSleep \<equiv> 0"
abbreviation (input) kPS2PowerStateDoze :: u32 where "kPS2PowerStateDoze \<equiv> 1"
abbreviation (input) kPS2PowerStateNormal :: u32 where "kPS2PowerStateNormal \<equiv> 2"

text \<open>Read the command byte, clear and set bits, and write it back (the wake-up sequence).\<close>

definition update_commandByte ::
  "('h, 'z) env \<Rightarrow> u8 \<Rightarrow> u8 \<Rightarrow> ('h, 'z) ctl_scheme \<Rightarrow> ('h, 'z) ctl_scheme option" where
  "update_commandByte E clearBits setBits s = do {
     s \<leftarrow> writeCommandPort E kCP_GetCommandByte s;
     (commandByte, s) \<leftarrow> readDataPort E kDT_Keyboard s;
     s \<leftarrow> writeCommandPort E kCP_SetCommandByte s;
     writeDataPort E ((commandByte AND NOT clearBits) OR setBits) s
   }"

definition setPowerStateGated ::
  "('h, 'z) env \<Rightarrow> u32 \<Rightarrow> ('h, 'z) ctl_scheme \<Rightarrow> ('h, 'z) ctl_scheme option" where
  "setPowerStateGated E powerState s = do {
     s \<leftarrow> (if currentPowerState s \<noteq> powerState then do {
            s \<leftarrow> (if powerState = kPS2PowerStateSleep then do {
                   s \<leftarrow> dispatchDriverPowerControl E kPS2C_DisableDevice s;
                   Some (s\<lparr>hardwareOffline := True\<rparr>)
                 }
                 else if powerState = kPS2PowerStateDoze \<or> powerState = kPS2PowerStateNormal then
                   (if currentPowerState s \<noteq> kPS2PowerStateSleep then Some s
                    else do {
                      s \<leftarrow> update_commandByte E (kCB_DisableKeyboardClock OR kCB_DisableMouseClock)
                            (kCB_EnableKeyboardIRQ OR kCB_EnableMouseIRQ) s;
                      dispatchDriverPowerControl E kPS2C_EnableDevice (s\<lparr>hardwareOffline := False\<rparr>)
                    })
                 else Some (log_call (LogBadPowerState powerState) s));
            Some (s\<lparr>currentPowerState := powerState\<rparr>)
          }
          else Some s);
     Some (log_call AcknowledgeSetPowerState s)
   }"

text \<open>
  \<open>setPowerState\<close> enters the thread call (a call already pending keeps its place and takes
  the new argument) and asks for 5 seconds.
\<close>

definition setPowerState ::
  "u32 \<Rightarrow> ('h, 'z) ctl_scheme \<Rightarrow> nat \<times> ('h, 'z) ctl_scheme" where
  "setPowerState powerStateOrdinal s =
     (let s = s\<lparr>selfRefs := selfRefs s + 1\<rparr>;
          pending = powerChangeThreadCall s \<noteq> None;
          s = s\<lparr>powerChangeThreadCall := Some powerStateOrdinal\<rparr>;
          s = (if pending then s\<lparr>selfRefs := selfRefs s - 1\<rparr> else s)
      in (5000000, s))"

text \<open>The thread call itself: it takes its argument, runs the change in the gate and releases.\<close>

definition setPowerStateCallout ::
  "('h, 'z) env \<Rightarrow> ('h, 'z) ctl_scheme \<Rightarrow> ('h, 'z) ctl_scheme option" where
  "setPowerStateCallout E s =
     (case powerChangeThreadCall s of
        None \<Rightarrow> Some s
      | Some powerState \<Rightarrow> do {
          s \<leftarrow> setPowerStateGated E powerState (s\<lparr>powerChangeThreadCall := None, inGate := True\<rparr>);
          Some (s\<lparr>inGate := False, selfRefs := selfRefs s - 1\<rparr>)
        })"

section \<open>Start-up of the hardware and shut-down of the queue\<close>

text \<open>\<open>while (inb(kCommandPort) & kOutputReady) inb(kDataPort);\<close>\<close>

partial_function (option) drain_output ::
  "('h, 'z) env \<Rightarrow> ('h, 'z) ctl_scheme \<Rightarrow> ('h, 'z) ctl_scheme option" where
  "drain_output E s =
     (case port_in E kCommandPort s of (status, s1) \<Rightarrow>
        if any_bit status kOutputReady
        then (case port_in E kDataPort s1 of (_, s2) \<Rightarrow> drain_output E s2)
        else Some s1)"

definition start_hardware ::
  "('h, 'z) env \<Rightarrow> ('h, 'z) ctl_scheme \<Rightarrow> ('h, 'z) ctl_scheme option" where
  "start_hardware E s = do {
     s \<leftarrow> update_commandByte E (kCB_EnableMouseIRQ OR kCB_DisableMouseClock) 0 s;
     s \<leftarrow> writeDataPort E kDP_SetDefaultsAndDisable s;
     (_, s) \<leftarrow> readDataPort E kDT_Keyboard s;
     s \<leftarrow> writeCommandPort E kCP_TransmitToMouse s;
     s \<leftarrow> writeDataPort E kDP_SetDefaultsAndDisable s;
     (_, s) \<leftarrow> readDataPort E kDT_Mouse s;
     drain_output E s
   }"

definition stop_requestQueue ::
  "('h, 'z) env \<Rightarrow> ('h, 'z) ctl_scheme \<Rightarrow> (PS2Request list \<times> ('h, 'z) ctl_scheme) option" where
  "stop_requestQueue E s = processRequestQueue E (s\<lparr>hardwareOffline := True\<rparr>)"

end
