(* ===== verification/Ps2InterruptProps.thy ===== *)
theory Ps2InterruptProps
  imports Ps2Interrupts
begin

text \<open>
  Properties of the interrupt side: the modifier tracker and the mini-monitor's escape
  sequence, what the interrupt handler queues, what the work loop hands to the drivers, and
  the registration of the interrupt actions.
\<close>

section \<open>The modifier tracker\<close>

text \<open>The key events a sequence of scan codes stands for: code, extended flag, release flag.\<close>

fun key_events :: "bool \<Rightarrow> u8 list \<Rightarrow> (u8 \<times> bool \<times> bool) list" where
  "key_events x [] = []"
| "key_events x (c # cs) =
     (if c = kSC_Extend then key_events True cs
      else (c AND NOT kSC_UpBit, x, any_bit c kSC_UpBit) # key_events False cs)"

text \<open>A modifier is down when its last event was a press, or it was down and had no event.\<close>

primrec down_after :: "u8 \<Rightarrow> bool \<Rightarrow> bool \<Rightarrow> (u8 \<times> bool \<times> bool) list \<Rightarrow> bool" where
  "down_after k x d [] = d"
| "down_after k x d (e # es) =
     down_after k x (if fst e = k \<and> fst (snd e) = x then \<not> snd (snd e) else d) es"

fun escape_run ::
  "('h, 'z) env \<Rightarrow> u8 list \<Rightarrow> ('h, 'z) ctl_scheme \<Rightarrow> (bool list \<times> ('h, 'z) ctl_scheme) option" where
  "escape_run E [] s = Some ([], s)"
| "escape_run E (c # cs) s = do {
     (d, s) \<leftarrow> doEscape E c s;
     (ds, s) \<leftarrow> escape_run E cs s;
     Some (d # ds, s)
   }"

lemma modifierTable_masks:
  "(c, x, m) \<in> set modifierTable \<Longrightarrow> (c', x', m') \<in> set modifierTable \<Longrightarrow>
     (c = c' \<and> x = x' \<longleftrightarrow> m = m') \<and> (m \<noteq> m' \<longrightarrow> m AND m' = 0) \<and> any_bit m m"
  unfolding modifierTable_def by (simp, elim disjE; simp)

lemma doEscape_ordinary:
  assumes "c AND NOT kSC_UpBit \<noteq> kSC_Delete" "c \<noteq> kSC_Extend"
  shows "\<exists>ms. doEscape E c s = Some (False, s\<lparr>modifierState := ms, extendedState := False\<rparr>) \<and>
    (\<forall>(k, x, m) \<in> set modifierTable. any_bit ms m \<longleftrightarrow>
       (if c AND NOT kSC_UpBit = k \<and> extendedState s = x then \<not> any_bit c kSC_UpBit
        else any_bit (modifierState s) m))"
proof (cases "find (\<lambda>(k, x, m). k = c AND NOT kSC_UpBit \<and> x = extendedState s) modifierTable")
  case None
  then have "doEscape E c s = Some (False, s\<lparr>modifierState := modifierState s, extendedState := False\<rparr>)"
    using assms by (simp add: doEscape_def)
  moreover have "\<forall>(k, x, m) \<in> set modifierTable. \<not> (c AND NOT kSC_UpBit = k \<and> extendedState s = x)"
    using None unfolding find_None_iff by fastforce
  ultimately show ?thesis by (intro exI [of _ "modifierState s"]) auto
next
  case (Some kxm)
  obtain k x m where kxm: "kxm = (k, x, m)" by (cases kxm) auto
  then have mem: "(k, x, m) \<in> set modifierTable" and k: "k = c AND NOT kSC_UpBit" "x = extendedState s"
    using Some by (auto simp: find_Some_iff in_set_conv_nth)
  define ms where "ms = (if any_bit c kSC_UpBit then modifierState s AND NOT m else modifierState s OR m)"
  have "doEscape E c s = Some (False, s\<lparr>modifierState := ms, extendedState := False\<rparr>)"
    using Some assms kxm by (simp add: doEscape_def ms_def)
  moreover have "any_bit ms m' \<longleftrightarrow> (if c AND NOT kSC_UpBit = k' \<and> extendedState s = x'
      then \<not> any_bit c kSC_UpBit else any_bit (modifierState s) m')"
    if "(k', x', m') \<in> set modifierTable" for k' x' m'
    using modifierTable_masks [OF mem that] k
    by (auto simp: ms_def any_bit_or any_bit_clear_same any_bit_clear_disjoint)
       (simp add: any_bit_def)+
  ultimately show ?thesis by (intro exI [of _ ms]) auto
qed


lemma doEscape_extend: "doEscape E kSC_Extend s = Some (False, s\<lparr>extendedState := True\<rparr>)"
  by (simp add: doEscape_def)

definition no_delete :: "u8 list \<Rightarrow> bool" where
  "no_delete cs \<longleftrightarrow> (\<forall>c \<in> set cs. c AND NOT kSC_UpBit \<noteq> kSC_Delete)"

lemma escape_run_tracks:
  "no_delete cs \<Longrightarrow> \<exists>s'. escape_run E cs s = Some (replicate (length cs) False, s') \<and>
     s' = s\<lparr>modifierState := modifierState s', extendedState := extendedState s'\<rparr> \<and>
     (\<forall>(k, x, m) \<in> set modifierTable. any_bit (modifierState s') m \<longleftrightarrow>
        down_after k x (any_bit (modifierState s) m) (key_events (extendedState s) cs))"
proof (induction cs arbitrary: s)
  case Nil
  then show ?case by auto
next
  case (Cons c cs)
  have rest: "no_delete cs" and c: "c AND NOT kSC_UpBit \<noteq> kSC_Delete"
    using Cons.prems by (auto simp: no_delete_def)
  show ?case
  proof (cases "c = kSC_Extend")
    case True
    obtain s' where "escape_run E cs (s\<lparr>extendedState := True\<rparr>) = Some (replicate (length cs) False, s')"
      "s' = s\<lparr>extendedState := True, modifierState := modifierState s', extendedState := extendedState s'\<rparr>"
      "\<forall>(k, x, m) \<in> set modifierTable. any_bit (modifierState s') m \<longleftrightarrow>
        down_after k x (any_bit (modifierState s) m) (key_events True cs)"
      using Cons.IH [OF rest, of "s\<lparr>extendedState := True\<rparr>"] by auto
    then show ?thesis using True by (intro exI [of _ s']) (simp add: doEscape_def)
  next
    case False
    from doEscape_ordinary [OF c False, of E s] obtain ms where
      d: "doEscape E c s = Some (False, s\<lparr>modifierState := ms, extendedState := False\<rparr>)"
      and ms: "\<forall>(k, x, m) \<in> set modifierTable. any_bit ms m \<longleftrightarrow>
       (if c AND NOT kSC_UpBit = k \<and> extendedState s = x then \<not> any_bit c kSC_UpBit
        else any_bit (modifierState s) m)" by blast
    let ?s = "s\<lparr>modifierState := ms, extendedState := False\<rparr>"
    obtain s' where r: "escape_run E cs ?s = Some (replicate (length cs) False, s')"
      "s' = ?s\<lparr>modifierState := modifierState s', extendedState := extendedState s'\<rparr>"
      "\<forall>(k, x, m) \<in> set modifierTable. any_bit (modifierState s') m \<longleftrightarrow>
        down_after k x (any_bit ms m) (key_events False cs)"
      using Cons.IH [OF rest, of ?s] by auto
    have "\<forall>(k, x, m) \<in> set modifierTable. any_bit (modifierState s') m \<longleftrightarrow>
        down_after k x (any_bit (modifierState s) m) (key_events (extendedState s) (c # cs))"
    proof (clarify, goal_cases)
      case (1 k x m)
      show ?case using bspec [OF r(3) 1] bspec [OF ms 1] False by simp
    qed
    moreover have "escape_run E (c # cs) s = Some (replicate (length (c # cs)) False, s')"
      using d r(1) by simp
    moreover have "s' = s\<lparr>modifierState := modifierState s', extendedState := extendedState s'\<rparr>"
      using r(2) by simp
    ultimately show ?thesis by blast
  qed
qed

text \<open>The escape recogniser tracks the eight modifier keys: after any sequence of scan
  codes without the Delete key, a modifier's bit is set exactly when the last event of that key
  (left and right told apart by the extended prefix) was a press, or the bit was set before and
  the key had no event. No scan code is dropped and nothing else in the controller changes.\<close>

theorem doEscape_modifiers:
  assumes "no_delete cs" "(k, x, m) \<in> set modifierTable"
  shows "\<exists>s'. escape_run E cs s = Some (replicate (length cs) False, s') \<and>
     s' = s\<lparr>modifierState := modifierState s', extendedState := extendedState s'\<rparr> \<and>
     (any_bit (modifierState s') m \<longleftrightarrow>
        down_after k x (any_bit (modifierState s) m) (key_events (extendedState s) cs))"
  using escape_run_tracks [OF assms(1)] assms(2) by fast

theorem doEscape_modifiers_witness:
  "\<exists>s'. escape_run fifo_env [0xE0, 0x38, 0x38, 0xB8] (init_controller []) = Some ([False, False, False, False], s') \<and>
     any_bit (modifierState s') kModifierAltRight"
proof -
  have nd: "no_delete [0xE0, 0x38, 0x38, 0xB8]" by (simp add: no_delete_def)
  have mem: "(kSC_Alt, True, kModifierAltRight) \<in> set modifierTable" by (simp add: modifierTable_def)
  show ?thesis
    using doEscape_modifiers [OF nd mem, of fifo_env "init_controller []"]
    by (auto simp del: escape_run.simps)
qed

lemma fold_enqueue_key: "fold enqueue_key cs s = s\<lparr>kq := fold enqueueKeyboardData cs (kq s)\<rparr>"
  by (induction cs arbitrary: s) (simp_all add: enqueue_key_def)

lemma release_codes_alts: "release_codes (kModifierAltLeft OR kModifierAltRight) = [0xB8, 0xE0, 0xB8]"
  by (simp add: release_codes_def modifierTable_def)

text \<open>What the debugger must leave alone: it stops the machine and comes back.\<close>

definition transparent_debugger :: "('h, 'z) env \<Rightarrow> bool" where
  "transparent_debugger E \<longleftrightarrow> (\<forall>s. ctl.truncate (runDebugger E s) = ctl.truncate s)"

lemma modifierTable_find_Delete: "find (\<lambda>(c, x, m). c = kSC_Delete \<and> x = e) modifierTable = None"
  by (simp add: find_None_iff modifierTable_def)

text \<open>The mini-monitor: with debugging enabled, Delete while exactly the two Alt keys are
  down stops the mouse clock, enters the debugger and restarts the clock; the scan code is
  dropped, and the driver will see the release of both Alt keys (in the order left, right) as
  far as the keyboard queue has room for them. The tracker is back in its initial state.\<close>

theorem doEscape_monitor:
  assumes "input_ready_law E" "transparent_debugger E"
    and "c AND NOT kSC_UpBit = kSC_Delete"
    and "modifierState s = kModifierAltLeft OR kModifierAltRight" "kq_wf (kq s)"
  shows "\<exists>s'. doEscape E c s = Some (True, s') \<and> modifierState s' = 0 \<and> \<not> extendedState s' \<and>
     kq_contents (kq s') = kq_contents (kq s) @
       take (kKeyboardQueueSize - length (kq_contents (kq s))) [0xB8, 0xE0, 0xB8] \<and>
     calls s' = calls s @ [Debugger] \<and> requestQueue s' = requestQueue s"
proof -
  let ?alts = "kModifierAltLeft OR kModifierAltRight :: u16"
  obtain h1 where w1: "writeCommandPort E kCP_DisableMouseClock s = Some (s\<lparr>hw := h1\<rparr>)"
    using write_ready(2) [OF assms(1)] by blast
  define s2 where "s2 = runDebugger E (log_call Debugger (s\<lparr>hw := h1\<rparr>))"
  obtain h3 where w3: "writeCommandPort E kCP_EnableMouseClock s2 = Some (s2\<lparr>hw := h3\<rparr>)"
    using write_ready(2) [OF assms(1)] by blast
  have "ctl.truncate s2 = ctl.truncate (log_call Debugger (s\<lparr>hw := h1\<rparr>))"
    using assms(2) by (simp add: transparent_debugger_def s2_def)
  then have s2: "modifierState s2 = ?alts" "kq s2 = kq s" "calls s2 = calls s @ [Debugger]"
    "requestQueue s2 = requestQueue s"
    using assms(4) by (simp_all add: ctl.truncate_def log_call_def)
  have "scancode \<noteq> kSC_Extend" if "scancode AND NOT kSC_UpBit = kSC_Delete" for scancode
    using that by auto
  then have "doEscape E c s = Some (True, (fold enqueue_key (release_codes ?alts) (s2\<lparr>hw := h3\<rparr>))
      \<lparr>modifierState := 0, extendedState := False\<rparr>)"
    using w1 w3 s2(1) assms(3,4) modifierTable_find_Delete [of "extendedState s"]
    by (auto simp: doEscape_def Let_def s2_def [symmetric])
  then show ?thesis
    using kq.contents_enq_list [OF assms(5), of "[0xB8, 0xE0, 0xB8]"] s2
    unfolding release_codes_alts fold_enqueue_key by simp
qed

theorem doEscape_monitor_witness:
  "\<exists>s'. doEscape fifo_env 0x53 ((init_controller [])\<lparr>modifierState := 0x30,
        kq := start_keyboardQueue (replicate 32 0) init_keyboardQueue\<rparr>) = Some (True, s') \<and>
     kq_contents (kq s') = [0xB8, 0xE0, 0xB8]"
proof -
  let ?q0 = "start_keyboardQueue (replicate 32 0) init_keyboardQueue"
  have wf: "kq_wf ?q0" by (rule start_keyboardQueue_wf) simp
  have c: "kq_contents ?q0 = []" by (simp add: start_keyboardQueue_eq kq_contents_def)
  have d: "transparent_debugger (fifo_env :: ((PS2DeviceType \<times> u8) list, unit) env)"
    by (simp add: transparent_debugger_def fifo_env_def)
  show ?thesis
    using doEscape_monitor [OF fifo_env_ready d, where c = "0x53" and s = "(init_controller [])\<lparr>modifierState := 0x30,
        kq := ?q0\<rparr>"] wf c by auto
qed

section \<open>The interrupt handler and the work loop\<close>

lemma status_pending:
  assumes "output_buffer_law E pend"
  obtains st h where "inb E kCommandPort (hw s) = (st, h)" "pend h = pend (hw s)"
    "any_bit st kOutputReady \<longleftrightarrow> pend (hw s) \<noteq> []"
    "pend (hw s) \<noteq> [] \<Longrightarrow> any_bit st kMouseData \<longleftrightarrow> fst (hd (pend (hw s))) = kDT_Mouse"
proof -
  obtain st h where i: "inb E kCommandPort (hw s) = (st, h)" by fastforce
  with assms show ?thesis
    unfolding output_buffer_law_def by (intro that [of st h]) (auto split: prod.splits)
qed

lemma data_pending:
  assumes "output_buffer_law E pend" "pend h = (d, x) # rest"
  obtains h' where "inb E kDataPort h = (x, h')" "pend h' = rest"
proof -
  from assms have "fst (inb E kDataPort h) = x" "pend (snd (inb E kDataPort h)) = rest"
    unfolding output_buffer_law_def by auto
  then show ?thesis using that [of "snd (inb E kDataPort h)"] by (simp add: prod_eq_iff)
qed

lemma handler_keyboard_byte:
  assumes "output_buffer_law E pend" "pend (hw s) = (kDT_Keyboard, x) # rest" "\<not> debuggingEnabled s"
  obtains h where "pend h = rest" "interruptHandlerKeyboard E s =
    Some (log_call (InterruptOccurred SourceKeyboard) (enqueue_key x (s\<lparr>hw := h\<rparr>)))"
proof -
  obtain st h where st: "inb E kCommandPort (hw s) = (st, h)" "pend h = pend (hw s)"
    "any_bit st kOutputReady" "\<not> any_bit st kMouseData"
    by (rule status_pending [OF assms(1), of s]) (use assms(2) in auto)
  have "pend h = (kDT_Keyboard, x) # rest" using st(2) assms(2) by simp
  then obtain h' where "inb E kDataPort h = (x, h')" "pend h' = rest"
    by (rule data_pending [OF assms(1)])
  then show ?thesis
    using that [of h'] st assms(3) by (simp add: interruptHandlerKeyboard_def port_in_def)
qed

lemma loop_keyboard_step:
  assumes "passive_actions E" "kq_wf (kq s)" "kq_contents (kq s) = k # ks"
  obtains s' where "interruptOccurred_loop E s = interruptOccurred_loop E s'"
    "kq_wf (kq s')" "kq_contents (kq s') = ks"
    "ctl.truncate s' = (ctl.truncate s)\<lparr>kq := kq s', calls := calls s @ deliveries s kDT_Keyboard [k]\<rparr>"
proof -
  obtain q where q: "dequeueKeyboardData (kq s) = (Some k, q)"
    using kq.fst_deq [OF assms(2)] assms(3) by (metis list.discI list.sel(1) prod.collapse)
  have wf: "kq_wf q" "kq_contents q = ks" using kq.deq_SomeD [OF assms(2) q] assms(3) by auto
  obtain s' where s': "dispatchDriverInterrupt E kDT_Keyboard k (s\<lparr>kq := q\<rparr>) = Some s'"
    "advanced (s\<lparr>kq := q\<rparr>) (hw (s\<lparr>kq := q\<rparr>)) (deliveries (s\<lparr>kq := q\<rparr>) kDT_Keyboard [k]) s'"
    by (rule dispatch_passive [OF assms(1)])
  have "interruptOccurred_loop E s = interruptOccurred_loop E s'"
    using q s'(1) by (subst interruptOccurred_loop.simps) simp
  moreover have "kq s' = q" using advanced_fields(3) [OF s'(2)] by simp
  moreover have "ctl.truncate s' =
      (ctl.truncate s)\<lparr>kq := q, calls := calls s @ deliveries s kDT_Keyboard [k]\<rparr>"
    using s'(2) by (simp add: advanced_def ctl.truncate_def deliveries_def)
  ultimately show ?thesis using that wf by simp
qed

lemma both_bits:
  fixes st :: u8
  shows "st AND (1 OR 32) = 1 OR 32 \<longleftrightarrow> any_bit st 1 \<and> any_bit st 32"
proof -
  have b: "any_bit st 1 \<longleftrightarrow> bit st 0" "any_bit st 32 \<longleftrightarrow> bit st 5"
    using any_bit_push [of st 0] any_bit_push [of st 5] by (simp_all add: push_bit_eq_mult)
  have m: "bit (1 OR 32 :: u8) n \<longleftrightarrow> n = 0 \<or> n = 5" for n
  proof -
    have "bit (32 :: u8) n \<longleftrightarrow> n = 5"
      using bit_push_bit_iff [of 5 "1 :: u8" n] by (auto simp: push_bit_eq_mult bit_1_iff)
    then show ?thesis unfolding bit_or_iff by (simp add: bit_1_iff)
  qed
  show ?thesis
    unfolding bit_eq_iff [of "st AND (1 OR 32)"] bit_and_iff m b by (auto dest: spec [of _ 0] spec [of _ 5])
qed
lemma loop_mouse:
  assumes "output_buffer_law E pend" "passive_actions E"
    and "rest = [] \<or> fst (hd rest) = kDT_Keyboard"
    and "kq_wf (kq s)" "kq_contents (kq s) = []" "pend (hw s) = map (Pair kDT_Mouse) ms @ rest"
  shows "\<exists>s'. interruptOccurred_loop E s = Some s' \<and> pend (hw s') = rest \<and>
    advanced s (hw s') (deliveries s kDT_Mouse ms) s'"
  using assms(4-6)
proof (induction ms arbitrary: s)
  case Nil
  have q: "dequeueKeyboardData (kq s) = (None, kq s)" by (rule kq.deq_empty [OF Nil(1,2)])
  obtain st h where st: "inb E kCommandPort (hw s) = (st, h)" "pend h = pend (hw s)"
    "\<not> (any_bit st kOutputReady \<and> any_bit st kMouseData)"
    by (rule status_pending [OF assms(1), of s]) (use assms(3) Nil(3) in auto)
  have "\<not> st AND (kOutputReady OR kMouseData) = kOutputReady OR kMouseData"
    unfolding both_bits using st(3) by simp
  then show ?case
    using q st(1,2) Nil(3) by (subst interruptOccurred_loop.simps) (simp add: port_in_def)
next
  case (Cons m ms)
  have q: "dequeueKeyboardData (kq s) = (None, kq s)" by (rule kq.deq_empty [OF Cons.prems(1,2)])
  have p: "pend (hw s) = (kDT_Mouse, m) # map (Pair kDT_Mouse) ms @ rest" using Cons.prems(3) by simp
  obtain st h where st: "inb E kCommandPort (hw s) = (st, h)" "pend h = pend (hw s)"
    "any_bit st kOutputReady" "any_bit st kMouseData"
    by (rule status_pending [OF assms(1), of s]) (use p in auto)
  have both: "st AND (kOutputReady OR kMouseData) = kOutputReady OR kMouseData"
    unfolding both_bits using st(3,4) by simp
  have "pend h = (kDT_Mouse, m) # map (Pair kDT_Mouse) ms @ rest" using st(2) p by simp
  then obtain h' where h': "inb E kDataPort h = (m, h')" "pend h' = map (Pair kDT_Mouse) ms @ rest"
    by (rule data_pending [OF assms(1)])
  obtain s' where d: "dispatchDriverInterrupt E kDT_Mouse m (s\<lparr>hw := h'\<rparr>) = Some s'"
    and a: "advanced s h' (deliveries s kDT_Mouse [m]) s'"
    by (rule dispatch_passive_hw [OF assms(2)])
  note fld = advanced_fields [OF a]
  have "\<exists>s''. interruptOccurred_loop E s' = Some s'' \<and> pend (hw s'') = rest \<and>
      advanced s' (hw s'') (deliveries s' kDT_Mouse ms) s''"
    using Cons.prems(1,2) h'(2) by (intro Cons.IH) (simp_all add: fld)
  moreover have "interruptOccurred_loop E s = interruptOccurred_loop E s'"
    using q st(1) both h'(1) d by (subst interruptOccurred_loop.simps) (simp add: port_in_def)
  ultimately show ?case
    using advanced_trans [OF a] by (force simp: fld deliveries_Cons)
qed

lemma loop_delivers:
  assumes "output_buffer_law E pend" "passive_actions E"
    and "rest = [] \<or> fst (hd rest) = kDT_Keyboard"
    and "kq_wf (kq s)" "kq_contents (kq s) = ks" "pend (hw s) = map (Pair kDT_Mouse) ms @ rest"
  shows "\<exists>s'. interruptOccurred_loop E s = Some s' \<and> pend (hw s') = rest \<and>
    kq_wf (kq s') \<and> kq_contents (kq s') = [] \<and>
    calls s' = calls s @ deliveries s kDT_Keyboard ks @ deliveries s kDT_Mouse ms"
  using assms(4-6)
proof (induction ks arbitrary: s)
  case Nil
  obtain s' where s': "interruptOccurred_loop E s = Some s'" "pend (hw s') = rest"
    and a: "advanced s (hw s') (deliveries s kDT_Mouse ms) s'"
    using loop_mouse [OF assms(1-3) Nil] by blast
  show ?case
    using s' Nil(1,2) by (intro exI [of _ s']) (simp add: advanced_fields(2,3) [OF a])
next
  case (Cons k ks)
  obtain s' where s': "interruptOccurred_loop E s = interruptOccurred_loop E s'"
    "kq_wf (kq s')" "kq_contents (kq s') = ks"
    "ctl.truncate s' = (ctl.truncate s)\<lparr>kq := kq s', calls := calls s @ deliveries s kDT_Keyboard [k]\<rparr>"
    by (rule loop_keyboard_step [OF assms(2) Cons.prems(1,2)])
  have fld: "hw s' = hw s" "calls s' = calls s @ deliveries s kDT_Keyboard [k]"
    "deliveries s' d xs = deliveries s d xs" for d xs
    using s'(4) by (cases d; simp add: ctl.truncate_def deliveries_def)+
  obtain s'' where s'': "interruptOccurred_loop E s' = Some s''" "pend (hw s'') = rest"
    "kq_wf (kq s'')" "kq_contents (kq s'') = []"
    "calls s'' = calls s' @ deliveries s' kDT_Keyboard ks @ deliveries s' kDT_Mouse ms"
    using Cons.IH [OF s'(2,3)] Cons.prems(3) fld(1) by auto
  have "calls s'' = calls s @ deliveries s kDT_Keyboard (k # ks) @ deliveries s kDT_Mouse ms"
    using s''(5) by (subst deliveries_Cons [symmetric]) (simp only: fld append_assoc)
  with s'(1) s''(1-4) show ?case by auto
qed

text \<open>The keyboard interrupt handler, for every possible head of the output buffer: a
  keyboard byte is read and queued (dropped if the queue is full) and the work loop is woken; a
  mouse byte is left in the hardware and the mouse's event source is woken; with nothing
  waiting nothing happens.\<close>

theorem interruptHandlerKeyboard_cases:
  assumes "output_buffer_law E pend" "\<not> debuggingEnabled s" "kq_wf (kq s)"
  shows "\<exists>s'. interruptHandlerKeyboard E s = Some s' \<and>
     (case pend (hw s) of
        [] \<Rightarrow> pend (hw s') = [] \<and> kq s' = kq s \<and> calls s' = calls s
      | (kDT_Mouse, x) # rest \<Rightarrow> pend (hw s') = pend (hw s) \<and> kq s' = kq s \<and>
          calls s' = calls s @ [InterruptOccurred SourceMouse]
      | (kDT_Keyboard, x) # rest \<Rightarrow> pend (hw s') = rest \<and> kq_wf (kq s') \<and>
          kq_contents (kq s') = kq_contents (kq s) @
            (if length (kq_contents (kq s)) < kKeyboardQueueSize then [x] else []) \<and>
          calls s' = calls s @ [InterruptOccurred SourceKeyboard])"
proof (cases "pend (hw s)")
  case Nil
  obtain st h where "inb E kCommandPort (hw s) = (st, h)" "pend h = []" "\<not> any_bit st kOutputReady"
    by (rule status_pending [OF assms(1), of s]) (use Nil in auto)
  then show ?thesis using Nil by (simp add: interruptHandlerKeyboard_def port_in_def)
next
  case (Cons dx rest)
  obtain d x where dx: "dx = (d, x)" by fastforce
  show ?thesis
  proof (cases d)
    case kDT_Mouse
    obtain st h where "inb E kCommandPort (hw s) = (st, h)" "pend h = pend (hw s)"
      "any_bit st kOutputReady" "any_bit st kMouseData"
      by (rule status_pending [OF assms(1), of s]) (use Cons dx kDT_Mouse in auto)
    then show ?thesis using Cons dx kDT_Mouse
      by (simp add: interruptHandlerKeyboard_def port_in_def interruptHandlerMouse_def log_call_def)
  next
    case kDT_Keyboard
    have p: "pend (hw s) = (kDT_Keyboard, x) # rest" using Cons dx kDT_Keyboard by simp
    obtain h where "pend h = rest" "interruptHandlerKeyboard E s =
        Some (log_call (InterruptOccurred SourceKeyboard) (enqueue_key x (s\<lparr>hw := h\<rparr>)))"
      by (rule handler_keyboard_byte [OF assms(1) p assms(2)])
    then show ?thesis using p kq_wf_enqueue [OF assms(3)] kq_contents_enqueue [OF assms(3)]
      by (simp add: enqueue_key_def log_call_def)
  qed
qed

theorem interruptHandlerKeyboard_cases_witness:
  "\<exists>s'. interruptHandlerKeyboard fifo_env ((init_controller [(kDT_Mouse, 8)])
       \<lparr>kq := start_keyboardQueue (replicate 32 0) init_keyboardQueue\<rparr>) = Some s' \<and>
     calls s' = [InterruptOccurred SourceMouse] \<and> hw s' = [(kDT_Mouse, 8)]"
proof -
  have wf: "kq_wf (start_keyboardQueue (replicate 32 0) init_keyboardQueue)"
    by (rule start_keyboardQueue_wf) simp
  show ?thesis
    using interruptHandlerKeyboard_cases [OF fifo_env_law, where
        s = "(init_controller [(kDT_Mouse, 8)])
          \<lparr>kq := start_keyboardQueue (replicate 32 0) init_keyboardQueue\<rparr>"] wf
    by (auto simp: init_controller_def)
qed

text \<open>The work loop's handler: with the hardware on line it returns, after handing every
  queued keyboard byte to the keyboard driver, oldest first, and then the mouse bytes at the
  head of the output buffer to the mouse driver. It stops at a keyboard byte in the hardware
  (that one belongs to the keyboard interrupt) and leaves the keyboard queue empty.\<close>

theorem interruptOccurred_delivers:
  assumes "output_buffer_law E pend" "passive_actions E" "\<not> hardwareOffline s"
    and "rest = [] \<or> fst (hd rest) = kDT_Keyboard"
    and "kq_wf (kq s)" "pend (hw s) = map (Pair kDT_Mouse) ms @ rest"
  shows "\<exists>s'. interruptOccurred E s = Some s' \<and> pend (hw s') = rest \<and> kq_contents (kq s') = [] \<and>
    calls s' = calls s @ deliveries s kDT_Keyboard (kq_contents (kq s)) @ deliveries s kDT_Mouse ms"
  using loop_delivers [OF assms(1,2,4,5) refl assms(6)] assms(3)
  by (auto simp: interruptOccurred_def)

theorem interruptOccurred_delivers_witness:
  "\<exists>s'. interruptOccurred fifo_env ((init_controller [(kDT_Mouse, 8), (kDT_Mouse, 1), (kDT_Keyboard, 9)])
       \<lparr>kq := start_keyboardQueue (replicate 32 0) init_keyboardQueue,
        interruptInstalledMouse := True\<rparr>) = Some s' \<and>
     hw s' = [(kDT_Keyboard, 9)] \<and>
     calls s' = [InterruptAction kDT_Mouse 8, InterruptAction kDT_Mouse 1]"
proof -
  let ?q0 = "start_keyboardQueue (replicate 32 0) init_keyboardQueue"
  have wf: "kq_wf ?q0" by (rule start_keyboardQueue_wf) simp
  have c: "kq_contents ?q0 = []" by (simp add: start_keyboardQueue_eq kq_contents_def)
  show ?thesis
    using interruptOccurred_delivers [OF fifo_env_law fifo_env_passive, where
        s = "(init_controller [(kDT_Mouse, 8), (kDT_Mouse, 1), (kDT_Keyboard, 9)])
          \<lparr>kq := ?q0, interruptInstalledMouse := True\<rparr>" and
        ms = "[8, 1]" and rest = "[(kDT_Keyboard, 9)]"] wf c
    by (auto simp: deliveries_def)
qed

text \<open>
  A burst of keyboard interrupts: \<open>n\<close> runs of the handler before the work loop gets to run.
\<close>

primrec keyboard_interrupts ::
  "('h, 'z) env \<Rightarrow> nat \<Rightarrow> ('h, 'z) ctl_scheme \<Rightarrow> ('h, 'z) ctl_scheme option" where
  "keyboard_interrupts E 0 s = Some s"
| "keyboard_interrupts E (Suc n) s =
     Option.bind (interruptHandlerKeyboard E s) (keyboard_interrupts E n)"

lemma keyboard_interrupts_queue:
  assumes "output_buffer_law E pend"
    and "\<not> debuggingEnabled s" "pend (hw s) = map (Pair kDT_Keyboard) xs @ rest"
  shows "\<exists>h. keyboard_interrupts E (length xs) s = Some (s\<lparr>hw := h,
       kq := fold enqueueKeyboardData xs (kq s),
       calls := calls s @ replicate (length xs) (InterruptOccurred SourceKeyboard)\<rparr>) \<and> pend h = rest"
  using assms(2,3)
proof (induction xs arbitrary: s)
  case Nil
  then show ?case by (intro exI [of _ "hw s"]) simp
next
  case (Cons x xs)
  have p: "pend (hw s) = (kDT_Keyboard, x) # map (Pair kDT_Keyboard) xs @ rest" using Cons.prems(2) by simp
  obtain h where h: "pend h = map (Pair kDT_Keyboard) xs @ rest" "interruptHandlerKeyboard E s =
    Some (log_call (InterruptOccurred SourceKeyboard) (enqueue_key x (s\<lparr>hw := h\<rparr>)))"
    by (rule handler_keyboard_byte [OF assms(1) p Cons.prems(1)])
  define s1 where "s1 = log_call (InterruptOccurred SourceKeyboard) (enqueue_key x (s\<lparr>hw := h\<rparr>))"
  have s1: "hw s1 = h" "debuggingEnabled s1 = debuggingEnabled s" "kq s1 = enqueueKeyboardData x (kq s)"
    "calls s1 = calls s @ [InterruptOccurred SourceKeyboard]"
    and upd: "s1\<lparr>hw := a, kq := b, calls := c\<rparr> = s\<lparr>hw := a, kq := b, calls := c\<rparr>" for a b c
    by (simp_all add: s1_def log_call_def enqueue_key_def)
  obtain h' where "keyboard_interrupts E (length xs) s1 = Some (s1\<lparr>hw := h',
       kq := fold enqueueKeyboardData xs (kq s1),
       calls := calls s1 @ replicate (length xs) (InterruptOccurred SourceKeyboard)\<rparr>) \<and> pend h' = rest"
    using Cons.IH [of s1] Cons.prems(1) h(1) s1(1,2) by auto
  then show ?case
    using h(2) by (intro exI [of _ h']) (simp only: upd s1 s1_def [symmetric] keyboard_interrupts.simps
        list.size Option.bind.simps append_assoc append.simps fold.simps comp_apply replicate_Suc
        add_0_right add_Suc_right simp_thms)
qed

text \<open>C24. From the wire to the driver: a burst of up to 32 keyboard bytes, each read by its own
  interrupt before the work loop runs, wakes the work loop once per byte and then reaches the
  keyboard driver complete and in order; of a longer burst the first 32 arrive.\<close>

theorem keystrokes_in_order:
  assumes "output_buffer_law E pend" "passive_actions E"
    and "\<not> debuggingEnabled s" "\<not> hardwareOffline s" "interruptInstalledKeyboard s"
    and "kq_wf (kq s)" "kq_contents (kq s) = []" "pend (hw s) = map (Pair kDT_Keyboard) xs"
  shows "\<exists>s1 s2. keyboard_interrupts E (length xs) s = Some s1 \<and> interruptOccurred E s1 = Some s2 \<and>
    calls s2 = calls s @ replicate (length xs) (InterruptOccurred SourceKeyboard) @
      map (InterruptAction kDT_Keyboard) (take kKeyboardQueueSize xs) \<and>
    kq_contents (kq s2) = [] \<and> pend (hw s2) = []"
proof -
  let ?q = "fold enqueueKeyboardData xs (kq s)"
  obtain h where h: "keyboard_interrupts E (length xs) s = Some (s\<lparr>hw := h, kq := ?q,
      calls := calls s @ replicate (length xs) (InterruptOccurred SourceKeyboard)\<rparr>)" "pend h = []"
    using keyboard_interrupts_queue [OF assms(1,3), of xs "[]"] assms(8) by auto
  define s1 where "s1 = s\<lparr>hw := h, kq := ?q,
      calls := calls s @ replicate (length xs) (InterruptOccurred SourceKeyboard)\<rparr>"
  have q: "kq_wf (kq s1)" "kq_contents (kq s1) = take kKeyboardQueueSize xs"
    using kq.contents_enq_list [OF assms(6), of xs] assms(7) by (simp_all add: s1_def)
  have p: "pend (hw s1) = map (Pair kDT_Mouse) [] @ []" using h(2) by (simp add: s1_def)
  obtain s2 where s2: "interruptOccurred_loop E s1 = Some s2" "pend (hw s2) = []" "kq_contents (kq s2) = []"
    "calls s2 = calls s1 @ deliveries s1 kDT_Keyboard (take kKeyboardQueueSize xs) @ deliveries s1 kDT_Mouse []"
    using loop_delivers [OF assms(1,2) _ q p] by blast
  have "interruptOccurred E s1 = Some s2"
    using s2(1) assms(4) by (simp add: interruptOccurred_def s1_def)
  moreover have "calls s2 = calls s @ replicate (length xs) (InterruptOccurred SourceKeyboard) @
      map (InterruptAction kDT_Keyboard) (take kKeyboardQueueSize xs)"
    using s2(4) assms(5) by (simp add: deliveries_def s1_def)
  ultimately show ?thesis using h(1) s2(2,3) unfolding s1_def [symmetric] by blast
qed

theorem keystrokes_in_order_witness:
  "\<exists>s1 s2. keyboard_interrupts fifo_env 2 ((init_controller [(kDT_Keyboard, 0x1E), (kDT_Keyboard, 0x9E)])
       \<lparr>kq := start_keyboardQueue (replicate 32 0) init_keyboardQueue,
        interruptInstalledKeyboard := True\<rparr>) = Some s1 \<and>
     interruptOccurred fifo_env s1 = Some s2 \<and>
     calls s2 = [InterruptOccurred SourceKeyboard, InterruptOccurred SourceKeyboard,
       InterruptAction kDT_Keyboard 0x1E, InterruptAction kDT_Keyboard 0x9E]"
proof -
  let ?q0 = "start_keyboardQueue (replicate 32 0) init_keyboardQueue"
  have wf: "kq_wf ?q0" by (rule start_keyboardQueue_wf) simp
  have c: "kq_contents ?q0 = []" by (simp add: start_keyboardQueue_eq kq_contents_def)
  show ?thesis
    using keystrokes_in_order [OF fifo_env_law fifo_env_passive, where
        s = "(init_controller [(kDT_Keyboard, 0x1E), (kDT_Keyboard, 0x9E)])
          \<lparr>kq := ?q0, interruptInstalledKeyboard := True\<rparr>" and xs = "[0x1E, 0x9E]"] wf c
    by (simp add: init_controller_def numeral_2_eq_2 del: keyboard_interrupts.simps) blast
qed

end
