(* ===== verification/Ps2Hardware.thy ===== *)
theory Ps2Hardware
  imports Ps2Power Ps2InterruptProps
begin

text \<open>
  What the drivers rely on in the keyboard controller beside its output buffer: the command
  byte, which is read with one command and written with another. The laws are hypotheses of
  the lemmas; an instance for the closed examples is at the end.
\<close>

section \<open>The command byte\<close>

text \<open>
  \<open>cb\<close> is the command byte the hardware holds, \<open>awaiting\<close> says that the next byte written to the
  data port is a new command byte.
\<close>

definition command_byte_law ::
  "('h, 'z) env \<Rightarrow> ('h \<Rightarrow> (PS2DeviceType \<times> u8) list) \<Rightarrow> ('h \<Rightarrow> u8) \<Rightarrow> ('h \<Rightarrow> bool) \<Rightarrow> bool" where
  "command_byte_law E pend cb awaiting \<longleftrightarrow>
     (\<forall>h p. cb (snd (inb E p h)) = cb h \<and> awaiting (snd (inb E p h)) = awaiting h) \<and>
     (\<forall>h c. cb (outb E kCommandPort c h) = cb h \<and>
        awaiting (outb E kCommandPort c h) = (c = kCP_SetCommandByte)) \<and>
     (\<forall>h. pend (outb E kCommandPort kCP_GetCommandByte h) = pend h @ [(kDT_Keyboard, cb h)]) \<and>
     (\<forall>h. pend (outb E kCommandPort kCP_SetCommandByte h) = pend h) \<and>
     (\<forall>h b. \<not> awaiting (outb E kDataPort b h) \<and>
        cb (outb E kDataPort b h) = (if awaiting h then b else cb h) \<and>
        (awaiting h \<longrightarrow> pend (outb E kDataPort b h) = pend h))"

lemma wait_input_ready:
  "input_ready_law E \<Longrightarrow> wait_input E s = Some (s\<lparr>hw := snd (inb E kCommandPort (hw s))\<rparr>)"
  by (subst wait_input.simps) (simp add: input_ready_law_def port_in_def split_beta)

lemma write_command_byte:
  assumes "input_ready_law E" "output_buffer_law E pend" "command_byte_law E pend cb awaiting"
  obtains h where "writeCommandPort E c s = Some (s\<lparr>hw := h\<rparr>)" "cb h = cb (hw s)"
    "awaiting h = (c = kCP_SetCommandByte)"
    "c = kCP_GetCommandByte \<Longrightarrow> pend h = pend (hw s) @ [(kDT_Keyboard, cb (hw s))]"
    "c = kCP_SetCommandByte \<Longrightarrow> pend h = pend (hw s)"
proof -
  let ?h = "snd (inb E kCommandPort (hw s))"
  have "pend ?h = pend (hw s)"
    using assms(2) unfolding output_buffer_law_def by (simp add: split_beta)
  then show ?thesis
    using that [of "outb E kCommandPort c ?h"] assms(3)
    by (simp add: writeCommandPort_def wait_input_ready [OF assms(1)] port_out_def command_byte_law_def)
qed

lemma write_data_byte:
  assumes "input_ready_law E" "output_buffer_law E pend" "command_byte_law E pend cb awaiting"
  obtains h where "writeDataPort E b s = Some (s\<lparr>hw := h\<rparr>)"
    "cb h = (if awaiting (hw s) then b else cb (hw s))" "\<not> awaiting h"
    "awaiting (hw s) \<Longrightarrow> pend h = pend (hw s)"
proof -
  let ?h = "snd (inb E kCommandPort (hw s))"
  have "pend ?h = pend (hw s)" "awaiting ?h = awaiting (hw s)" "cb ?h = cb (hw s)"
    using assms(2,3) unfolding output_buffer_law_def command_byte_law_def by (simp_all add: split_beta)
  then show ?thesis
    using that [of "outb E kDataPort b ?h"] assms(3)
    by (simp add: writeDataPort_def wait_input_ready [OF assms(1)] port_out_def command_byte_law_def)
qed

text \<open>Whatever reading a port keeps, reading a byte keeps: here any property \<open>I\<close> of the hardware.\<close>

definition inb_keeps :: "('h, 'z) env \<Rightarrow> ('h \<Rightarrow> bool) \<Rightarrow> bool" where
  "inb_keeps E I \<longleftrightarrow> (\<forall>p h. I h \<longrightarrow> I (snd (inb E p h)))"

lemma inb_keepsD: "inb_keeps E I \<Longrightarrow> I h \<Longrightarrow> inb E p h = (b, h') \<Longrightarrow> I h'"
  unfolding inb_keeps_def by (metis snd_conv)

lemma command_byte_inb_keeps:
  "command_byte_law E pend cb awaiting \<Longrightarrow> inb_keeps E (\<lambda>h. cb h = c \<and> awaiting h = a)"
  by (auto simp: command_byte_law_def inb_keeps_def)

lemma poll_output_keeps:
  "poll_output E n st s = (n', st', s') \<Longrightarrow> inb_keeps E I \<Longrightarrow> I (hw s) \<Longrightarrow> I (hw s')"
proof (induction n arbitrary: st s)
  case 0
  then show ?case by simp
next
  case (Suc n)
  obtain v h where i: "inb E kCommandPort (hw s) = (v, h)" by fastforce
  have "I h" using Suc.prems(2,3) i by (rule inb_keepsD)
  then show ?case
    using Suc.IH [of v "s\<lparr>hw := h\<rparr>"] Suc.prems i by (auto simp: port_in_def split: if_splits)
qed

lemma fetch_byte_keeps:
  assumes "fetch_byte E dt n s = (n', r, s')" "inb_keeps E I" "I (hw s)"
  shows "I (hw s')"
proof -
  obtain m st s1 where p: "poll_output E n 0 s = (m, st, s1)" by (metis surj_pair)
  note hw1 = poll_output_keeps [OF p assms(2,3)]
  then have "I (snd (inb E kDataPort (hw s1)))"
    using assms(2) unfolding inb_keeps_def by blast
  then show ?thesis
    using assms(1,3) p hw1
    by (auto simp: fetch_byte_def port_in_def split_beta split: option.splits if_splits)
qed

lemma dispatch_passive_same_hw:
  assumes "passive_actions E" "dispatchDriverInterrupt E d x s = Some s'"
  shows "hw s' = hw s"
  using assms(2) dispatch_passive [OF assms(1), of d x s] advanced_fields(1) by (metis option.inject)

lemma readDataPort_keeps:
  assumes "readDataPort E dt s = Some (b, s')" "passive_actions E" "inb_keeps E I" "I (hw s)"
  shows "I (hw s')"
proof -
  have "passive_actions E \<longrightarrow> inb_keeps E I \<longrightarrow> I (hw s) \<longrightarrow> I (hw (snd y))"
    if "readDataPort_loop E dt n s = Some y" for n y
  proof (rule readDataPort_loop.raw_induct [OF _ that], intro impI)
    fix f E dt n and s :: "('a, 'b) ctl_scheme" and y
    assume IH: "\<And>E dt n s y. f E dt n s = Some y \<Longrightarrow>
        passive_actions E \<longrightarrow> inb_keeps E I \<longrightarrow> I (hw s) \<longrightarrow> I (hw (snd y))"
      and y: "(case fetch_byte E dt n s of (n', r, s1) \<Rightarrow>
        (case r of
           TimedOut \<Rightarrow> Some (0, log_call (LogTimedOut dt) s1)
         | Fetched requestedStream readByte \<Rightarrow>
             if requestedStream then Some (readByte, s1)
             else Option.bind (dispatchDriverInterrupt E (other_device dt) readByte s1)
                    (\<lambda>s2. f E dt n' s2))) = Some y"
      and E: "passive_actions E" "inb_keeps E I" "I (hw s)"
    obtain n' r s1 where f: "fetch_byte E dt n s = (n', r, s1)" by (metis surj_pair)
    note hw1 = fetch_byte_keeps [OF f E(2,3)]
    show "I (hw (snd y))"
    proof (cases r)
      case TimedOut
      then show ?thesis using y f hw1 by (auto simp: log_call_def)
    next
      case (Fetched own x)
      show ?thesis
      proof (cases own)
        case True
        then show ?thesis using y f hw1 Fetched by auto
      next
        case False
        then obtain s2 where s2: "dispatchDriverInterrupt E (other_device dt) x s1 = Some s2"
          "f E dt n' s2 = Some y"
          using y f Fetched by (auto simp: bind_Some_iff)
        then have "I (hw s2)" using hw1 dispatch_passive_same_hw [OF E(1) s2(1)] by simp
        then show ?thesis using IH [OF s2(2)] E(1,2) by blast
      qed
    qed
  qed
  from this [of readTimeout "(b, s')"] assms show ?thesis by (simp add: readDataPort_def)
qed

section \<open>The wake-up and start-up sequences\<close>

text \<open>
  Only mouse bytes wait in the hardware and none in the keyboard queue: a keyboard byte there
  would be taken for the command byte.
\<close>

definition no_keyboard_byte ::
  "('h \<Rightarrow> (PS2DeviceType \<times> u8) list) \<Rightarrow> ('h, 'z) ctl_scheme \<Rightarrow> u8 list \<Rightarrow> bool" where
  "no_keyboard_byte pend s ms \<longleftrightarrow>
     keyboardQueue (kq s) = [] \<and> pend (hw s) = map (Pair kDT_Mouse) ms"

lemma update_commandByte_own:
  assumes "input_ready_law E" "output_buffer_law E pend" "command_byte_law E pend cb awaiting"
    and "passive_actions E" "no_keyboard_byte pend s ms"
  obtains s' where "update_commandByte E clr st s = Some s'" "pend (hw s') = []" "\<not> awaiting (hw s')"
    "cb (hw s') = (cb (hw s) AND NOT clr) OR st" "advanced s (hw s') (deliveries s kDT_Mouse ms) s'"
proof -
  have q: "keyboardQueue (kq s) = []" and p: "pend (hw s) = map (Pair kDT_Mouse) ms"
    using assms(5) by (auto simp: no_keyboard_byte_def)
  obtain h1 where w1: "writeCommandPort E kCP_GetCommandByte s = Some (s\<lparr>hw := h1\<rparr>)" "cb h1 = cb (hw s)"
    "pend h1 = pend (hw s) @ [(kDT_Keyboard, cb (hw s))]"
    using write_command_byte [OF assms(1-3), of kCP_GetCommandByte s] by auto
  have del: "deliveries (s\<lparr>hw := h1\<rparr>) kDT_Mouse ms = deliveries s kDT_Mouse ms"
    by (rule advanced_fields(5) [OF advanced_hw])
  obtain s2 where r: "readDataPort E kDT_Keyboard (s\<lparr>hw := h1\<rparr>) = Some (cb (hw s), s2)"
    "pend (hw s2) = []"
    and a: "advanced s (hw s2) (deliveries s kDT_Mouse ms) s2"
    using readDataPort_own [OF assms(2,4), of kDT_Keyboard "s\<lparr>hw := h1\<rparr>" ms "cb (hw s)" "[]"] w1(3) p q del
    by auto
  obtain h3 where w3: "writeCommandPort E kCP_SetCommandByte s2 = Some (s2\<lparr>hw := h3\<rparr>)"
    "awaiting h3" "pend h3 = []"
    using write_command_byte [OF assms(1-3), of kCP_SetCommandByte s2] r(2) by auto
  let ?b = "(cb (hw s) AND NOT clr) OR st"
  obtain h4 where w4: "writeDataPort E ?b (s2\<lparr>hw := h3\<rparr>) = Some (s2\<lparr>hw := h4\<rparr>)"
    "cb h4 = ?b" "\<not> awaiting h4" "pend h4 = []"
    using write_data_byte [OF assms(1-3), of ?b "s2\<lparr>hw := h3\<rparr>"] w3(2,3) by auto
  have "update_commandByte E clr st s = Some (s2\<lparr>hw := h4\<rparr>)"
    using w1(1) r(1) w3(1) w4(1) by (simp add: update_commandByte_def)
  moreover have "advanced s h4 (deliveries s kDT_Mouse ms) (s2\<lparr>hw := h4\<rparr>)"
    using advanced_trans [OF a advanced_hw] by simp
  ultimately show ?thesis using that w4 by simp
qed

lemma drain_output_empties:
  assumes "output_buffer_law E pend"
  shows "\<exists>h. drain_output E s = Some (s\<lparr>hw := h\<rparr>) \<and> pend h = [] \<and>
    (command_byte_law E pend cb awaiting \<longrightarrow> cb h = cb (hw s))"
proof (induction "pend (hw s)" arbitrary: s)
  case Nil
  obtain st h where st: "inb E kCommandPort (hw s) = (st, h)" "pend h = pend (hw s)" "\<not> any_bit st kOutputReady"
    by (rule status_pending [OF assms(1), of s]) (use Nil in auto)
  have "command_byte_law E pend cb awaiting \<longrightarrow> cb h = cb (hw s)"
    using st(1) unfolding command_byte_law_def by (metis snd_conv)
  then show ?case
    using st Nil by (subst drain_output.simps) (auto simp: port_in_def)
next
  case (Cons dx rest)
  obtain st h where st: "inb E kCommandPort (hw s) = (st, h)" "pend h = pend (hw s)" "any_bit st kOutputReady"
    by (rule status_pending [OF assms(1), of s]) (use Cons.hyps(2) in auto)
  have "pend h = (fst dx, snd dx) # rest" using Cons.hyps(2) st(2) by simp
  then obtain h' where h': "inb E kDataPort h = (snd dx, h')" "pend h' = rest"
    by (rule data_pending [OF assms(1)])
  have cb: "command_byte_law E pend cb awaiting \<longrightarrow> cb h' = cb (hw s)"
    using st(1) h'(1) unfolding command_byte_law_def by (metis snd_conv)
  have "drain_output E s = drain_output E (s\<lparr>hw := h'\<rparr>)"
    using st h'(1) by (subst drain_output.simps) (simp add: port_in_def)
  then show ?case
    using Cons.hyps(1) [of "s\<lparr>hw := h'\<rparr>"] h'(2) cb by auto
qed

text \<open>
  A concrete keyboard controller for the closed examples: the bytes waiting, the command byte,
  and whether a command byte is awaited. It answers no other command.
\<close>

type_synonym sample_hw = "(PS2DeviceType \<times> u8) list \<times> u8 \<times> bool"

definition sample_env :: "(sample_hw, 'z) env" where
  "sample_env = \<lparr>
     inb = (\<lambda>p (out, c, w). case inb (fifo_env :: ((PS2DeviceType \<times> u8) list, unit) env) p out of
              (b, out') \<Rightarrow> (b, (out', c, w))),
     outb = (\<lambda>p b (out, c, w).
              if p = kCommandPort
              then (if b = kCP_GetCommandByte then out @ [(kDT_Keyboard, c)] else out, c,
                    b = kCP_SetCommandByte)
              else (out, if w then b else c, False)),
     runInterruptAction = (\<lambda>a t b s. Some s),
     runPowerControlAction = (\<lambda>a t w s. Some s),
     runDebugger = (\<lambda>s. s)\<rparr>"

lemma sample_env_laws:
  "input_ready_law sample_env" "output_buffer_law sample_env fst" "passive_actions sample_env"
  "command_byte_law sample_env fst (\<lambda>h. fst (snd h)) (\<lambda>h. snd (snd h))"
proof -
  note ob = fifo_env_law [unfolded output_buffer_law_def, where 'a = unit]
  show "output_buffer_law sample_env fst"
    using ob by (auto simp: output_buffer_law_def sample_env_def split_beta)
  show "input_ready_law sample_env"
    using fifo_env_ready [where 'a = unit] by (auto simp: input_ready_law_def sample_env_def split_beta)
  show "passive_actions sample_env"
    by (simp add: passive_actions_def sample_env_def)
  show "command_byte_law sample_env fst (\<lambda>h. fst (snd h)) (\<lambda>h. snd (snd h))"
    by (simp add: command_byte_law_def sample_env_def split_beta)
qed

text \<open>\<open>start\<close> leaves the hardware in the state the drivers are told to find: whatever the
  two devices answer to being reset, the sequence returns, the output buffer is empty, and the
  command byte has the mouse interrupt and the disabled mouse clock cleared and all its other
  bits unchanged.\<close>

theorem start_hardware_ready:
  assumes "input_ready_law E" "output_buffer_law E pend" "command_byte_law E pend cb awaiting"
    and "passive_actions E" "no_keyboard_byte pend s ms"
  shows "\<exists>s'. start_hardware E s = Some s' \<and> pend (hw s') = [] \<and>
    cb (hw s') = cb (hw s) AND NOT (kCB_EnableMouseIRQ OR kCB_DisableMouseClock)"
proof -
  let ?c = "cb (hw s) AND NOT (kCB_EnableMouseIRQ OR kCB_DisableMouseClock)"
  let ?I = "\<lambda>h. cb h = ?c \<and> awaiting h = False"
  note keeps = command_byte_inb_keeps [OF assms(3), of ?c False]
  have wr: "\<exists>s2. writeDataPort E b s1 = Some s2 \<and> ?I (hw s2)" if "?I (hw s1)"
    for b and s1 :: "('a, 'b) ctl_scheme"
    using that write_data_byte [OF assms(1-3), of b s1] by (metis ctl.select_convs(1) ctl.surjective ctl.update_convs(1))
  have rd: "\<exists>b s2. readDataPort E d s1 = Some (b, s2) \<and> ?I (hw s2)" if "?I (hw s1)"
    for d and s1 :: "('a, 'b) ctl_scheme"
    using readDataPort_served [OF assms(2,4), of d s1] readDataPort_keeps [OF _ assms(4) keeps that]
    by blast
  obtain s1 where s1: "update_commandByte E (kCB_EnableMouseIRQ OR kCB_DisableMouseClock) 0 s = Some s1"
    "?I (hw s1)"
    by (rule update_commandByte_own [OF assms, of "kCB_EnableMouseIRQ OR kCB_DisableMouseClock" 0]) auto
  obtain s2 where s2: "writeDataPort E kDP_SetDefaultsAndDisable s1 = Some s2" "?I (hw s2)"
    using wr [OF s1(2)] by blast
  obtain b3 s3 where s3: "readDataPort E kDT_Keyboard s2 = Some (b3, s3)" "?I (hw s3)"
    using rd [OF s2(2)] by blast
  obtain h4 where s4: "writeCommandPort E kCP_TransmitToMouse s3 = Some (s3\<lparr>hw := h4\<rparr>)" "?I h4"
    using write_command_byte [OF assms(1-3), of kCP_TransmitToMouse s3] s3(2) by auto
  obtain s5 where s5: "writeDataPort E kDP_SetDefaultsAndDisable (s3\<lparr>hw := h4\<rparr>) = Some s5" "?I (hw s5)"
    using wr [of "s3\<lparr>hw := h4\<rparr>"] s4(2) by auto
  obtain b6 s6 where s6: "readDataPort E kDT_Mouse s5 = Some (b6, s6)" "?I (hw s6)"
    using rd [OF s5(2)] by blast
  obtain h where "drain_output E s6 = Some (s6\<lparr>hw := h\<rparr>)" "pend h = []" "cb h = ?c"
    using drain_output_empties [OF assms(2), of s6 cb awaiting] assms(3) s6(2) by auto
  then show ?thesis
    using s1(1) s2(1) s3(1) s4(1) s5(1) s6(1) by (simp add: start_hardware_def)
qed

theorem start_hardware_ready_witness:
  "\<exists>s'. start_hardware sample_env (init_controller ([(kDT_Mouse, 0xAA)], 0x67, False)) = Some s' \<and>
     fst (snd (hw s')) = 0x45"
  using start_hardware_ready [OF sample_env_laws(1,2,4,3), where
      s = "init_controller ([(kDT_Mouse, 0xAA)], 0x67, False)" and ms = "[0xAA]"]
  by (auto simp: no_keyboard_byte_def init_keyboardQueue_def)

end
