(* ===== verification/Ps2Registration.thy ===== *)
theory Ps2Registration
  imports Ps2Hardware
begin

text \<open>
  The registration of the drivers' actions as a step relation: which targets the controller
  retains, which interrupt lines are enabled, and what installing and removing undo.
\<close>

section \<open>The steps\<close>

inductive registration_step :: "('h, 'z) ctl_scheme \<Rightarrow> ('h, 'z) ctl_scheme \<Rightarrow> bool" where
  install: "registration_step s (installInterruptAction d target action s)"
| uninstall: "registration_step s (uninstallInterruptAction d s)"
| install_power: "registration_step s (installPowerControlAction d target action s)"
| uninstall_power: "registration_step s (uninstallPowerControlAction d s)"

inductive_cases registration_stepE: "registration_step s s'"

text \<open>
  The references the controller ought to hold on \<open>t\<close>: one for each installed action whose
  target is \<open>t\<close>.
\<close>

definition held_refs :: "('h, 'z) ctl_scheme \<Rightarrow> obj \<Rightarrow> int" where
  "held_refs s t =
     of_bool (interruptInstalledKeyboard s \<and> interruptTargetKeyboard s = t) +
     of_bool (interruptInstalledMouse s \<and> interruptTargetMouse s = t) +
     of_bool (powerControlInstalledKeyboard s \<and> powerControlTargetKeyboard s = t) +
     of_bool (powerControlInstalledMouse s \<and> powerControlTargetMouse s = t)"

text \<open>Whether an interrupt line is enabled, read off the calls to the provider.\<close>

primrec line_enabled :: "nat \<Rightarrow> bool \<Rightarrow> controller_call list \<Rightarrow> bool" where
  "line_enabled n b [] = b"
| "line_enabled n b (c # cs) =
     line_enabled n (case c of EnableInterrupt m \<Rightarrow> if m = n then True else b
                             | DisableInterrupt m \<Rightarrow> if m = n then False else b
                             | _ \<Rightarrow> b) cs"

lemma line_enabled_append: "line_enabled n b (cs @ ds) = line_enabled n (line_enabled n b cs) ds"
  by (induction cs arbitrary: b) simp_all

definition registration_inv :: "('h, 'z) ctl_scheme \<Rightarrow> bool" where
  "registration_inv s \<longleftrightarrow>
     (\<forall>t. refs s t = held_refs s t) \<and>
     (line_enabled kIRQ_Keyboard False (calls s) \<longleftrightarrow> interruptInstalledKeyboard s) \<and>
     (line_enabled kIRQ_Mouse False (calls s) \<longleftrightarrow> interruptInstalledMouse s) \<and>
     (\<not> interruptInstalledKeyboard s \<longrightarrow> interruptTargetKeyboard s = 0 \<and> interruptActionKeyboard s = 0) \<and>
     (\<not> interruptInstalledMouse s \<longrightarrow> interruptTargetMouse s = 0 \<and> interruptActionMouse s = 0) \<and>
     (\<not> powerControlInstalledKeyboard s \<longrightarrow> powerControlTargetKeyboard s = 0 \<and> powerControlActionKeyboard s = 0) \<and>
     (\<not> powerControlInstalledMouse s \<longrightarrow> powerControlTargetMouse s = 0 \<and> powerControlActionMouse s = 0)"

lemmas registration_defs = installInterruptAction_def uninstallInterruptAction_def
  installPowerControlAction_def uninstallPowerControlAction_def retain_def release_def log_call_def Let_def

lemma registration_inv_install:
  "registration_inv s \<Longrightarrow> registration_inv (installInterruptAction d target action s)"
  by (cases d) (auto simp: registration_inv_def held_refs_def registration_defs line_enabled_append)

lemma registration_inv_uninstall:
  "registration_inv s \<Longrightarrow> registration_inv (uninstallInterruptAction d s)"
  by (cases d) (auto simp: registration_inv_def held_refs_def registration_defs line_enabled_append)

lemma registration_inv_install_power:
  "registration_inv s \<Longrightarrow> registration_inv (installPowerControlAction d target action s)"
  by (cases d) (auto simp: registration_inv_def held_refs_def registration_defs)

lemma registration_inv_uninstall_power:
  "registration_inv s \<Longrightarrow> registration_inv (uninstallPowerControlAction d s)"
  by (cases d) (auto simp: registration_inv_def held_refs_def registration_defs)

lemmas registration_inv_intros = registration_inv_install registration_inv_uninstall
  registration_inv_install_power registration_inv_uninstall_power

lemma registration_inv_init: "registration_inv (init_controller h)"
  by (simp add: registration_inv_def held_refs_def init_controller_def)

text \<open>C34. In every state that installing and removing actions can reach, in any order and
  with repetitions: the controller holds exactly one reference on a driver for each of its
  installed actions and none otherwise, an interrupt line is enabled exactly while an action is
  installed for it, and no interrupt action and no power-control action that was removed (or never
  installed) leaves a pointer behind: the target and the action are null.\<close>

theorem registration_balanced:
  assumes "registration_step\<^sup>*\<^sup>* (init_controller h) s"
  shows "(\<forall>t. refs s t = held_refs s t) \<and>
    (line_enabled kIRQ_Keyboard False (calls s) \<longleftrightarrow> interruptInstalledKeyboard s) \<and>
    (line_enabled kIRQ_Mouse False (calls s) \<longleftrightarrow> interruptInstalledMouse s) \<and>
    (\<not> interruptInstalledKeyboard s \<longrightarrow> interruptTargetKeyboard s = 0 \<and> interruptActionKeyboard s = 0) \<and>
    (\<not> interruptInstalledMouse s \<longrightarrow> interruptTargetMouse s = 0 \<and> interruptActionMouse s = 0) \<and>
    (\<not> powerControlInstalledKeyboard s \<longrightarrow> powerControlTargetKeyboard s = 0 \<and> powerControlActionKeyboard s = 0) \<and>
    (\<not> powerControlInstalledMouse s \<longrightarrow> powerControlTargetMouse s = 0 \<and> powerControlActionMouse s = 0)"
proof -
  have "registration_inv s"
    using assms
    by (induction rule: rtranclp_induct)
      (auto intro: registration_inv_init registration_inv_intros elim!: registration_stepE)
  then show ?thesis by (simp add: registration_inv_def)
qed

theorem registration_balanced_witness:
  "refs (installPowerControlAction kDT_Mouse 7 2 (installInterruptAction kDT_Mouse 7 1 (init_controller ()))) 7 = 2"
proof -
  let ?s1 = "installInterruptAction kDT_Mouse 7 1 (init_controller ())"
  let ?s2 = "installPowerControlAction kDT_Mouse 7 2 ?s1"
  have "registration_step\<^sup>*\<^sup>* (init_controller ()) ?s2"
    by (meson registration_step.install registration_step.install_power rtranclp.rtrancl_into_rtrancl
        rtranclp.rtrancl_refl)
  from registration_balanced [OF this] show ?thesis
    by (simp add: held_refs_def registration_defs)
qed

text \<open>A second installation does not displace the first driver, and removing an action
  undoes its installation: apart from the record of the calls made, the state is as before.\<close>

theorem uninstall_undoes_install:
  assumes "registration_inv s" "\<not> interruptInstalled s d"
  shows "uninstallInterruptAction d (installInterruptAction d target' action'
      (installInterruptAction d target action s)) =
    s\<lparr>calls := calls s @
        (case d of
           kDT_Keyboard \<Rightarrow> [AddEventSource SourceKeyboard, RegisterInterrupt kIRQ_Keyboard,
             EnableInterrupt kIRQ_Keyboard, DisableInterrupt kIRQ_Keyboard,
             UnregisterInterrupt kIRQ_Keyboard, RemoveEventSource SourceKeyboard]
         | kDT_Mouse \<Rightarrow> [AddEventSource SourceMouse, RegisterInterrupt kIRQ_Mouse,
             EnableInterrupt kIRQ_Mouse, DisableInterrupt kIRQ_Mouse,
             UnregisterInterrupt kIRQ_Mouse, RemoveEventSource SourceMouse])\<rparr>"
  using assms
  by (cases d; cases s) (simp_all add: registration_inv_def registration_defs fun_upd_idem_iff)

theorem uninstall_undoes_install_witness:
  "refs (uninstallInterruptAction kDT_Keyboard (installInterruptAction kDT_Keyboard 9 3
      (installInterruptAction kDT_Keyboard 5 1 (init_controller ())))) 5 = 0"
  using uninstall_undoes_install [OF registration_inv_init, of "()" kDT_Keyboard 9 3 5 1] by simp

end
