(* ===== verification/Ps2PowerProps.thy ===== *)
theory Ps2PowerProps
  imports Ps2Registration
begin

text \<open>
  Properties of power management: the state machine of power changes, what going to sleep and
  waking do to the hardware and the drivers, and the shut-down of the request queue.
\<close>

section \<open>The power state machine\<close>

text \<open>The fields that only power management changes.\<close>

definition power_view :: "('h, 'z) ctl_scheme \<Rightarrow> bool \<times> u32 \<times> u32 option \<times> int \<times> bool \<times> bool" where
  "power_view s = (hardwareOffline s, currentPowerState s, powerChangeThreadCall s, selfRefs s,
     powerControlInstalledKeyboard s, powerControlInstalledMouse s)"

text \<open>
  The drivers' power actions talk to their device. Nothing is assumed of an action that is run
  while the hardware is off line (the model then allows it to hang); run on line, it returns
  and leaves power management alone.
\<close>

definition quiet_power_actions :: "('h, 'z) env \<Rightarrow> bool" where
  "quiet_power_actions E \<longleftrightarrow> (\<forall>a t w s. \<not> hardwareOffline s \<longrightarrow>
     (\<exists>s'. runPowerControlAction E a t w s = Some s' \<and> power_view s' = power_view s))"

lemma power_view_updates [simp]:
  "power_view (log_call c s) = power_view s" "power_view (s\<lparr>hw := h\<rparr>) = power_view s"
  "power_view (s\<lparr>inGate := g\<rparr>) = power_view s"
  by (simp_all add: power_view_def log_call_def)

lemma power_view_fields:
  assumes "power_view s' = power_view s"
  shows "hardwareOffline s' = hardwareOffline s" "currentPowerState s' = currentPowerState s"
    "powerChangeThreadCall s' = powerChangeThreadCall s" "selfRefs s' = selfRefs s"
    "powerControlInstalledKeyboard s' = powerControlInstalledKeyboard s"
    "powerControlInstalledMouse s' = powerControlInstalledMouse s"
  using assms by (simp_all add: power_view_def)

lemma served_power_view: "served s s' \<Longrightarrow> power_view s' = power_view s"
  by (simp add: served_def power_view_def ctl.truncate_def)

lemma dispatch_power:
  assumes "quiet_power_actions E" "\<not> hardwareOffline s"
  shows "\<exists>s'. dispatchDriverPowerControl E w s = Some s' \<and> power_view s' = power_view s"
proof -
  have step: "\<exists>s'. (if b then runPowerControlAction E a t w (log_call c s) else Some s) = Some s' \<and>
      power_view s' = power_view s" if "\<not> hardwareOffline s" for b a t c s
  proof -
    have "\<not> hardwareOffline (log_call c s)" using that by (simp add: log_call_def)
    then obtain s' where "runPowerControlAction E a t w (log_call c s) = Some s'"
      "power_view s' = power_view (log_call c s)"
      using assms(1) unfolding quiet_power_actions_def by meson
    then show ?thesis by simp
  qed
  obtain s1 where s1: "(if powerControlInstalledMouse s
      then runPowerControlAction E (powerControlActionMouse s) (powerControlTargetMouse s) w
        (log_call (PowerControlAction kDT_Mouse w) s) else Some s) = Some s1" "power_view s1 = power_view s"
    using step [OF assms(2)] by blast
  have "\<not> hardwareOffline s1" using assms(2) power_view_fields(1) [OF s1(2)] by simp
  then obtain s2 where "(if powerControlInstalledKeyboard s1
      then runPowerControlAction E (powerControlActionKeyboard s1) (powerControlTargetKeyboard s1) w
        (log_call (PowerControlAction kDT_Keyboard w) s1) else Some s1) = Some s2"
    "power_view s2 = power_view s1"
    using step by blast
  then show ?thesis using s1 by (simp add: dispatchDriverPowerControl_def)
qed

lemma update_commandByte_served:
  assumes "input_ready_law E" "output_buffer_law E pend" "passive_actions E"
  shows "\<exists>s'. update_commandByte E clr st s = Some s' \<and> served s s'"
proof -
  obtain s1 where s1: "writeCommandPort E kCP_GetCommandByte s = Some s1" "served s s1"
    using write_served(2) [OF assms(1)] by blast
  obtain b s2 where s2: "readDataPort E kDT_Keyboard s1 = Some (b, s2)" "served s1 s2"
    using readDataPort_served [OF assms(2,3)] by blast
  obtain s3 where s3: "writeCommandPort E kCP_SetCommandByte s2 = Some s3" "served s2 s3"
    using write_served(2) [OF assms(1)] by blast
  obtain s4 where s4: "writeDataPort E ((b AND NOT clr) OR st) s3 = Some s4" "served s3 s4"
    using write_served(1) [OF assms(1)] by blast
  have "served s s4" using s1(2) s2(2) s3(2) s4(2) by (blast intro: served_trans)
  with s1(1) s2(1) s3(1) s4(1) show ?thesis by (simp add: update_commandByte_def)
qed

definition power_state_inv :: "('h, 'z) ctl_scheme \<Rightarrow> bool" where
  "power_state_inv s \<longleftrightarrow> (hardwareOffline s \<longleftrightarrow> currentPowerState s = kPS2PowerStateSleep)"

definition valid_power_state :: "u32 \<Rightarrow> bool" where
  "valid_power_state p \<longleftrightarrow>
     p = kPS2PowerStateSleep \<or> p = kPS2PowerStateDoze \<or> p = kPS2PowerStateNormal"

text \<open>One change of power state, from a state that satisfies the invariant.\<close>

lemma setPowerStateGated_total:
  assumes laws: "input_ready_law E" "output_buffer_law E pend" "passive_actions E"
    and quiet: "quiet_power_actions E" and inv: "power_state_inv s" and valid: "valid_power_state p"
  obtains s' where "setPowerStateGated E p s = Some s'" "currentPowerState s' = p" "power_state_inv s'"
    "powerChangeThreadCall s' = powerChangeThreadCall s" "selfRefs s' = selfRefs s"
proof -
  consider (same) "currentPowerState s = p"
    | (sleep) "currentPowerState s \<noteq> p" "p = kPS2PowerStateSleep"
    | (awake) "currentPowerState s \<noteq> p" "p = kPS2PowerStateDoze \<or> p = kPS2PowerStateNormal"
        "currentPowerState s \<noteq> kPS2PowerStateSleep"
    | (wake) "p = kPS2PowerStateDoze \<or> p = kPS2PowerStateNormal"
        "currentPowerState s = kPS2PowerStateSleep"
    using valid by (auto simp: valid_power_state_def)
  then show ?thesis
  proof cases
    case same
    then have "setPowerStateGated E p s = Some (log_call AcknowledgeSetPowerState s)"
      by (simp add: setPowerStateGated_def)
    then show ?thesis using that same inv by (simp add: log_call_def power_state_inv_def)
  next
    case sleep
    then have "\<not> hardwareOffline s" using inv by (simp add: power_state_inv_def)
    then obtain s1 where "dispatchDriverPowerControl E kPS2C_DisableDevice s = Some s1"
      "power_view s1 = power_view s" using dispatch_power [OF quiet] by blast
    note s1 = this
    have "setPowerStateGated E p s = Some (log_call AcknowledgeSetPowerState
        (s1\<lparr>hardwareOffline := True, currentPowerState := p\<rparr>))"
      using sleep s1(1) by (simp add: setPowerStateGated_def)
    then show ?thesis
      using that sleep(2) power_view_fields [OF s1(2)]
      by (simp add: power_state_inv_def log_call_def)
  next
    case awake
    then have "setPowerStateGated E p s = Some (log_call AcknowledgeSetPowerState (s\<lparr>currentPowerState := p\<rparr>))"
      by (auto simp: setPowerStateGated_def)
    then show ?thesis using that awake inv by (auto simp: power_state_inv_def log_call_def)
  next
    case wake
    obtain s1 where s1: "update_commandByte E (kCB_DisableKeyboardClock OR kCB_DisableMouseClock)
        (kCB_EnableKeyboardIRQ OR kCB_EnableMouseIRQ) s = Some s1" "power_view s1 = power_view s"
      using update_commandByte_served [OF laws] served_power_view by blast
    obtain s2 where s2: "dispatchDriverPowerControl E kPS2C_EnableDevice (s1\<lparr>hardwareOffline := False\<rparr>) = Some s2"
      "power_view s2 = power_view (s1\<lparr>hardwareOffline := False\<rparr>)"
      using dispatch_power [OF quiet, of "s1\<lparr>hardwareOffline := False\<rparr>"] by auto
    have "setPowerStateGated E p s = Some (log_call AcknowledgeSetPowerState (s2\<lparr>currentPowerState := p\<rparr>))"
      using wake s1(1) s2(1) by (auto simp: setPowerStateGated_def)
    then show ?thesis
      using that wake power_view_fields [OF s2(2)] power_view_fields [OF s1(2)]
      by (auto simp: power_state_inv_def log_call_def)
  qed
qed

text \<open>
  The steps: the power manager asks for a state, possibly while an earlier request is still
  pending, and the thread call runs.
\<close>

inductive power_step :: "('h, 'z) env \<Rightarrow> ('h, 'z) ctl_scheme \<Rightarrow> ('h, 'z) ctl_scheme \<Rightarrow> bool"
  for E where
  request: "valid_power_state p \<Longrightarrow> power_step E s (snd (setPowerState p s))"
| callout: "setPowerStateCallout E s = Some s' \<Longrightarrow> power_step E s s'"

inductive_cases power_stepE: "power_step E s s'"

definition power_inv :: "('h, 'z) ctl_scheme \<Rightarrow> bool" where
  "power_inv s \<longleftrightarrow> power_state_inv s \<and>
     selfRefs s = of_bool (powerChangeThreadCall s \<noteq> None) \<and>
     (\<forall>p. powerChangeThreadCall s = Some p \<longrightarrow> valid_power_state p)"

lemma power_inv_request:
  "power_inv s \<Longrightarrow> valid_power_state p \<Longrightarrow> power_inv (snd (setPowerState p s))"
  by (auto simp: power_inv_def power_state_inv_def setPowerState_def Let_def)

lemma setPowerStateCallout_total:
  assumes "input_ready_law E" "output_buffer_law E pend" "passive_actions E"
    and "quiet_power_actions E" "power_inv s"
  obtains s' where "setPowerStateCallout E s = Some s'" "power_inv s'" "powerChangeThreadCall s' = None"
    "currentPowerState s' = (case powerChangeThreadCall s of None \<Rightarrow> currentPowerState s | Some p \<Rightarrow> p)"
proof (cases "powerChangeThreadCall s")
  case None
  then show ?thesis using that assms(5) by (simp add: setPowerStateCallout_def)
next
  case (Some p)
  let ?s = "s\<lparr>powerChangeThreadCall := None, inGate := True\<rparr>"
  have inv: "power_state_inv ?s" and valid: "valid_power_state p"
    using assms(5) Some by (auto simp: power_inv_def power_state_inv_def)
  obtain s' where s': "setPowerStateGated E p ?s = Some s'" "currentPowerState s' = p" "power_state_inv s'"
    "powerChangeThreadCall s' = powerChangeThreadCall ?s" "selfRefs s' = selfRefs ?s"
    by (rule setPowerStateGated_total [OF assms(1-4) inv valid])
  have "setPowerStateCallout E s = Some (s'\<lparr>inGate := False, selfRefs := selfRefs s' - 1\<rparr>)"
    using Some s'(1) by (simp add: setPowerStateCallout_def)
  then show ?thesis
    using that s' Some assms(5) by (auto simp: power_inv_def power_state_inv_def)
qed

lemma power_inv_init: "power_inv (init_controller h)"
  by (simp add: power_inv_def power_state_inv_def)

lemma power_inv_reachable:
  assumes "input_ready_law E" "output_buffer_law E pend" "passive_actions E" "quiet_power_actions E"
    and "(power_step E)\<^sup>*\<^sup>* (init_controller h) s"
  shows "power_inv s"
  using assms(5)
proof (induction rule: rtranclp_induct)
  case base
  show ?case by (rule power_inv_init)
next
  case (step s s')
  from step.hyps(2) show ?case
  proof (cases rule: power_step.cases)
    case request
    then show ?thesis using power_inv_request [OF step.IH] by blast
  next
    case callout
    show ?thesis
      by (rule setPowerStateCallout_total [OF assms(1-4) step.IH]) (use callout in simp)
  qed
qed

text \<open>C29. In every state that power requests and runs of the thread call reach, in any
  interleaving: the hardware is marked off line exactly in the sleep state, and the controller
  holds a reference on itself exactly while a power change is pending (a second request while
  one is pending neither leaks nor loses a reference).\<close>

theorem power_reachable:
  assumes "input_ready_law E" "output_buffer_law E pend" "passive_actions E" "quiet_power_actions E"
    and "(power_step E)\<^sup>*\<^sup>* (init_controller h) s"
  shows "(hardwareOffline s \<longleftrightarrow> currentPowerState s = kPS2PowerStateSleep) \<and>
    selfRefs s = of_bool (powerChangeThreadCall s \<noteq> None)"
  using power_inv_reachable [OF assms] by (simp add: power_inv_def power_state_inv_def)

lemma sample_env_quiet: "quiet_power_actions sample_env"
  by (auto simp: quiet_power_actions_def sample_env_def)

theorem power_reachable_witness:
  "selfRefs (snd (setPowerState 1 (snd (setPowerState 0 (init_controller ([], 0x47, False)))))) = 1"
proof -
  let ?s = "snd (setPowerState 1 (snd (setPowerState 0 (init_controller ([], 0x47, False)))))"
  have "(power_step sample_env)\<^sup>*\<^sup>* (init_controller ([], 0x47, False)) ?s"
    by (meson power_step.request rtranclp.rtrancl_into_rtrancl rtranclp.rtrancl_refl valid_power_state_def)
  from power_reachable [OF sample_env_laws(1-3) sample_env_quiet this] show ?thesis
    by (simp add: setPowerState_def)
qed

text \<open>C35. A pending power change is carried out: from every reachable state the thread call
  returns, although the drivers' power actions may hang when the hardware is off line (so they
  are only run on line, before the hardware goes off and after it came back), and then the
  state last asked for is the current one and nothing is pending.\<close>

theorem power_change_completes:
  assumes "input_ready_law E" "output_buffer_law E pend" "passive_actions E" "quiet_power_actions E"
    and "(power_step E)\<^sup>*\<^sup>* (init_controller h) s" "valid_power_state p"
  shows "\<exists>s'. setPowerStateCallout E (snd (setPowerState p s)) = Some s' \<and> currentPowerState s' = p \<and>
    hardwareOffline s' = (p = kPS2PowerStateSleep) \<and> powerChangeThreadCall s' = None \<and> selfRefs s' = 0"
proof -
  let ?s = "snd (setPowerState p s)"
  have inv: "power_inv ?s" by (rule power_inv_request [OF power_inv_reachable [OF assms(1-5)] assms(6)])
  have pend: "powerChangeThreadCall ?s = Some p" by (simp add: setPowerState_def Let_def)
  obtain s' where "setPowerStateCallout E ?s = Some s'" "power_inv s'" "powerChangeThreadCall s' = None"
    "currentPowerState s' = (case powerChangeThreadCall ?s of None \<Rightarrow> currentPowerState ?s | Some p \<Rightarrow> p)"
    by (rule setPowerStateCallout_total [OF assms(1-4) inv])
  then show ?thesis using pend by (auto simp: power_inv_def power_state_inv_def)
qed

theorem power_change_completes_witness:
  "\<exists>s'. setPowerStateCallout sample_env (snd (setPowerState 0 (init_controller ([], 0x47, False)))) = Some s' \<and>
     hardwareOffline s'"
  using power_change_completes [OF sample_env_laws(1-3) sample_env_quiet rtranclp.rtrancl_refl,
      of 0 "([], 0x47, False)"] by (auto simp: valid_power_state_def)

section \<open>Waking up\<close>

text \<open>Waking from sleep: before any driver is told to enable its device, the command byte
  has both clocks running and both interrupts enabled, all its other bits being as they were,
  mouse bytes that arrived meanwhile have gone to the mouse driver, and the hardware is on
  line; only then do the drivers' actions run.\<close>

theorem wake_restores_command_byte:
  assumes "input_ready_law E" "output_buffer_law E pend" "command_byte_law E pend cb awaiting"
    and "passive_actions E" "no_keyboard_byte pend s ms"
    and "currentPowerState s = kPS2PowerStateSleep" "p = kPS2PowerStateDoze \<or> p = kPS2PowerStateNormal"
  shows "\<exists>s1. cb (hw s1) = (cb (hw s) AND NOT (kCB_DisableKeyboardClock OR kCB_DisableMouseClock))
            OR (kCB_EnableKeyboardIRQ OR kCB_EnableMouseIRQ) \<and>
      pend (hw s1) = [] \<and> \<not> hardwareOffline s1 \<and> calls s1 = calls s @ deliveries s kDT_Mouse ms \<and>
      setPowerStateGated E p s = Option.bind (dispatchDriverPowerControl E kPS2C_EnableDevice s1)
        (\<lambda>s2. Some (log_call AcknowledgeSetPowerState (s2\<lparr>currentPowerState := p\<rparr>)))"
proof -
  let ?clr = "kCB_DisableKeyboardClock OR kCB_DisableMouseClock"
  let ?st = "kCB_EnableKeyboardIRQ OR kCB_EnableMouseIRQ"
  obtain s1 where s1: "update_commandByte E ?clr ?st s = Some s1" "pend (hw s1) = []"
    "cb (hw s1) = (cb (hw s) AND NOT ?clr) OR ?st"
    and a: "advanced s (hw s1) (deliveries s kDT_Mouse ms) s1"
    by (rule update_commandByte_own [OF assms(1-5), of ?clr ?st])
  have "setPowerStateGated E p s = Option.bind (dispatchDriverPowerControl E kPS2C_EnableDevice
      (s1\<lparr>hardwareOffline := False\<rparr>))
        (\<lambda>s2. Some (log_call AcknowledgeSetPowerState (s2\<lparr>currentPowerState := p\<rparr>)))"
    using assms(6,7) s1(1)
    by (cases "dispatchDriverPowerControl E kPS2C_EnableDevice (s1\<lparr>hardwareOffline := False\<rparr>)")
      (auto simp: setPowerStateGated_def)
  then show ?thesis
    using s1(2,3) advanced_fields(2) [OF a] by (intro exI [of _ "s1\<lparr>hardwareOffline := False\<rparr>"]) simp
qed

theorem wake_restores_command_byte_witness:
  "\<exists>s1. fst (snd (hw s1)) = 0x47 \<and>
     setPowerStateGated sample_env 2 ((init_controller ([], 0x74, False))\<lparr>currentPowerState := 0\<rparr>) =
       Option.bind (dispatchDriverPowerControl sample_env 1 s1)
         (\<lambda>s2. Some (log_call AcknowledgeSetPowerState (s2\<lparr>currentPowerState := 2\<rparr>)))"
  using wake_restores_command_byte [OF sample_env_laws(1,2,4,3), where
      s = "(init_controller ([], 0x74, False))\<lparr>currentPowerState := 0\<rparr>" and ms = "[]" and p = 2]
  by (auto simp: no_keyboard_byte_def init_keyboardQueue_def)

section \<open>Shut-down of the request queue\<close>

lemma process_local_queue_offline:
  "hardwareOffline s \<Longrightarrow> process_local_queue E rs s =
     Some (map (\<lambda>r. r\<lparr>commandsCount := 0\<rparr>) rs,
       s\<lparr>liveRequests := liveRequests s - int (length (filter (\<lambda>r. completion r = None) rs)),
         calls := calls s @ map SyncerSignal (filter (\<lambda>p. p \<noteq> 0) (List.map_filter completion rs))\<rparr>)"
proof (induction rs arbitrary: s)
  case Nil
  then show ?case by (simp add: List.map_filter_def)
next
  case (Cons r rs)
  then show ?case
    by (cases "completion r")
      (auto simp: processRequest_def complete_request_def submitRequestAndBlockCompletion_def
        freeRequest_def log_call_def List.map_filter_def)
qed

text \<open>Stopping the controller fails every request still queued instead of dropping it: each
  is completed in order with failure index 0, threads that wait for one are woken and the
  others are freed, and no port is touched, whatever the hardware does.\<close>

theorem stop_fails_queued_requests:
  "stop_requestQueue E s = Some (map (\<lambda>r. r\<lparr>commandsCount := 0\<rparr>) (requestQueue s),
     s\<lparr>hardwareOffline := True, requestQueue := [],
       liveRequests := liveRequests s - int (length (filter (\<lambda>r. completion r = None) (requestQueue s))),
       calls := calls s @ map SyncerSignal
         (filter (\<lambda>p. p \<noteq> 0) (List.map_filter completion (requestQueue s)))\<rparr>)"
  by (simp add: stop_requestQueue_def processRequestQueue_def process_local_queue_offline)

end
