(* ===== verification/Ps2CommandByte.thy ===== *)
theory Ps2CommandByte
  imports Ps2PowerProps
begin

text \<open>
  \<open>setCommandByte\<close>, which the drivers share: the command byte has no read-modify-write
  primitive, so it is changed by a test-and-set loop of two blocking requests.
\<close>

section \<open>The loop\<close>

text \<open>One round: read the byte, then compare it again and write the new one.\<close>

definition read_commands :: "(PS2CommandEnum \<times> u8) list" where
  "read_commands = [(kPS2C_WriteCommandPort, kCP_GetCommandByte), (kPS2C_ReadDataPort, 0)]"

definition test_and_set_commands :: "u8 \<Rightarrow> u8 \<Rightarrow> (PS2CommandEnum \<times> u8) list" where
  "test_and_set_commands commandByte commandByteNew =
     [(kPS2C_WriteCommandPort, kCP_GetCommandByte),
      (kPS2C_ReadDataPortAndCompare, commandByte),
      (kPS2C_WriteCommandPort, kCP_SetCommandByte),
      (kPS2C_WriteDataPort, commandByteNew)]"

definition setCommandByte_round ::
  "('h, 'z) env \<Rightarrow> u8 \<Rightarrow> u8 \<Rightarrow> PS2Request \<Rightarrow> ('h, 'z) ctl_scheme
     \<Rightarrow> (PS2Request \<times> ('h, 'z) ctl_scheme) option" where
  "setCommandByte_round E setBits clearBits request s = do {
     (request, s) \<leftarrow> submitRequestAndBlock E (set_commands read_commands request) s;
     let commandByte = inOrOut (commands request ! 1);
     let commandByteNew = (commandByte OR setBits) AND NOT clearBits;
     submitRequestAndBlock E (set_commands (test_and_set_commands commandByte commandByteNew) request) s
   }"

partial_function (option) setCommandByte_loop ::
  "('h, 'z) env \<Rightarrow> u8 \<Rightarrow> u8 \<Rightarrow> PS2Request \<Rightarrow> ('h, 'z) ctl_scheme
     \<Rightarrow> (PS2Request \<times> ('h, 'z) ctl_scheme) option" where
  "setCommandByte_loop E setBits clearBits request s = do {
     (request, s) \<leftarrow> setCommandByte_round E setBits clearBits request s;
     if commandsCount request \<noteq> 4 then setCommandByte_loop E setBits clearBits request s
     else Some (request, s)
   }"

definition setCommandByte ::
  "('h, 'z) env \<Rightarrow> u8 \<Rightarrow> u8 \<Rightarrow> ('h, 'z) ctl_scheme \<Rightarrow> ('h, 'z) ctl_scheme option" where
  "setCommandByte E setBits clearBits s = do {
     let (request, s) = allocateRequest s;
     (request, s) \<leftarrow> setCommandByte_loop E setBits clearBits request s;
     Some (freeRequest s)
   }"

section \<open>Blocking requests on an idle controller\<close>

text \<open>
  What executing a request may change, apart from the hardware, the log and the drivers' own
  state: nothing. (No asynchronous request is freed and no byte queued.)
\<close>

definition undisturbed :: "('h, 'z) ctl_scheme \<Rightarrow> ('h, 'z) ctl_scheme \<Rightarrow> bool" where
  "undisturbed s s' \<longleftrightarrow>
     ctl.truncate s' = (ctl.truncate s)\<lparr>hw := hw s', calls := calls s'\<rparr>"

lemma undisturbed_trans: "undisturbed s s' \<Longrightarrow> undisturbed s' s'' \<Longrightarrow> undisturbed s s''"
  by (simp add: undisturbed_def ctl.truncate_def)

lemma undisturbed_updates [simp]:
  "undisturbed s s" "undisturbed s (s\<lparr>hw := h\<rparr>)" "undisturbed s (log_call c s)"
  "undisturbed s (s\<lparr>calls := cs\<rparr>)"
  by (simp_all add: undisturbed_def ctl.truncate_def log_call_def)

lemma advanced_undisturbed: "advanced s h cs s' \<Longrightarrow> undisturbed s s'"
  by (simp add: undisturbed_def advanced_def ctl.truncate_def)

lemma undisturbed_fields:
  assumes "undisturbed s s'"
  shows "kq s' = kq s" "requestQueue s' = requestQueue s" "hardwareOffline s' = hardwareOffline s"
    "inGate s' = inGate s" "liveRequests s' = liveRequests s" "power_view s' = power_view s"
    "refs s' = refs s" "interruptInstalled s' d = interruptInstalled s d"
  using assms by (cases d; simp add: undisturbed_def ctl.truncate_def power_view_def)+

text \<open>A request after its commands ran.\<close>

definition finished_request :: "PS2Request \<Rightarrow> PS2Command list \<Rightarrow> nat option \<Rightarrow> PS2Request" where
  "finished_request r cs index =
     r\<lparr>commands := cs @ drop (unat (commandsCount r)) (commands r),
       commandsCount := (case index of None \<Rightarrow> commandsCount r | Some i \<Rightarrow> of_nat i)\<rparr>"

lemma processRequest_run:
  assumes "\<not> hardwareOffline s" "completion r = Some p"
    and "process_commands E kDT_Keyboard False (take (unat (commandsCount r)) (commands r)) s =
      Some (cs, index, s1)"
  shows "processRequest E r s = Some (finished_request r cs index, submitRequestAndBlockCompletion p s1)"
  using assms
  by (simp add: processRequest_def finished_request_def complete_request_def Let_def split: option.splits)

text \<open>
  With an empty queue and the hardware on line, blocking on a request is running its commands,
  in the gate and outside it.
\<close>

lemma submitRequestAndBlock_idle:
  assumes "requestQueue s = []" "\<not> hardwareOffline s"
    and run: "\<And>s0. hw s0 = hw s \<Longrightarrow> kq s0 = kq s \<Longrightarrow>
      \<exists>cs s1. process_commands E kDT_Keyboard False (take (unat (commandsCount r)) (commands r)) s0 =
        Some (cs, index, s1) \<and> undisturbed s0 s1 \<and> P cs (hw s1)"
  obtains cs p s' where "submitRequestAndBlock E r s =
      Some (finished_request (r\<lparr>completion := p\<rparr>) cs index, s')"
    "undisturbed s s'" "P cs (hw s')"
proof (cases "inGate s")
  case True
  have "s\<lparr>requestQueue := []\<rparr> = s" using assms(1) by (metis ctl.surjective ctl.update_convs(7))
  then have q: "processRequestQueue E s = Some ([], s)"
    using assms(1) by (simp add: processRequestQueue_def)
  obtain cs s1 where c: "process_commands E kDT_Keyboard False
      (take (unat (commandsCount r)) (commands r)) s = Some (cs, index, s1)"
    "undisturbed s s1" "P cs (hw s1)" using run [of s] by auto
  have "processRequest E (r\<lparr>completion := Some 0\<rparr>) s =
      Some (finished_request (r\<lparr>completion := Some 0\<rparr>) cs index, submitRequestAndBlockCompletion 0 s1)"
    by (rule processRequest_run [OF assms(2)]) (use c(1) in simp_all)
  then show ?thesis
    using that [of "Some 0" cs s1] True q c(2,3)
    by (simp add: submitRequestAndBlock_def submitRequestAndBlockCompletion_def)
next
  case False
  define s0 where "s0 = s\<lparr>inGate := True, calls := calls s @ [InterruptOccurred SourceQueue]\<rparr>"
  have s0: "hw s0 = hw s" "kq s0 = kq s" "\<not> hardwareOffline s0" using assms(2) by (simp_all add: s0_def)
  have sub: "(submitRequest q s)\<lparr>inGate := True, requestQueue := []\<rparr> = s0"
    "requestQueue (submitRequest q s) = [q]" for q
    using assms(1) by (simp_all add: s0_def submitRequest_def log_call_def)
  obtain cs s1 where c: "process_commands E kDT_Keyboard False
      (take (unat (commandsCount r)) (commands r)) s0 = Some (cs, index, s1)"
    "undisturbed s0 s1" "P cs (hw s1)" using run [OF s0(1,2)] by auto
  have p: "processRequest E (r\<lparr>completion := Some 1\<rparr>) s0 =
      Some (finished_request (r\<lparr>completion := Some 1\<rparr>) cs index, submitRequestAndBlockCompletion 1 s1)"
    by (rule processRequest_run [OF s0(3)]) (use c(1) in simp_all)
  let ?s' = "(submitRequestAndBlockCompletion 1 s1)\<lparr>inGate := False\<rparr>"
  have "submitRequestAndBlock E r s =
      Some (finished_request (r\<lparr>completion := Some 1\<rparr>) cs index, ?s')"
    using False p by (simp add: submitRequestAndBlock_def processRequestQueue_def sub)
  moreover have "undisturbed s ?s'"
    using c(2) False by (simp add: undisturbed_def s0_def ctl.truncate_def
        submitRequestAndBlockCompletion_def log_call_def)
  moreover have "P cs (hw ?s')" using c(3) by (simp add: submitRequestAndBlockCompletion_def log_call_def)
  ultimately show ?thesis using that by blast
qed

section \<open>The two requests\<close>

lemma readDataPort_expect_keeps:
  assumes "readDataPort_expect E dt e s = Some (b, s')" "passive_actions E" "inb_keeps E I" "I (hw s)"
  shows "I (hw s')"
proof -
  have "passive_actions E \<longrightarrow> inb_keeps E I \<longrightarrow> I (hw s) \<longrightarrow> I (hw (snd y))"
    if "readDataPort_expect_loop E dt e held n s = Some y" for held n y
  proof (rule readDataPort_expect_loop.raw_induct [OF _ that], intro impI)
    fix f E dt e held n and s :: "('a, 'b) ctl_scheme" and y
    assume IH: "\<And>E dt e held n s y. f E dt e held n s = Some y \<Longrightarrow>
        passive_actions E \<longrightarrow> inb_keeps E I \<longrightarrow> I (hw s) \<longrightarrow> I (hw (snd y))"
      and y: "(case fetch_byte E dt n s of (n', r, s1) \<Rightarrow>
        (case r of
           TimedOut \<Rightarrow>
             (case held of
                None \<Rightarrow> Some (0, log_call (LogTimedOut dt) s1)
              | Some firstByte \<Rightarrow> Some (firstByte, s1))
         | Fetched requestedStream readByte \<Rightarrow>
             if requestedStream then
               (if readByte = e then
                  (case held of
                     None \<Rightarrow> Some (readByte, s1)
                   | Some firstByte \<Rightarrow>
                       Option.bind (dispatchDriverInterrupt E dt firstByte s1)
                         (\<lambda>s2. Some (readByte, s2)))
                else
                  (case held of
                     None \<Rightarrow> f E dt e (Some readByte) n' s1
                   | Some firstByte \<Rightarrow>
                       Option.bind (dispatchDriverInterrupt E dt readByte s1)
                         (\<lambda>s2. Some (firstByte, s2))))
             else Option.bind (dispatchDriverInterrupt E (other_device dt) readByte s1)
                    (\<lambda>s2. f E dt e held n' s2))) = Some y"
      and E: "passive_actions E" "inb_keeps E I" "I (hw s)"
    obtain n' r s1 where f: "fetch_byte E dt n s = (n', r, s1)" by (metis surj_pair)
    note hw1 = fetch_byte_keeps [OF f E(2,3)]
    have disp: "I (hw s2)" if "dispatchDriverInterrupt E d x s1 = Some s2" for d x s2
      using hw1 dispatch_passive_same_hw [OF E(1) that] by simp
    show "I (hw (snd y))"
    proof (cases r)
      case TimedOut
      then show ?thesis using y f hw1 by (cases held) (auto simp: log_call_def)
    next
      case (Fetched own x)
      consider (other) "\<not> own" | (hit) "own" "x = e" | (hold) "own" "x \<noteq> e" "held = None"
        | (second) g where "own" "x \<noteq> e" "held = Some g" by blast
      then show ?thesis
      proof cases
        case other
        then obtain s2 where s2: "dispatchDriverInterrupt E (other_device dt) x s1 = Some s2"
          "f E dt e held n' s2 = Some y"
          using y f Fetched by (auto simp: bind_Some_iff)
        then show ?thesis using IH [OF s2(2)] E(1,2) disp [OF s2(1)] by blast
      next
        case hit
        then show ?thesis using y f Fetched hw1 disp by (cases held) (auto simp: bind_Some_iff)
      next
        case hold
        then have "f E dt e (Some x) n' s1 = Some y" using y f Fetched by simp
        then show ?thesis using IH E(1,2) hw1 by blast
      next
        case second
        then show ?thesis using y f Fetched disp by (auto simp: bind_Some_iff)
      qed
    qed
  qed
  from this [of None readTimeout "(b, s')"] assms show ?thesis by (simp add: readDataPort_expect_def)
qed

text \<open>
  The command byte is the only keyboard-stream byte waiting: it is what both versions of
  \<open>readDataPort\<close> return, whatever is expected.
\<close>

lemma read_only_byte:
  assumes "output_buffer_law E pend" "passive_actions E" "command_byte_law E pend cb awaiting"
    and "keyboardQueue (kq s) = []" "pend (hw s) = map (Pair kDT_Mouse) ms @ [(kDT_Keyboard, b)]"
  shows "\<exists>s'. readDataPort E kDT_Keyboard s = Some (b, s') \<and> pend (hw s') = [] \<and> undisturbed s s' \<and>
      cb (hw s') = cb (hw s) \<and> awaiting (hw s') = awaiting (hw s)"
    and "\<exists>s'. readDataPort_expect E kDT_Keyboard e s = Some (b, s') \<and> pend (hw s') = [] \<and>
      undisturbed s s' \<and> cb (hw s') = cb (hw s) \<and> awaiting (hw s') = awaiting (hw s)"
proof -
  note keeps = command_byte_inb_keeps [OF assms(3), of "cb (hw s)" "awaiting (hw s)"]
  obtain s' where s': "readDataPort E kDT_Keyboard s = Some (b, s')" "pend (hw s') = []"
    "advanced s (hw s') (deliveries s kDT_Mouse ms) s'"
    using readDataPort_own [OF assms(1,2), of kDT_Keyboard s ms b "[]"] assms(4,5)
    unfolding other_device.simps by blast
  have I1: "cb (hw s') = cb (hw s)" "awaiting (hw s') = awaiting (hw s)"
    using readDataPort_keeps [OF s'(1) assms(2) keeps] by simp_all
  then show "\<exists>s'. readDataPort E kDT_Keyboard s = Some (b, s') \<and> pend (hw s') = [] \<and> undisturbed s s' \<and>
      cb (hw s') = cb (hw s) \<and> awaiting (hw s') = awaiting (hw s)"
    using s'(1,2) advanced_undisturbed [OF s'(3)] I1 by (intro exI [of _ s'] conjI)
  have "second_chance kDT_Keyboard e None (pend (hw s)) = (b, map (Pair kDT_Mouse) ms, [], False)"
    using assms(5) second_chance_skip [of kDT_Keyboard e None ms "[(kDT_Keyboard, b)]"] by simp
  then obtain s2 where s2: "readDataPort_expect E kDT_Keyboard e s = Some (b, s2)" "pend (hw s2) = []"
    "advanced s (hw s2) (deliver_all s (map (Pair kDT_Mouse) ms)) s2"
    using readDataPort_expect_loop_refines [OF assms(1,2) readTimeout_pos, of kDT_Keyboard s "pend (hw s)" e None]
      assms(4) unfolding readDataPort_expect_def expect_post_def by auto
  have I2: "cb (hw s2) = cb (hw s)" "awaiting (hw s2) = awaiting (hw s)"
    using readDataPort_expect_keeps [OF s2(1) assms(2) keeps] by simp_all
  then show "\<exists>s'. readDataPort_expect E kDT_Keyboard e s = Some (b, s') \<and> pend (hw s') = [] \<and>
      undisturbed s s' \<and> cb (hw s') = cb (hw s) \<and> awaiting (hw s') = awaiting (hw s)"
    using s2(1,2) advanced_undisturbed [OF s2(3)] I2 by (intro exI [of _ s2] conjI)
qed

text \<open>The command that fetches the command byte, seen from the hardware.\<close>

lemma get_command_byte:
  assumes "input_ready_law E" "output_buffer_law E pend" "command_byte_law E pend cb awaiting"
    and "pend (hw s) = map (Pair kDT_Mouse) ms"
  obtains h where "writeCommandPort E kCP_GetCommandByte s = Some (s\<lparr>hw := h\<rparr>)" "cb h = cb (hw s)"
    "\<not> awaiting h" "pend h = map (Pair kDT_Mouse) ms @ [(kDT_Keyboard, cb (hw s))]"
  using write_command_byte [OF assms(1-3), of kCP_GetCommandByte s] assms(4) by auto

abbreviation (input) make_commands :: "(PS2CommandEnum \<times> u8) list \<Rightarrow> PS2Command list" where
  "make_commands cs \<equiv> map (\<lambda>(c, b). \<lparr>command = c, inOrOut = b\<rparr>) cs"

lemma process_read_commands:
  assumes "input_ready_law E" "output_buffer_law E pend" "command_byte_law E pend cb awaiting"
    and "passive_actions E" "keyboardQueue (kq s) = []" "pend (hw s) = map (Pair kDT_Mouse) ms"
  shows "\<exists>s'. process_commands E kDT_Keyboard False (make_commands read_commands) s =
      Some (make_commands [(kPS2C_WriteCommandPort, kCP_GetCommandByte),
        (kPS2C_ReadDataPort, cb (hw s))], None, s') \<and>
      undisturbed s s' \<and> pend (hw s') = [] \<and> cb (hw s') = cb (hw s)"
proof -
  obtain h where h: "writeCommandPort E kCP_GetCommandByte s = Some (s\<lparr>hw := h\<rparr>)" "cb h = cb (hw s)"
    "\<not> awaiting h" "pend h = map (Pair kDT_Mouse) ms @ [(kDT_Keyboard, cb (hw s))]"
    by (rule get_command_byte [OF assms(1-3,6)])
  obtain s' where s': "readDataPort E kDT_Keyboard (s\<lparr>hw := h\<rparr>) = Some (cb (hw s), s')"
    "pend (hw s') = []" "undisturbed (s\<lparr>hw := h\<rparr>) s'" "cb (hw s') = cb (hw s)"
    using read_only_byte(1) [OF assms(2,4,3), of "s\<lparr>hw := h\<rparr>" ms "cb (hw s)"] assms(5) h by auto
  have "undisturbed s s'" by (rule undisturbed_trans [OF undisturbed_updates(2) s'(3)])
  then show ?thesis using h(1) s' by (simp add: read_commands_def process_command_def)
qed

lemma process_test_and_set:
  assumes "input_ready_law E" "output_buffer_law E pend" "command_byte_law E pend cb awaiting"
    and "passive_actions E" "keyboardQueue (kq s) = []" "pend (hw s) = map (Pair kDT_Mouse) ms"
  shows "\<exists>s'. process_commands E kDT_Keyboard False (make_commands (test_and_set_commands old new)) s =
      Some (make_commands (test_and_set_commands old new), if cb (hw s) = old then None else Some 1, s') \<and>
      undisturbed s s' \<and> pend (hw s') = [] \<and>
      cb (hw s') = (if cb (hw s) = old then new else cb (hw s))"
proof -
  obtain h where h: "writeCommandPort E kCP_GetCommandByte s = Some (s\<lparr>hw := h\<rparr>)" "cb h = cb (hw s)"
    "\<not> awaiting h" "pend h = map (Pair kDT_Mouse) ms @ [(kDT_Keyboard, cb (hw s))]"
    by (rule get_command_byte [OF assms(1-3,6)])
  obtain s' where s': "readDataPort_expect E kDT_Keyboard old (s\<lparr>hw := h\<rparr>) = Some (cb (hw s), s')"
    "pend (hw s') = []" "undisturbed (s\<lparr>hw := h\<rparr>) s'" "cb (hw s') = cb (hw s)"
    using read_only_byte(2) [OF assms(2,4,3), of "s\<lparr>hw := h\<rparr>" ms "cb (hw s)" old] assms(5) h by auto
  have u: "undisturbed s s'" by (rule undisturbed_trans [OF undisturbed_updates(2) s'(3)])
  show ?thesis
  proof (cases "cb (hw s) = old")
    case False
    then show ?thesis using h(1) s' u by (simp add: test_and_set_commands_def process_command_def)
  next
    case True
    obtain h3 where w3: "writeCommandPort E kCP_SetCommandByte s' = Some (s'\<lparr>hw := h3\<rparr>)"
      "awaiting h3" "pend h3 = []"
      using write_command_byte [OF assms(1-3), of kCP_SetCommandByte s'] s'(2) by auto
    obtain h4 where w4: "writeDataPort E new (s'\<lparr>hw := h3\<rparr>) = Some (s'\<lparr>hw := h4\<rparr>)"
      "cb h4 = new" "pend h4 = []"
      using write_data_byte [OF assms(1-3), of new "s'\<lparr>hw := h3\<rparr>"] w3(2,3) by auto
    have "undisturbed s (s'\<lparr>hw := h4\<rparr>)" by (rule undisturbed_trans [OF u undisturbed_updates(2)])
    then show ?thesis
      using h(1) s'(1) w3(1) w4 True by (simp add: test_and_set_commands_def process_command_def)
  qed
qed

lemma set_commands_simps:
  "length cs \<le> kMaxCommands \<Longrightarrow>
     take (unat (commandsCount (set_commands cs r))) (commands (set_commands cs r)) = make_commands cs"
  "commands (set_commands cs r) = make_commands cs @ drop (length cs) (commands r)"
  "commandsCount (set_commands cs r) = of_nat (length cs)"
  by (simp_all add: set_commands_def unat_of_nat)

lemma submit_read_commands:
  assumes "input_ready_law E" "output_buffer_law E pend" "command_byte_law E pend cb awaiting"
    and "passive_actions E" "no_keyboard_byte pend s ms" "requestQueue s = []" "\<not> hardwareOffline s"
  obtains r' s' where "submitRequestAndBlock E (set_commands read_commands r) s = Some (r', s')"
    "inOrOut (commands r' ! 1) = cb (hw s)" "undisturbed s s'" "pend (hw s') = []" "cb (hw s') = cb (hw s)"
proof (rule submitRequestAndBlock_idle [OF assms(6,7), of E "set_commands read_commands r" None
      "\<lambda>cs h. cs = make_commands [(kPS2C_WriteCommandPort, kCP_GetCommandByte),
        (kPS2C_ReadDataPort, cb (hw s))] \<and> pend h = [] \<and> cb h = cb (hw s)"])
  fix s0 :: "('a, 'b) ctl_scheme"
  assume s0: "hw s0 = hw s" "kq s0 = kq s"
  have t: "take (unat (commandsCount (set_commands read_commands r)))
      (commands (set_commands read_commands r)) = make_commands read_commands"
    by (rule set_commands_simps(1)) (simp add: read_commands_def)
  show "\<exists>cs s1. process_commands E kDT_Keyboard False (take (unat (commandsCount (set_commands read_commands r)))
      (commands (set_commands read_commands r))) s0 = Some (cs, None, s1) \<and> undisturbed s0 s1 \<and>
      cs = make_commands [(kPS2C_WriteCommandPort, kCP_GetCommandByte), (kPS2C_ReadDataPort, cb (hw s))] \<and>
      pend (hw s1) = [] \<and> cb (hw s1) = cb (hw s)"
    unfolding t using process_read_commands [OF assms(1-4), of s0 ms] s0 assms(5)
    unfolding no_keyboard_byte_def by metis
next
  fix cs p s'
  assume "submitRequestAndBlock E (set_commands read_commands r) s =
      Some (finished_request (set_commands read_commands r\<lparr>completion := p\<rparr>) cs None, s')"
    "undisturbed s s'"
    "cs = make_commands [(kPS2C_WriteCommandPort, kCP_GetCommandByte),
        (kPS2C_ReadDataPort, cb (hw s))] \<and> pend (hw s') = [] \<and> cb (hw s') = cb (hw s)"
  then show thesis using that by (simp add: finished_request_def)
qed

lemma submit_test_and_set:
  assumes "input_ready_law E" "output_buffer_law E pend" "command_byte_law E pend cb awaiting"
    and "passive_actions E" "no_keyboard_byte pend s ms" "requestQueue s = []" "\<not> hardwareOffline s"
  obtains r' s' where "submitRequestAndBlock E (set_commands (test_and_set_commands old new) r) s = Some (r', s')"
    "commandsCount r' = (if cb (hw s) = old then 4 else 1)" "undisturbed s s'" "pend (hw s') = []"
    "cb (hw s') = (if cb (hw s) = old then new else cb (hw s))"
proof (rule submitRequestAndBlock_idle [OF assms(6,7), of E "set_commands (test_and_set_commands old new) r"
      "if cb (hw s) = old then None else Some 1"
      "\<lambda>cs h. pend h = [] \<and> cb h = (if cb (hw s) = old then new else cb (hw s))"])
  fix s0 :: "('a, 'b) ctl_scheme"
  assume s0: "hw s0 = hw s" "kq s0 = kq s"
  let ?r = "set_commands (test_and_set_commands old new) r"
  have t: "take (unat (commandsCount ?r)) (commands ?r) = make_commands (test_and_set_commands old new)"
    by (rule set_commands_simps(1)) (simp add: test_and_set_commands_def)
  show "\<exists>cs s1. process_commands E kDT_Keyboard False (take (unat (commandsCount ?r)) (commands ?r)) s0 =
      Some (cs, if cb (hw s) = old then None else Some 1, s1) \<and> undisturbed s0 s1 \<and>
      pend (hw s1) = [] \<and> cb (hw s1) = (if cb (hw s) = old then new else cb (hw s))"
    unfolding t using process_test_and_set [OF assms(1-4), of s0 ms old new] s0 assms(5)
    unfolding no_keyboard_byte_def by metis
next
  fix cs p s'
  let ?r = "set_commands (test_and_set_commands old new) r"
  assume "submitRequestAndBlock E ?r s =
      Some (finished_request (?r\<lparr>completion := p\<rparr>) cs (if cb (hw s) = old then None else Some 1), s')"
    "undisturbed s s'" "pend (hw s') = [] \<and> cb (hw s') = (if cb (hw s) = old then new else cb (hw s))"
  then show thesis
    using that by (simp add: finished_request_def set_commands_simps(3) test_and_set_commands_def)
qed

section \<open>The loop does what its comment says\<close>

lemma setCommandByte_changes:
  assumes "input_ready_law E" "output_buffer_law E pend" "command_byte_law E pend cb awaiting"
    and "passive_actions E" "no_keyboard_byte pend s ms" "requestQueue s = []" "\<not> hardwareOffline s"
  obtains s' where "setCommandByte E setBits clearBits s = Some s'" "undisturbed s s'"
    "pend (hw s') = []" "cb (hw s') = (cb (hw s) OR setBits) AND NOT clearBits"
proof -
  define sa where "sa = snd (allocateRequest s)"
  have sa: "allocateRequest s = (zeroed_request, sa)" "no_keyboard_byte pend sa ms" "requestQueue sa = []"
    "\<not> hardwareOffline sa" "hw sa = hw s"
    using assms(5-7) by (simp_all add: sa_def allocateRequest_def no_keyboard_byte_def)
  obtain r1 s1 where s1: "submitRequestAndBlock E (set_commands read_commands zeroed_request) sa = Some (r1, s1)"
    "inOrOut (commands r1 ! 1) = cb (hw s)" "undisturbed sa s1" "pend (hw s1) = []" "cb (hw s1) = cb (hw s)"
    using submit_read_commands [OF assms(1-4) sa(2-4), of zeroed_request] sa(5) by auto
  let ?new = "(cb (hw s) OR setBits) AND NOT clearBits"
  have idle1: "no_keyboard_byte pend s1 []" "requestQueue s1 = []" "\<not> hardwareOffline s1"
    using s1(4) sa(2-4) undisturbed_fields [OF s1(3)] by (simp_all add: no_keyboard_byte_def)
  obtain r2 s2 where s2: "submitRequestAndBlock E
      (set_commands (test_and_set_commands (cb (hw s)) ?new) r1) s1 = Some (r2, s2)"
    "commandsCount r2 = 4" "undisturbed s1 s2" "pend (hw s2) = []" "cb (hw s2) = ?new"
    using submit_test_and_set [OF assms(1-4) idle1, of "cb (hw s)" ?new r1] s1(5) by auto
  have "setCommandByte_round E setBits clearBits zeroed_request sa = Some (r2, s2)"
    using s1(1,2) s2(1) by (simp add: setCommandByte_round_def)
  then have "setCommandByte_loop E setBits clearBits zeroed_request sa = Some (r2, s2)"
    using s2(2) by (subst setCommandByte_loop.simps) simp
  then have "setCommandByte E setBits clearBits s = Some (freeRequest s2)"
    by (simp add: setCommandByte_def sa(1))
  moreover have "undisturbed s (freeRequest s2)"
    using undisturbed_trans [OF s1(3) s2(3)]
    by (simp add: undisturbed_def sa_def allocateRequest_def freeRequest_def ctl.truncate_def)
  ultimately show ?thesis using that s2(4,5) by (simp add: freeRequest_def)
qed

text \<open>C23. \<open>setCommandByte\<close> on an idle controller returns with the command byte changed as asked:
  a bit is set when it was set or asked to be set, unless it was asked to be cleared. This holds
  for a caller inside the work loop's gate and for one outside it; the request is freed, and apart
  from the hardware and the log of calls nothing else in the controller changes. Idle means: on
  line, no request queued, no keystroke waiting in the queue or in the hardware (bytes of the
  mouse may wait), and drivers whose interrupt actions do not re-enter the controller.\<close>

theorem setCommandByte_correct:
  assumes "input_ready_law E" "output_buffer_law E pend" "command_byte_law E pend cb awaiting"
    and "passive_actions E" "no_keyboard_byte pend s ms" "requestQueue s = []" "\<not> hardwareOffline s"
  shows "\<exists>s'. setCommandByte E setBits clearBits s = Some s' \<and> pend (hw s') = [] \<and>
    (\<forall>n < 8. bit (cb (hw s')) n \<longleftrightarrow> (bit (cb (hw s)) n \<or> bit setBits n) \<and> \<not> bit clearBits n) \<and>
    liveRequests s' = liveRequests s \<and> requestQueue s' = [] \<and> inGate s' = inGate s \<and> kq s' = kq s \<and>
    ctl.truncate s' = (ctl.truncate s)\<lparr>hw := hw s', calls := calls s'\<rparr>"
proof -
  obtain s' where "setCommandByte E setBits clearBits s = Some s'" and u: "undisturbed s s'"
    and "pend (hw s') = []" "cb (hw s') = (cb (hw s) OR setBits) AND NOT clearBits"
    by (rule setCommandByte_changes [OF assms])
  then show ?thesis
    using undisturbed_fields [OF u] assms(6) u [unfolded undisturbed_def] by (simp add: set_clear_bits)
qed

theorem setCommandByte_correct_witness:
  "\<exists>s'. setCommandByte sample_env kCB_EnableMouseIRQ kCB_DisableMouseClock
      (init_controller ([(kDT_Mouse, 0xAA)], 0x65, False)) = Some s' \<and> bit (fst (snd (hw s'))) 1 \<and>
    \<not> bit (fst (snd (hw s'))) 5"
proof -
  have "no_keyboard_byte fst (init_controller ([(kDT_Mouse, 0xAA)], 0x65, False)) [0xAA]"
    by (simp add: no_keyboard_byte_def init_keyboardQueue_def)
  from setCommandByte_correct [OF sample_env_laws(1,2,4,3) this, where
      setBits = kCB_EnableMouseIRQ and clearBits = kCB_DisableMouseClock]
  show ?thesis by (force simp: bit_numeral_rec)
qed

text \<open>
  The compare command takes whatever the keyboard's stream yields next. A keystroke that waits in
  the hardware and happens to equal the byte that was read passes for it: the new command byte
  is written although the hardware holds a different one by now.
\<close>

theorem stale_keystroke_passes_compare:
  assumes "input_ready_law E" "output_buffer_law E pend" "command_byte_law E pend cb awaiting"
    and "passive_actions E" "keyboardQueue (kq s) = []" "pend (hw s) = [(kDT_Keyboard, old)]"
    and "requestQueue s = []" "\<not> hardwareOffline s"
  shows "\<exists>r' s'. submitRequestAndBlock E (set_commands (test_and_set_commands old new) r) s = Some (r', s') \<and>
    commandsCount r' = 4 \<and> cb (hw s') = new"
proof (rule submitRequestAndBlock_idle [OF assms(7,8), of E "set_commands (test_and_set_commands old new) r"
      None "\<lambda>cs h. cb h = new"])
  fix s0 :: "('a, 'b) ctl_scheme"
  assume s0: "hw s0 = hw s" "kq s0 = kq s"
  let ?r = "set_commands (test_and_set_commands old new) r"
  have t: "take (unat (commandsCount ?r)) (commands ?r) = make_commands (test_and_set_commands old new)"
    by (rule set_commands_simps(1)) (simp add: test_and_set_commands_def)
  obtain h where h: "writeCommandPort E kCP_GetCommandByte s0 = Some (s0\<lparr>hw := h\<rparr>)"
    "pend h = (kDT_Keyboard, old) # [(kDT_Keyboard, cb (hw s))]"
    using write_command_byte [OF assms(1-3), of kCP_GetCommandByte s0] s0 assms(6) by auto
  have "second_chance kDT_Keyboard old None (pend h) = (old, [], [(kDT_Keyboard, cb (hw s))], False)"
    by (simp add: h(2))
  then obtain s1 where s1: "readDataPort_expect E kDT_Keyboard old (s0\<lparr>hw := h\<rparr>) = Some (old, s1)"
    "advanced s0 (hw s1) [] s1"
    using readDataPort_expect_loop_refines [OF assms(2,4) readTimeout_pos,
        of kDT_Keyboard "s0\<lparr>hw := h\<rparr>" "pend h" old None] s0 assms(5)
    unfolding readDataPort_expect_def expect_post_def by auto
  obtain h3 where w3: "writeCommandPort E kCP_SetCommandByte s1 = Some (s1\<lparr>hw := h3\<rparr>)" "awaiting h3"
    using write_command_byte [OF assms(1-3), of kCP_SetCommandByte s1] by auto
  obtain h4 where w4: "writeDataPort E new (s1\<lparr>hw := h3\<rparr>) = Some (s1\<lparr>hw := h4\<rparr>)" "cb h4 = new"
    using write_data_byte [OF assms(1-3), of new "s1\<lparr>hw := h3\<rparr>"] w3(2) by auto
  have "undisturbed s0 (s1\<lparr>hw := h4\<rparr>)"
    by (rule undisturbed_trans [OF advanced_undisturbed [OF s1(2)] undisturbed_updates(2)])
  then show "\<exists>cs s1. process_commands E kDT_Keyboard False (take (unat (commandsCount ?r)) (commands ?r)) s0 =
      Some (cs, None, s1) \<and> undisturbed s0 s1 \<and> cb (hw s1) = new"
    unfolding t using h(1) s1(1) w3(1) w4 by (simp add: test_and_set_commands_def process_command_def)
next
  fix cs p s'
  let ?r = "set_commands (test_and_set_commands old new) r"
  assume "submitRequestAndBlock E ?r s = Some (finished_request (?r\<lparr>completion := p\<rparr>) cs None, s')"
    "undisturbed s s'" "cb (hw s') = new"
  then show ?thesis by (simp add: finished_request_def set_commands_simps(3) test_and_set_commands_def)
qed

text \<open>C40. With no keystroke waiting in the queue or in the hardware, the hardware on line, no other
  request queued and drivers whose interrupt actions do not re-enter the controller, the
  test-and-set is atomic: the second request writes the new command byte only if the hardware
  still holds the byte that was read. If someone changed it in between, the request fails at its
  compare command, the foreign change stays, and the loop is told to try again. (Without the
  first condition it is not: \<open>stale_keystroke_passes_compare\<close>.)\<close>

theorem test_and_set_atomic:
  assumes "input_ready_law E" "output_buffer_law E pend" "command_byte_law E pend cb awaiting"
    and "passive_actions E" "no_keyboard_byte pend s ms" "requestQueue s = []" "\<not> hardwareOffline s"
  shows "\<exists>r' s'. submitRequestAndBlock E (set_commands (test_and_set_commands old new) r) s = Some (r', s') \<and>
    commandsCount r' = (if cb (hw s) = old then 4 else 1) \<and>
    cb (hw s') = (if cb (hw s) = old then new else cb (hw s))"
  by (rule submit_test_and_set [OF assms, of old new r]) blast

theorem test_and_set_atomic_witness:
  "\<exists>r' s'. submitRequestAndBlock sample_env (set_commands (test_and_set_commands 0x65 0x47) zeroed_request)
      (init_controller ([], 0x67, False)) = Some (r', s') \<and>
    commandsCount r' = 1 \<and> fst (snd (hw s')) = 0x67"
proof -
  have "no_keyboard_byte fst (init_controller ([], 0x67, False)) []"
    by (simp add: no_keyboard_byte_def init_keyboardQueue_def)
  from test_and_set_atomic [OF sample_env_laws(1,2,4,3) this, of "0x65" "0x47" zeroed_request]
  show ?thesis by simp
qed

end
