(* ===== verification/Ps2Keyboard.thy ===== *)
theory Ps2Keyboard
  imports Ps2CommandByte
begin

text \<open>
  The keyboard driver \<open>ApplePS2Keyboard\<close>: its state, the parser of the scan codes, the lamps,
  and its start, stop and power-control sequences. What it sends to its superclass (key
  events) and to the power manager is recorded in \<open>kbdEvents\<close>, oldest first.
\<close>

section \<open>State\<close>

text \<open>
  A key event carries its ADB key code, its direction and its time stamp: the uptime, or
  whatever an uninitialised local variable holds.
\<close>

datatype time_stamp = Uptime | Uninitialised

datatype kbd_event =
    KeyEvent u8 bool time_stamp
  | SleepNow
  | LogUnexpected u8

record kbd =
  kbdDevice :: obj
  keyBitVector :: "u32 list"
  extendCount :: u8
  kbdInterruptHandlerInstalled :: bool
  kbdPowerControlHandlerInstalled :: bool
  ledState :: u8
  emacsMode :: bool
  macintoshMode :: bool
  saveSS :: bool
  rootDomain :: bool
  kbdEvents :: "kbd_event list"

abbreviation (input) KBV_NUNITS :: nat where "KBV_NUNITS \<equiv> 4"
abbreviation (input) KBV_NUM_KEYCODES :: nat where "KBV_NUM_KEYCODES \<equiv> 128"

definition kbd_init :: "kbd \<Rightarrow> kbd" where
  "kbd_init k = k\<lparr>kbdDevice := 0, extendCount := 0, kbdInterruptHandlerInstalled := False,
     ledState := 0, keyBitVector := replicate KBV_NUNITS 0\<rparr>"

text \<open>The bit vector of the keys that are down: one bit per key code, 32 to a word.\<close>

definition KBV_KEYDOWN :: "nat \<Rightarrow> u32 list \<Rightarrow> u32 list" where
  "KBV_KEYDOWN n bits = bits[drop_bit 5 n := bits ! drop_bit 5 n OR push_bit (n AND 31) 1]"

definition KBV_KEYUP :: "nat \<Rightarrow> u32 list \<Rightarrow> u32 list" where
  "KBV_KEYUP n bits = bits[drop_bit 5 n := bits ! drop_bit 5 n AND NOT (push_bit (n AND 31) 1)]"

definition KBV_IS_KEYDOWN :: "nat \<Rightarrow> u32 list \<Rightarrow> bool" where
  "KBV_IS_KEYDOWN n bits \<longleftrightarrow> bits ! drop_bit 5 n AND push_bit (n AND 31) 1 \<noteq> 0"

text \<open>
  The table from key codes to ADB key codes, with the header's names expanded. Its last two
  entries have no initialiser in the source.
\<close>

definition PS2ToADBMap :: "u8 list" where
  "PS2ToADBMap =
    [0x80, 0x35, 0x12, 0x13, 0x14, 0x15, 0x17, 0x16,
     0x1A, 0x1C, 0x19, 0x1D, 0x1B, 0x18, 0x33, 0x30,
     0x0C, 0x0D, 0x0E, 0x0F, 0x11, 0x10, 0x20, 0x22,
     0x1F, 0x23, 0x21, 0x1E, 0x24, 0x3B, 0x00, 0x01,
     0x02, 0x03, 0x05, 0x04, 0x26, 0x28, 0x25, 0x29,
     0x27, 0x32, 0x38, 0x2A, 0x06, 0x07, 0x08, 0x09,
     0x0B, 0x2D, 0x2E, 0x2B, 0x2F, 0x2C, 0x3C, 0x43,
     0x3A, 0x31, 0x39, 0x7A, 0x78, 0x63, 0x76, 0x60,
     0x61, 0x62, 0x64, 0x65, 0x6D, 0x47, 0x6B, 0x59,
     0x5B, 0x5C, 0x4E, 0x56, 0x57, 0x58, 0x45, 0x53,
     0x54, 0x55, 0x52, 0x41, 0x80, 0x80, 0x0A, 0x67,
     0x6F, 0x80, 0x80, 0x80, 0x80, 0x80, 0x80, 0x80,
     0x3E, 0x3D, 0x4C, 0x4B, 0x7E, 0x7D, 0x7B, 0x7C,
     0x72, 0x75, 0x74, 0x79, 0x73, 0x77, 0x69, 0x71,
     0x37, 0x36, 0x6E, 0x5E, 0x80, 0x80, 0x80, 0x80,
     0x80, 0x80, 0x80, 0x80, 0x7F, 0x48, 0x49, 0x4A,
     0x00, 0x00]"

definition dispatchKeyboardEvent :: "u8 \<Rightarrow> bool \<Rightarrow> time_stamp \<Rightarrow> kbd \<Rightarrow> kbd" where
  "dispatchKeyboardEvent adb goingDown now k =
     k\<lparr>kbdEvents := kbdEvents k @ [KeyEvent adb goingDown now]\<rparr>"

section \<open>The scan-code parser\<close>

text \<open>
  The tail of \<open>dispatchKeyboardEventWithScancode\<close>, once the key code is known: key code 0 is
  no key, a repeated press is discarded, the bit vector is updated and the event goes to the
  superclass.
\<close>

definition dispatch_keyCode :: "nat \<Rightarrow> bool \<Rightarrow> kbd \<Rightarrow> bool \<times> kbd" where
  "dispatch_keyCode keyCode goingDown k =
     (if keyCode = 0 then (False, k)
      else if goingDown \<and> KBV_IS_KEYDOWN keyCode (keyBitVector k) then (False, k)
      else (let k = k\<lparr>keyBitVector := (if goingDown then KBV_KEYDOWN keyCode (keyBitVector k)
                                     else KBV_KEYUP keyCode (keyBitVector k))\<rparr>
            in (True, dispatchKeyboardEvent (PS2ToADBMap ! keyCode) goingDown Uptime k)))"

text \<open>The key code of a scan code without prefix.\<close>

definition plain_keyCode :: "kbd \<Rightarrow> u8 \<Rightarrow> nat" where
  "plain_keyCode k scanCode =
     (let keyCode = unat (scanCode AND NOT kSC_UpBit)
      in if keyCode = 0x3A then (if emacsMode k then 0x60 else keyCode)
         else if keyCode = 0x38 then (if macintoshMode k then 0x70 else keyCode)
         else keyCode)"

text \<open>The whole function on a scan code that follows no prefix and is none.\<close>

definition dispatch_plain :: "u8 \<Rightarrow> kbd \<Rightarrow> bool \<times> kbd" where
  "dispatch_plain scanCode k =
     dispatch_keyCode (plain_keyCode k scanCode) (\<not> any_bit scanCode kSC_UpBit) k"

text \<open>What the switch over the extended codes selects.\<close>

datatype extended_action = KeyCode nat | F12Key | SleepKey | PrintScreenKey | Ignored

definition extended_code :: "bool \<Rightarrow> u8 \<Rightarrow> extended_action" where
  "extended_code mac code =
     (if code = 0x34 then F12Key
      else if code = 0x30 then KeyCode 0x7d
      else if code = 0x2e then KeyCode 0x7e
      else if code = 0x20 then KeyCode 0x7f
      else if code = 0x5f then SleepKey
      else if code = 0x1D then KeyCode 0x60
      else if code = 0x38 then (if mac then KeyCode 0x71 else KeyCode 0x61)
      else if code = 0x1C then KeyCode 0x62
      else if code = 0x35 then KeyCode 0x63
      else if code = 0x48 then KeyCode 0x64
      else if code = 0x50 then KeyCode 0x65
      else if code = 0x4B then KeyCode 0x66
      else if code = 0x4D then KeyCode 0x67
      else if code = 0x52 then KeyCode 0x68
      else if code = 0x53 then KeyCode 0x69
      else if code = 0x49 then KeyCode 0x6A
      else if code = 0x51 then KeyCode 0x6B
      else if code = 0x47 then KeyCode 0x6C
      else if code = 0x4F then KeyCode 0x6D
      else if code = 0x37 then PrintScreenKey
      else if code = 0x5B then (if mac then KeyCode 0x38 else KeyCode 0x70)
      else if code = 0x5c then (if mac then KeyCode 0x61 else KeyCode 0x71)
      else if code = 0x5D then KeyCode 0x71
      else Ignored)"

text \<open>
  The Print Screen key replays other scan codes through the same function. The prefix count is
  0 at that point and none of the codes is a prefix, so the replayed calls are \<open>dispatch_plain\<close>
  (lemma \<open>dispatch_unprefixed\<close> shows the agreement).
\<close>

definition printScreen_scancodes :: "bool \<Rightarrow> bool \<Rightarrow> u8 list" where
  "printScreen_scancodes save goingDown =
     (if goingDown then (if \<not> save then [0x1d] else []) @ [0x38, 0x2a, 0x5]
      else (if \<not> save then [0x9d] else []) @ [0xb8, 0xaa, 0x85])"

definition dispatchKeyboardEventWithScancode :: "u8 \<Rightarrow> kbd \<Rightarrow> bool \<times> kbd" where
  "dispatchKeyboardEventWithScancode scanCode k =
     (if scanCode = kSC_Extend then (False, k\<lparr>extendCount := 1\<rparr>)
      else if scanCode = kSC_Pause then (False, k\<lparr>extendCount := 2\<rparr>)
      else (let goingDown = \<not> any_bit scanCode kSC_UpBit in
        if extendCount k = 0 then dispatch_plain scanCode k
        else (let k = k\<lparr>extendCount := extendCount k - 1\<rparr> in
          if extendCount k \<noteq> 0 then (False, k)
          else (case extended_code (macintoshMode k) (scanCode AND NOT kSC_UpBit) of
              F12Key \<Rightarrow>
                (True, dispatchKeyboardEvent (PS2ToADBMap ! 0x10) goingDown Uninitialised
                   (dispatchKeyboardEvent (PS2ToADBMap ! 0x38) goingDown Uninitialised k))
            | SleepKey \<Rightarrow>
                dispatch_keyCode 0 goingDown
                  (if goingDown \<and> rootDomain k then k\<lparr>kbdEvents := kbdEvents k @ [SleepNow]\<rparr> else k)
            | PrintScreenKey \<Rightarrow>
                (True, fold (\<lambda>c k. snd (dispatch_plain c k)) (printScreen_scancodes (saveSS k) goingDown) k)
            | Ignored \<Rightarrow> (False, k)
            | KeyCode keyCode \<Rightarrow> dispatch_keyCode keyCode goingDown k))))"

definition kbd_interruptOccurred :: "u8 \<Rightarrow> kbd \<Rightarrow> kbd" where
  "kbd_interruptOccurred scanCode k =
     (if scanCode = kSC_Acknowledge \<or> scanCode = kSC_Resend
      then k\<lparr>kbdEvents := kbdEvents k @ [LogUnexpected scanCode]\<rparr>
      else snd (dispatchKeyboardEventWithScancode scanCode k))"

section \<open>Requests of the keyboard driver\<close>

definition set_leds_commands :: "u8 \<Rightarrow> (PS2CommandEnum \<times> u8) list" where
  "set_leds_commands leds =
     [(kPS2C_WriteDataPort, kDP_SetKeyboardLEDs), (kPS2C_ReadDataPortAndCompare, kSC_Acknowledge),
      (kPS2C_WriteDataPort, leds), (kPS2C_ReadDataPortAndCompare, kSC_Acknowledge)]"

definition setLEDs :: "u8 \<Rightarrow> ('h, 'z) ctl_scheme \<Rightarrow> ('h, 'z) ctl_scheme" where
  "setLEDs leds s =
     (let (request, s) = allocateRequest s
      in submitRequest (set_commands (set_leds_commands leds) request) s)"

definition setAlphaLockFeedback ::
  "bool \<Rightarrow> kbd \<Rightarrow> ('h, 'z) ctl_scheme \<Rightarrow> kbd \<times> ('h, 'z) ctl_scheme" where
  "setAlphaLockFeedback locked k s =
     (let k = k\<lparr>ledState := (if locked then ledState k OR kLED_CapsLock
                           else ledState k AND NOT kLED_CapsLock)\<rparr>
      in (k, setLEDs (ledState k) s))"

definition setNumLockFeedback ::
  "bool \<Rightarrow> kbd \<Rightarrow> ('h, 'z) ctl_scheme \<Rightarrow> kbd \<times> ('h, 'z) ctl_scheme" where
  "setNumLockFeedback locked k s =
     (let k = k\<lparr>ledState := (if locked then ledState k OR kLED_NumLock
                           else ledState k AND NOT kLED_NumLock)\<rparr>
      in (k, setLEDs (ledState k) s))"

definition setKeyboardEnable :: "bool \<Rightarrow> ('h, 'z) ctl_scheme \<Rightarrow> ('h, 'z) ctl_scheme" where
  "setKeyboardEnable enable s =
     (let (request, s) = allocateRequest s
      in submitRequest (set_commands
           [(kPS2C_WriteDataPort, if enable then kDP_Enable else kDP_SetDefaultsAndDisable),
            (kPS2C_ReadDataPortAndCompare, kSC_Acknowledge)] request) s)"

text \<open>
  \<open>probe\<close>: the echo test. \<open>superProbe\<close> is the result of the superclass's probe, which is asked
  only after the request was allocated.
\<close>

definition kbd_probe ::
  "('h, 'z) env \<Rightarrow> bool \<Rightarrow> ('h, 'z) ctl_scheme \<Rightarrow> (bool \<times> ('h, 'z) ctl_scheme) option" where
  "kbd_probe E superProbe s = do {
     let (request, s) = allocateRequest s;
     if \<not> superProbe then Some (False, s)
     else do {
       (request, s) \<leftarrow> submitRequestAndBlock E (set_commands
          [(kPS2C_WriteDataPort, kDP_TestKeyboardEcho), (kPS2C_ReadDataPortAndCompare, 0xEE)] request) s;
       Some (commandsCount request = 2, freeRequest s)
     }
   }"

section \<open>Start, stop and power control\<close>

text \<open>
  The driver is the target of its actions: \<open>self\<close> is its object, \<open>kbdInterruptAction\<close> and
  \<open>kbdPowerAction\<close> its two member functions.
\<close>

abbreviation (input) kbdInterruptAction :: action where "kbdInterruptAction \<equiv> 1"
abbreviation (input) kbdPowerAction :: action where "kbdPowerAction \<equiv> 2"

definition kbd_enable ::
  "('h, 'z) env \<Rightarrow> obj \<Rightarrow> kbd \<Rightarrow> ('h, 'z) ctl_scheme \<Rightarrow> (kbd \<times> ('h, 'z) ctl_scheme) option" where
  "kbd_enable E self k s = do {
     let s = installInterruptAction kDT_Keyboard self kbdInterruptAction s;
     let k = k\<lparr>kbdInterruptHandlerInstalled := True\<rparr>;
     let s = setLEDs (ledState k) s;
     s \<leftarrow> setCommandByte E (kCB_EnableKeyboardIRQ OR kCB_TranslateMode) kCB_DisableKeyboardClock s;
     Some (k, setKeyboardEnable True s)
   }"

definition kbd_disable ::
  "('h, 'z) env \<Rightarrow> kbd \<Rightarrow> ('h, 'z) ctl_scheme \<Rightarrow> (kbd \<times> ('h, 'z) ctl_scheme) option" where
  "kbd_disable E k s = do {
     let s = setKeyboardEnable False s;
     s \<leftarrow> setCommandByte E kCB_DisableKeyboardClock kCB_EnableKeyboardIRQ s;
     let s = (if kbdInterruptHandlerInstalled k then uninstallInterruptAction kDT_Keyboard s else s);
     Some (k\<lparr>kbdInterruptHandlerInstalled := False\<rparr>, s)
   }"

text \<open>The properties \<open>start\<close> looks up: control for caps lock, swapped keys, screenshots to disk.\<close>

definition kbd_start ::
  "('h, 'z) env \<Rightarrow> bool \<Rightarrow> obj \<Rightarrow> obj \<Rightarrow> bool \<times> bool \<times> bool \<Rightarrow> kbd \<Rightarrow> ('h, 'z) ctl_scheme
     \<Rightarrow> (bool \<times> kbd \<times> ('h, 'z) ctl_scheme) option" where
  "kbd_start E superStart self provider props k s =
     (if \<not> superStart then Some (False, k, s)
      else do {
        let s = retain provider s;
        let (emacs, mac, save) = props;
        let k = k\<lparr>kbdDevice := provider, emacsMode := emacs, macintoshMode := mac, saveSS := save\<rparr>;
        (k, s) \<leftarrow> kbd_enable E self k s;
        let s = installPowerControlAction kDT_Keyboard self kbdPowerAction s;
        Some (True, k\<lparr>kbdPowerControlHandlerInstalled := True\<rparr>, s)
      })"

definition kbd_stop ::
  "('h, 'z) env \<Rightarrow> kbd \<Rightarrow> ('h, 'z) ctl_scheme \<Rightarrow> (kbd \<times> ('h, 'z) ctl_scheme) option" where
  "kbd_stop E k s = do {
     (k, s) \<leftarrow> kbd_disable E k s;
     let s = (if kbdPowerControlHandlerInstalled k then uninstallPowerControlAction kDT_Keyboard s else s);
     let s = release (kbdDevice k) s;
     Some (k\<lparr>kbdPowerControlHandlerInstalled := False, kbdDevice := 0\<rparr>, s)
   }"

definition kbd_setDevicePowerState ::
  "('h, 'z) env \<Rightarrow> obj \<Rightarrow> u32 \<Rightarrow> kbd \<Rightarrow> ('h, 'z) ctl_scheme \<Rightarrow> (kbd \<times> ('h, 'z) ctl_scheme) option" where
  "kbd_setDevicePowerState E self whatToDo k s =
     (if whatToDo = kPS2C_DisableDevice then kbd_disable E k s
      else if whatToDo = kPS2C_EnableDevice then kbd_enable E self k s
      else Some (k, s))"

end
