(* ===== verification/Ps2KeyboardProps.thy ===== *)
theory Ps2KeyboardProps
  imports Ps2Keyboard
begin

text \<open>
  Properties of the keyboard driver: the bit vector of keys, the typematic filter, the prefix
  handling, the Print Screen replay, the lamps, and the sequences that enable and disable the
  keyboard.
\<close>

section \<open>A register of pressed keys\<close>

text \<open>
  What reaches the system of a series of key strokes (a key and whether it goes down): all releases,
  and the presses of keys that are up.
\<close>

fun stroke_events :: "('k \<Rightarrow> bool) \<Rightarrow> ('k \<times> bool) list \<Rightarrow> ('k \<times> bool) list" where
  "stroke_events D [] = []"
| "stroke_events D ((n, down) # es) =
     (if down \<and> D n then [] else [(n, down)]) @ stroke_events (D(n := down)) es"

text \<open>
  What the parser needs of the bit vector: pressing and releasing a key changes that key and
  no other.
\<close>

locale key_register =
  fixes press :: "'k \<Rightarrow> 'b \<Rightarrow> 'b"
    and lift :: "'k \<Rightarrow> 'b \<Rightarrow> 'b"
    and pressed :: "'k \<Rightarrow> 'b \<Rightarrow> bool"
    and key :: "'k \<Rightarrow> bool"
    and wf :: "'b \<Rightarrow> bool"
  assumes wf_press: "wf b \<Longrightarrow> key n \<Longrightarrow> wf (press n b)"
    and wf_lift: "wf b \<Longrightarrow> key n \<Longrightarrow> wf (lift n b)"
    and pressed_press: "wf b \<Longrightarrow> key n \<Longrightarrow> key m \<Longrightarrow> pressed m (press n b) \<longleftrightarrow> m = n \<or> pressed m b"
    and pressed_lift: "wf b \<Longrightarrow> key n \<Longrightarrow> key m \<Longrightarrow> pressed m (lift n b) \<longleftrightarrow> m \<noteq> n \<and> pressed m b"
begin

text \<open>The typematic filter: a press of a pressed key is dropped.\<close>

fun strokes :: "('k \<times> bool) list \<Rightarrow> 'b \<Rightarrow> ('k \<times> bool) list \<times> 'b" where
  "strokes [] b = ([], b)"
| "strokes ((n, down) # es) b =
     (if down \<and> pressed n b then strokes es b
      else (let (out, b') = strokes es (if down then press n b else lift n b)
            in ((n, down) # out, b')))"

definition keys_only :: "('k \<times> bool) list \<Rightarrow> bool" where
  "keys_only es \<longleftrightarrow> (\<forall>e \<in> set es. key (fst e))"

lemma keys_only_simps [simp]:
  "keys_only []" "keys_only (e # es) \<longleftrightarrow> key (fst e) \<and> keys_only es"
  by (simp_all add: keys_only_def)

lemma strokes_wf: "keys_only es \<Longrightarrow> wf b \<Longrightarrow> wf (snd (strokes es b))"
  by (induction es b rule: strokes.induct) (simp_all add: split_beta wf_press wf_lift)

text \<open>The register holds the direction of the last event of each key.\<close>

lemma strokes_pressed:
  "keys_only es \<Longrightarrow> wf b \<Longrightarrow> key m \<Longrightarrow>
     pressed m (snd (strokes es b)) \<longleftrightarrow>
     fold (\<lambda>(n, down) d. if n = m then down else d) es (pressed m b)"
proof (induction es b rule: strokes.induct)
  case (1 b)
  then show ?case by simp
next
  case (2 n down es b)
  show ?case
    using 2 by (cases "down \<and> pressed n b"; cases "n = m")
      (auto simp: split_beta wf_press wf_lift pressed_press pressed_lift)
qed

lemma stroke_events_cong:
  "keys_only es \<Longrightarrow> (\<And>m. key m \<Longrightarrow> D m = D' m) \<Longrightarrow> stroke_events D es = stroke_events D' es"
proof (induction es arbitrary: D D')
  case (Cons e es)
  obtain n down where e: "e = (n, down)" by fastforce
  have "stroke_events (D(n := down)) es = stroke_events (D'(n := down)) es"
    by (rule Cons.IH) (use Cons.prems e in simp_all)
  then show ?case using Cons.prems e by simp
qed simp

lemma strokes_events:
  "keys_only es \<Longrightarrow> wf b \<Longrightarrow> fst (strokes es b) = stroke_events (\<lambda>m. pressed m b) es"
proof (induction es b rule: strokes.induct)
  case (1 b)
  then show ?case by simp
next
  case (2 n down es b)
  have n: "key n" "keys_only es" using "2.prems"(1) by simp_all
  show ?case
  proof (cases "down \<and> pressed n b")
    case True
    then have "(\<lambda>m. pressed m b)(n := down) = (\<lambda>m. pressed m b)" by (intro ext) simp
    then show ?thesis using 2 n True by simp
  next
    case False
    let ?b = "if down then press n b else lift n b"
    have "fst (strokes es ?b) = stroke_events (\<lambda>m. pressed m ?b) es"
      using "2.IH"(2) [OF False n(2)] "2.prems"(2) n(1) wf_press wf_lift by simp
    also have "\<dots> = stroke_events ((\<lambda>m. pressed m b)(n := down)) es"
      using "2.prems"(2) n(1) by (intro stroke_events_cong n(2)) (auto simp: pressed_press pressed_lift)
    finally show ?thesis using False by (auto simp: split_beta)
  qed
qed

text \<open>In the output a key that is pressed is not pressed again before it was released.\<close>

primrec no_double_press :: "('k \<Rightarrow> bool) \<Rightarrow> ('k \<times> bool) list \<Rightarrow> bool" where
  "no_double_press D [] = True"
| "no_double_press D (e # es) =
     ((snd e \<longrightarrow> \<not> D (fst e)) \<and> no_double_press (D(fst e := snd e)) es)"

lemma no_double_press_cong:
  "keys_only es \<Longrightarrow> (\<And>m. key m \<Longrightarrow> D m = D' m) \<Longrightarrow> no_double_press D es = no_double_press D' es"
proof (induction es arbitrary: D D')
  case Nil
  then show ?case by simp
next
  case (Cons e es)
  have "no_double_press (D(fst e := snd e)) es = no_double_press (D'(fst e := snd e)) es"
    by (rule Cons.IH) (use Cons.prems in simp_all)
  then show ?case using Cons.prems by simp
qed

lemma strokes_keys_only: "keys_only es \<Longrightarrow> keys_only (fst (strokes es b))"
  by (induction es b rule: strokes.induct) (simp_all add: split_beta)

lemma strokes_no_double:
  "keys_only es \<Longrightarrow> wf b \<Longrightarrow> no_double_press (\<lambda>m. pressed m b) (fst (strokes es b))"
proof (induction es b rule: strokes.induct)
  case (1 b)
  then show ?case by simp
next
  case (2 n down es b)
  let ?b = "if down then press n b else lift n b"
  have n: "key n" "keys_only es" using "2.prems"(1) by simp_all
  show ?case
  proof (cases "down \<and> pressed n b")
    case True
    then show ?thesis using 2 by simp
  next
    case False
    have "no_double_press (\<lambda>m. pressed m ?b) (fst (strokes es ?b))"
      using "2.IH"(2) [OF False n(2)] "2.prems"(2) n(1) wf_press wf_lift by simp
    moreover have "no_double_press ((\<lambda>m. pressed m b)(n := down)) (fst (strokes es ?b)) =
        no_double_press (\<lambda>m. pressed m ?b) (fst (strokes es ?b))"
      using "2.prems"(2) n(1)
      by (intro no_double_press_cong strokes_keys_only [OF n(2)]) (auto simp: pressed_press pressed_lift)
    ultimately show ?thesis using False by (auto simp: split_beta)
  qed
qed

text \<open>Hence between two presses of a key there is a release.\<close>

lemma no_double_press_release:
  "no_double_press D (es @ (n, True) # fs) \<Longrightarrow> D n \<Longrightarrow> (n, False) \<in> set es"
proof (induction es arbitrary: D)
  case Nil
  then show ?case by simp
next
  case (Cons e es)
  show ?case
  proof (cases "fst e = n")
    case True
    then show ?thesis using Cons.prems by (cases e; cases "snd e") auto
  next
    case False
    then have "(n, False) \<in> set es"
      using Cons.prems by (intro Cons.IH [of "D(fst e := snd e)"]) (simp_all del: fun_upd_apply, simp)
    then show ?thesis by simp
  qed
qed

lemma no_double_press_suffix:
  "no_double_press D (es @ fs) \<Longrightarrow> \<exists>D'. no_double_press D' fs"
  by (induction es arbitrary: D) auto

lemma strokes_alternate:
  assumes "keys_only es" "wf b" "fst (strokes es b) = as @ (n, True) # bs @ (n, True) # cs"
  shows "(n, False) \<in> set bs"
proof -
  obtain D where "no_double_press D ((n, True) # bs @ (n, True) # cs)"
    using no_double_press_suffix strokes_no_double [OF assms(1,2)] unfolding assms(3) by blast
  then show ?thesis using no_double_press_release [of "D(n := True)" bs n cs] by simp
qed

text \<open>Pressing distinct keys that are up, and releasing any keys, passes the filter.\<close>

lemma strokes_fresh:
  "distinct ns \<Longrightarrow> wf b \<Longrightarrow> \<forall>n \<in> set ns. key n \<and> \<not> pressed n b \<Longrightarrow>
     strokes (map (\<lambda>n. (n, True)) ns) b = (map (\<lambda>n. (n, True)) ns, fold press ns b)"
proof (induction ns arbitrary: b)
  case Nil
  then show ?case by simp
next
  case (Cons a ns)
  have "\<forall>n \<in> set ns. key n \<and> \<not> pressed n (press a b)"
    using Cons.prems by (auto simp: pressed_press)
  then have "strokes (map (\<lambda>n. (n, True)) ns) (press a b) =
      (map (\<lambda>n. (n, True)) ns, fold press ns (press a b))"
    using Cons.prems by (intro Cons.IH) (auto simp: wf_press)
  then show ?case using Cons.prems by simp
qed

lemma strokes_release:
  "strokes (map (\<lambda>n. (n, False)) ns) b = (map (\<lambda>n. (n, False)) ns, fold lift ns b)"
  by (induction ns arbitrary: b) simp_all

lemma chord_restores:
  assumes "wf b" "\<forall>n \<in> set ns. key n \<and> \<not> pressed n b" "key m"
  shows "pressed m (fold lift ns (fold press ns b)) \<longleftrightarrow> pressed m b"
proof -
  have p: "wf (fold press ns b) \<and> (pressed m (fold press ns b) \<longleftrightarrow> m \<in> set ns \<or> pressed m b)"
    if "\<forall>n \<in> set ns. key n" "wf b" for ns b
    using that by (induction ns arbitrary: b) (auto simp: wf_press pressed_press assms(3))
  have l: "pressed m (fold lift ns b) \<longleftrightarrow> m \<notin> set ns \<and> pressed m b"
    if "\<forall>n \<in> set ns. key n" "wf b" for ns b
    using that by (induction ns arbitrary: b) (auto simp: wf_lift pressed_lift assms(3))
  show ?thesis using p [of ns b] l [of ns "fold press ns b"] assms by blast
qed

end

section \<open>The bit vector is such a register\<close>

lemma KBV_IS_KEYDOWN_bit: "KBV_IS_KEYDOWN n bits \<longleftrightarrow> bit (bits ! (n div 32)) (n mod 32)"
proof -
  have "n AND 31 = n mod 32"
    using take_bit_eq_mask [of 5 n] by (simp add: take_bit_eq_mod mask_eq_exp_minus_1)
  then show ?thesis
    using any_bit_push [of "bits ! (n div 32)" "n mod 32"]
    by (simp add: KBV_IS_KEYDOWN_def any_bit_def drop_bit_eq_div)
qed

definition kbv_wf :: "u32 list \<Rightarrow> bool" where
  "kbv_wf bits \<longleftrightarrow> length bits = KBV_NUNITS"

lemma KBV_update_bits:
  assumes "kbv_wf bits" "n < KBV_NUM_KEYCODES" "m < KBV_NUM_KEYCODES"
  shows "bit (KBV_KEYDOWN n bits ! (m div 32)) (m mod 32) \<longleftrightarrow>
      m = n \<or> bit (bits ! (m div 32)) (m mod 32)"
    and "bit (KBV_KEYUP n bits ! (m div 32)) (m mod 32) \<longleftrightarrow>
      m \<noteq> n \<and> bit (bits ! (m div 32)) (m mod 32)"
proof -
  have a: "n AND 31 = n mod 32" "drop_bit 5 n = n div 32"
    using take_bit_eq_mask [of 5 n]
    by (simp_all add: take_bit_eq_mod mask_eq_exp_minus_1 drop_bit_eq_div)
  have len: "n div 32 < length bits" using assms(1,2) by (simp add: kbv_wf_def)
  have mn: "m = n \<longleftrightarrow> m div 32 = n div 32 \<and> m mod 32 = n mod 32"
    by (metis div_mult_mod_eq)
  have p: "bit (push_bit (n mod 32) (1 :: u32)) (m mod 32) \<longleftrightarrow> m mod 32 = n mod 32"
    by (auto simp: bit_exp_iff possible_bit_def)
  show "bit (KBV_KEYDOWN n bits ! (m div 32)) (m mod 32) \<longleftrightarrow>
      m = n \<or> bit (bits ! (m div 32)) (m mod 32)"
    unfolding KBV_KEYDOWN_def a mn using len p
    by (cases "m div 32 = n div 32") (auto simp: bit_or_iff)
  show "bit (KBV_KEYUP n bits ! (m div 32)) (m mod 32) \<longleftrightarrow>
      m \<noteq> n \<and> bit (bits ! (m div 32)) (m mod 32)"
    unfolding KBV_KEYUP_def a mn using len p
    by (cases "m div 32 = n div 32") (auto simp: bit_and_iff bit_not_iff)
qed

interpretation kbv: key_register KBV_KEYDOWN KBV_KEYUP KBV_IS_KEYDOWN "\<lambda>n. n < KBV_NUM_KEYCODES" kbv_wf
  by unfold_locales
    (simp_all add: KBV_IS_KEYDOWN_bit KBV_update_bits,
     simp_all add: kbv_wf_def KBV_KEYDOWN_def KBV_KEYUP_def)

section \<open>Scan codes without a prefix\<close>

lemma dispatch_unprefixed:
  "c \<noteq> kSC_Extend \<Longrightarrow> c \<noteq> kSC_Pause \<Longrightarrow> extendCount k = 0 \<Longrightarrow>
     dispatchKeyboardEventWithScancode c k = dispatch_plain c k"
  by (simp add: dispatchKeyboardEventWithScancode_def)

text \<open>The driver's fields that the parser reads and never writes.\<close>

definition same_setup :: "kbd \<Rightarrow> kbd \<Rightarrow> bool" where
  "same_setup k k' \<longleftrightarrow> k' = k\<lparr>keyBitVector := keyBitVector k', extendCount := extendCount k',
     kbdEvents := kbdEvents k'\<rparr>"

definition run_scancodes :: "u8 list \<Rightarrow> kbd \<Rightarrow> kbd" where
  "run_scancodes cs k = fold (\<lambda>c k. snd (dispatchKeyboardEventWithScancode c k)) cs k"

lemma run_scancodes_simps [simp]:
  "run_scancodes [] k = k"
  "run_scancodes (c # cs) k = run_scancodes cs (snd (dispatchKeyboardEventWithScancode c k))"
  by (simp_all add: run_scancodes_def)

lemma run_scancodes_append: "run_scancodes (cs @ ds) k = run_scancodes ds (run_scancodes cs k)"
  by (simp add: run_scancodes_def)

text \<open>A sequence of scan codes without prefixes, as key strokes.\<close>

definition plain_codes :: "u8 list \<Rightarrow> bool" where
  "plain_codes cs \<longleftrightarrow> (\<forall>c \<in> set cs. c \<noteq> kSC_Extend \<and> c \<noteq> kSC_Pause)"

definition strokes_of :: "kbd \<Rightarrow> u8 list \<Rightarrow> (nat \<times> bool) list" where
  "strokes_of k cs = filter (\<lambda>e. fst e \<noteq> 0)
     (map (\<lambda>c. (plain_keyCode k c, \<not> any_bit c kSC_UpBit)) cs)"

definition key_event :: "nat \<times> bool \<Rightarrow> kbd_event" where
  "key_event e = KeyEvent (PS2ToADBMap ! fst e) (snd e) Uptime"

lemma clear_up_bit: "c AND NOT kSC_UpBit = take_bit 7 (c :: u8)"
proof (rule bit_word_eqI)
  fix n
  assume "n < LENGTH(8)"
  have "bit (kSC_UpBit) n \<longleftrightarrow> n = 7"
    using bit_push_bit_iff [of 7 "1 :: u8" n] by (auto simp: push_bit_eq_mult bit_1_iff)
  with \<open>n < LENGTH(8)\<close> show "bit (c AND NOT kSC_UpBit) n \<longleftrightarrow> bit (take_bit 7 c) n"
    unfolding bit_and_iff bit_not_iff bit_take_bit_iff by auto
qed

lemma unat_clear_up_bit: "unat (c AND NOT kSC_UpBit :: u8) = unat c mod 128"
  unfolding clear_up_bit unsigned_take_bit_eq by (simp add: take_bit_eq_mod)

lemma plain_keyCode_less: "plain_keyCode k c < KBV_NUM_KEYCODES"
  unfolding plain_keyCode_def Let_def unat_clear_up_bit by simp

lemma dispatch_keyCode_stroke:
  assumes "n < KBV_NUM_KEYCODES" "kbv_wf (keyBitVector k)"
  shows "snd (dispatch_keyCode n down k) =
    (case kbv.strokes (if n = 0 then [] else [(n, down)]) (keyBitVector k) of (out, b) \<Rightarrow>
       k\<lparr>keyBitVector := b, kbdEvents := kbdEvents k @ map key_event out\<rparr>)"
  using assms
  by (auto simp: dispatch_keyCode_def dispatchKeyboardEvent_def key_event_def Let_def)

lemma plain_run_strokes:
  "plain_codes cs \<Longrightarrow> kbv_wf (keyBitVector k) \<Longrightarrow> extendCount k = 0 \<Longrightarrow>
     run_scancodes cs k =
       (case kbv.strokes (strokes_of k cs) (keyBitVector k) of (out, b) \<Rightarrow>
          k\<lparr>keyBitVector := b, kbdEvents := kbdEvents k @ map key_event out\<rparr>)"
proof (induction cs arbitrary: k)
  case Nil
  then show ?case by (simp add: strokes_of_def)
next
  case (Cons c cs)
  let ?n = "plain_keyCode k c" and ?d = "\<not> any_bit c kSC_UpBit"
  obtain out b where ob: "kbv.strokes (if ?n = 0 then [] else [(?n, ?d)]) (keyBitVector k) = (out, b)"
    by fastforce
  let ?k = "k\<lparr>keyBitVector := b, kbdEvents := kbdEvents k @ map key_event out\<rparr>"
  have c: "c \<noteq> kSC_Extend" "c \<noteq> kSC_Pause" "plain_codes cs"
    using Cons.prems(1) by (auto simp: plain_codes_def)
  have step: "snd (dispatchKeyboardEventWithScancode c k) = ?k"
    unfolding dispatch_unprefixed [OF c(1,2) Cons.prems(3)] dispatch_plain_def
      dispatch_keyCode_stroke [OF plain_keyCode_less Cons.prems(2)] ob by simp
  have "kbv_wf b"
    using kbv.strokes_wf [OF _ Cons.prems(2), of "if ?n = 0 then [] else [(?n, ?d)]"] ob
      plain_keyCode_less [of k c] by simp
  then have "run_scancodes cs ?k = (case kbv.strokes (strokes_of ?k cs) b of (out', b') \<Rightarrow>
      ?k\<lparr>keyBitVector := b', kbdEvents := kbdEvents ?k @ map key_event out'\<rparr>)"
    using Cons.IH [OF c(3), of ?k] Cons.prems(3) by simp
  moreover have "strokes_of ?k cs = strokes_of k cs"
  proof -
    have "plain_keyCode ?k = plain_keyCode k" by (rule ext) (simp add: plain_keyCode_def Let_def)
    then show ?thesis by (simp only: strokes_of_def)
  qed
  moreover have "kbv.strokes (strokes_of k (c # cs)) (keyBitVector k) =
      (let (out', b') = kbv.strokes (strokes_of k cs) b in (out @ out', b'))"
    using ob by (auto simp: strokes_of_def split: if_splits prod.splits)
  ultimately show ?case using step by (simp add: split_beta Let_def)
qed

lemma strokes_of_keys: "kbv.keys_only (strokes_of k cs)"
  by (auto simp: kbv.keys_only_def strokes_of_def plain_keyCode_less)

text \<open>
  The key strokes that a series of scan codes without prefixes stands for, given the options of the
  driver: bit 7 is set for a release, the other bits number the key, and 0 is no key.
\<close>

definition typed :: "bool \<Rightarrow> bool \<Rightarrow> u8 list \<Rightarrow> (nat \<times> bool) list" where
  "typed emacs mac cs = filter (\<lambda>e. fst e \<noteq> 0)
     (map (\<lambda>c. (if emacs \<and> unat c mod 128 = 0x3A then 0x60
                else if mac \<and> unat c mod 128 = 0x38 then 0x70
                else unat c mod 128, unat c < 128)) cs)"

lemma up_bit_unat: "any_bit c kSC_UpBit \<longleftrightarrow> 128 \<le> unat (c :: u8)"
proof -
  have "unat c < 256" using unsigned_less [of c] by simp
  then have "odd (unat c div 128) \<longleftrightarrow> 128 \<le> unat c"
    by (cases "128 \<le> unat c") (simp_all add: div_nat_eqI [of 128 1 "unat c"])
  moreover have "bit (unat c) 7 \<longleftrightarrow> bit c 7" by (simp only: bit_unsigned_iff possible_bit_nat simp_thms)
  moreover have "bit (unat c) 7 \<longleftrightarrow> odd (unat c div 128)" by (simp add: bit_iff_odd)
  moreover have "any_bit c kSC_UpBit \<longleftrightarrow> bit c 7" using any_bit_push [of c 7] by simp
  ultimately show ?thesis by (simp only:)
qed

lemma strokes_of_typed: "strokes_of k cs = typed (emacsMode k) (macintoshMode k) cs"
proof -
  have "plain_keyCode k c = (if emacsMode k \<and> unat c mod 128 = 0x3A then 0x60
      else if macintoshMode k \<and> unat c mod 128 = 0x38 then 0x70 else unat c mod 128)" for c
    unfolding plain_keyCode_def Let_def unat_clear_up_bit by simp
  then show ?thesis by (simp add: strokes_of_def typed_def up_bit_unat not_le)
qed

text \<open>C31. For any sequence of scan codes without prefixes, in which the keyboard may repeat any key, the
  driver sends exactly the events of the key strokes it stands for, in order and with the keys' ADB
  codes: every release, and every press of a key that was up. Typematic repeats are left out, so
  between two presses of the same key there is always its release, and afterwards the bit vector
  holds for every key the direction of its last scan code.\<close>

theorem plain_scancodes_typematic:
  assumes "plain_codes cs" "kbv_wf (keyBitVector k)" "extendCount k = 0"
  defines "out \<equiv> stroke_events (\<lambda>n. KBV_IS_KEYDOWN n (keyBitVector k)) (typed (emacsMode k) (macintoshMode k) cs)"
  shows "kbdEvents (run_scancodes cs k) =
      kbdEvents k @ map (\<lambda>(n, down). KeyEvent (PS2ToADBMap ! n) down Uptime) out \<and>
    (\<forall>as n bs ds. out = as @ (n, True) # bs @ (n, True) # ds \<longrightarrow> (n, False) \<in> set bs) \<and>
    (\<forall>m < KBV_NUM_KEYCODES. KBV_IS_KEYDOWN m (keyBitVector (run_scancodes cs k)) \<longleftrightarrow>
       fold (\<lambda>(n, down) d. if n = m then down else d) (typed (emacsMode k) (macintoshMode k) cs)
         (KBV_IS_KEYDOWN m (keyBitVector k)))"
proof -
  note keys = strokes_of_keys [of k cs, unfolded strokes_of_typed]
  obtain b where ob: "kbv.strokes (typed (emacsMode k) (macintoshMode k) cs) (keyBitVector k) = (out, b)"
    using kbv.strokes_events [OF keys assms(2)] unfolding out_def by (metis prod.collapse)
  then have run: "run_scancodes cs k = k\<lparr>keyBitVector := b, kbdEvents := kbdEvents k @ map key_event out\<rparr>"
    using plain_run_strokes [OF assms(1-3)] by (simp add: strokes_of_typed)
  have "(n, False) \<in> set bs" if "out = as @ (n, True) # bs @ (n, True) # ds" for as n bs ds
    using kbv.strokes_alternate [OF keys assms(2)] ob that by (metis fst_conv)
  moreover have "KBV_IS_KEYDOWN m b \<longleftrightarrow> fold (\<lambda>(n, down) d. if n = m then down else d)
      (typed (emacsMode k) (macintoshMode k) cs) (KBV_IS_KEYDOWN m (keyBitVector k))" if "m < KBV_NUM_KEYCODES" for m
    using kbv.strokes_pressed [OF keys assms(2) that] unfolding ob by simp
  moreover have "key_event = (\<lambda>(n, down). KeyEvent (PS2ToADBMap ! n) down Uptime)"
    by (rule ext) (simp add: key_event_def split_beta)
  ultimately show ?thesis unfolding run by simp
qed

definition fresh_kbd :: kbd where
  "fresh_kbd = \<lparr>kbdDevice = 0, keyBitVector = replicate KBV_NUNITS 0, extendCount = 0,
     kbdInterruptHandlerInstalled = False, kbdPowerControlHandlerInstalled = False,
     ledState = 0, emacsMode = False, macintoshMode = False, saveSS = False, rootDomain = True,
     kbdEvents = []\<rparr>"

lemma fresh_kbd_simps [simp]:
  "kbv_wf (keyBitVector fresh_kbd)" "extendCount fresh_kbd = 0" "kbdEvents fresh_kbd = []"
  "macintoshMode fresh_kbd = False" "emacsMode fresh_kbd = False" "saveSS fresh_kbd = False"
  by (simp_all add: fresh_kbd_def kbv_wf_def)

theorem plain_scancodes_typematic_witness:
  "kbdEvents (run_scancodes [0x1E, 0x1E, 0x30, 0xB0, 0x1E] fresh_kbd) =
     [KeyEvent 0x00 True Uptime, KeyEvent 0x0B True Uptime, KeyEvent 0x0B False Uptime] \<and>
   KBV_IS_KEYDOWN 0x1E (keyBitVector (run_scancodes [0x1E, 0x1E, 0x30, 0xB0, 0x1E] fresh_kbd)) \<and>
   \<not> KBV_IS_KEYDOWN 0x30 (keyBitVector (run_scancodes [0x1E, 0x1E, 0x30, 0xB0, 0x1E] fresh_kbd))"
proof -
  have "plain_codes [0x1E, 0x1E, 0x30, 0xB0, 0x1E]" by (simp add: plain_codes_def)
  note typematic = plain_scancodes_typematic [OF this fresh_kbd_simps(1,2)]
  have strokes: "typed False False [0x1E, 0x1E, 0x30, 0xB0, 0x1E] =
      [(0x1E, True), (0x1E, True), (0x30, True), (0x30, False), (0x1E, True)]"
    by (simp add: typed_def)
  have up: "\<not> KBV_IS_KEYDOWN 0x1E (keyBitVector fresh_kbd)" "\<not> KBV_IS_KEYDOWN 0x30 (keyBitVector fresh_kbd)"
    by (simp_all add: fresh_kbd_def KBV_IS_KEYDOWN_bit)
  have "PS2ToADBMap ! 0x1E = 0x00" "PS2ToADBMap ! 0x30 = 0x0B" by (simp_all add: PS2ToADBMap_def)
  with typematic [THEN conjunct1] have "kbdEvents (run_scancodes [0x1E, 0x1E, 0x30, 0xB0, 0x1E] fresh_kbd) =
     [KeyEvent 0x00 True Uptime, KeyEvent 0x0B True Uptime, KeyEvent 0x0B False Uptime]"
    using up by (simp add: strokes)
  moreover note typematic [THEN conjunct2, THEN conjunct2, rule_format, of "0x1E"]
    typematic [THEN conjunct2, THEN conjunct2, rule_format, of "0x30"]
  ultimately show ?thesis by (simp add: strokes)
qed

section \<open>Prefixes\<close>

text \<open>The Pause key produces nothing: the two halves of the sequence that the keyboard sends
  for it (press and release) are swallowed whatever the state of the parser was, no event is
  sent, no key bit changes, and the parser is ready for the next key.\<close>

theorem pause_key_is_swallowed:
  "run_scancodes [0xE1, 0x1D, 0x45, 0xE1, 0x9D, 0xC5] k = k\<lparr>extendCount := 0\<rparr>"
  by (simp add: dispatchKeyboardEventWithScancode_def extended_code_def)

text \<open>A key with the extended prefix acts as the one key code of the conversion table,
  whatever prefix was pending before: unless it repeats a key that is already down, exactly one
  event with that key's ADB code is sent, only that key's bit changes, and the prefix is
  used up.\<close>

theorem extended_key_event:
  assumes "extended_code (macintoshMode k) (c AND NOT kSC_UpBit) = KeyCode n"
    and "c \<noteq> kSC_Extend" "c \<noteq> kSC_Pause" "kbv_wf (keyBitVector k)"
    and "\<not> (\<not> any_bit c kSC_UpBit \<and> KBV_IS_KEYDOWN n (keyBitVector k))"
  shows "\<exists>k'. run_scancodes [kSC_Extend, c] k = k' \<and>
    kbdEvents k' = kbdEvents k @ [KeyEvent (PS2ToADBMap ! n) (\<not> any_bit c kSC_UpBit) Uptime] \<and>
    extendCount k' = 0 \<and>
    (\<forall>m < KBV_NUM_KEYCODES. KBV_IS_KEYDOWN m (keyBitVector k') \<longleftrightarrow>
       (if m = n then \<not> any_bit c kSC_UpBit else KBV_IS_KEYDOWN m (keyBitVector k)))"
proof -
  have n: "n < KBV_NUM_KEYCODES" "n \<noteq> 0"
    using assms(1) by (auto simp: extended_code_def split: if_splits)
  have "run_scancodes [kSC_Extend, c] k =
      snd (dispatch_keyCode n (\<not> any_bit c kSC_UpBit) (k\<lparr>extendCount := 0\<rparr>))"
    using assms(1-3) by (simp add: dispatchKeyboardEventWithScancode_def Let_def)
  then show ?thesis
    using assms(4,5) n kbv.pressed_press [of "keyBitVector k" n] kbv.pressed_lift [of "keyBitVector k" n]
    by (auto simp: dispatch_keyCode_def dispatchKeyboardEvent_def Let_def)
qed

theorem extended_key_event_witness:
  "\<exists>k'. run_scancodes [0xE0, 0x48] fresh_kbd = k' \<and> kbdEvents k' = [KeyEvent 0x7E True Uptime]"
proof -
  have up: "\<not> KBV_IS_KEYDOWN 0x64 (keyBitVector fresh_kbd)"
    by (simp add: fresh_kbd_def KBV_IS_KEYDOWN_bit)
  have "extended_code (macintoshMode fresh_kbd) (0x48 AND NOT kSC_UpBit) = KeyCode 0x64"
    by (simp add: extended_code_def)
  from extended_key_event [OF this] up show ?thesis
    by (simp add: PS2ToADBMap_def)
qed

section \<open>Print Screen\<close>

lemma plain_fold_dispatch:
  "plain_codes cs \<Longrightarrow> extendCount k = 0 \<Longrightarrow>
     fold (\<lambda>c k. snd (dispatch_plain c k)) cs k = run_scancodes cs k"
proof (induction cs arbitrary: k)
  case Nil
  then show ?case by simp
next
  case (Cons c cs)
  have "c \<noteq> kSC_Extend" "c \<noteq> kSC_Pause" "plain_codes cs"
    using Cons.prems(1) by (auto simp: plain_codes_def)
  moreover have "extendCount (snd (dispatch_plain c k)) = 0"
    using Cons.prems(2)
    by (simp add: dispatch_plain_def dispatch_keyCode_def dispatchKeyboardEvent_def Let_def)
  ultimately show ?case using Cons.IH Cons.prems(2) by (simp add: dispatch_unprefixed)
qed

definition printScreen_keys :: "kbd \<Rightarrow> nat list" where
  "printScreen_keys k = (if saveSS k then [] else [0x1d]) @ [if macintoshMode k then 0x70 else 0x38, 0x2a, 0x05]"

lemma printScreen_strokes:
  "strokes_of k (printScreen_scancodes (saveSS k) down) = map (\<lambda>n. (n, down)) (printScreen_keys k)"
  by (auto simp: strokes_of_def printScreen_scancodes_def printScreen_keys_def plain_keyCode_def)

lemma printScreen_half:
  assumes "kbv_wf (keyBitVector k)" "c = (if down then 0x37 else 0xB7)"
  shows "run_scancodes [kSC_Extend, c] k =
    (case kbv.strokes (map (\<lambda>n. (n, down)) (printScreen_keys k)) (keyBitVector k) of (out, b) \<Rightarrow>
       k\<lparr>extendCount := 0, keyBitVector := b, kbdEvents := kbdEvents k @ map key_event out\<rparr>)"
proof -
  let ?k = "k\<lparr>extendCount := 0\<rparr>"
  have pc: "plain_codes (printScreen_scancodes (saveSS k) down)"
    by (simp add: plain_codes_def printScreen_scancodes_def)
  have so: "strokes_of ?k (printScreen_scancodes (saveSS k) down) = map (\<lambda>n. (n, down)) (printScreen_keys k)"
    using printScreen_strokes [of ?k down] by (simp add: printScreen_keys_def)
  have "run_scancodes [kSC_Extend, c] k =
      fold (\<lambda>c k. snd (dispatch_plain c k)) (printScreen_scancodes (saveSS k) down) ?k"
    using assms(2) by (simp add: dispatchKeyboardEventWithScancode_def extended_code_def Let_def)
  also have "\<dots> = run_scancodes (printScreen_scancodes (saveSS k) down) ?k"
    by (rule plain_fold_dispatch [OF pc]) simp
  also have "\<dots> = (case kbv.strokes (map (\<lambda>n. (n, down)) (printScreen_keys k)) (keyBitVector k) of
      (out, b) \<Rightarrow> k\<lparr>extendCount := 0, keyBitVector := b, kbdEvents := kbdEvents k @ map key_event out\<rparr>)"
    using plain_run_strokes [OF pc, of ?k] assms(1) so by simp
  finally show ?thesis .
qed

text \<open>Pressing and releasing Print Screen plays a chord: with the chord's keys up, the press
  sends the presses of Control (unless screenshots are saved), then of the key that left Alt
  stands for, of left Shift and of 4, and the release sends their releases in the same order;
  afterwards every key is as before. Without the swapped-keys option the second key is Option
  (ADB code 0x3A), with it Command (0x37).\<close>

theorem printScreen_chord:
  assumes "kbv_wf (keyBitVector k)"
    and "\<forall>n \<in> set (printScreen_keys k). \<not> KBV_IS_KEYDOWN n (keyBitVector k)"
  shows "\<exists>k'. run_scancodes [0xE0, 0x37, 0xE0, 0xB7] k = k' \<and>
    kbdEvents k' = kbdEvents k @
      map (\<lambda>a. KeyEvent a True Uptime) ((if saveSS k then [] else [0x3B]) @ [if macintoshMode k then 0x37 else 0x3A, 0x38, 0x15]) @
      map (\<lambda>a. KeyEvent a False Uptime) ((if saveSS k then [] else [0x3B]) @ [if macintoshMode k then 0x37 else 0x3A, 0x38, 0x15]) \<and>
    (\<forall>m < KBV_NUM_KEYCODES. KBV_IS_KEYDOWN m (keyBitVector k') \<longleftrightarrow> KBV_IS_KEYDOWN m (keyBitVector k))"
proof -
  let ?ns = "printScreen_keys k"
  let ?adb = "(if saveSS k then [] else [0x3B]) @ [if macintoshMode k then 0x37 else 0x3A, 0x38, 0x15] :: u8 list"
  have ns: "distinct ?ns" "\<forall>n \<in> set ?ns. n < KBV_NUM_KEYCODES"
    by (auto simp: printScreen_keys_def)
  have adb: "map key_event (map (\<lambda>n. (n, d)) ?ns) = map (\<lambda>a. KeyEvent a d Uptime) ?adb" for d
    by (simp add: key_event_def printScreen_keys_def PS2ToADBMap_def)
  define k1 where "k1 = k\<lparr>extendCount := 0, keyBitVector := fold KBV_KEYDOWN ?ns (keyBitVector k),
    kbdEvents := kbdEvents k @ map (\<lambda>a. KeyEvent a True Uptime) ?adb\<rparr>"
  have down: "kbv.strokes (map (\<lambda>n. (n, True)) ?ns) (keyBitVector k) =
      (map (\<lambda>n. (n, True)) ?ns, fold KBV_KEYDOWN ?ns (keyBitVector k))"
    using kbv.strokes_fresh [OF ns(1) assms(1)] ns(2) assms(2) by blast
  have r1: "run_scancodes [kSC_Extend, 0x37] k = k1"
    using printScreen_half [OF assms(1), of "0x37" True] down adb [of True] by (simp add: k1_def)
  have wf1: "kbv_wf (keyBitVector k1)"
    using kbv.strokes_wf [of "map (\<lambda>n. (n, True)) ?ns" "keyBitVector k"] ns(2) assms(1) down
    by (auto simp: k1_def kbv.keys_only_def)
  have keys1: "printScreen_keys k1 = ?ns" by (simp add: k1_def printScreen_keys_def)
  have r2: "run_scancodes [kSC_Extend, 0xB7] k1 = k1\<lparr>keyBitVector := fold KBV_KEYUP ?ns (keyBitVector k1),
      kbdEvents := kbdEvents k1 @ map (\<lambda>a. KeyEvent a False Uptime) ?adb\<rparr>"
    using printScreen_half [OF wf1, of "0xB7" False] keys1 kbv.strokes_release adb [of False]
    by (simp add: k1_def)
  have all: "run_scancodes [0xE0, 0x37, 0xE0, 0xB7] k =
      k1\<lparr>keyBitVector := fold KBV_KEYUP ?ns (keyBitVector k1),
        kbdEvents := kbdEvents k1 @ map (\<lambda>a. KeyEvent a False Uptime) ?adb\<rparr>"
    using run_scancodes_append [of "[kSC_Extend, 0x37]" "[kSC_Extend, 0xB7]" k] r1 r2 by simp
  have "\<forall>m < KBV_NUM_KEYCODES. KBV_IS_KEYDOWN m (fold KBV_KEYUP ?ns (fold KBV_KEYDOWN ?ns (keyBitVector k))) \<longleftrightarrow>
      KBV_IS_KEYDOWN m (keyBitVector k)"
    using kbv.chord_restores [OF assms(1)] ns(2) assms(2) by blast
  then show ?thesis unfolding all by (simp add: k1_def)
qed

theorem printScreen_chord_witness:
  "\<exists>k'. run_scancodes [0xE0, 0x37, 0xE0, 0xB7] (fresh_kbd\<lparr>saveSS := True\<rparr>) = k' \<and>
     kbdEvents k' = [KeyEvent 0x3A True Uptime, KeyEvent 0x38 True Uptime, KeyEvent 0x15 True Uptime,
       KeyEvent 0x3A False Uptime, KeyEvent 0x38 False Uptime, KeyEvent 0x15 False Uptime]"
proof -
  have "\<forall>n \<in> set (printScreen_keys (fresh_kbd\<lparr>saveSS := True\<rparr>)).
      \<not> KBV_IS_KEYDOWN n (keyBitVector (fresh_kbd\<lparr>saveSS := True\<rparr>))"
    by (simp add: printScreen_keys_def fresh_kbd_def KBV_IS_KEYDOWN_bit)
  from printScreen_chord [OF _ this] show ?thesis by simp
qed

section \<open>The lamps\<close>

datatype lamp = CapsLamp | NumLamp

primrec lamp_feedback :: "lamp \<times> bool \<Rightarrow> kbd \<times> ('h, 'z) ctl_scheme \<Rightarrow> kbd \<times> ('h, 'z) ctl_scheme" where
  "lamp_feedback (l, locked) ks =
     (case l of CapsLamp \<Rightarrow> setAlphaLockFeedback locked (fst ks) (snd ks)
              | NumLamp \<Rightarrow> setNumLockFeedback locked (fst ks) (snd ks))"

primrec lamp_bit :: "lamp \<Rightarrow> nat" where
  "lamp_bit CapsLamp = 2"
| "lamp_bit NumLamp = 1"

lemma lamp_mask_bit:
  "bit (kLED_CapsLock) n \<longleftrightarrow> n = 2" "bit (kLED_NumLock) n \<longleftrightarrow> n = 1"
  using bit_push_bit_iff [of 2 "1 :: u8" n] bit_push_bit_iff [of 1 "1 :: u8" n]
  by (auto simp: push_bit_eq_mult bit_1_iff)

lemma lamp_feedback_step:
  "bit (ledState (fst (lamp_feedback (l, locked) (k, s)))) n \<longleftrightarrow>
     (if n = lamp_bit l then locked else bit (ledState k) n)"
  "snd (lamp_feedback (l, locked) (k, s)) = setLEDs (ledState (fst (lamp_feedback (l, locked) (k, s)))) s"
proof -
  have "bit (ledState k OR kLED_CapsLock) n \<longleftrightarrow> n = 2 \<or> bit (ledState k) n"
    "bit (ledState k OR kLED_NumLock) n \<longleftrightarrow> n = 1 \<or> bit (ledState k) n"
    unfolding bit_or_iff lamp_mask_bit by auto
  moreover have "bit (ledState k AND NOT kLED_CapsLock) n \<longleftrightarrow> n \<noteq> 2 \<and> bit (ledState k) n"
    "bit (ledState k AND NOT kLED_NumLock) n \<longleftrightarrow> n \<noteq> 1 \<and> bit (ledState k) n"
    unfolding bit_and_iff bit_not_iff lamp_mask_bit by (auto dest: bit_imp_le_length)
  ultimately show "bit (ledState (fst (lamp_feedback (l, locked) (k, s)))) n \<longleftrightarrow>
     (if n = lamp_bit l then locked else bit (ledState k) n)"
    by (cases l; cases locked; cases "n = lamp_bit l")
      (simp_all add: setAlphaLockFeedback_def setNumLockFeedback_def Let_def)
  show "snd (lamp_feedback (l, locked) (k, s)) = setLEDs (ledState (fst (lamp_feedback (l, locked) (k, s)))) s"
    by (cases l) (simp_all add: setAlphaLockFeedback_def setNumLockFeedback_def Let_def)
qed

lemma setLEDs_queue:
  "requestQueue (setLEDs leds s) = requestQueue s @ [set_commands (set_leds_commands leds) zeroed_request]"
  by (simp add: setLEDs_def allocateRequest_def submitRequest_def log_call_def)

text \<open>The lamps follow the system: after any sequence of caps-lock and num-lock feedback the
  lamp state holds for each of the two the last value given (or its old one) and no other bit
  changes, and the last request queued for the keyboard sets exactly this state.\<close>

theorem lamps_follow_feedback:
  assumes "fold lamp_feedback (cs @ [c]) (k, s) = (k', s')"
  shows "(\<forall>l. bit (ledState k') (lamp_bit l) =
      fold (\<lambda>(l', locked) b. if l' = l then locked else b) (cs @ [c]) (bit (ledState k) (lamp_bit l))) \<and>
    (\<forall>n. n \<noteq> 1 \<and> n \<noteq> 2 \<longrightarrow> bit (ledState k') n = bit (ledState k) n) \<and>
    last (requestQueue s') = set_commands (set_leds_commands (ledState k')) zeroed_request"
proof -
  have bits: "bit (ledState (fst (fold lamp_feedback cs (k, s)))) n =
      fold (\<lambda>(l', locked) b. if n = lamp_bit l' then locked else b) cs (bit (ledState k) n)" for cs n
  proof (induction cs arbitrary: k s)
    case (Cons lc cs)
    obtain l locked where "lc = (l, locked)" by fastforce
    then show ?case
      using Cons.IH [of "fst (lamp_feedback lc (k, s))" "snd (lamp_feedback lc (k, s))"]
        lamp_feedback_step(1) [of l locked k s n] by simp
  qed simp
  have inj: "(lamp_bit l = lamp_bit l') = (l' = l)" for l l' by (cases l; cases l'; simp)
  have other: "fold (\<lambda>(l', locked) b. if n = lamp_bit l' then locked else b) cs b = b"
    if "n \<noteq> 1" "n \<noteq> 2" for n b and cs :: "(lamp \<times> bool) list"
  proof (induction cs arbitrary: b)
    case (Cons lc cs)
    show ?case using that Cons.IH by (cases lc; cases "fst lc") auto
  qed simp
  obtain l locked where c: "c = (l, locked)" by fastforce
  obtain k1 s1 where ks1: "fold lamp_feedback cs (k, s) = (k1, s1)" by fastforce
  have "s' = setLEDs (ledState k') s1"
    using assms lamp_feedback_step(2) [of l locked k1 s1] c ks1 by simp
  then have "last (requestQueue s') = set_commands (set_leds_commands (ledState k')) zeroed_request"
    by (simp add: setLEDs_queue)
  moreover have all: "bit (ledState k') n =
      fold (\<lambda>(l', locked) b. if n = lamp_bit l' then locked else b) (cs @ [c]) (bit (ledState k) n)" for n
    using bits [of "cs @ [c]" n] assms by simp
  moreover have "bit (ledState k') n = bit (ledState k) n" if "n \<noteq> 1" "n \<noteq> 2" for n
    unfolding all by (rule other [OF that])
  ultimately show ?thesis by (simp add: inj)
qed

theorem lamps_follow_feedback_witness:
  "bit (ledState (fst (fold lamp_feedback [(CapsLamp, True), (NumLamp, True), (CapsLamp, False)]
      (fresh_kbd, init_controller ())))) 1"
proof -
  obtain k' s' where r: "fold lamp_feedback ([(CapsLamp, True), (NumLamp, True)] @ [(CapsLamp, False)])
      (fresh_kbd, init_controller ()) = (k', s')" by fastforce
  have "bit (ledState k') (lamp_bit NumLamp)"
    using lamps_follow_feedback [OF r] by (auto dest: spec [of _ NumLamp])
  then show ?thesis using r by simp
qed

section \<open>Probing\<close>

text \<open>When the superclass refuses the probe the driver returns without freeing the request
  it allocated first: one request stays allocated for good and the hardware is never asked.\<close>

theorem kbd_probe_leaks_request:
  "kbd_probe E False s = Some (False, s\<lparr>liveRequests := liveRequests s + 1\<rparr>)"
  by (simp add: kbd_probe_def allocateRequest_def)

end
