(* ===== verification/Ps2Mouse.thy ===== *)
theory Ps2Mouse
  imports Ps2KeyboardProps
begin

text \<open>
  The mouse driver \<open>ApplePS2Mouse\<close>. Its interrupt routine may reset the mouse, which blocks on
  requests while further bytes are delivered, possibly to this very routine; so the driver's
  state lives inside the machine's state, and the drivers' routines are reached through the
  environment \<open>E\<close> of the controller.
\<close>

section \<open>State\<close>

datatype PS2MouseId = kMouseTypeStandard | kMouseTypeIntellimouse | kMouseTypeIntellimouseExplorer

text \<open>
  What the driver sends to its superclass: pointer events (dx, dy and buttons as 32-bit words),
  scroll events, and the scroll-resolution property.
\<close>

datatype mouse_event =
    RelativePointer u32 u32 u32
  | ScrollWheel int
  | LogUnexpectedData
  | SetScrollResolution
  | RemoveScrollResolution

abbreviation (input) kPacketLengthMax :: nat where "kPacketLengthMax \<equiv> 4"
abbreviation (input) kPacketLengthStandard :: nat where "kPacketLengthStandard \<equiv> 3"
abbreviation (input) kPacketLengthIntellimouse :: nat where "kPacketLengthIntellimouse \<equiv> 4"

record mouse =
  mouseDevice :: obj
  mouseInterruptHandlerInstalled :: bool
  mousePowerControlHandlerInstalled :: bool
  packetBuffer :: "u8 list"
  packetByteCount :: nat
  packetLength :: nat
  mouseResolution :: u32
  mouseType :: PS2MouseId
  buttonCount :: nat
  mouseInfoBytes :: u32
  mouseResetCount :: nat
  mouseEvents :: "mouse_event list"

text \<open>The whole machine: the controller with its two drivers.\<close>

record 'h machine = "'h ctl" +
  keyboard :: kbd
  mouse :: mouse

type_synonym ('h, 'z) machine_env = "('h, 'z machine_ext) env"

definition mouse_init :: "mouse \<Rightarrow> mouse" where
  "mouse_init m = m\<lparr>mouseDevice := 0, mouseInterruptHandlerInstalled := False,
     packetByteCount := 0, packetLength := kPacketLengthStandard,
     mouseResolution := push_bit 16 150, mouseType := kMouseTypeStandard,
     buttonCount := 3, mouseInfoBytes := 0xFFFFFFFF\<rparr>"

definition mouse_event :: "mouse_event \<Rightarrow> mouse \<Rightarrow> mouse" where
  "mouse_event e m = m\<lparr>mouseEvents := mouseEvents m @ [e]\<rparr>"

section \<open>Requests\<close>

text \<open>
  The two idioms of all the drivers: a blocking request, freed after its results were read, and
  an asynchronous one, which the controller frees.
\<close>

definition blocking_request ::
  "('h, 'z) env \<Rightarrow> (PS2CommandEnum \<times> u8) list \<Rightarrow> ('h, 'z) ctl_scheme
     \<Rightarrow> (PS2Request \<times> ('h, 'z) ctl_scheme) option" where
  "blocking_request E cs s = do {
     let (request, s) = allocateRequest s;
     (request, s) \<leftarrow> submitRequestAndBlock E (set_commands cs request) s;
     Some (request, freeRequest s)
   }"

definition async_request ::
  "(PS2CommandEnum \<times> u8) list \<Rightarrow> ('h, 'z) ctl_scheme \<Rightarrow> ('h, 'z) ctl_scheme" where
  "async_request cs s =
     (let (request, s) = allocateRequest s in submitRequest (set_commands cs request) s)"

text \<open>A byte sent to the mouse with its acknowledge, as three commands.\<close>

definition mouse_command :: "u8 \<Rightarrow> (PS2CommandEnum \<times> u8) list" where
  "mouse_command b =
     [(kPS2C_WriteCommandPort, kCP_TransmitToMouse), (kPS2C_WriteDataPort, b),
      (kPS2C_ReadDataPortAndCompare, kSC_Acknowledge)]"

definition setMouseEnable ::
  "('h, 'z) env \<Rightarrow> bool \<Rightarrow> ('h, 'z) ctl_scheme \<Rightarrow> ('h, 'z) ctl_scheme option" where
  "setMouseEnable E enable s = do {
     (_, s) \<leftarrow> blocking_request E
        (mouse_command (if enable then kDP_Enable else kDP_SetDefaultsAndDisable)) s;
     Some s
   }"

definition setMouseSampleRate :: "u8 \<Rightarrow> ('h, 'z) ctl_scheme \<Rightarrow> ('h, 'z) ctl_scheme" where
  "setMouseSampleRate sampleRate s =
     async_request (mouse_command kDP_SetMouseSampleRate @ mouse_command sampleRate) s"

definition setMouseResolution :: "u8 \<Rightarrow> ('h, 'z) ctl_scheme \<Rightarrow> ('h, 'z) ctl_scheme" where
  "setMouseResolution resolution s =
     async_request (mouse_command kDP_SetMouseResolution @ mouse_command resolution) s"

definition get_information_commands :: "(PS2CommandEnum \<times> u8) list" where
  "get_information_commands = mouse_command kDP_GetMouseInformation @
     [(kPS2C_ReadDataPort, 0), (kPS2C_ReadDataPort, 0), (kPS2C_ReadDataPort, 0)]"

definition getMouseInformation ::
  "('h, 'z) env \<Rightarrow> ('h, 'z) ctl_scheme \<Rightarrow> (u32 \<times> ('h, 'z) ctl_scheme) option" where
  "getMouseInformation E s = do {
     (request, s) \<leftarrow> blocking_request E get_information_commands s;
     let returnValue =
       (if commandsCount request = 6
        then push_bit 16 (ucast (inOrOut (commands request ! 3))) OR
             push_bit 8 (ucast (inOrOut (commands request ! 4))) OR
             ucast (inOrOut (commands request ! 5))
        else 0xFFFFFFFF);
     Some (returnValue, s)
   }"

definition getMouseID ::
  "('h, 'z) env \<Rightarrow> ('h, 'z) ctl_scheme \<Rightarrow> (u8 \<times> ('h, 'z) ctl_scheme) option" where
  "getMouseID E s = do {
     (request, s) \<leftarrow> blocking_request E (mouse_command kDP_GetId @ [(kPS2C_ReadDataPort, 0)]) s;
     Some (if commandsCount request = 4 then inOrOut (commands request ! 3) else 0xFF, s)
   }"

definition setIntellimouseMode ::
  "('h, 'z) machine_env \<Rightarrow> ('h, 'z) machine_scheme
     \<Rightarrow> (PS2MouseId \<times> ('h, 'z) machine_scheme) option" where
  "setIntellimouseMode E s = do {
     let s = setMouseSampleRate 80 (setMouseSampleRate 100 (setMouseSampleRate 200 s));
     (mouseIDByte, s) \<leftarrow> getMouseID E s;
     let mouseID = (if mouseIDByte = 4 then kMouseTypeIntellimouseExplorer
                    else if mouseIDByte = 3 then kMouseTypeIntellimouse
                    else kMouseTypeStandard);
     (mouseID, s) \<leftarrow>
        (if mouseID = kMouseTypeIntellimouse then do {
           let s = setMouseSampleRate 80 (setMouseSampleRate 200 (setMouseSampleRate 200 s));
           (mouseIDByte, s) \<leftarrow> getMouseID E s;
           Some (if mouseIDByte = 4 then kMouseTypeIntellimouseExplorer
                 else kMouseTypeIntellimouse, s)
         }
         else Some (mouseID, s));
     let s = setMouseSampleRate (ucast (mouseInfoBytes (mouse s) AND 0xFF)) s;
     Some (mouseID, s)
   }"

text \<open>The \<open>setCommandByte\<close> of the mouse driver is a copy of the keyboard driver's.\<close>

definition mouse_setCommandByte ::
  "('h, 'z) env \<Rightarrow> u8 \<Rightarrow> u8 \<Rightarrow> ('h, 'z) ctl_scheme \<Rightarrow> ('h, 'z) ctl_scheme option" where
  "mouse_setCommandByte E setBits clearBits s = do {
     let (request, s) = allocateRequest s;
     (request, s) \<leftarrow> setCommandByte_loop E setBits clearBits request s;
     Some (freeRequest s)
   }"

section \<open>Probe and reset\<close>

definition mouse_probe ::
  "('h, 'z) env \<Rightarrow> bool \<Rightarrow> ('h, 'z) ctl_scheme \<Rightarrow> (bool \<times> ('h, 'z) ctl_scheme) option" where
  "mouse_probe E superProbe s = do {
     let (request, s) = allocateRequest s;
     if \<not> superProbe then Some (False, s)
     else do {
       (request, s) \<leftarrow> submitRequestAndBlock E (set_commands get_information_commands request) s;
       Some (commandsCount request = 6, freeRequest s)
     }
   }"

definition resolution_dpi :: "u32 \<Rightarrow> u32" where
  "resolution_dpi info =
     (let code = info AND 0x00FF00
      in if code = 0x0000 then push_bit 16 25
         else if code = 0x0100 then push_bit 16 50
         else if code = 0x0200 then push_bit 16 100
         else if code = 0x0300 then push_bit 16 200
         else push_bit 16 150)"

definition set_mouse_type :: "PS2MouseId \<Rightarrow> mouse \<Rightarrow> mouse" where
  "set_mouse_type type m =
     (if type \<noteq> kMouseTypeStandard
      then mouse_event SetScrollResolution (m\<lparr>packetLength := kPacketLengthIntellimouse, mouseType := type,
             buttonCount := (if type = kMouseTypeIntellimouseExplorer then 5 else 3)\<rparr>)
      else mouse_event RemoveScrollResolution (m\<lparr>packetLength := kPacketLengthStandard,
             mouseType := kMouseTypeStandard, buttonCount := 3\<rparr>))
     \<lparr>packetByteCount := 0\<rparr>"

definition resetMouse ::
  "('h, 'z) machine_env \<Rightarrow> ('h, 'z) machine_scheme \<Rightarrow> ('h, 'z) machine_scheme option" where
  "resetMouse E s = do {
     (_, s) \<leftarrow> blocking_request E [(kPS2C_SendMouseCommandAndCompareAck, kDP_SetDefaults)] s;
     s \<leftarrow> (if mouseInfoBytes (mouse s) = 0xFFFFFFFF then do {
            (info, s) \<leftarrow> getMouseInformation E s;
            Some (mouse_update (\<lambda>m. m\<lparr>mouseInfoBytes := info, mouseResolution := resolution_dpi info\<rparr>) s)
          }
          else Some (setMouseResolution (ucast (drop_bit 8 (mouseInfoBytes (mouse s)))) s));
     (type, s) \<leftarrow> setIntellimouseMode E s;
     let s = mouse_update (set_mouse_type type) s;
     s \<leftarrow> mouse_setCommandByte E kCB_EnableMouseIRQ kCB_DisableMouseClock s;
     setMouseEnable E True s
   }"

definition scheduleMouseReset ::
  "('h, 'z) machine_env \<Rightarrow> ('h, 'z) machine_scheme \<Rightarrow> ('h, 'z) machine_scheme option" where
  "scheduleMouseReset E s = do {
     s \<leftarrow> setMouseEnable E False s;
     resetMouse E s
   }"

section \<open>Packets\<close>

definition relative_delta :: "bool \<Rightarrow> u8 \<Rightarrow> u32" where
  "relative_delta negative b = (if negative then 0xffffff00 else 0) OR ucast b"

definition scroll_delta :: "u8 \<Rightarrow> int" where
  "scroll_delta b = sint (signed_drop_bit 4 (push_bit 4 b))"

definition dispatchRelativePointerEventWithPacket :: "u8 list \<Rightarrow> nat \<Rightarrow> mouse \<Rightarrow> mouse" where
  "dispatchRelativePointerEventWithPacket packet packetSize m =
     (let buttons = (if any_bit (packet ! 0) 0x1 then 0x1 else 0) OR
                    (if any_bit (packet ! 0) 0x2 then 0x2 else 0) OR
                    (if any_bit (packet ! 0) 0x4 then 0x4 else 0);
          dx = relative_delta (any_bit (packet ! 0) 0x10) (packet ! 1);
          dy = - relative_delta (any_bit (packet ! 0) 0x20) (packet ! 2)
      in if packetSize > 3 then
           (let buttons = (if mouseType m = kMouseTypeIntellimouseExplorer
                           then buttons OR (if any_bit (packet ! 3) 0x10 then 0x8 else 0)
                                        OR (if any_bit (packet ! 3) 0x20 then 0x10 else 0)
                           else buttons);
                m = mouse_event (RelativePointer dx dy buttons) m;
                dz = scroll_delta (packet ! 3)
            in if dz \<noteq> 0 then mouse_event (ScrollWheel (- dz)) m else m)
         else mouse_event (RelativePointer dx dy buttons) m)"

text \<open>
  The interrupt routine: out of step it resets the mouse, at most 5 times in a row; otherwise
  the byte is stored, and a complete packet or the announcement of a freshly plugged mouse is
  acted upon.
\<close>

definition store_byte :: "u8 \<Rightarrow> mouse \<Rightarrow> mouse" where
  "store_byte data m = m\<lparr>packetBuffer := (packetBuffer m)[packetByteCount m := data],
     packetByteCount := packetByteCount m + 1\<rparr>"

definition mouse_interruptOccurred ::
  "('h, 'z) machine_env \<Rightarrow> u8 \<Rightarrow> ('h, 'z) machine_scheme \<Rightarrow> ('h, 'z) machine_scheme option" where
  "mouse_interruptOccurred E data s =
     (if packetByteCount (mouse s) = 0 \<and> (data = kSC_Acknowledge \<or> \<not> any_bit data 0x08) then
        (let s = mouse_update (mouse_event LogUnexpectedData) s
         in if mouseResetCount (mouse s) < 5
            then scheduleMouseReset E (mouse_update (\<lambda>m. m\<lparr>mouseResetCount := mouseResetCount m + 1\<rparr>) s)
            else Some s)
      else
        (let s = mouse_update (store_byte data) s
         in if packetByteCount (mouse s) = packetLength (mouse s) then
              Some (mouse_update (\<lambda>m. (dispatchRelativePointerEventWithPacket (packetBuffer m) (packetLength m) m)
                \<lparr>packetByteCount := 0, mouseResetCount := 0\<rparr>) s)
            else if packetByteCount (mouse s) = 2 \<and> packetBuffer (mouse s) ! 0 = 0xAA
            then scheduleMouseReset E s
            else Some s))"

section \<open>Start, stop and power control\<close>

abbreviation (input) mouseInterruptAction :: action where "mouseInterruptAction \<equiv> 3"
abbreviation (input) mousePowerAction :: action where "mousePowerAction \<equiv> 4"

definition mouse_start ::
  "('h, 'z) machine_env \<Rightarrow> bool \<Rightarrow> obj \<Rightarrow> obj \<Rightarrow> ('h, 'z) machine_scheme
     \<Rightarrow> (bool \<times> ('h, 'z) machine_scheme) option" where
  "mouse_start E superStart self provider s =
     (if \<not> superStart then Some (False, s)
      else do {
        let s = retain provider (mouse_update (\<lambda>m. m\<lparr>mouseDevice := provider\<rparr>) s);
        s \<leftarrow> resetMouse E s;
        let s = installInterruptAction kDT_Mouse self mouseInterruptAction s;
        let s = mouse_update (\<lambda>m. m\<lparr>mouseInterruptHandlerInstalled := True\<rparr>) s;
        let s = installPowerControlAction kDT_Mouse self mousePowerAction s;
        Some (True, mouse_update (\<lambda>m. m\<lparr>mousePowerControlHandlerInstalled := True\<rparr>) s)
      })"

definition mouse_stop ::
  "('h, 'z) machine_env \<Rightarrow> ('h, 'z) machine_scheme \<Rightarrow> ('h, 'z) machine_scheme option" where
  "mouse_stop E s = do {
     s \<leftarrow> setMouseEnable E False s;
     s \<leftarrow> mouse_setCommandByte E kCB_DisableMouseClock kCB_EnableMouseIRQ s;
     let s = (if mouseInterruptHandlerInstalled (mouse s) then uninstallInterruptAction kDT_Mouse s else s);
     let s = mouse_update (\<lambda>m. m\<lparr>mouseInterruptHandlerInstalled := False\<rparr>) s;
     let s = (if mousePowerControlHandlerInstalled (mouse s) then uninstallPowerControlAction kDT_Mouse s else s);
     let s = mouse_update (\<lambda>m. m\<lparr>mousePowerControlHandlerInstalled := False\<rparr>) s;
     let s = release (mouseDevice (mouse s)) s;
     Some (mouse_update (\<lambda>m. m\<lparr>mouseDevice := 0\<rparr>) s)
   }"

definition mouse_setDevicePowerState ::
  "('h, 'z) machine_env \<Rightarrow> u32 \<Rightarrow> ('h, 'z) machine_scheme \<Rightarrow> ('h, 'z) machine_scheme option" where
  "mouse_setDevicePowerState E whatToDo s =
     (if whatToDo = kPS2C_DisableDevice then setMouseEnable E False s
      else if whatToDo = kPS2C_EnableDevice then resetMouse E s
      else Some s)"

end
