(* ===== verification/Ps2DriverState.thy ===== *)
theory Ps2DriverState
  imports Ps2Mouse
begin

text \<open>
  Every operation of the controller leaves the drivers' own state to the drivers: a property
  \<open>J\<close> of it that the drivers' interrupt actions keep is kept by every request and every
  interrupt, however the actions are nested.
\<close>

section \<open>What the drivers keep\<close>

definition keeps_driver :: "('h, 'z) env \<Rightarrow> (('h, 'z) ctl_scheme \<Rightarrow> bool) \<Rightarrow> bool" where
  "keeps_driver E J \<longleftrightarrow>
     (\<forall>s s'. ctl.more s' = ctl.more s \<longrightarrow> J s \<longrightarrow> J s') \<and>
     (\<forall>a t b s s'. runInterruptAction E a t b s = Some s' \<longrightarrow> J s \<longrightarrow> J s')"

lemma keeps_more: "keeps_driver E J \<Longrightarrow> J s \<Longrightarrow> ctl.more s' = ctl.more s \<Longrightarrow> J s'"
  unfolding keeps_driver_def by blast

lemma keeps_action: "keeps_driver E J \<Longrightarrow> J s \<Longrightarrow> runInterruptAction E a t b s = Some s' \<Longrightarrow> J s'"
  unfolding keeps_driver_def by blast

text \<open>Operations that only change the controller's fields.\<close>

named_theorems same_more \<open>the drivers' part of the state is the same\<close>

lemma more_updates [same_more]:
  "ctl.more (log_call c s) = ctl.more s" "ctl.more (s\<lparr>hw := h\<rparr>) = ctl.more s"
  "ctl.more (s\<lparr>kq := q\<rparr>) = ctl.more s" "ctl.more (port_out E p b s) = ctl.more s"
  "ctl.more (snd (port_in E p s)) = ctl.more s" "ctl.more (freeRequest s) = ctl.more s"
  "ctl.more (snd (allocateRequest s)) = ctl.more s" "ctl.more (submitRequest r s) = ctl.more s"
  "ctl.more (submitRequestAndBlockCompletion q0 s) = ctl.more s"
  "ctl.more (complete_request r s) = ctl.more s" "ctl.more (s\<lparr>requestQueue := rs\<rparr>) = ctl.more s"
  "ctl.more (s\<lparr>inGate := g\<rparr>) = ctl.more s" "ctl.more (async_request cs s) = ctl.more s"
  by (simp_all add: log_call_def port_out_def port_in_def split_beta freeRequest_def allocateRequest_def
      submitRequest_def submitRequestAndBlockCompletion_def complete_request_def async_request_def Let_def
      split: option.split)

lemma poll_output_more [same_more]: "ctl.more (snd (snd (poll_output E n st s))) = ctl.more s"
proof (induction n arbitrary: st s)
  case (Suc n)
  then show ?case by (auto simp: port_in_def split_beta)
qed simp

lemma fetch_byte_more [same_more]: "ctl.more (snd (snd (fetch_byte E d n s))) = ctl.more s"
  using poll_output_more [of E n 0 s]
  by (auto simp: fetch_byte_def port_in_def split_beta split: option.split)

lemma wait_input_more:
  assumes "wait_input E s = Some s'"
  shows "ctl.more s' = ctl.more s"
proof (rule wait_input.raw_induct [OF _ assms])
  fix f E s s'
  assume IH: "\<And>E s s'. f E s = Some s' \<Longrightarrow> ctl.more s' = ctl.more s"
    and y: "(case port_in E kCommandPort s of (st, s') \<Rightarrow>
      if any_bit st kInputBusy then f E s' else Some s') = Some s'"
  obtain st s1 where p: "port_in E kCommandPort s = (st, s1)" by fastforce
  have "ctl.more s1 = ctl.more s" using more_updates(5) [of E kCommandPort s] p by simp
  then show "ctl.more s' = ctl.more s" using y p IH by (auto split: if_splits)
qed

lemma write_more [same_more]:
  "writeDataPort E b s = Some s' \<Longrightarrow> ctl.more s' = ctl.more s"
  "writeCommandPort E b s = Some s' \<Longrightarrow> ctl.more s' = ctl.more s"
  by (auto simp: writeDataPort_def writeCommandPort_def bind_Some_iff same_more dest!: wait_input_more)

section \<open>Reading and requests\<close>

lemma dispatch_keeps:
  assumes "keeps_driver E J" "J s" "dispatchDriverInterrupt E d x s = Some s'"
  shows "J s'"
proof -
  have "J (log_call c s)" for c using keeps_more [OF assms(1,2)] by (simp add: same_more)
  then have "J s'" if "runInterruptAction E a t x (log_call c s) = Some s'" for a t c
    using that by (rule keeps_action [OF assms(1)])
  then show ?thesis
    using assms(2,3) unfolding dispatchDriverInterrupt_def by (metis option.inject)
qed

lemma readDataPort_driver:
  assumes "readDataPort E dt s = Some (b, s')" "keeps_driver E J" "J s"
  shows "J s'"
proof -
  have "keeps_driver E J \<longrightarrow> J s \<longrightarrow> J (snd y)" if "readDataPort_loop E dt n s = Some y" for n y
  proof (rule readDataPort_loop.raw_induct [OF _ that], intro impI)
    fix f E dt n s y
    assume IH: "\<And>E dt n s y. f E dt n s = Some y \<Longrightarrow> keeps_driver E J \<longrightarrow> J s \<longrightarrow> J (snd y)"
      and y: "(case fetch_byte E dt n s of (n', r, s1) \<Rightarrow>
        (case r of
           TimedOut \<Rightarrow> Some (0, log_call (LogTimedOut dt) s1)
         | Fetched requestedStream readByte \<Rightarrow>
             if requestedStream then Some (readByte, s1)
             else Option.bind (dispatchDriverInterrupt E (other_device dt) readByte s1)
                    (\<lambda>s2. f E dt n' s2))) = Some y"
      and E: "keeps_driver E J" "J s"
    obtain n' r s1 where f: "fetch_byte E dt n s = (n', r, s1)" by (metis surj_pair)
    have m1: "ctl.more s1 = ctl.more s" using fetch_byte_more [of E dt n s] f by simp
    have J1: "J s1" by (rule keeps_more [OF E m1])
    show "J (snd y)"
    proof (cases r)
      case TimedOut
      then have "y = (0, log_call (LogTimedOut dt) s1)" using y f by simp
      then show ?thesis using keeps_more [OF E(1) J1] by (simp add: same_more)
    next
      case (Fetched own x)
      show ?thesis
      proof (cases own)
        case True
        then show ?thesis using y f J1 Fetched by auto
      next
        case False
        then obtain s2 where s2: "dispatchDriverInterrupt E (other_device dt) x s1 = Some s2"
          "f E dt n' s2 = Some y"
          using y f Fetched by (auto simp: bind_Some_iff)
        show ?thesis using IH [OF s2(2)] dispatch_keeps [OF E(1) J1 s2(1)] E(1) by blast
      qed
    qed
  qed
  from this [of readTimeout "(b, s')"] assms show ?thesis by (simp add: readDataPort_def)
qed

lemma readDataPort_expect_driver:
  assumes "readDataPort_expect E dt e s = Some (b, s')" "keeps_driver E J" "J s"
  shows "J s'"
proof -
  have "keeps_driver E J \<longrightarrow> J s \<longrightarrow> J (snd y)"
    if "readDataPort_expect_loop E dt e held n s = Some y" for held n y
  proof (rule readDataPort_expect_loop.raw_induct [OF _ that], intro impI)
    fix f E dt e held n s y
    assume IH: "\<And>E dt e held n s y. f E dt e held n s = Some y \<Longrightarrow> keeps_driver E J \<longrightarrow> J s \<longrightarrow> J (snd y)"
      and y: "(case fetch_byte E dt n s of (n', r, s1) \<Rightarrow>
        (case r of
           TimedOut \<Rightarrow>
             (case held of
                None \<Rightarrow> Some (0, log_call (LogTimedOut dt) s1)
              | Some firstByte \<Rightarrow> Some (firstByte, s1))
         | Fetched requestedStream readByte \<Rightarrow>
             if requestedStream then
               (if readByte = e then
                  (case held of
                     None \<Rightarrow> Some (readByte, s1)
                   | Some firstByte \<Rightarrow>
                       Option.bind (dispatchDriverInterrupt E dt firstByte s1)
                         (\<lambda>s2. Some (readByte, s2)))
                else
                  (case held of
                     None \<Rightarrow> f E dt e (Some readByte) n' s1
                   | Some firstByte \<Rightarrow>
                       Option.bind (dispatchDriverInterrupt E dt readByte s1)
                         (\<lambda>s2. Some (firstByte, s2))))
             else Option.bind (dispatchDriverInterrupt E (other_device dt) readByte s1)
                    (\<lambda>s2. f E dt e held n' s2))) = Some y"
      and E: "keeps_driver E J" "J s"
    obtain n' r s1 where f: "fetch_byte E dt n s = (n', r, s1)" by (metis surj_pair)
    have m1: "ctl.more s1 = ctl.more s" using fetch_byte_more [of E dt n s] f by simp
    have J1: "J s1" by (rule keeps_more [OF E m1])
    note disp = dispatch_keeps [OF E(1) J1]
    show "J (snd y)"
    proof (cases r)
      case TimedOut
      then have "y = (case held of None \<Rightarrow> (0, log_call (LogTimedOut dt) s1) | Some g \<Rightarrow> (g, s1))"
        using y f by (auto split: option.splits)
      then show ?thesis using keeps_more [OF E(1) J1] J1 by (auto simp: same_more split: option.splits)
    next
      case (Fetched own x)
      consider (other) "\<not> own" | (hit) "own" "x = e" | (hold) "own" "x \<noteq> e" "held = None"
        | (second) g where "own" "x \<noteq> e" "held = Some g" by blast
      then show ?thesis
      proof cases
        case other
        then obtain s2 where s2: "dispatchDriverInterrupt E (other_device dt) x s1 = Some s2"
          "f E dt e held n' s2 = Some y"
          using y f Fetched by (auto simp: bind_Some_iff)
        show ?thesis using IH [OF s2(2)] disp [OF s2(1)] E(1) by blast
      next
        case hit
        then show ?thesis using y f Fetched J1 disp by (cases held) (auto simp: bind_Some_iff)
      next
        case hold
        then have "f E dt e (Some x) n' s1 = Some y" using y f Fetched by simp
        then show ?thesis using IH E(1) J1 by blast
      next
        case second
        then show ?thesis using y f Fetched disp by (auto simp: bind_Some_iff)
      qed
    qed
  qed
  from this [of None readTimeout "(b, s')"] assms show ?thesis by (simp add: readDataPort_expect_def)
qed

lemma write_driver:
  assumes "keeps_driver E J" "J s"
  shows "writeDataPort E b s = Some s' \<Longrightarrow> J s'" "writeCommandPort E b s = Some s' \<Longrightarrow> J s'"
  using keeps_more [OF assms] write_more by blast+

lemma process_command_driver:
  assumes "process_command E m x c s = Some (m', x', c', f, s')" "keeps_driver E J" "J s"
  shows "J s'"
proof (cases "command c")
  case kPS2C_ReadDataPort
  then show ?thesis
    using assms(1) readDataPort_driver [OF _ assms(2,3)]
    by (auto simp: process_command_def bind_Some_iff)
next
  case kPS2C_ReadDataPortAndCompare
  then show ?thesis
    using assms(1) readDataPort_expect_driver [OF _ assms(2,3)]
    by (auto simp: process_command_def bind_Some_iff)
next
  case kPS2C_WriteDataPort
  then show ?thesis
    using assms(1) write_driver(1) [OF assms(2,3)]
    by (auto simp: process_command_def bind_Some_iff split: if_splits)
next
  case kPS2C_WriteCommandPort
  then show ?thesis
    using assms(1) write_driver(2) [OF assms(2,3)]
    by (auto simp: process_command_def bind_Some_iff)
next
  case kPS2C_SendMouseCommandAndCompareAck
  then obtain s1 s2 b where "writeCommandPort E kCP_TransmitToMouse s = Some s1"
    "writeDataPort E (inOrOut c) s1 = Some s2"
    "readDataPort_expect E kDT_Mouse kSC_Acknowledge s2 = Some (b, s')"
    using assms(1) by (auto simp: process_command_def bind_Some_iff)
  then show ?thesis
    using write_driver [OF assms(2)] readDataPort_expect_driver [OF _ assms(2)] assms(3) by metis
qed

lemma process_commands_driver:
  "process_commands E m x cs s = Some (cs', i, s') \<Longrightarrow> keeps_driver E J \<Longrightarrow> J s \<Longrightarrow> J s'"
proof (induction cs arbitrary: m x s cs' i)
  case Nil
  then show ?case by simp
next
  case (Cons c cs)
  obtain m' x' c' f s1 where step: "process_command E m x c s = Some (m', x', c', f, s1)"
    and rest: "(if f then Some (c' # cs, Some 0, s1)
      else do { (cs', index, s) \<leftarrow> process_commands E m' x' cs s1;
                Some (c' # cs', map_option Suc index, s) }) = Some (cs', i, s')"
    using Cons.prems(1) by (auto simp: bind_Some_iff)
  have J1: "J s1" by (rule process_command_driver [OF step Cons.prems(2,3)])
  show ?case
  proof (cases f)
    case True
    then show ?thesis using rest J1 by simp
  next
    case False
    then obtain cs1 i1 where "process_commands E m' x' cs s1 = Some (cs1, i1, s')"
      using rest by (auto simp: bind_Some_iff)
    then show ?thesis using Cons.IH Cons.prems(2) J1 by blast
  qed
qed

lemma processRequest_driver:
  assumes "processRequest E r s = Some (r', s')" "keeps_driver E J" "J s"
  shows "J s'"
proof (cases "hardwareOffline s")
  case True
  then have "s' = complete_request r s" using assms(1) by (simp add: processRequest_def)
  then show ?thesis using keeps_more [OF assms(2,3)] by (simp add: same_more)
next
  case False
  then obtain cs i s1 q where run: "process_commands E kDT_Keyboard False
      (take (unat (commandsCount r)) (commands r)) s = Some (cs, i, s1)" "s' = complete_request q s1"
    using assms(1) by (auto simp: processRequest_def bind_Some_iff Let_def)
  have "J s1" by (rule process_commands_driver [OF run(1) assms(2,3)])
  then show ?thesis using keeps_more [OF assms(2)] run(2) by (simp add: same_more)
qed

lemma process_local_queue_driver:
  "process_local_queue E rs s = Some (rs', s') \<Longrightarrow> keeps_driver E J \<Longrightarrow> J s \<Longrightarrow> J s'"
proof (induction rs arbitrary: s rs')
  case Nil
  then show ?case by simp
next
  case (Cons r rs)
  then obtain r1 s1 rs1 where "processRequest E r s = Some (r1, s1)"
    "process_local_queue E rs s1 = Some (rs1, s')"
    by (auto simp: bind_Some_iff)
  then show ?case using Cons.IH Cons.prems(2,3) processRequest_driver by blast
qed

lemma processRequestQueue_driver:
  assumes "processRequestQueue E s = Some (rs, s')" "keeps_driver E J" "J s"
  shows "J s'"
proof -
  have "J (s\<lparr>requestQueue := []\<rparr>)" by (rule keeps_more [OF assms(2,3)]) (simp add: same_more)
  then show ?thesis
    using assms(1) process_local_queue_driver [OF _ assms(2)] by (simp add: processRequestQueue_def)
qed

lemma submitRequestAndBlock_driver:
  assumes "submitRequestAndBlock E r s = Some (r', s')" "keeps_driver E J" "J s"
  shows "J s'"
proof (cases "inGate s")
  case True
  then obtain rs s1 where "processRequestQueue E s = Some (rs, s1)"
    "processRequest E (r\<lparr>completion := Some 0\<rparr>) s1 = Some (r', s')"
    using assms(1) by (auto simp: submitRequestAndBlock_def bind_Some_iff)
  then show ?thesis using processRequestQueue_driver processRequest_driver assms(2,3) by blast
next
  case False
  let ?s = "(submitRequest (r\<lparr>completion := Some 1\<rparr>) s)\<lparr>inGate := True\<rparr>"
  obtain rs s1 where run: "processRequestQueue E ?s = Some (rs, s1)" "s' = s1\<lparr>inGate := False\<rparr>"
    using assms(1) False by (auto simp: submitRequestAndBlock_def bind_Some_iff Let_def)
  have "J ?s" by (rule keeps_more [OF assms(2,3)]) (simp add: same_more)
  then have "J s1" by (rule processRequestQueue_driver [OF run(1) assms(2)])
  then show ?thesis using keeps_more [OF assms(2)] run(2) by (simp add: same_more)
qed

lemma blocking_request_driver:
  assumes "blocking_request E cs s = Some (r, s')" "keeps_driver E J" "J s"
  shows "J s'"
proof -
  obtain s1 where s1: "submitRequestAndBlock E (set_commands cs (fst (allocateRequest s)))
      (snd (allocateRequest s)) = Some (r, s1)" "s' = freeRequest s1"
    using assms(1) by (auto simp: blocking_request_def bind_Some_iff split_beta)
  have "J (snd (allocateRequest s))" by (rule keeps_more [OF assms(2,3)]) (simp add: same_more)
  then have "J s1" by (rule submitRequestAndBlock_driver [OF s1(1) assms(2)])
  then show ?thesis using keeps_more [OF assms(2)] s1(2) by (simp add: same_more)
qed

lemma setCommandByte_loop_driver:
  assumes "setCommandByte_loop E st clr r s = Some y" "keeps_driver E J" "J s"
  shows "J (snd y)"
proof -
  have "keeps_driver E J \<longrightarrow> J s \<longrightarrow> J (snd y)"
  proof (rule setCommandByte_loop.raw_induct [OF _ assms(1)], intro impI)
    fix f E st clr r s y
    assume IH: "\<And>E st clr r s y. f E st clr r s = Some y \<Longrightarrow> keeps_driver E J \<longrightarrow> J s \<longrightarrow> J (snd y)"
      and y: "Option.bind (setCommandByte_round E st clr r s) (\<lambda>(r, s).
        if commandsCount r \<noteq> 4 then f E st clr r s else Some (r, s)) = Some y"
      and E: "keeps_driver E J" "J s"
    obtain r1 s1 where rnd: "setCommandByte_round E st clr r s = Some (r1, s1)"
      "(if commandsCount r1 \<noteq> 4 then f E st clr r1 s1 else Some (r1, s1)) = Some y"
      using y by (auto simp: bind_Some_iff)
    then obtain r0 s0 cs where "submitRequestAndBlock E (set_commands read_commands r) s = Some (r0, s0)"
      "submitRequestAndBlock E (set_commands cs r0) s0 = Some (r1, s1)"
      by (auto simp: setCommandByte_round_def bind_Some_iff Let_def)
    then have "J s1" using submitRequestAndBlock_driver E by blast
    then show "J (snd y)" using rnd(2) IH E(1) by (auto split: if_splits)
  qed
  then show ?thesis using assms(2,3) by simp
qed

section \<open>The mouse's packet buffer\<close>

text \<open>
  The buffer has room for the next byte: the invariant that keeps the driver from writing past
  its four-byte buffer.
\<close>

definition packet_inv :: "mouse \<Rightarrow> bool" where
  "packet_inv m \<longleftrightarrow> packetByteCount m < packetLength m \<and> packetLength m \<le> kPacketLengthMax \<and>
     kPacketLengthStandard \<le> packetLength m \<and> length (packetBuffer m) = kPacketLengthMax"

lemma packet_inv_simps [simp]:
  "packet_inv (mouse_event e m) = packet_inv m"
  "packet_inv (m\<lparr>mouseResetCount := n\<rparr>) = packet_inv m"
  "packet_inv (m\<lparr>mouseInfoBytes := i, mouseResolution := r\<rparr>) = packet_inv m"
  by (simp_all add: packet_inv_def mouse_event_def)

lemma packet_inv_set_type: "packet_inv m \<Longrightarrow> packet_inv (set_mouse_type ty m)"
  by (auto simp: packet_inv_def set_mouse_type_def mouse_event_def)

lemma packet_inv_dispatch:
  "packet_inv m \<Longrightarrow> packet_inv (dispatchRelativePointerEventWithPacket p n m)"
  by (simp add: dispatchRelativePointerEventWithPacket_def Let_def)

text \<open>Requests do not reach the buffer, except through the drivers' own actions.\<close>

definition keeps_packets :: "('h, 'z) machine_env \<Rightarrow> bool" where
  "keeps_packets E \<longleftrightarrow> (\<forall>a t b s s'. runInterruptAction E a t b s = Some s' \<longrightarrow>
     packet_inv (mouse s) \<longrightarrow> packet_inv (mouse s'))"

lemma mouse_more: "ctl.more s' = ctl.more s \<Longrightarrow> mouse s' = mouse s"
  by (cases s; cases s') simp

lemma keeps_packets_driver: "keeps_packets E \<Longrightarrow> keeps_driver E (\<lambda>s. packet_inv (mouse s))"
  unfolding keeps_driver_def keeps_packets_def using mouse_more by metis

end
