(* ===== verification/Ps2MouseProps.thy ===== *)
theory Ps2MouseProps
  imports Ps2DriverState
begin

text \<open>
  Properties of the mouse driver and of the machine in which both drivers answer the
  controller: the packet buffer is safe under re-entrant resets, packets are decoded as their
  format says, and the driver's questions to the mouse.
\<close>

section \<open>The drivers behind the controller\<close>

text \<open>
  The interrupt and power actions of the two drivers, for the environment \<open>E\<close> in which the
  requests they block on are executed.
\<close>

definition driver_interrupt ::
  "('h, 'z) machine_env \<Rightarrow> action \<Rightarrow> obj \<Rightarrow> u8 \<Rightarrow> ('h, 'z) machine_scheme
     \<Rightarrow> ('h, 'z) machine_scheme option" where
  "driver_interrupt E a target data s =
     (if a = kbdInterruptAction then Some (keyboard_update (kbd_interruptOccurred data) s)
      else if a = mouseInterruptAction then mouse_interruptOccurred E data s
      else None)"

definition driver_power ::
  "('h, 'z) machine_env \<Rightarrow> action \<Rightarrow> obj \<Rightarrow> u32 \<Rightarrow> ('h, 'z) machine_scheme
     \<Rightarrow> ('h, 'z) machine_scheme option" where
  "driver_power E a target whatToDo s =
     (if a = kbdPowerAction then do {
        (k, s) \<leftarrow> kbd_setDevicePowerState E target whatToDo (keyboard s) s;
        Some (keyboard_update (\<lambda>k0. k0\<lparr>kbdInterruptHandlerInstalled := kbdInterruptHandlerInstalled k\<rparr>) s)
      }
      else if a = mousePowerAction then mouse_setDevicePowerState E whatToDo s
      else None)"

text \<open>
  The machine, with the nesting of driver actions bounded by \<open>n\<close> (the depth of the kernel
  stack); \<open>H\<close> gives the ports and the debugger.
\<close>

primrec machine_env_of :: "('h, 'z) machine_env \<Rightarrow> nat \<Rightarrow> ('h, 'z) machine_env" where
  "machine_env_of H 0 = H\<lparr>runInterruptAction := (\<lambda>a t b s. None), runPowerControlAction := (\<lambda>a t w s. None)\<rparr>"
| "machine_env_of H (Suc n) = H\<lparr>runInterruptAction := driver_interrupt (machine_env_of H n),
     runPowerControlAction := driver_power (machine_env_of H n)\<rparr>"

section \<open>The packet buffer never overflows\<close>

lemma mouse_of_updates [simp]:
  "mouse (retain t s) = mouse s" "mouse (release t s) = mouse s"
  "mouse (async_request cs s) = mouse s" "mouse (setMouseSampleRate r s) = mouse s"
  "mouse (setMouseResolution r s) = mouse s"
  by (simp_all add: retain_def release_def async_request_def setMouseSampleRate_def
      setMouseResolution_def allocateRequest_def submitRequest_def log_call_def Let_def)

lemma setMouseEnable_packets:
  "setMouseEnable E b s = Some s' \<Longrightarrow> keeps_packets E \<Longrightarrow> packet_inv (mouse s) \<Longrightarrow> packet_inv (mouse s')"
  by (auto simp: setMouseEnable_def bind_Some_iff dest: blocking_request_driver keeps_packets_driver)

lemma getMouseID_packets:
  "getMouseID E s = Some (b, s') \<Longrightarrow> keeps_packets E \<Longrightarrow> packet_inv (mouse s) \<Longrightarrow> packet_inv (mouse s')"
  by (auto simp: getMouseID_def bind_Some_iff dest: blocking_request_driver keeps_packets_driver)

lemma getMouseInformation_packets:
  "getMouseInformation E s = Some (b, s') \<Longrightarrow> keeps_packets E \<Longrightarrow> packet_inv (mouse s) \<Longrightarrow> packet_inv (mouse s')"
  by (auto simp: getMouseInformation_def bind_Some_iff Let_def dest: blocking_request_driver keeps_packets_driver)

lemma mouse_setCommandByte_packets:
  assumes "mouse_setCommandByte E st clr s = Some s'" "keeps_packets E" "packet_inv (mouse s)"
  shows "packet_inv (mouse s')"
proof -
  obtain r1 s1 where s1: "setCommandByte_loop E st clr (fst (allocateRequest s)) (snd (allocateRequest s)) =
      Some (r1, s1)" "s' = freeRequest s1"
    using assms(1) by (auto simp: mouse_setCommandByte_def bind_Some_iff split_beta)
  have "packet_inv (mouse (snd (allocateRequest s)))" using assms(3) by (simp add: allocateRequest_def)
  then have "packet_inv (mouse s1)"
    using setCommandByte_loop_driver [OF s1(1) keeps_packets_driver [OF assms(2)]] by simp
  then show ?thesis using s1(2) by (simp add: freeRequest_def)
qed

lemma setIntellimouseMode_packets:
  assumes "setIntellimouseMode E s = Some (ty, s')" "keeps_packets E" "packet_inv (mouse s)"
  shows "packet_inv (mouse s')"
proof -
  note id = getMouseID_packets [OF _ assms(2)]
  obtain b s1 where s1: "getMouseID E (setMouseSampleRate 80 (setMouseSampleRate 100 (setMouseSampleRate 200 s))) =
      Some (b, s1)"
    using assms(1) by (auto simp: setIntellimouseMode_def bind_Some_iff)
  have J1: "packet_inv (mouse s1)" using id [OF s1] assms(3) by simp
  show ?thesis
  proof (cases "b = 3")
    case True
    then obtain b2 s2 where s2: "getMouseID E (setMouseSampleRate 80 (setMouseSampleRate 200 (setMouseSampleRate 200 s1))) =
        Some (b2, s2)" "mouse s' = mouse s2"
      using assms(1) s1 by (auto simp: setIntellimouseMode_def bind_Some_iff)
    then show ?thesis using id [OF s2(1)] J1 by simp
  next
    case False
    then have "mouse s' = mouse s1"
      using assms(1) s1 by (auto simp: setIntellimouseMode_def bind_Some_iff split: if_splits)
    then show ?thesis using J1 by simp
  qed
qed

lemma resetMouse_packets:
  assumes "resetMouse E s = Some s'" "keeps_packets E" "packet_inv (mouse s)"
  shows "packet_inv (mouse s')"
proof -
  obtain r1 s1 s2 ty s3 s4 where run:
    "blocking_request E [(kPS2C_SendMouseCommandAndCompareAck, kDP_SetDefaults)] s = Some (r1, s1)"
    "(if mouseInfoBytes (mouse s1) = 0xFFFFFFFF then do {
        (info, s) \<leftarrow> getMouseInformation E s1;
        Some (mouse_update (\<lambda>m. m\<lparr>mouseInfoBytes := info, mouseResolution := resolution_dpi info\<rparr>) s) }
      else Some (setMouseResolution (ucast (drop_bit 8 (mouseInfoBytes (mouse s1)))) s1)) = Some s2"
    "setIntellimouseMode E s2 = Some (ty, s3)"
    "mouse_setCommandByte E kCB_EnableMouseIRQ kCB_DisableMouseClock (mouse_update (set_mouse_type ty) s3) = Some s4"
    "setMouseEnable E True s4 = Some s'"
    using assms(1) by (auto simp only: resetMouse_def bind_Some_iff split_paired_Ex prod.case Let_def)
  have "packet_inv (mouse s1)"
    using blocking_request_driver [OF run(1) keeps_packets_driver [OF assms(2)]] assms(3) by simp
  then have "packet_inv (mouse s2)"
    using run(2) getMouseInformation_packets [OF _ assms(2)]
    by (auto simp: bind_Some_iff split: if_splits)
  then have "packet_inv (mouse s3)" by (rule setIntellimouseMode_packets [OF run(3) assms(2)])
  then have "packet_inv (mouse (mouse_update (set_mouse_type ty) s3))" by (simp add: packet_inv_set_type)
  then have "packet_inv (mouse s4)" by (rule mouse_setCommandByte_packets [OF run(4) assms(2)])
  then show ?thesis by (rule setMouseEnable_packets [OF run(5) assms(2)])
qed

lemma scheduleMouseReset_packets:
  "scheduleMouseReset E s = Some s' \<Longrightarrow> keeps_packets E \<Longrightarrow> packet_inv (mouse s) \<Longrightarrow> packet_inv (mouse s')"
  by (auto simp: scheduleMouseReset_def bind_Some_iff dest: setMouseEnable_packets resetMouse_packets)

lemma store_byte_inv:
  assumes "packet_inv m" "packetByteCount (store_byte data m) \<noteq> packetLength (store_byte data m)"
  shows "packet_inv (store_byte data m)"
  using assms by (simp add: packet_inv_def store_byte_def)

lemma mouse_interruptOccurred_packets:
  assumes "mouse_interruptOccurred E data s = Some s'" "keeps_packets E" "packet_inv (mouse s)"
  shows "packet_inv (mouse s')"
proof -
  let ?m = "store_byte data (mouse s)"
  consider (lost) "packetByteCount (mouse s) = 0 \<and> (data = kSC_Acknowledge \<or> \<not> any_bit data 0x08)"
    | (full) "\<not> (packetByteCount (mouse s) = 0 \<and> (data = kSC_Acknowledge \<or> \<not> any_bit data 0x08))"
        "packetByteCount ?m = packetLength ?m"
    | (more) "\<not> (packetByteCount (mouse s) = 0 \<and> (data = kSC_Acknowledge \<or> \<not> any_bit data 0x08))"
        "packetByteCount ?m \<noteq> packetLength ?m" by blast
  then show ?thesis
  proof cases
    case lost
    then show ?thesis
      using assms(1,3) scheduleMouseReset_packets [OF _ assms(2)]
      by (auto simp: mouse_interruptOccurred_def Let_def split: if_splits)
  next
    case full
    have "packet_inv (m\<lparr>packetByteCount := 0, mouseResetCount := 0\<rparr>)"
      if "packetLength m = packetLength (mouse s)" "length (packetBuffer m) = kPacketLengthMax" for m
      using that assms(3) by (simp add: packet_inv_def)
    moreover have "packetLength (dispatchRelativePointerEventWithPacket p n m) = packetLength m"
      "packetBuffer (dispatchRelativePointerEventWithPacket p n m) = packetBuffer m" for p n m
      by (simp_all add: dispatchRelativePointerEventWithPacket_def mouse_event_def Let_def)
    moreover have "packetLength ?m = packetLength (mouse s)" "length (packetBuffer ?m) = kPacketLengthMax"
      using assms(3) by (simp_all add: store_byte_def packet_inv_def)
    ultimately show ?thesis
      using assms(1) full by (auto simp: mouse_interruptOccurred_def Let_def)
  next
    case more
    then show ?thesis
      using assms(1,3) store_byte_inv [OF assms(3) more(2)] scheduleMouseReset_packets [OF _ assms(2)]
      by (auto simp: mouse_interruptOccurred_def Let_def split: if_splits)
  qed
qed

lemma machine_env_keeps_packets: "keeps_packets (machine_env_of H n)"
proof (induction n)
  case 0
  then show ?case by (simp add: keeps_packets_def)
next
  case (Suc n)
  show ?case
    unfolding keeps_packets_def
  proof (intro allI impI)
    fix a t b s s'
    assume run: "runInterruptAction (machine_env_of H (Suc n)) a t b s = Some s'"
      and inv: "packet_inv (mouse s)"
    show "packet_inv (mouse s')"
      using run inv mouse_interruptOccurred_packets [OF _ Suc.IH]
      by (auto simp: driver_interrupt_def split: if_splits)
  qed
qed

definition fresh_mouse :: mouse where
  "fresh_mouse = \<lparr>mouseDevice = 0, mouseInterruptHandlerInstalled = False,
     mousePowerControlHandlerInstalled = False, packetBuffer = replicate kPacketLengthMax 0,
     packetByteCount = 0, packetLength = kPacketLengthStandard, mouseResolution = 0,
     mouseType = kMouseTypeStandard, buttonCount = 3, mouseInfoBytes = 0xFFFFFFFF,
     mouseResetCount = 0, mouseEvents = []\<rparr>"

definition init_machine :: "'h \<Rightarrow> 'h machine" where
  "init_machine h = ctl.extend (init_controller h) (machine.fields fresh_kbd (mouse_init fresh_mouse))"

lemma init_machine_simps [simp]:
  "mouse (init_machine h) = mouse_init fresh_mouse" "keyboard (init_machine h) = fresh_kbd"
  "hw (init_machine h) = h"
  by (simp_all add: init_machine_def ctl.extend_def machine.fields_def init_controller_def)

lemma packet_inv_init [simp]: "packet_inv (mouse_init fresh_mouse)"
  by (simp add: packet_inv_def mouse_init_def fresh_mouse_def)

text \<open>C30. The mouse driver never writes outside its four-byte packet buffer, although it resets
  the mouse from inside its interrupt routine and further bytes reach the routine while it
  waits: from a state with room in the buffer, the byte is stored inside it, and whenever the
  routine returns there is room again, for any hardware and any depth of nesting.\<close>

theorem packet_buffer_safe:
  assumes "mouse_interruptOccurred (machine_env_of H n) data s = Some s'" "packet_inv (mouse s)"
  shows "packetByteCount (mouse s) < length (packetBuffer (mouse s)) \<and>
    packetByteCount (mouse s') < packetLength (mouse s') \<and>
    packetLength (mouse s') \<le> length (packetBuffer (mouse s')) \<and>
    length (packetBuffer (mouse s')) = kPacketLengthMax"
  using assms(2) mouse_interruptOccurred_packets [OF assms(1) machine_env_keeps_packets assms(2)]
  by (simp add: packet_inv_def)

theorem packet_buffer_safe_witness:
  "\<exists>s'. mouse_interruptOccurred (machine_env_of sample_env 0) 0x08 (init_machine ([], 0, False)) = Some s' \<and>
     packetByteCount (mouse s') < packetLength (mouse s')"
proof -
  obtain s' where run: "mouse_interruptOccurred (machine_env_of sample_env 0) 0x08
      (init_machine ([], 0, False)) = Some s'"
    by (simp add: mouse_interruptOccurred_def mouse_init_def fresh_mouse_def store_byte_def)
  from packet_buffer_safe [OF run] run show ?thesis by simp
qed

section \<open>The meaning of a packet\<close>

lemma sint_push_4: "sint (push_bit 4 b :: u8) = 16 * ((uint b + 8) mod 16 - 8)"
proof -
  have "push_bit 4 b = word_of_int (16 * uint b)" by (simp add: push_bit_eq_mult)
  then have "sint (push_bit 4 b) = (16 * uint b + 128) mod 256 - 128"
    by (simp only: sint_sbintrunc' signed_take_bit_eq_take_bit_shift take_bit_eq_mod) simp
  moreover have "(16 * uint b + 128) mod 256 = 16 * ((uint b + 8) mod 16)"
    using mult_mod_right [of 16 "uint b + 8" 16] by simp
  ultimately show ?thesis by simp
qed

lemma scroll_delta_eq: "scroll_delta b = (uint b + 8) mod 16 - 8"
  by (simp add: scroll_delta_def sint_signed_drop_bit_eq drop_bit_eq_div sint_push_4)
lemma ucast_byte_of_int: "(ucast (b :: u8) :: u32) = word_of_int (uint b)"
  by transfer simp

lemma relative_delta_of_int: "relative_delta neg b = word_of_int (uint b - (if neg then 256 else 0))"
proof (cases neg)
  case True
  have "(0xffffff00 :: u32) AND ucast b = 0"
  proof (rule bit_word_eqI)
    fix n
    assume "n < LENGTH(32)"
    have "(0xffffff00 :: u32) = push_bit 8 0xffffff" by (simp add: push_bit_eq_mult)
    then have "bit (0xffffff00 :: u32) n \<longrightarrow> 8 \<le> n" by (simp only: bit_push_bit_iff) simp
    then show "bit ((0xffffff00 :: u32) AND ucast b) n \<longleftrightarrow> bit (0 :: u32) n"
      unfolding bit_and_iff by (auto simp: bit_unsigned_iff dest: bit_imp_le_length)
  qed
  then have "relative_delta True b = 0xffffff00 + ucast b"
    by (simp add: relative_delta_def disjunctive_add_eq_or)
  moreover have "(0xffffff00 :: u32) = - 256" by simp
  ultimately have "relative_delta True b = - 256 + word_of_int (uint b)"
    unfolding ucast_byte_of_int by (simp only:)
  also have "\<dots> = word_of_int (uint b - 256)" by (simp only: of_int_diff of_int_numeral uminus_add_conv_diff)
  finally show ?thesis using True by (simp only: if_True)
next
  case False
  then show ?thesis
    unfolding relative_delta_def ucast_byte_of_int by (simp only: if_False or.left_neutral diff_0_right)
qed

lemma sint_relative_delta:
  "sint (relative_delta neg b) = uint b - (if neg then 256 else 0)"
  "sint (- relative_delta neg b) = (if neg then 256 else 0) - uint b"
proof -
  have b: "0 \<le> uint b" "uint b < 256" using uint_lt2p [of b] by simp_all
  have "sint (word_of_int (uint b - k) :: u32) = uint b - k" if "0 \<le> k" "k \<le> 256" for k
    by (rule sint_word_of_int_range) (use b that in linarith)+
  then have "sint (word_of_int (uint b - (if neg then 256 else 0)) :: u32) = uint b - (if neg then 256 else 0)"
    by (cases neg) (simp_all only: if_True if_False)
  then show "sint (relative_delta neg b) = uint b - (if neg then 256 else 0)"
    unfolding relative_delta_of_int .
  have "sint (word_of_int (k - uint b) :: u32) = k - uint b" if "0 \<le> k" "k \<le> 256" for k
    by (rule sint_word_of_int_range) (use b that in linarith)+
  then have s: "sint (word_of_int ((if neg then 256 else 0) - uint b) :: u32) = (if neg then 256 else 0) - uint b"
    by (cases neg) (simp_all only: if_True if_False)
  have "- relative_delta neg b = word_of_int ((if neg then 256 else 0) - uint b)"
    unfolding relative_delta_of_int by simp
  with s show "sint (- relative_delta neg b) = (if neg then 256 else 0) - uint b" by (simp only:)
qed

text \<open>The buttons of a packet, and the events it stands for.\<close>

definition packet_buttons :: "bool \<Rightarrow> u8 list \<Rightarrow> u32" where
  "packet_buttons five p =
     of_bool (bit (p ! 0) 0) OR push_bit 1 (of_bool (bit (p ! 0) 1)) OR push_bit 2 (of_bool (bit (p ! 0) 2)) OR
     (if five then push_bit 3 (of_bool (bit (p ! 3) 4)) OR push_bit 4 (of_bool (bit (p ! 3) 5)) else 0)"

lemma any_bit_mask_bits:
  "any_bit (b :: u8) 0x1 \<longleftrightarrow> bit b 0" "any_bit b 0x2 \<longleftrightarrow> bit b 1" "any_bit b 0x4 \<longleftrightarrow> bit b 2"
  "any_bit b 0x10 \<longleftrightarrow> bit b 4" "any_bit b 0x20 \<longleftrightarrow> bit b 5" "any_bit b 0x08 \<longleftrightarrow> bit b 3"
  using any_bit_push [of b 0] any_bit_push [of b 1] any_bit_push [of b 2] any_bit_push [of b 4]
    any_bit_push [of b 5] any_bit_push [of b 3]
  by (simp_all add: push_bit_eq_mult)

definition packet_events :: "PS2MouseId \<Rightarrow> u8 list \<Rightarrow> mouse_event list" where
  "packet_events ty p =
     (let wheel = length p > 3;
          dx = word_of_int (uint (p ! 1) - (if bit (p ! 0) 4 then 256 else 0));
          dy = word_of_int ((if bit (p ! 0) 5 then 256 else 0) - uint (p ! 2));
          dz = (uint (p ! 3) + 8) mod 16 - 8
      in RelativePointer dx dy (packet_buttons (wheel \<and> ty = kMouseTypeIntellimouseExplorer) p) #
         (if wheel \<and> dz \<noteq> 0 then [ScrollWheel (- dz)] else []))"

lemma dispatch_packet_events:
  "dispatchRelativePointerEventWithPacket p (length p) m =
     m\<lparr>mouseEvents := mouseEvents m @ packet_events (mouseType m) p\<rparr>"
proof -
  have dy: "- relative_delta (bit (p ! 0) 5) (p ! 2) =
      word_of_int ((if bit (p ! 0) 5 then 256 else 0) - uint (p ! 2))"
    unfolding relative_delta_of_int by simp
  show ?thesis
    unfolding dispatchRelativePointerEventWithPacket_def packet_events_def Let_def any_bit_mask_bits
      dy scroll_delta_eq relative_delta_of_int
    by (auto simp: mouse_event_def packet_buttons_def ac_simps)
qed

lemma of_bool_word_bit:
  "bit (of_bool P :: u32) n \<longleftrightarrow> P \<and> n = 0" "bit (push_bit k (of_bool P) :: u32) n \<longleftrightarrow> P \<and> n = k \<and> n < 32"
  by (auto simp: bit_push_bit_iff bit_1_iff)

lemma buttons_bits:
  "bit (of_bool a OR push_bit 1 (of_bool b) OR push_bit 2 (of_bool c) OR
      (if f then push_bit 3 (of_bool d) OR push_bit 4 (of_bool e) else 0) :: u32) k \<longleftrightarrow>
     k = 0 \<and> a \<or> k = 1 \<and> b \<or> k = 2 \<and> c \<or> f \<and> (k = 3 \<and> d \<or> k = 4 \<and> e)"
  by (cases f) (simp_all only: if_True if_False bit_or_iff of_bool_word_bit, auto)

text \<open>What a complete packet means: the driver reports the 9-bit two's complement movements
  of the packet (between -256 and 255; y with its sign inverted), the three buttons, for a
  five-button mouse the other two, and, when the fourth byte's low four bits, read as a signed
  number, are not zero, one scroll event with the opposite sign.\<close>

theorem packet_meaning:
  "\<exists>dx dy b scroll. mouseEvents (dispatchRelativePointerEventWithPacket p (length p) m) =
      mouseEvents m @ RelativePointer dx dy b # scroll \<and>
    sint dx = uint (p ! 1) - (if bit (p ! 0) 4 then 256 else 0) \<and>
    sint dy = (if bit (p ! 0) 5 then 256 else 0) - uint (p ! 2) \<and>
    (\<forall>k. bit b k = (if k < 3 then bit (p ! 0) k
       else (k = 3 \<or> k = 4) \<and> length p > 3 \<and> mouseType m = kMouseTypeIntellimouseExplorer \<and> bit (p ! 3) (k + 1))) \<and>
    scroll = (let dz = (uint (p ! 3) + 8) mod 16 - 8
              in if length p > 3 \<and> dz \<noteq> 0 then [ScrollWheel (- dz)] else [])"
proof -
  let ?five = "length p > 3 \<and> mouseType m = kMouseTypeIntellimouseExplorer"
  let ?dx = "relative_delta (bit (p ! 0) 4) (p ! 1)" and ?dy = "- relative_delta (bit (p ! 0) 5) (p ! 2)"
  let ?scroll = "let dz = (uint (p ! 3) + 8) mod 16 - 8
     in if length p > 3 \<and> dz \<noteq> 0 then [ScrollWheel (- dz)] else []"
  have dy: "?dy = word_of_int ((if bit (p ! 0) 5 then 256 else 0) - uint (p ! 2))"
    unfolding relative_delta_of_int by simp
  have ev: "mouseEvents (dispatchRelativePointerEventWithPacket p (length p) m) =
      mouseEvents m @ RelativePointer ?dx ?dy (packet_buttons ?five p) # ?scroll"
    unfolding dispatch_packet_events packet_events_def dy unfolding relative_delta_of_int Let_def by simp
  have bits: "bit (packet_buttons ?five p) k = (if k < 3 then bit (p ! 0) k
       else (k = 3 \<or> k = 4) \<and> ?five \<and> bit (p ! 3) (k + 1))" for k
  proof -
    have B: "bit (packet_buttons ?five p) k \<longleftrightarrow> k = 0 \<and> bit (p ! 0) 0 \<or> k = 1 \<and> bit (p ! 0) 1 \<or>
        k = 2 \<and> bit (p ! 0) 2 \<or> ?five \<and> (k = 3 \<and> bit (p ! 3) 4 \<or> k = 4 \<and> bit (p ! 3) 5)"
      unfolding packet_buttons_def by (rule buttons_bits)
    consider "k = 0" | "k = 1" | "k = 2" | "k = 3" | "k = 4" | "k > 4" by linarith
    then show ?thesis
    proof cases
    qed (use B in simp_all)
  qed
  show ?thesis
  proof (intro exI conjI)
    show "mouseEvents (dispatchRelativePointerEventWithPacket p (length p) m) =
        mouseEvents m @ RelativePointer ?dx ?dy (packet_buttons ?five p) # ?scroll" by (rule ev)
    show "sint ?dx = uint (p ! 1) - (if bit (p ! 0) 4 then 256 else 0)" by (rule sint_relative_delta(1))
    show "sint ?dy = (if bit (p ! 0) 5 then 256 else 0) - uint (p ! 2)" by (rule sint_relative_delta(2))
    show "\<forall>k. bit (packet_buttons ?five p) k = (if k < 3 then bit (p ! 0) k
       else (k = 3 \<or> k = 4) \<and> length p > 3 \<and> mouseType m = kMouseTypeIntellimouseExplorer \<and> bit (p ! 3) (k + 1))"
      by (intro allI) (simp only: bits conj_assoc)
  qed (rule refl)
qed

section \<open>Streams of packets\<close>

text \<open>Bytes handed to the driver one after the other.\<close>

fun mouse_bytes ::
  "('h, 'z) machine_env \<Rightarrow> u8 list \<Rightarrow> ('h, 'z) machine_scheme \<Rightarrow> ('h, 'z) machine_scheme option" where
  "mouse_bytes E [] s = Some s"
| "mouse_bytes E (b # bs) s = Option.bind (mouse_interruptOccurred E b s) (mouse_bytes E bs)"

lemma mouse_bytes_append:
  "mouse_bytes E (as @ bs) s = Option.bind (mouse_bytes E as s) (mouse_bytes E bs)"
proof (induction as arbitrary: s)
  case Nil
  then show ?case by simp
next
  case (Cons a as)
  then show ?case by (cases "mouse_interruptOccurred E a s") simp_all
qed

text \<open>
  A packet as a mouse in its present mode sends it: complete, with the synchronisation bit, and
  not to be taken for an acknowledge or the start of a reset announcement.
\<close>

definition well_formed_packet :: "mouse \<Rightarrow> u8 list \<Rightarrow> bool" where
  "well_formed_packet m p \<longleftrightarrow> length p = packetLength m \<and> bit (p ! 0) 3 \<and> p ! 0 \<noteq> kSC_Acknowledge \<and> p ! 0 \<noteq> 0xAA"

lemma mouse_update_const: "mouse_update f s = mouse_update (\<lambda>_. f (mouse s)) s"
  by (cases s) simp

lemma interrupt_store:
  assumes "packetByteCount (mouse s) \<noteq> 0 \<or> b \<noteq> kSC_Acknowledge \<and> bit b 3"
    and "packetByteCount (mouse s) + 1 \<noteq> packetLength (mouse s)"
    and "packetByteCount (mouse s) = 1 \<Longrightarrow> packetBuffer (mouse s) ! 0 \<noteq> 0xAA"
  shows "mouse_interruptOccurred E b s = Some (mouse_update (store_byte b) s)"
proof -
  have "\<not> (packetByteCount (mouse s) = 0 \<and> (b = kSC_Acknowledge \<or> \<not> any_bit b 0x08))"
    using assms(1) unfolding any_bit_mask_bits by blast
  moreover have "\<not> (packetByteCount (store_byte b (mouse s)) = 2 \<and> packetBuffer (store_byte b (mouse s)) ! 0 = 0xAA)"
    using assms(3) by (auto simp: store_byte_def)
  moreover have "packetByteCount (store_byte b (mouse s)) \<noteq> packetLength (store_byte b (mouse s))"
    using assms(2) by (simp add: store_byte_def)
  ultimately show ?thesis unfolding mouse_interruptOccurred_def Let_def by (auto simp del: any_bit_numeral)
qed

lemma interrupt_complete:
  assumes "packetByteCount (mouse s) \<noteq> 0" "packetByteCount (mouse s) + 1 = packetLength (mouse s)"
  shows "mouse_interruptOccurred E b s = Some (mouse_update (\<lambda>m.
      (dispatchRelativePointerEventWithPacket (packetBuffer (store_byte b m)) (packetLength (store_byte b m))
         (store_byte b m))\<lparr>packetByteCount := 0, mouseResetCount := 0\<rparr>) s)"
  using assms by (simp add: mouse_interruptOccurred_def Let_def) (simp add: store_byte_def)

text \<open>The driver's state after a packet.\<close>

definition after_packet :: "u8 list \<Rightarrow> mouse \<Rightarrow> mouse" where
  "after_packet p m = m\<lparr>packetBuffer := p @ drop (length p) (packetBuffer m), packetByteCount := 0,
     mouseResetCount := 0, mouseEvents := mouseEvents m @ packet_events (mouseType m) p\<rparr>"

lemma after_packet_fields [simp]:
  "packetByteCount (after_packet p m) = 0" "mouseResetCount (after_packet p m) = 0"
  "mouseEvents (after_packet p m) = mouseEvents m @ packet_events (mouseType m) p"
  "mouseType (after_packet p m) = mouseType m"
  by (simp_all add: after_packet_def)

lemma three_bytes:
  assumes "length (packetBuffer m) = 4" "packetByteCount m = 0"
  shows "store_byte b (store_byte a m) = m\<lparr>packetBuffer := a # b # drop 2 (packetBuffer m), packetByteCount := 2\<rparr>"
    and "packetBuffer (store_byte a m) = a # drop 1 (packetBuffer m)"
    and "store_byte c (m\<lparr>packetBuffer := a # b # drop 2 (packetBuffer m), packetByteCount := 2\<rparr>) =
      m\<lparr>packetBuffer := a # b # c # drop 3 (packetBuffer m), packetByteCount := 3\<rparr>"
    and "store_byte d (m\<lparr>packetBuffer := a # b # c # drop 3 (packetBuffer m), packetByteCount := 3\<rparr>) =
      m\<lparr>packetBuffer := [a, b, c, d], packetByteCount := 4\<rparr>"
proof -
  obtain w x y z where "packetBuffer m = [w, x, y, z]"
    using assms(1) by (auto simp: length_Suc_conv numeral_eq_Suc)
  then show "store_byte b (store_byte a m) = m\<lparr>packetBuffer := a # b # drop 2 (packetBuffer m), packetByteCount := 2\<rparr>"
    "packetBuffer (store_byte a m) = a # drop 1 (packetBuffer m)"
    "store_byte c (m\<lparr>packetBuffer := a # b # drop 2 (packetBuffer m), packetByteCount := 2\<rparr>) =
      m\<lparr>packetBuffer := a # b # c # drop 3 (packetBuffer m), packetByteCount := 3\<rparr>"
    "store_byte d (m\<lparr>packetBuffer := a # b # c # drop 3 (packetBuffer m), packetByteCount := 3\<rparr>) =
      m\<lparr>packetBuffer := [a, b, c, d], packetByteCount := 4\<rparr>"
    using assms(2) by (simp_all add: store_byte_def numeral_2_eq_2 numeral_3_eq_3)
qed

lemma one_packet:
  assumes inv: "packet_inv (mouse s)" and start: "packetByteCount (mouse s) = 0"
    and wf: "well_formed_packet (mouse s) p"
  shows "mouse_bytes E p s = Some (mouse_update (after_packet p) s)"
proof -
  have buf: "length (packetBuffer (mouse s)) = 4" and len: "packetLength (mouse s) = 3 \<or> packetLength (mouse s) = 4"
    using inv by (auto simp: packet_inv_def)
  note tb = three_bytes [OF buf start]
  obtain a b c q where p: "p = a # b # c # q"
    using wf len by (auto simp: well_formed_packet_def length_Suc_conv numeral_eq_Suc)
  have a: "a \<noteq> kSC_Acknowledge" "bit a 3" "a \<noteq> 0xAA" using wf p by (simp_all add: well_formed_packet_def)
  define m1 m2 where "m1 = store_byte a (mouse s)" and "m2 = store_byte b m1"
  define s1 s2 where "s1 = mouse_update (store_byte a) s" and "s2 = mouse_update (store_byte b) s1"
  have m1: "packetByteCount m1 = 1" "packetLength m1 = packetLength (mouse s)" "packetBuffer m1 ! 0 = a"
    using start tb(2) [of a] by (simp_all add: m1_def store_byte_def)
  have m2: "m2 = (mouse s)\<lparr>packetBuffer := a # b # drop 2 (packetBuffer (mouse s)), packetByteCount := 2\<rparr>"
    unfolding m2_def m1_def by (rule tb(1))
  have ms: "mouse s1 = m1" "mouse s2 = m2" by (simp_all add: s1_def s2_def m1_def m2_def)
  have i1: "mouse_interruptOccurred E a s = Some s1"
    unfolding s1_def by (rule interrupt_store) (use a start len in auto)
  have i2: "mouse_interruptOccurred E b s1 = Some s2"
    unfolding s2_def by (rule interrupt_store) (use a(3) m1 ms len in auto)
  have step: "mouse_interruptOccurred E x s' = Some (mouse_update (after_packet p) s)"
    if "mouse_interruptOccurred E x s' = Some (mouse_update (\<lambda>m.
        (dispatchRelativePointerEventWithPacket (packetBuffer (store_byte x m)) (packetLength (store_byte x m))
          (store_byte x m))\<lparr>packetByteCount := 0, mouseResetCount := 0\<rparr>) s')"
      and "s' = mouse_update f s" "store_byte x (f (mouse s)) = (mouse s)\<lparr>packetBuffer := pb, packetByteCount := k\<rparr>"
      and "pb = p @ drop (length p) (packetBuffer (mouse s))" "length p = packetLength (mouse s)" for x s' f pb k
  proof -
    have d: "dispatchRelativePointerEventWithPacket pb (length p) m =
        m\<lparr>mouseEvents := mouseEvents m @ packet_events (mouseType m) p\<rparr>" for m
    proof -
      have "dispatchRelativePointerEventWithPacket pb (length p) m = dispatchRelativePointerEventWithPacket p (length p) m"
        using that(4) p by (cases q) (simp_all add: dispatchRelativePointerEventWithPacket_def Let_def)
      then show ?thesis by (simp only: dispatch_packet_events)
    qed
    have "(dispatchRelativePointerEventWithPacket (packetBuffer (store_byte x (f (mouse s))))
        (packetLength (store_byte x (f (mouse s)))) (store_byte x (f (mouse s))))
          \<lparr>packetByteCount := 0, mouseResetCount := 0\<rparr> = after_packet p (mouse s)"
      unfolding that(3) using that(4,5) d by (simp add: after_packet_def)
    then show ?thesis unfolding that(1) unfolding that(2) by (cases s) simp
  qed
  have s2: "s2 = mouse_update (\<lambda>m. store_byte b (store_byte a m)) s" by (simp add: s1_def s2_def comp_def)
  show ?thesis
  proof (cases "packetLength (mouse s) = 3")
    case True
    then have q: "q = []" using wf p by (simp add: well_formed_packet_def)
    have "mouse_interruptOccurred E c s2 = Some (mouse_update (after_packet p) s)"
    proof (rule step [OF interrupt_complete s2])
      show "store_byte c (store_byte b (store_byte a (mouse s))) =
          (mouse s)\<lparr>packetBuffer := a # b # c # drop 3 (packetBuffer (mouse s)), packetByteCount := 3\<rparr>"
        unfolding tb(1) tb(3) ..
    qed (use ms m2 True p q in \<open>simp_all add: numeral_3_eq_3\<close>)
    then show ?thesis using i1 i2 p q by simp
  next
    case False
    then have len4: "packetLength (mouse s) = 4" using len by blast
    then obtain d where q: "q = [d]" using wf p by (auto simp: well_formed_packet_def length_Suc_conv)
    define s3 where "s3 = mouse_update (store_byte c) s2"
    have i3: "mouse_interruptOccurred E c s2 = Some s3"
      unfolding s3_def by (rule interrupt_store) (use ms m2 len4 in simp_all)
    have m3: "mouse s3 = (mouse s)\<lparr>packetBuffer := a # b # c # drop 3 (packetBuffer (mouse s)), packetByteCount := 3\<rparr>"
      unfolding s3_def using ms m2 tb(3) by simp
    have s3: "s3 = mouse_update (\<lambda>m. store_byte c (store_byte b (store_byte a m))) s"
      by (simp add: s3_def s2 comp_def)
    have "mouse_interruptOccurred E d s3 = Some (mouse_update (after_packet p) s)"
    proof (rule step [OF interrupt_complete s3])
      show "store_byte d (store_byte c (store_byte b (store_byte a (mouse s)))) =
          (mouse s)\<lparr>packetBuffer := [a, b, c, d], packetByteCount := 4\<rparr>"
        unfolding tb(1) tb(3) tb(4) ..
    qed (use m3 len4 p q buf in simp_all)
    then show ?thesis using i1 i2 i3 p q by simp
  qed
qed

lemma packet_stream:
  assumes "packet_inv (mouse s)" "packetByteCount (mouse s) = 0" "\<forall>p \<in> set ps. well_formed_packet (mouse s) p"
  shows "mouse_bytes E (concat ps) s = Some (mouse_update (fold after_packet ps) s) \<and>
    (ps \<noteq> [] \<longrightarrow> mouseResetCount (fold after_packet ps (mouse s)) = 0) \<and>
    packetByteCount (fold after_packet ps (mouse s)) = 0 \<and>
    mouseEvents (fold after_packet ps (mouse s)) =
      mouseEvents (mouse s) @ concat (map (packet_events (mouseType (mouse s))) ps)"
  using assms
proof (induction ps arbitrary: s)
  case Nil
  have "mouse_update (\<lambda>m. m) s = s" by (cases s) simp
  then show ?case using Nil by (simp add: id_def)
next
  case (Cons p ps)
  let ?s = "mouse_update (after_packet p) s"
  have m: "mouse ?s = after_packet p (mouse s)" by simp
  have wf: "well_formed_packet (mouse s) p" using Cons.prems(3) by simp
  have one: "mouse_bytes E p s = Some ?s" by (rule one_packet [OF Cons.prems(1,2) wf])
  have "packet_inv (mouse ?s)"
    using Cons.prems(1) wf unfolding m by (auto simp: packet_inv_def after_packet_def well_formed_packet_def)
  moreover have "packetByteCount (mouse ?s) = 0" unfolding m by (simp add: after_packet_def)
  moreover have "\<forall>q \<in> set ps. well_formed_packet (mouse ?s) q"
    using Cons.prems(3) unfolding m by (simp add: after_packet_def well_formed_packet_def)
  ultimately have IH: "mouse_bytes E (concat ps) ?s = Some (mouse_update (fold after_packet ps) ?s) \<and>
    (ps \<noteq> [] \<longrightarrow> mouseResetCount (fold after_packet ps (mouse ?s)) = 0) \<and>
    packetByteCount (fold after_packet ps (mouse ?s)) = 0 \<and>
    mouseEvents (fold after_packet ps (mouse ?s)) =
      mouseEvents (mouse ?s) @ concat (map (packet_events (mouseType (mouse ?s))) ps)"
    by (rule Cons.IH)
  then show ?case
    using one unfolding m
    by (cases "ps = []") (simp_all add: mouse_bytes_append comp_def)
qed

text \<open>C32. In step, the mouse driver reports exactly what the packets mean: any number of
  well-formed packets in the present mode (3 bytes, or 4 with a wheel), arriving byte by byte,
  yields the events of each packet in order, sends no request, and leaves the driver at a packet
  boundary; the count of consecutive resets is cleared.\<close>

theorem packets_reported_in_order:
  assumes "packet_inv (mouse s)" "packetByteCount (mouse s) = 0" "ps \<noteq> []"
    and "\<forall>p \<in> set ps. well_formed_packet (mouse s) p"
  shows "\<exists>m'. mouse_bytes E (concat ps) s = Some (mouse_update (\<lambda>_. m') s) \<and>
    mouseEvents m' = mouseEvents (mouse s) @ concat (map (packet_events (mouseType (mouse s))) ps) \<and>
    packetByteCount m' = 0 \<and> mouseResetCount m' = 0"
  using packet_stream [OF assms(1,2,4), of E] assms(3) mouse_update_const [of "fold after_packet ps" s]
  by (intro exI [of _ "fold after_packet ps (mouse s)"]) simp

theorem packets_reported_in_order_witness:
  "\<exists>m'. mouse_bytes (machine_env_of sample_env 0) [0x08, 3, 0, 0x19, 0xFF, 0] (init_machine ([], 0, False)) =
      Some (mouse_update (\<lambda>_. m') (init_machine ([], 0, False))) \<and> packetByteCount m' = 0"
proof -
  have "packetByteCount (mouse (init_machine ([], 0, False))) = 0"
    by (simp add: mouse_init_def)
  moreover have "\<forall>p \<in> set [[0x08, 3, 0], [0x19, 0xFF, 0]]. well_formed_packet (mouse (init_machine ([], 0, False))) p"
    by (simp add: well_formed_packet_def mouse_init_def bit_numeral_rec numeral_3_eq_3)
  ultimately show ?thesis
    using packets_reported_in_order [of "init_machine ([], 0, False)" "[[0x08, 3, 0], [0x19, 0xFF, 0]]"
        "machine_env_of sample_env 0"] by auto
qed

text \<open>Out of step the driver does not keep resetting: after five consecutive resets without a
  complete packet a stray byte only adds a line to the log; nothing is sent to the mouse.\<close>

theorem resets_are_limited:
  assumes "packetByteCount (mouse s) = 0" "data = kSC_Acknowledge \<or> \<not> bit data 3" "5 \<le> mouseResetCount (mouse s)"
  shows "mouse_interruptOccurred E data s = Some (mouse_update (mouse_event LogUnexpectedData) s)"
proof -
  have "packetByteCount (mouse s) = 0 \<and> (data = kSC_Acknowledge \<or> \<not> any_bit data 0x08)"
    using assms(1,2) unfolding any_bit_mask_bits by blast
  moreover have "mouseResetCount (mouse_event LogUnexpectedData (mouse s)) = mouseResetCount (mouse s)"
    by (simp add: mouse_event_def)
  ultimately show ?thesis
    using assms(3) unfolding mouse_interruptOccurred_def Let_def by auto
qed

theorem resets_are_limited_witness:
  "mouse_interruptOccurred (machine_env_of sample_env 3) 0xFA
      (mouse_update (\<lambda>m. m\<lparr>mouseResetCount := 5\<rparr>) (init_machine ([], 0, False))) =
   Some (mouse_update (mouse_event LogUnexpectedData)
      (mouse_update (\<lambda>m. m\<lparr>mouseResetCount := 5\<rparr>) (init_machine ([], 0, False))))"
  by (rule resets_are_limited) (simp_all add: mouse_init_def fresh_mouse_def)

end
