(* ===== verification/Ps2Lifecycle.thy ===== *)
theory Ps2Lifecycle
  imports Ps2MouseProps
begin

text \<open>
  Start and stop of \<open>ApplePS2Controller\<close> as a whole, with the objects it allocates, and the two
  nubs through which the drivers reach it.
\<close>

section \<open>Resources\<close>

text \<open>What the controller holds besides its own fields, and whether each allocation succeeds.\<close>

record ctl_resources =
  keyboardQueueSpace :: bool
  requestQueueLock :: bool
  workLoop :: bool
  interruptSourceMouse :: bool
  interruptSourceKeyboard :: bool
  interruptSourceQueue :: bool
  powerThreadCall :: bool
  joinedPM :: bool
  keyboardNub :: bool
  mouseNub :: bool

definition no_resources :: ctl_resources where
  "no_resources = \<lparr>keyboardQueueSpace = False, requestQueueLock = False, workLoop = False,
     interruptSourceMouse = False, interruptSourceKeyboard = False, interruptSourceQueue = False,
     powerThreadCall = False, joinedPM = False, keyboardNub = False, mouseNub = False\<rparr>"

record outcomes =
  debugBootArg :: bool
  gotKeyboardQueue :: bool
  gotQueueLock :: bool
  gotWorkLoop :: bool
  gotSourceMouse :: bool
  gotSourceKeyboard :: bool
  gotSourceQueue :: bool
  addedQueueSource :: bool
  gotThreadCall :: bool
  attachedKeyboardNub :: bool
  attachedMouseNub :: bool

section \<open>Stop\<close>

text \<open>
  The request queue is only emptied when its lock was allocated; the keyboard queue's space is
  given back at the end.
\<close>

definition ctl_stop ::
  "('h, 'z) env \<Rightarrow> ctl_resources \<Rightarrow> ('h, 'z) ctl_scheme
     \<Rightarrow> (ctl_resources \<times> ('h, 'z) ctl_scheme) option" where
  "ctl_stop E res s = do {
     let res = res\<lparr>keyboardNub := False, mouseNub := False, workLoop := False,
                 interruptSourceKeyboard := False, interruptSourceMouse := False,
                 interruptSourceQueue := False\<rparr>;
     s \<leftarrow> (if requestQueueLock res then map_option snd (stop_requestQueue E s) else Some s);
     Some (res\<lparr>requestQueueLock := False, powerThreadCall := False, joinedPM := False,
               keyboardQueueSpace := False\<rparr>, s)
   }"

section \<open>Start\<close>

text \<open>
  The steps of \<open>start\<close> up to the nubs; the result says whether the code reaches them or jumps
  to \<open>fail\<close>. \<open>ds\<close> is what the allocated keyboard queue contains.
\<close>

definition start_resources ::
  "('h, 'z) env \<Rightarrow> outcomes \<Rightarrow> u8 list \<Rightarrow> ctl_resources \<Rightarrow> ('h, 'z) ctl_scheme
     \<Rightarrow> (bool \<times> ctl_resources \<times> ('h, 'z) ctl_scheme) option" where
  "start_resources E oc ds res s =
     (let s = (if debugBootArg oc then s\<lparr>debuggingEnabled := True\<rparr> else s)
      in if \<not> gotKeyboardQueue oc then Some (False, res, s)
      else do {
        let s = s\<lparr>kq := start_keyboardQueue ds (kq s)\<rparr>;
        let res = res\<lparr>keyboardQueueSpace := True\<rparr>;
        s \<leftarrow> start_hardware E s;
        if \<not> gotQueueLock oc then Some (False, res, s)
        else (let res = res\<lparr>requestQueueLock := True, workLoop := gotWorkLoop oc,
                         interruptSourceMouse := gotSourceMouse oc,
                         interruptSourceKeyboard := gotSourceKeyboard oc,
                         interruptSourceQueue := gotSourceQueue oc\<rparr>
          in if \<not> gotWorkLoop oc \<or> \<not> gotSourceMouse oc \<or> \<not> gotSourceKeyboard oc \<or> \<not> gotSourceQueue oc
             then Some (False, res, s)
          else if \<not> addedQueueSource oc then Some (False, res, s)
          else (let s = log_call (AddEventSource SourceQueue) s
            in if \<not> gotThreadCall oc then Some (False, res, s)
            else Some (True, res\<lparr>powerThreadCall := True, joinedPM := True\<rparr>, s)))
      })"

text \<open>
  A nub that does not attach is given up together with its interrupt source; the controller
  runs without it.
\<close>

definition start_nubs :: "outcomes \<Rightarrow> ctl_resources \<Rightarrow> ctl_resources" where
  "start_nubs oc res =
     (let res = (if attachedKeyboardNub oc then res\<lparr>keyboardNub := True\<rparr>
                 else res\<lparr>keyboardNub := False, interruptSourceKeyboard := False\<rparr>)
      in if attachedMouseNub oc then res\<lparr>mouseNub := True\<rparr>
         else res\<lparr>mouseNub := False, interruptSourceMouse := False\<rparr>)"

definition ctl_start ::
  "('h, 'z) env \<Rightarrow> bool \<Rightarrow> outcomes \<Rightarrow> u8 list \<Rightarrow> ctl_resources \<Rightarrow> ('h, 'z) ctl_scheme
     \<Rightarrow> (bool \<times> ctl_resources \<times> ('h, 'z) ctl_scheme) option" where
  "ctl_start E superStart oc ds res s =
     (if \<not> superStart then Some (False, res, s)
      else do {
        (ok, res, s) \<leftarrow> start_resources E oc ds res s;
        if ok then Some (True, start_nubs oc res, s)
        else do {
          (res, s) \<leftarrow> ctl_stop E res s;
          Some (False, res, s)
        }
      })"

text \<open>A start that fails, at whichever allocation, gives everything back: the function returns
  false with no object, lock, queue space or power-management membership left. A start that
  succeeds holds the work loop, the queue and the power thread call, and a nub exactly when it
  attached; stopping then gives everything back.\<close>

theorem start_stop_resources:
  assumes "ctl_start E True oc ds no_resources s = Some (ok, res, s')"
  shows "(\<not> ok \<longrightarrow> res = no_resources) \<and>
    (ok \<longrightarrow> workLoop res \<and> requestQueueLock res \<and> interruptSourceQueue res \<and> powerThreadCall res \<and>
       keyboardNub res = attachedKeyboardNub oc \<and> interruptSourceKeyboard res = attachedKeyboardNub oc \<and>
       mouseNub res = attachedMouseNub oc \<and> interruptSourceMouse res = attachedMouseNub oc \<and>
       (\<exists>s''. ctl_stop E res s' = Some (no_resources, s'') \<and> requestQueue s'' = []))"
proof -
  have stop: "ctl_stop E r s1 = Some (no_resources, if requestQueueLock r
      then snd (the (stop_requestQueue E s1)) else s1)" for r s1
    by (cases r) (simp add: ctl_stop_def no_resources_def stop_requestQueue_def processRequestQueue_def
        process_local_queue_offline)
  have q: "requestQueue (snd (the (stop_requestQueue E s1))) = []" for s1
    by (simp add: stop_requestQueue_def processRequestQueue_def process_local_queue_offline)
  obtain ok1 r1 s1 where r: "start_resources E oc ds no_resources s = Some (ok1, r1, s1)"
    and rest: "(if ok1 then Some (True, start_nubs oc r1, s1)
        else do { (res, s) \<leftarrow> ctl_stop E r1 s1; Some (False, res, s) }) = Some (ok, res, s')"
    using assms by (auto simp: ctl_start_def bind_Some_iff)
  show ?thesis
  proof (cases ok1)
    case False
    then show ?thesis using rest stop by simp
  next
    case True
    then have "workLoop r1 \<and> requestQueueLock r1 \<and> interruptSourceQueue r1 \<and> powerThreadCall r1 \<and>
        interruptSourceKeyboard r1 \<and> interruptSourceMouse r1"
      using r by (auto simp: start_resources_def Let_def bind_Some_iff split: if_splits)
    then show ?thesis
      using True rest stop q
      by (cases "attachedMouseNub oc"; cases "attachedKeyboardNub oc"; auto simp: start_nubs_def Let_def)
  qed
qed

definition all_granted :: outcomes where
  "all_granted = \<lparr>debugBootArg = False, gotKeyboardQueue = True, gotQueueLock = True, gotWorkLoop = True,
     gotSourceMouse = True, gotSourceKeyboard = True, gotSourceQueue = True, addedQueueSource = True,
     gotThreadCall = True, attachedKeyboardNub = True, attachedMouseNub = True\<rparr>"

theorem start_stop_resources_witness:
  "\<exists>res s'. ctl_start sample_env True (all_granted\<lparr>gotKeyboardQueue := False\<rparr>) [] no_resources
      (init_controller ([], 0, False)) = Some (False, res, s') \<and> res = no_resources"
proof -
  obtain res s' where run: "ctl_start sample_env True (all_granted\<lparr>gotKeyboardQueue := False\<rparr>) [] no_resources
      (init_controller ([], 0, False)) = Some (False, res, s')"
    by (simp add: ctl_start_def start_resources_def all_granted_def ctl_stop_def no_resources_def)
  from start_stop_resources [OF run] run show ?thesis by simp
qed

section \<open>The nubs\<close>

text \<open>
  \<open>ApplePS2KeyboardDevice\<close> and \<open>ApplePS2MouseDevice\<close>: each keeps a retained pointer to the
  controller while attached and passes every call on with its own device type.
\<close>

record nub =
  nubController :: obj

definition nub_attach :: "bool \<Rightarrow> obj \<Rightarrow> nub \<Rightarrow> ('h, 'z) ctl_scheme \<Rightarrow> bool \<times> nub \<times> ('h, 'z) ctl_scheme" where
  "nub_attach superAttach provider n s =
     (if \<not> superAttach then (False, n, s)
      else (True, n\<lparr>nubController := provider\<rparr>, s\<lparr>selfRefs := selfRefs s + 1\<rparr>))"

definition nub_detach :: "nub \<Rightarrow> ('h, 'z) ctl_scheme \<Rightarrow> nub \<times> ('h, 'z) ctl_scheme" where
  "nub_detach n s = (n\<lparr>nubController := 0\<rparr>, s\<lparr>selfRefs := selfRefs s - 1\<rparr>)"

definition keyboardNub_installInterruptAction ::
  "obj \<Rightarrow> action \<Rightarrow> ('h, 'z) ctl_scheme \<Rightarrow> ('h, 'z) ctl_scheme" where
  "keyboardNub_installInterruptAction = installInterruptAction kDT_Keyboard"

definition keyboardNub_uninstallInterruptAction :: "('h, 'z) ctl_scheme \<Rightarrow> ('h, 'z) ctl_scheme" where
  "keyboardNub_uninstallInterruptAction = uninstallInterruptAction kDT_Keyboard"

definition keyboardNub_installPowerControlAction ::
  "obj \<Rightarrow> action \<Rightarrow> ('h, 'z) ctl_scheme \<Rightarrow> ('h, 'z) ctl_scheme" where
  "keyboardNub_installPowerControlAction = installPowerControlAction kDT_Keyboard"

definition keyboardNub_uninstallPowerControlAction :: "('h, 'z) ctl_scheme \<Rightarrow> ('h, 'z) ctl_scheme" where
  "keyboardNub_uninstallPowerControlAction = uninstallPowerControlAction kDT_Keyboard"

definition mouseNub_installInterruptAction ::
  "obj \<Rightarrow> action \<Rightarrow> ('h, 'z) ctl_scheme \<Rightarrow> ('h, 'z) ctl_scheme" where
  "mouseNub_installInterruptAction = installInterruptAction kDT_Mouse"

definition mouseNub_uninstallInterruptAction :: "('h, 'z) ctl_scheme \<Rightarrow> ('h, 'z) ctl_scheme" where
  "mouseNub_uninstallInterruptAction = uninstallInterruptAction kDT_Mouse"

definition mouseNub_installPowerControlAction ::
  "obj \<Rightarrow> action \<Rightarrow> ('h, 'z) ctl_scheme \<Rightarrow> ('h, 'z) ctl_scheme" where
  "mouseNub_installPowerControlAction = installPowerControlAction kDT_Mouse"

definition mouseNub_uninstallPowerControlAction :: "('h, 'z) ctl_scheme \<Rightarrow> ('h, 'z) ctl_scheme" where
  "mouseNub_uninstallPowerControlAction = uninstallPowerControlAction kDT_Mouse"

end
