(* ===== verification/Ps2GlidePoint.thy ===== *)
theory Ps2GlidePoint
  imports Ps2Lifecycle
begin

text \<open>
  The driver \<open>ApplePS2ALPSGlidePoint\<close> for ALPS touchpads, which takes the mouse driver's place
  on the mouse nub. Its interrupt routine never blocks, so it is a function on the driver's own
  state; that state lives inside the machine's, because bytes reach the routine while the other
  operations wait for their requests.
\<close>

section \<open>State\<close>

datatype pad_event =
    PadPointer u32 u32 u32
  | AdvertiseClicking u32
  | AdvertiseAccelerationType
  | LogPadVersion u8 u8

text \<open>The fields of \<open>ApplePS2ALPSGlidePoint.h\<close>; \<open>padEvents\<close> is what the superclass was told.\<close>

record pad =
  padDevice :: obj
  padInterruptHandlerInstalled :: bool
  padPowerControlHandlerInstalled :: bool
  padPacketBuffer :: "u8 list"
  padPacketByteCount :: nat
  padResolution :: u32
  padVersion :: u16
  padModeByte :: u8
  padEvents :: "pad_event list"

abbreviation (input) kTapEnabled :: u8 where "kTapEnabled \<equiv> 0x01"

text \<open>The machine with the touchpad drivers' states; \<open>elantech\<close> is used in a later theory.\<close>

record 'h pad_machine = "'h machine" +
  alps :: pad
  elantech :: pad

type_synonym ('h, 'z) pad_env = "('h, 'z pad_machine_ext) machine_env"

definition pad_event :: "pad_event \<Rightarrow> pad \<Rightarrow> pad" where
  "pad_event e p = p\<lparr>padEvents := padEvents p @ [e]\<rparr>"

definition alps_init :: "pad \<Rightarrow> pad" where
  "alps_init p = p\<lparr>padDevice := 0, padInterruptHandlerInstalled := False, padPacketByteCount := 0,
     padResolution := push_bit 16 100, padModeByte := kTapEnabled\<rparr>"

section \<open>Probe\<close>

text \<open>A command with its acknowledge, and the three bytes of an answer.\<close>

abbreviation (input) ack_command :: "u8 \<Rightarrow> PS2CommandEnum \<times> u8" where
  "ack_command b \<equiv> (kPS2C_SendMouseCommandAndCompareAck, b)"

abbreviation (input) read_three :: "(PS2CommandEnum \<times> u8) list" where
  "read_three \<equiv> [(kPS2C_ReadDataPort, 0), (kPS2C_ReadDataPort, 0), (kPS2C_ReadDataPort, 0)]"

definition alps_probe_commands :: "(PS2CommandEnum \<times> u8) list" where
  "alps_probe_commands =
     [ack_command kDP_SetDefaultsAndDisable,
      ack_command kDP_SetMouseSampleRate, ack_command 100,
      ack_command kDP_SetMouseResolution, ack_command 0,
      ack_command kDP_SetMouseScaling2To1, ack_command kDP_SetMouseScaling2To1,
      ack_command kDP_SetMouseScaling2To1,
      ack_command kDP_GetMouseInformation] @ read_three @
     [ack_command kDP_SetDefaultsAndDisable]"

definition alps_singles :: "(u8 \<times> u8 \<times> u8) list" where
  "alps_singles = [(0x33, 0x2, 0xa), (0x53, 0x2, 0x0a), (0x53, 0x2, 0x14), (0x63, 0x2, 0xa),
     (0x63, 0x2, 0x14), (0x63, 0x2, 0x28), (0x63, 0x2, 0x3c), (0x63, 0x2, 0x50), (0x63, 0x2, 0x64)]"

definition alps_duals :: "(u8 \<times> u8 \<times> u8) list" where
  "alps_duals = [(0x20, 0x2, 0xe), (0x22, 0x2, 0xa), (0x22, 0x2, 0x14)]"

text \<open>The search loop, left at the first match.\<close>

fun matches_triple :: "(u8 \<times> u8 \<times> u8) list \<Rightarrow> u8 \<Rightarrow> u8 \<Rightarrow> u8 \<Rightarrow> bool" where
  "matches_triple [] byte0 byte1 byte2 = False"
| "matches_triple ((a, b, c) # ts) byte0 byte1 byte2 =
     (if byte0 = a \<and> byte1 = b \<and> byte2 = c then True else matches_triple ts byte0 byte1 byte2)"

definition IsItALPS :: "u8 \<Rightarrow> u8 \<Rightarrow> u8 \<Rightarrow> bool" where
  "IsItALPS byte0 byte1 byte2 =
     (let success = matches_triple alps_singles byte0 byte1 byte2
      in if \<not> success then matches_triple alps_duals byte0 byte1 byte2 else success)"

definition version_word :: "u8 \<Rightarrow> u8 \<Rightarrow> u16" where
  "version_word high low = push_bit 8 (ucast (high AND 0x0f)) OR ucast low"

text \<open>The bytes are judged whether or not the request succeeded.\<close>

definition alps_probe ::
  "('h, 'z) pad_env \<Rightarrow> bool \<Rightarrow> ('h, 'z) pad_machine_scheme
     \<Rightarrow> (bool \<times> ('h, 'z) pad_machine_scheme) option" where
  "alps_probe E superProbe s = do {
     let (request, s) = allocateRequest s;
     if \<not> superProbe then Some (False, s)
     else do {
       (request, s) \<leftarrow> submitRequestAndBlock E (set_commands alps_probe_commands request) s;
       let byte0 = inOrOut (commands request ! 9);
       let byte1 = inOrOut (commands request ! 10);
       let byte2 = inOrOut (commands request ! 11);
       let s = alps_update (\<lambda>p. p\<lparr>padVersion := version_word byte2 byte0\<rparr>) s;
       Some (IsItALPS byte0 byte1 byte2, freeRequest s)
     }
   }"

section \<open>Commands\<close>

definition sample_rate_commands :: "(PS2CommandEnum \<times> u8) list" where
  "sample_rate_commands =
     [ack_command kDP_SetDefaultsAndDisable, ack_command kDP_SetMouseSampleRate, ack_command 100,
      ack_command kDP_SetMouseResolution, ack_command 2, ack_command kDP_Enable]"

definition alps_setSampleRateAndResolution ::
  "('h, 'z) env \<Rightarrow> ('h, 'z) ctl_scheme \<Rightarrow> ('h, 'z) ctl_scheme option" where
  "alps_setSampleRateAndResolution E s = do {
     (_, s) \<leftarrow> blocking_request E sample_rate_commands s;
     Some s
   }"

definition tap_commands :: "bool \<Rightarrow> (PS2CommandEnum \<times> u8) list" where
  "tap_commands enable =
     [ack_command kDP_SetMouseScaling2To1, ack_command kDP_SetMouseScaling2To1,
      ack_command kDP_SetMouseScaling2To1, ack_command kDP_SetDefaultsAndDisable,
      ack_command kDP_GetMouseInformation, ack_command kDP_SetDefaultsAndDisable,
      ack_command kDP_SetDefaultsAndDisable] @
     (if enable then [ack_command kDP_SetMouseSampleRate, ack_command 0x0A]
      else [ack_command kDP_SetMouseResolution, ack_command 0x00]) @
     [ack_command kDP_SetMouseScaling1To1, ack_command kDP_SetMouseScaling1To1,
      ack_command kDP_SetMouseScaling1To1, ack_command kDP_SetDefaultsAndDisable,
      ack_command kDP_Enable]"

text \<open>The request is only freed after the second one, which is sent when all of it succeeded.\<close>

definition alps_setTapEnable ::
  "('h, 'z) env \<Rightarrow> bool \<Rightarrow> ('h, 'z) ctl_scheme \<Rightarrow> ('h, 'z) ctl_scheme option" where
  "alps_setTapEnable E enable s = do {
     let (request, s) = allocateRequest s;
     (request, s) \<leftarrow> submitRequestAndBlock E (set_commands (tap_commands enable) request) s;
     s \<leftarrow> (if commandsCount request = 14 then alps_setSampleRateAndResolution E s else Some s);
     Some (freeRequest s)
   }"

definition pad_enable_commands :: "bool \<Rightarrow> (PS2CommandEnum \<times> u8) list" where
  "pad_enable_commands enable =
     [ack_command kDP_SetDefaultsAndDisable, ack_command kDP_SetDefaultsAndDisable,
      ack_command kDP_SetDefaultsAndDisable, ack_command kDP_SetDefaultsAndDisable,
      ack_command (if enable then kDP_Enable else kDP_SetDefaultsAndDisable)]"

definition alps_setTouchPadEnable :: "bool \<Rightarrow> ('h, 'z) ctl_scheme \<Rightarrow> ('h, 'z) ctl_scheme" where
  "alps_setTouchPadEnable enable s = async_request (pad_enable_commands enable) s"

text \<open>A further copy of the keyboard driver's \<open>setCommandByte\<close>.\<close>

definition alps_setCommandByte ::
  "('h, 'z) env \<Rightarrow> u8 \<Rightarrow> u8 \<Rightarrow> ('h, 'z) ctl_scheme \<Rightarrow> ('h, 'z) ctl_scheme option" where
  "alps_setCommandByte E setBits clearBits s = do {
     let (request, s) = allocateRequest s;
     (request, s) \<leftarrow> setCommandByte_loop E setBits clearBits request s;
     Some (freeRequest s)
   }"

text \<open>\<open>setParamProperties\<close>: \<open>clicking\<close> is the dictionary's number, if it holds one.\<close>

definition alps_setParamProperties ::
  "('h, 'z) pad_env \<Rightarrow> u32 option \<Rightarrow> ('h, 'z) pad_machine_scheme \<Rightarrow> ('h, 'z) pad_machine_scheme option" where
  "alps_setParamProperties E clicking s =
     (case clicking of
        None \<Rightarrow> Some s
      | Some number \<Rightarrow>
          (let newModeByteValue = (if any_bit number 0x1 then kTapEnabled else 0)
           in if padModeByte (alps s) \<noteq> newModeByteValue then do {
                let s = alps_update (\<lambda>p. p\<lparr>padModeByte := newModeByteValue\<rparr>) s;
                s \<leftarrow> alps_setTapEnable E (padModeByte (alps s) \<noteq> 0) s;
                Some (alps_update (pad_event (AdvertiseClicking number)) s)
              }
              else Some s))"

definition alps_setDevicePowerState ::
  "('h, 'z) pad_env \<Rightarrow> u32 \<Rightarrow> ('h, 'z) pad_machine_scheme \<Rightarrow> ('h, 'z) pad_machine_scheme option" where
  "alps_setDevicePowerState E whatToDo s =
     (if whatToDo = kPS2C_DisableDevice then Some (alps_setTouchPadEnable False s)
      else if whatToDo = kPS2C_EnableDevice then do {
        s \<leftarrow> alps_setTapEnable E (padModeByte (alps s) \<noteq> 0) s;
        s \<leftarrow> alps_setCommandByte E kCB_EnableMouseIRQ kCB_DisableMouseClock s;
        Some (alps_setTouchPadEnable True s)
      }
      else Some s)"

section \<open>Packets\<close>

definition alps_dispatchRelativePointerEventWithPacket :: "u8 list \<Rightarrow> pad \<Rightarrow> pad" where
  "alps_dispatchRelativePointerEventWithPacket packet p =
     (let buttons = (if any_bit (packet ! 0) 0x1 then 0x1 else 0) OR
                    (if any_bit (packet ! 0) 0x2 then 0x2 else 0) OR
                    (if any_bit (packet ! 0) 0x4 then 0x4 else 0);
          dx = relative_delta (any_bit (packet ! 0) 0x10) (packet ! 1);
          dy = - relative_delta (any_bit (packet ! 0) 0x20) (packet ! 2)
      in pad_event (PadPointer dx dy buttons) p)"

definition pad_store :: "u8 \<Rightarrow> pad \<Rightarrow> pad" where
  "pad_store data p = p\<lparr>padPacketBuffer := (padPacketBuffer p)[padPacketByteCount p := data],
     padPacketByteCount := padPacketByteCount p + 1\<rparr>"

definition alps_interruptOccurred :: "u8 \<Rightarrow> pad \<Rightarrow> pad" where
  "alps_interruptOccurred data p =
     (if padPacketByteCount p = 0 \<and> (data = kSC_Acknowledge \<or> \<not> any_bit data 0x08) then p
      else
        (let p = pad_store data p
         in if padPacketByteCount p = 3
            then (alps_dispatchRelativePointerEventWithPacket (padPacketBuffer p) p)\<lparr>padPacketByteCount := 0\<rparr>
            else p))"

section \<open>Start, stop and free\<close>

abbreviation (input) alpsInterruptAction :: action where "alpsInterruptAction \<equiv> 5"
abbreviation (input) alpsPowerAction :: action where "alpsPowerAction \<equiv> 6"

definition alps_start ::
  "('h, 'z) pad_env \<Rightarrow> bool \<Rightarrow> obj \<Rightarrow> obj \<Rightarrow> ('h, 'z) pad_machine_scheme
     \<Rightarrow> (bool \<times> ('h, 'z) pad_machine_scheme) option" where
  "alps_start E superStart self provider s =
     (if \<not> superStart then Some (False, s)
      else do {
        let s = retain provider (alps_update (\<lambda>p. p\<lparr>padDevice := provider\<rparr>) s);
        let s = alps_update (\<lambda>p. pad_event (LogPadVersion (ucast (drop_bit 8 (padVersion p))) (ucast (padVersion p))) p) s;
        s \<leftarrow> alps_setTapEnable E (padModeByte (alps s) \<noteq> 0) s;
        let gesturesEnabled = (if padModeByte (alps s) = kTapEnabled then 1 else 0);
        let s = alps_update (pad_event AdvertiseAccelerationType)
                  (alps_update (pad_event (AdvertiseClicking gesturesEnabled)) s);
        let s = installInterruptAction kDT_Mouse self alpsInterruptAction s;
        let s = alps_update (\<lambda>p. p\<lparr>padInterruptHandlerInstalled := True\<rparr>) s;
        s \<leftarrow> alps_setCommandByte E kCB_EnableMouseIRQ kCB_DisableMouseClock s;
        let s = alps_setTouchPadEnable True s;
        let s = installPowerControlAction kDT_Mouse self alpsPowerAction s;
        Some (True, alps_update (\<lambda>p. p\<lparr>padPowerControlHandlerInstalled := True\<rparr>) s)
      })"

definition alps_stop ::
  "('h, 'z) pad_env \<Rightarrow> ('h, 'z) pad_machine_scheme \<Rightarrow> ('h, 'z) pad_machine_scheme option" where
  "alps_stop E s = do {
     let s = alps_setTouchPadEnable False s;
     s \<leftarrow> alps_setCommandByte E kCB_DisableMouseClock kCB_EnableMouseIRQ s;
     let s = (if padInterruptHandlerInstalled (alps s) then uninstallInterruptAction kDT_Mouse s else s);
     let s = alps_update (\<lambda>p. p\<lparr>padInterruptHandlerInstalled := False\<rparr>) s;
     let s = (if padPowerControlHandlerInstalled (alps s) then uninstallPowerControlAction kDT_Mouse s else s);
     Some (alps_update (\<lambda>p. p\<lparr>padPowerControlHandlerInstalled := False\<rparr>) s)
   }"

definition alps_free :: "('h, 'z) pad_machine_scheme \<Rightarrow> ('h, 'z) pad_machine_scheme" where
  "alps_free s =
     (if padDevice (alps s) \<noteq> 0
      then alps_update (\<lambda>p. p\<lparr>padDevice := 0\<rparr>) (release (padDevice (alps s)) s)
      else s)"

end
