(* ===== verification/Ps2Elantech.thy ===== *)
theory Ps2Elantech
  imports Ps2GlidePoint
begin

text \<open>
  The driver \<open>ApplePS2ElantechTouchpad\<close>. It was made from the ALPS driver, most of whose
  functions it repeats; its own are the probe, \<open>getTouchPadData\<close> and \<open>readRegister\<close>. The
  \<open>_device\<close> pointer is only set by \<open>start\<close>, but the probe uses it: going through a null
  pointer is an error value here.
\<close>

section \<open>Probe\<close>

definition elantech_init :: "pad \<Rightarrow> pad" where
  "elantech_init p = p\<lparr>padDevice := 0, padInterruptHandlerInstalled := False, padPacketByteCount := 0,
     padResolution := push_bit 16 100, padModeByte := kTapEnabled\<rparr>"

text \<open>A byte sent as the arguments of four resolution commands, two bits each.\<close>

definition selector_commands :: "u8 \<Rightarrow> (PS2CommandEnum \<times> u8) list" where
  "selector_commands dataSelector =
     [ack_command kDP_SetMouseResolution, ack_command (drop_bit 6 dataSelector AND 0x3),
      ack_command kDP_SetMouseResolution, ack_command (drop_bit 4 dataSelector AND 0x3),
      ack_command kDP_SetMouseResolution, ack_command (drop_bit 2 dataSelector AND 0x3),
      ack_command kDP_SetMouseResolution, ack_command (drop_bit 0 dataSelector AND 0x3)]"

definition touchpad_data_commands :: "u8 \<Rightarrow> (PS2CommandEnum \<times> u8) list" where
  "touchpad_data_commands dataSelector =
     ack_command kDP_SetDefaultsAndDisable # selector_commands dataSelector @
     ack_command kDP_GetMouseInformation # read_three"

text \<open>The three bytes of an answer, the first one highest.\<close>

definition answer_word :: "PS2Request \<Rightarrow> u32" where
  "answer_word request =
     push_bit 16 (ucast (inOrOut (commands request ! 10))) OR
     push_bit 8 (ucast (inOrOut (commands request ! 11))) OR
     ucast (inOrOut (commands request ! 12))"

definition elantech_getTouchPadData ::
  "('h, 'z) pad_env \<Rightarrow> u8 \<Rightarrow> ('h, 'z) pad_machine_scheme
     \<Rightarrow> ((kernel_error + u32) \<times> ('h, 'z) pad_machine_scheme) option" where
  "elantech_getTouchPadData E dataSelector s =
     (if padDevice (elantech s) = 0 then Some (Inl NullDereference, s)
      else do {
        (request, s) \<leftarrow> blocking_request E (touchpad_data_commands dataSelector) s;
        Some (Inr (if commandsCount request = 13 then answer_word request else 0xFFFFFFFF), s)
      })"

definition elantech_probe_commands :: "(PS2CommandEnum \<times> u8) list" where
  "elantech_probe_commands =
     [ack_command kDP_SetDefaultsAndDisable, ack_command kDP_SetMouseScaling1To1,
      ack_command kDP_SetMouseScaling1To1, ack_command kDP_SetMouseScaling1To1,
      ack_command kDP_GetMouseInformation] @ read_three @
     [ack_command kDP_SetDefaultsAndDisable]"

abbreviation (input) kET_firmwareVersion :: u8 where "kET_firmwareVersion \<equiv> 0x01"

text \<open>The result is an error, or whether the driver claims the device.\<close>

definition elantech_probe ::
  "('h, 'z) pad_env \<Rightarrow> bool \<Rightarrow> ('h, 'z) pad_machine_scheme
     \<Rightarrow> ((kernel_error + bool) \<times> ('h, 'z) pad_machine_scheme) option" where
  "elantech_probe E superProbe s = do {
     let (request, s) = allocateRequest s;
     let success = False;
     if \<not> superProbe then Some (Inr False, s)
     else do {
       (request, s) \<leftarrow> submitRequestAndBlock E (set_commands elantech_probe_commands request) s;
       if inOrOut (commands request ! 5) \<noteq> 0x3c \<or> inOrOut (commands request ! 6) \<noteq> 0x03 \<or>
          inOrOut (commands request ! 7) \<noteq> 0xc8
       then Some (Inr False, freeRequest s)
       else do {
         (answer, s) \<leftarrow> elantech_getTouchPadData E kET_firmwareVersion s;
         case answer of
           Inl e \<Rightarrow> Some (Inl e, s)
         | Inr version \<Rightarrow>
             (let s = elantech_update (\<lambda>p. p\<lparr>padVersion := ucast (drop_bit 8 version)\<rparr>) s
              in Some (Inr success, freeRequest s))
       }
     }
   }"

text \<open>Registers are not read yet: every path returns 0.\<close>

definition elantech_readRegister :: "u8 \<Rightarrow> u8" where
  "elantech_readRegister readReg =
     (if readReg < 0x10 \<or> readReg > 0x26 then 0
      else if readReg > 0x11 \<and> readReg < 0x20 then 0
      else 0)"

section \<open>Commands\<close>

definition elantech_setSampleRateAndResolution ::
  "('h, 'z) env \<Rightarrow> ('h, 'z) ctl_scheme \<Rightarrow> ('h, 'z) ctl_scheme option" where
  "elantech_setSampleRateAndResolution E s = do {
     (_, s) \<leftarrow> blocking_request E sample_rate_commands s;
     Some s
   }"

definition elantech_setTapEnable ::
  "('h, 'z) env \<Rightarrow> bool \<Rightarrow> ('h, 'z) ctl_scheme \<Rightarrow> ('h, 'z) ctl_scheme option" where
  "elantech_setTapEnable E enable s = do {
     let (request, s) = allocateRequest s;
     (request, s) \<leftarrow> submitRequestAndBlock E (set_commands (tap_commands enable) request) s;
     s \<leftarrow> (if commandsCount request = 14 then elantech_setSampleRateAndResolution E s else Some s);
     Some (freeRequest s)
   }"

definition elantech_setTouchPadEnable :: "bool \<Rightarrow> ('h, 'z) ctl_scheme \<Rightarrow> ('h, 'z) ctl_scheme" where
  "elantech_setTouchPadEnable enable s = async_request (pad_enable_commands enable) s"

definition elantech_setCommandByte ::
  "('h, 'z) env \<Rightarrow> u8 \<Rightarrow> u8 \<Rightarrow> ('h, 'z) ctl_scheme \<Rightarrow> ('h, 'z) ctl_scheme option" where
  "elantech_setCommandByte E setBits clearBits s = do {
     let (request, s) = allocateRequest s;
     (request, s) \<leftarrow> setCommandByte_loop E setBits clearBits request s;
     Some (freeRequest s)
   }"

definition elantech_setParamProperties ::
  "('h, 'z) pad_env \<Rightarrow> u32 option \<Rightarrow> ('h, 'z) pad_machine_scheme \<Rightarrow> ('h, 'z) pad_machine_scheme option" where
  "elantech_setParamProperties E clicking s =
     (case clicking of
        None \<Rightarrow> Some s
      | Some number \<Rightarrow>
          (let newModeByteValue = (if any_bit number 0x1 then kTapEnabled else 0)
           in if padModeByte (elantech s) \<noteq> newModeByteValue then do {
                let s = elantech_update (\<lambda>p. p\<lparr>padModeByte := newModeByteValue\<rparr>) s;
                s \<leftarrow> elantech_setTapEnable E (padModeByte (elantech s) \<noteq> 0) s;
                Some (elantech_update (pad_event (AdvertiseClicking number)) s)
              }
              else Some s))"

definition elantech_setDevicePowerState ::
  "('h, 'z) pad_env \<Rightarrow> u32 \<Rightarrow> ('h, 'z) pad_machine_scheme \<Rightarrow> ('h, 'z) pad_machine_scheme option" where
  "elantech_setDevicePowerState E whatToDo s =
     (if whatToDo = kPS2C_DisableDevice then Some (elantech_setTouchPadEnable False s)
      else if whatToDo = kPS2C_EnableDevice then do {
        s \<leftarrow> elantech_setTapEnable E (padModeByte (elantech s) \<noteq> 0) s;
        s \<leftarrow> elantech_setCommandByte E kCB_EnableMouseIRQ kCB_DisableMouseClock s;
        Some (elantech_setTouchPadEnable True s)
      }
      else Some s)"

section \<open>Packets\<close>

definition elantech_dispatchRelativePointerEventWithPacket :: "u8 list \<Rightarrow> pad \<Rightarrow> pad" where
  "elantech_dispatchRelativePointerEventWithPacket packet p =
     (let buttons = (if any_bit (packet ! 0) 0x1 then 0x1 else 0) OR
                    (if any_bit (packet ! 0) 0x2 then 0x2 else 0) OR
                    (if any_bit (packet ! 0) 0x4 then 0x4 else 0);
          dx = relative_delta (any_bit (packet ! 0) 0x10) (packet ! 1);
          dy = - relative_delta (any_bit (packet ! 0) 0x20) (packet ! 2)
      in pad_event (PadPointer dx dy buttons) p)"

definition elantech_interruptOccurred :: "u8 \<Rightarrow> pad \<Rightarrow> pad" where
  "elantech_interruptOccurred data p =
     (if padPacketByteCount p = 0 \<and> (data = kSC_Acknowledge \<or> \<not> any_bit data 0x08) then p
      else
        (let p = pad_store data p
         in if padPacketByteCount p = 3
            then (elantech_dispatchRelativePointerEventWithPacket (padPacketBuffer p) p)\<lparr>padPacketByteCount := 0\<rparr>
            else p))"

section \<open>Start, stop and free\<close>

abbreviation (input) elantechInterruptAction :: action where "elantechInterruptAction \<equiv> 7"
abbreviation (input) elantechPowerAction :: action where "elantechPowerAction \<equiv> 8"

definition elantech_start ::
  "('h, 'z) pad_env \<Rightarrow> bool \<Rightarrow> obj \<Rightarrow> obj \<Rightarrow> ('h, 'z) pad_machine_scheme
     \<Rightarrow> (bool \<times> ('h, 'z) pad_machine_scheme) option" where
  "elantech_start E superStart self provider s =
     (if \<not> superStart then Some (False, s)
      else do {
        let s = retain provider (elantech_update (\<lambda>p. p\<lparr>padDevice := provider\<rparr>) s);
        let s = elantech_update (\<lambda>p. pad_event (LogPadVersion (ucast (drop_bit 8 (padVersion p))) (ucast (padVersion p))) p) s;
        s \<leftarrow> elantech_setTapEnable E (padModeByte (elantech s) \<noteq> 0) s;
        let gesturesEnabled = (if padModeByte (elantech s) = kTapEnabled then 1 else 0);
        let s = elantech_update (pad_event AdvertiseAccelerationType)
                  (elantech_update (pad_event (AdvertiseClicking gesturesEnabled)) s);
        let s = installInterruptAction kDT_Mouse self elantechInterruptAction s;
        let s = elantech_update (\<lambda>p. p\<lparr>padInterruptHandlerInstalled := True\<rparr>) s;
        s \<leftarrow> elantech_setCommandByte E kCB_EnableMouseIRQ kCB_DisableMouseClock s;
        let s = elantech_setTouchPadEnable True s;
        let s = installPowerControlAction kDT_Mouse self elantechPowerAction s;
        Some (True, elantech_update (\<lambda>p. p\<lparr>padPowerControlHandlerInstalled := True\<rparr>) s)
      })"

definition elantech_stop ::
  "('h, 'z) pad_env \<Rightarrow> ('h, 'z) pad_machine_scheme \<Rightarrow> ('h, 'z) pad_machine_scheme option" where
  "elantech_stop E s = do {
     let s = elantech_setTouchPadEnable False s;
     s \<leftarrow> elantech_setCommandByte E kCB_DisableMouseClock kCB_EnableMouseIRQ s;
     let s = (if padInterruptHandlerInstalled (elantech s) then uninstallInterruptAction kDT_Mouse s else s);
     let s = elantech_update (\<lambda>p. p\<lparr>padInterruptHandlerInstalled := False\<rparr>) s;
     let s = (if padPowerControlHandlerInstalled (elantech s) then uninstallPowerControlAction kDT_Mouse s else s);
     Some (elantech_update (\<lambda>p. p\<lparr>padPowerControlHandlerInstalled := False\<rparr>) s)
   }"

definition elantech_free :: "('h, 'z) pad_machine_scheme \<Rightarrow> ('h, 'z) pad_machine_scheme" where
  "elantech_free s =
     (if padDevice (elantech s) \<noteq> 0
      then elantech_update (\<lambda>p. p\<lparr>padDevice := 0\<rparr>) (release (padDevice (elantech s)) s)
      else s)"

end
