(* ===== verification/Ps2Link.thy ===== *)
theory Ps2Link
  imports Ps2CommandByte
begin

text \<open>
  Conversations with the device behind the mouse port: the law of the link, and the fact that a
  blocking request made of acknowledged commands and reads carries out the conversation. The
  touchpad drivers' questions are all of this kind.
\<close>

section \<open>The device behind the port\<close>

text \<open>
  After \<open>kCP_TransmitToMouse\<close> the next byte written to the data port goes to the device; it
  changes state and its answer is appended to the bytes waiting. \<open>react\<close> is the device.
\<close>

definition link_law ::
  "('h, 'z) env \<Rightarrow> ('h \<Rightarrow> (PS2DeviceType \<times> u8) list) \<Rightarrow> ('h \<Rightarrow> bool) \<Rightarrow> ('h \<Rightarrow> 'd)
     \<Rightarrow> ('d \<Rightarrow> u8 \<Rightarrow> u8 list \<times> 'd) \<Rightarrow> bool" where
  "link_law E pend routed dev react \<longleftrightarrow>
     (\<forall>h p. routed (snd (inb E p h)) = routed h \<and> dev (snd (inb E p h)) = dev h) \<and>
     (\<forall>h. routed (outb E kCommandPort kCP_TransmitToMouse h) \<and>
        pend (outb E kCommandPort kCP_TransmitToMouse h) = pend h \<and>
        dev (outb E kCommandPort kCP_TransmitToMouse h) = dev h) \<and>
     (\<forall>h b. routed h \<longrightarrow>
        pend (outb E kDataPort b h) = pend h @ map (Pair kDT_Mouse) (fst (react (dev h) b)) \<and>
        dev (outb E kDataPort b h) = snd (react (dev h) b))"

text \<open>
  A conversation: bytes sent, each of which must be acknowledged at once, and bytes received.
  The result lists the bytes sent and received, the bytes that still wait, and the device's state.
\<close>

datatype exchange = Send u8 | Receive

primrec exchange_command :: "exchange \<Rightarrow> PS2CommandEnum \<times> u8" where
  "exchange_command (Send b) = (kPS2C_SendMouseCommandAndCompareAck, b)"
| "exchange_command Receive = (kPS2C_ReadDataPort, 0)"

fun converse ::
  "('d \<Rightarrow> u8 \<Rightarrow> u8 list \<times> 'd) \<Rightarrow> 'd \<Rightarrow> u8 list \<Rightarrow> exchange list \<Rightarrow> (u8 list \<times> u8 list \<times> 'd) option" where
  "converse react d out [] = Some ([], out, d)"
| "converse react d out (Send b # es) =
     (case out @ fst (react d b) of
        [] \<Rightarrow> None
      | x # rest \<Rightarrow>
          if x = kSC_Acknowledge
          then map_option (\<lambda>(rs, out, d). (b # rs, out, d)) (converse react (snd (react d b)) rest es)
          else None)"
| "converse react d out (Receive # es) =
     (case out of
        [] \<Rightarrow> None
      | x # rest \<Rightarrow> map_option (\<lambda>(rs, out, d). (x # rs, out, d)) (converse react d rest es))"

lemma converse_length: "converse react d out es = Some (rs, out', d') \<Longrightarrow> length rs = length es"
  by (induction react d out es arbitrary: rs rule: converse.induct)
    (auto split: list.splits if_splits)

section \<open>Requests carry out the conversation\<close>

lemma link_step:
  assumes "input_ready_law E" "output_buffer_law E pend" "link_law E pend routed dev react"
    and "pend (hw s) = map (Pair kDT_Mouse) out"
    and "out @ fst (react (dev (hw s)) b) = kSC_Acknowledge # rest"
  obtains h where "process_command E m x \<lparr>command = kPS2C_SendMouseCommandAndCompareAck, inOrOut = b\<rparr> s =
      Some (kDT_Mouse, x, \<lparr>command = kPS2C_SendMouseCommandAndCompareAck, inOrOut = b\<rparr>, False, s\<lparr>hw := h\<rparr>)"
    "pend h = map (Pair kDT_Mouse) rest" "dev h = snd (react (dev (hw s)) b)"
proof -
  have poll: "pend (snd (inb E kCommandPort h)) = pend h" for h
    using assms(2) unfolding output_buffer_law_def by (simp add: split_beta)
  note link = assms(3) [unfolded link_law_def]
  define h1 where "h1 = outb E kCommandPort kCP_TransmitToMouse (snd (inb E kCommandPort (hw s)))"
  have h1: "writeCommandPort E kCP_TransmitToMouse s = Some (s\<lparr>hw := h1\<rparr>)"
    "routed h1" "pend h1 = pend (hw s)" "dev h1 = dev (hw s)"
    using link poll by (simp_all add: writeCommandPort_def wait_input_ready [OF assms(1)] port_out_def h1_def)
  define h2 where "h2 = outb E kDataPort b (snd (inb E kCommandPort h1))"
  have h2: "writeDataPort E b (s\<lparr>hw := h1\<rparr>) = Some (s\<lparr>hw := h2\<rparr>)"
    "pend h2 = map (Pair kDT_Mouse) (kSC_Acknowledge # rest)" "dev h2 = snd (react (dev (hw s)) b)"
    using link poll h1(2-4) assms(4,5)
    by (simp_all add: writeDataPort_def wait_input_ready [OF assms(1)] port_out_def h2_def
        flip: map_append)
  obtain h where f: "fetch_byte E kDT_Mouse readTimeout (s\<lparr>hw := h2\<rparr>) =
      (readTimeout, Fetched True kSC_Acknowledge, s\<lparr>hw := h\<rparr>)" "pend h = map (Pair kDT_Mouse) rest"
    using fetch_pending [OF assms(2), of "s\<lparr>hw := h2\<rparr>" kDT_Mouse kSC_Acknowledge
        "map (Pair kDT_Mouse) rest" readTimeout kDT_Mouse] h2(2) by auto
  have dev: "dev h = dev h2"
  proof -
    have "inb_keeps E (\<lambda>h. dev h = dev h2)" using link by (simp add: inb_keeps_def)
    from fetch_byte_keeps [OF f(1) this] show ?thesis by simp
  qed
  have "readDataPort_expect E kDT_Mouse kSC_Acknowledge (s\<lparr>hw := h2\<rparr>) = Some (kSC_Acknowledge, s\<lparr>hw := h\<rparr>)"
    unfolding readDataPort_expect_def using f(1) by (subst readDataPort_expect_loop.simps) simp
  then show ?thesis
    using that [of h] h1(1) h2(1,3) f(2) dev by (simp add: process_command_def)
qed

lemma link_receive:
  assumes "output_buffer_law E pend" "link_law E pend routed dev react"
    and "pend (hw s) = map (Pair kDT_Mouse) (y # rest)"
  obtains h where "process_command E kDT_Mouse x \<lparr>command = kPS2C_ReadDataPort, inOrOut = b\<rparr> s =
      Some (kDT_Mouse, x, \<lparr>command = kPS2C_ReadDataPort, inOrOut = y\<rparr>, False, s\<lparr>hw := h\<rparr>)"
    "pend h = map (Pair kDT_Mouse) rest" "dev h = dev (hw s)"
proof -
  obtain h where f: "fetch_byte E kDT_Mouse readTimeout s = (readTimeout, Fetched True y, s\<lparr>hw := h\<rparr>)"
    "pend h = map (Pair kDT_Mouse) rest"
    using fetch_pending [OF assms(1), of s kDT_Mouse y "map (Pair kDT_Mouse) rest" readTimeout kDT_Mouse]
      assms(3) by auto
  have "inb_keeps E (\<lambda>h. dev h = dev (hw s))" using assms(2) by (simp add: inb_keeps_def link_law_def)
  from fetch_byte_keeps [OF f(1) this] have dev: "dev h = dev (hw s)" by simp
  have "readDataPort E kDT_Mouse s = Some (y, s\<lparr>hw := h\<rparr>)"
    unfolding readDataPort_def using f(1) by (subst readDataPort_loop.simps) simp
  then show ?thesis using that [of h] f(2) dev by (simp add: process_command_def)
qed

lemma process_exchanges:
  assumes "input_ready_law E" "output_buffer_law E pend" "link_law E pend routed dev react"
    and "pend (hw s) = map (Pair kDT_Mouse) out" "converse react (dev (hw s)) out es = Some (rs, out', d')"
    and "m = kDT_Mouse \<or> (\<exists>b es'. es = Send b # es')"
  shows "\<exists>cs h. process_commands E m False (make_commands (map exchange_command es)) s =
      Some (cs, None, s\<lparr>hw := h\<rparr>) \<and> map inOrOut cs = rs \<and> pend h = map (Pair kDT_Mouse) out' \<and> dev h = d'"
  using assms(4-6)
proof (induction es arbitrary: s out rs m)
  case Nil
  then show ?case by (auto simp: split_beta intro!: exI [of _ "hw s"])
next
  case (Cons e es)
  have next_step: "\<exists>cs h. process_commands E m False (make_commands (map exchange_command (e # es))) s =
      Some (cs, None, s\<lparr>hw := h\<rparr>) \<and> map inOrOut cs = y # rs' \<and> pend h = map (Pair kDT_Mouse) out' \<and> dev h = d'"
    if step: "process_command E m False \<lparr>command = fst (exchange_command e), inOrOut = snd (exchange_command e)\<rparr> s =
        Some (kDT_Mouse, False, c, False, s\<lparr>hw := h1\<rparr>)" "inOrOut c = y" "pend h1 = map (Pair kDT_Mouse) rest"
      and rest: "converse react (dev h1) rest es = Some (rs', out', d')" for c y h1 rest rs'
  proof -
    obtain cs h where "process_commands E kDT_Mouse False (make_commands (map exchange_command es)) (s\<lparr>hw := h1\<rparr>) =
        Some (cs, None, s\<lparr>hw := h1\<rparr>\<lparr>hw := h\<rparr>)" "map inOrOut cs = rs'" "pend h = map (Pair kDT_Mouse) out'" "dev h = d'"
      using Cons.IH [of "s\<lparr>hw := h1\<rparr>" rest rs' kDT_Mouse] step(3) rest by auto
    then show ?thesis
      using step(1,2) by (intro exI [of _ "c # cs"] exI [of _ h]) (simp add: split_beta)
  qed
  show ?case
  proof (cases e)
    case (Send b)
    obtain rest rs' where r: "out @ fst (react (dev (hw s)) b) = kSC_Acknowledge # rest"
      "converse react (snd (react (dev (hw s)) b)) rest es = Some (rs', out', d')" "rs = b # rs'"
      using Cons.prems(2) Send by (auto split: list.splits if_splits)
    obtain h where "process_command E m False \<lparr>command = kPS2C_SendMouseCommandAndCompareAck, inOrOut = b\<rparr> s =
      Some (kDT_Mouse, False, \<lparr>command = kPS2C_SendMouseCommandAndCompareAck, inOrOut = b\<rparr>, False, s\<lparr>hw := h\<rparr>)"
      "pend h = map (Pair kDT_Mouse) rest" "dev h = snd (react (dev (hw s)) b)"
      by (rule link_step [OF assms(1-3) Cons.prems(1) r(1)])
    then show ?thesis using next_step [of _ h b rest rs'] Send r(2,3) by simp
  next
    case Receive
    then have m: "m = kDT_Mouse" using Cons.prems(3) by simp
    obtain y rest rs' where r: "out = y # rest" "converse react (dev (hw s)) rest es = Some (rs', out', d')"
      "rs = y # rs'"
      using Cons.prems(2) Receive by (auto split: list.splits)
    obtain h where "process_command E kDT_Mouse False \<lparr>command = kPS2C_ReadDataPort, inOrOut = 0\<rparr> s =
      Some (kDT_Mouse, False, \<lparr>command = kPS2C_ReadDataPort, inOrOut = y\<rparr>, False, s\<lparr>hw := h\<rparr>)"
      "pend h = map (Pair kDT_Mouse) rest" "dev h = dev (hw s)"
      using link_receive [OF assms(2,3), of s y rest False 0] Cons.prems(1) r(1) by blast
    then show ?thesis using next_step [of _ h y rest rs'] Receive r(2,3) m by simp
  qed
qed

text \<open>A driver's request that asks is answered, when the controller is idle and the link empty.\<close>

lemma submit_exchanges:
  assumes "input_ready_law E" "output_buffer_law E pend" "link_law E pend routed dev react"
    and "pend (hw s) = []" "requestQueue s = []" "\<not> hardwareOffline s"
    and "converse react (dev (hw s)) [] (Send b # es) = Some (rs, out', d')" "length es < kMaxCommands"
  obtains r' s' where "submitRequestAndBlock E (set_commands (map exchange_command (Send b # es)) r) s = Some (r', s')"
    "commandsCount r' = of_nat (length (Send b # es))"
    "\<And>i. i \<le> length es \<Longrightarrow> inOrOut (commands r' ! i) = rs ! i"
    "undisturbed s s'" "pend (hw s') = map (Pair kDT_Mouse) out'" "dev (hw s') = d'"
proof -
  let ?es = "Send b # es" and ?r = "set_commands (map exchange_command (Send b # es)) r"
  have len: "length rs = length ?es" by (rule converse_length [OF assms(7)])
  have t: "take (unat (commandsCount ?r)) (commands ?r) = make_commands (map exchange_command ?es)"
    by (rule set_commands_simps(1)) (use assms(8) in simp)
  show ?thesis
  proof (rule submitRequestAndBlock_idle [OF assms(5,6), of E ?r None
        "\<lambda>cs h. map inOrOut cs = rs \<and> pend h = map (Pair kDT_Mouse) out' \<and> dev h = d'"])
    fix s0 :: "('a, 'b) ctl_scheme"
    assume s0: "hw s0 = hw s" "kq s0 = kq s"
    show "\<exists>cs s1. process_commands E kDT_Keyboard False (take (unat (commandsCount ?r)) (commands ?r)) s0 =
        Some (cs, None, s1) \<and> undisturbed s0 s1 \<and> map inOrOut cs = rs \<and>
        pend (hw s1) = map (Pair kDT_Mouse) out' \<and> dev (hw s1) = d'"
      unfolding t
      using process_exchanges [OF assms(1-3), of s0 "[]" ?es rs out' d' kDT_Keyboard] assms(4,7) s0
      by fastforce
  next
    fix cs p s'
    assume run: "submitRequestAndBlock E ?r s = Some (finished_request (?r\<lparr>completion := p\<rparr>) cs None, s')"
      "undisturbed s s'" "map inOrOut cs = rs \<and> pend (hw s') = map (Pair kDT_Mouse) out' \<and> dev (hw s') = d'"
    have cs: "length cs = length ?es" using run(3) len by (metis length_map)
    have "inOrOut (commands (finished_request (?r\<lparr>completion := p\<rparr>) cs None) ! i) = rs ! i"
      if "i \<le> length es" for i
      using that run(3) cs by (auto simp: finished_request_def nth_append)
    then show ?thesis
      using that [OF run(1)] run(2,3) by (simp add: finished_request_def set_commands_def)
  qed
qed

section \<open>A concrete device for the closed examples\<close>

text \<open>
  The bytes waiting, whether a byte is routed to the device, and the device's state, over the
  reaction of the device.
\<close>

definition linked_env ::
  "('d \<Rightarrow> u8 \<Rightarrow> u8 list \<times> 'd) \<Rightarrow> ((PS2DeviceType \<times> u8) list \<times> bool \<times> 'd, 'z) env" where
  "linked_env react = \<lparr>
     inb = (\<lambda>p (out, w, d). case inb (fifo_env :: ((PS2DeviceType \<times> u8) list, unit) env) p out of
              (b, out') \<Rightarrow> (b, (out', w, d))),
     outb = (\<lambda>p b (out, w, d).
              if p = kCommandPort then (out, b = kCP_TransmitToMouse, d)
              else if w then (out @ map (Pair kDT_Mouse) (fst (react d b)), False, snd (react d b))
              else (out, False, d)),
     runInterruptAction = (\<lambda>a t b s. Some s),
     runPowerControlAction = (\<lambda>a t w s. Some s),
     runDebugger = (\<lambda>s. s)\<rparr>"

lemma linked_env_laws:
  "input_ready_law (linked_env react)" "output_buffer_law (linked_env react) fst"
  "passive_actions (linked_env react)"
  "link_law (linked_env react) fst (\<lambda>h. fst (snd h)) (\<lambda>h. snd (snd h)) react"
proof -
  note ob = fifo_env_law [unfolded output_buffer_law_def, where 'a = unit]
  show "output_buffer_law (linked_env react) fst"
    using ob by (auto simp: output_buffer_law_def linked_env_def split_beta)
  show "input_ready_law (linked_env react)"
    using fifo_env_ready [where 'a = unit] by (auto simp: input_ready_law_def linked_env_def split_beta)
  show "passive_actions (linked_env react)"
    by (simp add: passive_actions_def linked_env_def)
  show "link_law (linked_env react) fst (\<lambda>h. fst (snd h)) (\<lambda>h. snd (snd h)) react"
    by (simp add: link_law_def linked_env_def split_beta)
qed

text \<open>A device with its answers in store: each byte sent takes the next answer.\<close>

fun scripted_react :: "u8 list list \<Rightarrow> u8 \<Rightarrow> u8 list \<times> u8 list list" where
  "scripted_react [] b = ([], [])"
| "scripted_react (answer # answers) b = (answer, answers)"

abbreviation scripted_env :: "((PS2DeviceType \<times> u8) list \<times> bool \<times> u8 list list, 'z) env" where
  "scripted_env \<equiv> linked_env scripted_react"

end
