(* ===== verification/Ps2PadProps.thy ===== *)
theory Ps2PadProps
  imports Ps2Elantech Ps2Link
begin

text \<open>
  Properties of the ALPS and Elantech drivers: identification, the two-bit encoding of selector
  bytes, and the assembly of packets from a stream of bytes that may be out of step.
\<close>

section \<open>Identification\<close>

lemma matches_triple_iff: "matches_triple ts a b c \<longleftrightarrow> (a, b, c) \<in> set ts"
proof (induction ts)
  case (Cons t ts)
  then show ?case by (cases t) auto
qed simp

text \<open>The ALPS driver accepts exactly the twelve identifications of its two tables, each with
  2 as the second byte.\<close>

theorem IsItALPS_accepts:
  "IsItALPS byte0 byte1 byte2 \<longleftrightarrow>
     byte1 = 2 \<and> (byte0, byte2) \<in> {(0x33, 0xa), (0x53, 0xa), (0x53, 0x14), (0x63, 0xa), (0x63, 0x14),
       (0x63, 0x28), (0x63, 0x3c), (0x63, 0x50), (0x63, 0x64), (0x20, 0xe), (0x22, 0xa), (0x22, 0x14)}"
proof -
  have "IsItALPS byte0 byte1 byte2 \<longleftrightarrow> (byte0, byte1, byte2) \<in> set (alps_singles @ alps_duals)"
    unfolding IsItALPS_def matches_triple_iff Let_def by simp
  then show ?thesis
    by (cases "byte1 = 2") (simp_all add: alps_singles_def alps_duals_def)
qed

definition elantech_answered :: "PS2Request \<Rightarrow> bool" where
  "elantech_answered request \<longleftrightarrow> inOrOut (commands request ! 5) = 0x3c \<and>
     inOrOut (commands request ! 6) = 0x03 \<and> inOrOut (commands request ! 7) = 0xc8"

lemma elantech_probe_unfold:
  assumes "submitRequestAndBlock E (set_commands elantech_probe_commands zeroed_request)
      (snd (allocateRequest s)) = Some (request, s1)"
  shows "elantech_probe E True s =
    (if \<not> elantech_answered request then Some (Inr False, freeRequest s1)
     else do {
       (answer, s) \<leftarrow> elantech_getTouchPadData E kET_firmwareVersion s1;
       case answer of
         Inl e \<Rightarrow> Some (Inl e, s)
       | Inr version \<Rightarrow>
           (let s = elantech_update (\<lambda>p. p\<lparr>padVersion := ucast (drop_bit 8 version)\<rparr>) s
            in Some (Inr False, freeRequest s))
     })"
  using assms by (simp add: elantech_probe_def elantech_answered_def allocateRequest_def)

lemma elantech_more: "ctl.more s' = ctl.more s \<Longrightarrow> elantech s' = elantech s"
  by (cases s; cases s') simp

lemma keeps_elantech:
  assumes "\<forall>a t b s s'. runInterruptAction E a t b s = Some s' \<longrightarrow> elantech s' = elantech s"
  shows "keeps_driver E (\<lambda>s. padDevice (elantech s) = 0)"
  unfolding keeps_driver_def using elantech_more assms by metis

text \<open>The Elantech probe never claims a device: it declines, or, exactly when the hardware
  answers with the Elantech identification, it goes through the driver's device pointer, which
  is still null, and no later statement of the probe is reached.\<close>

theorem elantech_probe_never_claims:
  assumes "padDevice (elantech s) = 0"
    and "\<forall>a t b s s'. runInterruptAction E a t b s = Some s' \<longrightarrow> elantech s' = elantech s"
    and "elantech_probe E True s = Some (r, s')"
  shows "\<exists>request s1. submitRequestAndBlock E (set_commands elantech_probe_commands zeroed_request)
      (snd (allocateRequest s)) = Some (request, s1) \<and>
    r = (if elantech_answered request then Inl NullDereference else Inr False)"
proof -
  obtain request s1 where run: "submitRequestAndBlock E (set_commands elantech_probe_commands zeroed_request)
      (snd (allocateRequest s)) = Some (request, s1)"
    using assms(3) by (auto simp: elantech_probe_def bind_Some_iff allocateRequest_def)
  have "padDevice (elantech s1) = 0"
    using submitRequestAndBlock_driver [OF run keeps_elantech [OF assms(2)]] assms(1)
    by (simp add: elantech_more [OF more_updates(7)])
  then have "r = (if elantech_answered request then Inl NullDereference else Inr False)"
    using assms(3) run by (simp add: elantech_probe_unfold elantech_getTouchPadData_def split: if_splits)
  then show ?thesis using run by blast
qed

definition fresh_pad :: pad where
  "fresh_pad = \<lparr>padDevice = 0, padInterruptHandlerInstalled = False,
     padPowerControlHandlerInstalled = False, padPacketBuffer = [0, 0, 0], padPacketByteCount = 0,
     padResolution = 0, padVersion = 0, padModeByte = 0, padEvents = []\<rparr>"

definition init_pads :: "'h \<Rightarrow> 'h pad_machine" where
  "init_pads h = machine.extend (init_machine h)
     (pad_machine.fields (alps_init fresh_pad) (elantech_init fresh_pad))"

lemma init_pads_simps [simp]:
  "alps (init_pads h) = alps_init fresh_pad" "elantech (init_pads h) = elantech_init fresh_pad"
  "hw (init_pads h) = h" "requestQueue (init_pads h) = []" "\<not> hardwareOffline (init_pads h)"
  by (simp_all add: init_pads_def machine.extend_def pad_machine.fields_def init_machine_def
      ctl.extend_def machine.fields_def init_controller_def)

text \<open>The probes' commands as conversations.\<close>

abbreviation (input) elantech_exchanges :: "exchange list" where
  "elantech_exchanges \<equiv> [Send kDP_SetMouseScaling1To1, Send kDP_SetMouseScaling1To1,
     Send kDP_SetMouseScaling1To1, Send kDP_GetMouseInformation, Receive, Receive, Receive,
     Send kDP_SetDefaultsAndDisable]"

lemma elantech_probe_exchanges:
  "elantech_probe_commands = map exchange_command (Send kDP_SetDefaultsAndDisable # elantech_exchanges)"
  by (simp add: elantech_probe_commands_def)

theorem elantech_probe_never_claims_witness:
  "\<exists>s'. elantech_probe scripted_env True
      (init_pads ([], False, [[0xFA], [0xFA], [0xFA], [0xFA], [0xFA, 0x3c, 0x03, 0xc8], [0xFA]])) =
    Some (Inl NullDereference, s')"
proof -
  let ?s = "init_pads ([], False, [[0xFA], [0xFA], [0xFA], [0xFA], [0xFA, 0x3c, 0x03, 0xc8], [0xFA]])"
  have dev: "padDevice (elantech ?s) = 0" by (simp add: elantech_init_def)
  have act: "\<forall>a t b s s'. runInterruptAction scripted_env a t b s = Some s' \<longrightarrow> elantech s' = elantech s"
    by (simp add: linked_env_def)
  have "converse scripted_react [[0xFA], [0xFA], [0xFA], [0xFA], [0xFA, 0x3c, 0x03, 0xc8], [0xFA]] []
      (Send kDP_SetDefaultsAndDisable # elantech_exchanges) =
    Some ([0xF5, 0xE6, 0xE6, 0xE6, 0xE9, 0x3c, 0x03, 0xc8, 0xF5], [], [])" by simp
  then have conv: "converse scripted_react (snd (snd (hw (snd (allocateRequest ?s))))) []
      (Send kDP_SetDefaultsAndDisable # elantech_exchanges) =
    Some ([0xF5, 0xE6, 0xE6, 0xE6, 0xE9, 0x3c, 0x03, 0xc8, 0xF5], [], [])"
    by (simp only: allocateRequest_def) simp
  obtain request s1 where run: "submitRequestAndBlock scripted_env
      (set_commands elantech_probe_commands zeroed_request) (snd (allocateRequest ?s)) = Some (request, s1)"
    and "\<And>i. i \<le> length elantech_exchanges \<Longrightarrow> inOrOut (commands request ! i) =
      [0xF5, 0xE6, 0xE6, 0xE6, 0xE9, 0x3c, 0x03, 0xc8, 0xF5] ! i"
    unfolding elantech_probe_exchanges
    by (rule submit_exchanges [OF linked_env_laws(1,2,4) _ _ _ conv, where r = zeroed_request])
      (simp_all only: allocateRequest_def snd_conv, simp_all)
  then have ans: "elantech_answered request" by (simp add: elantech_answered_def)
  have "elantech s1 = elantech ?s \<or> padDevice (elantech s1) = 0"
    using submitRequestAndBlock_driver [OF run keeps_elantech [OF act]] dev
    by (simp add: elantech_more [OF more_updates(7)])
  then have "padDevice (elantech s1) = 0" using dev by metis
  then have p: "elantech_probe scripted_env True ?s = Some (Inl NullDereference, s1)"
    using run ans by (simp add: elantech_probe_unfold elantech_getTouchPadData_def)
  from elantech_probe_never_claims [OF dev act p] p show ?thesis by blast
qed

section \<open>Selectors\<close>

text \<open>The arguments of the resolution commands of a list, as the touchpad puts them together.\<close>

fun decode_selector :: "(PS2CommandEnum \<times> u8) list \<Rightarrow> u8" where
  "decode_selector [] = 0"
| "decode_selector [_] = 0"
| "decode_selector (a # b # cs) =
     (if a = ack_command kDP_SetMouseResolution
      then push_bit (length cs) (snd b) OR decode_selector cs
      else decode_selector (b # cs))"

lemma two_bits_join:
  "push_bit 6 (drop_bit 6 b AND 3) OR (push_bit 4 (drop_bit 4 b AND 3) OR
     (push_bit 2 (drop_bit 2 b AND 3) OR (b AND 3))) = (b :: u8)"
proof (rule bit_word_eqI)
  fix n
  assume n: "n < LENGTH(8)"
  have three: "bit (3 :: u8) k \<longleftrightarrow> k < 2" for k
  proof -
    have "bit (mask 2 :: u8) k \<longleftrightarrow> k < 2" by (auto simp: bit_mask_iff)
    moreover have "(mask 2 :: u8) = 3" by (simp add: mask_eq_exp_minus_1)
    ultimately show ?thesis by metis
  qed
  from n have "n \<in> {0, 1, 2, 3, 4, 5, 6, 7}" by auto
  then show "bit (push_bit 6 (drop_bit 6 b AND 3) OR (push_bit 4 (drop_bit 4 b AND 3) OR
     (push_bit 2 (drop_bit 2 b AND 3) OR (b AND 3)))) n = bit b n"
    unfolding bit_or_iff bit_push_bit_iff bit_and_iff bit_drop_bit_eq three
    by (auto simp: numeral_2_eq_2 numeral_3_eq_3)
qed

text \<open>The four resolution commands of a request carry the selector byte in full: the touchpad,
  which joins their two-bit arguments, gets back the byte; and no argument exceeds 3, the
  largest resolution a mouse knows.\<close>

theorem selector_roundtrip:
  "decode_selector (selector_commands b) = b \<and>
   list_all (\<lambda>(c, x). x = kDP_SetMouseResolution \<or> x \<le> 3) (selector_commands b)"
proof
  have "kDP_SetMouseResolution \<noteq> (x AND 3 :: u8)" for x :: u8
  proof
    assume "kDP_SetMouseResolution = x AND 3"
    moreover have "x AND 3 \<le> 3" by (rule word_and_le1)
    ultimately show False by simp
  qed
  then show "decode_selector (selector_commands b) = b"
    using two_bits_join [of b] by (simp add: selector_commands_def push_bit_eq_mult)
  show "list_all (\<lambda>(c, x). x = kDP_SetMouseResolution \<or> x \<le> 3) (selector_commands b)"
    by (simp add: selector_commands_def word_and_le1)
qed

section \<open>Packets\<close>

text \<open>What a three-byte packet says, and which bytes are skipped between packets.\<close>

definition pad_packet_event :: "u8 list \<Rightarrow> pad_event" where
  "pad_packet_event q = PadPointer (word_of_int (uint (q ! 1) - (if bit (q ! 0) 4 then 256 else 0)))
     (word_of_int ((if bit (q ! 0) 5 then 256 else 0) - uint (q ! 2))) (packet_buttons False q)"

definition pad_packet :: "u8 list \<Rightarrow> bool" where
  "pad_packet q \<longleftrightarrow> length q = 3 \<and> bit (q ! 0) 3 \<and> q ! 0 \<noteq> kSC_Acknowledge"

definition between_packets :: "u8 \<Rightarrow> bool" where
  "between_packets b \<longleftrightarrow> b = kSC_Acknowledge \<or> \<not> bit b 3"

lemma alps_dispatch_event:
  "alps_dispatchRelativePointerEventWithPacket q p = pad_event (pad_packet_event q) p"
proof -
  have dy: "- relative_delta (bit (q ! 0) 5) (q ! 2) =
      word_of_int ((if bit (q ! 0) 5 then 256 else 0) - uint (q ! 2))"
    unfolding relative_delta_of_int by simp
  show ?thesis
    unfolding alps_dispatchRelativePointerEventWithPacket_def pad_packet_event_def Let_def
      any_bit_mask_bits dy relative_delta_of_int
    by (simp add: packet_buttons_def)
qed

lemma elantech_interrupt_eq: "elantech_interruptOccurred = alps_interruptOccurred"
proof (intro ext)
  fix data p
  have "elantech_dispatchRelativePointerEventWithPacket q p = alps_dispatchRelativePointerEventWithPacket q p"
    for q p
    by (simp only: elantech_dispatchRelativePointerEventWithPacket_def alps_dispatchRelativePointerEventWithPacket_def)
  then show "elantech_interruptOccurred data p = alps_interruptOccurred data p"
    by (simp only: elantech_interruptOccurred_def alps_interruptOccurred_def)
qed

definition pad_room :: "pad \<Rightarrow> bool" where
  "pad_room p \<longleftrightarrow> padPacketByteCount p < 3 \<and> 3 \<le> length (padPacketBuffer p)"

lemma pad_room_interrupt:
  assumes "pad_room p"
  shows "pad_room (alps_interruptOccurred data p)"
  using assms
  by (auto simp: pad_room_def alps_interruptOccurred_def alps_dispatch_event pad_event_def pad_store_def Let_def)

lemma skipped_bytes:
  assumes "padPacketByteCount p = 0" "\<forall>b \<in> set bs. between_packets b"
  shows "fold alps_interruptOccurred bs p = p"
  using assms(2)
proof (induction bs)
  case (Cons b bs)
  then have "alps_interruptOccurred b p = p"
    using assms(1) any_bit_mask_bits(6) [of b]
    by (auto simp: alps_interruptOccurred_def between_packets_def)
  then show ?case using Cons by simp
qed simp

lemma pad_one_packet:
  assumes "pad_room p" "padPacketByteCount p = 0" "pad_packet q"
  shows "fold alps_interruptOccurred q p =
    pad_event (pad_packet_event q) (p\<lparr>padPacketBuffer := q @ drop 3 (padPacketBuffer p)\<rparr>)"
proof -
  obtain a b c where q: "q = [a, b, c]"
    using assms(3) by (auto simp: pad_packet_def length_Suc_conv numeral_3_eq_3)
  obtain x y z r where buf: "padPacketBuffer p = x # y # z # r"
    using assms(1) by (auto simp: pad_room_def numeral_3_eq_3 Suc_le_length_iff)
  have a: "\<not> (a = kSC_Acknowledge \<or> \<not> any_bit a 0x08)"
    using assms(3) any_bit_mask_bits(6) [of a] q by (auto simp: pad_packet_def)
  have ev: "pad_packet_event (a # b # c # r) = pad_packet_event [a, b, c]"
    by (simp add: pad_packet_event_def packet_buttons_def)
  have "alps_interruptOccurred a p = p\<lparr>padPacketBuffer := a # y # z # r, padPacketByteCount := 1\<rparr>"
    using a assms(2) buf by (simp add: alps_interruptOccurred_def pad_store_def Let_def)
  moreover have "alps_interruptOccurred b (p\<lparr>padPacketBuffer := a # y # z # r, padPacketByteCount := 1\<rparr>) =
      p\<lparr>padPacketBuffer := a # b # z # r, padPacketByteCount := 2\<rparr>"
    by (simp add: alps_interruptOccurred_def pad_store_def Let_def)
  moreover have "alps_interruptOccurred c (p\<lparr>padPacketBuffer := a # b # z # r, padPacketByteCount := 2\<rparr>) =
      (pad_event (pad_packet_event (a # b # c # r)) (p\<lparr>padPacketBuffer := a # b # c # r, padPacketByteCount := 3\<rparr>))
        \<lparr>padPacketByteCount := 0\<rparr>"
    by (simp add: alps_interruptOccurred_def pad_store_def Let_def alps_dispatch_event numeral_2_eq_2 numeral_3_eq_3)
  moreover have "p\<lparr>padPacketByteCount := 0\<rparr> = p" using assms(2) by simp
  ultimately show ?thesis using q buf assms(2) by (simp add: ev pad_event_def numeral_3_eq_3)
qed

lemma pad_packets:
  assumes "pad_room p" "padPacketByteCount p = 0"
    and "\<forall>(gap, q) \<in> set gqs. (\<forall>b \<in> set gap. between_packets b) \<and> pad_packet q"
  shows "padPacketByteCount (fold alps_interruptOccurred (concat (map (\<lambda>(gap, q). gap @ q) gqs)) p) = 0 \<and>
    padEvents (fold alps_interruptOccurred (concat (map (\<lambda>(gap, q). gap @ q) gqs)) p) =
      padEvents p @ map (pad_packet_event \<circ> snd) gqs"
  using assms
proof (induction gqs arbitrary: p)
  case (Cons gq gqs)
  obtain gap q where gq: "gq = (gap, q)" by fastforce
  have skip: "fold alps_interruptOccurred gap p = p"
    using Cons.prems(2,3) gq by (intro skipped_bytes) simp_all
  have q: "pad_packet q" using Cons.prems(3) gq by simp
  let ?p = "pad_event (pad_packet_event q) (p\<lparr>padPacketBuffer := q @ drop 3 (padPacketBuffer p)\<rparr>)"
  have one: "fold alps_interruptOccurred q p = ?p" by (rule pad_one_packet [OF Cons.prems(1,2) q])
  have room: "pad_room ?p" "padPacketByteCount ?p = 0"
    using Cons.prems(1,2) q by (auto simp: pad_room_def pad_event_def pad_packet_def)
  have rest: "\<forall>(gap, q) \<in> set gqs. (\<forall>b \<in> set gap. between_packets b) \<and> pad_packet q"
    using Cons.prems(3) by simp
  have step: "fold alps_interruptOccurred (concat (map (\<lambda>(gap, q). gap @ q) (gq # gqs))) p =
      fold alps_interruptOccurred (concat (map (\<lambda>(gap, q). gap @ q) gqs)) ?p"
    using gq skip one by simp
  have ev: "padEvents ?p = padEvents p @ [pad_packet_event q]" by (simp add: pad_event_def)
  show ?case
    unfolding step using Cons.IH [OF room rest] unfolding ev gq by simp
qed simp

text \<open>The ALPS and Elantech drivers find the packets in their byte stream: whatever bytes that
  cannot start a packet (acknowledges, bytes without the synchronisation bit) come before or
  between packets, each complete packet is reported once, in order, with its 9-bit movements and
  its three buttons, and nothing else is reported.\<close>

theorem pad_resynchronises:
  assumes "pad_room p" "padPacketByteCount p = 0"
    and "\<forall>(gap, q) \<in> set gqs. (\<forall>b \<in> set gap. between_packets b) \<and> pad_packet q"
    and "interrupt = alps_interruptOccurred \<or> interrupt = elantech_interruptOccurred"
  shows "padEvents (fold interrupt (concat (map (\<lambda>(gap, q). gap @ q) gqs)) p) =
      padEvents p @ map (pad_packet_event \<circ> snd) gqs"
  using pad_packets [OF assms(1-3)] assms(4) elantech_interrupt_eq by auto

theorem pad_resynchronises_witness:
  "padEvents (fold elantech_interruptOccurred [0xFA, 0x03, 0x09, 5, 0, 0x01, 0x18, 0xFF, 2] fresh_pad) =
     [PadPointer 5 0 1, PadPointer (- 1) (- 2) 0]"
  using pad_resynchronises [of fresh_pad "[([0xFA, 0x03], [0x09, 5, 0]), ([0x01], [0x18, 0xFF, 2])]"
      elantech_interruptOccurred]
  by (simp add: pad_room_def fresh_pad_def between_packets_def pad_packet_def pad_packet_event_def
      packet_buttons_def bit_numeral_rec numeral_3_eq_3)

text \<open>The three-byte buffers of the two drivers are never overrun, whatever bytes arrive.\<close>

theorem pad_buffer_safe:
  assumes "pad_room p" "interrupt = alps_interruptOccurred \<or> interrupt = elantech_interruptOccurred"
  shows "padPacketByteCount (fold interrupt bs p) < length (padPacketBuffer (fold interrupt bs p))"
proof -
  have "pad_room (fold alps_interruptOccurred bs p)"
    using assms(1) by (induction bs arbitrary: p) (auto intro: pad_room_interrupt)
  then show ?thesis using assms(2) elantech_interrupt_eq by (auto simp: pad_room_def)
qed

theorem pad_buffer_safe_witness:
  "padPacketByteCount (fold alps_interruptOccurred [8, 8] fresh_pad) <
     length (padPacketBuffer (fold alps_interruptOccurred [8, 8] fresh_pad))"
  by (rule pad_buffer_safe) (simp_all add: pad_room_def fresh_pad_def)

end
