(* ===== verification/Ps2SynapticsGestures.thy ===== *)
theory Ps2SynapticsGestures
  imports Ps2SynapticsPad
begin

text \<open>
  The Synaptics touchpad driver, second part: what it does with a complete packet. The function
  \<open>dispatchRelativePointerEventWithAbsolutePacket\<close> is one definition per stage here (unpacking,
  scaling, counting the fingers, choosing the event, the change of event, sending), in the
  order of the code, over the touchpad's state and a record of the function's local variables.
\<close>

section \<open>The fields of an absolute packet\<close>

definition absolute_buttons :: "bool \<Rightarrow> u8 list \<Rightarrow> u8" where
  "absolute_buttons swapButtons packet =
     (if \<not> swapButtons then packet ! 0 AND 0x3
      else push_bit 1 (packet ! 0 AND 0x01) OR drop_bit 1 (packet ! 0 AND 0x02))"

definition absolute_x :: "u8 list \<Rightarrow> u32" where
  "absolute_x packet =
     ucast (packet ! 4) OR push_bit 8 (ucast (packet ! 1) AND 0x0F) OR
     push_bit 8 (ucast (packet ! 3) AND 0x10)"

definition absolute_y :: "u8 list \<Rightarrow> u32" where
  "absolute_y packet =
     ucast (packet ! 5) OR push_bit 4 (ucast (packet ! 1) AND 0xF0) OR
     push_bit 7 (ucast (packet ! 3) AND 0x20)"

definition absolute_w :: "bool \<Rightarrow> u8 list \<Rightarrow> u8" where
  "absolute_w wMode packet =
     (if wMode then drop_bit 2 (packet ! 3 AND 0x4) OR drop_bit 2 (packet ! 0 AND 0x30) OR
                    drop_bit 1 (packet ! 0 AND 0x4)
      else W_FINGER_MIN)"

section \<open>Movement\<close>

text \<open>\<open>ABS\<close> on \<open>SInt32\<close>: the least integer is its own absolute value.\<close>

definition ABS :: "u32 \<Rightarrow> u32" where
  "ABS d = (if sint d < 0 then - d else d)"

text \<open>
  One coordinate through the acceleration table. \<open>None\<close> is a read outside of the table, which
  the test against its size does not exclude: the absolute value of the least integer is
  negative.
\<close>

definition accelerate :: "u32 \<Rightarrow> u32 option" where
  "accelerate d =
     (if sint (ABS d) < 1867
      then (if sint (ABS d) < 0 then None
            else (let v = word_of_nat (accelerationTable ! unat (ABS d))
                  in Some (if ABS d = d then v else - v)))
      else Some d)"

text \<open>The speed the user chose: the pointer's, or twice the scroll speed while scrolling.\<close>

definition scale_speed :: "'f fpu \<Rightarrow> 'f touchpad \<Rightarrow> u32 \<Rightarrow> u32" where
  "scale_speed F t d =
     (if event t AND (SCROLLING OR VERTICAL_SCROLLING OR HORIZONTAL_SCROLLING) = 0
      then to_SInt32 F (fp_mul F (fp_int F (sint d)) (prefTrackSpeed t))
      else to_SInt32 F (fp_mul F (fp_int F (sint (2 * d))) (prefScrollSpeed t)))"

definition scale_movement :: "'f fpu \<Rightarrow> 'f touchpad \<Rightarrow> u32 \<Rightarrow> u32 \<Rightarrow> (u32 \<times> u32) option" where
  "scale_movement F t dx dy = do {
     let dy = to_SInt32 F (fp_div F (fp_int F (sint dy)) (scaleFactor t));
     dx \<leftarrow> accelerate (scale_speed F t dx);
     dy \<leftarrow> accelerate (scale_speed F t dy);
     Some (dx, dy)
   }"

section \<open>Counting the fingers\<close>

definition below :: "'f fpu \<Rightarrow> int \<Rightarrow> 'f \<Rightarrow> bool" where
  "below F n threshold \<longleftrightarrow> fp_less F (fp_int F n) threshold"

definition eased :: "'f fpu \<Rightarrow> 'f touchpad \<Rightarrow> 'f \<Rightarrow> 'f" where
  "eased F t threshold = fp_mul F threshold (fp_sub F (fp_int F 1) (prefHysteresis t))"

text \<open>A touchpad that reports the number of fingers in its W value.\<close>

definition reported_fingers :: "'f fpu \<Rightarrow> 'f touchpad \<Rightarrow> u8 \<Rightarrow> u8 \<Rightarrow> u8" where
  "reported_fingers F t z w =
     (if below F (uint z) (prefOneFingerThreshold t) then 0
      else if w = W_TWOFINGERS then 2
      else if w = W_THREEPLUS then 3
      else 1)"

text \<open>
  A touchpad whose W value is a width: the product of width and pressure against the
  thresholds, which are eased by the hysteresis for going to fewer fingers.
\<close>

definition weighed_fingers :: "'f fpu \<Rightarrow> 'f touchpad \<Rightarrow> u8 \<Rightarrow> u8 \<Rightarrow> u8 \<Rightarrow> u8" where
  "weighed_fingers F t buttons z w =
     (let zOne = (\<lambda>threshold. below F (uint z) threshold);
          wz = (\<lambda>threshold. below F (uint w * uint z) threshold);
          one = prefOneFingerThreshold t;
          two = prefTwoFingerThreshold t;
          three = prefThreeFingerThreshold t
      in if prevNumFingers t = 0 then
           (if zOne one then 0 else if wz two \<or> buttons \<noteq> 0 then 1 else if wz three then 2 else 3)
         else if prevNumFingers t = 1 then
           (if zOne (eased F t one) then 0
            else if wz two \<or> buttons \<noteq> 0 then 1 else if wz three then 2 else 3)
         else if prevNumFingers t = 2 then
           (if zOne (eased F t one) then 0
            else if wz (eased F t two) \<or> buttons \<noteq> 0 then 1 else if wz three then 2 else 3)
         else if prevNumFingers t = 3 then
           (if zOne (eased F t one) then 0
            else if wz (eased F t two) \<or> buttons \<noteq> 0 then 1
            else if w < 12 \<or> wz (eased F t three) then 2 else 3)
         else 4)"

text \<open>
  Without W mode the test of the pressure has no \<open>else\<close>, so there is always one finger. Then
  the gesture preference says what three fingers stand for.
\<close>

definition count_fingers :: "'f fpu \<Rightarrow> 'f touchpad \<Rightarrow> u8 \<Rightarrow> u8 \<Rightarrow> u8 \<Rightarrow> u8" where
  "count_fingers F t buttons z w =
     (let numFingers =
            (if W_MODE t \<and> CAP_MULTIFINGER t then reported_fingers F t z w
             else if W_MODE t then weighed_fingers F t buttons z w
             else (let numFingers = (if below F (uint z) (prefOneFingerThreshold t) then 0 else 4 :: u8);
                       numFingers = (1 :: u8)
                   in numFingers))
      in if numFingers = 3 then
           (if prefGestureMode t = GESTURE_MODE_NONE then 0
            else if prefGestureMode t = GESTURE_MODE_SCROLL then 2
            else numFingers)
         else numFingers)"

section \<open>The event\<close>

definition next_event :: "u32 \<Rightarrow> u8 \<Rightarrow> 'f touchpad \<Rightarrow> u8" where
  "next_event dt numFingers t =
     (if 20000 < dt \<or> numFingers = 0 then DEFAULT_EVENT
      else if any_bit (event t) (VERTICAL_SCROLLING OR HORIZONTAL_SCROLLING OR DRAGGING) then event t
      else if numFingers = 1 then MOVEMENT
      else if numFingers = 2
        then (if prefScrollMode t = SCROLL_MODE_TWO_FINGER then SCROLLING else MOVEMENT)
      else if numFingers = 3 then SWIPE
      else DEFAULT_EVENT)"

definition select_event :: "u32 \<Rightarrow> u8 \<Rightarrow> u8 \<Rightarrow> 'f touchpad \<Rightarrow> 'f touchpad" where
  "select_event dt numFingers prevEvent t =
     (let t = t\<lparr>event := next_event dt numFingers t\<rparr>
      in if prevEvent = SWIPE \<and> settleTime t \<noteq> 0 then t\<lparr>event := SWIPE\<rparr> else t)"

definition TAPPING :: "'f touchpad \<Rightarrow> bool" where
  "TAPPING t \<longleftrightarrow> streamdt t < ucast (prefClickDelay t) \<and> TAP_LENGTH_MIN < streamdt t \<and>
     sint (ABS (streamdx t)) \<le> 50 \<and> sint (ABS (streamdy t)) \<le> 50"

section \<open>A change of event\<close>

text \<open>The local variables the later stages read and write.\<close>

record stroke =
  skPrevEvent :: u8
  skFingers :: u8
  skButtons :: u8
  skX :: u32
  skY :: u32
  skDX :: u32
  skDY :: u32

definition edge_scrolling :: "'f fpu \<Rightarrow> stroke \<Rightarrow> 'f touchpad \<Rightarrow> 'f touchpad" where
  "edge_scrolling F k t =
     (if skPrevEvent k = DEFAULT_EVENT \<and> prefScrollMode t = SCROLL_MODE_EDGE \<and>
         fp_less F (fp_mul F (fp_int F ABSOLUTE_X_MAX) (fp_sub F (fp_int F 1) (prefScrollArea t)))
           (fp_int F (uint (skX k)))
      then t\<lparr>event := VERTICAL_SCROLLING\<rparr>
      else if skPrevEvent k = DEFAULT_EVENT \<and> prefScrollMode t = SCROLL_MODE_EDGE \<and> prefHorizScroll t \<and>
         fp_less F (fp_int F (uint (skY k)))
           (fp_mul F (fp_int F ABSOLUTE_Y_MIN)
             (fp_add F (fp_int F 1) (fp_div F (prefScrollArea t) (fp_int F 2))))
      then t\<lparr>event := HORIZONTAL_SCROLLING\<rparr>
      else t)"

definition hold_still :: "stroke \<Rightarrow> stroke" where
  "hold_still k = k\<lparr>skDX := 0, skDY := 0\<rparr>"

definition hold_unless_scrolling :: "'f touchpad \<Rightarrow> stroke \<Rightarrow> stroke" where
  "hold_unless_scrolling t k =
     (if skPrevEvent k \<noteq> SCROLLING \<or> event t \<noteq> SCROLLING \<or> settleTime t = 1 then hold_still k else k)"

definition new_stream :: "'f touchpad \<Rightarrow> stroke \<Rightarrow> 'f touchpad \<times> stroke" where
  "new_stream t k =
     (let t = t\<lparr>settleTime := 2, streamdx := 0, streamdy := 0\<rparr>;
          (t, k) = (if event t \<noteq> SCROLLING then (t\<lparr>prevDX := 0, prevDY := 0\<rparr>, hold_still k) else (t, k));
          t = t\<lparr>streamdt := 0\<rparr>;
          t = (if dragging t
               then (touch_event DragTimeoutCancelled t)\<lparr>dragging := False, event := DRAGGING\<rparr>
               else t)
      in (t, k))"

text \<open>\<open>dispatchSwipeEvent\<close>: the keys of "back" and "forward".\<close>

abbreviation (input) kIOHIDSwipeUp :: u32 where "kIOHIDSwipeUp \<equiv> 1"
abbreviation (input) kIOHIDSwipeDown :: u32 where "kIOHIDSwipeDown \<equiv> 2"
abbreviation (input) kIOHIDSwipeLeft :: u32 where "kIOHIDSwipeLeft \<equiv> 4"
abbreviation (input) kIOHIDSwipeRight :: u32 where "kIOHIDSwipeRight \<equiv> 8"

definition dispatchSwipeEvent :: "u32 \<Rightarrow> 'f touchpad \<Rightarrow> 'f touchpad" where
  "dispatchSwipeEvent swipeType t =
     (if swipeType = kIOHIDSwipeUp \<or> swipeType = kIOHIDSwipeDown then t
      else if swipeType = kIOHIDSwipeLeft then
        fold touch_event [TouchLog ''Swipe left'' [], TouchKey 0x37 True, TouchKey 0x21 True,
          TouchKey 0x37 False, TouchKey 0x21 False] t
      else if swipeType = kIOHIDSwipeRight then
        fold touch_event [TouchLog ''Swipe right'' [], TouchKey 0x37 True, TouchKey 0x1e True,
          TouchKey 0x37 False, TouchKey 0x1e False] t
      else t)"

text \<open>The end of a stream of packets, one definition per state it was in.\<close>

definition end_scrolling :: "'f touchpad \<Rightarrow> stroke \<Rightarrow> 'f touchpad \<times> stroke" where
  "end_scrolling t k =
     (let t = t\<lparr>settleTime := if skFingers k = 3 then 5 else 10, event := SCROLLING\<rparr>
      in if prefClicking t \<and> prefSecondaryClick t \<and> TAPPING t
         then (t\<lparr>event := MOVEMENT\<rparr>, k\<lparr>skButtons := 0x02\<rparr>)
         else (t, k))"

definition end_movement :: "'f touchpad \<Rightarrow> stroke \<Rightarrow> 'f touchpad \<times> stroke" where
  "end_movement t k =
     (let t = t\<lparr>settleTime := 5\<rparr>
      in if \<not> prefClicking t \<or> \<not> TAPPING t then (t, k)
         else if \<not> prefDragging t then (t, k\<lparr>skButtons := 0x01\<rparr>)
         else if dragLocked t then (t\<lparr>dragLocked := False\<rparr>, k)
         else (touch_event (DragTimeoutSet (prefClickDelay t)) (t\<lparr>tapped := True\<rparr>), k))"

definition end_dragging :: "'f touchpad \<Rightarrow> stroke \<Rightarrow> 'f touchpad \<times> stroke" where
  "end_dragging t k =
     (let t = t\<lparr>settleTime := 10\<rparr>
      in if TAPPING t then
           (let (t, k) =
              (if dragLocked t then (t\<lparr>dragLocked := False, event := DEFAULT_EVENT\<rparr>, k)
               else ((touch_event (TouchPointer 0 0 0) (touch_event (TouchPointer 0 0 1) t))
                       \<lparr>tapped := False, event := MOVEMENT\<rparr>, k\<lparr>skButtons := 0x01\<rparr>))
            in (t\<lparr>event := DEFAULT_EVENT\<rparr>, k))
         else
           ((touch_event (DragTimeoutSet (prefReleaseDelay t)) (t\<lparr>dragging := True\<rparr>))
              \<lparr>event := DEFAULT_EVENT\<rparr>, k))"

definition end_swipe :: "'f touchpad \<Rightarrow> stroke \<Rightarrow> 'f touchpad \<times> stroke" where
  "end_swipe t k =
     (let t = (if skFingers k = 0 then
                 (if 25 < sint (streamdx t) then dispatchSwipeEvent kIOHIDSwipeRight t
                  else if sint (streamdx t) < -25 then dispatchSwipeEvent kIOHIDSwipeLeft t
                  else t)\<lparr>event := DEFAULT_EVENT\<rparr>
               else if settleTime t = 0 then t\<lparr>settleTime := 15\<rparr> else t)
      in (t\<lparr>settleTime := 10\<rparr>, k))"

definition end_of_stream :: "'f touchpad \<Rightarrow> stroke \<Rightarrow> 'f touchpad \<times> stroke" where
  "end_of_stream t k =
     (if skPrevEvent k = SCROLLING then end_scrolling t k
      else if skPrevEvent k = MOVEMENT then end_movement t k
      else if skPrevEvent k = DRAGGING then end_dragging t k
      else if skPrevEvent k = ZOOMING \<or> skPrevEvent k = SWIPE then end_swipe t k
      else if skPrevEvent k = HORIZONTAL_SCROLLING \<or> skPrevEvent k = VERTICAL_SCROLLING \<or>
              skPrevEvent k = DEFAULT_EVENT
        then (t\<lparr>settleTime := 10\<rparr>, k)
      else (t, k))"

definition event_changed :: "'f touchpad \<Rightarrow> stroke \<Rightarrow> 'f touchpad \<times> stroke" where
  "event_changed t k =
     (if settleTime t = 0 then
        (if skPrevEvent k = DEFAULT_EVENT then new_stream t k
         else if event t = DEFAULT_EVENT then end_of_stream t k
         else (if event t \<noteq> SCROLLING then t\<lparr>settleTime := 10\<rparr> else t, hold_still k))
      else (t\<lparr>settleTime := settleTime t - 1\<rparr>, k))"

definition begin_dragging :: "'f touchpad \<Rightarrow> 'f touchpad" where
  "begin_dragging t =
     (if event t = DRAGGING then t
      else if prefClicking t \<and> prefDragging t \<and> tapped t \<and> streamdt t < ucast (prefClickDelay t) \<and>
              event t = MOVEMENT
        then touch_event DragTimeoutCancelled
               (t\<lparr>event := DRAGGING, tapped := False, dragging := False,
                  dragLocked := prefDragLock t \<or> dragLocked t\<rparr>)
      else t)"

definition settle :: "'f fpu \<Rightarrow> 'f touchpad \<Rightarrow> stroke \<Rightarrow> 'f touchpad \<times> stroke" where
  "settle F t k =
     (if skPrevEvent k XOR event t \<noteq> 0 \<or> settleTime t \<noteq> 0 then
        (let t = edge_scrolling F k t;
             k = hold_unless_scrolling t k;
             (t, k) = event_changed t k
         in (begin_dragging t, k))
      else (t, k))"

section \<open>Sending\<close>

text \<open>Two-finger scrolling goes along one axis: the smaller component is dropped.\<close>

definition scroll_axis :: "bool \<Rightarrow> u32 \<Rightarrow> u32 \<Rightarrow> u32 \<times> u32" where
  "scroll_axis horizScroll dx dy =
     (if \<not> horizScroll then (0, dy)
      else if sint (ABS dx) < sint (push_bit 2 (ABS dy)) then (0, dy)
      else if sint (ABS dy) < sint (signed_drop_bit 2 (ABS dx)) then (dx, 0)
      else (dx, dy))"

definition send_movement :: "'f touchpad \<Rightarrow> stroke \<Rightarrow> 'f touchpad \<times> stroke" where
  "send_movement t k =
     (let k = k\<lparr>skButtons := skButtons k OR (if dragging t then 1 else 0), skDY := - skDY k\<rparr>
      in (touch_event (TouchPointer (skDX k) (skDY k) (skButtons k)) t, k))"

definition send_events :: "'f touchpad \<Rightarrow> stroke \<Rightarrow> 'f touchpad \<times> stroke" where
  "send_events t k =
     (if event t = HORIZONTAL_SCROLLING then
        (touch_event (TouchScroll 0 (ucast (- skDX k)) 0) t, k)
      else if event t = VERTICAL_SCROLLING then
        (touch_event (TouchScroll (ucast (skDY k)) 0 0) t, k)
      else if event t = SCROLLING then
        (let (dx, dy) = scroll_axis (prefHorizScroll t) (skDX k) (skDY k)
         in (touch_event (TouchScroll (ucast dy) (ucast (- dx)) 0) t, k\<lparr>skDX := dx, skDY := dy\<rparr>))
      else if event t = DRAGGING then
        (if skButtons k \<noteq> 0
         then send_movement (t\<lparr>event := MOVEMENT, tapped := False, dragging := False, dragLocked := False\<rparr>)
                (k\<lparr>skButtons := 0\<rparr>)
         else send_movement t (k\<lparr>skButtons := 0x01\<rparr>))
      else if event t = MOVEMENT then send_movement t k
      else
        (let k = k\<lparr>skButtons := skButtons k OR (if dragging t then 1 else 0)\<rparr>
         in (touch_event (TouchPointer 0 0 (skButtons k)) t, k)))"

section \<open>The handlers of the two kinds of packet\<close>

text \<open>
  \<open>now\<close> is what \<open>clock_get_system_microtime\<close> returns: seconds and microseconds. The time since
  the previous packet is computed in 32 bits.
\<close>

definition packet_interval :: "u32 \<times> u32 \<Rightarrow> 'f touchpad \<Rightarrow> u32" where
  "packet_interval now t =
     (fst now - prevPacketSecond t) * 1000000 + (snd now - prevPacketTime t)"

definition remember_packet :: "u32 \<times> u32 \<Rightarrow> stroke \<Rightarrow> 'f touchpad \<Rightarrow> 'f touchpad" where
  "remember_packet now k t =
     t\<lparr>prevX := skX k, prevY := skY k, prevDX := skDX k, prevDY := skDY k,
       prevNumFingers := skFingers k, prevPacketSecond := fst now, prevPacketTime := snd now\<rparr>"

definition dispatchAbsolutePacket ::
  "'f fpu \<Rightarrow> u32 \<times> u32 \<Rightarrow> u8 list \<Rightarrow> 'f touchpad \<Rightarrow> 'f touchpad option" where
  "dispatchAbsolutePacket F now packet t = do {
     let prevEvent = event t;
     let dt = packet_interval now t;
     let t = t\<lparr>streamdt := streamdt t + ucast dt\<rparr>;
     let buttons = absolute_buttons (prefSwapButtons t) packet;
     let pressureZ = packet ! 2;
     let absX = absolute_x packet;
     let absY = absolute_y packet;
     let Wvalue = absolute_w (W_MODE t) packet;
     (dx, dy) \<leftarrow> scale_movement F t (absX - prevX t) (absY - prevY t);
     let t = t\<lparr>streamdx := streamdx t + dx, streamdy := streamdy t + dy\<rparr>;
     let numFingers = count_fingers F t buttons pressureZ Wvalue;
     let t = select_event dt numFingers prevEvent t;
     let k = \<lparr>skPrevEvent = prevEvent, skFingers = numFingers, skButtons = buttons, skX = absX,
              skY = absY, skDX = dx, skDY = dy\<rparr>;
     let (t, k) = settle F t k;
     let (t, k) = send_events t k;
     Some (remember_packet now k t)
   }"

definition relative_buttons :: "u8 list \<Rightarrow> 'f touchpad \<Rightarrow> u8 \<times> 'f touchpad" where
  "relative_buttons packet t =
     (let buttons = packet ! 0 AND 0x7
      in if buttons AND 0x3 = 0x03 then (0, t\<lparr>event := MOVEMENT, prevButtons := 0x4\<rparr>)
         else if prevButtons t AND 0x4 = 0x4
           then (0, if buttons = 0 then t\<lparr>prevButtons := 0\<rparr> else t)
         else (buttons, t\<lparr>prevButtons := buttons\<rparr>))"

text \<open>A scroll of \<open>d * -.2\<close>.\<close>

definition relative_scroll :: "'f fpu \<Rightarrow> u32 \<Rightarrow> 16 word" where
  "relative_scroll F d = word_of_int (fp_trunc F (fp_mul F (fp_int F (sint d)) (fp_dec F (- 2) 1)))"

definition dispatchRelativePacket ::
  "'f fpu \<Rightarrow> u32 \<times> u32 \<Rightarrow> u8 list \<Rightarrow> 'f touchpad \<Rightarrow> 'f touchpad" where
  "dispatchRelativePacket F now packet t =
     (let (buttons, t) = relative_buttons packet t;
          dx = relative_delta (any_bit (packet ! 0) 0x10) (packet ! 1);
          dy = - relative_delta (any_bit (packet ! 0) 0x20) (packet ! 2);
          t = (if event t = SCROLLING
               then touch_event (TouchScroll (relative_scroll F dy) (relative_scroll F dx) 0) t
               else touch_event (TouchPointer dx dy buttons) t)
      in t\<lparr>prevPacketSecond := fst now, prevPacketTime := snd now\<rparr>)"

text \<open>The timer: the second tap did not come, so the first one was a click.\<close>

definition draggingTimeout :: "'f touchpad \<Rightarrow> 'f touchpad" where
  "draggingTimeout t =
     fold touch_event [DragTimeoutCancelled, TouchPointer 0 0 1, TouchPointer 0 0 0]
       (t\<lparr>dragLocked := False, tapped := False, dragging := False, event := MOVEMENT\<rparr>)"

end
