(* ===== verification/Ps2Synaptics.thy ===== *)
theory Ps2Synaptics
  imports Ps2SynapticsGestures
begin

text \<open>
  The Synaptics touchpad driver, third part: its questions to the device, the probe, the
  identification of the hardware at start, the interrupt routine, power and preferences.
\<close>

section \<open>The machine with the touchpad's state\<close>

record ('h, 'f) synaptics_machine = "'h pad_machine" +
  synaptics :: "'f touchpad"

type_synonym ('h, 'f, 'z) synaptics_env = "('h, ('f, 'z) synaptics_machine_ext) pad_env"

definition syn_event :: "touchpad_event \<Rightarrow> ('h, 'f, 'z) synaptics_machine_scheme
    \<Rightarrow> ('h, 'f, 'z) synaptics_machine_scheme" where
  "syn_event e s = synaptics_update (touch_event e) s"

definition syn_log :: "string \<Rightarrow> log_argument list \<Rightarrow> ('h, 'f, 'z) synaptics_machine_scheme
    \<Rightarrow> ('h, 'f, 'z) synaptics_machine_scheme" where
  "syn_log format args s = syn_event (TouchLog format args) s"

section \<open>Commands\<close>

definition synaptics_setTouchPadEnable ::
  "('h, 'z) env \<Rightarrow> bool \<Rightarrow> ('h, 'z) ctl_scheme \<Rightarrow> ('h, 'z) ctl_scheme option" where
  "synaptics_setTouchPadEnable E enable s = do {
     (_, s) \<leftarrow> blocking_request E [ack_command (if enable then kDP_Enable else kDP_SetDefaultsAndDisable)] s;
     Some s
   }"

definition synaptics_getTouchPadData ::
  "('h, 'z) env \<Rightarrow> u8 \<Rightarrow> ('h, 'z) ctl_scheme \<Rightarrow> (u32 \<times> ('h, 'z) ctl_scheme) option" where
  "synaptics_getTouchPadData E dataSelector s = do {
     (request, s) \<leftarrow> blocking_request E (touchpad_data_commands dataSelector) s;
     Some (if commandsCount request = 13 then answer_word request else 0xFFFFFFFF, s)
   }"

definition mode_byte_commands :: "u8 \<Rightarrow> bool \<Rightarrow> (PS2CommandEnum \<times> u8) list" where
  "mode_byte_commands modeByteValue enableStreamMode =
     ack_command kDP_SetDefaultsAndDisable # selector_commands modeByteValue @
     [ack_command kDP_SetMouseSampleRate, ack_command 20,
      ack_command (if enableStreamMode then kDP_Enable else kDP_SetMouseScaling1To1)]"

definition synaptics_setTouchPadModeByte ::
  "('h, 'z) env \<Rightarrow> u8 \<Rightarrow> bool \<Rightarrow> ('h, 'z) ctl_scheme \<Rightarrow> (bool \<times> ('h, 'z) ctl_scheme) option" where
  "synaptics_setTouchPadModeByte E modeByteValue enableStreamMode s = do {
     (request, s) \<leftarrow> blocking_request E (mode_byte_commands modeByteValue enableStreamMode) s;
     Some (commandsCount request = 12, s)
   }"

definition synaptics_setCommandByte ::
  "('h, 'z) env \<Rightarrow> u8 \<Rightarrow> u8 \<Rightarrow> ('h, 'z) ctl_scheme \<Rightarrow> ('h, 'z) ctl_scheme option" where
  "synaptics_setCommandByte E setBits clearBits s = do {
     let (request, s) = allocateRequest s;
     (request, s) \<leftarrow> setCommandByte_loop E setBits clearBits request s;
     Some (freeRequest s)
   }"

definition setStreamMode :: "('h, 'z) env \<Rightarrow> bool \<Rightarrow> ('h, 'z) ctl_scheme \<Rightarrow> (bool \<times> ('h, 'z) ctl_scheme) option" where
  "setStreamMode E enable s = do {
     (request, s) \<leftarrow> blocking_request E [ack_command kDP_SetMouseStreamMode] s;
     Some (commandsCount request = 1, s)
   }"

definition setRelativeMode ::
  "('h, 'f, 'z) synaptics_env \<Rightarrow> ('h, 'f, 'z) synaptics_machine_scheme
     \<Rightarrow> (bool \<times> ('h, 'f, 'z) synaptics_machine_scheme) option" where
  "setRelativeMode E s =
     (if tpModeByte (synaptics s) AND ABSOLUTE_MODE_BIT \<noteq> 0 then do {
        let s = synaptics_update (\<lambda>t. t\<lparr>tpModeByte := tpModeByte t AND NOT ABSOLUTE_MODE_BIT\<rparr>) s;
        (_, s) \<leftarrow> synaptics_setTouchPadModeByte E (tpModeByte (synaptics s)) True s;
        Some (True, s)
      }
      else Some (True, s))"

definition setAbsoluteMode ::
  "('h, 'f, 'z) synaptics_env \<Rightarrow> ('h, 'f, 'z) synaptics_machine_scheme
     \<Rightarrow> (bool \<times> ('h, 'f, 'z) synaptics_machine_scheme) option" where
  "setAbsoluteMode E s =
     (if tpModeByte (synaptics s) AND ABSOLUTE_MODE_BIT = 0 then do {
        let s = synaptics_update (\<lambda>t. t\<lparr>tpModeByte := tpModeByte t OR ABSOLUTE_MODE_BIT\<rparr>) s;
        (_, s) \<leftarrow> synaptics_setTouchPadModeByte E (tpModeByte (synaptics s)) True s;
        Some (True, s)
      }
      else Some (True, s))"

section \<open>Questions\<close>

abbreviation (input) kST_IdentifyTouchpad :: u8 where "kST_IdentifyTouchpad \<equiv> 0x00"
abbreviation (input) kST_getCapabilities :: u8 where "kST_getCapabilities \<equiv> 0x02"
abbreviation (input) kST_getModelID :: u8 where "kST_getModelID \<equiv> 0x03"
abbreviation (input) kST_getSerialNumberPrefix :: u8 where "kST_getSerialNumberPrefix \<equiv> 0x06"
abbreviation (input) kST_getSerialNumberSuffix :: u8 where "kST_getSerialNumberSuffix \<equiv> 0x07"
abbreviation (input) kST_getExtendedModelID :: u8 where "kST_getExtendedModelID \<equiv> 0x09"

definition getModelID ::
  "('h, 'f, 'z) synaptics_env \<Rightarrow> ('h, 'f, 'z) synaptics_machine_scheme
     \<Rightarrow> (bool \<times> ('h, 'f, 'z) synaptics_machine_scheme) option" where
  "getModelID E s = do {
     (answer, s) \<leftarrow> synaptics_getTouchPadData E kST_getModelID s;
     let s = synaptics_update (\<lambda>t. t\<lparr>modelId := answer\<rparr>) s;
     Some (modelId (synaptics s) \<noteq> 0, s)
   }"

text \<open>The test is \<open>capabilities & (0x00FF00 == 0x004700)\<close> to the compiler.\<close>

definition getCapabilities ::
  "('h, 'f, 'z) synaptics_env \<Rightarrow> ('h, 'f, 'z) synaptics_machine_scheme
     \<Rightarrow> (bool \<times> ('h, 'f, 'z) synaptics_machine_scheme) option" where
  "getCapabilities E s = do {
     (answer, s) \<leftarrow> synaptics_getTouchPadData E kST_getCapabilities s;
     let success = any_bit answer (if (0x00FF00 :: u32) = 0x004700 then 1 else 0);
     let s = synaptics_update (\<lambda>t. t\<lparr>capabilities :=
               ucast (drop_bit 8 (answer AND 0xFF0000) OR (answer AND 0x0000FF))\<rparr>) s;
     Some (success, s)
   }"

definition getExtendedCapabilities ::
  "('h, 'f, 'z) synaptics_env \<Rightarrow> ('h, 'f, 'z) synaptics_machine_scheme
     \<Rightarrow> (bool \<times> ('h, 'f, 'z) synaptics_machine_scheme) option" where
  "getExtendedCapabilities E s =
     (if CAP_N_EXTENDED_QUERY (synaptics s) \<noteq> 0 then do {
        (answer, s) \<leftarrow> synaptics_getTouchPadData E kST_getExtendedModelID s;
        Some (True, synaptics_update (\<lambda>t. t\<lparr>extendedCapabilities := answer\<rparr>) s)
      }
      else Some (False, synaptics_update (\<lambda>t. t\<lparr>extendedCapabilities := 0\<rparr>) s))"

definition identifyTouchpad ::
  "('h, 'f, 'z) synaptics_env \<Rightarrow> ('h, 'f, 'z) synaptics_machine_scheme
     \<Rightarrow> (bool \<times> ('h, 'f, 'z) synaptics_machine_scheme) option" where
  "identifyTouchpad E s = do {
     (answer, s) \<leftarrow> synaptics_getTouchPadData E kST_IdentifyTouchpad s;
     Some (True, synaptics_update (\<lambda>t. t\<lparr>touchpadInformation := answer\<rparr>) s)
   }"

text \<open>The two parts of the serial number are joined in 32 bits, and then widened.\<close>

definition serial_number :: "u32 \<Rightarrow> u32 \<Rightarrow> u64" where
  "serial_number prefix suffix = ucast (suffix OR push_bit 24 (prefix AND 0xFFF))"

definition getSerialNumber ::
  "('h, 'f, 'z) synaptics_env \<Rightarrow> ('h, 'f, 'z) synaptics_machine_scheme
     \<Rightarrow> (bool \<times> ('h, 'f, 'z) synaptics_machine_scheme) option" where
  "getSerialNumber E s = do {
     (prefix, s) \<leftarrow> synaptics_getTouchPadData E kST_getSerialNumberPrefix s;
     (suffix, s) \<leftarrow> synaptics_getTouchPadData E kST_getSerialNumberSuffix s;
     let s = synaptics_update (\<lambda>t. t\<lparr>serialNumber := serial_number prefix suffix\<rparr>) s;
     Some (True, syn_event (TouchProperty ''Serial Number'' (serialNumber (synaptics s)) 8) s)
   }"

section \<open>Probe\<close>

definition synaptics_probe_commands :: "(PS2CommandEnum \<times> u8) list" where
  "synaptics_probe_commands =
     ack_command kDP_SetDefaultsAndDisable # selector_commands kST_IdentifyTouchpad @
     ack_command kDP_GetMouseInformation # read_three @ [ack_command kDP_SetDefaultsAndDisable]"

definition information_word :: "PS2Request \<Rightarrow> u32" where
  "information_word request =
     ucast (inOrOut (commands request ! 10)) OR
     push_bit 8 (ucast (inOrOut (commands request ! 11))) OR
     push_bit 16 (ucast (inOrOut (commands request ! 12)))"

definition synaptics_probe ::
  "('h, 'f, 'z) synaptics_env \<Rightarrow> bool \<Rightarrow> ('h, 'f, 'z) synaptics_machine_scheme
     \<Rightarrow> (bool \<times> ('h, 'f, 'z) synaptics_machine_scheme) option" where
  "synaptics_probe E superProbe s = do {
     let (request, s) = allocateRequest s;
     if \<not> superProbe then Some (False, s)
     else do {
       (request, s) \<leftarrow> submitRequestAndBlock E (set_commands synaptics_probe_commands request) s;
       let s = synaptics_update (\<lambda>t. t\<lparr>touchpadInformation := information_word request\<rparr>) s;
       let (success, s) =
         (if commandsCount request = 14 \<and> inOrOut (commands request ! 11) = 0x47
          then (let s = synaptics_update (\<lambda>t. t\<lparr>tpVersion :=
                      version_word (inOrOut (commands request ! 12)) (inOrOut (commands request ! 10))\<rparr>) s
                in (0x400 \<le> tpVersion (synaptics s), s))
          else (False, s));
       Some (success, freeRequest s)
     }
   }"

section \<open>Power\<close>

definition synaptics_setDevicePowerState ::
  "('h, 'f, 'z) synaptics_env \<Rightarrow> u32 \<Rightarrow> ('h, 'f, 'z) synaptics_machine_scheme
     \<Rightarrow> ('h, 'f, 'z) synaptics_machine_scheme option" where
  "synaptics_setDevicePowerState E whatToDo s =
     (if whatToDo = kPS2C_DisableDevice then synaptics_setTouchPadEnable E False s
      else if whatToDo = kPS2C_EnableDevice then do {
        (_, s) \<leftarrow> synaptics_setTouchPadModeByte E (tpModeByte (synaptics s)) False s;
        s \<leftarrow> synaptics_setCommandByte E kCB_EnableMouseIRQ kCB_DisableMouseClock s;
        let s = synaptics_update (\<lambda>t. t\<lparr>tpPacketByteCount := 0, streamdx := 0, streamdy := 0,
                  settleTime := 0, tapped := False, dragLocked := False\<rparr>) s;
        synaptics_setTouchPadEnable E True s
      }
      else Some s)"

section \<open>Interrupts\<close>

text \<open>
  What the routine reads besides its own state: the low word of the uptime, the system time,
  and the keyboard driver's repeating key and time of its last event.
\<close>

record packet_clock =
  uptimeLow :: u32
  systemTime :: "u32 \<times> u32"
  codeToRepeat :: u32
  lastEventTime :: u32

definition ignore_packet :: "packet_clock \<Rightarrow> 'f touchpad \<Rightarrow> bool" where
  "ignore_packet c t \<longleftrightarrow> prefIgnoreAccidental t \<and> codeToRepeat c \<noteq> - 1 \<and>
     (ucast (uptimeLow c - lastEventTime c) :: u64) < 16700000 * 30"

definition touch_store :: "u8 \<Rightarrow> 'f touchpad \<Rightarrow> 'f touchpad" where
  "touch_store data t = t\<lparr>tpPacketBuffer := (tpPacketBuffer t)[tpPacketByteCount t := data],
     tpPacketByteCount := tpPacketByteCount t + 1\<rparr>"

text \<open>The packet is complete: it is handled, unless a key is being typed.\<close>

definition take_byte :: "'f fpu \<Rightarrow> packet_clock \<Rightarrow> u8 \<Rightarrow> 'f touchpad \<Rightarrow> (kernel_error + 'f touchpad)" where
  "take_byte F c data t =
     (let t = touch_store data t
      in if \<not> ABSOLUTE_MODE t \<and> tpPacketByteCount t = RELATIVE_PACKET_SIZE then
           (let t = (if ignore_packet c t then t
                     else dispatchRelativePacket F (systemTime c) (tpPacketBuffer t) t)
            in Inr (t\<lparr>tpPacketByteCount := 0\<rparr>))
         else if ABSOLUTE_MODE t \<and> tpPacketByteCount t = ABSOLUTE_PACKET_SIZE then
           (if ignore_packet c t then Inr (t\<lparr>tpPacketByteCount := 0\<rparr>)
            else (case dispatchAbsolutePacket F (systemTime c) (tpPacketBuffer t) t of
                    None \<Rightarrow> Inl OutOfBoundsRead
                  | Some t \<Rightarrow> Inr (t\<lparr>tpPacketByteCount := 0\<rparr>)))
         else Inr t)"

text \<open>
  A byte with bit 3 at the start of an absolute packet means the device was reset, and the
  driver enables it again, with blocking requests, from here.
\<close>

definition synaptics_interruptOccurred ::
  "('h, 'f, 'z) synaptics_env \<Rightarrow> 'f fpu \<Rightarrow> packet_clock \<Rightarrow> u8 \<Rightarrow> ('h, 'f, 'z) synaptics_machine_scheme
     \<Rightarrow> ((kernel_error + unit) \<times> ('h, 'f, 'z) synaptics_machine_scheme) option" where
  "synaptics_interruptOccurred E F c data s =
     (let t = synaptics s
      in if tpPacketByteCount t = 0 \<and> data = kSC_Acknowledge then Some (Inr (), s)
         else if tpPacketByteCount t = 0 \<and> \<not> ABSOLUTE_MODE t \<and> \<not> any_bit data 0x08 then Some (Inr (), s)
         else if tpPacketByteCount t = 0 \<and> ABSOLUTE_MODE t \<and> any_bit data 0x08
           then map_option (Pair (Inr ())) (synaptics_setDevicePowerState E kPS2C_EnableDevice s)
         else (case take_byte F c data t of
                 Inl e \<Rightarrow> Some (Inl e, s)
               | Inr t \<Rightarrow> Some (Inr (), synaptics_update (\<lambda>_. t) s)))"

section \<open>Start, stop and free\<close>

text \<open>
  The computation of the scale is in double precision, but the product of an integer and a
  \<open>float\<close> in its denominator is rounded to single precision.
\<close>

definition sensor_index :: "'f touchpad \<Rightarrow> nat" where
  "sensor_index t = unat (INFO_SENSOR t AND 0x0f)"

definition sensor_scale :: "'f fpu \<Rightarrow> nat \<Rightarrow> 'f" where
  "sensor_scale F i =
     (let (resX, resY) = model_resolution ! i;
          (dimX, dimY) = model_dimensions ! i;
          dim = (\<lambda>tenths. fp_single F (fp_dec F tenths 1))
      in fp_div F (fp_mul F (fp_int F resY) (dim dimX))
           (fp_single F (fp_mul F (fp_int F resX) (dim dimY))))"

definition sensor_dpi :: "'f fpu \<Rightarrow> nat \<Rightarrow> u32" where
  "sensor_dpi F i = to_SInt32 F (fp_mul F (fp_int F (fst (model_resolution ! i))) (fp_dec F 254 1))"

definition set_geometry :: "'f fpu \<Rightarrow> 'f touchpad \<Rightarrow> 'f touchpad" where
  "set_geometry F t =
     (let t = t\<lparr>scaleFactor := sensor_scale F (sensor_index t)\<rparr>;
          t = t\<lparr>tpResolution := push_bit 16 (sensor_dpi F (sensor_index t))\<rparr>
      in t\<lparr>tpResolution := to_SInt32 F (fp_div F (fp_int F (sint (tpResolution t))) (scaleFactor t))\<rparr>)"

definition log_geometry :: "'f fpu \<Rightarrow> 'f touchpad \<Rightarrow> 'f touchpad" where
  "log_geometry F t = fold touch_event
     [TouchLog ''ApplePS2Trackpad: Detected toucpad controller \"%s\" (ModelID: 0x%X)''
        [LogText (model_names ! sensor_index t), LogNumber (modelId t)],
      TouchLog ''ApplePS2Trackpad: Initializing resolution to %d dpi''
        [LogNumber (sensor_dpi F (sensor_index t))],
      TouchLog ''ApplePS2Trackpad: Compensating for geometry, setting resolution to %d dpi''
        [LogNumber (signed_drop_bit 16 (tpResolution t))],
      TouchLog ''ApplePS2Trackpad: Capabilities 0x%X'' [LogNumber (ucast (capabilities t))]] t"

definition set_mode_bits :: "'f touchpad \<Rightarrow> 'f touchpad" where
  "set_mode_bits t =
     (let log = (\<lambda>text. touch_event (TouchLog text []))
      in if CAP_W_MODE t \<or> EXT_W_MODE t then
           (let t = t\<lparr>tpModeByte := tpModeByte t OR (W_MODE_BIT OR ABSOLUTE_MODE_BIT OR RATE_MODE_BIT)\<rparr>;
                t = log ''ApplePS2Trackpad: W Mode Supported :D'' t;
                t = (if any_bit (capabilities t) 0x0001
                     then log ''ApplePS2Trackpad: Palm detection Supported :D'' t else t);
                t = (if CAP_MULTIFINGER t
                     then log ''ApplePS2Trackpad: Multiple finger detection Supported :D'' t
                     else log ''ApplePS2Trackpad: Multiple finger detection NOT Supported :('' t);
                t = (if EXT_W_MODE t
                     then log ''ApplePS2Trackpad: Trackpad supports extended W mode'' t else t)
            in if any_bit (extendedCapabilities t) 0x200000
               then log ''ApplePS2Trackpad: Using peak detection method'' t else t)
         else
           (log ''ApplePS2Trackpad: W Mode not available, defaulting to Z mode :('' t)
             \<lparr>tpModeByte := tpModeByte t OR (ABSOLUTE_MODE_BIT OR RATE_MODE_BIT)\<rparr>)"

text \<open>
  What \<open>waitForService\<close> finds: no keyboard service, or one that is not an \<open>IOHIKeyboard\<close>, or one
  with or without a target for its events. The driver logs a missing keyboard and then uses it.
\<close>

datatype keyboard_service = NoKeyboard | OtherService | Keyboard bool

definition find_keyboard :: "keyboard_service \<Rightarrow> 'f touchpad \<Rightarrow> 'f touchpad" where
  "find_keyboard service t =
     (let log = (\<lambda>text. touch_event (TouchLog text []));
          t = (if service = NoKeyboard then log ''ApplePS2Trackpad: No keyboard interface'' t else t)
      in if service = NoKeyboard \<or> service = OtherService
         then log ''ApplePS2Trackpad: Failed to abstract IOHIKeyboard'' t
         else if service = Keyboard False
         then log ''ApplePS2Trackpad: IOHIKeyboard does not have any target!'' t
         else t)"

abbreviation (input) synapticsInterruptAction :: action where "synapticsInterruptAction \<equiv> 9"
abbreviation (input) synapticsPowerAction :: action where "synapticsPowerAction \<equiv> 10"

text \<open>The part of \<open>start\<close> after the keyboard was found.\<close>

definition synaptics_enable ::
  "('h, 'f, 'z) synaptics_env \<Rightarrow> obj \<Rightarrow> ('h, 'f, 'z) synaptics_machine_scheme
     \<Rightarrow> ('h, 'f, 'z) synaptics_machine_scheme option" where
  "synaptics_enable E self s = do {
     (_, s) \<leftarrow> synaptics_setTouchPadModeByte E (tpModeByte (synaptics s)) False s;
     let s = syn_event (TouchProperty ''Clicking''
               (ucast (drop_bit 2 (tpModeByte (synaptics s) AND GESTURES_MODE_BIT))) 8) s;
     let s = installInterruptAction kDT_Mouse self synapticsInterruptAction s;
     let s = synaptics_update (\<lambda>t. t\<lparr>tpInterruptHandlerInstalled := True\<rparr>) s;
     s \<leftarrow> synaptics_setCommandByte E kCB_EnableMouseIRQ kCB_DisableMouseClock s;
     s \<leftarrow> synaptics_setTouchPadEnable E True s;
     (_, s) \<leftarrow> setStreamMode E True s;
     let s = installPowerControlAction kDT_Mouse self synapticsPowerAction s;
     Some (synaptics_update (\<lambda>t. t\<lparr>tpPowerControlHandlerInstalled := True, dragTimeout := True\<rparr>) s)
   }"

definition synaptics_start ::
  "('h, 'f, 'z) synaptics_env \<Rightarrow> 'f fpu \<Rightarrow> bool \<Rightarrow> keyboard_service \<Rightarrow> obj \<Rightarrow> obj
     \<Rightarrow> ('h, 'f, 'z) synaptics_machine_scheme
     \<Rightarrow> ((kernel_error + bool) \<times> ('h, 'f, 'z) synaptics_machine_scheme) option" where
  "synaptics_start E F superStart service self provider s =
     (if \<not> superStart then Some (Inr False, s)
      else do {
        let s = retain provider (synaptics_update (\<lambda>t. t\<lparr>tpDevice := provider\<rparr>) s);
        let s = syn_log ''ApplePS2Trackpad: Synaptics TouchPad v%d.%d''
              [LogNumber (ucast (ucast (drop_bit 8 (tpVersion (synaptics s))) :: u8)),
               LogNumber (ucast (ucast (tpVersion (synaptics s)) :: u8))] s;
        let s = syn_event (TouchProperty ''TouchpadInfo'' (ucast (touchpadInformation (synaptics s))) 4) s;
        (_, s) \<leftarrow> getCapabilities E s;
        (_, s) \<leftarrow> getExtendedCapabilities E s;
        (_, s) \<leftarrow> getModelID E s;
        let s = synaptics_update (\<lambda>t. set_mode_bits (log_geometry F (set_geometry F t))) s;
        let s = syn_event (TouchProperty ''HIDScrollResolution'' (scast (tpResolution (synaptics s))) 32) s;
        let s = syn_event (TouchProperty ''HIDPointerResolution'' (scast (tpResolution (synaptics s))) 32) s;
        let s = synaptics_update (find_keyboard service) s;
        if service = NoKeyboard \<or> service = OtherService then Some (Inl NullDereference, s)
        else do {
          s \<leftarrow> synaptics_enable E self s;
          Some (Inr True, s)
        }
      })"

definition synaptics_stop ::
  "('h, 'f, 'z) synaptics_env \<Rightarrow> ('h, 'f, 'z) synaptics_machine_scheme
     \<Rightarrow> ('h, 'f, 'z) synaptics_machine_scheme option" where
  "synaptics_stop E s = do {
     s \<leftarrow> synaptics_setTouchPadEnable E False s;
     s \<leftarrow> synaptics_setCommandByte E kCB_DisableMouseClock kCB_EnableMouseIRQ s;
     let s = (if tpInterruptHandlerInstalled (synaptics s) then uninstallInterruptAction kDT_Mouse s else s);
     let s = synaptics_update (\<lambda>t. t\<lparr>tpInterruptHandlerInstalled := False\<rparr>) s;
     let s = (if tpPowerControlHandlerInstalled (synaptics s) then uninstallPowerControlAction kDT_Mouse s else s);
     Some (synaptics_update (\<lambda>t. t\<lparr>tpPowerControlHandlerInstalled := False\<rparr>) s)
   }"

definition synaptics_free ::
  "('h, 'f, 'z) synaptics_machine_scheme \<Rightarrow> ('h, 'f, 'z) synaptics_machine_scheme" where
  "synaptics_free s =
     (if tpDevice (synaptics s) \<noteq> 0
      then synaptics_update (\<lambda>t. t\<lparr>tpDevice := 0\<rparr>) (release (tpDevice (synaptics s)) s)
      else s)"

section \<open>Preferences\<close>

text \<open>The objects of the dictionary; a number is read through its low bits.\<close>

datatype os_object = OSNumber u64 | OSBoolean bool | OSOther

type_synonym os_dictionary = "string \<Rightarrow> os_object option"

definition number_pref :: "os_dictionary \<Rightarrow> string \<Rightarrow> (u64 \<Rightarrow> 'a \<Rightarrow> 'a) \<Rightarrow> 'a \<Rightarrow> 'a" where
  "number_pref dict key store t = (case dict key of Some (OSNumber n) \<Rightarrow> store n t | _ \<Rightarrow> t)"

definition boolean_pref :: "os_dictionary \<Rightarrow> string \<Rightarrow> (bool \<Rightarrow> 'a \<Rightarrow> 'a) \<Rightarrow> 'a \<Rightarrow> 'a" where
  "boolean_pref dict key store t = (case dict key of Some (OSBoolean b) \<Rightarrow> store b t | _ \<Rightarrow> t)"

text \<open>A threshold for a setting from 0 to 20, in 32 bits.\<close>

definition threshold_pref :: "u32 \<Rightarrow> u32 \<Rightarrow> u64 \<Rightarrow> u32" where
  "threshold_pref base step n = base + step * (10 - ucast n)"

definition speed_pref :: "'f fpu \<Rightarrow> int \<Rightarrow> u64 \<Rightarrow> 'f" where
  "speed_pref F tenths n =
     fp_add F (fp_dec F tenths 1) (fp_mul F (fp_dec F 2 1) (fp_int F (uint (ucast n :: u32))))"

definition synaptics_setParamProperties :: "'f fpu \<Rightarrow> os_dictionary \<Rightarrow> 'f touchpad \<Rightarrow> 'f touchpad" where
  "synaptics_setParamProperties F dict t =
     (let threshold = (\<lambda>base step n. fp_int F (uint (threshold_pref base step n)));
          t = number_pref dict ''kTPScrollMode'' (\<lambda>n t. t\<lparr>prefScrollMode := ucast n\<rparr>) t;
          t = boolean_pref dict ''kTPHorizScroll'' (\<lambda>b t. t\<lparr>prefHorizScroll := b\<rparr>) t;
          t = number_pref dict ''kTPScrollArea'' (\<lambda>n t. t\<lparr>prefScrollArea :=
                fp_mul F (fp_dec F 6 3) (fp_int F (uint (ucast n :: u32)))\<rparr>) t;
          t = number_pref dict ''kTPGestureMode'' (\<lambda>n t. t\<lparr>prefGestureMode := ucast n\<rparr>) t;
          t = boolean_pref dict ''kTPTapToClick'' (\<lambda>b t. t\<lparr>prefClicking := b\<rparr>) t;
          t = boolean_pref dict ''kTPDraggin'' (\<lambda>b t. t\<lparr>prefDragging := b\<rparr>) t;
          t = boolean_pref dict ''kTPDragLock'' (\<lambda>b t. t\<lparr>prefDragLock := b\<rparr>) t;
          t = boolean_pref dict ''kTPSecondaryClick'' (\<lambda>b t. t\<lparr>prefSecondaryClick := b\<rparr>) t;
          t = boolean_pref dict ''kTPSwapButtons'' (\<lambda>b t. t\<lparr>prefSwapButtons := b\<rparr>) t;
          t = number_pref dict ''kTPOneFingerThreshold'' (\<lambda>n t. t\<lparr>prefOneFingerThreshold := threshold 30 2 n\<rparr>) t;
          t = number_pref dict ''kTPTwoFingerThreshold'' (\<lambda>n t. t\<lparr>prefTwoFingerThreshold := threshold 215 20 n\<rparr>) t;
          t = number_pref dict ''kTPThreeFingerThreshold'' (\<lambda>n t. t\<lparr>prefThreeFingerThreshold := threshold 650 20 n\<rparr>) t;
          t = number_pref dict ''kTPScrollSpeed'' (\<lambda>n t. t\<lparr>prefScrollSpeed := speed_pref F 9 n\<rparr>) t;
          t = number_pref dict ''kTPTrackSpeed'' (\<lambda>n t. t\<lparr>prefTrackSpeed := speed_pref F 4 n\<rparr>) t;
          t = number_pref dict ''kTPClickDelay'' (\<lambda>n t. t\<lparr>prefClickDelay := ucast n\<rparr>) t;
          t = number_pref dict ''kTPReleaseDelay'' (\<lambda>n t. t\<lparr>prefReleaseDelay := ucast n\<rparr>) t
      in t\<lparr>dragLocked := False, dragging := False, tapped := False\<rparr>)"

end
