(* ===== verification/Ps2SynapticsFields.thy ===== *)
theory Ps2SynapticsFields
  imports Ps2Synaptics
begin

text \<open>
  Properties of the data the Synaptics driver works on: its acceleration table, and the layout of
  an absolute packet.
\<close>

section \<open>The acceleration table\<close>

text \<open>From index \<open>i\<close> on, the entries grow from \<open>lo\<close> and stay below their indices.\<close>

fun slows :: "nat \<Rightarrow> nat \<Rightarrow> nat list \<Rightarrow> bool" where
  "slows lo i [] \<longleftrightarrow> True"
| "slows lo i (x # xs) \<longleftrightarrow> lo \<le> x \<and> x \<le> i \<and> slows x (i + 1) xs"

fun slow_lines :: "nat \<Rightarrow> nat \<Rightarrow> nat list list \<Rightarrow> bool" where
  "slow_lines lo i [] \<longleftrightarrow> True"
| "slow_lines lo i (l # ls) \<longleftrightarrow> slows lo i l \<and> slow_lines (last (lo # l)) (i + length l) ls"

lemma slow_lines_cong: "lo = lo' \<Longrightarrow> i = i' \<Longrightarrow> slow_lines lo i ls = slow_lines lo' i' ls"
  by simp

lemma slows_nth: "slows lo i xs \<Longrightarrow> k < length xs \<Longrightarrow> lo \<le> xs ! k \<and> xs ! k \<le> i + k"
proof (induction lo i xs arbitrary: k rule: slows.induct)
  case (2 lo i x xs)
  then show ?case using "2.IH" [of "k - 1"] by (cases k) fastforce+
qed simp

lemma slows_sorted: "slows lo i xs \<Longrightarrow> sorted xs"
proof (induction lo i xs rule: slows.induct)
  case (2 lo i x xs)
  then show ?case by (auto simp: in_set_conv_nth dest: slows_nth)
qed simp

lemma slows_append: "slows lo i (xs @ ys) \<longleftrightarrow> slows lo i xs \<and> slows (last (lo # xs)) (i + length xs) ys"
  by (induction lo i xs rule: slows.induct) (auto simp: add.assoc)

lemma slow_lines_iff: "slow_lines lo i ls \<longleftrightarrow> slows lo i (concat ls)"
  by (induction lo i ls rule: slow_lines.induct) (simp_all add: slows_append)

text \<open>The rules that decide a comparison of numerals, for a large table.\<close>

lemmas numeral_table = last.simps list.size list.distinct if_False if_True numeral_plus_one
  numeral_plus_numeral one_add_one one_plus_numeral add_num_simps le_num_simps less_num_simps
  numeral_le_iff add_0 add_0_right simp_thms One_nat_def [symmetric] zero_le one_le_numeral
  zero_neq_one le_numeral_extra zero_le_numeral

lemma accelerationTable_slows: "slows 0 0 accelerationTable"
  unfolding accelerationTable_def slow_lines_iff [symmetric] acceleration_lines_def
  by (simp only: slow_lines.simps slows.simps numeral_table cong: slow_lines_cong)

lemma accelerationTable_length: "length accelerationTable = 1867"
  by (simp add: accelerationTable_def acceleration_lines_def)

lemmas accelerationTable_nth =
  slows_nth [OF accelerationTable_slows, unfolded accelerationTable_length add_0]

lemma accelerationTable_mono:
  "m \<le> n \<Longrightarrow> n < 1867 \<Longrightarrow> accelerationTable ! m \<le> accelerationTable ! n"
  using sorted_nth_mono [OF slows_sorted [OF accelerationTable_slows]] by (simp add: accelerationTable_length)

text \<open>The whole movement as a function on integers.\<close>

definition accelerated :: "nat \<Rightarrow> nat" where
  "accelerated n = (if n < 1867 then accelerationTable ! n else n)"

lemma accelerated_le: "accelerated n \<le> n"
  using accelerationTable_nth [of n] by (simp add: accelerated_def)

lemma accelerated_mono: "m \<le> n \<Longrightarrow> accelerated m \<le> accelerated n"
  using accelerationTable_mono [of m n] accelerated_le [of m] by (auto simp: accelerated_def)

lemma sint_ABS: "d \<noteq> 0x80000000 \<Longrightarrow> sint (ABS d) = \<bar>sint d\<bar>"
proof -
  assume d: "d \<noteq> 0x80000000"
  have "sint d \<noteq> - (2 ^ 31)"
  proof
    assume "sint d = - (2 ^ 31)"
    then have "(word_of_int (sint d) :: u32) = word_of_int (- (2 ^ 31))" by (rule arg_cong)
    then show False using d by simp
  qed
  then show ?thesis
    using sint_greater_eq [of d] sint_less [of d]
    by (auto simp: ABS_def sint_word_ariths signed_take_bit_int_eq_self)
qed

lemma sint_small:
  assumes "n < 2 ^ 31"
  shows "sint (word_of_nat n :: u32) = int n" "sint (- word_of_nat n :: u32) = - int n"
proof -
  have "int n < 2147483648" using assms by simp
  then show "sint (word_of_nat n :: u32) = int n"
    using assms by (simp add: sint_uint unsigned_of_nat take_bit_nat_eq_self signed_take_bit_int_eq_self)
  then show "sint (- word_of_nat n :: u32) = - int n"
    using assms by (simp add: sint_word_ariths signed_take_bit_int_eq_self)
qed

lemma unat_sint: "0 \<le> sint (w :: u32) \<Longrightarrow> unat w = nat (sint w)"
  using sint_less [of w] by (simp add: unat_eq_nat_uint uint_sint take_bit_int_eq_self)

lemma accelerate_eq:
  assumes "d \<noteq> 0x80000000"
  obtains v where "accelerate d = Some v"
    "sint v = (if sint d < 0 then - int (accelerated (nat \<bar>sint d\<bar>)) else int (accelerated (nat \<bar>sint d\<bar>)))"
proof -
  note abs = sint_ABS [OF assms]
  have n: "unat (ABS d) = nat \<bar>sint d\<bar>" using abs by (simp add: unat_sint)
  have same: "ABS d = d \<longleftrightarrow> 0 \<le> sint d"
    using abs by (cases "sint d < 0") (metis abs_ge_zero not_less, simp add: ABS_def)
  show ?thesis
  proof (cases "\<bar>sint d\<bar> < 1867")
    case True
    then have "nat \<bar>sint d\<bar> < 1867" by simp
    with accelerationTable_nth [OF this] have "accelerationTable ! nat \<bar>sint d\<bar> < 2 ^ 31" by simp
    from sint_small [OF this] show ?thesis
      using True abs by (intro that [of "if 0 \<le> sint d then word_of_nat (accelerationTable ! nat \<bar>sint d\<bar>)
            else - word_of_nat (accelerationTable ! nat \<bar>sint d\<bar>)"])
        (auto simp: accelerate_def n same accelerated_def Let_def)
  next
    case False
    then show ?thesis using abs by (intro that [of d]) (auto simp: accelerate_def accelerated_def)
  qed
qed

lemma accelerate_None: "accelerate d = None \<longleftrightarrow> d = 0x80000000"
proof
  assume "accelerate d = None"
  then show "d = 0x80000000" using accelerate_eq [of d] by fastforce
qed (simp add: accelerate_def ABS_def)

text \<open>The acceleration keeps the order of movements, so a faster finger never makes a slower
  pointer, and never lengthens one; it is the table, whose 1867 entries are checked one by one.\<close>

theorem accelerate_monotone:
  assumes "accelerate d = Some v" "accelerate d' = Some v'" "sint d \<le> sint d'"
  shows "\<bar>sint v\<bar> \<le> \<bar>sint d\<bar> \<and> sint v \<le> sint v'"
proof -
  have "d \<noteq> 0x80000000" "d' \<noteq> 0x80000000" using assms accelerate_None by (metis option.distinct(1))+
  then have v: "sint v = (if sint d < 0 then - int (accelerated (nat \<bar>sint d\<bar>)) else int (accelerated (nat \<bar>sint d\<bar>)))"
    "sint v' = (if sint d' < 0 then - int (accelerated (nat \<bar>sint d'\<bar>)) else int (accelerated (nat \<bar>sint d'\<bar>)))"
    using assms accelerate_eq by (metis option.inject)+
  have "\<bar>sint v\<bar> \<le> \<bar>sint d\<bar>" using v(1) accelerated_le [of "nat \<bar>sint d\<bar>"] by auto
  moreover have "sint v \<le> sint v'"
    using assms(3) v accelerated_mono [of "nat \<bar>sint d\<bar>" "nat \<bar>sint d'\<bar>"]
      accelerated_mono [of "nat \<bar>sint d'\<bar>" "nat \<bar>sint d\<bar>"] by (auto split: if_splits)
  ultimately show ?thesis ..
qed

lemma accelerate_zero: "accelerate 0 = Some 0"
  using accelerationTable_nth [of 0] by (simp add: accelerate_def ABS_def)

theorem accelerate_monotone_witness:
  "accelerate 0 = Some 0 \<and> accelerate 0x2000 = Some 0x2000 \<and>
   \<bar>sint (0 :: u32)\<bar> \<le> \<bar>sint (0 :: u32)\<bar> \<and> sint (0 :: u32) \<le> sint (0x2000 :: u32)"
proof -
  have "accelerate 0x2000 = Some 0x2000" by (simp add: accelerate_def ABS_def)
  with accelerate_zero show ?thesis using accelerate_monotone [of 0 0 "0x2000" "0x2000"] by simp
qed

section \<open>The absolute packet\<close>

text \<open>The packet as the comment of the handler lays it out.\<close>

definition absolute_packet :: "u8 \<Rightarrow> u8 \<Rightarrow> u32 \<Rightarrow> u32 \<Rightarrow> u8 \<Rightarrow> u8 list" where
  "absolute_packet buttons w x y z =
     [0x80 OR push_bit 2 (w AND 0xC) OR push_bit 1 (w AND 0x2) OR (buttons AND 0x3),
      push_bit 4 (ucast (drop_bit 8 y)) OR (ucast (drop_bit 8 x) AND 0xF),
      z,
      0xC0 OR push_bit 5 (ucast (drop_bit 12 y) AND 0x1) OR push_bit 4 (ucast (drop_bit 12 x) AND 0x1) OR
        push_bit 2 (w AND 0x1),
      ucast x, ucast y]"

lemma high_bits_clear:
  fixes w :: "'a::len word"
  assumes "w < 2 ^ k" "k < LENGTH('a)" "k \<le> n"
  shows "\<not> bit w n"
proof -
  have "take_bit k w = w" using assms(1,2) by (simp add: take_bit_eq_mod mod_word_less)
  then show ?thesis using assms(3) by (metis bit_take_bit_iff not_le)
qed

text \<open>The bits of the masks.\<close>

lemma bits_of_masks:
  "bit (0x0F :: u32) k \<longleftrightarrow> k < 4" "bit (0x10 :: u32) k \<longleftrightarrow> k = 4"
  "bit (0xF0 :: u32) k \<longleftrightarrow> 4 \<le> k \<and> k < 8" "bit (0x20 :: u32) k \<longleftrightarrow> k = 5"
  "bit (0x0F :: u8) k \<longleftrightarrow> k < 4" "bit (0x80 :: u8) k \<longleftrightarrow> k = 7"
  "bit (0xC0 :: u8) k \<longleftrightarrow> k = 6 \<or> k = 7" "bit (0x0C :: u8) k \<longleftrightarrow> k = 2 \<or> k = 3"
  "bit (0x02 :: u8) k \<longleftrightarrow> k = 1" "bit (0x03 :: u8) k \<longleftrightarrow> k < 2" "bit (0x04 :: u8) k \<longleftrightarrow> k = 2"
  "bit (0x30 :: u8) k \<longleftrightarrow> k = 4 \<or> k = 5"
proof -
  have r: "(0x0F :: u32) = mask 4" "(0x10 :: u32) = push_bit 4 1" "(0xF0 :: u32) = push_bit 4 (mask 4)"
    "(0x20 :: u32) = push_bit 5 1" "(0x0F :: u8) = mask 4" "(0x80 :: u8) = push_bit 7 1"
    "(0xC0 :: u8) = push_bit 6 (mask 2)" "(0x0C :: u8) = push_bit 2 (mask 2)" "(0x02 :: u8) = push_bit 1 1"
    "(0x03 :: u8) = mask 2" "(0x04 :: u8) = push_bit 2 1" "(0x30 :: u8) = push_bit 4 (mask 2)"
    by (simp_all add: mask_eq_exp_minus_1 push_bit_eq_mult)
  note b = bit_push_bit_iff bit_mask_iff bit_1_iff
  show "bit (0x0F :: u32) k \<longleftrightarrow> k < 4" unfolding r(1) b by auto
  show "bit (0x10 :: u32) k \<longleftrightarrow> k = 4" unfolding r(2) b by auto
  show "bit (0xF0 :: u32) k \<longleftrightarrow> 4 \<le> k \<and> k < 8" unfolding r(3) b by auto
  show "bit (0x20 :: u32) k \<longleftrightarrow> k = 5" unfolding r(4) b by auto
  show "bit (0x0F :: u8) k \<longleftrightarrow> k < 4" unfolding r(5) b by auto
  show "bit (0x80 :: u8) k \<longleftrightarrow> k = 7" unfolding r(6) b by auto
  show "bit (0xC0 :: u8) k \<longleftrightarrow> k = 6 \<or> k = 7" unfolding r(7) b by auto
  show "bit (0x0C :: u8) k \<longleftrightarrow> k = 2 \<or> k = 3" unfolding r(8) b by auto
  show "bit (0x02 :: u8) k \<longleftrightarrow> k = 1" unfolding r(9) b by auto
  show "bit (0x03 :: u8) k \<longleftrightarrow> k < 2" unfolding r(10) b by auto
  show "bit (0x04 :: u8) k \<longleftrightarrow> k = 2" unfolding r(11) b by auto
  show "bit (0x30 :: u8) k \<longleftrightarrow> k = 4 \<or> k = 5" unfolding r(12) b by auto
qed

lemmas word_bits = bit_or_iff bit_and_iff bit_push_bit_iff bit_drop_bit_eq bit_unsigned_iff
  bits_of_masks bit_1_iff comp_def

lemma absolute_packet_bytes:
  "bit (absolute_packet buttons w x y z ! 1) k \<longleftrightarrow> (if k < 4 then bit x (k + 8) else k < 8 \<and> bit y (k + 4))"
  "bit (absolute_packet buttons w x y z ! 3) k \<longleftrightarrow>
     k = 6 \<or> k = 7 \<or> (k = 5 \<and> bit y 12) \<or> (k = 4 \<and> bit x 12) \<or> (k = 2 \<and> bit w 0)"
  "bit (absolute_packet buttons w x y z ! 0) k \<longleftrightarrow>
     k = 7 \<or> (k = 5 \<and> bit w 3) \<or> (k = 4 \<and> bit w 2) \<or> (k = 2 \<and> bit w 1) \<or> (k < 2 \<and> bit buttons k)"
  "absolute_packet buttons w x y z ! 2 = z"
  "absolute_packet buttons w x y z ! 4 = ucast x" "absolute_packet buttons w x y z ! 5 = ucast y"
proof -
  show "bit (absolute_packet buttons w x y z ! 1) k \<longleftrightarrow> (if k < 4 then bit x (k + 8) else k < 8 \<and> bit y (k + 4))"
    unfolding absolute_packet_def One_nat_def nth_Cons_Suc nth_Cons_0 word_bits by (auto simp: add.commute)
  show "bit (absolute_packet buttons w x y z ! 3) k \<longleftrightarrow>
     k = 6 \<or> k = 7 \<or> (k = 5 \<and> bit y 12) \<or> (k = 4 \<and> bit x 12) \<or> (k = 2 \<and> bit w 0)"
    unfolding absolute_packet_def numeral_3_eq_3 nth_Cons_Suc nth_Cons_0 word_bits by auto
  show "bit (absolute_packet buttons w x y z ! 0) k \<longleftrightarrow>
     k = 7 \<or> (k = 5 \<and> bit w 3) \<or> (k = 4 \<and> bit w 2) \<or> (k = 2 \<and> bit w 1) \<or> (k < 2 \<and> bit buttons k)"
    unfolding absolute_packet_def nth_Cons_0 word_bits by auto
qed (simp_all add: absolute_packet_def)

lemma absolute_x_packet:
  assumes "x < 2 ^ 13"
  shows "absolute_x (absolute_packet buttons w x y z) = x"
proof (rule bit_word_eqI)
  fix n
  assume n: "n < LENGTH(32)"
  note f = absolute_x_def word_bits absolute_packet_bytes
  consider "n < 8" | "8 \<le> n \<and> n < 12" | "n = 12" | "13 \<le> n" by linarith
  then show "bit (absolute_x (absolute_packet buttons w x y z)) n = bit x n"
  proof cases
    case 4
    then show ?thesis unfolding f using n high_bits_clear [OF assms, of n] by auto
  qed (unfold f, auto)
qed

lemma absolute_y_packet:
  assumes "y < 2 ^ 13"
  shows "absolute_y (absolute_packet buttons w x y z) = y"
proof (rule bit_word_eqI)
  fix n
  assume n: "n < LENGTH(32)"
  note f = absolute_y_def word_bits absolute_packet_bytes
  consider "n < 8" | "8 \<le> n \<and> n < 12" | "n = 12" | "13 \<le> n" by linarith
  then show "bit (absolute_y (absolute_packet buttons w x y z)) n = bit y n"
  proof cases
    case 4
    then show ?thesis unfolding f using n high_bits_clear [OF assms, of n] by auto
  qed (unfold f, auto)
qed

lemma absolute_w_packet:
  assumes "w < 2 ^ 4"
  shows "absolute_w True (absolute_packet buttons w x y z) = w"
proof (rule bit_word_eqI)
  fix n
  assume n: "n < LENGTH(8)"
  note f = absolute_w_def if_True word_bits absolute_packet_bytes
  consider "n = 0" | "n = 1" | "n = 2" | "n = 3" | "4 \<le> n" by linarith
  then show "bit (absolute_w True (absolute_packet buttons w x y z)) n = bit w n"
  proof cases
    case 5
    then show ?thesis unfolding f using n high_bits_clear [OF assms, of n] by auto
  qed (unfold f, auto)
qed

lemma absolute_buttons_packet:
  assumes "buttons < 2 ^ 2"
  shows "absolute_buttons False (absolute_packet buttons w x y z) = buttons"
proof (rule bit_word_eqI)
  fix n
  assume n: "n < LENGTH(8)"
  note f = absolute_buttons_def not_False_eq_True if_True word_bits absolute_packet_bytes
  consider "n < 2" | "2 \<le> n" by linarith
  then show "bit (absolute_buttons False (absolute_packet buttons w x y z)) n = bit buttons n"
  proof cases
    case 2
    then show ?thesis unfolding f using n high_bits_clear [OF assms, of n] by auto
  qed (unfold f, auto)
qed

text \<open>C38. The handler reads back every field of a packet laid out as its comment says: two button
  bits, four bits of W, thirteen bits of each coordinate, the pressure.\<close>

theorem absolute_packet_roundtrip:
  assumes "buttons < 2 ^ 2" "w < 2 ^ 4" "x < 2 ^ 13" "y < 2 ^ 13"
  shows "absolute_buttons False (absolute_packet buttons w x y z) = buttons \<and>
    absolute_w True (absolute_packet buttons w x y z) = w \<and>
    absolute_x (absolute_packet buttons w x y z) = x \<and> absolute_y (absolute_packet buttons w x y z) = y \<and>
    absolute_packet buttons w x y z ! 2 = z"
  using assms by (simp only: absolute_buttons_packet absolute_w_packet absolute_x_packet absolute_y_packet
      absolute_packet_bytes)

theorem absolute_packet_roundtrip_witness:
  "absolute_x (absolute_packet 1 5 5000 3000 80) = 5000 \<and> absolute_y (absolute_packet 1 5 5000 3000 80) = 3000"
  using absolute_packet_roundtrip [of 1 5 5000 3000 80] by simp

end
