(* ===== verification/Ps2SynapticsProps.thy ===== *)
theory Ps2SynapticsProps
  imports Ps2SynapticsFields
begin

text \<open>
  Properties of the Synaptics driver's gesture machine: its invariant over every sequence of
  packets, timer events and preferences, and what taps, drags and movements send.
\<close>

section \<open>What a stage keeps\<close>

text \<open>The gesture machine's invariant.\<close>

definition gesture_states :: "u8 set" where
  "gesture_states = {DEFAULT_EVENT, DRAGGING, SCROLLING, HORIZONTAL_SCROLLING, VERTICAL_SCROLLING,
     MOVEMENT, SWIPE}"

definition gesture_inv :: "'f touchpad \<Rightarrow> bool" where
  "gesture_inv t \<longleftrightarrow> event t \<in> gesture_states \<and> settleTime t \<le> 10 \<and> prevNumFingers t \<le> 3 \<and>
     (tapped t \<longrightarrow> prefClicking t \<and> prefDragging t)"

lemma gesture_states_simps [simp]:
  "DEFAULT_EVENT \<in> gesture_states" "DRAGGING \<in> gesture_states" "SCROLLING \<in> gesture_states"
  "HORIZONTAL_SCROLLING \<in> gesture_states" "VERTICAL_SCROLLING \<in> gesture_states"
  "MOVEMENT \<in> gesture_states" "SWIPE \<in> gesture_states"
  by (simp_all add: gesture_states_def)

text \<open>The part of it the stages between the counting of the fingers and the end keep.\<close>

definition stage_inv :: "'f touchpad \<Rightarrow> bool" where
  "stage_inv t \<longleftrightarrow> event t \<in> gesture_states \<and> settleTime t \<le> 10 \<and>
     (tapped t \<longrightarrow> prefClicking t \<and> prefDragging t)"

lemma touch_event_simps [simp]:
  "event (touch_event e t) = event t" "settleTime (touch_event e t) = settleTime t"
  "tapped (touch_event e t) = tapped t" "dragging (touch_event e t) = dragging t"
  "dragLocked (touch_event e t) = dragLocked t" "prefClicking (touch_event e t) = prefClicking t"
  "prefDragging (touch_event e t) = prefDragging t" "prevNumFingers (touch_event e t) = prevNumFingers t"
  "touchpadEvents (touch_event e t) = touchpadEvents t @ [e]" "streamdx (touch_event e t) = streamdx t"
  "streamdy (touch_event e t) = streamdy t" "streamdt (touch_event e t) = streamdt t"
  "tpPacketByteCount (touch_event e t) = tpPacketByteCount t" "tpPacketBuffer (touch_event e t) = tpPacketBuffer t"
  "tpModeByte (touch_event e t) = tpModeByte t"
  by (simp_all add: touch_event_def)

lemma dispatchSwipeEvent_simps [simp]:
  "event (dispatchSwipeEvent w t) = event t" "settleTime (dispatchSwipeEvent w t) = settleTime t"
  "tapped (dispatchSwipeEvent w t) = tapped t" "prefClicking (dispatchSwipeEvent w t) = prefClicking t"
  "prefDragging (dispatchSwipeEvent w t) = prefDragging t"
  by (simp_all add: dispatchSwipeEvent_def)

lemma hold_still_simps [simp]:
  "skPrevEvent (hold_still k) = skPrevEvent k" "skFingers (hold_still k) = skFingers k"
  "skButtons (hold_still k) = skButtons k" "skX (hold_still k) = skX k" "skY (hold_still k) = skY k"
  "skDX (hold_still k) = 0" "skDY (hold_still k) = 0"
  by (simp_all add: hold_still_def)

lemma reported_fingers_le: "reported_fingers F t z w \<le> 3"
  by (simp add: reported_fingers_def)

lemma weighed_fingers_le:
  assumes "prevNumFingers t \<le> 3"
  shows "weighed_fingers F t buttons z w \<le> 3"
proof -
  have "prevNumFingers t = 0 \<or> prevNumFingers t = 1 \<or> prevNumFingers t = 2 \<or> prevNumFingers t = 3"
    using assms by (simp add: word_le_nat_alt word_unat_eq_iff) linarith
  then show ?thesis by (elim disjE) (simp_all add: weighed_fingers_def Let_def)
qed

lemma count_fingers_le: "prevNumFingers t \<le> 3 \<Longrightarrow> count_fingers F t buttons z w \<le> 3"
  using reported_fingers_le [of F t z w] weighed_fingers_le [of t F buttons z w]
  by (simp add: count_fingers_def Let_def)

lemma next_event_states: "event t \<in> gesture_states \<Longrightarrow> next_event dt n t \<in> gesture_states"
  by (simp add: next_event_def)

lemma select_event_inv: "stage_inv t \<Longrightarrow> stage_inv (select_event dt n p t)"
  using next_event_states [of t dt n] by (simp add: stage_inv_def select_event_def Let_def)

lemma edge_scrolling_inv: "stage_inv t \<Longrightarrow> stage_inv (edge_scrolling F k t)"
  by (simp add: edge_scrolling_def stage_inv_def)

lemma new_stream_inv: "stage_inv t \<Longrightarrow> new_stream t k = (t', k') \<Longrightarrow> stage_inv t'"
  by (auto simp: new_stream_def stage_inv_def Let_def split: if_splits prod.splits)

lemma end_of_stream_inv: "stage_inv t \<Longrightarrow> end_of_stream t k = (t', k') \<Longrightarrow> stage_inv t'"
  by (auto simp: end_of_stream_def end_scrolling_def end_movement_def end_dragging_def end_swipe_def
      stage_inv_def Let_def split: if_splits)

lemma event_changed_inv: "stage_inv t \<Longrightarrow> event_changed t k = (t', k') \<Longrightarrow> stage_inv t'"
proof -
  assume t: "stage_inv t" and e: "event_changed t k = (t', k')"
  have "settleTime t - 1 \<le> 10" if "settleTime t \<noteq> 0"
    using t that by (auto simp: stage_inv_def word_le_nat_alt unat_minus_one)
  then show ?thesis
    using t e new_stream_inv [OF t] end_of_stream_inv [OF t]
    by (auto simp: event_changed_def stage_inv_def split: if_splits)
qed

lemma begin_dragging_inv: "stage_inv t \<Longrightarrow> stage_inv (begin_dragging t)"
  by (simp add: begin_dragging_def stage_inv_def)

lemma settle_inv: "stage_inv t \<Longrightarrow> settle F t k = (t', k') \<Longrightarrow> stage_inv t'"
  unfolding settle_def
  by (auto simp: Let_def split: if_splits prod.splits
      intro!: begin_dragging_inv intro: event_changed_inv edge_scrolling_inv)

lemma send_events_inv: "stage_inv t \<Longrightarrow> send_events t k = (t', k') \<Longrightarrow> stage_inv t'"
  by (auto simp: send_events_def send_movement_def stage_inv_def Let_def
      split: if_splits prod.splits)


text \<open>The stages do not touch the count of fingers, nor the position.\<close>

lemma event_changed_stroke:
  "event_changed t k = (t', k') \<Longrightarrow> skFingers k' = skFingers k \<and> skX k' = skX k \<and> skY k' = skY k"
  by (auto simp: event_changed_def new_stream_def end_of_stream_def end_scrolling_def end_movement_def
      end_dragging_def end_swipe_def hold_still_def Let_def split: if_splits)

lemma settle_stroke:
  "settle F t k = (t', k') \<Longrightarrow> skFingers k' = skFingers k \<and> skX k' = skX k \<and> skY k' = skY k"
  using event_changed_stroke [of "edge_scrolling F k t" "hold_unless_scrolling (edge_scrolling F k t) k"]
  by (auto simp: settle_def hold_unless_scrolling_def hold_still_def Let_def split: if_splits prod.splits)

lemma send_events_stroke:
  "send_events t k = (t', k') \<Longrightarrow> skFingers k' = skFingers k \<and> skX k' = skX k \<and> skY k' = skY k"
  by (auto simp: send_events_def send_movement_def Let_def split: if_splits prod.splits)

section \<open>The packet handler as a composition\<close>

text \<open>The local variables after the fingers have been counted, and the state then.\<close>

definition first_stroke :: "'f fpu \<Rightarrow> u8 list \<Rightarrow> u32 \<Rightarrow> u32 \<Rightarrow> 'f touchpad \<Rightarrow> stroke" where
  "first_stroke F packet dx dy t =
     (let buttons = absolute_buttons (prefSwapButtons t) packet
      in \<lparr>skPrevEvent = event t,
          skFingers = count_fingers F t buttons (packet ! 2) (absolute_w (W_MODE t) packet),
          skButtons = buttons, skX = absolute_x packet, skY = absolute_y packet, skDX = dx, skDY = dy\<rparr>)"

definition streamed :: "u32 \<times> u32 \<Rightarrow> u32 \<Rightarrow> u32 \<Rightarrow> 'f touchpad \<Rightarrow> 'f touchpad" where
  "streamed now dx dy t =
     t\<lparr>streamdt := streamdt t + ucast (packet_interval now t), streamdx := streamdx t + dx,
       streamdy := streamdy t + dy\<rparr>"

lemma count_fingers_cong:
  assumes "tpModeByte t' = tpModeByte t" "capabilities t' = capabilities t"
    and "prefOneFingerThreshold t' = prefOneFingerThreshold t"
    and "prefTwoFingerThreshold t' = prefTwoFingerThreshold t"
    and "prefThreeFingerThreshold t' = prefThreeFingerThreshold t"
    and "prefHysteresis t' = prefHysteresis t" "prevNumFingers t' = prevNumFingers t"
    and "prefGestureMode t' = prefGestureMode t"
  shows "count_fingers F t' b z w = count_fingers F t b z w"
  by (simp only: count_fingers_def reported_fingers_def weighed_fingers_def eased_def W_MODE_def
      CAP_MULTIFINGER_def assms)

lemma scale_movement_cong:
  "event t' = event t \<Longrightarrow> prefTrackSpeed t' = prefTrackSpeed t \<Longrightarrow> prefScrollSpeed t' = prefScrollSpeed t \<Longrightarrow>
   scaleFactor t' = scaleFactor t \<Longrightarrow> scale_movement F t' dx dy = scale_movement F t dx dy"
  by (simp add: scale_movement_def scale_speed_def)

definition packet_movement :: "'f fpu \<Rightarrow> u8 list \<Rightarrow> 'f touchpad \<Rightarrow> (u32 \<times> u32) option" where
  "packet_movement F packet t =
     scale_movement F t (absolute_x packet - prevX t) (absolute_y packet - prevY t)"

lemma dispatchAbsolutePacket_eq:
  "dispatchAbsolutePacket F now packet t = do {
     (dx, dy) \<leftarrow> packet_movement F packet t;
     let k = first_stroke F packet dx dy t;
     let (t', k) = settle F (select_event (packet_interval now t) (skFingers k) (event t) (streamed now dx dy t)) k;
     let (t', k) = send_events t' k;
     Some (remember_packet now k t')
   }"
proof -
  have w: "W_MODE (t\<lparr>streamdt := d\<rparr>) = W_MODE t" for d by (simp add: W_MODE_def)
  have m: "scale_movement F (t\<lparr>streamdt := d\<rparr>) dx dy = scale_movement F t dx dy" for d dx dy
    by (rule scale_movement_cong) simp_all
  have c: "count_fingers F (t\<lparr>streamdt := d, streamdx := x, streamdy := y\<rparr>) b z w' = count_fingers F t b z w'"
    for d x y b z w' by (rule count_fingers_cong) simp_all
  show ?thesis
    by (simp add: dispatchAbsolutePacket_def packet_movement_def first_stroke_def streamed_def Let_def w m c)
qed

lemma dispatchAbsolutePacket_stages:
  assumes "dispatchAbsolutePacket F now packet t = Some t'"
  obtains dx dy t1 k1 t2 k2 where "packet_movement F packet t = Some (dx, dy)"
    "settle F (select_event (packet_interval now t) (skFingers (first_stroke F packet dx dy t)) (event t)
       (streamed now dx dy t)) (first_stroke F packet dx dy t) = (t1, k1)"
    "send_events t1 k1 = (t2, k2)" "t' = remember_packet now k2 t2"
proof -
  obtain dx dy where m: "packet_movement F packet t = Some (dx, dy)"
    using assms by (cases "packet_movement F packet t") (auto simp: dispatchAbsolutePacket_eq)
  obtain t1 k1 where 1: "settle F (select_event (packet_interval now t) (skFingers (first_stroke F packet dx dy t)) (event t)
       (streamed now dx dy t)) (first_stroke F packet dx dy t) = (t1, k1)" by fastforce
  obtain t2 k2 where 2: "send_events t1 k1 = (t2, k2)" by fastforce
  show ?thesis using that [OF m 1 2] assms by (simp add: dispatchAbsolutePacket_eq m 1 2)
qed

lemma dispatchAbsolutePacket_inv:
  assumes "gesture_inv t" "dispatchAbsolutePacket F now packet t = Some t'"
  shows "gesture_inv t'"
proof -
  obtain dx dy t1 k1 t2 k2 where m: "packet_movement F packet t = Some (dx, dy)"
    and s: "settle F (select_event (packet_interval now t) (skFingers (first_stroke F packet dx dy t)) (event t)
          (streamed now dx dy t)) (first_stroke F packet dx dy t) = (t1, k1)"
    "send_events t1 k1 = (t2, k2)" "t' = remember_packet now k2 t2"
    using assms(2) by (rule dispatchAbsolutePacket_stages)
  have "stage_inv (streamed now dx dy t)"
    using assms(1) by (simp add: gesture_inv_def stage_inv_def streamed_def)
  then have "stage_inv t2" using s(1,2) by (metis select_event_inv settle_inv send_events_inv)
  moreover have "skFingers k2 \<le> 3"
    using settle_stroke [OF s(1)] send_events_stroke [OF s(2)] count_fingers_le [of t] assms(1)
    by (simp add: first_stroke_def Let_def gesture_inv_def)
  ultimately show ?thesis by (simp add: s(3) gesture_inv_def stage_inv_def remember_packet_def)
qed


section \<open>Reachable states\<close>

text \<open>
  What happens to the touchpad's state: a packet of either kind, the timer, new preferences, and
  the reset of the stream when the device is enabled again.
\<close>

inductive touch_step :: "'f fpu \<Rightarrow> 'f touchpad \<Rightarrow> 'f touchpad \<Rightarrow> bool" for F where
  absolute: "dispatchAbsolutePacket F now packet t = Some t' \<Longrightarrow> touch_step F t t'"
| relative: "touch_step F t (dispatchRelativePacket F now packet t)"
| timeout: "touch_step F t (draggingTimeout t)"
| preferences: "touch_step F t (synaptics_setParamProperties F dict t)"
| enabled: "touch_step F t (t\<lparr>tpPacketByteCount := 0, streamdx := 0, streamdy := 0, settleTime := 0,
    tapped := False, dragLocked := False\<rparr>)"

inductive touch_reachable :: "'f fpu \<Rightarrow> 'f touchpad \<Rightarrow> bool" for F where
  initial: "event t = DEFAULT_EVENT \<Longrightarrow> prevNumFingers t = 0 \<Longrightarrow> touch_reachable F (synaptics_init F t)"
| step: "touch_reachable F t \<Longrightarrow> touch_step F t t' \<Longrightarrow> touch_reachable F t'"

lemma dispatchRelativePacket_inv: "gesture_inv t \<Longrightarrow> gesture_inv (dispatchRelativePacket F now packet t)"
  by (simp add: dispatchRelativePacket_def relative_buttons_def gesture_inv_def Let_def split: prod.splits)

lemma draggingTimeout_inv: "gesture_inv t \<Longrightarrow> gesture_inv (draggingTimeout t)"
  by (simp add: draggingTimeout_def gesture_inv_def)

text \<open>The preferences do not touch the fields of the gesture machine.\<close>

lemma number_pref_keeps: "(\<And>n t. f (store n t) = f t) \<Longrightarrow> f (number_pref dict key store t) = f t"
  by (simp add: number_pref_def split: option.splits os_object.splits)

lemma boolean_pref_keeps: "(\<And>b t. f (store b t) = f t) \<Longrightarrow> f (boolean_pref dict key store t) = f t"
  by (simp add: boolean_pref_def split: option.splits os_object.splits)

lemma setParamProperties_keeps:
  "event (synaptics_setParamProperties F dict t) = event t"
  "settleTime (synaptics_setParamProperties F dict t) = settleTime t"
  "prevNumFingers (synaptics_setParamProperties F dict t) = prevNumFingers t"
  "\<not> tapped (synaptics_setParamProperties F dict t)"
  unfolding synaptics_setParamProperties_def Let_def
  by (simp_all add: number_pref_keeps boolean_pref_keeps)

lemma touch_step_inv: "touch_step F t t' \<Longrightarrow> gesture_inv t \<Longrightarrow> gesture_inv t'"
proof (induction rule: touch_step.induct)
  case (absolute now packet t t')
  then show ?case by (blast intro: dispatchAbsolutePacket_inv)
next
  case (preferences t dict)
  then show ?case by (simp add: gesture_inv_def setParamProperties_keeps)
next
  case (relative t now packet)
  then show ?case by (rule dispatchRelativePacket_inv)
next
  case (timeout t)
  then show ?case by (rule draggingTimeout_inv)
qed (simp add: gesture_inv_def)

lemma reachable_gesture_inv: "touch_reachable F t \<Longrightarrow> gesture_inv t"
proof (induction rule: touch_reachable.induct)
  case (initial t)
  then show ?case by (simp add: gesture_inv_def synaptics_init_def)
qed (blast intro: touch_step_inv)

text \<open>C27. Whatever packets arrive, whenever the timer fires and whatever preferences are set, the
  gesture machine is in one of its seven states (never the unfinished zooming), at most three
  fingers are remembered, the settle counter is at most 10, and a first tap is only pending
  when clicking and dragging are both enabled.\<close>

theorem touch_reachable_inv:
  assumes "touch_reachable F t"
  shows "event t \<in> gesture_states \<and> settleTime t \<le> 10 \<and> prevNumFingers t \<le> 3 \<and>
    (tapped t \<longrightarrow> prefClicking t \<and> prefDragging t)"
  using reachable_gesture_inv [OF assms] by (simp add: gesture_inv_def)

section \<open>What is sent\<close>

definition sends :: "(touchpad_event \<Rightarrow> bool) \<Rightarrow> 'f touchpad \<Rightarrow> 'f touchpad \<Rightarrow> bool" where
  "sends P t t' \<longleftrightarrow> (\<exists>es. touchpadEvents t' = touchpadEvents t @ es \<and> list_all P es)"

lemma sends_same: "touchpadEvents t' = touchpadEvents t \<Longrightarrow> sends P t t'"
  by (simp add: sends_def)

lemma sends_one: "touchpadEvents t' = touchpadEvents t @ [e] \<Longrightarrow> P e \<Longrightarrow> sends P t t'"
  by (simp add: sends_def)

lemma sends_trans: "sends P t t' \<Longrightarrow> sends P t' t'' \<Longrightarrow> sends P t t''"
  unfolding sends_def by (metis append_assoc list_all_append)

lemma sends_list: "touchpadEvents t' = touchpadEvents t @ es \<Longrightarrow> list_all P es \<Longrightarrow> sends P t t'"
  by (auto simp: sends_def)

text \<open>Events that move nothing: buttons without movement, keys, the timer.\<close>

fun motionless :: "touchpad_event \<Rightarrow> bool" where
  "motionless (TouchPointer dx dy b) \<longleftrightarrow> dx = 0 \<and> dy = 0"
| "motionless (TouchScroll a b c) \<longleftrightarrow> a = 0 \<and> b = 0 \<and> c = 0"
| "motionless e \<longleftrightarrow> True"

lemma dispatchSwipeEvent_events:
  "\<exists>es. touchpadEvents (dispatchSwipeEvent w t) = touchpadEvents t @ es \<and> list_all motionless es"
  by (simp add: dispatchSwipeEvent_def)

lemma new_stream_sends: "new_stream t k = (t', k') \<Longrightarrow> sends motionless t t'"
  by (auto simp: new_stream_def Let_def sends_def split: if_splits)

lemma end_of_stream_sends: "end_of_stream t k = (t', k') \<Longrightarrow> sends motionless t t'"
  using dispatchSwipeEvent_events [of kIOHIDSwipeLeft t] dispatchSwipeEvent_events [of kIOHIDSwipeRight t]
  by (auto simp: end_of_stream_def end_scrolling_def end_movement_def end_dragging_def end_swipe_def
      Let_def sends_def split: if_splits)

lemma event_changed_sends: "event_changed t k = (t', k') \<Longrightarrow> sends motionless t t'"
  using new_stream_sends [of t k t' k'] end_of_stream_sends [of t k t' k']
  by (auto simp: event_changed_def intro: sends_same split: if_splits)

lemma begin_dragging_sends: "sends motionless t (begin_dragging t)"
  by (simp add: begin_dragging_def sends_def)

lemma edge_scrolling_events: "touchpadEvents (edge_scrolling F k t) = touchpadEvents t"
  by (simp add: edge_scrolling_def)

lemma settle_sends: "settle F t k = (t', k') \<Longrightarrow> sends motionless t t'"
  unfolding settle_def
  by (auto simp: Let_def split: if_splits prod.splits
      intro: sends_same sends_trans [OF sends_trans [OF sends_same [OF edge_scrolling_events] event_changed_sends] begin_dragging_sends])


definition packet_fingers :: "'f fpu \<Rightarrow> u8 list \<Rightarrow> 'f touchpad \<Rightarrow> u8" where
  "packet_fingers F packet t =
     count_fingers F t (absolute_buttons (prefSwapButtons t) packet) (packet ! 2) (absolute_w (W_MODE t) packet)"

lemma first_stroke_simps [simp]:
  "skPrevEvent (first_stroke F packet dx dy t) = event t"
  "skFingers (first_stroke F packet dx dy t) = packet_fingers F packet t"
  "skButtons (first_stroke F packet dx dy t) = absolute_buttons (prefSwapButtons t) packet"
  "skX (first_stroke F packet dx dy t) = absolute_x packet" "skY (first_stroke F packet dx dy t) = absolute_y packet"
  "skDX (first_stroke F packet dx dy t) = dx" "skDY (first_stroke F packet dx dy t) = dy"
  by (simp_all add: first_stroke_def packet_fingers_def Let_def)

lemma streamed_simps [simp]:
  "event (streamed now dx dy t) = event t" "settleTime (streamed now dx dy t) = settleTime t"
  "tapped (streamed now dx dy t) = tapped t" "dragging (streamed now dx dy t) = dragging t"
  "dragLocked (streamed now dx dy t) = dragLocked t" "prefClicking (streamed now dx dy t) = prefClicking t"
  "prefDragging (streamed now dx dy t) = prefDragging t" "prefScrollMode (streamed now dx dy t) = prefScrollMode t"
  "prefClickDelay (streamed now dx dy t) = prefClickDelay t"
  "touchpadEvents (streamed now dx dy t) = touchpadEvents t"
  by (simp_all add: streamed_def)

lemma select_event_eq:
  "select_event dt n p t = t\<lparr>event := if p = SWIPE \<and> settleTime t \<noteq> 0 then SWIPE else next_event dt n t\<rparr>"
  by (simp add: select_event_def Let_def)

lemma settle_still:
  assumes "settle F t k = (t', k')" "event t = DEFAULT_EVENT \<or> event t = SWIPE"
    and "skPrevEvent k = SWIPE \<or> event t = DEFAULT_EVENT"
  shows "skDX k' = 0 \<and> skDY k' = 0 \<or> t' = t"
proof (cases "skPrevEvent k XOR event t \<noteq> 0 \<or> settleTime t \<noteq> 0")
  case True
  have "event (edge_scrolling F k t) \<noteq> SCROLLING"
    using assms(2) by (auto simp: edge_scrolling_def)
  then have k: "hold_unless_scrolling (edge_scrolling F k t) k = hold_still k"
    by (simp add: hold_unless_scrolling_def)
  have "skDX k1 = 0 \<and> skDY k1 = 0" if "event_changed t0 (hold_still k) = (t1, k1)" for t0 t1 :: "'a touchpad" and k1
    using that by (auto simp: event_changed_def new_stream_def end_of_stream_def end_scrolling_def end_movement_def
        end_dragging_def end_swipe_def hold_still_def Let_def split: if_splits)
  then show ?thesis using assms(1) True by (auto simp: settle_def Let_def k split: prod.splits)
next
  case False
  then show ?thesis using assms(1) by (auto simp: settle_def)
qed

lemma send_events_still:
  assumes "send_events t k = (t', k')"
    and "skDX k = 0 \<and> skDY k = 0 \<or> event t = DEFAULT_EVENT \<or> event t = SWIPE"
  shows "sends motionless t t'"
  using assms by (auto simp: send_events_def send_movement_def scroll_axis_def sends_def Let_def
      split: if_splits prod.splits)

text \<open>While no finger is on the pad, or after a pause, a packet moves nothing: neither the
  pointer nor a scroll wheel, whatever positions it reports.\<close>

theorem no_finger_no_motion:
  assumes "dispatchAbsolutePacket F now packet t = Some t'"
    and "20000 < packet_interval now t \<or> packet_fingers F packet t = 0"
  shows "sends motionless t t'"
proof -
  obtain dx dy t1 k1 t2 k2 where
    s: "settle F (select_event (packet_interval now t) (skFingers (first_stroke F packet dx dy t)) (event t)
       (streamed now dx dy t)) (first_stroke F packet dx dy t) = (t1, k1)"
    "send_events t1 k1 = (t2, k2)" "t' = remember_packet now k2 t2"
    by (rule dispatchAbsolutePacket_stages [OF assms(1)])
  let ?t = "select_event (packet_interval now t) (packet_fingers F packet t) (event t) (streamed now dx dy t)"
  have e: "event ?t = DEFAULT_EVENT \<or> event ?t = SWIPE \<and> event t = SWIPE"
    using assms(2) by (auto simp: select_event_eq next_event_def)
  have s1: "settle F ?t (first_stroke F packet dx dy t) = (t1, k1)" using s(1) by simp
  have "skDX k1 = 0 \<and> skDY k1 = 0 \<or> t1 = ?t"
    by (rule settle_still [OF s1]) (use e in auto)
  then have "sends motionless t1 t2" using e by (intro send_events_still [OF s(2)]) auto
  moreover have "sends motionless t ?t" by (rule sends_same) (simp add: select_event_eq)
  moreover have "sends motionless t2 t'" by (rule sends_same) (simp add: s(3) remember_packet_def)
  ultimately show ?thesis using settle_sends [OF s1] by (blast intro: sends_trans)
qed

text \<open>One finger moving steadily.\<close>

lemma steady_movement:
  assumes "event t = MOVEMENT" "settleTime t = 0" "packet_interval now t \<le> 20000"
    and "packet_fingers F packet t = 1" "packet_movement F packet t = Some (dx, dy)"
  shows "\<exists>t'. dispatchAbsolutePacket F now packet t = Some t' \<and> event t' = MOVEMENT \<and> settleTime t' = 0 \<and>
    touchpadEvents t' = touchpadEvents t @
      [TouchPointer dx (- dy) (absolute_buttons (prefSwapButtons t) packet OR (if dragging t then 1 else 0))]"
proof -
  have "select_event (packet_interval now t) (packet_fingers F packet t) (event t) (streamed now dx dy t) =
      streamed now dx dy t\<lparr>event := MOVEMENT\<rparr>"
    using assms(1-4) by (auto simp: select_event_eq next_event_def)
  then show ?thesis
    using assms(1,2,5) by (simp add: dispatchAbsolutePacket_eq settle_def send_events_def send_movement_def
        remember_packet_def Let_def)
qed

text \<open>Without a finger, and outside of edge scrolling, the packets after a movement.\<close>

lemma lift_select:
  "p \<noteq> SWIPE \<Longrightarrow> select_event dt 0 p t = t\<lparr>event := DEFAULT_EVENT\<rparr>"
  by (simp add: select_event_eq next_event_def)

lemma touch_select:
  "p \<noteq> SWIPE \<Longrightarrow> \<not> 20000 < dt \<Longrightarrow> event t = DEFAULT_EVENT \<or> event t = MOVEMENT \<Longrightarrow>
   select_event dt 1 p t = t\<lparr>event := MOVEMENT\<rparr>"
  by (auto simp: select_event_eq next_event_def)

lemma lift_movement:
  assumes "event t = MOVEMENT" "settleTime t = 0" "packet_fingers F packet t = 0"
    and "packet_movement F packet t = Some (dx, dy)" "dispatchAbsolutePacket F now packet t = Some t'"
  shows "\<exists>t1 k1. end_movement (streamed now dx dy t\<lparr>event := DEFAULT_EVENT\<rparr>) (hold_still (first_stroke F packet dx dy t)) = (t1, k1) \<and>
     t' = remember_packet now (k1\<lparr>skButtons := skButtons k1 OR (if dragging t1 then 1 else 0)\<rparr>)
            (touch_event (TouchPointer 0 0 (skButtons k1 OR (if dragging t1 then 1 else 0))) t1)"
proof -
  obtain t1 k1 where e: "end_movement (streamed now dx dy t\<lparr>event := DEFAULT_EVENT\<rparr>)
      (hold_still (first_stroke F packet dx dy t)) = (t1, k1)" by fastforce
  then have "event t1 = DEFAULT_EVENT" by (auto simp: end_movement_def Let_def split: if_splits)
  then show ?thesis
    using assms e by (simp add: dispatchAbsolutePacket_eq lift_select settle_def edge_scrolling_def
        hold_unless_scrolling_def event_changed_def end_of_stream_def begin_dragging_def send_events_def Let_def)
qed

lemma lift_default:
  assumes "event t = DEFAULT_EVENT" "packet_fingers F packet t = 0" "prefScrollMode t \<noteq> SCROLL_MODE_EDGE"
    and "settleTime t \<noteq> 0" "\<not> dragging t" "dispatchAbsolutePacket F now packet t = Some t'"
  shows "touchpadEvents t' = touchpadEvents t @ [TouchPointer 0 0 (absolute_buttons (prefSwapButtons t) packet)]"
proof -
  obtain dx dy where "packet_movement F packet t = Some (dx, dy)"
    by (rule dispatchAbsolutePacket_stages [OF assms(6)])
  then show ?thesis
    using assms by (auto simp: dispatchAbsolutePacket_eq lift_select settle_def edge_scrolling_def
        hold_unless_scrolling_def hold_still_def event_changed_def begin_dragging_def send_events_def Let_def remember_packet_def)
qed

lemma lift_events:
  assumes "event t = MOVEMENT" "settleTime t = 0" "\<not> dragging t"
    and "packet_fingers F packet t = 0" "packet_movement F packet t = Some (dx, dy)"
    and "dispatchAbsolutePacket F now packet t = Some t'"
  defines "tap \<equiv> prefClicking t \<and> TAPPING (streamed now dx dy t)"
    and "b \<equiv> absolute_buttons (prefSwapButtons t) packet"
  shows "event t' = DEFAULT_EVENT" "settleTime t' = 5" "\<not> dragging t'" "prefScrollMode t' = prefScrollMode t"
    "prefSwapButtons t' = prefSwapButtons t"
    "\<not> tap \<or> prefDragging t \<and> dragLocked t \<Longrightarrow> touchpadEvents t' = touchpadEvents t @ [TouchPointer 0 0 b]"
    "tap \<Longrightarrow> \<not> prefDragging t \<Longrightarrow> touchpadEvents t' = touchpadEvents t @ [TouchPointer 0 0 1]"
    "tap \<Longrightarrow> prefDragging t \<Longrightarrow> \<not> dragLocked t'"
    "tap \<Longrightarrow> prefDragging t \<Longrightarrow> \<not> dragLocked t \<Longrightarrow> tapped t' \<and>
       touchpadEvents t' = touchpadEvents t @ [DragTimeoutSet (prefClickDelay t), TouchPointer 0 0 b]"
proof -
  have tap: "TAPPING (streamed now dx dy t\<lparr>event := DEFAULT_EVENT, settleTime := 5\<rparr>) \<longleftrightarrow>
      TAPPING (streamed now dx dy t)"
    by (simp add: TAPPING_def)
  obtain t1 k1 where lift: "end_movement (streamed now dx dy t\<lparr>event := DEFAULT_EVENT\<rparr>)
      (hold_still (first_stroke F packet dx dy t)) = (t1, k1)"
     "t' = remember_packet now (k1\<lparr>skButtons := skButtons k1 OR (if dragging t1 then 1 else 0)\<rparr>)
            (touch_event (TouchPointer 0 0 (skButtons k1 OR (if dragging t1 then 1 else 0))) t1)"
    using lift_movement [OF assms(1,2,4-6)] by blast
  note defs = end_movement_def Let_def remember_packet_def hold_still_def streamed_def touch_event_def tap_def b_def
  show "event t' = DEFAULT_EVENT" "settleTime t' = 5" "\<not> dragging t'" "prefScrollMode t' = prefScrollMode t"
    "prefSwapButtons t' = prefSwapButtons t"
    using lift assms(3) by (auto simp: defs split: if_splits)
  show "\<not> tap \<or> prefDragging t \<and> dragLocked t \<Longrightarrow> touchpadEvents t' = touchpadEvents t @ [TouchPointer 0 0 b]"
    "tap \<Longrightarrow> \<not> prefDragging t \<Longrightarrow> touchpadEvents t' = touchpadEvents t @ [TouchPointer 0 0 1]"
    "tap \<Longrightarrow> prefDragging t \<Longrightarrow> \<not> dragLocked t'"
    "tap \<Longrightarrow> prefDragging t \<Longrightarrow> \<not> dragLocked t \<Longrightarrow> tapped t' \<and>
       touchpadEvents t' = touchpadEvents t @ [DragTimeoutSet (prefClickDelay t), TouchPointer 0 0 b]"
    using lift assms(3) tap by (auto simp: defs split: if_splits)
qed

text \<open>C36. A tap is a click. When the only finger lifts while the pad is in settled movement and no drag
  is under way, the driver sends the reported buttons, unless clicking is on and the contact was short
  and still, that is, a tap. A tap with dragging off presses the left button, and the next packet, if it
  shows no finger and edge scrolling is off, sends the buttons it reports (so it releases the button
  when none is reported). With dragging on the tap only starts the timer and remembers the tap; when no
  second touch comes the timer's routine sends the press and the release. A tap during a locked drag
  only unlocks it.\<close>

theorem tap_is_click:
  assumes "event t = MOVEMENT" "settleTime t = 0" "\<not> dragging t"
    and "packet_fingers F packet t = 0" "packet_movement F packet t = Some (dx, dy)"
    and "dispatchAbsolutePacket F now packet t = Some t'"
  defines "tap \<equiv> prefClicking t \<and> TAPPING (streamed now dx dy t)"
    and "reported \<equiv> \<lambda>p. TouchPointer 0 0 (absolute_buttons (prefSwapButtons t) p)"
  shows "(\<not> tap \<longrightarrow> touchpadEvents t' = touchpadEvents t @ [reported packet]) \<and>
    (tap \<and> \<not> prefDragging t \<longrightarrow> touchpadEvents t' = touchpadEvents t @ [TouchPointer 0 0 1] \<and>
      (\<forall>now' packet' t''. packet_fingers F packet' t' = 0 \<longrightarrow> prefScrollMode t \<noteq> SCROLL_MODE_EDGE \<longrightarrow>
         dispatchAbsolutePacket F now' packet' t' = Some t'' \<longrightarrow>
         touchpadEvents t'' = touchpadEvents t @ [TouchPointer 0 0 1, reported packet'])) \<and>
    (tap \<and> prefDragging t \<and> \<not> dragLocked t \<longrightarrow> tapped t' \<and>
      touchpadEvents t' = touchpadEvents t @ [DragTimeoutSet (prefClickDelay t), reported packet] \<and>
      touchpadEvents (draggingTimeout t') =
        touchpadEvents t' @ [DragTimeoutCancelled, TouchPointer 0 0 1, TouchPointer 0 0 0]) \<and>
    (tap \<and> prefDragging t \<and> dragLocked t \<longrightarrow> \<not> dragLocked t' \<and> touchpadEvents t' = touchpadEvents t @ [reported packet])"
proof -
  note lift = lift_events [OF assms(1-6), folded tap_def]
  have "touchpadEvents t'' = touchpadEvents t' @ [reported packet']"
    if "packet_fingers F packet' t' = 0" "prefScrollMode t \<noteq> SCROLL_MODE_EDGE"
      "dispatchAbsolutePacket F now' packet' t' = Some t''" for now' packet' t''
    using lift_default [OF lift(1) that(1) _ _ lift(3) that(3)] lift(2,4,5) that(2) by (simp add: reported_def)
  then show ?thesis
    using lift(6-9) by (auto simp: reported_def draggingTimeout_def touch_event_def)
qed

text \<open>With dragging enabled a tap only starts the timer, and when no second touch comes the
  timer's routine sends the press and the release.\<close>

theorem tap_timeout_clicks:
  assumes "event t = MOVEMENT" "settleTime t = 0" "prefClicking t" "prefDragging t" "\<not> dragLocked t" "\<not> dragging t"
    and "packet_fingers F packet t = 0" "packet_movement F packet t = Some (dx, dy)"
    and "TAPPING (streamed now dx dy t)" "dispatchAbsolutePacket F now packet t = Some t'"
  shows "tapped t' \<and> touchpadEvents (draggingTimeout t') = touchpadEvents t @
    [DragTimeoutSet (prefClickDelay t), TouchPointer 0 0 (absolute_buttons (prefSwapButtons t) packet),
     DragTimeoutCancelled, TouchPointer 0 0 1, TouchPointer 0 0 0]"
proof -
  have tap: "TAPPING (streamed now dx dy t\<lparr>event := DEFAULT_EVENT, settleTime := 5\<rparr>)"
    using assms(9) by (simp add: TAPPING_def)
  show ?thesis
    using lift_movement [OF assms(1,2,7,8,10)] assms(3-6) tap
    by (auto simp: end_movement_def Let_def remember_packet_def hold_still_def streamed_def touch_event_def
        draggingTimeout_def)
qed

text \<open>When the second touch comes in time it cancels the timer and starts dragging, with the
  button held down and without a click before.\<close>

theorem second_touch_drags:
  assumes "event t = DEFAULT_EVENT" "settleTime t = 0" "tapped t" "prefClicking t" "prefDragging t" "\<not> dragging t"
    and "prefScrollMode t \<noteq> SCROLL_MODE_EDGE" "0 < prefClickDelay t"
    and "packet_fingers F packet t = 1" "packet_interval now t \<le> 20000"
    and "absolute_buttons (prefSwapButtons t) packet = 0"
    and "dispatchAbsolutePacket F now packet t = Some t'"
  shows "event t' = DRAGGING \<and> \<not> tapped t' \<and> dragLocked t' = (prefDragLock t \<or> dragLocked t) \<and>
    touchpadEvents t' = touchpadEvents t @ [DragTimeoutCancelled, TouchPointer 0 0 1]"
proof -
  obtain dx dy where m: "packet_movement F packet t = Some (dx, dy)"
    by (rule dispatchAbsolutePacket_stages [OF assms(12)])
  have "\<not> 20000 < packet_interval now t" using assms(10) by simp
  moreover have "0 < (ucast (prefClickDelay t) :: u64)"
    using assms(8) unsigned_less [of "prefClickDelay t", where 'a = nat]
    by (simp add: word_less_nat_alt unsigned_ucast_eq take_bit_nat_eq_self)
  ultimately show ?thesis
    using assms m by (auto simp: dispatchAbsolutePacket_eq touch_select settle_def edge_scrolling_def hold_unless_scrolling_def
        hold_still_def event_changed_def new_stream_def begin_dragging_def send_events_def send_movement_def
        remember_packet_def Let_def streamed_def touch_event_def)
qed

section \<open>Concrete runs\<close>

text \<open>Fixed-point arithmetic in thousandths, and a touchpad that counts fingers, at rest.\<close>

definition milli_fpu :: "int fpu" where
  "milli_fpu = \<lparr>fp_int = (\<lambda>i. 1000 * i), fp_dec = (\<lambda>m places. m * 1000 div 10 ^ places), fp_add = (+),
     fp_sub = (-), fp_mul = (\<lambda>a b. a * b div 1000), fp_div = (\<lambda>a b. a * 1000 div b), fp_single = id,
     fp_less = (<), fp_trunc = (\<lambda>a. if a < 0 then - (- a div 1000) else a div 1000)\<rparr>"

definition zeroed_touchpad :: "int touchpad" where
  "zeroed_touchpad = \<lparr>tpDevice = 0, tpInterruptHandlerInstalled = False, tpPowerControlHandlerInstalled = False,
     tpPacketBuffer = replicate 6 0, tpPacketByteCount = 0, tpResolution = 0, tpVersion = 0, tpModeByte = 0,
     touchpadInformation = 0, capabilities = 0, extendedCapabilities = 0, modelId = 0, event = 0,
     serialNumber = 0, scaleFactor = 0, tapped = False, dragging = False, dragLocked = False, streamdx = 0,
     streamdy = 0, dragTimeout = False, prevX = 0, prevY = 0, prevDX = 0, prevDY = 0, prevButtons = 0,
     prevNumFingers = 0, prevPacketTime = 0, prevPacketSecond = 0, streamdt = 0, settleTime = 0,
     prefClickDelay = 0, prefReleaseDelay = 0, prefScrollMode = 0, prefGestureMode = 0, prefHysteresis = 0,
     prefHorizScroll = False, prefClicking = False, prefDragging = False, prefDragLock = False,
     prefSecondaryClick = False, prefSwapButtons = False, prefIgnoreAccidental = False,
     prefOneFingerThreshold = 0, prefTwoFingerThreshold = 0, prefThreeFingerThreshold = 0,
     prefScrollArea = 0, prefScrollSpeed = 0, prefTrackSpeed = 0, touchpadEvents = []\<rparr>"

definition counting_touchpad :: "int touchpad" where
  "counting_touchpad = (synaptics_init milli_fpu zeroed_touchpad)\<lparr>tpModeByte := 0xC1, capabilities := 0x8002,
     scaleFactor := 1000, prefClicking := True\<rparr>"

text \<open>A packet at the origin, with the given pressure, and its times.\<close>

abbreviation (input) still_packet :: "u8 \<Rightarrow> u8 list" where
  "still_packet z \<equiv> [0x90, 0, z, 0xC0, 0, 0]"

lemma still_movement:
  assumes "prevX t = 0" "prevY t = 0" "prefTrackSpeed t = 1600" "prefScrollSpeed t = 1300" "scaleFactor t = 1000"
  shows "packet_movement milli_fpu (still_packet z) t = Some (0, 0)"
  using assms by (simp add: packet_movement_def absolute_x_def absolute_y_def scale_movement_def scale_speed_def
      to_SInt32_def milli_fpu_def accelerate_zero numeral_3_eq_3)

lemma still_fingers:
  assumes "W_MODE t" "CAP_MULTIFINGER t" "prefOneFingerThreshold t = 30000"
  shows "packet_fingers milli_fpu (still_packet z) t = (if uint z < 30 then 0 else 1)"
  using assms by (simp add: packet_fingers_def count_fingers_def reported_fingers_def below_def milli_fpu_def
      absolute_w_def numeral_3_eq_3 Let_def)


lemma dispatch_defined:
  "packet_movement F packet t = Some (dx, dy) \<Longrightarrow> \<exists>t'. dispatchAbsolutePacket F now packet t = Some t'"
  by (simp add: dispatchAbsolutePacket_eq Let_def split: prod.splits)

lemma counting_touchpad_simps [simp]:
  "event counting_touchpad = 0" "settleTime counting_touchpad = 0" "prefClicking counting_touchpad"
  "\<not> prefDragging counting_touchpad" "\<not> dragging counting_touchpad" "\<not> dragLocked counting_touchpad"
  "prefScrollMode counting_touchpad = 0" "prefClickDelay counting_touchpad = 280000"
  "prevX counting_touchpad = 0" "prevY counting_touchpad = 0" "prefTrackSpeed counting_touchpad = 1600"
  "prefScrollSpeed counting_touchpad = 1300" "scaleFactor counting_touchpad = 1000"
  "prefOneFingerThreshold counting_touchpad = 30000" "\<not> prefSwapButtons counting_touchpad"
  "tpModeByte counting_touchpad = 0xC1" "capabilities counting_touchpad = 0x8002"
  "prevPacketSecond counting_touchpad = 0" "prevPacketTime counting_touchpad = 0"
  "streamdx counting_touchpad = 0" "streamdy counting_touchpad = 0" "streamdt counting_touchpad = 0"
  "\<not> prefDragLock counting_touchpad" "touchpadEvents counting_touchpad = []"
  by (simp_all add: counting_touchpad_def synaptics_init_def milli_fpu_def zeroed_touchpad_def)

lemmas still = still_movement still_fingers W_MODE_def CAP_MULTIFINGER_def packet_interval_def

theorem touch_reachable_inv_witness:
  "event (draggingTimeout (synaptics_init milli_fpu zeroed_touchpad)) \<in> gesture_states"
  using touch_reachable_inv [OF step [OF initial timeout], of zeroed_touchpad milli_fpu]
  by (simp add: zeroed_touchpad_def)

theorem no_finger_no_motion_witness:
  "\<exists>t'. dispatchAbsolutePacket milli_fpu (0, 12500) (still_packet 0) counting_touchpad = Some t' \<and>
     sends motionless counting_touchpad t'"
proof -
  obtain t' where t': "dispatchAbsolutePacket milli_fpu (0, 12500) (still_packet 0) counting_touchpad = Some t'"
    using dispatch_defined still_movement [of counting_touchpad] by fastforce
  moreover have "packet_fingers milli_fpu (still_packet 0) counting_touchpad = 0" by (simp add: still)
  ultimately show ?thesis using no_finger_no_motion [OF t'] by blast
qed

definition tapping_touchpad :: "int touchpad" where
  "tapping_touchpad = counting_touchpad\<lparr>event := MOVEMENT, streamdt := 100000\<rparr>"

lemma tapping_touchpad_TAPPING:
  "TAPPING (streamed (0, 12500) 0 0 tapping_touchpad)"
  "TAPPING (streamed (0, 12500) 0 0 (tapping_touchpad\<lparr>prefDragging := d\<rparr>))"
  by (simp_all add: tapping_touchpad_def streamed_def TAPPING_def packet_interval_def ABS_def)

theorem tap_is_click_witness:
  "\<exists>t' t''. dispatchAbsolutePacket milli_fpu (0, 12500) (still_packet 0) tapping_touchpad = Some t' \<and>
     dispatchAbsolutePacket milli_fpu (0, 25000) (still_packet 0) t' = Some t'' \<and>
     touchpadEvents t'' = [TouchPointer 0 0 1, TouchPointer 0 0 0]"
proof -
  have m: "packet_movement milli_fpu (still_packet 0) tapping_touchpad = Some (0, 0)"
    by (simp add: tapping_touchpad_def still)
  have n: "packet_fingers milli_fpu (still_packet 0) tapping_touchpad = 0"
    by (simp add: tapping_touchpad_def still)
  obtain t' where t': "dispatchAbsolutePacket milli_fpu (0, 12500) (still_packet 0) tapping_touchpad = Some t'"
    using dispatch_defined [OF m] by blast
  have lift: "\<exists>t1 k1. end_movement (streamed (0, 12500) 0 0 tapping_touchpad\<lparr>event := DEFAULT_EVENT\<rparr>)
      (hold_still (first_stroke milli_fpu (still_packet 0) 0 0 tapping_touchpad)) = (t1, k1) \<and>
     t' = remember_packet (0, 12500) (k1\<lparr>skButtons := skButtons k1 OR (if dragging t1 then 1 else 0)\<rparr>)
            (touch_event (TouchPointer 0 0 (skButtons k1 OR (if dragging t1 then 1 else 0))) t1)"
    by (rule lift_movement [OF _ _ n m t']) (simp_all add: tapping_touchpad_def)
  have t'_simps: "prevX t' = 0" "prevY t' = 0" "prefTrackSpeed t' = 1600" "prefScrollSpeed t' = 1300"
    "scaleFactor t' = 1000" "tpModeByte t' = 0xC1" "capabilities t' = 0x8002" "prefOneFingerThreshold t' = 30000"
    using lift by (auto simp: end_movement_def remember_packet_def streamed_def touch_event_def tapping_touchpad_def
        absolute_x_def absolute_y_def hold_still_def numeral_3_eq_3 Let_def split: if_splits)
  obtain t'' where t'': "dispatchAbsolutePacket milli_fpu (0, 25000) (still_packet 0) t' = Some t''"
    using dispatch_defined still_movement [OF t'_simps(1-5)] by blast
  have n': "packet_fingers milli_fpu (still_packet 0) t' = 0" by (simp add: still t'_simps)
  have "event tapping_touchpad = MOVEMENT" "settleTime tapping_touchpad = 0" "\<not> dragging tapping_touchpad"
    by (simp_all add: tapping_touchpad_def)
  from tap_is_click [OF this n m t'] have
    "touchpadEvents t'' = touchpadEvents tapping_touchpad @ [TouchPointer 0 0 1, TouchPointer 0 0 0]"
    using tapping_touchpad_TAPPING(1) n' t'' by (simp add: tapping_touchpad_def absolute_buttons_def)
  then show ?thesis using t' t'' by (auto simp: tapping_touchpad_def)
qed

theorem tap_timeout_clicks_witness:
  "\<exists>t'. dispatchAbsolutePacket milli_fpu (0, 12500) (still_packet 0) (tapping_touchpad\<lparr>prefDragging := True\<rparr>) = Some t' \<and>
     touchpadEvents (draggingTimeout t') = [DragTimeoutSet 280000, TouchPointer 0 0 0, DragTimeoutCancelled,
       TouchPointer 0 0 1, TouchPointer 0 0 0]"
proof -
  let ?t = "tapping_touchpad\<lparr>prefDragging := True\<rparr>"
  have m: "packet_movement milli_fpu (still_packet 0) ?t = Some (0, 0)"
    by (simp add: tapping_touchpad_def still)
  have n: "packet_fingers milli_fpu (still_packet 0) ?t = 0"
    by (simp add: tapping_touchpad_def still)
  obtain t' where t': "dispatchAbsolutePacket milli_fpu (0, 12500) (still_packet 0) ?t = Some t'"
    using dispatch_defined [OF m] by blast
  have "tapped t' \<and> touchpadEvents (draggingTimeout t') = touchpadEvents ?t @
    [DragTimeoutSet (prefClickDelay ?t), TouchPointer 0 0 (absolute_buttons (prefSwapButtons ?t) (still_packet 0)),
     DragTimeoutCancelled, TouchPointer 0 0 1, TouchPointer 0 0 0]"
    by (rule tap_timeout_clicks [OF _ _ _ _ _ _ n m _ t'])
      (use tapping_touchpad_TAPPING(2) [of True] in \<open>simp_all add: tapping_touchpad_def\<close>)
  then show ?thesis using t' by (auto simp: tapping_touchpad_def absolute_buttons_def)
qed

theorem second_touch_drags_witness:
  "\<exists>t'. dispatchAbsolutePacket milli_fpu (0, 12500) (still_packet 80)
       (counting_touchpad\<lparr>tapped := True, prefDragging := True\<rparr>) = Some t' \<and>
     event t' = DRAGGING \<and> touchpadEvents t' = [DragTimeoutCancelled, TouchPointer 0 0 1]"
proof -
  let ?t = "counting_touchpad\<lparr>tapped := True, prefDragging := True\<rparr>"
  have m: "packet_movement milli_fpu (still_packet 80) ?t = Some (0, 0)" by (simp add: still)
  have n: "packet_fingers milli_fpu (still_packet 80) ?t = 1" by (simp add: still)
  obtain t' where t': "dispatchAbsolutePacket milli_fpu (0, 12500) (still_packet 80) ?t = Some t'"
    using dispatch_defined [OF m] by blast
  have "event t' = DRAGGING \<and> \<not> tapped t' \<and> dragLocked t' = (prefDragLock ?t \<or> dragLocked ?t) \<and>
    touchpadEvents t' = touchpadEvents ?t @ [DragTimeoutCancelled, TouchPointer 0 0 1]"
    by (rule second_touch_drags [OF _ _ _ _ _ _ _ _ n _ _ t']) (simp_all add: still absolute_buttons_def)
  then show ?thesis using t' by simp
qed

end
