(* ===== verification/Ps2SynapticsLink.thy ===== *)
theory Ps2SynapticsLink
  imports Ps2SynapticsProps
begin

text \<open>
  The Synaptics driver and its device together: the query protocol carried out by the driver's
  requests, the identification at probe and start, and the stream of bytes of the packets.
\<close>

section \<open>The query protocol\<close>

text \<open>
  A device that is queried through resolution commands: it acknowledges every byte, shifts the
  argument of each resolution command into a byte, and answers a status request with the three
  bytes its answer to that selector has. \<open>expects\<close> says that an argument is due.
\<close>

definition query_law ::
  "('d \<Rightarrow> u8 \<Rightarrow> u8 list \<times> 'd) \<Rightarrow> ('d \<Rightarrow> bool) \<Rightarrow> ('d \<Rightarrow> u8) \<Rightarrow> (u8 \<Rightarrow> u8 \<times> u8 \<times> u8) \<Rightarrow> bool" where
  "query_law react expects selected answer \<longleftrightarrow>
     (\<forall>d b. \<not> expects d \<and> (b = kDP_SetDefaultsAndDisable \<or> b = kDP_SetMouseResolution) \<longrightarrow>
        fst (react d b) = [kSC_Acknowledge] \<and> selected (snd (react d b)) = selected d \<and>
        (expects (snd (react d b)) \<longleftrightarrow> b = kDP_SetMouseResolution)) \<and>
     (\<forall>d b. expects d \<longrightarrow> fst (react d b) = [kSC_Acknowledge] \<and> \<not> expects (snd (react d b)) \<and>
        selected (snd (react d b)) = push_bit 2 (selected d) OR b) \<and>
     (\<forall>d a b c. \<not> expects d \<longrightarrow> answer (selected d) = (a, b, c) \<longrightarrow>
        fst (react d kDP_GetMouseInformation) = [kSC_Acknowledge, a, b, c] \<and>
        \<not> expects (snd (react d kDP_GetMouseInformation)))"

definition selector_exchanges :: "u8 \<Rightarrow> exchange list" where
  "selector_exchanges q = [Send kDP_SetMouseResolution, Send (drop_bit 6 q AND 0x3),
     Send kDP_SetMouseResolution, Send (drop_bit 4 q AND 0x3),
     Send kDP_SetMouseResolution, Send (drop_bit 2 q AND 0x3),
     Send kDP_SetMouseResolution, Send (drop_bit 0 q AND 0x3)]"

definition query_exchanges :: "u8 \<Rightarrow> exchange list" where
  "query_exchanges q =
     selector_exchanges q @ [Send kDP_GetMouseInformation, Receive, Receive, Receive]"

lemma query_commands:
  "map exchange_command (Send kDP_SetDefaultsAndDisable # query_exchanges q) = touchpad_data_commands q"
  by (simp add: query_exchanges_def selector_exchanges_def touchpad_data_commands_def selector_commands_def)

text \<open>One resolution command and its argument.\<close>

lemma query_pair:
  assumes "query_law react expects selected answer" "\<not> expects d"
  obtains d' where "\<not> expects d'" "selected d' = push_bit 2 (selected d) OR b"
    "\<forall>es. converse react d [] (Send kDP_SetMouseResolution # Send b # es) =
      map_option (\<lambda>(rs, out, d). (kDP_SetMouseResolution # b # rs, out, d)) (converse react d' [] es)"
proof -
  define d1 where "d1 = snd (react d kDP_SetMouseResolution)"
  have 1: "fst (react d kDP_SetMouseResolution) = [kSC_Acknowledge]" "selected d1 = selected d" "expects d1"
    using assms by (auto simp: query_law_def d1_def)
  have 2: "fst (react d1 b) = [kSC_Acknowledge]" "\<not> expects (snd (react d1 b))"
    "selected (snd (react d1 b)) = push_bit 2 (selected d) OR b"
    using assms(1) 1 by (auto simp: query_law_def)
  show ?thesis
    by (rule that [of "snd (react d1 b)"])
      (use 1 2 in \<open>auto simp: d1_def [symmetric] option.map_comp comp_def case_prod_beta'\<close>)
qed

lemma two_bits_shift:
  "push_bit 2 (push_bit 2 (push_bit 2 (push_bit 2 s OR (drop_bit 6 q AND 3)) OR (drop_bit 4 q AND 3)) OR
     (drop_bit 2 q AND 3)) OR (drop_bit 0 q AND 3) = (q :: u8)"
proof (rule bit_word_eqI)
  fix n
  assume n: "n < LENGTH(8)"
  note f = bit_or_iff bit_push_bit_iff bit_and_iff bit_drop_bit_eq bits_of_masks comp_def
  from n have "n \<in> {0, 1, 2, 3, 4, 5, 6, 7}" by auto
  then show "bit (push_bit 2 (push_bit 2 (push_bit 2 (push_bit 2 s OR (drop_bit 6 q AND 3)) OR (drop_bit 4 q AND 3)) OR
     (drop_bit 2 q AND 3)) OR (drop_bit 0 q AND 3)) n = bit q n"
    unfolding f by (auto simp: numeral_2_eq_2 numeral_3_eq_3)
qed

lemma query_converse_then:
  assumes "query_law react expects selected answer" "\<not> expects d" "answer q = (a, b, c)"
  obtains rs d' where "\<forall>es. converse react d [] (Send kDP_SetDefaultsAndDisable # query_exchanges q @ es) =
      map_option (\<lambda>(rs', out, d). (rs @ rs', out, d)) (converse react d' [] es)"
    "length rs = 13" "rs ! 10 = a" "rs ! 11 = b" "rs ! 12 = c" "\<not> expects d'"
proof -
  note law = assms(1)
  define d0 where "d0 = snd (react d kDP_SetDefaultsAndDisable)"
  have 0: "fst (react d kDP_SetDefaultsAndDisable) = [kSC_Acknowledge]" "\<not> expects d0"
    using law assms(2) by (auto simp: query_law_def d0_def)
  obtain d1 where 1: "\<not> expects d1" "selected d1 = push_bit 2 (selected d0) OR (drop_bit 6 q AND 3)"
    "\<forall>es. converse react d0 [] (Send kDP_SetMouseResolution # Send (drop_bit 6 q AND 3) # es) =
      map_option (\<lambda>(rs, out, d). (kDP_SetMouseResolution # (drop_bit 6 q AND 3) # rs, out, d)) (converse react d1 [] es)"
    by (rule query_pair [OF law 0(2), where b = "drop_bit 6 q AND 3"])
  obtain d2 where 2: "\<not> expects d2" "selected d2 = push_bit 2 (selected d1) OR (drop_bit 4 q AND 3)"
    "\<forall>es. converse react d1 [] (Send kDP_SetMouseResolution # Send (drop_bit 4 q AND 3) # es) =
      map_option (\<lambda>(rs, out, d). (kDP_SetMouseResolution # (drop_bit 4 q AND 3) # rs, out, d)) (converse react d2 [] es)"
    by (rule query_pair [OF law 1(1), where b = "drop_bit 4 q AND 3"])
  obtain d3 where 3: "\<not> expects d3" "selected d3 = push_bit 2 (selected d2) OR (drop_bit 2 q AND 3)"
    "\<forall>es. converse react d2 [] (Send kDP_SetMouseResolution # Send (drop_bit 2 q AND 3) # es) =
      map_option (\<lambda>(rs, out, d). (kDP_SetMouseResolution # (drop_bit 2 q AND 3) # rs, out, d)) (converse react d3 [] es)"
    by (rule query_pair [OF law 2(1), where b = "drop_bit 2 q AND 3"])
  obtain d4 where 4: "\<not> expects d4" "selected d4 = push_bit 2 (selected d3) OR (drop_bit 0 q AND 3)"
    "\<forall>es. converse react d3 [] (Send kDP_SetMouseResolution # Send (drop_bit 0 q AND 3) # es) =
      map_option (\<lambda>(rs, out, d). (kDP_SetMouseResolution # (drop_bit 0 q AND 3) # rs, out, d)) (converse react d4 [] es)"
    by (rule query_pair [OF law 3(1), where b = "drop_bit 0 q AND 3"])
  have "selected d4 = q" unfolding 4(2) 3(2) 2(2) 1(2) by (rule two_bits_shift)
  then have 5: "fst (react d4 kDP_GetMouseInformation) = [kSC_Acknowledge, a, b, c]"
    "\<not> expects (snd (react d4 kDP_GetMouseInformation))"
    using law 4(1) assms(3) by (auto simp: query_law_def)
  have first: "converse react d [] (Send kDP_SetDefaultsAndDisable # es) =
      map_option (\<lambda>(rs, out, d). (kDP_SetDefaultsAndDisable # rs, out, d)) (converse react d0 [] es)" for es
    by (simp add: 0(1) d0_def [symmetric])
  have last: "converse react d4 [] (Send kDP_GetMouseInformation # Receive # Receive # Receive # es) =
      map_option (\<lambda>(rs', out, d). (kDP_GetMouseInformation # a # b # c # rs', out, d))
        (converse react (snd (react d4 kDP_GetMouseInformation)) [] es)" for es
    by (simp add: 5(1) option.map_comp comp_def case_prod_beta')
  show ?thesis
  proof (rule that [of "[kDP_SetDefaultsAndDisable, kDP_SetMouseResolution, drop_bit 6 q AND 3,
      kDP_SetMouseResolution, drop_bit 4 q AND 3, kDP_SetMouseResolution, drop_bit 2 q AND 3,
      kDP_SetMouseResolution, drop_bit 0 q AND 3, kDP_GetMouseInformation, a, b, c]"
      "snd (react d4 kDP_GetMouseInformation)"])
    show "\<forall>es. converse react d [] (Send kDP_SetDefaultsAndDisable # query_exchanges q @ es) =
      map_option (\<lambda>(rs', out, d). ([kDP_SetDefaultsAndDisable, kDP_SetMouseResolution, drop_bit 6 q AND 3,
        kDP_SetMouseResolution, drop_bit 4 q AND 3, kDP_SetMouseResolution, drop_bit 2 q AND 3,
        kDP_SetMouseResolution, drop_bit 0 q AND 3, kDP_GetMouseInformation, a, b, c] @ rs', out, d))
       (converse react (snd (react d4 kDP_GetMouseInformation)) [] es)"
      unfolding query_exchanges_def selector_exchanges_def append_Cons append_Nil
      by (simp only: first 1(3) [rule_format] 2(3) [rule_format] 3(3) [rule_format] 4(3) [rule_format] last
          option.map_comp comp_def case_prod_beta' fst_conv snd_conv simp_thms)
  qed (simp_all add: 5(2))
qed

lemma query_converse:
  assumes "query_law react expects selected answer" "\<not> expects d" "answer q = (a, b, c)"
  obtains rs d' where "converse react d [] (Send kDP_SetDefaultsAndDisable # query_exchanges q) = Some (rs, [], d')"
    "rs ! 10 = a" "rs ! 11 = b" "rs ! 12 = c" "\<not> expects d'"
proof -
  obtain rs d' where c: "\<forall>es. converse react d [] (Send kDP_SetDefaultsAndDisable # query_exchanges q @ es) =
      map_option (\<lambda>(rs', out, d). (rs @ rs', out, d)) (converse react d' [] es)"
    "length rs = 13" "rs ! 10 = a" "rs ! 11 = b" "rs ! 12 = c" "\<not> expects d'"
    by (rule query_converse_then [OF assms])
  from c(1) [rule_format, of "[]"] show ?thesis using that [of rs d'] c(3-6) by simp
qed

text \<open>The machine is idle and the link empty; \<open>ready\<close> of the device's state.\<close>

definition link_ready ::
  "('h, 'z) env \<Rightarrow> ('h \<Rightarrow> (PS2DeviceType \<times> u8) list) \<Rightarrow> ('h \<Rightarrow> 'd) \<Rightarrow> ('d \<Rightarrow> bool) \<Rightarrow> ('h, 'z) ctl_scheme \<Rightarrow> bool" where
  "link_ready E pend dev expects s \<longleftrightarrow> pend (hw s) = [] \<and> requestQueue s = [] \<and> \<not> hardwareOffline s \<and>
     \<not> expects (dev (hw s))"

definition link_laws ::
  "('h, 'z) env \<Rightarrow> ('h \<Rightarrow> (PS2DeviceType \<times> u8) list) \<Rightarrow> ('h \<Rightarrow> bool) \<Rightarrow> ('h \<Rightarrow> 'd)
     \<Rightarrow> ('d \<Rightarrow> u8 \<Rightarrow> u8 list \<times> 'd) \<Rightarrow> ('d \<Rightarrow> bool) \<Rightarrow> ('d \<Rightarrow> u8) \<Rightarrow> (u8 \<Rightarrow> u8 \<times> u8 \<times> u8) \<Rightarrow> bool" where
  "link_laws E pend routed dev react expects selected answer \<longleftrightarrow>
     input_ready_law E \<and> output_buffer_law E pend \<and> link_law E pend routed dev react \<and>
     query_law react expects selected answer"

definition answer_of :: "u8 \<times> u8 \<times> u8 \<Rightarrow> u32" where
  "answer_of = (\<lambda>(a, b, c). push_bit 16 (ucast a) OR push_bit 8 (ucast b) OR ucast c)"

text \<open>A blocking request of acknowledged commands and reads, when the link is ready.\<close>

lemma blocking_exchanges:
  assumes "link_laws E pend routed dev react expects selected answer" "link_ready E pend dev expects s"
    and "converse react (dev (hw s)) [] (Send x # es) = Some (rs, [], d')" "\<not> expects d'" "length es < kMaxCommands"
  obtains r s' where "blocking_request E (map exchange_command (Send x # es)) s = Some (r, s')"
    "commandsCount r = of_nat (length (Send x # es))" "\<forall>i\<le>length es. inOrOut (commands r ! i) = rs ! i"
    "link_ready E pend dev expects s'" "undisturbed s s'" "dev (hw s') = d'"
proof -
  note laws = assms(1) [unfolded link_laws_def] and ready = assms(2) [unfolded link_ready_def]
  let ?s = "s\<lparr>liveRequests := liveRequests s + 1\<rparr>"
  from laws have l: "input_ready_law E" "output_buffer_law E pend" "link_law E pend routed dev react" by simp_all
  obtain r s' where r: "submitRequestAndBlock E (set_commands (map exchange_command (Send x # es)) zeroed_request) ?s = Some (r, s')"
    "commandsCount r = of_nat (length (Send x # es))" "\<And>i. i \<le> length es \<Longrightarrow> inOrOut (commands r ! i) = rs ! i"
    "undisturbed ?s s'" "pend (hw s') = map (Pair kDT_Mouse) []" "dev (hw s') = d'"
    by (rule submit_exchanges [OF l, where s = ?s and r = zeroed_request and b = x and es = es and rs = rs and out' = "[]" and d' = d'])
      (use ready assms(3,5) in simp_all)
  have "link_ready E pend dev expects (freeRequest s')"
    using undisturbed_fields [OF r(4)] r(5,6) ready assms(4) by (simp add: link_ready_def freeRequest_def)
  moreover have "undisturbed s (freeRequest s')"
    using r(4) by (simp add: undisturbed_def freeRequest_def ctl.truncate_def)
  moreover have "dev (hw (freeRequest s')) = d'" using r(6) by (simp add: freeRequest_def)
  ultimately have s': "link_ready E pend dev expects (freeRequest s')" "undisturbed s (freeRequest s')"
    "dev (hw (freeRequest s')) = d'" by simp_all
  then show ?thesis
    using that [of r "freeRequest s'", OF _ r(2) _ s'] r(3) r(1) by (simp add: blocking_request_def allocateRequest_def)
qed

lemma getTouchPadData_answers:
  assumes "link_laws E pend routed dev react expects selected answer" "link_ready E pend dev expects s"
  shows "\<exists>s'. synaptics_getTouchPadData E q s = Some (answer_of (answer q), s') \<and>
    link_ready E pend dev expects s' \<and> undisturbed s s'"
proof -
  note laws = assms(1) [unfolded link_laws_def] and ready = assms(2) [unfolded link_ready_def]
  obtain a b c where abc: "answer q = (a, b, c)" by (cases "answer q") auto
  obtain rs d' where conv: "converse react (dev (hw s)) [] (Send kDP_SetDefaultsAndDisable # query_exchanges q) =
      Some (rs, [], d')" "rs ! 10 = a" "rs ! 11 = b" "rs ! 12 = c" "\<not> expects d'"
    using query_converse [of react expects selected answer "dev (hw s)" q] laws ready abc by blast
  have len: "length (query_exchanges q) = 12" by (simp add: query_exchanges_def selector_exchanges_def)
  obtain r s' where r: "blocking_request E (touchpad_data_commands q) s = Some (r, s')" "commandsCount r = 13"
    "\<forall>i\<le>12. inOrOut (commands r ! i) = rs ! i" "link_ready E pend dev expects s'" "undisturbed s s'"
    by (rule blocking_exchanges [OF assms conv(1,5), unfolded query_commands len]) (auto simp: len)
  have "answer_word r = answer_of (answer q)"
    using r(3) conv(2-4) by (simp add: answer_word_def answer_of_def abc)
  then show ?thesis using r by (simp add: synaptics_getTouchPadData_def)
qed


text \<open>C28. A question to the touchpad, from the driver's thirteen commands down to the port accesses
  and back: on an idle controller with a device that follows the query protocol,
  \<open>getTouchPadData\<close> returns the three bytes the device answers to exactly that selector, and
  leaves controller and device ready for the next question.\<close>

theorem getTouchPadData_answer:
  assumes "link_laws E pend routed dev react expects selected answer" "link_ready E pend dev expects s"
  shows "\<exists>s'. synaptics_getTouchPadData E q s = Some (answer_of (answer q), s') \<and>
    link_ready E pend dev expects s' \<and> undisturbed s s'"
  using getTouchPadData_answers [OF assms] by blast

section \<open>Probe\<close>

lemma probe_commands:
  "map exchange_command (Send kDP_SetDefaultsAndDisable # query_exchanges kST_IdentifyTouchpad @
     [Send kDP_SetDefaultsAndDisable]) = synaptics_probe_commands"
  by (simp add: query_exchanges_def selector_exchanges_def synaptics_probe_commands_def selector_commands_def)

lemma version_word_supported: "0x400 \<le> version_word c a \<longleftrightarrow> 4 \<le> c AND 0x0F"
proof -
  have "drop_bit 8 (version_word c a) = ucast (c AND 0x0F)"
    by (rule bit_word_eqI)
      (auto simp: version_word_def bit_drop_bit_eq bit_or_iff bit_push_bit_iff bit_unsigned_iff dest: bit_imp_le_length)
  from arg_cong [OF this, of unat] have "drop_bit 8 (unat (version_word c a)) = unat (ucast (c AND 0x0F) :: u16)"
    by (simp only: unat_drop_bit_eq)
  moreover have "unat (ucast (c AND 0x0F) :: u16) = unat (c AND 0x0F)"
    using unsigned_less [of "c AND 0x0F", where 'a = nat] by (simp only: unsigned_ucast_eq) (simp add: take_bit_nat_eq_self)
  ultimately have "unat (version_word c a) div 256 = unat (c AND 0x0F)"
    by (simp add: drop_bit_eq_div)
  then show ?thesis
    using less_eq_div_iff_mult_less_eq [of 256 4 "unat (version_word c a)"] by (simp add: word_le_nat_alt)
qed

lemma synaptics_probe_blocking:
  assumes "blocking_request E synaptics_probe_commands s = Some (r, s')"
  shows "\<exists>s1. s' = freeRequest s1 \<and> synaptics_probe E True s =
    (let s1 = synaptics_update (\<lambda>t. t\<lparr>touchpadInformation := information_word r\<rparr>) s1;
         (success, s1) =
           (if commandsCount r = 14 \<and> inOrOut (commands r ! 11) = 0x47
            then (let s1 = synaptics_update (\<lambda>t. t\<lparr>tpVersion :=
                      version_word (inOrOut (commands r ! 12)) (inOrOut (commands r ! 10))\<rparr>) s1
                  in (0x400 \<le> tpVersion (synaptics s1), s1))
            else (False, s1))
     in Some (success, freeRequest s1))"
proof -
  obtain s1 where "submitRequestAndBlock E (set_commands synaptics_probe_commands zeroed_request)
      (s\<lparr>liveRequests := liveRequests s + 1\<rparr>) = Some (r, s1)" "s' = freeRequest s1"
    using assms by (auto simp: blocking_request_def bind_Some_iff allocateRequest_def)
  then show ?thesis by (intro exI [of _ s1]) (simp add: synaptics_probe_def allocateRequest_def)
qed

text \<open>The probe claims exactly the touchpads that identify themselves as Synaptics (0x47 in the
  middle of the answer to the identify query) with a version of at least 4, and keeps the
  version they report.\<close>

theorem probe_claims_supported:
  assumes "link_laws E pend routed dev react expects selected answer" "link_ready E pend dev expects s"
    and "answer kST_IdentifyTouchpad = (a, b, c)"
  shows "\<exists>s'. synaptics_probe E True s = Some (b = 0x47 \<and> 4 \<le> c AND 0x0F, s') \<and>
    (b = 0x47 \<longrightarrow> tpVersion (synaptics s') = version_word c a) \<and> link_ready E pend dev expects s'"
proof -
  note laws = assms(1) [unfolded link_laws_def] and ready = assms(2) [unfolded link_ready_def]
  obtain rs d' where c: "\<forall>es. converse react (dev (hw s)) [] (Send kDP_SetDefaultsAndDisable # query_exchanges kST_IdentifyTouchpad @ es) =
      map_option (\<lambda>(rs', out, d). (rs @ rs', out, d)) (converse react d' [] es)"
    "length rs = 13" "rs ! 10 = a" "rs ! 11 = b" "rs ! 12 = c" "\<not> expects d'"
    using query_converse_then [of react expects selected answer "dev (hw s)" kST_IdentifyTouchpad] laws ready assms(3) by blast
  have "fst (react d' kDP_SetDefaultsAndDisable) = [kSC_Acknowledge]" "\<not> expects (snd (react d' kDP_SetDefaultsAndDisable))"
    using laws c(6) by (auto simp: query_law_def)
  then have conv: "converse react (dev (hw s)) [] (Send kDP_SetDefaultsAndDisable # query_exchanges kST_IdentifyTouchpad @
       [Send kDP_SetDefaultsAndDisable]) = Some (rs @ [kDP_SetDefaultsAndDisable], [], snd (react d' kDP_SetDefaultsAndDisable))"
    "\<not> expects (snd (react d' kDP_SetDefaultsAndDisable))"
    using c(1) [rule_format, of "[Send kDP_SetDefaultsAndDisable]"] by simp_all
  have len: "length (query_exchanges kST_IdentifyTouchpad) = 12" by (simp add: query_exchanges_def selector_exchanges_def)
  obtain r s' where r: "blocking_request E synaptics_probe_commands s = Some (r, s')" "commandsCount r = 14"
    "\<forall>i\<le>13. inOrOut (commands r ! i) = (rs @ [kDP_SetDefaultsAndDisable]) ! i" "link_ready E pend dev expects s'"
    by (rule blocking_exchanges [OF assms(1,2) conv, unfolded probe_commands]) (auto simp: len)
  have bytes: "inOrOut (commands r ! 10) = a" "inOrOut (commands r ! 11) = b" "inOrOut (commands r ! 12) = c"
    using r(3) c(2-5) by (simp_all add: nth_append)
  obtain s1 where "s' = freeRequest s1" "synaptics_probe E True s =
    (let s1 = synaptics_update (\<lambda>t. t\<lparr>touchpadInformation := information_word r\<rparr>) s1;
         (success, s1) =
           (if b = 0x47
            then (let s1 = synaptics_update (\<lambda>t. t\<lparr>tpVersion := version_word c a\<rparr>) s1
                  in (0x400 \<le> tpVersion (synaptics s1), s1))
            else (False, s1))
     in Some (success, freeRequest s1))"
    using synaptics_probe_blocking [OF r(1)] r(2) bytes by auto
  then show ?thesis
    using r(4) by (simp add: Let_def version_word_supported link_ready_def freeRequest_def)
qed


section \<open>A concrete device\<close>

fun query_react :: "(u8 \<Rightarrow> u8 \<times> u8 \<times> u8) \<Rightarrow> bool \<times> u8 \<Rightarrow> u8 \<Rightarrow> u8 list \<times> bool \<times> u8" where
  "query_react answer (True, q) b = ([kSC_Acknowledge], False, push_bit 2 q OR b)"
| "query_react answer (False, q) b =
     (if b = kDP_SetMouseResolution then ([kSC_Acknowledge], True, q)
      else if b = kDP_GetMouseInformation
        then (case answer q of (x, y, z) \<Rightarrow> ([kSC_Acknowledge, x, y, z], False, q))
      else ([kSC_Acknowledge], False, q))"

lemma query_react_law: "query_law (query_react answer) fst snd answer"
  unfolding query_law_def by (auto split: prod.splits)

lemma query_env_laws:
  "link_laws (linked_env (query_react answer)) fst (\<lambda>h. fst (snd h)) (\<lambda>h. snd (snd h)) (query_react answer) fst snd answer"
  by (simp add: link_laws_def linked_env_laws query_react_law)

definition init_synaptics :: "'h \<Rightarrow> 'f touchpad \<Rightarrow> ('h, 'f) synaptics_machine" where
  "init_synaptics h t = pad_machine.extend (init_pads h) (synaptics_machine.fields t)"

lemma init_synaptics_simps [simp]:
  "synaptics (init_synaptics h t) = t" "hw (init_synaptics h t) = h" "requestQueue (init_synaptics h t) = []"
  "\<not> hardwareOffline (init_synaptics h t)"
  by (simp_all add: init_synaptics_def pad_machine.extend_def synaptics_machine.fields_def init_pads_def
      machine.extend_def pad_machine.fields_def init_machine_def ctl.extend_def machine.fields_def init_controller_def)

lemma init_link_ready:
  "link_ready E fst (\<lambda>h. snd (snd h)) fst (init_synaptics ([], w, False, q) t)"
  by (simp add: link_ready_def)

theorem getTouchPadData_answer_witness:
  "\<exists>s'. synaptics_getTouchPadData (linked_env (query_react (\<lambda>q. (0x80, 0x47, q)))) kST_getCapabilities
     (init_synaptics ([], False, False, 0) zeroed_touchpad) = Some (0x804702, s')"
  using getTouchPadData_answer [OF query_env_laws init_link_ready, of "\<lambda>q. (0x80, 0x47, q)" kST_getCapabilities False 0 zeroed_touchpad]
  by (auto simp: answer_of_def)

theorem probe_claims_supported_witness:
  "\<exists>s'. synaptics_probe (linked_env (query_react (\<lambda>q. (0x01, 0x47, 0x14)))) True
     (init_synaptics ([], False, False, 0) zeroed_touchpad) = Some (True, s')"
  using probe_claims_supported [OF query_env_laws init_link_ready, of "\<lambda>q. (0x01, 0x47, 0x14)" "0x01" "0x47" "0x14" False 0 zeroed_touchpad]
  by auto

end
