(* ===== verification/Ps2SynapticsStream.thy ===== *)
theory Ps2SynapticsStream
  imports Ps2SynapticsLink
begin

text \<open>
  The stream of bytes behind the packets: the buffer is never overrun, six bytes make one
  packet; and the start of the driver: the mode it chooses and what it needs of the keyboard.
\<close>

section \<open>The packet buffer\<close>

definition packet_room :: "'f touchpad \<Rightarrow> bool" where
  "packet_room t \<longleftrightarrow> length (tpPacketBuffer t) = 6 \<and>
     tpPacketByteCount t < (if ABSOLUTE_MODE t then ABSOLUTE_PACKET_SIZE else RELATIVE_PACKET_SIZE)"

text \<open>What the handlers of packets leave alone.\<close>

definition assembly :: "'f touchpad \<Rightarrow> u8 list \<times> u8" where
  "assembly t = (tpPacketBuffer t, tpModeByte t)"

lemma assembly_simps [simp]:
  "assembly (touch_event e t) = assembly t" "assembly (t\<lparr>event := ev\<rparr>) = assembly t"
  "assembly (t\<lparr>settleTime := st\<rparr>) = assembly t" "assembly (t\<lparr>dragging := d\<rparr>) = assembly t"
  "assembly (t\<lparr>tapped := d\<rparr>) = assembly t" "assembly (t\<lparr>dragLocked := d\<rparr>) = assembly t"
  "assembly (t\<lparr>streamdt := u\<rparr>) = assembly t" "assembly (t\<lparr>streamdx := x\<rparr>) = assembly t"
  "assembly (t\<lparr>streamdy := x\<rparr>) = assembly t" "assembly (t\<lparr>prevDX := x\<rparr>) = assembly t"
  "assembly (t\<lparr>prevDY := x\<rparr>) = assembly t" "assembly (t\<lparr>prevButtons := b\<rparr>) = assembly t"
  "assembly (remember_packet now k t) = assembly t" "assembly (streamed now dx dy t) = assembly t"
  "assembly (dispatchSwipeEvent w t) = assembly t" "assembly (t\<lparr>prevPacketSecond := x\<rparr>) = assembly t"
  "assembly (t\<lparr>prevPacketTime := x\<rparr>) = assembly t" "assembly (edge_scrolling F k t) = assembly t"
  "assembly (begin_dragging t) = assembly t" "assembly (select_event dt n p t) = assembly t"
  by (simp_all add: assembly_def touch_event_def remember_packet_def streamed_def dispatchSwipeEvent_def
      edge_scrolling_def begin_dragging_def select_event_eq)

lemma new_stream_assembly: "new_stream t k = (t', k') \<Longrightarrow> assembly t' = assembly t"
  by (auto simp: new_stream_def Let_def split: if_splits)

lemma end_of_stream_assembly: "end_of_stream t k = (t', k') \<Longrightarrow> assembly t' = assembly t"
  by (auto simp: end_of_stream_def end_scrolling_def end_movement_def end_dragging_def end_swipe_def Let_def
      split: if_splits)

lemma event_changed_assembly: "event_changed t k = (t', k') \<Longrightarrow> assembly t' = assembly t"
  using new_stream_assembly [of t k t' k'] end_of_stream_assembly [of t k t' k']
  by (auto simp: event_changed_def split: if_splits)

lemma settle_assembly: "settle F t k = (t', k') \<Longrightarrow> assembly t' = assembly t"
  by (auto simp: settle_def Let_def dest: event_changed_assembly split: if_splits prod.splits)

lemma send_events_assembly: "send_events t k = (t', k') \<Longrightarrow> assembly t' = assembly t"
  by (auto simp: send_events_def send_movement_def Let_def split: if_splits prod.splits)

lemma dispatchAbsolutePacket_assembly:
  assumes "dispatchAbsolutePacket F now packet t = Some t'"
  shows "assembly t' = assembly t"
proof -
  obtain dx dy t1 k1 t2 k2 where
    "settle F (select_event (packet_interval now t) (skFingers (first_stroke F packet dx dy t)) (event t)
       (streamed now dx dy t)) (first_stroke F packet dx dy t) = (t1, k1)"
    "send_events t1 k1 = (t2, k2)" "t' = remember_packet now k2 t2"
    by (rule dispatchAbsolutePacket_stages [OF assms])
  then show ?thesis using settle_assembly send_events_assembly by fastforce
qed

lemma dispatchRelativePacket_assembly: "assembly (dispatchRelativePacket F now packet t) = assembly t"
  by (simp add: dispatchRelativePacket_def relative_buttons_def Let_def split: prod.splits)

lemma packet_room_assembly:
  "assembly t' = assembly t \<Longrightarrow> packet_room (t'\<lparr>tpPacketByteCount := n\<rparr>) = packet_room (t\<lparr>tpPacketByteCount := n\<rparr>)"
  by (simp add: assembly_def packet_room_def ABSOLUTE_MODE_def)

lemma take_byte_room:
  assumes "packet_room t" "take_byte F c data t = Inr t'"
  shows "packet_room t'"
proof -
  let ?t = "touch_store data t"
  have a: "assembly ?t = (( tpPacketBuffer t)[tpPacketByteCount t := data], tpModeByte t)"
    by (simp add: assembly_def touch_store_def)
  have reset: "packet_room (u\<lparr>tpPacketByteCount := 0\<rparr>)" if "assembly u = assembly ?t" for u :: "'a touchpad"
    using that assms(1) a by (auto simp: assembly_def packet_room_def ABSOLUTE_MODE_def)
  have abs: "ABSOLUTE_MODE ?t = ABSOLUTE_MODE t" by (simp add: ABSOLUTE_MODE_def touch_store_def)
  show ?thesis
  proof (cases "(\<not> ABSOLUTE_MODE ?t \<and> tpPacketByteCount ?t = 3) \<or> (ABSOLUTE_MODE ?t \<and> tpPacketByteCount ?t = 6)")
    case True
    then show ?thesis
      using assms(2)
      by (auto simp: take_byte_def Let_def split: if_splits option.splits
          intro!: reset dispatchRelativePacket_assembly dest: dispatchAbsolutePacket_assembly)
  next
    case False
    then have "t' = ?t" using assms(2) by (auto simp: take_byte_def Let_def split: if_splits)
    then show ?thesis
      using assms(1) False abs by (auto simp: packet_room_def touch_store_def split: if_splits)
  qed
qed


text \<open>The driver's own requests, when the other drivers' actions leave the touchpad's buffer alone.\<close>

definition keeps_room :: "('h, 'f, 'z) synaptics_env \<Rightarrow> bool" where
  "keeps_room E \<longleftrightarrow> (\<forall>a t b s s'. runInterruptAction E a t b s = Some s' \<longrightarrow>
     packet_room (synaptics s) \<longrightarrow> packet_room (synaptics s'))"

lemma synaptics_more: "ctl.more s' = ctl.more s \<Longrightarrow> synaptics s' = synaptics s"
  by (cases s; cases s') simp

lemma keeps_room_driver: "keeps_room E \<Longrightarrow> keeps_driver E (\<lambda>s. packet_room (synaptics s))"
  unfolding keeps_driver_def keeps_room_def using synaptics_more by metis

lemma synaptics_commands_room:
  assumes "keeps_room E" "packet_room (synaptics s)"
  shows "synaptics_setTouchPadEnable E e s = Some s' \<Longrightarrow> packet_room (synaptics s')"
    "synaptics_setTouchPadModeByte E m b s = Some (r, s') \<Longrightarrow> packet_room (synaptics s')"
    "synaptics_setCommandByte E x y s = Some s' \<Longrightarrow> packet_room (synaptics s')"
proof -
  note drv = keeps_room_driver [OF assms(1)]
  show "packet_room (synaptics s')" if "synaptics_setTouchPadEnable E e s = Some s'"
    using that blocking_request_driver [OF _ drv assms(2)]
    by (auto simp: synaptics_setTouchPadEnable_def bind_Some_iff)
  show "packet_room (synaptics s')" if "synaptics_setTouchPadModeByte E m b s = Some (r, s')"
    using that blocking_request_driver [OF _ drv assms(2)]
    by (auto simp: synaptics_setTouchPadModeByte_def bind_Some_iff)
  show "packet_room (synaptics s')" if set: "synaptics_setCommandByte E x y s = Some s'"
  proof -
    obtain r1 s1 where s1: "setCommandByte_loop E x y (fst (allocateRequest s)) (snd (allocateRequest s)) =
        Some (r1, s1)" "s' = freeRequest s1"
      using set by (auto simp: synaptics_setCommandByte_def bind_Some_iff split_beta)
    have "packet_room (synaptics (snd (allocateRequest s)))"
      by (rule keeps_more [OF drv assms(2)]) (simp add: same_more)
    then have "packet_room (synaptics s1)"
      using setCommandByte_loop_driver [OF s1(1) drv] by simp
    then show ?thesis by (rule keeps_more [OF drv]) (simp add: same_more s1(2))
  qed
qed

lemma packet_room_reset:
  "packet_room t \<Longrightarrow> packet_room (t\<lparr>tpPacketByteCount := 0, streamdx := 0, streamdy := 0, settleTime := 0,
     tapped := False, dragLocked := False\<rparr>)"
  by (auto simp: packet_room_def ABSOLUTE_MODE_def split: if_splits)

lemma setDevicePowerState_room:
  assumes "synaptics_setDevicePowerState E w s = Some s'" "keeps_room E" "packet_room (synaptics s)"
  shows "packet_room (synaptics s')"
proof (cases "w = kPS2C_EnableDevice")
  case True
  let ?f = "\<lambda>t. t\<lparr>tpPacketByteCount := 0, streamdx := 0, streamdy := 0, settleTime := 0, tapped := False,
     dragLocked := False\<rparr>"
  have "w \<noteq> kPS2C_DisableDevice" using True by simp
  then obtain r s1 s2 where run: "synaptics_setTouchPadModeByte E (tpModeByte (synaptics s)) False s = Some (r, s1)"
    "synaptics_setCommandByte E kCB_EnableMouseIRQ kCB_DisableMouseClock s1 = Some s2"
    "synaptics_setTouchPadEnable E True (synaptics_update ?f s2) = Some s'"
    using assms(1) True
    by (auto simp only: synaptics_setDevicePowerState_def bind_Some_iff split_paired_Ex prod.case Let_def if_False if_True simp_thms)
  have "packet_room (synaptics s1)" by (rule synaptics_commands_room(2) [OF assms(2,3) run(1)])
  then have "packet_room (synaptics s2)" by (rule synaptics_commands_room(3) [OF assms(2) _ run(2)])
  then have "packet_room (synaptics (synaptics_update ?f s2))" by (simp add: packet_room_reset)
  then show ?thesis by (rule synaptics_commands_room(1) [OF assms(2) _ run(3)])
next
  case False
  then have "synaptics_setTouchPadEnable E False s = Some s' \<or> s' = s"
    using assms(1) by (cases "w = kPS2C_DisableDevice") (simp_all add: synaptics_setDevicePowerState_def)
  then show ?thesis using assms(3) synaptics_commands_room(1) [OF assms(2,3)] by blast
qed

text \<open>The ways a byte is handled: skipped, taken as the sign of a reset, or stored.\<close>

definition skipped_byte :: "u8 \<Rightarrow> 'f touchpad \<Rightarrow> bool" where
  "skipped_byte data t \<longleftrightarrow> tpPacketByteCount t = 0 \<and>
     (data = kSC_Acknowledge \<or> \<not> ABSOLUTE_MODE t \<and> \<not> any_bit data 0x08)"

definition reset_byte :: "u8 \<Rightarrow> 'f touchpad \<Rightarrow> bool" where
  "reset_byte data t \<longleftrightarrow> tpPacketByteCount t = 0 \<and> ABSOLUTE_MODE t \<and> any_bit data 0x08"

lemma interruptOccurred_cases:
  "skipped_byte data (synaptics s) \<Longrightarrow> synaptics_interruptOccurred E F c data s = Some (Inr (), s)"
  "\<not> skipped_byte data (synaptics s) \<Longrightarrow> reset_byte data (synaptics s) \<Longrightarrow>
     synaptics_interruptOccurred E F c data s =
       map_option (Pair (Inr ())) (synaptics_setDevicePowerState E kPS2C_EnableDevice s)"
  "\<not> skipped_byte data (synaptics s) \<Longrightarrow> \<not> reset_byte data (synaptics s) \<Longrightarrow>
     synaptics_interruptOccurred E F c data s = (case take_byte F c data (synaptics s) of
       Inl e \<Rightarrow> Some (Inl e, s) | Inr t \<Rightarrow> Some (Inr (), synaptics_update (\<lambda>_. t) s))"
  unfolding synaptics_interruptOccurred_def skipped_byte_def reset_byte_def Let_def
  by (simp_all only: simp_thms if_True if_False split: if_splits) blast+


text \<open>The routine keeps room in the buffer when the actions that run meanwhile do.\<close>

lemma interruptOccurred_room:
  assumes "synaptics_interruptOccurred E F c data s = Some (r, s')" "keeps_room E" "packet_room (synaptics s)"
  shows "packet_room (synaptics s')"
proof (cases "skipped_byte data (synaptics s)")
  case True
  then have "s' = s" using assms(1) interruptOccurred_cases(1) [OF True] by simp
  then show ?thesis using assms(3) by simp
next
  case stored: False
  show ?thesis
  proof (cases "reset_byte data (synaptics s)")
    case True
    then have "synaptics_setDevicePowerState E kPS2C_EnableDevice s = Some s'"
      using assms(1) interruptOccurred_cases(2) [OF stored True] by auto
    then show ?thesis by (rule setDevicePowerState_room [OF _ assms(2,3)])
  next
    case False
    show ?thesis
    proof (cases "take_byte F c data (synaptics s)")
      case (Inl e)
      then have "s' = s" using assms(1) interruptOccurred_cases(3) [OF stored False, of E F c] by simp
      then show ?thesis using assms(3) by simp
    next
      case (Inr t)
      then have "s' = synaptics_update (\<lambda>_. t) s"
        using assms(1) interruptOccurred_cases(3) [OF stored False, of E F c] by simp
      then show ?thesis using take_byte_room [OF assms(3) Inr] by simp
    qed
  qed
qed

text \<open>
  The actions of the two drivers attached to the ports, the keyboard's and the touchpad's. They run again
  from inside the touchpad's routine, which waits for its requests: \<open>touch_env_of\<close> bounds that nesting by
  \<open>n\<close>. \<open>H\<close> gives the ports and the debugger, \<open>clock\<close> reads the time off the state of the hardware. An action
  that ends in an error does not return.
\<close>

definition touch_interrupt ::
  "('h, 'f, 'z) synaptics_env \<Rightarrow> 'f fpu \<Rightarrow> ('h \<Rightarrow> packet_clock) \<Rightarrow> action \<Rightarrow> u8
     \<Rightarrow> ('h, 'f, 'z) synaptics_machine_scheme \<Rightarrow> ('h, 'f, 'z) synaptics_machine_scheme option" where
  "touch_interrupt E F clock a data s =
     (if a = synapticsInterruptAction then
        (case synaptics_interruptOccurred E F (clock (hw s)) data s of Some (Inr _, s') \<Rightarrow> Some s' | _ \<Rightarrow> None)
      else if a = kbdInterruptAction then Some (keyboard_update (kbd_interruptOccurred data) s)
      else None)"

definition touch_power ::
  "('h, 'f, 'z) synaptics_env \<Rightarrow> action \<Rightarrow> obj \<Rightarrow> u32
     \<Rightarrow> ('h, 'f, 'z) synaptics_machine_scheme \<Rightarrow> ('h, 'f, 'z) synaptics_machine_scheme option" where
  "touch_power E a target whatToDo s =
     (if a = synapticsPowerAction then synaptics_setDevicePowerState E whatToDo s
      else if a = kbdPowerAction then do {
        (k, s) \<leftarrow> kbd_setDevicePowerState E target whatToDo (keyboard s) s;
        Some (keyboard_update (\<lambda>k0. k0\<lparr>kbdInterruptHandlerInstalled := kbdInterruptHandlerInstalled k\<rparr>) s)
      }
      else None)"

primrec touch_env_of ::
  "('h, 'f, 'z) synaptics_env \<Rightarrow> 'f fpu \<Rightarrow> ('h \<Rightarrow> packet_clock) \<Rightarrow> nat \<Rightarrow> ('h, 'f, 'z) synaptics_env" where
  "touch_env_of H F clock 0 = H\<lparr>runInterruptAction := (\<lambda>a t b s. None), runPowerControlAction := (\<lambda>a t w s. None)\<rparr>"
| "touch_env_of H F clock (Suc n) = H\<lparr>
     runInterruptAction := (\<lambda>a t. touch_interrupt (touch_env_of H F clock n) F clock a),
     runPowerControlAction := touch_power (touch_env_of H F clock n)\<rparr>"

lemma touch_interrupt_room:
  assumes "keeps_room E" "touch_interrupt E F clock a data s = Some s'" "packet_room (synaptics s)"
  shows "packet_room (synaptics s')"
proof (cases "a = synapticsInterruptAction")
  case True
  then obtain r where "synaptics_interruptOccurred E F (clock (hw s)) data s = Some (Inr r, s')"
    using assms(2) by (auto simp: touch_interrupt_def split: option.splits sum.splits)
  then show ?thesis using interruptOccurred_room [OF _ assms(1,3)] by blast
next
  case False
  then show ?thesis using assms(2,3) by (auto simp: touch_interrupt_def split: if_splits)
qed

lemma touch_env_keeps_room: "keeps_room (touch_env_of H F clock n)"
proof (induction n)
  case 0
  then show ?case by (simp add: keeps_room_def)
next
  case (Suc n)
  show ?case
    unfolding keeps_room_def by (auto dest: touch_interrupt_room [OF Suc.IH])
qed

text \<open>C37. Whatever bytes arrive, in whichever order, the touchpad's interrupt routine stores each inside
  its six-byte buffer and never leaves the buffer full. This includes the reset of the device from
  inside the routine, which waits for requests while further bytes reach the routine and the
  keyboard driver: for any hardware, any clock and any depth of that nesting.\<close>

theorem touchpad_buffer_safe:
  assumes "synaptics_interruptOccurred (touch_env_of H F clock n) F c data s = Some (r, s')" "packet_room (synaptics s)"
  shows "tpPacketByteCount (synaptics s) < length (tpPacketBuffer (synaptics s)) \<and>
    length (tpPacketBuffer (synaptics s')) = 6 \<and>
    tpPacketByteCount (synaptics s') <
      (if ABSOLUTE_MODE (synaptics s') then ABSOLUTE_PACKET_SIZE else RELATIVE_PACKET_SIZE)"
  using assms(2) interruptOccurred_room [OF assms(1) touch_env_keeps_room assms(2)]
  by (auto simp: packet_room_def split: if_splits)

section \<open>Six bytes are one packet\<close>

fun feed_bytes ::
  "('h, 'f, 'z) synaptics_env \<Rightarrow> 'f fpu \<Rightarrow> packet_clock \<Rightarrow> u8 list \<Rightarrow> ('h, 'f, 'z) synaptics_machine_scheme
     \<Rightarrow> ((kernel_error + unit) \<times> ('h, 'f, 'z) synaptics_machine_scheme) option" where
  "feed_bytes E F c [] s = Some (Inr (), s)"
| "feed_bytes E F c (b # bs) s =
     (case synaptics_interruptOccurred E F c b s of
        Some (Inr _, s') \<Rightarrow> feed_bytes E F c bs s'
      | r \<Rightarrow> r)"

text \<open>A byte that does not complete a packet is only stored.\<close>

lemma touch_interrupt_store:
  assumes "ABSOLUTE_MODE (synaptics s)" "tpPacketByteCount (synaptics s) < 5"
    and "tpPacketByteCount (synaptics s) = 0 \<Longrightarrow> b \<noteq> kSC_Acknowledge \<and> \<not> any_bit b 0x08"
  shows "synaptics_interruptOccurred E F c b s = Some (Inr (), synaptics_update (\<lambda>_. touch_store b (synaptics s)) s)"
proof -
  have "\<not> skipped_byte b (synaptics s)" "\<not> reset_byte b (synaptics s)"
    using assms by (auto simp: skipped_byte_def reset_byte_def)
  moreover have "take_byte F c b (synaptics s) = Inr (touch_store b (synaptics s))"
    using assms(1,2) by (simp add: take_byte_def touch_store_def ABSOLUTE_MODE_def Let_def)
  ultimately show ?thesis by (simp add: interruptOccurred_cases(3))
qed


lemma touch_store_simps [simp]:
  "tpPacketByteCount (touch_store b t) = tpPacketByteCount t + 1" "ABSOLUTE_MODE (touch_store b t) = ABSOLUTE_MODE t"
  by (simp_all add: touch_store_def ABSOLUTE_MODE_def)

lemma feed_store:
  "ABSOLUTE_MODE (synaptics s) \<Longrightarrow> tpPacketByteCount (synaptics s) + length bs \<le> 5 \<Longrightarrow>
   (tpPacketByteCount (synaptics s) = 0 \<Longrightarrow> bs \<noteq> [] \<Longrightarrow> hd bs \<noteq> kSC_Acknowledge \<and> \<not> any_bit (hd bs) 0x08) \<Longrightarrow>
   feed_bytes E F c (bs @ rest) s = feed_bytes E F c rest (synaptics_update (\<lambda>_. fold touch_store bs (synaptics s)) s)"
proof (induction bs arbitrary: s)
  case (Cons b bs)
  let ?s = "synaptics_update (\<lambda>_. touch_store b (synaptics s)) s"
  have "synaptics_interruptOccurred E F c b s = Some (Inr (), ?s)"
    by (rule touch_interrupt_store) (use Cons.prems in auto)
  then have "feed_bytes E F c ((b # bs) @ rest) s = feed_bytes E F c (bs @ rest) ?s" by simp
  also have "\<dots> = feed_bytes E F c rest (synaptics_update (\<lambda>_. fold touch_store bs (synaptics ?s)) ?s)"
    by (rule Cons.IH) (use Cons.prems in auto)
  finally show ?case by simp
qed simp

lemma six_stored:
  assumes "length (tpPacketBuffer t) = 6" "tpPacketByteCount t = 0"
  shows "fold touch_store [b0, b1, b2, b3, b4, b5] t = t\<lparr>tpPacketBuffer := [b0, b1, b2, b3, b4, b5], tpPacketByteCount := 6\<rparr>"
proof -
  obtain x0 x1 x2 x3 x4 x5 where "tpPacketBuffer t = [x0, x1, x2, x3, x4, x5]"
    using assms(1) by (auto simp: length_Suc_conv eval_nat_numeral)
  then show ?thesis
    using assms(2) by (simp add: touch_store_def numeral_2_eq_2 numeral_3_eq_3 eval_nat_numeral)
qed

lemma six_bytes_make_a_packet:
  assumes "ABSOLUTE_MODE (synaptics s)" "packet_room (synaptics s)" "tpPacketByteCount (synaptics s) = 0"
    and "b0 \<noteq> kSC_Acknowledge" "\<not> any_bit b0 0x08" "\<not> ignore_packet c (synaptics s)"
    and "dispatchAbsolutePacket F (systemTime c) [b0, b1, b2, b3, b4, b5]
      ((synaptics s)\<lparr>tpPacketBuffer := [b0, b1, b2, b3, b4, b5], tpPacketByteCount := 6\<rparr>) = Some t'"
  shows "feed_bytes E F c [b0, b1, b2, b3, b4, b5] s =
    Some (Inr (), synaptics_update (\<lambda>_. t'\<lparr>tpPacketByteCount := 0\<rparr>) s)"
proof -
  let ?t = "fold touch_store [b0, b1, b2, b3, b4] (synaptics s)"
  let ?full = "(synaptics s)\<lparr>tpPacketBuffer := [b0, b1, b2, b3, b4, b5], tpPacketByteCount := 6\<rparr>"
  let ?s = "synaptics_update (\<lambda>_. ?t) s"
  have "length (tpPacketBuffer (synaptics s)) = 6" using assms(2) by (simp add: packet_room_def)
  from six_stored [OF this assms(3)] have full: "touch_store b5 ?t = ?full" by simp
  have "feed_bytes E F c [b0, b1, b2, b3, b4, b5] s = feed_bytes E F c [b5] ?s"
    using feed_store [of s "[b0, b1, b2, b3, b4]" E F c "[b5]"] assms(1,3-5) by simp
  moreover have "take_byte F c b5 ?t = Inr (t'\<lparr>tpPacketByteCount := 0\<rparr>)"
    unfolding take_byte_def full Let_def using assms(1,6,7) by (auto simp: ABSOLUTE_MODE_def ignore_packet_def)
  moreover have "tpPacketByteCount ?t = 5" using assms(3) by simp
  ultimately show ?thesis
    by (simp add: interruptOccurred_cases(3) skipped_byte_def reset_byte_def)
qed


lemma absolute_packet_first_byte:
  "\<not> any_bit (absolute_packet buttons w x y z ! 0) 0x08" "absolute_packet buttons w x y z ! 0 \<noteq> kSC_Acknowledge"
proof -
  have "(0x08 :: u8) = push_bit 3 1" by (simp add: push_bit_eq_mult)
  then have eight: "bit (0x08 :: u8) n \<longleftrightarrow> n = 3" for n
    by (simp only: bit_push_bit_iff bit_1_iff) auto
  have clear: "\<not> bit (absolute_packet buttons w x y z ! 0) 3" unfolding absolute_packet_bytes by simp
  have "bit (absolute_packet buttons w x y z ! 0 AND 0x08) n = bit 0 n" for n
    unfolding bit_and_iff eight using clear by auto
  then have "absolute_packet buttons w x y z ! 0 AND 0x08 = 0" by (intro bit_word_eqI) blast
  then show "\<not> any_bit (absolute_packet buttons w x y z ! 0) 0x08" by (simp add: any_bit_def)
  have "bit kSC_Acknowledge 3" by simp
  then show "absolute_packet buttons w x y z ! 0 \<noteq> kSC_Acknowledge" using clear by metis
qed

lemma movement_ignores_buffer:
  fixes t :: "'f touchpad" and p :: "u8 list" and n :: nat
  defines "t' \<equiv> t\<lparr>tpPacketBuffer := p, tpPacketByteCount := n\<rparr>"
  shows "packet_interval now t' = packet_interval now t" "packet_fingers F packet t' = packet_fingers F packet t"
    "packet_movement F packet t' = packet_movement F packet t"
proof -
  show "packet_interval now t' = packet_interval now t" by (simp add: packet_interval_def t'_def)
  have "count_fingers F t' b z w = count_fingers F t b z w" for b z w
    by (rule count_fingers_cong) (simp_all add: t'_def)
  then show "packet_fingers F packet t' = packet_fingers F packet t"
    by (simp add: packet_fingers_def W_MODE_def t'_def)
  have "scale_movement F t' dx dy = scale_movement F t dx dy" for dx dy
    by (rule scale_movement_cong) (simp_all add: t'_def)
  then show "packet_movement F packet t' = packet_movement F packet t"
    by (simp add: packet_movement_def t'_def)
qed

text \<open>C26. From six bytes to the pointer: a finger at position (x, y), reported in the documented
  layout while the pad is in steady movement, makes the interrupt routine send exactly one
  pointer event: the distance to the previous position, scaled and accelerated, with upwards
  inverted, and the reported buttons.\<close>

theorem finger_report_moves_pointer:
  assumes "ABSOLUTE_MODE (synaptics s)" "W_MODE (synaptics s)" "packet_room (synaptics s)"
    and "tpPacketByteCount (synaptics s) = 0" "\<not> ignore_packet c (synaptics s)"
    and "event (synaptics s) = MOVEMENT" "settleTime (synaptics s) = 0"
    and "\<not> prefSwapButtons (synaptics s)" "\<not> dragging (synaptics s)"
    and "packet_interval (systemTime c) (synaptics s) \<le> 20000"
    and "buttons < 2 ^ 2" "w < 2 ^ 4" "x < 2 ^ 13" "y < 2 ^ 13"
    and "count_fingers F (synaptics s) buttons z w = 1"
    and "scale_movement F (synaptics s) (x - prevX (synaptics s)) (y - prevY (synaptics s)) = Some (dx, dy)"
  shows "\<exists>s'. feed_bytes E F c (absolute_packet buttons w x y z) s = Some (Inr (), s') \<and>
    touchpadEvents (synaptics s') = touchpadEvents (synaptics s) @ [TouchPointer dx (- dy) buttons]"
proof -
  let ?p = "absolute_packet buttons w x y z"
  obtain b0 b1 b2 b3 b4 b5 where p: "?p = [b0, b1, b2, b3, b4, b5]" unfolding absolute_packet_def by blast
  let ?t = "(synaptics s)\<lparr>tpPacketBuffer := ?p, tpPacketByteCount := 6\<rparr>"
  have "packet_fingers F ?p (synaptics s) = 1"
    using assms(2,8,11,12,15) by (simp add: packet_fingers_def absolute_buttons_packet absolute_w_packet absolute_packet_bytes)
  moreover have "packet_movement F ?p (synaptics s) = Some (dx, dy)"
    using assms(13,14,16) by (simp add: packet_movement_def absolute_x_packet absolute_y_packet)
  ultimately obtain t' where t': "dispatchAbsolutePacket F (systemTime c) ?p ?t = Some t'"
    "touchpadEvents t' = touchpadEvents (synaptics s) @ [TouchPointer dx (- dy) buttons]"
    using steady_movement [of ?t "systemTime c" F ?p dx dy] assms(6-11)
    by (auto simp: movement_ignores_buffer absolute_buttons_packet)
  have "feed_bytes E F c [b0, b1, b2, b3, b4, b5] s = Some (Inr (), synaptics_update (\<lambda>_. t'\<lparr>tpPacketByteCount := 0\<rparr>) s)"
    by (rule six_bytes_make_a_packet [OF assms(1,3,4) _ _ assms(5) t'(1) [unfolded p]])
      (use absolute_packet_first_byte [of buttons w x y z] p in simp_all)
  then show ?thesis using t'(2) p by auto
qed

end
