(* ===== verification/Ps2SynapticsStart.thy ===== *)
theory Ps2SynapticsStart
  imports Ps2SynapticsStream
begin

text \<open>
  The start of the Synaptics driver, its preferences and serial number, and concrete runs of the
  properties of its stream of bytes.
\<close>

section \<open>The mode of the hardware\<close>

text \<open>The mode the driver chooses at start: always absolute and at the high rate, and with W values
  exactly when the capabilities or the extended capabilities announce them.\<close>

theorem mode_matches_capabilities:
  assumes "tpModeByte t = 0"
  shows "ABSOLUTE_MODE (set_mode_bits t) \<and> any_bit (tpModeByte (set_mode_bits t)) RATE_MODE_BIT \<and>
    (W_MODE (set_mode_bits t) \<longleftrightarrow> CAP_W_MODE t \<or> EXT_W_MODE t)"
  using assms by (simp add: set_mode_bits_def ABSOLUTE_MODE_def W_MODE_def Let_def)

theorem mode_matches_capabilities_witness: "W_MODE (set_mode_bits (zeroed_touchpad\<lparr>capabilities := 0x8000\<rparr>))"
  using mode_matches_capabilities [of "zeroed_touchpad\<lparr>capabilities := 0x8000\<rparr>"]
  by (simp add: zeroed_touchpad_def CAP_W_MODE_def)

text \<open>The questions of \<open>start\<close>, and what else leaves the link ready.\<close>

lemma link_ready_updates [simp]:
  "link_ready E pend dev expects (synaptics_update f s) = link_ready E pend dev expects s"
  "link_ready E pend dev expects (syn_event e s) = link_ready E pend dev expects s"
  "link_ready E pend dev expects (syn_log text args s) = link_ready E pend dev expects s"
  "link_ready E pend dev expects (retain p s) = link_ready E pend dev expects s"
  by (simp_all add: link_ready_def syn_event_def syn_log_def retain_def)

lemma questions_answered:
  assumes "link_laws E pend routed dev react expects selected answer" "link_ready E pend dev expects s"
  shows "\<exists>r s'. getCapabilities E s = Some (r, s') \<and> link_ready E pend dev expects s'"
    "\<exists>r s'. getExtendedCapabilities E s = Some (r, s') \<and> link_ready E pend dev expects s'"
    "\<exists>r s'. getModelID E s = Some (r, s') \<and> link_ready E pend dev expects s'"
proof -
  note ask = getTouchPadData_answers [OF assms]
  show "\<exists>r s'. getCapabilities E s = Some (r, s') \<and> link_ready E pend dev expects s'"
  proof -
    obtain s1 where "synaptics_getTouchPadData E kST_getCapabilities s = Some (answer_of (answer kST_getCapabilities), s1)"
      "link_ready E pend dev expects s1" using ask by blast
    then show ?thesis unfolding getCapabilities_def by (simp only: bind.bind_lunit prod.case Let_def) auto
  qed
  show "\<exists>r s'. getExtendedCapabilities E s = Some (r, s') \<and> link_ready E pend dev expects s'"
  proof (cases "CAP_N_EXTENDED_QUERY (synaptics s) \<noteq> 0")
    case True
    obtain s1 where "synaptics_getTouchPadData E kST_getExtendedModelID s = Some (answer_of (answer kST_getExtendedModelID), s1)"
      "link_ready E pend dev expects s1" using ask by blast
    then show ?thesis using True unfolding getExtendedCapabilities_def
      by (simp only: simp_thms if_True bind.bind_lunit prod.case) auto
  next
    case False
    then show ?thesis using assms(2) unfolding getExtendedCapabilities_def by auto
  qed
  show "\<exists>r s'. getModelID E s = Some (r, s') \<and> link_ready E pend dev expects s'"
  proof -
    obtain s1 where "synaptics_getTouchPadData E kST_getModelID s = Some (answer_of (answer kST_getModelID), s1)"
      "link_ready E pend dev expects s1" using ask by blast
    then show ?thesis unfolding getModelID_def by (simp only: bind.bind_lunit prod.case Let_def) auto
  qed
qed

text \<open>Without a keyboard driver the start of the touchpad does not fail: with a device that
  answers all its questions it goes on to use the keyboard through a null pointer.\<close>

theorem start_needs_keyboard:
  assumes "link_laws E pend routed dev react expects selected answer" "link_ready E pend dev expects s"
    and "service = NoKeyboard \<or> service = OtherService"
  shows "\<exists>s'. synaptics_start E F True service self provider s = Some (Inl NullDereference, s')"
proof -
  let ?s1 = "retain provider (synaptics_update (\<lambda>t. t\<lparr>tpDevice := provider\<rparr>) s)"
  let ?s2 = "syn_log ''ApplePS2Trackpad: Synaptics TouchPad v%d.%d''
      [LogNumber (ucast (ucast (drop_bit 8 (tpVersion (synaptics ?s1))) :: u8)),
       LogNumber (ucast (ucast (tpVersion (synaptics ?s1)) :: u8))] ?s1"
  let ?s3 = "syn_event (TouchProperty ''TouchpadInfo'' (ucast (touchpadInformation (synaptics ?s2))) 4) ?s2"
  have "link_ready E pend dev expects ?s3" using assms(2) by simp
  then obtain r4 s4 where 4: "getCapabilities E ?s3 = Some (r4, s4)" "link_ready E pend dev expects s4"
    using questions_answered(1) [OF assms(1)] by blast
  obtain r5 s5 where 5: "getExtendedCapabilities E s4 = Some (r5, s5)" "link_ready E pend dev expects s5"
    using questions_answered(2) [OF assms(1) 4(2)] by blast
  obtain r6 s6 where 6: "getModelID E s5 = Some (r6, s6)"
    using questions_answered(3) [OF assms(1) 5(2)] by blast
  show ?thesis
    by (simp only: synaptics_start_def simp_thms if_False if_True Let_def 4(1) 5(1) 6 assms(3) bind.bind_lunit
        prod.case option.inject prod.inject)
qed

section \<open>Preferences and identification numbers\<close>

lemma threshold_pref_int:
  "threshold_pref (word_of_int b) (word_of_int st) n = word_of_int (b + st * (10 - uint n))"
proof -
  have "(ucast n :: u32) = word_of_int (uint n)" by (simp only: of_int_uint)
  then show ?thesis by (simp add: threshold_pref_def)
qed

lemma uint_threshold:
  assumes "0 \<le> b + st * (10 - uint n)" "b + st * (10 - uint n) < 2 ^ 32"
  shows "uint (threshold_pref (word_of_int b) (word_of_int st) n) = b + st * (10 - uint n)"
  using assms by (simp only: threshold_pref_int uint_word_of_int_eq) (simp add: take_bit_int_eq_self)

text \<open>A threshold preference between 0 and 20 is turned into the number the formula means; from
  26 on the subtraction in unsigned 32 bits makes the one-finger threshold exceed every
  pressure.\<close>

theorem threshold_pref_range:
  "(\<forall>n\<le>20. uint (threshold_pref 30 2 n) = 30 + 2 * (10 - uint n) \<and>
      uint (threshold_pref 215 20 n) = 215 + 20 * (10 - uint n) \<and>
      uint (threshold_pref 650 20 n) = 650 + 20 * (10 - uint n)) \<and>
   (\<forall>n. 26 \<le> n \<and> n \<le> 1000 \<longrightarrow> 255 < threshold_pref 30 2 n)"
proof (intro conjI allI impI)
  fix n :: u64
  assume "n \<le> 20"
  then have n: "uint n \<le> 20" by (simp add: word_le_def)
  have pos: "0 \<le> uint n" by simp
  show "uint (threshold_pref 30 2 n) = 30 + 2 * (10 - uint n)"
    using uint_threshold [of 30 2 n] n pos by simp
  show "uint (threshold_pref 215 20 n) = 215 + 20 * (10 - uint n)"
    using uint_threshold [of 215 20 n] n pos by simp
  show "uint (threshold_pref 650 20 n) = 650 + 20 * (10 - uint n)"
    using uint_threshold [of 650 20 n] n pos by simp
next
  fix n :: u64
  assume "26 \<le> n \<and> n \<le> 1000"
  then have n: "26 \<le> uint n" "uint n \<le> 1000" by (simp_all add: word_le_def)
  have "threshold_pref 30 2 n = word_of_int (30 + 2 * (10 - uint n))" using threshold_pref_int [of 30 2 n] by simp
  also have "\<dots> = word_of_int (30 + 2 * (10 - uint n) + 2 ^ 32)" by simp
  finally have "uint (threshold_pref 30 2 n) = 30 + 2 * (10 - uint n) + 2 ^ 32"
    using n by (simp only: uint_word_of_int_eq) (simp add: take_bit_int_eq_self)
  then show "255 < threshold_pref 30 2 n" using n by (simp add: word_less_def)
qed

theorem threshold_pref_range_witness:
  "uint (threshold_pref 30 2 20) = 10 \<and> 255 < threshold_pref 30 2 26"
  using threshold_pref_range [THEN conjunct1, rule_format, of 20] threshold_pref_range [THEN conjunct2, rule_format, of 26]
  by simp

text \<open>The serial number loses bits: the upper four of the prefix's twelve are shifted out of the
  32-bit intermediate, so prefixes that differ only there give the same number.\<close>

theorem serial_number_truncated:
  "serial_number prefix suffix = serial_number (prefix AND 0xFF) suffix \<and> serial_number prefix suffix < 2 ^ 32"
proof
  have mask: "(0xFFF :: u32) = mask 12" "(0xFF :: u32) = mask 8" by (simp_all add: mask_eq_exp_minus_1)
  have "push_bit 24 (prefix AND 0xFFF) = push_bit 24 ((prefix AND 0xFF) AND 0xFFF)"
    unfolding mask by (rule bit_word_eqI) (auto simp: bit_push_bit_iff bit_and_iff bit_mask_iff)
  then show "serial_number prefix suffix = serial_number (prefix AND 0xFF) suffix"
    by (simp only: serial_number_def)
  show "serial_number prefix suffix < 2 ^ 32"
    using unsigned_less [of "suffix OR push_bit 24 (prefix AND 0xFFF)", where 'a = nat]
    by (simp only: serial_number_def word_less_nat_alt unsigned_ucast_eq) (simp add: take_bit_nat_eq_self)
qed

section \<open>Concrete runs\<close>

theorem start_needs_keyboard_witness:
  "\<exists>s'. synaptics_start (linked_env (query_react (\<lambda>q. (0x80, 0x47, q)))) milli_fpu True NoKeyboard 1 2
     (init_synaptics ([], False, False, 0) zeroed_touchpad) = Some (Inl NullDereference, s')"
  by (rule start_needs_keyboard [OF query_env_laws init_link_ready]) simp

lemma first_line: "n < 20 \<Longrightarrow> accelerationTable ! n = hd acceleration_lines ! n"
proof -
  have "acceleration_lines \<noteq> []" "length (hd acceleration_lines) = 20" by (simp_all add: acceleration_lines_def)
  moreover from this(1) have "concat acceleration_lines = hd acceleration_lines @ concat (tl acceleration_lines)"
    by (metis concat.simps(2) list.collapse)
  ultimately show "n < 20 \<Longrightarrow> accelerationTable ! n = hd acceleration_lines ! n"
    by (simp add: accelerationTable_def nth_append)
qed

lemma accelerate_four: "accelerate 4 = Some 1"
proof -
  have "accelerationTable ! 4 = 1" using first_line [of 4] by (simp add: acceleration_lines_def)
  then show ?thesis by (simp add: accelerate_def ABS_def)
qed

abbreviation pad_sample_env :: "((PS2DeviceType \<times> u8) list \<times> bool \<times> bool \<times> u8, int, unit) synaptics_env" where
  "pad_sample_env \<equiv> linked_env (query_react (\<lambda>q. (0, 0, 0)))"

definition sample_clock :: packet_clock where
  "sample_clock = \<lparr>uptimeLow = 0, systemTime = (0, 12500), codeToRepeat = - 1, lastEventTime = 0\<rparr>"

definition sample_pad :: "int touchpad" where
  "sample_pad = counting_touchpad\<lparr>event := MOVEMENT, prevX := 3000, prevY := 2000\<rparr>"

lemma sample_pad_simps [simp]:
  "tpPacketBuffer sample_pad = replicate 6 0" "tpPacketByteCount sample_pad = 0" "event sample_pad = MOVEMENT"
  "prevX sample_pad = 3000" "prevY sample_pad = 2000" "tpModeByte sample_pad = 0xC1" "capabilities sample_pad = 0x8002"
  "settleTime sample_pad = 0" "\<not> dragging sample_pad" "\<not> prefSwapButtons sample_pad" "touchpadEvents sample_pad = []"
  by (simp_all add: sample_pad_def counting_touchpad_def synaptics_init_def zeroed_touchpad_def)

lemma sample_room: "packet_room sample_pad"
  by (simp add: packet_room_def)

theorem finger_report_moves_pointer_witness:
  "\<exists>s'. feed_bytes pad_sample_env milli_fpu sample_clock (absolute_packet 0 5 3003 2000 80)
      (init_synaptics ([], False, False, 0) sample_pad) = Some (Inr (), s') \<and>
    touchpadEvents (synaptics s') = [TouchPointer 1 0 0]"
proof -
  have "count_fingers milli_fpu sample_pad 0 80 5 = 1"
    by (simp add: count_fingers_def W_MODE_def CAP_MULTIFINGER_def reported_fingers_def below_def milli_fpu_def
        sample_pad_def counting_touchpad_def synaptics_init_def Let_def)
  moreover have "scale_movement milli_fpu sample_pad (3003 - 3000) (2000 - 2000) = Some (1, 0)"
    by (simp add: scale_movement_def scale_speed_def to_SInt32_def milli_fpu_def sample_pad_def accelerate_zero accelerate_four)
  moreover have "packet_interval (systemTime sample_clock) sample_pad \<le> 20000"
    by (simp add: packet_interval_def sample_clock_def sample_pad_def)
  moreover have "\<not> ignore_packet sample_clock sample_pad" by (simp add: ignore_packet_def sample_clock_def)
  ultimately show ?thesis
    using finger_report_moves_pointer [of "init_synaptics ([], False, False, 0) sample_pad" sample_clock 0 5 3003 2000
        milli_fpu 80 1 0 pad_sample_env] sample_room
    by (simp add: ABSOLUTE_MODE_def W_MODE_def)
qed

text \<open>
  A device that answers nothing: every read times out with 0, so no action runs meanwhile, and the
  driver's requests return. The acknowledged commands fail; the command byte reads as 0 twice.
\<close>

definition silent :: "('h \<Rightarrow> (PS2DeviceType \<times> u8) list) \<Rightarrow> ('h, 'z) ctl_scheme \<Rightarrow> bool" where
  "silent pend s \<longleftrightarrow> pend (hw s) = [] \<and> keyboardQueue (kq s) = []"

definition idle :: "('h \<Rightarrow> (PS2DeviceType \<times> u8) list) \<Rightarrow> ('h, 'z) ctl_scheme \<Rightarrow> bool" where
  "idle pend s \<longleftrightarrow> silent pend s \<and> requestQueue s = [] \<and> \<not> hardwareOffline s"

definition mute :: "('h, 'z) env \<Rightarrow> ('h \<Rightarrow> (PS2DeviceType \<times> u8) list) \<Rightarrow> bool" where
  "mute E pend \<longleftrightarrow> input_ready_law E \<and> output_buffer_law E pend \<and>
     (\<forall>p b h. pend h = [] \<longrightarrow> pend (outb E p b h) = [])"

definition stays_silent :: "('h \<Rightarrow> (PS2DeviceType \<times> u8) list) \<Rightarrow> ('h, 'z) ctl_scheme \<Rightarrow> ('h, 'z) ctl_scheme \<Rightarrow> bool" where
  "stays_silent pend s s' \<longleftrightarrow> undisturbed s s' \<and> silent pend s'"

lemma stays_silent_trans: "stays_silent pend s s' \<Longrightarrow> stays_silent pend s' s'' \<Longrightarrow> stays_silent pend s s''"
  unfolding stays_silent_def using undisturbed_trans by blast

lemma mute_reads:
  assumes "mute E pend" "silent pend s"
  shows "\<exists>s'. readDataPort E dt s = Some (0, s') \<and> stays_silent pend s s'"
    "\<exists>s'. readDataPort_expect E dt e s = Some (0, s') \<and> stays_silent pend s s'"
proof -
  obtain h where f: "fetch_byte E dt readTimeout s = (0, TimedOut, s\<lparr>hw := h\<rparr>)" "pend h = []"
    using fetch_empty [of E pend s dt readTimeout] assms by (auto simp: mute_def silent_def)
  let ?s = "log_call (LogTimedOut dt) (s\<lparr>hw := h\<rparr>)"
  have "undisturbed s ?s" by (rule undisturbed_trans [OF undisturbed_updates(2,3)])
  then have u: "stays_silent pend s ?s" using assms(2) f(2) by (simp add: stays_silent_def silent_def log_call_def)
  have "readDataPort E dt s = Some (0, ?s)"
    unfolding readDataPort_def using f(1) by (subst readDataPort_loop.simps) simp
  moreover have "readDataPort_expect E dt e s = Some (0, ?s)"
    unfolding readDataPort_expect_def using f(1) by (subst readDataPort_expect_loop.simps) simp
  ultimately show "\<exists>s'. readDataPort E dt s = Some (0, s') \<and> stays_silent pend s s'"
    "\<exists>s'. readDataPort_expect E dt e s = Some (0, s') \<and> stays_silent pend s s'"
    using u by blast+
qed

lemma mute_writes:
  assumes "mute E pend" "silent pend s"
  shows "\<exists>s'. writeDataPort E b s = Some s' \<and> stays_silent pend s s'"
    "\<exists>s'. writeCommandPort E b s = Some s' \<and> stays_silent pend s s'"
proof -
  note m = assms(1) [unfolded mute_def]
  let ?h = "snd (inb E kCommandPort (hw s))"
  have "pend ?h = []"
    using m assms(2) unfolding output_buffer_law_def silent_def by (simp add: split_beta)
  then have "stays_silent pend s (s\<lparr>hw := outb E p b ?h\<rparr>)" for p
    using m assms(2) by (simp add: silent_def stays_silent_def)
  then show "\<exists>s'. writeDataPort E b s = Some s' \<and> stays_silent pend s s'"
    "\<exists>s'. writeCommandPort E b s = Some s' \<and> stays_silent pend s s'"
    using m by (auto simp: writeDataPort_def writeCommandPort_def wait_input_ready port_out_def)
qed

text \<open>The three kinds of requests.\<close>

lemma mute_submit:
  assumes "idle pend s" "length cs \<le> kMaxCommands"
    and "\<And>s0. silent pend s0 \<Longrightarrow> \<exists>cs' s1. process_commands E kDT_Keyboard False (make_commands cs) s0 =
      Some (cs', index, s1) \<and> stays_silent pend s0 s1 \<and> P cs'"
  shows "\<exists>r' cs' s'. submitRequestAndBlock E (set_commands cs r) s = Some (finished_request r' cs' index, s') \<and>
    commandsCount r' = of_nat (length cs) \<and> P cs' \<and> idle pend s'"
proof -
  note i = assms(1) [unfolded idle_def silent_def]
  have t: "take (unat (commandsCount (set_commands cs r))) (commands (set_commands cs r)) = make_commands cs"
    by (rule set_commands_simps(1)) (use assms(2) in simp)
  show ?thesis
  proof (rule submitRequestAndBlock_idle [of s E "set_commands cs r" index "\<lambda>cs' h. pend h = [] \<and> P cs'"])
    fix s0 :: "('a, 'b) ctl_scheme"
    assume "hw s0 = hw s" "kq s0 = kq s"
    then have "silent pend s0" using i by (simp add: silent_def)
    from assms(3) [OF this] show "\<exists>cs' s1. process_commands E kDT_Keyboard False
        (take (unat (commandsCount (set_commands cs r))) (commands (set_commands cs r))) s0 = Some (cs', index, s1) \<and>
        undisturbed s0 s1 \<and> pend (hw s1) = [] \<and> P cs'"
      unfolding t stays_silent_def silent_def by blast
  next
    fix cs' p s'
    assume s': "submitRequestAndBlock E (set_commands cs r) s =
        Some (finished_request (set_commands cs r\<lparr>completion := p\<rparr>) cs' index, s')"
      "undisturbed s s'" "pend (hw s') = [] \<and> P cs'"
    then have "idle pend s'" using i undisturbed_fields [OF s'(2)] by (simp add: idle_def silent_def)
    then show ?thesis using s'
      by (intro exI [of _ "set_commands cs r\<lparr>completion := p\<rparr>"] exI [of _ cs'] exI [of _ s'])
        (simp add: set_commands_simps(3))
  qed (use i in simp_all)
qed

lemma idle_updates [simp]:
  "idle pend (s\<lparr>liveRequests := n\<rparr>) = idle pend s" "idle pend (freeRequest s) = idle pend s"
  by (simp_all add: idle_def silent_def freeRequest_def)

lemma mute_request:
  assumes "mute E pend" "idle pend s" "length cs < kMaxCommands"
  shows "\<exists>r s'. blocking_request E ((kPS2C_SendMouseCommandAndCompareAck, b) # cs) s = Some (r, s') \<and> idle pend s'"
proof -
  let ?cs = "(kPS2C_SendMouseCommandAndCompareAck, b) # cs"
  have "\<exists>cs' s1. process_commands E kDT_Keyboard False (make_commands ?cs) s0 = Some (cs', Some 0, s1) \<and>
      stays_silent pend s0 s1 \<and> True" if s0: "silent pend s0" for s0 :: "('a, 'b) ctl_scheme"
  proof -
    obtain s1 where 1: "writeCommandPort E kCP_TransmitToMouse s0 = Some s1" "stays_silent pend s0 s1"
      using mute_writes(2) [OF assms(1) s0] by blast
    obtain s2 where 2: "writeDataPort E b s1 = Some s2" "stays_silent pend s1 s2"
      using mute_writes(1) [OF assms(1), of s1] 1(2) by (auto simp: stays_silent_def)
    obtain s3 where 3: "readDataPort_expect E kDT_Mouse kSC_Acknowledge s2 = Some (0, s3)" "stays_silent pend s2 s3"
      using mute_reads(2) [OF assms(1), of s2] 2(2) by (auto simp: stays_silent_def)
    have "stays_silent pend s0 s3" using 1(2) 2(2) 3(2) stays_silent_trans by blast
    then show ?thesis using 1(1) 2(1) 3(1) by (simp add: process_command_def)
  qed
  from mute_submit [OF _ _ this, of "s\<lparr>liveRequests := liveRequests s + 1\<rparr>" zeroed_request] assms(2,3)
  show ?thesis by (auto simp: blocking_request_def allocateRequest_def)
qed

lemma mute_setCommandByte:
  assumes "mute E pend" "idle pend s"
  shows "\<exists>s'. synaptics_setCommandByte E setBits clearBits s = Some s' \<and> idle pend s'"
proof -
  let ?s = "s\<lparr>liveRequests := liveRequests s + 1\<rparr>" and ?new = "(0 OR setBits) AND NOT clearBits"
  have "\<exists>cs' s1. process_commands E kDT_Keyboard False (make_commands read_commands) s0 = Some (cs', None, s1) \<and>
      stays_silent pend s0 s1 \<and> inOrOut (cs' ! 1) = 0 \<and> length cs' = 2" if s0: "silent pend s0" for s0 :: "('a, 'b) ctl_scheme"
  proof -
    obtain s1 where 1: "writeCommandPort E kCP_GetCommandByte s0 = Some s1" "stays_silent pend s0 s1"
      using mute_writes(2) [OF assms(1) s0] by blast
    obtain s2 where 2: "readDataPort E kDT_Keyboard s1 = Some (0, s2)" "stays_silent pend s1 s2"
      using mute_reads(1) [OF assms(1), of s1] 1(2) by (auto simp: stays_silent_def)
    have "stays_silent pend s0 s2" using 1(2) 2(2) stays_silent_trans by blast
    then show ?thesis using 1(1) 2(1) by (simp add: read_commands_def process_command_def)
  qed
  from mute_submit [OF _ _ this, of ?s zeroed_request] assms(2) obtain r1 cs1 s1 where
    1: "submitRequestAndBlock E (set_commands read_commands zeroed_request) ?s = Some (finished_request r1 cs1 None, s1)"
      "inOrOut (cs1 ! 1) = 0" "length cs1 = 2" "idle pend s1" by (auto simp: read_commands_def)
  have "\<exists>cs' s1. process_commands E kDT_Keyboard False (make_commands (test_and_set_commands 0 ?new)) s0 = Some (cs', None, s1) \<and>
      stays_silent pend s0 s1 \<and> True" if s0: "silent pend s0" for s0 :: "('a, 'b) ctl_scheme"
  proof -
    obtain s1 where 1: "writeCommandPort E kCP_GetCommandByte s0 = Some s1" "stays_silent pend s0 s1"
      using mute_writes(2) [OF assms(1) s0] by blast
    obtain s2 where 2: "readDataPort_expect E kDT_Keyboard 0 s1 = Some (0, s2)" "stays_silent pend s1 s2"
      using mute_reads(2) [OF assms(1), of s1] 1(2) by (auto simp: stays_silent_def)
    obtain s3 where 3: "writeCommandPort E kCP_SetCommandByte s2 = Some s3" "stays_silent pend s2 s3"
      using mute_writes(2) [OF assms(1), of s2] 2(2) by (auto simp: stays_silent_def)
    obtain s4 where 4: "writeDataPort E ?new s3 = Some s4" "stays_silent pend s3 s4"
      using mute_writes(1) [OF assms(1), of s3] 3(2) by (auto simp: stays_silent_def)
    have "stays_silent pend s0 s4" using 1(2) 2(2) 3(2) 4(2) stays_silent_trans by blast
    then show ?thesis using 1(1) 2(1) 3(1) 4(1) by (simp add: test_and_set_commands_def process_command_def)
  qed
  from mute_submit [OF 1(4) _ this, of "finished_request r1 cs1 None"] obtain r2 cs2 s2 where
    2: "submitRequestAndBlock E (set_commands (test_and_set_commands 0 ?new) (finished_request r1 cs1 None)) s1 =
        Some (finished_request r2 cs2 None, s2)" "commandsCount r2 = 4" "idle pend s2"
    by (auto simp: test_and_set_commands_def)
  have "inOrOut (commands (finished_request r1 cs1 None) ! 1) = 0"
    using 1(2,3) by (simp add: finished_request_def nth_append)
  then have "setCommandByte_round E setBits clearBits zeroed_request ?s = Some (finished_request r2 cs2 None, s2)"
    using 1(1) 2(1) by (simp add: setCommandByte_round_def)
  moreover have "commandsCount (finished_request r2 cs2 None) = 4" using 2(2) by (simp add: finished_request_def)
  ultimately have "setCommandByte_loop E setBits clearBits zeroed_request ?s = Some (finished_request r2 cs2 None, s2)"
    by (subst setCommandByte_loop.simps) simp
  then show ?thesis using 2(3) by (simp add: synaptics_setCommandByte_def allocateRequest_def)
qed

lemma mute_reset:
  assumes "mute E pend" "idle pend s"
  shows "\<exists>s'. synaptics_setDevicePowerState E kPS2C_EnableDevice s = Some s'"
proof -
  obtain b s1 where 1: "synaptics_setTouchPadModeByte E (tpModeByte (synaptics s)) False s = Some (b, s1)" "idle pend s1"
    using mute_request [OF assms, of "tl (mode_byte_commands (tpModeByte (synaptics s)) False)" kDP_SetDefaultsAndDisable]
    by (auto simp: synaptics_setTouchPadModeByte_def mode_byte_commands_def selector_commands_def)
  obtain s2 where 2: "synaptics_setCommandByte E kCB_EnableMouseIRQ kCB_DisableMouseClock s1 = Some s2" "idle pend s2"
    using mute_setCommandByte [OF assms(1) 1(2)] by blast
  let ?s = "synaptics_update (\<lambda>t. t\<lparr>tpPacketByteCount := 0, streamdx := 0, streamdy := 0, settleTime := 0,
    tapped := False, dragLocked := False\<rparr>) s2"
  have "idle pend ?s" using 2(2) by (simp add: idle_def silent_def)
  from mute_request [OF assms(1) this, of "[]" kDP_Enable] obtain s3
    where "synaptics_setTouchPadEnable E True ?s = Some s3" by (auto simp: synaptics_setTouchPadEnable_def)
  then show ?thesis using 1(1) 2(1) by (simp add: synaptics_setDevicePowerState_def)
qed

lemma touch_env_ports:
  "inb (touch_env_of H F clock n) = inb H \<and> outb (touch_env_of H F clock n) = outb H"
  by (cases n) simp_all

lemma init_synaptics_queue: "keyboardQueue (kq (init_synaptics h t)) = []"
  by (simp add: init_synaptics_def pad_machine.extend_def init_pads_def machine.extend_def init_machine_def
      ctl.extend_def init_controller_def init_keyboardQueue_def)

text \<open>
  A byte with bit 3 at the start of an absolute packet: the routine takes it for a reset and sends the
  mode, the command byte and the command to enable the device again.
\<close>

theorem touchpad_buffer_safe_witness:
  "reset_byte 0x98 sample_pad \<and>
   (\<exists>s'. synaptics_interruptOccurred (touch_env_of fifo_env milli_fpu (\<lambda>_. sample_clock) 3) milli_fpu sample_clock 0x98
      (init_synaptics [] sample_pad) = Some (Inr (), s') \<and>
    tpPacketByteCount (synaptics s') < length (tpPacketBuffer (synaptics s')))"
proof -
  let ?s = "init_synaptics ([] :: (PS2DeviceType \<times> u8) list) sample_pad"
    and ?E = "touch_env_of fifo_env milli_fpu (\<lambda>_. sample_clock) 3"
  have "mute ?E (\<lambda>h. h)"
    using fifo_env_law fifo_env_ready
    by (simp add: mute_def input_ready_law_def output_buffer_law_def touch_env_ports) (simp add: fifo_env_def)
  moreover have "idle (\<lambda>h. h) ?s"
    by (simp add: idle_def silent_def init_synaptics_queue)
  ultimately obtain s' where "synaptics_setDevicePowerState ?E kPS2C_EnableDevice ?s = Some s'"
    using mute_reset by blast
  moreover have r: "reset_byte 0x98 sample_pad" "\<not> skipped_byte 0x98 sample_pad"
    by (simp_all add: reset_byte_def skipped_byte_def ABSOLUTE_MODE_def any_bit_def)
  ultimately have run: "synaptics_interruptOccurred ?E milli_fpu sample_clock 0x98 ?s = Some (Inr (), s')"
    by (simp add: interruptOccurred_cases(2))
  from touchpad_buffer_safe [OF run] sample_room r(1) run show ?thesis by (auto split: if_splits)
qed

end
