(* ===== verification/KernelObjects.thy ===== *)
theory KernelObjects
  imports Ps2Prelude
begin

text \<open>
  The container classes of the kernel as far as the battery, ATA and SMBIOS extensions use them, and
  \<open>OSDynamicCast\<close> as functions that return \<open>None\<close> where the cast gives a null pointer.
\<close>

section \<open>Kernel objects\<close>

text \<open>
  A symbol made by \<open>OSSymbol::withCStringNoCopy\<close> uses the characters it is given in place.
  \<open>GetSymbolFromArray\<close> gives it an array of its own stack frame: \<open>StackSymbol\<close>, whose characters
  can no longer be read when the function has returned. It also casts a string of the firmware to a
  pointer to a symbol, without a check: \<open>CastString\<close>, a string wherever the object itself is looked at.
\<close>

datatype kernel_symbol = Symbol string | StackSymbol string | CastString string

datatype legacy_key =
    LegacyFlags | LegacyCurrentCharge | LegacyCapacity | LegacyVoltage | LegacyAmperage
  | LegacyCycleCount

datatype os_object =
    OSNumber "64 word"
  | OSString string
  | OSSymbol kernel_symbol
  | OSData "u8 list"
  | OSBoolean bool
  | OSArray "os_object list"
  | OSDictionary "(legacy_key \<times> os_object) list"
  | OSOther

fun getCStringNoCopy :: "kernel_symbol \<Rightarrow> kernel_error + string" where
  "getCStringNoCopy (Symbol text) = Inr text"
| "getCStringNoCopy (StackSymbol _) = Inl DanglingPointer"
| "getCStringNoCopy (CastString text) = Inr text"

text \<open>The object behind the pointer, as it is stored in a dictionary.\<close>

fun object_of :: "kernel_symbol \<Rightarrow> os_object" where
  "object_of (CastString text) = OSString text"
| "object_of s = OSSymbol s"

fun number_of :: "os_object option \<Rightarrow> 64 word option" where
  "number_of (Some (OSNumber n)) = Some n"
| "number_of _ = None"

fun symbol_of :: "os_object option \<Rightarrow> kernel_symbol option" where
  "symbol_of (Some (OSSymbol s)) = Some s"
| "symbol_of _ = None"

definition getObject :: "os_object list \<Rightarrow> nat \<Rightarrow> os_object option" where
  "getObject xs i = (if i < length xs then Some (xs ! i) else None)"

fun string_of :: "os_object option \<Rightarrow> string option" where
  "string_of (Some (OSString text)) = Some text"
| "string_of (Some (OSSymbol (Symbol text))) = Some text"
| "string_of _ = None"

fun data_of :: "os_object option \<Rightarrow> u8 list option" where
  "data_of (Some (OSData bytes)) = Some bytes"
| "data_of _ = None"

fun boolean_of :: "os_object option \<Rightarrow> bool option" where
  "boolean_of (Some (OSBoolean t)) = Some t"
| "boolean_of _ = None"

section \<open>Formatted text\<close>

text \<open>\<open>snprintf\<close> into a buffer of \<open>room\<close> bytes; the conversion of unsigned numbers.\<close>

definition snprintf_text :: "nat \<Rightarrow> string \<Rightarrow> string" where
  "snprintf_text room text = take (room - 1) text"

fun decimal :: "nat \<Rightarrow> string" where
  "decimal n = (if n < 10 then [char_of (48 + n)] else decimal (n div 10) @ [char_of (48 + n mod 10)])"

declare decimal.simps [simp del]

section \<open>What an operation leaves alone\<close>

text \<open>
  A driver's operation is a chain of smaller ones. Where each of them leaves some part of the state
  alone, the chain does.
\<close>

locale state_frame =
  fixes keeps :: "'s \<Rightarrow> 's \<Rightarrow> bool"
  assumes keeps_refl: "keeps s s"
    and keeps_trans: "keeps s t \<Longrightarrow> keeps t r \<Longrightarrow> keeps s r"
begin

lemma keeps_after: "(\<And>t. keeps t (f t)) \<Longrightarrow> keeps s t \<Longrightarrow> keeps s (f t)"
  by (blast intro: keeps_trans)

lemma keeps_result: "(\<And>t. keeps t (snd (f t))) \<Longrightarrow> f t = (r, t') \<Longrightarrow> keeps s t \<Longrightarrow> keeps s t'"
  by (metis keeps_trans snd_conv)

lemma keeps_fold: "(\<And>x t. keeps t (f x t)) \<Longrightarrow> keeps s (fold f xs s)"
proof (induction xs arbitrary: s)
  case (Cons x xs)
  then show ?case by (simp add: keeps_trans [of s "f x s"])
qed (simp add: keeps_refl)

end

end
