(* ===== verification/BatteryData.thy ===== *)
theory BatteryData
  imports KernelObjects
begin

text \<open>
  The data of the battery extension \<open>AppleACPIBatteryManager\<close>: the state of
  \<open>AppleACPIBatteryDevice\<close>, its constants and its accessors.

  The superclass \<open>IOPMPowerSource\<close> is not in the repository. Its accessors are parameters: those
  that set a property (\<open>setCurrentCapacity\<close>, \<open>setIsCharging\<close>, \ldots) are \<open>power_set\<close>, those that
  read a flag \<open>power_flag\<close>. \<open>power_source_law\<close> is what its header documents: a setter stores its
  argument in the dictionary \<open>properties\<close> under its own key, a flag is true if the key holds true.
  \<open>interned\<close> says which symbols exist already, \<open>null_text\<close> is what the kernel prints for a null
  string.
\<close>

section \<open>Keys and parameters\<close>

text \<open>
  The keys of a power source's properties, by the constants that name them. Those from
  \<open>SourceDeviceName\<close> on are the extension's own.
\<close>

datatype source_key =
    SourceExternalConnected | SourceExternalChargeCapable | SourceBatteryInstalled
  | SourceIsCharging | SourceCurrentCapacity | SourceMaxCapacity | SourceTimeRemaining
  | SourceAmperage | SourceVoltage | SourceCycleCount | SourceAdapterInfo | SourceLocation
  | SourceManufacturer | SourceSerial | SourceBatteryInfo | SourceErrorCondition
  | SourceDeviceName | SourceMaxErr | SourceFullyCharged | SourceAvgTimeToEmpty
  | SourceAvgTimeToFull | SourceInstantTimeToEmpty | SourceInstantTimeToFull
  | SourceInstantAmperage | SourceManufactureDate | SourceDesignCapacity | SourceQuickPoll
  | SourceTemperature | SourceCellVoltage | SourceManufacturerData | SourceType
  | SourceSerialNumber | SourceSoftwareSerial
  | SourceInvalidWakeSeconds | SourcePostChargeWaitSeconds | SourcePostDischargeWaitSeconds
  | SourceLatestErrorType

type_synonym source_properties = "source_key \<Rightarrow> os_object option"

record power_source =
  power_set :: "source_key \<Rightarrow> os_object \<Rightarrow> source_properties \<Rightarrow> source_properties"
  power_flag :: "source_key \<Rightarrow> source_properties \<Rightarrow> bool"
  interned :: "string \<Rightarrow> bool"
  null_text :: string
  kIOPMACInstalled :: u32
  kIOPMBatteryInstalled :: u32
  kIOPMBatteryCharging :: u32

definition power_source_law :: "power_source \<Rightarrow> bool" where
  "power_source_law E \<longleftrightarrow>
     (\<forall>key value p. power_set E key value p = p(key \<mapsto> value)) \<and>
     (\<forall>key p. power_flag E key p \<longleftrightarrow> p key = Some (OSBoolean True))"

text \<open>The three flag bits of the older interface are different bits.\<close>

definition distinct_flags_law :: "power_source \<Rightarrow> bool" where
  "distinct_flags_law E \<longleftrightarrow>
     kIOPMACInstalled E \<noteq> 0 \<and> kIOPMBatteryInstalled E \<noteq> 0 \<and> kIOPMBatteryCharging E \<noteq> 0 \<and>
     kIOPMACInstalled E AND kIOPMBatteryInstalled E = 0 \<and>
     kIOPMACInstalled E AND kIOPMBatteryCharging E = 0 \<and>
     kIOPMBatteryInstalled E AND kIOPMBatteryCharging E = 0"

section \<open>Constants\<close>

definition BATTERY_DISCHARGING :: u32 where "BATTERY_DISCHARGING = 1"
definition BATTERY_CHARGING :: u32 where "BATTERY_CHARGING = 2"

definition BIF_POWER_UNIT :: nat where "BIF_POWER_UNIT = 0"
definition BIF_DESIGN_CAPACITY :: nat where "BIF_DESIGN_CAPACITY = 1"
definition BIF_LAST_FULL_CAPACITY :: nat where "BIF_LAST_FULL_CAPACITY = 2"
definition BIF_DESIGN_VOLTAGE :: nat where "BIF_DESIGN_VOLTAGE = 4"
definition BIF_MODEL_NUMBER :: nat where "BIF_MODEL_NUMBER = 9"
definition BIF_SERIAL_NUMBER :: nat where "BIF_SERIAL_NUMBER = 10"
definition BIF_BATTERY_TYPE :: nat where "BIF_BATTERY_TYPE = 11"
definition BIF_OEM :: nat where "BIF_OEM = 12"
definition BIF_CYCLE_COUNT :: nat where "BIF_CYCLE_COUNT = 13"

definition BST_STATUS :: nat where "BST_STATUS = 0"
definition BST_RATE :: nat where "BST_RATE = 1"
definition BST_CAPACITY :: nat where "BST_CAPACITY = 2"
definition BST_VOLTAGE :: nat where "BST_VOLTAGE = 3"

definition kExistingBatteryPath :: u32 where "kExistingBatteryPath = 1"
definition kNewBatteryPath :: u32 where "kNewBatteryPath = 2"

definition kSecondsUntilValidOnWake :: u32 where "kSecondsUntilValidOnWake = 30"
definition kPostChargeWaitSeconds :: u32 where "kPostChargeWaitSeconds = 120"
definition kPostDischargeWaitSeconds :: u32 where "kPostDischargeWaitSeconds = 120"

definition kDefaultPollInterval :: u32 where "kDefaultPollInterval = 0"
definition kQuickPollInterval :: u32 where "kQuickPollInterval = 1"

definition kErrorOverallTimeoutExpired :: string where
  "kErrorOverallTimeoutExpired = ''Overall Read Timeout Expired''"
definition kErrorZeroCapacity :: string where
  "kErrorZeroCapacity = ''Capacity Read Zero''"
definition kErrorPermanentFailure :: string where
  "kErrorPermanentFailure = ''Permanent Battery Failure''"

definition initial_milliSecPollingTable :: "u32 list" where
  "initial_milliSecPollingTable = [30000, 1000]"

definition kBatteryReadAllTimeout :: u32 where "kBatteryReadAllTimeout = 10000"

definition kMaxGeneratedSerialSize :: nat where
  "kMaxGeneratedSerialSize = 16 + 16 + 4 + 4 + 4"

definition unknownObjectKey :: kernel_symbol where "unknownObjectKey = Symbol ''Unknown''"

lemmas bif_indices = BIF_POWER_UNIT_def BIF_DESIGN_CAPACITY_def BIF_LAST_FULL_CAPACITY_def
  BIF_DESIGN_VOLTAGE_def BIF_MODEL_NUMBER_def BIF_SERIAL_NUMBER_def BIF_BATTERY_TYPE_def
  BIF_OEM_def BIF_CYCLE_COUNT_def

lemmas bst_indices = BST_STATUS_def BST_RATE_def BST_CAPACITY_def BST_VOLTAGE_def

section \<open>State\<close>

text \<open>
  A timer source fires only if it was added to a work loop. \<open>None\<close> in the two timer fields is
  the null pointer. \<open>milliSecPollingTable\<close> is a static array of the file: one battery exists.
\<close>

record timer_source =
  onWorkLoop :: bool
  timeoutMS :: "u32 option"

datatype battery_event = UpdateStatus | BatteryLog string u16

record battery =
  fPollTimer :: "timer_source option"
  fBatteryReadAllTimer :: "timer_source option"
  fPollingInterval :: u32
  fPollingOverridden :: bool
  fBatteryPresent :: bool
  fACConnected :: bool
  fACChargeCapable :: bool
  fCellVoltages :: "os_object list"
  fPowerUnit :: u32
  fDesignVoltage :: u32
  fCurrentVoltage :: u32
  fDesignCapacity :: u32
  fCurrentCapacity :: u32
  fMaxCapacity :: u32
  fCurrentRate :: u32
  fAverageRate :: u32
  fStatus :: u32
  fCycleCount :: u32
  fDeviceName :: "kernel_symbol option"
  fSerial :: "kernel_symbol option"
  fType :: "kernel_symbol option"
  fManufacturer :: "kernel_symbol option"
  fManufacturerData :: "u8 list option"
  fSerialNumber :: u16
  fCellVoltage1 :: u16
  fCellVoltage2 :: u16
  fCellVoltage3 :: u16
  fCellVoltage4 :: u16
  fTemperature :: u16
  milliSecPollingTable :: "u32 list"
  properties :: source_properties
  registry :: source_properties
  battery_events :: "battery_event list"

text \<open>The object as \<open>new\<close> leaves it: kernel objects are allocated zeroed.\<close>

definition new_battery :: "u32 list \<Rightarrow> battery" where
  "new_battery table = \<lparr>fPollTimer = None, fBatteryReadAllTimer = None, fPollingInterval = 0,
     fPollingOverridden = False, fBatteryPresent = False, fACConnected = False,
     fACChargeCapable = False, fCellVoltages = [], fPowerUnit = 0, fDesignVoltage = 0,
     fCurrentVoltage = 0, fDesignCapacity = 0, fCurrentCapacity = 0, fMaxCapacity = 0,
     fCurrentRate = 0, fAverageRate = 0, fStatus = 0, fCycleCount = 0, fDeviceName = None,
     fSerial = None, fType = None, fManufacturer = None, fManufacturerData = None,
     fSerialNumber = 0, fCellVoltage1 = 0, fCellVoltage2 = 0, fCellVoltage3 = 0,
     fCellVoltage4 = 0, fTemperature = 0, milliSecPollingTable = table,
     properties = (\<lambda>_. None), registry = (\<lambda>_. None), battery_events = []\<rparr>"

section \<open>Accessors of the superclass\<close>

definition number32 :: "u32 \<Rightarrow> os_object" where
  "number32 v = OSNumber (ucast v)"

definition number16 :: "u16 \<Rightarrow> os_object" where
  "number16 v = OSNumber (ucast v)"

definition power_number :: "power_source \<Rightarrow> source_key \<Rightarrow> u32 \<Rightarrow> battery \<Rightarrow> battery" where
  "power_number E key v b = b\<lparr>properties := power_set E key (number32 v) (properties b)\<rparr>"

definition power_bool :: "power_source \<Rightarrow> source_key \<Rightarrow> bool \<Rightarrow> battery \<Rightarrow> battery" where
  "power_bool E key v b = b\<lparr>properties := power_set E key (OSBoolean v) (properties b)\<rparr>"

definition power_object :: "power_source \<Rightarrow> source_key \<Rightarrow> os_object \<Rightarrow> battery \<Rightarrow> battery" where
  "power_object E key v b = b\<lparr>properties := power_set E key v (properties b)\<rparr>"

definition updateStatus :: "battery \<Rightarrow> battery" where
  "updateStatus b = b\<lparr>battery_events := battery_events b @ [UpdateStatus]\<rparr>"

definition setProperty :: "source_key \<Rightarrow> os_object \<Rightarrow> battery \<Rightarrow> battery" where
  "setProperty key v b = b\<lparr>registry := (registry b)(key \<mapsto> v)\<rparr>"

section \<open>Accessors of the extension\<close>

definition set_property :: "source_key \<Rightarrow> os_object \<Rightarrow> battery \<Rightarrow> battery" where
  "set_property key v b = b\<lparr>properties := (properties b)(key \<mapsto> v)\<rparr>"

definition get_number32 :: "source_key \<Rightarrow> battery \<Rightarrow> u32" where
  "get_number32 key b = (case number_of (properties b key) of Some n \<Rightarrow> ucast n | None \<Rightarrow> 0)"

definition setMaxErr :: "u32 \<Rightarrow> battery \<Rightarrow> battery" where
  "setMaxErr error = set_property SourceMaxErr (number32 error)"

definition maxErr :: "battery \<Rightarrow> u32" where
  "maxErr = get_number32 SourceMaxErr"

definition setDeviceName :: "kernel_symbol option \<Rightarrow> battery \<Rightarrow> battery" where
  "setDeviceName symbol b =
     (case symbol of Some s \<Rightarrow> set_property SourceDeviceName (object_of s) b | None \<Rightarrow> b)"

definition deviceName :: "battery \<Rightarrow> kernel_symbol option" where
  "deviceName b = symbol_of (properties b SourceDeviceName)"

definition setFullyCharged :: "bool \<Rightarrow> battery \<Rightarrow> battery" where
  "setFullyCharged charged = set_property SourceFullyCharged (OSBoolean charged)"

definition fullyCharged :: "battery \<Rightarrow> bool" where
  "fullyCharged b \<longleftrightarrow> properties b SourceFullyCharged = Some (OSBoolean True)"

definition setInstantaneousTimeToEmpty :: "u32 \<Rightarrow> battery \<Rightarrow> battery" where
  "setInstantaneousTimeToEmpty seconds = set_property SourceInstantTimeToEmpty (number32 seconds)"

definition setInstantaneousTimeToFull :: "u32 \<Rightarrow> battery \<Rightarrow> battery" where
  "setInstantaneousTimeToFull seconds = set_property SourceInstantTimeToFull (number32 seconds)"

definition setInstantAmperage :: "u32 \<Rightarrow> battery \<Rightarrow> battery" where
  "setInstantAmperage mA = set_property SourceInstantAmperage (number32 mA)"

definition setAverageTimeToEmpty :: "u32 \<Rightarrow> battery \<Rightarrow> battery" where
  "setAverageTimeToEmpty seconds = set_property SourceAvgTimeToEmpty (number32 seconds)"

definition averageTimeToEmpty :: "battery \<Rightarrow> u32" where
  "averageTimeToEmpty = get_number32 SourceAvgTimeToEmpty"

definition setAverageTimeToFull :: "u32 \<Rightarrow> battery \<Rightarrow> battery" where
  "setAverageTimeToFull seconds = set_property SourceAvgTimeToFull (number32 seconds)"

definition averageTimeToFull :: "battery \<Rightarrow> u32" where
  "averageTimeToFull = get_number32 SourceAvgTimeToFull"

definition setManufactureDate :: "u32 \<Rightarrow> battery \<Rightarrow> battery" where
  "setManufactureDate date = set_property SourceManufactureDate (number32 date)"

definition manufactureDate :: "battery \<Rightarrow> u32" where
  "manufactureDate = get_number32 SourceManufactureDate"

definition setSerialNumber :: "u32 \<Rightarrow> battery \<Rightarrow> battery" where
  "setSerialNumber sernum = set_property SourceSerialNumber (number32 sernum)"

definition battery_serialNumber :: "battery \<Rightarrow> u32" where
  "battery_serialNumber b = (case number_of (properties b SourceSerialNumber) of
       Some n \<Rightarrow> ucast (ucast n :: u16) | None \<Rightarrow> 0)"

definition setManufacturerData :: "u8 list \<Rightarrow> battery \<Rightarrow> battery" where
  "setManufacturerData bytes = set_property SourceManufacturerData (OSData bytes)"

definition setDesignCapacity :: "u32 \<Rightarrow> battery \<Rightarrow> battery" where
  "setDesignCapacity val = set_property SourceDesignCapacity (number32 val)"

definition designCapacity :: "battery \<Rightarrow> u32" where
  "designCapacity = get_number32 SourceDesignCapacity"

definition setType :: "kernel_symbol option \<Rightarrow> battery \<Rightarrow> battery" where
  "setType symbol b = (case symbol of Some s \<Rightarrow> set_property SourceType (object_of s) b | None \<Rightarrow> b)"

definition battery_Type :: "battery \<Rightarrow> kernel_symbol option" where
  "battery_Type b = symbol_of (properties b SourceType)"

lemmas battery_setters = power_number_def power_bool_def power_object_def set_property_def
  setProperty_def setMaxErr_def setDeviceName_def setFullyCharged_def
  setInstantaneousTimeToEmpty_def setInstantaneousTimeToFull_def setInstantAmperage_def
  setAverageTimeToEmpty_def setAverageTimeToFull_def setManufactureDate_def setSerialNumber_def
  setManufacturerData_def setDesignCapacity_def setType_def updateStatus_def

end
