(* ===== verification/BatteryDevice.thy ===== *)
theory BatteryDevice
  imports BatteryData
begin

text \<open>
  The operations of \<open>AppleACPIBatteryDevice\<close> that do not go back to the battery manager: reading
  the packages of the firmware, publishing what they say, clearing what was published.
\<close>

section \<open>Packages\<close>

definition GetValueFromArray :: "os_object list \<Rightarrow> nat \<Rightarrow> u32" where
  "GetValueFromArray array index =
     (case getObject array index of Some (OSNumber n) \<Rightarrow> ucast n | _ \<Rightarrow> -1)"

text \<open>
  \<open>OSTypeIDInst\<close> reads the object's table of functions, so an index past the end is a null
  pointer that is followed. The bytes of a data object are copied up to their first zero; without
  one the copy reads on behind them. \<open>withCStringNoCopy\<close> returns the existing symbol where one
  with these characters exists (\<open>interned\<close>).
\<close>

definition c_string :: "u8 list \<Rightarrow> kernel_error + string" where
  "c_string bytes =
     (if 0 \<in> set bytes
      then Inr (map (\<lambda>byte. char_of (unat byte)) (takeWhile (\<lambda>byte. byte \<noteq> 0) bytes))
      else Inl OutOfBoundsRead)"

definition withCStringNoCopy :: "power_source \<Rightarrow> string \<Rightarrow> kernel_symbol" where
  "withCStringNoCopy E text = (if interned E text then Symbol text else StackSymbol text)"

definition GetSymbolFromArray ::
  "power_source \<Rightarrow> os_object list \<Rightarrow> nat \<Rightarrow> kernel_error + kernel_symbol" where
  "GetSymbolFromArray E array index =
     (case getObject array index of
        None \<Rightarrow> Inl NullDereference
      | Some (OSString text) \<Rightarrow> Inr (CastString text)
      | Some (OSData bytes) \<Rightarrow>
          and_then (if bytes = [] then Inr (null_text E) else c_string bytes)
            (\<lambda>text. Inr (withCStringNoCopy E (snprintf_text 255 text)))
      | Some _ \<Rightarrow> Inr unknownObjectKey)"

definition number_in :: "os_object list \<Rightarrow> nat \<Rightarrow> kernel_error + u32" where
  "number_in array index =
     and_then (non_null (number_of (getObject array index))) (\<lambda>n. Inr (ucast n))"

section \<open>Errors and timers\<close>

definition logReadError :: "string \<Rightarrow> u16 \<Rightarrow> battery \<Rightarrow> battery" where
  "logReadError error_type additional_error b =
     (setProperty SourceLatestErrorType (OSString error_type) b)
       \<lparr>battery_events := battery_events b @ [BatteryLog error_type additional_error]\<rparr>"

definition battery_setPollingInterval :: "u32 \<Rightarrow> battery \<Rightarrow> battery" where
  "battery_setPollingInterval milliSeconds b =
     (if \<not> fPollingOverridden b
      then b\<lparr>milliSecPollingTable := (milliSecPollingTable b)[unat kDefaultPollInterval := milliSeconds],
             fPollingInterval := kDefaultPollInterval\<rparr>
      else b)"

definition cancel_poll_timer :: "battery \<Rightarrow> kernel_error + battery" where
  "cancel_poll_timer b = and_then (non_null (fPollTimer b))
     (\<lambda>t. Inr (b\<lparr>fPollTimer := Some (t\<lparr>timeoutMS := None\<rparr>)\<rparr>))"

definition set_poll_timer :: "u32 \<Rightarrow> battery \<Rightarrow> kernel_error + battery" where
  "set_poll_timer ms b = and_then (non_null (fPollTimer b))
     (\<lambda>t. Inr (b\<lparr>fPollTimer := Some (t\<lparr>timeoutMS := Some ms\<rparr>)\<rparr>))"

definition cancel_read_timer :: "battery \<Rightarrow> kernel_error + battery" where
  "cancel_read_timer b = and_then (non_null (fBatteryReadAllTimer b))
     (\<lambda>t. Inr (b\<lparr>fBatteryReadAllTimer := Some (t\<lparr>timeoutMS := None\<rparr>)\<rparr>))"

definition set_read_timer :: "u32 \<Rightarrow> battery \<Rightarrow> kernel_error + battery" where
  "set_read_timer ms b = and_then (non_null (fBatteryReadAllTimer b))
     (\<lambda>t. Inr (b\<lparr>fBatteryReadAllTimer := Some (t\<lparr>timeoutMS := Some ms\<rparr>)\<rparr>))"

section \<open>The dictionary of older programs\<close>

definition legacy_flag_word :: "power_source \<Rightarrow> source_properties \<Rightarrow> u32" where
  "legacy_flag_word E p =
     (let flags = 0;
          flags = (if power_flag E SourceExternalConnected p then flags OR kIOPMACInstalled E else flags);
          flags = (if power_flag E SourceBatteryInstalled p then flags OR kIOPMBatteryInstalled E else flags)
      in if power_flag E SourceIsCharging p then flags OR kIOPMBatteryCharging E else flags)"

definition dictionary_of :: "(legacy_key \<times> os_object option) list \<Rightarrow> os_object" where
  "dictionary_of entries =
     OSDictionary (List.map_filter (\<lambda>(key, value). map_option (Pair key) value) entries)"

definition rebuildLegacyIOBatteryInfo :: "power_source \<Rightarrow> battery \<Rightarrow> battery" where
  "rebuildLegacyIOBatteryInfo E b =
     power_object E SourceBatteryInfo
       (dictionary_of
          [(LegacyFlags, Some (number32 (legacy_flag_word E (properties b)))),
           (LegacyCurrentCharge, properties b SourceCurrentCapacity),
           (LegacyCapacity, properties b SourceMaxCapacity),
           (LegacyVoltage, properties b SourceVoltage),
           (LegacyAmperage, properties b SourceAmperage),
           (LegacyCycleCount, properties b SourceCycleCount)]) b"

section \<open>Clearing\<close>

definition cleared_keys :: "source_key list" where
  "cleared_keys =
     [SourceManufacturer, SourceSerial, SourceBatteryInfo, SourceErrorCondition,
      SourceDesignCapacity, SourceDeviceName, SourceType, SourceMaxErr, SourceManufactureDate,
      SourceSerialNumber, SourceManufacturerData, SourceAvgTimeToEmpty, SourceAvgTimeToFull,
      SourceInstantTimeToEmpty, SourceInstantTimeToFull, SourceInstantAmperage, SourceQuickPoll,
      SourceCellVoltage, SourceTemperature, SourceSoftwareSerial]"

definition remove_property :: "source_key \<Rightarrow> battery \<Rightarrow> battery" where
  "remove_property key b =
     b\<lparr>properties := (properties b)(key := None), registry := (registry b)(key := None)\<rparr>"

definition zero_state :: "power_source \<Rightarrow> battery \<Rightarrow> battery" where
  "zero_state E b =
     (let b = b\<lparr>fBatteryPresent := False, fACConnected := False, fACChargeCapable := False\<rparr>;
          b = power_bool E SourceBatteryInstalled False b;
          b = power_bool E SourceIsCharging False b;
          b = power_number E SourceCurrentCapacity 0 b;
          b = power_number E SourceMaxCapacity 0 b;
          b = power_number E SourceTimeRemaining 0 b;
          b = power_number E SourceAmperage 0 b;
          b = power_number E SourceVoltage 0 b;
          b = power_number E SourceCycleCount 0 b;
          b = power_number E SourceAdapterInfo 0 b
      in power_number E SourceLocation 0 b)"

definition clearBatteryState :: "power_source \<Rightarrow> bool \<Rightarrow> battery \<Rightarrow> battery" where
  "clearBatteryState E do_set b =
     (let b = zero_state E b;
          b = fold remove_property cleared_keys b;
          b = rebuildLegacyIOBatteryInfo E b
      in if do_set then updateStatus b else b)"

section \<open>The serial number shown to the user\<close>

definition symbol_text :: "kernel_symbol option \<Rightarrow> kernel_error + string" where
  "symbol_text symbol =
     (case symbol of Some s \<Rightarrow> getCStringNoCopy s | None \<Rightarrow> Inr ''Unknown'')"

definition serial_text :: "battery \<Rightarrow> kernel_error + string" where
  "serial_text b =
     (case fSerial b of
        Some s \<Rightarrow> getCStringNoCopy s
      | None \<Rightarrow> Inr (if fSerialNumber b \<noteq> 0
                     then snprintf_text kMaxGeneratedSerialSize (decimal (unat (fSerialNumber b)))
                     else ''Unknown''))"

definition constructAppleSerialNumber :: "battery \<Rightarrow> kernel_error + battery" where
  "constructAppleSerialNumber b =
     and_then (symbol_text (fManufacturer b)) (\<lambda>manf.
     and_then (symbol_text (fDeviceName b)) (\<lambda>device.
     and_then (symbol_text (fType b)) (\<lambda>kind.
     and_then (serial_text b) (\<lambda>serial.
       let serialBuf = snprintf_text kMaxGeneratedSerialSize
             (manf @ ''-'' @ device @ ''-'' @ kind @ ''-'' @ serial)
       in Inr (set_property SourceSoftwareSerial (OSSymbol (Symbol serialBuf)) b)))))"

section \<open>The three packages\<close>

definition setBatterySTA :: "power_source \<Rightarrow> u32 \<Rightarrow> battery \<Rightarrow> battery" where
  "setBatterySTA E acpibat_bif b =
     (if any_bit acpibat_bif 0x10
      then power_bool E SourceBatteryInstalled True (b\<lparr>fBatteryPresent := True\<rparr>)
      else power_bool E SourceBatteryInstalled False (b\<lparr>fBatteryPresent := False\<rparr>))"

text \<open>\<open>setBatteryBIF\<close> first reads the package into the fields \<open>\<dots>\<close>\<close>

definition read_bif :: "power_source \<Rightarrow> os_object list \<Rightarrow> battery \<Rightarrow> kernel_error + battery" where
  "read_bif E bif b =
     (let b = b\<lparr>fPowerUnit := GetValueFromArray bif BIF_POWER_UNIT,
                fDesignCapacity := GetValueFromArray bif BIF_DESIGN_CAPACITY,
                fMaxCapacity := GetValueFromArray bif BIF_LAST_FULL_CAPACITY,
                fDesignVoltage := GetValueFromArray bif BIF_DESIGN_VOLTAGE\<rparr>
      in and_then (GetSymbolFromArray E bif BIF_MODEL_NUMBER) (\<lambda>device.
         and_then (GetSymbolFromArray E bif BIF_SERIAL_NUMBER) (\<lambda>serial.
         and_then (GetSymbolFromArray E bif BIF_BATTERY_TYPE) (\<lambda>kind.
         and_then (GetSymbolFromArray E bif BIF_OEM) (\<lambda>manf.
           Inr (b\<lparr>fDeviceName := Some device, fSerial := Some serial,
                  fSerialNumber := ucast (GetValueFromArray bif BIF_SERIAL_NUMBER),
                  fType := Some kind, fManufacturer := Some manf,
                  fCycleCount := (if length bif > 13 then GetValueFromArray bif BIF_CYCLE_COUNT
                                  else 0)\<rparr>))))))"

text \<open>\<open>\<dots>\<close> and then publishes them.\<close>

definition publish_bif :: "power_source \<Rightarrow> battery \<Rightarrow> battery" where
  "publish_bif E b =
     (let b = (if fDesignCapacity b = 0 \<or> fMaxCapacity b = 0 then logReadError kErrorZeroCapacity 0 b
               else b);
          b = setDesignCapacity (fDesignCapacity b) b;
          b = power_number E SourceMaxCapacity (fMaxCapacity b) b;
          b = setDeviceName (fDeviceName b) b;
          b = setSerialNumber (ucast (fSerialNumber b)) b;
          b = setType (fType b) b;
          b = (case fManufacturer b of
                 Some m \<Rightarrow> power_object E SourceManufacturer (object_of m) b | None \<Rightarrow> b);
          b = power_number E SourceCycleCount (fCycleCount b) b;
          b = setMaxErr 0 b;
          b = setManufactureDate 0 b;
          b = setSerialNumber 0 b
      in setManufacturerData [] (b\<lparr>fManufacturerData := Some []\<rparr>))"

definition setBatteryBIF ::
  "power_source \<Rightarrow> os_object list option \<Rightarrow> battery \<Rightarrow> kernel_error + battery" where
  "setBatteryBIF E acpibat_bif b =
     and_then (non_null acpibat_bif) (\<lambda>bif.
     and_then (read_bif E bif b) (\<lambda>b. Inr (publish_bif E b)))"

text \<open>\<open>setBatteryBST\<close>: the four numbers, the rate, and a branch for each battery state.\<close>

definition normal_rate :: "u32 \<Rightarrow> u32 \<Rightarrow> u32" where
  "normal_rate maxCapacity rate =
     (let rate = (if any_bit rate 0x8000 then 0xFFFF - rate else rate)
      in if rate \<le> 0 then maxCapacity div 2 else rate)"

definition read_bst ::
  "power_source \<Rightarrow> os_object list \<Rightarrow> battery \<Rightarrow> kernel_error + u32 \<times> battery" where
  "read_bst E bst b =
     and_then (number_in bst BST_STATUS) (\<lambda>currentStatus.
     and_then (number_in bst BST_RATE) (\<lambda>rate.
     and_then (number_in bst BST_VOLTAGE) (\<lambda>voltage.
     and_then (number_in bst BST_CAPACITY) (\<lambda>capacity.
       let b = b\<lparr>fCurrentRate := rate, fCurrentVoltage := voltage, fCurrentCapacity := capacity\<rparr>;
           b = power_number E SourceCurrentCapacity capacity b
       in Inr (currentStatus, power_number E SourceVoltage voltage b)))))"

definition average_rate :: "u32 \<Rightarrow> battery \<Rightarrow> battery" where
  "average_rate currentStatus b =
     (let b = b\<lparr>fCurrentRate := normal_rate (fMaxCapacity b) (fCurrentRate b)\<rparr>;
          b = b\<lparr>fAverageRate := (if fAverageRate b \<noteq> 0 then (fAverageRate b + fCurrentRate b) div 2
                                 else fCurrentRate b)\<rparr>
      in if currentStatus XOR fStatus b \<noteq> 0 then b\<lparr>fStatus := currentStatus, fAverageRate := 0\<rparr>
         else b)"

definition external_power :: "power_source \<Rightarrow> bool \<Rightarrow> bool \<Rightarrow> battery \<Rightarrow> battery" where
  "external_power E connected capable b =
     (let b = power_bool E SourceExternalConnected connected (b\<lparr>fACConnected := connected\<rparr>)
      in power_bool E SourceExternalChargeCapable capable (b\<lparr>fACChargeCapable := capable\<rparr>))"

definition publish_failure :: "power_source \<Rightarrow> battery \<Rightarrow> battery" where
  "publish_failure E b =
     (let b = logReadError kErrorPermanentFailure 0 b;
          b = power_object E SourceErrorCondition (OSSymbol (Symbol kErrorPermanentFailure)) b;
          b = setFullyCharged False b;
          b = power_bool E SourceIsCharging False b;
          b = external_power E True False b;
          b = power_number E SourceAmperage 0 b;
          b = setInstantAmperage 0 b;
          b = power_number E SourceTimeRemaining 0 b;
          b = setAverageTimeToEmpty 0 b;
          b = setAverageTimeToFull 0 b;
          b = setInstantaneousTimeToFull 0 b
      in setInstantaneousTimeToEmpty 0 b)"

text \<open>Minutes until a charge is used up at a rate, in the 32 bits of the computation.\<close>

definition minutes :: "u32 \<Rightarrow> u32 \<Rightarrow> u32" where
  "minutes charge rate = (if rate \<noteq> 0 then (60 * charge) div rate else 0xffff)"

definition publish_discharging :: "power_source \<Rightarrow> battery \<Rightarrow> battery" where
  "publish_discharging E b =
     (let b = setFullyCharged False b;
          b = power_bool E SourceIsCharging False b;
          b = external_power E False False b;
          b = power_number E SourceAmperage (fAverageRate b * -1) b;
          b = setInstantAmperage (fCurrentRate b * -1) b;
          b = power_number E SourceTimeRemaining (minutes (fCurrentCapacity b) (fAverageRate b)) b;
          b = setAverageTimeToEmpty (minutes (fCurrentCapacity b) (fAverageRate b)) b;
          b = setInstantaneousTimeToEmpty (minutes (fCurrentCapacity b) (fCurrentRate b)) b;
          b = setAverageTimeToFull 0xffff b
      in setInstantaneousTimeToFull 0xffff b)"

definition publish_charging :: "power_source \<Rightarrow> battery \<Rightarrow> battery" where
  "publish_charging E b =
     (let b = setFullyCharged False b;
          b = power_bool E SourceIsCharging True b;
          b = external_power E True True b;
          b = power_number E SourceAmperage (fAverageRate b) b;
          b = setInstantAmperage (fCurrentRate b) b;
          missing = fMaxCapacity b - fCurrentCapacity b;
          b = power_number E SourceTimeRemaining (minutes missing (fAverageRate b)) b;
          b = setAverageTimeToFull (minutes missing (fAverageRate b)) b;
          b = setInstantaneousTimeToFull (minutes missing (fCurrentRate b)) b;
          b = setAverageTimeToEmpty 0xffff b
      in setInstantaneousTimeToEmpty 0xffff b)"

definition publish_charged :: "power_source \<Rightarrow> battery \<Rightarrow> battery" where
  "publish_charged E b =
     (let b = setFullyCharged True b;
          b = power_bool E SourceIsCharging False b;
          b = external_power E True True b;
          b = power_number E SourceAmperage 0 b;
          b = setInstantAmperage 0 b;
          b = power_number E SourceTimeRemaining 0xffff b;
          b = setAverageTimeToFull 0xffff b;
          b = setAverageTimeToEmpty 0xffff b;
          b = setInstantaneousTimeToFull 0xffff b;
          b = setInstantaneousTimeToEmpty 0xffff b;
          b = b\<lparr>fCurrentCapacity := fMaxCapacity b\<rparr>
      in power_number E SourceCurrentCapacity (fCurrentCapacity b) b)"

definition publish_status :: "power_source \<Rightarrow> u32 \<Rightarrow> battery \<Rightarrow> battery" where
  "publish_status E currentStatus b =
     (if any_bit currentStatus BATTERY_DISCHARGING \<and> any_bit currentStatus BATTERY_CHARGING
      then publish_failure E b
      else if any_bit currentStatus BATTERY_DISCHARGING then publish_discharging E b
      else if any_bit currentStatus BATTERY_CHARGING then publish_charging E b
      else publish_charged E b)"

definition choose_polling :: "battery \<Rightarrow> battery" where
  "choose_polling b =
     (if \<not> fPollingOverridden b \<and> fMaxCapacity b \<noteq> 0
      then if (100 * fCurrentCapacity b) div fMaxCapacity b < 5 \<and> fACConnected b
        then (setProperty SourceQuickPoll (OSBoolean True) b)\<lparr>fPollingInterval := kQuickPollInterval\<rparr>
        else (setProperty SourceQuickPoll (OSBoolean False) b)\<lparr>fPollingInterval := kDefaultPollInterval\<rparr>
      else b)"

definition publish_cells :: "battery \<Rightarrow> battery" where
  "publish_cells b =
     (let cell = ucast (fCurrentVoltage b div 4) :: u16;
          last = ucast (fCurrentVoltage b - ucast cell - ucast cell - ucast cell) :: u16;
          cells = [number16 cell, number16 cell, number16 cell, number16 last];
          b = b\<lparr>fCellVoltages := cells, fCellVoltage1 := cell, fCellVoltage2 := cell,
                fCellVoltage3 := cell, fCellVoltage4 := last\<rparr>;
          b = setProperty SourceCellVoltage (OSArray cells) b;
          b = b\<lparr>fTemperature := ucast (fCurrentVoltage b div 4)\<rparr>
      in setProperty SourceTemperature (number16 (fTemperature b)) b)"

definition setBatteryBST ::
  "power_source \<Rightarrow> os_object list option \<Rightarrow> battery \<Rightarrow> kernel_error + battery" where
  "setBatteryBST E acpibat_bst b =
     and_then (non_null acpibat_bst) (\<lambda>bst.
     and_then (read_bst E bst b) (\<lambda>(currentStatus, b).
       let b = average_rate currentStatus b;
           b = publish_status E currentStatus b;
           b = choose_polling b;
           b = publish_cells b
       in and_then (constructAppleSerialNumber b) (\<lambda>b.
          and_then (cancel_read_timer b) (\<lambda>b.
            Inr (updateStatus (rebuildLegacyIOBatteryInfo E b))))))"

end
