(* ===== verification/BatteryManager.thy ===== *)
theory BatteryManager
  imports BatteryDevice
begin

text \<open>
  \<open>AppleACPIBatteryManager\<close> and the operations of the battery that go through it. The battery asks
  the manager for a package, the manager evaluates the firmware method and hands the result back
  to the battery: both objects are one state here.

  The firmware is a parameter: its state \<open>acpi_state\<close> and the three evaluations, each \<open>None\<close> where
  the evaluation fails. Objects are created, timers added to the work loop and services
  registered with the outcomes of a record \<open>start_outcome\<close>.
\<close>

section \<open>State\<close>

record 'h battery_machine =
  acpi_state :: 'h
  fBatterySTA :: u32
  fBattery :: "battery option"
  fManagerGate :: bool
  fBatteryGate :: bool
  battery_information :: "os_object list option"
  battery_status :: "os_object list option"
  pollingInterval_msec :: "u32 option"

record 'h acpi_env =
  source :: power_source
  evaluate_STA :: "'h \<Rightarrow> u32 option \<times> 'h"
  evaluate_BIF :: "'h \<Rightarrow> os_object option \<times> 'h"
  evaluate_BST :: "'h \<Rightarrow> os_object option \<times> 'h"

fun array_of :: "os_object \<Rightarrow> os_object list option" where
  "array_of (OSArray xs) = Some xs"
| "array_of _ = None"

definition with_battery ::
  "(battery \<Rightarrow> kernel_error + battery) \<Rightarrow> 'h battery_machine \<Rightarrow> kernel_error + 'h battery_machine" where
  "with_battery f m =
     and_then (non_null (fBattery m)) (\<lambda>b. and_then (f b) (\<lambda>b. Inr (m\<lparr>fBattery := Some b\<rparr>)))"

section \<open>The firmware methods\<close>

definition getBatterySTA ::
  "'h acpi_env \<Rightarrow> 'h battery_machine \<Rightarrow> kernel_error + bool \<times> 'h battery_machine" where
  "getBatterySTA A m =
     (case evaluate_STA A (acpi_state m) of
        (Some v, h) \<Rightarrow>
          and_then (with_battery (\<lambda>b. Inr (setBatterySTA (source A) v b))
                      (m\<lparr>acpi_state := h, fBatterySTA := v\<rparr>))
            (\<lambda>m. Inr (True, m))
      | (None, h) \<Rightarrow> Inr (False, m\<lparr>acpi_state := h\<rparr>))"

definition getBatteryBIF ::
  "'h acpi_env \<Rightarrow> 'h battery_machine \<Rightarrow> kernel_error + bool \<times> 'h battery_machine" where
  "getBatteryBIF A m =
     (case evaluate_BIF A (acpi_state m) of
        (Some object, h) \<Rightarrow>
          let bif = array_of object;
              m = m\<lparr>acpi_state := h,
                    battery_information := (if bif = None then battery_information m else bif)\<rparr>
          in and_then (with_battery (setBatteryBIF (source A) bif) m) (\<lambda>m. Inr (True, m))
      | (None, h) \<Rightarrow> Inr (False, m\<lparr>acpi_state := h\<rparr>))"

definition getBatteryBST ::
  "'h acpi_env \<Rightarrow> 'h battery_machine \<Rightarrow> kernel_error + bool \<times> 'h battery_machine" where
  "getBatteryBST A m =
     (case evaluate_BST A (acpi_state m) of
        (Some object, h) \<Rightarrow>
          let bst = array_of object;
              m = m\<lparr>acpi_state := h,
                    battery_status := (if bst = None then battery_status m else bst)\<rparr>
          in and_then (with_battery (setBatteryBST (source A) bst) m) (\<lambda>m. Inr (True, m))
      | (None, h) \<Rightarrow> Inr (False, m\<lparr>acpi_state := h\<rparr>))"

section \<open>Polling\<close>

definition read_packages ::
  "'h acpi_env \<Rightarrow> 'h battery_machine \<Rightarrow> kernel_error + 'h battery_machine" where
  "read_packages A m =
     and_then (non_null (fBattery m)) (\<lambda>b.
       if fBatteryPresent b then
         and_then (getBatteryBIF A m) (\<lambda>(_, m).
         and_then (getBatteryBST A m) (\<lambda>(_, m). Inr m))
       else with_battery (\<lambda>b. Inr (clearBatteryState (source A) True (setFullyCharged False b))) m)"

definition restart_polling :: "battery \<Rightarrow> kernel_error + battery" where
  "restart_polling b =
     (if \<not> fPollingOverridden b then
        if unat (fPollingInterval b) < length (milliSecPollingTable b)
        then set_poll_timer (milliSecPollingTable b ! unat (fPollingInterval b)) b
        else Inl OutOfBoundsRead
      else set_poll_timer (1000 * fPollingInterval b) b)"

definition pollExistingBattery ::
  "'h acpi_env \<Rightarrow> 'h battery_machine \<Rightarrow> kernel_error + 'h battery_machine" where
  "pollExistingBattery A m =
     and_then (getBatterySTA A m) (\<lambda>(_, m).
     and_then (read_packages A m) (\<lambda>m.
     with_battery restart_polling m))"

definition start_new_poll :: "battery \<Rightarrow> kernel_error + battery" where
  "start_new_poll b =
     and_then (cancel_poll_timer b) (\<lambda>b.
     and_then (cancel_read_timer b) (\<lambda>b.
     set_read_timer kBatteryReadAllTimeout b))"

definition pollBatteryState ::
  "'h acpi_env \<Rightarrow> u32 \<Rightarrow> 'h battery_machine \<Rightarrow> kernel_error + 'h battery_machine" where
  "pollBatteryState A path m =
     (if kNewBatteryPath = path
      then and_then (with_battery start_new_poll m) (pollExistingBattery A)
      else pollExistingBattery A m)"

definition handleBatteryInserted ::
  "'h acpi_env \<Rightarrow> 'h battery_machine \<Rightarrow> kernel_error + 'h battery_machine" where
  "handleBatteryInserted A = pollBatteryState A kNewBatteryPath"

definition handleBatteryRemoved ::
  "'h acpi_env \<Rightarrow> 'h battery_machine \<Rightarrow> kernel_error + 'h battery_machine" where
  "handleBatteryRemoved A = with_battery (\<lambda>b. Inr (clearBatteryState (source A) True b))"

definition pollingTimeOut ::
  "'h acpi_env \<Rightarrow> 'h battery_machine \<Rightarrow> kernel_error + 'h battery_machine" where
  "pollingTimeOut A = pollBatteryState A kExistingBatteryPath"

definition incompleteReadTimeOut ::
  "'h acpi_env \<Rightarrow> 'h battery_machine \<Rightarrow> kernel_error + 'h battery_machine" where
  "incompleteReadTimeOut A m =
     and_then (with_battery (\<lambda>b. Inr (logReadError kErrorOverallTimeoutExpired 0 b)) m)
       (pollBatteryState A kExistingBatteryPath)"

section \<open>Starting\<close>

text \<open>
  \<open>polling_override\<close> is the manager's property \<open>BatteryPollingPeriodOverride\<close> where it is a number.
\<close>

record start_outcome =
  provider_is_acpi :: bool
  manager_super_starts :: bool
  manager_has_workloop :: bool
  numBatteriesSupported :: int
  battery_allocated :: bool
  battery_super_starts :: bool
  polling_override :: "u32 option"
  battery_has_workloop :: bool
  poll_timer_made :: bool
  read_timer_made :: bool
  poll_timer_added :: bool
  manager_gate_made :: bool
  battery_gate_made :: bool

definition prepare_battery :: "start_outcome \<Rightarrow> battery \<Rightarrow> battery" where
  "prepare_battery out b =
     (let b = (case polling_override out of
                 Some interval \<Rightarrow> b\<lparr>fPollingInterval := interval, fPollingOverridden := True\<rparr>
               | None \<Rightarrow> b\<lparr>fPollingInterval := kDefaultPollInterval, fPollingOverridden := False\<rparr>);
          b = b\<lparr>fBatteryPresent := False, fACConnected := False, fACChargeCapable := False\<rparr>
      in b\<lparr>fPollTimer := (if poll_timer_made out
                          then Some \<lparr>onWorkLoop = False, timeoutMS = None\<rparr> else None),
           fBatteryReadAllTimer := (if read_timer_made out
                          then Some \<lparr>onWorkLoop = False, timeoutMS = None\<rparr> else None)\<rparr>)"

definition publish_start :: "power_source \<Rightarrow> battery \<Rightarrow> battery" where
  "publish_start E b =
     (let b = b\<lparr>fPollTimer := map_option (\<lambda>t. t\<lparr>onWorkLoop := True\<rparr>) (fPollTimer b)\<rparr>;
          b = setProperty SourceInvalidWakeSeconds (number32 kSecondsUntilValidOnWake) b;
          b = setProperty SourcePostChargeWaitSeconds (number32 kPostChargeWaitSeconds) b;
          b = setProperty SourcePostDischargeWaitSeconds (number32 kPostDischargeWaitSeconds) b
      in clearBatteryState E False b)"

definition battery_start ::
  "'h acpi_env \<Rightarrow> start_outcome \<Rightarrow> 'h battery_machine \<Rightarrow> kernel_error + bool \<times> 'h battery_machine" where
  "battery_start A out m =
     (if \<not> battery_super_starts out then Inr (False, m)
      else and_then (with_battery (\<lambda>b. Inr (prepare_battery out b)) m) (\<lambda>m.
        if \<not> battery_has_workloop out \<or> \<not> poll_timer_made out \<or> \<not> poll_timer_added out
        then Inr (False, m)
        else and_then (with_battery (\<lambda>b. Inr (publish_start (source A) b)) m) (\<lambda>m.
             and_then (pollBatteryState A kNewBatteryPath m) (\<lambda>m. Inr (True, m)))))"

definition populateBattery ::
  "'h acpi_env \<Rightarrow> start_outcome \<Rightarrow> 'h battery_machine \<Rightarrow> kernel_error + bool \<times> 'h battery_machine" where
  "populateBattery A out m =
     (if \<not> battery_allocated out then Inr (False, m\<lparr>fBattery := None\<rparr>)
      else and_then (battery_start A out (m\<lparr>fBattery := Some (new_battery initial_milliSecPollingTable)\<rparr>))
        (\<lambda>(_, m).
          if \<not> manager_gate_made out then Inr (False, m)
          else let m = m\<lparr>fManagerGate := True\<rparr>
               in if \<not> battery_gate_made out then Inr (False, m)
                  else Inr (True, m\<lparr>fBatteryGate := True\<rparr>)))"

definition manager_start ::
  "'h acpi_env \<Rightarrow> start_outcome \<Rightarrow> 'h battery_machine \<Rightarrow> kernel_error + bool \<times> 'h battery_machine" where
  "manager_start A out m =
     (if \<not> provider_is_acpi out \<or> \<not> manager_super_starts out then Inr (False, m)
      else if \<not> manager_has_workloop out then Inr (False, m)
      else if numBatteriesSupported out > 1 then
        (case evaluate_STA A (acpi_state m) of
           (Some v, h) \<Rightarrow>
             let m = m\<lparr>acpi_state := h, fBatterySTA := v\<rparr>
             in if any_bit v 0x10 then populateBattery A out m else Inr (True, m)
         | (None, h) \<Rightarrow> populateBattery A out (m\<lparr>acpi_state := h\<rparr>))
      else populateBattery A out m)"

section \<open>Calls of the system\<close>

datatype io_return = IOReturnSuccess | IOReturnBadArgument

definition manager_setPollingInterval ::
  "u32 \<Rightarrow> 'h battery_machine \<Rightarrow> io_return \<times> 'h battery_machine" where
  "manager_setPollingInterval milliSeconds m =
     (if sint milliSeconds \<le> 0 then (IOReturnBadArgument, m)
      else (IOReturnSuccess,
            m\<lparr>fBattery := map_option (battery_setPollingInterval milliSeconds) (fBattery m),
              pollingInterval_msec := Some milliSeconds\<rparr>))"

definition manager_setPowerState ::
  "'h acpi_env \<Rightarrow> nat \<Rightarrow> 'h battery_machine \<Rightarrow> kernel_error + 'h battery_machine" where
  "manager_setPowerState A which m =
     (if which = 1 \<and> fBatteryGate m then pollBatteryState A 1 m else Inr m)"

definition manager_message ::
  "'h acpi_env \<Rightarrow> bool \<Rightarrow> 'h battery_machine \<Rightarrow> kernel_error + 'h battery_machine" where
  "manager_message A deviceNotification m =
     (if \<not> deviceNotification then Inr m
      else case evaluate_STA A (acpi_state m) of
        (None, h) \<Rightarrow> Inr (m\<lparr>acpi_state := h\<rparr>)
      | (Some batterySTA, h) \<Rightarrow>
          let m = m\<lparr>acpi_state := h\<rparr>
          in if \<not> fBatteryGate m then Inr m
             else if batterySTA XOR fBatterySTA m \<noteq> 0 then
               if any_bit batterySTA 0x10 then handleBatteryInserted A m
               else handleBatteryRemoved A m
             else pollBatteryState A 0 m)"

end
