(* ===== verification/BatteryPolling.thy ===== *)
theory BatteryPolling
  imports BatteryManager
begin

text \<open>
  The battery goes on polling: what every operation leaves alone, the locale of properties of the
  battery that all operations keep, and the states the extension can reach.
\<close>

section \<open>What the operations leave alone\<close>

text \<open>The fields that decide about polling.\<close>

definition polling_setup :: "battery \<Rightarrow> timer_source option \<times> timer_source option \<times> bool \<times> u32 list" where
  "polling_setup b = (fPollTimer b, fBatteryReadAllTimer b, fPollingOverridden b, milliSecPollingTable b)"

definition symbol_fields :: "battery \<Rightarrow> kernel_symbol option list" where
  "symbol_fields b = [fManufacturer b, fDeviceName b, fType b, fSerial b]"

lemma setter_frame [frame_simps]:
  "polling_setup (power_number E k v b) = polling_setup b"
  "polling_setup (power_bool E k t b) = polling_setup b"
  "polling_setup (power_object E k x b) = polling_setup b"
  "polling_setup (set_property k x b) = polling_setup b"
  "polling_setup (setProperty k x b) = polling_setup b"
  "polling_setup (remove_property k b) = polling_setup b"
  "polling_setup (logReadError e n b) = polling_setup b"
  "polling_setup (updateStatus b) = polling_setup b"
  by (simp_all add: polling_setup_def battery_setters remove_property_def logReadError_def)

lemma setter_interval [frame_simps]:
  "fPollingInterval (power_number E k v b) = fPollingInterval b"
  "fPollingInterval (power_bool E k t b) = fPollingInterval b"
  "fPollingInterval (power_object E k x b) = fPollingInterval b"
  "fPollingInterval (set_property k x b) = fPollingInterval b"
  "fPollingInterval (setProperty k x b) = fPollingInterval b"
  "fPollingInterval (remove_property k b) = fPollingInterval b"
  "fPollingInterval (logReadError e n b) = fPollingInterval b"
  "fPollingInterval (updateStatus b) = fPollingInterval b"
  by (simp_all add: battery_setters remove_property_def logReadError_def)

lemma setter_symbols [frame_simps]:
  "symbol_fields (power_number E k v b) = symbol_fields b"
  "symbol_fields (power_bool E k t b) = symbol_fields b"
  "symbol_fields (power_object E k x b) = symbol_fields b"
  "symbol_fields (set_property k x b) = symbol_fields b"
  "symbol_fields (setProperty k x b) = symbol_fields b"
  "symbol_fields (remove_property k b) = symbol_fields b"
  "symbol_fields (logReadError e n b) = symbol_fields b"
  "symbol_fields (updateStatus b) = symbol_fields b"
  by (simp_all add: symbol_fields_def battery_setters remove_property_def logReadError_def)

lemma fold_remove_frame [frame_simps]:
  "polling_setup (fold remove_property ks b) = polling_setup b"
  "fPollingInterval (fold remove_property ks b) = fPollingInterval b"
  "symbol_fields (fold remove_property ks b) = symbol_fields b"
  by (induction ks arbitrary: b) (simp_all add: frame_simps)

lemmas own_setters = setMaxErr_def setDeviceName_def setFullyCharged_def
  setInstantaneousTimeToEmpty_def setInstantaneousTimeToFull_def setInstantAmperage_def
  setAverageTimeToEmpty_def setAverageTimeToFull_def setManufactureDate_def setSerialNumber_def
  setManufacturerData_def setDesignCapacity_def setType_def

lemmas publishers = publish_status_def publish_failure_def publish_discharging_def
  publish_charging_def publish_charged_def external_power_def

lemma update_frame [frame_simps]:
  "polling_setup (b\<lparr>fACConnected := x\<rparr>) = polling_setup b"
  "polling_setup (b\<lparr>fACChargeCapable := x\<rparr>) = polling_setup b"
  "polling_setup (b\<lparr>fBatteryPresent := x\<rparr>) = polling_setup b"
  "polling_setup (b\<lparr>fPollingInterval := i\<rparr>) = polling_setup b"
  "polling_setup (b\<lparr>fCurrentCapacity := v\<rparr>) = polling_setup b"
  "polling_setup (b\<lparr>fManufacturerData := d\<rparr>) = polling_setup b"
  by (simp_all add: polling_setup_def)

lemma update_symbols [frame_simps]:
  "symbol_fields (b\<lparr>fACConnected := x\<rparr>) = symbol_fields b"
  "symbol_fields (b\<lparr>fACChargeCapable := x\<rparr>) = symbol_fields b"
  "symbol_fields (b\<lparr>fBatteryPresent := x\<rparr>) = symbol_fields b"
  "symbol_fields (b\<lparr>fPollingInterval := i\<rparr>) = symbol_fields b"
  "symbol_fields (b\<lparr>fCurrentCapacity := v\<rparr>) = symbol_fields b"
  "symbol_fields (b\<lparr>fManufacturerData := d\<rparr>) = symbol_fields b"
  by (simp_all add: symbol_fields_def)

lemma publish_frame [frame_simps]:
  "polling_setup (publish_status E v b) = polling_setup b"
  "polling_setup (zero_state E b) = polling_setup b"
  "polling_setup (publish_bif E b) = polling_setup b"
  by (simp_all add: publishers zero_state_def publish_bif_def own_setters Let_def frame_simps
        split: option.split)

lemma publish_interval [frame_simps]:
  "fPollingInterval (publish_status E v b) = fPollingInterval b"
  "fPollingInterval (zero_state E b) = fPollingInterval b"
  "fPollingInterval (publish_bif E b) = fPollingInterval b"
  by (simp_all add: publishers zero_state_def publish_bif_def own_setters Let_def frame_simps
        split: option.split)

lemma publish_symbols [frame_simps]:
  "symbol_fields (publish_status E v b) = symbol_fields b"
  "symbol_fields (zero_state E b) = symbol_fields b"
  "symbol_fields (publish_bif E b) = symbol_fields b"
  by (simp_all add: publishers zero_state_def publish_bif_def own_setters Let_def frame_simps
        split: option.split)

lemma rate_frame [frame_simps]:
  "polling_setup (average_rate v b) = polling_setup b"
  "polling_setup (choose_polling b) = polling_setup b"
  "polling_setup (publish_cells b) = polling_setup b"
  "symbol_fields (average_rate v b) = symbol_fields b"
  "symbol_fields (choose_polling b) = symbol_fields b"
  "symbol_fields (publish_cells b) = symbol_fields b"
  "fPollingInterval (average_rate v b) = fPollingInterval b"
  "fPollingInterval (publish_cells b) = fPollingInterval b"
  by (simp_all add: polling_setup_def symbol_fields_def average_rate_def choose_polling_def
        publish_cells_def setProperty_def Let_def)

lemma clear_frame [frame_simps]:
  "polling_setup (rebuildLegacyIOBatteryInfo E b) = polling_setup b"
  "polling_setup (clearBatteryState E d b) = polling_setup b"
  "polling_setup (setBatterySTA E v b) = polling_setup b"
  "polling_setup (setFullyCharged c b) = polling_setup b"
  "symbol_fields (rebuildLegacyIOBatteryInfo E b) = symbol_fields b"
  "symbol_fields (clearBatteryState E d b) = symbol_fields b"
  "symbol_fields (setBatterySTA E v b) = symbol_fields b"
  "symbol_fields (setFullyCharged c b) = symbol_fields b"
  "fPollingInterval (rebuildLegacyIOBatteryInfo E b) = fPollingInterval b"
  "fPollingInterval (clearBatteryState E d b) = fPollingInterval b"
  "fPollingInterval (setBatterySTA E v b) = fPollingInterval b"
  "fPollingInterval (setFullyCharged c b) = fPollingInterval b"
  by (simp_all add: rebuildLegacyIOBatteryInfo_def clearBatteryState_def setBatterySTA_def
        setFullyCharged_def Let_def frame_simps)

lemma choose_polling_interval:
  "fPollingInterval (choose_polling b) = fPollingInterval b \<or>
   fPollingInterval (choose_polling b) = kDefaultPollInterval \<or>
   fPollingInterval (choose_polling b) = kQuickPollInterval"
  by (simp add: choose_polling_def)

lemma read_bif_frame:
  assumes "read_bif E x b = Inr b'"
  shows "polling_setup b' = polling_setup b" "fPollingInterval b' = fPollingInterval b"
  using assms by (auto simp: read_bif_def polling_setup_def Let_def)

lemma read_bst_frame:
  assumes "read_bst E x b = Inr (v, b')"
  shows "polling_setup b' = polling_setup b" "fPollingInterval b' = fPollingInterval b"
    "symbol_fields b' = symbol_fields b"
  using assms by (auto simp: read_bst_def polling_setup_def symbol_fields_def Let_def battery_setters)

lemma construct_frame:
  assumes "constructAppleSerialNumber b = Inr b'"
  shows "polling_setup b' = polling_setup b" "fPollingInterval b' = fPollingInterval b"
    "symbol_fields b' = symbol_fields b"
  using assms by (auto simp: constructAppleSerialNumber_def Let_def frame_simps)

lemma setBatteryBIF_frame:
  assumes "setBatteryBIF E x b = Inr b'"
  shows "polling_setup b' = polling_setup b" "fPollingInterval b' = fPollingInterval b"
  using assms by (auto simp: setBatteryBIF_def frame_simps dest: read_bif_frame)

text \<open>A status read changes the interval to one of the two indices of the table, or not at all.\<close>

lemma setBatteryBST_frame:
  assumes "setBatteryBST E x b = Inr b'"
  shows "fPollTimer b' = fPollTimer b" "fPollingOverridden b' = fPollingOverridden b"
    "milliSecPollingTable b' = milliSecPollingTable b" "symbol_fields b' = symbol_fields b"
    "fPollingInterval b' \<in> {fPollingInterval b, kDefaultPollInterval, kQuickPollInterval}"
    "\<exists>r. fBatteryReadAllTimer b = Some r \<and> fBatteryReadAllTimer b' = Some (r\<lparr>timeoutMS := None\<rparr>)"
proof -
  obtain bst v b0 b1 b2 where
    read: "read_bst E bst b = Inr (v, b0)" and
    serial: "constructAppleSerialNumber
       (publish_cells (choose_polling (publish_status E v (average_rate v b0)))) = Inr b1" and
    timer: "cancel_read_timer b1 = Inr b2" and
    b': "b' = updateStatus (rebuildLegacyIOBatteryInfo E b2)"
    using assms by (auto simp: setBatteryBST_def Let_def)
  note framed = read_bst_frame [OF read] construct_frame [OF serial]
  obtain r where r: "fBatteryReadAllTimer b1 = Some r"
    and b2: "b2 = b1\<lparr>fBatteryReadAllTimer := Some (r\<lparr>timeoutMS := None\<rparr>)\<rparr>"
    using timer by (auto simp: cancel_read_timer_def)
  have polls: "polling_setup b1 = polling_setup b" and symbols: "symbol_fields b1 = symbol_fields b"
    using framed by (simp_all add: frame_simps)
  have last: "polling_setup b' = polling_setup b2" "symbol_fields b' = symbol_fields b2"
    "fPollingInterval b' = fPollingInterval b2"
    by (simp_all add: b' frame_simps)
  have view: "polling_setup b2 =
      (fPollTimer b1, Some (r\<lparr>timeoutMS := None\<rparr>), fPollingOverridden b1, milliSecPollingTable b1)"
    by (simp add: b2 polling_setup_def)
  show "fPollTimer b' = fPollTimer b" "fPollingOverridden b' = fPollingOverridden b"
    "milliSecPollingTable b' = milliSecPollingTable b"
    using polls last(1) view by (auto simp: polling_setup_def)
  have "fBatteryReadAllTimer b = Some r"
    "fBatteryReadAllTimer b' = Some (r\<lparr>timeoutMS := None\<rparr>)"
    using polls last(1) view r by (auto simp: polling_setup_def)
  then show "\<exists>r. fBatteryReadAllTimer b = Some r \<and>
      fBatteryReadAllTimer b' = Some (r\<lparr>timeoutMS := None\<rparr>)"
    by blast
  show "symbol_fields b' = symbol_fields b"
    using symbols last(2) by (simp add: b2 symbol_fields_def)
  have "fPollingInterval b' = fPollingInterval
      (choose_polling (publish_status E v (average_rate v b0)))"
    using last(3) framed(5) by (simp add: b2 frame_simps)
  then show "fPollingInterval b' \<in> {fPollingInterval b, kDefaultPollInterval, kQuickPollInterval}"
    using choose_polling_interval [of "publish_status E v (average_rate v b0)"] framed(2)
    by (auto simp: frame_simps)
qed

section \<open>Properties every operation keeps\<close>

text \<open>
  What an operation of the manager keeps of the battery, once its parts keep it: the packages the
  firmware gives satisfy \<open>pkg\<close>, and \<open>Inv\<close> is kept by each step the battery can take.
\<close>

definition firmware_gives :: "'h acpi_env \<Rightarrow> (os_object list option \<Rightarrow> bool) \<Rightarrow> bool" where
  "firmware_gives A pkg \<longleftrightarrow>
     (\<forall>h x h'. evaluate_BIF A h = (Some x, h') \<longrightarrow> pkg (array_of x))"

definition on_battery :: "(battery \<Rightarrow> bool) \<Rightarrow> 'h battery_machine \<Rightarrow> bool" where
  "on_battery Inv m \<longleftrightarrow> (\<forall>b. fBattery m = Some b \<longrightarrow> Inv b)"

lemma on_battery_update [simp]:
  "on_battery Inv (m\<lparr>acpi_state := h\<rparr>) = on_battery Inv m"
  "on_battery Inv (m\<lparr>fBatterySTA := v\<rparr>) = on_battery Inv m"
  "on_battery Inv (m\<lparr>battery_information := i\<rparr>) = on_battery Inv m"
  "on_battery Inv (m\<lparr>battery_status := i\<rparr>) = on_battery Inv m"
  "on_battery Inv (m\<lparr>fManagerGate := g\<rparr>) = on_battery Inv m"
  "on_battery Inv (m\<lparr>fBatteryGate := g\<rparr>) = on_battery Inv m"
  "on_battery Inv (m\<lparr>fBattery := Some b\<rparr>) = Inv b"
  by (simp_all add: on_battery_def)

lemma with_battery_keeps:
  assumes "with_battery f m = Inr m'" "on_battery Inv m" "\<And>b b'. Inv b \<Longrightarrow> f b = Inr b' \<Longrightarrow> Inv b'"
  shows "on_battery Inv m'"
  using assms by (auto simp: with_battery_def on_battery_def)

locale battery_invariant =
  fixes A :: "'h acpi_env"
    and pkg :: "os_object list option \<Rightarrow> bool"
    and Inv :: "battery \<Rightarrow> bool"
  assumes sta: "Inv b \<Longrightarrow> Inv (setBatterySTA (source A) v b)"
    and bif: "Inv b \<Longrightarrow> pkg x \<Longrightarrow> setBatteryBIF (source A) x b = Inr b' \<Longrightarrow> Inv b'"
    and bst: "Inv b \<Longrightarrow> setBatteryBST (source A) x b = Inr b' \<Longrightarrow> Inv b'"
    and clear: "Inv b \<Longrightarrow> Inv (clearBatteryState (source A) d b)"
    and charged: "Inv b \<Longrightarrow> Inv (setFullyCharged c b)"
    and logged: "Inv b \<Longrightarrow> Inv (logReadError e n b)"
    and poll_timer: "Inv b \<Longrightarrow> fPollTimer b = Some t \<Longrightarrow> Inv (b\<lparr>fPollTimer := Some (t\<lparr>timeoutMS := ms\<rparr>)\<rparr>)"
    and read_timer: "Inv b \<Longrightarrow> fBatteryReadAllTimer b = Some t
       \<Longrightarrow> Inv (b\<lparr>fBatteryReadAllTimer := Some (t\<lparr>timeoutMS := ms\<rparr>)\<rparr>)"
    and interval: "Inv b \<Longrightarrow> 0 < sint period \<Longrightarrow> Inv (battery_setPollingInterval period b)"
begin

lemma getBatterySTA_keeps:
  "on_battery Inv m \<Longrightarrow> getBatterySTA A m = Inr (r, m') \<Longrightarrow> on_battery Inv m'"
  by (auto simp: getBatterySTA_def split: prod.splits option.splits
      elim!: with_battery_keeps intro: sta)

lemma getBatteryBIF_keeps:
  "on_battery Inv m \<Longrightarrow> firmware_gives A pkg \<Longrightarrow> getBatteryBIF A m = Inr (r, m')
    \<Longrightarrow> on_battery Inv m'"
  by (auto simp: getBatteryBIF_def firmware_gives_def Let_def split: prod.splits option.splits
      elim!: with_battery_keeps intro: bif)

lemma getBatteryBST_keeps:
  "on_battery Inv m \<Longrightarrow> getBatteryBST A m = Inr (r, m') \<Longrightarrow> on_battery Inv m'"
  by (auto simp: getBatteryBST_def Let_def split: prod.splits option.splits
      elim!: with_battery_keeps intro: bst)

lemma read_packages_keeps:
  assumes "on_battery Inv m" "firmware_gives A pkg" "read_packages A m = Inr m'"
  shows "on_battery Inv m'"
proof (cases "\<exists>b. fBattery m = Some b \<and> fBatteryPresent b")
  case True
  then show ?thesis
    using assms by (auto simp: read_packages_def)
      (metis getBatteryBIF_keeps getBatteryBST_keeps)
next
  case False
  then have "with_battery (\<lambda>b. Inr (clearBatteryState (source A) True (setFullyCharged False b))) m
      = Inr m'"
    using assms(3) by (auto simp: read_packages_def)
  then show ?thesis
    by (rule with_battery_keeps) (use assms(1) in \<open>auto intro: clear charged\<close>)
qed

lemma restart_polling_keeps: "Inv b \<Longrightarrow> restart_polling b = Inr b' \<Longrightarrow> Inv b'"
  by (auto simp: restart_polling_def set_poll_timer_def split: if_splits intro: poll_timer)

lemma start_new_poll_keeps: "Inv b \<Longrightarrow> start_new_poll b = Inr b' \<Longrightarrow> Inv b'"
proof -
  assume b: "Inv b" and steps: "start_new_poll b = Inr b'"
  obtain t r where "fPollTimer b = Some t" and r: "fBatteryReadAllTimer b = Some r"
    and b': "b' = b\<lparr>fPollTimer := Some (t\<lparr>timeoutMS := None\<rparr>),
                   fBatteryReadAllTimer := Some (r\<lparr>timeoutMS := Some kBatteryReadAllTimeout\<rparr>)\<rparr>"
    using steps by (auto simp: start_new_poll_def cancel_poll_timer_def cancel_read_timer_def
        set_read_timer_def)
  then have "Inv (b\<lparr>fPollTimer := Some (t\<lparr>timeoutMS := None\<rparr>)\<rparr>)"
    using b by (blast intro: poll_timer)
  then show "Inv b'"
    using r unfolding b' by (intro read_timer) simp_all
qed

lemma pollExistingBattery_keeps:
  assumes "on_battery Inv m" "firmware_gives A pkg" "pollExistingBattery A m = Inr m'"
  shows "on_battery Inv m'"
proof -
  obtain r m1 m2 where steps: "getBatterySTA A m = Inr (r, m1)" "read_packages A m1 = Inr m2"
    "with_battery restart_polling m2 = Inr m'"
    using assms(3) by (auto simp: pollExistingBattery_def)
  have "on_battery Inv m2"
    using getBatterySTA_keeps [OF assms(1) steps(1)] assms(2) steps(2) by (rule read_packages_keeps)
  with steps(3) show ?thesis by (rule with_battery_keeps) (rule restart_polling_keeps)
qed

lemma pollBatteryState_keeps:
  assumes "on_battery Inv m" "firmware_gives A pkg" "pollBatteryState A path m = Inr m'"
  shows "on_battery Inv m'"
proof (cases "kNewBatteryPath = path")
  case True
  then obtain m1 where "with_battery start_new_poll m = Inr m1" "pollExistingBattery A m1 = Inr m'"
    using assms(3) by (auto simp: pollBatteryState_def)
  then show ?thesis
    using assms(1,2)
    by (metis pollExistingBattery_keeps start_new_poll_keeps with_battery_keeps)
next
  case False
  then show ?thesis using assms by (auto simp: pollBatteryState_def intro: pollExistingBattery_keeps)
qed

lemma handleBatteryRemoved_keeps:
  "on_battery Inv m \<Longrightarrow> handleBatteryRemoved A m = Inr m' \<Longrightarrow> on_battery Inv m'"
  unfolding handleBatteryRemoved_def by (rule with_battery_keeps) (auto intro: clear)

lemma message_keeps:
  assumes "on_battery Inv m" "firmware_gives A pkg" "manager_message A notification m = Inr m'"
  shows "on_battery Inv m'"
proof -
  obtain v h where eval: "evaluate_STA A (acpi_state m) = (v, h)" by force
  have m: "on_battery Inv (m\<lparr>acpi_state := h\<rparr>)" using assms(1) by simp
  show ?thesis
    using assms(1,3) eval pollBatteryState_keeps [OF m assms(2)] handleBatteryRemoved_keeps [OF m]
    by (auto simp: manager_message_def handleBatteryInserted_def Let_def
        split: if_splits option.splits)
qed

lemma logged_keeps:
  "on_battery Inv m \<Longrightarrow> with_battery (\<lambda>b. Inr (logReadError e n b)) m = Inr m' \<Longrightarrow> on_battery Inv m'"
  by (rule with_battery_keeps) (auto intro: logged)

lemma setPollingInterval_keeps:
  assumes "on_battery Inv m" "manager_setPollingInterval period m = (r, m')"
  shows "on_battery Inv m'"
  using assms interval [of _ period]
  by (auto simp: manager_setPollingInterval_def on_battery_def split: if_splits)

end

section \<open>Steps of the extension\<close>

text \<open>
  The firmware changes its state at any time. A timer on the work loop that has a timeout may
  expire, which ends the timeout, and runs its routine. The system reports power states, sends
  messages and sets the polling interval.
\<close>

definition expire_poll :: "battery \<Rightarrow> battery" where
  "expire_poll b = b\<lparr>fPollTimer := map_option (\<lambda>t. t\<lparr>timeoutMS := None\<rparr>) (fPollTimer b)\<rparr>"

definition expire_read :: "battery \<Rightarrow> battery" where
  "expire_read b =
     b\<lparr>fBatteryReadAllTimer := map_option (\<lambda>t. t\<lparr>timeoutMS := None\<rparr>) (fBatteryReadAllTimer b)\<rparr>"

definition may_expire :: "timer_source option \<Rightarrow> bool" where
  "may_expire timer \<longleftrightarrow> (\<exists>t ms. timer = Some t \<and> onWorkLoop t \<and> timeoutMS t = Some ms)"

inductive battery_step :: "'h acpi_env \<Rightarrow> 'h battery_machine \<Rightarrow> 'h battery_machine \<Rightarrow> bool"
  for A :: "'h acpi_env" where
  firmware_changes: "battery_step A m (m\<lparr>acpi_state := h\<rparr>)"
| poll_expires: "fBattery m = Some b \<Longrightarrow> may_expire (fPollTimer b)
    \<Longrightarrow> pollingTimeOut A (m\<lparr>fBattery := Some (expire_poll b)\<rparr>) = Inr m' \<Longrightarrow> battery_step A m m'"
| read_expires: "fBattery m = Some b \<Longrightarrow> may_expire (fBatteryReadAllTimer b)
    \<Longrightarrow> incompleteReadTimeOut A (m\<lparr>fBattery := Some (expire_read b)\<rparr>) = Inr m' \<Longrightarrow> battery_step A m m'"
| power_changes: "manager_setPowerState A which m = Inr m' \<Longrightarrow> battery_step A m m'"
| message_arrives: "manager_message A notification m = Inr m' \<Longrightarrow> battery_step A m m'"
| interval_set: "manager_setPollingInterval period m = (r, m') \<Longrightarrow> battery_step A m m'"

context battery_invariant
begin

lemma expire_keeps: "Inv b \<Longrightarrow> Inv (expire_poll b)" "Inv b \<Longrightarrow> Inv (expire_read b)"
proof -
  assume b: "Inv b"
  have none: "expire_poll b = b" if "fPollTimer b = None"
    using that by (cases b) (simp add: expire_poll_def)
  have none_read: "expire_read b = b" if "fBatteryReadAllTimer b = None"
    using that by (cases b) (simp add: expire_read_def)
  show "Inv (expire_poll b)"
  proof (cases "fPollTimer b")
    case None then show ?thesis using b by (simp only: none)
  next
    case (Some t) then show ?thesis using poll_timer [OF b Some] by (simp add: expire_poll_def)
  qed
  show "Inv (expire_read b)"
  proof (cases "fBatteryReadAllTimer b")
    case None then show ?thesis using b by (simp only: none_read)
  next
    case (Some t) then show ?thesis using read_timer [OF b Some] by (simp add: expire_read_def)
  qed
qed

lemma step_keeps:
  assumes "battery_step A m m'" "on_battery Inv m" "firmware_gives A pkg"
  shows "on_battery Inv m'"
  using assms
proof (induction rule: battery_step.induct)
  case (poll_expires m b m')
  then have "on_battery Inv (m\<lparr>fBattery := Some (expire_poll b)\<rparr>)"
    using expire_keeps by (simp add: on_battery_def)
  then show ?case
    using poll_expires.prems(2) poll_expires.hyps(3) pollBatteryState_keeps
    unfolding pollingTimeOut_def by blast
next
  case (read_expires m b m')
  then have m: "on_battery Inv (m\<lparr>fBattery := Some (expire_read b)\<rparr>)"
    using expire_keeps by (simp add: on_battery_def)
  obtain m1 where log: "with_battery (\<lambda>b. Inr (logReadError kErrorOverallTimeoutExpired 0 b))
      (m\<lparr>fBattery := Some (expire_read b)\<rparr>) = Inr m1"
    and "pollBatteryState A kExistingBatteryPath m1 = Inr m'"
    using read_expires.hyps(3) by (auto simp: incompleteReadTimeOut_def)
  then show ?case
    using logged_keeps [OF m log] read_expires.prems(2) pollBatteryState_keeps by blast
next
  case (power_changes which m m')
  then show ?case
    by (auto simp: manager_setPowerState_def split: if_splits intro: pollBatteryState_keeps)
qed (auto intro: message_keeps setPollingInterval_keeps)

lemma steps_keep:
  assumes "(battery_step A)\<^sup>*\<^sup>* m m'" "on_battery Inv m" "firmware_gives A pkg"
  shows "on_battery Inv m'"
  using assms by (induction rule: rtranclp_induct) (auto intro: step_keeps)

end

end
