(* ===== verification/BatteryRuns.thy ===== *)
theory BatteryRuns
  imports BatteryPolling
begin

text \<open>
  The states the battery extension reaches after a complete start: the battery polls for ever,
  never in a busy loop, and with well-formed packages no poll dies of an error.
\<close>

section \<open>Ready batteries\<close>

definition polling_table_ok :: "u32 list \<Rightarrow> bool" where
  "polling_table_ok table \<longleftrightarrow> length table = 2 \<and> 0 < sint (table ! 0) \<and> table ! 1 = 1000"

definition battery_ready :: "battery \<Rightarrow> bool" where
  "battery_ready b \<longleftrightarrow>
     (\<exists>t. fPollTimer b = Some t \<and> onWorkLoop t) \<and>
     (\<exists>r. fBatteryReadAllTimer b = Some r \<and> \<not> onWorkLoop r) \<and>
     polling_table_ok (milliSecPollingTable b) \<and>
     (fPollingOverridden b \<or> fPollingInterval b \<in> {kDefaultPollInterval, kQuickPollInterval})"

definition poll_armed :: "battery \<Rightarrow> bool" where
  "poll_armed b \<longleftrightarrow>
     (\<exists>t ms. fPollTimer b = Some t \<and> timeoutMS t = Some ms \<and> (fPollingOverridden b \<or> ms \<noteq> 0))"

lemma battery_ready_frame:
  "battery_ready b \<Longrightarrow> polling_setup b' = polling_setup b \<Longrightarrow> fPollingInterval b' = fPollingInterval b
    \<Longrightarrow> battery_ready b'"
  by (simp add: polling_setup_def battery_ready_def)

lemma poll_armed_frame: "poll_armed b \<Longrightarrow> polling_setup b' = polling_setup b \<Longrightarrow> poll_armed b'"
  by (simp add: polling_setup_def poll_armed_def)

lemma ready_logReadError: "battery_ready b \<Longrightarrow> battery_ready (logReadError e n b)"
  and ready_clear: "battery_ready b \<Longrightarrow> battery_ready (clearBatteryState E d b)"
  and ready_setBatterySTA: "battery_ready b \<Longrightarrow> battery_ready (setBatterySTA E v b)"
  and ready_setFullyCharged: "battery_ready b \<Longrightarrow> battery_ready (setFullyCharged c b)"
  by (erule battery_ready_frame; simp add: frame_simps)+

lemma ready_setBatteryBST:
  assumes "battery_ready b" "setBatteryBST E x b = Inr b'"
  shows "battery_ready b'"
  using assms(1) setBatteryBST_frame [OF assms(2)] by (auto simp: battery_ready_def)

lemma ready_setPollingInterval:
  "battery_ready b \<Longrightarrow> 0 < sint period \<Longrightarrow> battery_ready (battery_setPollingInterval period b)"
  by (auto simp: battery_setPollingInterval_def battery_ready_def polling_table_ok_def
      kDefaultPollInterval_def)

lemma ready_setBatteryBIF:
  assumes "battery_ready b" "setBatteryBIF E x b = Inr b'"
  shows "battery_ready b'"
  using assms(1) setBatteryBIF_frame [OF assms(2)] by (rule battery_ready_frame)

lemma ready_timers:
  "battery_ready b \<Longrightarrow> fPollTimer b = Some t \<Longrightarrow> battery_ready (b\<lparr>fPollTimer := Some (t\<lparr>timeoutMS := ms\<rparr>)\<rparr>)"
  "battery_ready b \<Longrightarrow> fBatteryReadAllTimer b = Some t
    \<Longrightarrow> battery_ready (b\<lparr>fBatteryReadAllTimer := Some (t\<lparr>timeoutMS := ms\<rparr>)\<rparr>)"
  by (auto simp: battery_ready_def)

interpretation ready: battery_invariant A "\<lambda>_. True" battery_ready for A
  by unfold_locales
    (blast intro: ready_setBatterySTA ready_setBatteryBIF ready_setBatteryBST ready_clear
      ready_setFullyCharged ready_logReadError ready_timers ready_setPollingInterval)+

text \<open>A poll that ends has set the timer again.\<close>

lemma restart_polling_arms:
  assumes "battery_ready b" "restart_polling b = Inr b'"
  shows "poll_armed b'"
  using assms
  by (auto simp: restart_polling_def set_poll_timer_def battery_ready_def poll_armed_def
      polling_table_ok_def kDefaultPollInterval_def kQuickPollInterval_def split: if_splits)

lemma pollBatteryState_arms:
  assumes ready: "on_battery battery_ready m" and poll: "pollBatteryState A path m = Inr m'"
  shows "on_battery poll_armed m'"
proof -
  have all: "firmware_gives A (\<lambda>_. True)" by (simp add: firmware_gives_def)
  obtain m0 where m0: "on_battery battery_ready m0" "pollExistingBattery A m0 = Inr m'"
  proof (cases "kNewBatteryPath = path")
    case True
    then obtain m0 where "with_battery start_new_poll m = Inr m0" "pollExistingBattery A m0 = Inr m'"
      using poll by (auto simp: pollBatteryState_def)
    then show ?thesis using that with_battery_keeps ready ready.start_new_poll_keeps by metis
  next
    case False
    then show ?thesis using that ready poll by (simp add: pollBatteryState_def)
  qed
  then obtain r m1 m2 where steps: "getBatterySTA A m0 = Inr (r, m1)" "read_packages A m1 = Inr m2"
    "with_battery restart_polling m2 = Inr m'"
    by (auto simp: pollExistingBattery_def)
  have "on_battery battery_ready m2"
    using ready.getBatterySTA_keeps [OF m0(1) steps(1)] all steps(2) by (rule ready.read_packages_keeps)
  with steps(3) show ?thesis by (auto simp: with_battery_def on_battery_def intro: restart_polling_arms)
qed

lemma poll_armed_setPollingInterval: "poll_armed b \<Longrightarrow> poll_armed (battery_setPollingInterval period b)"
  by (auto simp: poll_armed_def battery_setPollingInterval_def)

lemma handleBatteryRemoved_arms:
  assumes "on_battery poll_armed m" "handleBatteryRemoved A m = Inr m'"
  shows "on_battery poll_armed m'"
  using assms(2,1) unfolding handleBatteryRemoved_def
  by (rule with_battery_keeps) (auto elim!: poll_armed_frame simp: frame_simps)

lemma message_arms:
  assumes "on_battery poll_armed m" "on_battery battery_ready m" "manager_message A notification m = Inr m'"
  shows "on_battery poll_armed m'"
proof -
  obtain v h where eval: "evaluate_STA A (acpi_state m) = (v, h)" by force
  have m: "on_battery poll_armed (m\<lparr>acpi_state := h\<rparr>)" "on_battery battery_ready (m\<lparr>acpi_state := h\<rparr>)"
    using assms(1,2) by simp_all
  show ?thesis
    using assms eval pollBatteryState_arms [OF m(2)] handleBatteryRemoved_arms [OF m(1)]
    by (auto simp: manager_message_def handleBatteryInserted_def Let_def
        split: if_splits option.splits)
qed

lemma ready_expire: "battery_ready b \<Longrightarrow> battery_ready (expire_poll b)"
  "battery_ready b \<Longrightarrow> battery_ready (expire_read b)"
  by (rule ready.expire_keeps; assumption)+

lemma battery_step_arms:
  assumes "battery_step A m m'" "on_battery battery_ready m" "on_battery poll_armed m"
  shows "on_battery poll_armed m'"
  using assms
proof (induction rule: battery_step.induct)
  case (poll_expires m b m')
  then have "on_battery battery_ready (m\<lparr>fBattery := Some (expire_poll b)\<rparr>)"
    using ready_expire by (simp add: on_battery_def)
  then show ?case
    using poll_expires.hyps(3) unfolding pollingTimeOut_def by (rule pollBatteryState_arms)
next
  case (read_expires m b m')
  then have "battery_ready b" by (simp add: on_battery_def)
  then have "\<not> may_expire (fBatteryReadAllTimer b)" by (auto simp: battery_ready_def may_expire_def)
  then show ?case using read_expires.hyps(2) by simp
next
  case (power_changes which m m')
  then show ?case
    by (auto simp: manager_setPowerState_def split: if_splits intro: pollBatteryState_arms)
next
  case (interval_set period m r m')
  then show ?case
    using poll_armed_setPollingInterval
    by (auto simp: manager_setPollingInterval_def on_battery_def split: if_splits)
qed (auto intro: message_arms)

lemma battery_steps_arm:
  assumes "(battery_step A)\<^sup>*\<^sup>* m m'" "on_battery battery_ready m" "on_battery poll_armed m"
  shows "on_battery battery_ready m' \<and> on_battery poll_armed m'"
proof -
  have all: "firmware_gives A (\<lambda>_. True)" by (simp add: firmware_gives_def)
  from assms show ?thesis
    by (induction rule: rtranclp_induct) (auto intro: ready.step_keeps [OF _ _ all] battery_step_arms)
qed

section \<open>Starting\<close>

definition complete_start :: "start_outcome \<Rightarrow> bool" where
  "complete_start out \<longleftrightarrow>
     provider_is_acpi out \<and> manager_super_starts out \<and> manager_has_workloop out \<and>
     battery_allocated out \<and> battery_super_starts out \<and> battery_has_workloop out \<and>
     poll_timer_made out \<and> read_timer_made out \<and> poll_timer_added out \<and>
     manager_gate_made out \<and> battery_gate_made out"

definition new_manager :: "'h \<Rightarrow> 'h battery_machine" where
  "new_manager h = \<lparr>acpi_state = h, fBatterySTA = 0, fBattery = None, fManagerGate = False,
     fBatteryGate = False, battery_information = None, battery_status = None,
     pollingInterval_msec = None\<rparr>"

lemma publish_start_ready:
  assumes "complete_start out"
  shows "battery_ready (publish_start E (prepare_battery out (new_battery initial_milliSecPollingTable)))"
proof -
  let ?b = "prepare_battery out (new_battery initial_milliSecPollingTable)"
  let ?b1 = "?b\<lparr>fPollTimer := map_option (\<lambda>t. t\<lparr>onWorkLoop := True\<rparr>) (fPollTimer ?b)\<rparr>"
  have "battery_ready ?b1"
    using assms
    by (auto simp: complete_start_def battery_ready_def prepare_battery_def new_battery_def
        polling_table_ok_def initial_milliSecPollingTable_def kDefaultPollInterval_def
        split: option.split)
  moreover have "polling_setup (publish_start E ?b) = polling_setup ?b1"
    "fPollingInterval (publish_start E ?b) = fPollingInterval ?b1"
    by (simp_all add: publish_start_def Let_def frame_simps)
  ultimately show ?thesis by (rule battery_ready_frame)
qed

definition started_battery :: "power_source \<Rightarrow> start_outcome \<Rightarrow> battery" where
  "started_battery E out =
     publish_start E (prepare_battery out (new_battery initial_milliSecPollingTable))"

lemma populateBattery_polls:
  assumes "complete_start out" "populateBattery A out m = Inr (r, m')"
  obtains m1 where
    "pollBatteryState A kNewBatteryPath (m\<lparr>fBattery := Some (started_battery (source A) out)\<rparr>) = Inr m1"
    "m' = m1\<lparr>fManagerGate := True, fBatteryGate := True\<rparr>"
  using assms by (auto simp: populateBattery_def battery_start_def complete_start_def
      started_battery_def with_battery_def Let_def)

lemma populateBattery_ready:
  assumes "complete_start out" "populateBattery A out m = Inr (r, m')"
  shows "on_battery battery_ready m' \<and> on_battery poll_armed m'"
proof -
  obtain m1 where
    poll: "pollBatteryState A kNewBatteryPath (m\<lparr>fBattery := Some (started_battery (source A) out)\<rparr>) = Inr m1"
    and m': "m' = m1\<lparr>fManagerGate := True, fBatteryGate := True\<rparr>"
    by (rule populateBattery_polls [OF assms])
  have b: "on_battery battery_ready (m\<lparr>fBattery := Some (started_battery (source A) out)\<rparr>)"
    using publish_start_ready [OF assms(1)] by (simp add: started_battery_def)
  have "on_battery battery_ready m1"
    by (rule ready.pollBatteryState_keeps [OF b _ poll]) (simp add: firmware_gives_def)
  then show ?thesis using pollBatteryState_arms [OF b poll] by (simp add: m')
qed

text \<open>What a start leaves: no battery in the bay, or a populated one.\<close>

lemma manager_start_cases:
  assumes "complete_start out" "manager_start A out (new_manager h) = Inr (r, m)"
  obtains (none) "fBattery m = None" | (populated) m0 where "populateBattery A out m0 = Inr (r, m)"
  using assms
  by (auto simp: manager_start_def complete_start_def new_manager_def Let_def
      split: if_splits prod.splits option.splits)

lemma manager_start_ready:
  assumes "complete_start out" "manager_start A out (new_manager h) = Inr (r, m)"
  shows "on_battery battery_ready m \<and> on_battery poll_armed m"
  using assms by (rule manager_start_cases)
    (simp add: on_battery_def, rule populateBattery_ready [OF assms(1)])

text \<open>C15. After a complete start the battery's poll timer is on the work loop with a timeout in every
  state the extension reaches, and unless the period is overridden that timeout is not zero and
  the index into the table of periods is in range: polling never stops and never spins. The timer
  that is to catch a stalled read is in no work loop, so its routine never runs.\<close>

theorem battery_keeps_polling:
  assumes "complete_start out" "manager_start A out (new_manager h) = Inr (r, m0)"
    "(battery_step A)\<^sup>*\<^sup>* m0 m" "fBattery m = Some b"
  shows "may_expire (fPollTimer b) \<and> \<not> may_expire (fBatteryReadAllTimer b) \<and>
    (\<not> fPollingOverridden b \<longrightarrow>
       unat (fPollingInterval b) < length (milliSecPollingTable b) \<and>
       (\<exists>t. fPollTimer b = Some t \<and> timeoutMS t \<noteq> Some 0))"
proof -
  have "battery_ready b" "poll_armed b"
    using battery_steps_arm [OF assms(3)] manager_start_ready [OF assms(1,2)] assms(4)
    by (simp_all add: on_battery_def)
  then show ?thesis
    by (auto simp: battery_ready_def poll_armed_def may_expire_def polling_table_ok_def
        kDefaultPollInterval_def kQuickPollInterval_def)
qed

section \<open>Well-formed packages\<close>

text \<open>
  The names of a well-formed \<open>_BIF\<close> package are strings, the four entries of a \<open>_BST\<close> package
  numbers.
\<close>

definition well_formed_bif :: "os_object \<Rightarrow> bool" where
  "well_formed_bif x \<longleftrightarrow>
     (\<exists>xs. x = OSArray xs \<and> length xs > 12 \<and>
        (\<forall>i \<in> {BIF_MODEL_NUMBER, BIF_SERIAL_NUMBER, BIF_BATTERY_TYPE, BIF_OEM}. \<exists>text. xs ! i = OSString text))"

definition well_formed_bst :: "os_object \<Rightarrow> bool" where
  "well_formed_bst x \<longleftrightarrow>
     (\<exists>xs. x = OSArray xs \<and> length xs > 3 \<and> (\<forall>i < 4. \<exists>n. xs ! i = OSNumber n))"

definition well_formed_firmware :: "'h acpi_env \<Rightarrow> bool" where
  "well_formed_firmware A \<longleftrightarrow>
     (\<forall>h x h'. evaluate_BIF A h = (Some x, h') \<longrightarrow> well_formed_bif x) \<and>
     (\<forall>h x h'. evaluate_BST A h = (Some x, h') \<longrightarrow> well_formed_bst x)"

definition named_package :: "os_object list option \<Rightarrow> bool" where
  "named_package x \<longleftrightarrow> (\<exists>xs. x = Some xs \<and> well_formed_bif (OSArray xs))"

definition readable_symbols :: "battery \<Rightarrow> bool" where
  "readable_symbols b \<longleftrightarrow> (\<forall>s \<in> set (symbol_fields b). s = None \<or> (\<exists>p text. s = Some p \<and> getCStringNoCopy p = Inr text))"

lemma readable_frame: "readable_symbols b \<Longrightarrow> symbol_fields b' = symbol_fields b \<Longrightarrow> readable_symbols b'"
  by (simp add: readable_symbols_def)

lemma well_formed_bif_symbols:
  assumes "well_formed_bif (OSArray xs)" "i \<in> {BIF_MODEL_NUMBER, BIF_SERIAL_NUMBER, BIF_BATTERY_TYPE, BIF_OEM}"
  obtains name where "GetSymbolFromArray E xs i = Inr (CastString name)"
proof -
  have "i < length xs" using assms by (auto simp: well_formed_bif_def bif_indices)
  moreover obtain name where "xs ! i = OSString name" using assms by (auto simp: well_formed_bif_def)
  ultimately show ?thesis using that by (simp add: GetSymbolFromArray_def getObject_def)
qed

lemma read_bif_well_formed:
  assumes "well_formed_bif (OSArray xs)"
  obtains b' where "read_bif E xs b = Inr b'" "readable_symbols b'"
proof -
  obtain n1 n2 n3 n4 where "GetSymbolFromArray E xs BIF_MODEL_NUMBER = Inr (CastString n1)"
    "GetSymbolFromArray E xs BIF_SERIAL_NUMBER = Inr (CastString n2)"
    "GetSymbolFromArray E xs BIF_BATTERY_TYPE = Inr (CastString n3)"
    "GetSymbolFromArray E xs BIF_OEM = Inr (CastString n4)"
    using well_formed_bif_symbols [OF assms] by (metis insertI1 insertI2)
  then show ?thesis using that
    by (simp add: read_bif_def readable_symbols_def symbol_fields_def Let_def)
qed

lemma setBatteryBIF_well_formed:
  assumes "well_formed_bif (OSArray xs)"
  obtains b' where "setBatteryBIF E (Some xs) b = Inr b'" "readable_symbols b'"
proof -
  obtain b0 where "read_bif E xs b = Inr b0" and b0: "readable_symbols b0"
    by (rule read_bif_well_formed [OF assms])
  then have "setBatteryBIF E (Some xs) b = Inr (publish_bif E b0)"
    by (simp add: setBatteryBIF_def)
  moreover have "readable_symbols (publish_bif E b0)"
    by (rule readable_frame [OF b0]) (simp add: frame_simps)
  ultimately show ?thesis by (rule that)
qed

lemma setBatteryBST_after_read:
  assumes read: "read_bst E xs b = Inr (v, b0)"
    and "readable_symbols b" "fBatteryReadAllTimer b \<noteq> None"
  obtains b' where "setBatteryBST E (Some xs) b = Inr b'"
proof -
  let ?b = "publish_cells (choose_polling (publish_status E v (average_rate v b0)))"
  have "readable_symbols ?b"
    using assms(2) read_bst_frame(3) [OF read] by (auto simp: frame_simps elim: readable_frame)
  then obtain b1 where serial: "constructAppleSerialNumber ?b = Inr b1"
    by (auto simp: constructAppleSerialNumber_def readable_symbols_def symbol_fields_def
        symbol_text_def serial_text_def Let_def split: option.split)
  have "polling_setup b1 = polling_setup b"
    using construct_frame(1) [OF serial] read_bst_frame(1) [OF read] by (simp add: frame_simps)
  then obtain b2 where "cancel_read_timer b1 = Inr b2"
    using assms(3) by (auto simp: cancel_read_timer_def polling_setup_def)
  then show ?thesis using that read serial by (simp add: setBatteryBST_def Let_def)
qed

lemma setBatteryBST_well_formed:
  assumes "well_formed_bst (OSArray xs)" "readable_symbols b" "fBatteryReadAllTimer b \<noteq> None"
  obtains b' where "setBatteryBST E (Some xs) b = Inr b'"
proof -
  have number: "\<exists>v. number_in xs i = Inr v" if "i < 4" for i
    using assms(1) that by (fastforce simp: well_formed_bst_def number_in_def getObject_def)
  obtain v0 v1 v2 v3 where "number_in xs BST_STATUS = Inr v0" "number_in xs BST_RATE = Inr v1"
    "number_in xs BST_CAPACITY = Inr v2" "number_in xs BST_VOLTAGE = Inr v3"
    using number [of 0] number [of 1] number [of 2] number [of 3] by (auto simp: bst_indices)
  then obtain b0 where "read_bst E xs b = Inr (v0, b0)"
    by (simp add: read_bst_def Let_def)
  then show ?thesis using setBatteryBST_after_read assms(2,3) that by blast
qed

lemma readable_clear: "readable_symbols b \<Longrightarrow> readable_symbols (clearBatteryState E d b)"
  and readable_setBatterySTA: "readable_symbols b \<Longrightarrow> readable_symbols (setBatterySTA E v b)"
  and readable_setFullyCharged: "readable_symbols b \<Longrightarrow> readable_symbols (setFullyCharged c b)"
  and readable_logReadError: "readable_symbols b \<Longrightarrow> readable_symbols (logReadError e n b)"
  by (erule readable_frame; simp add: frame_simps)+

lemma readable_timers:
  "readable_symbols b \<Longrightarrow> readable_symbols (b\<lparr>fPollTimer := t\<rparr>)"
  "readable_symbols b \<Longrightarrow> readable_symbols (b\<lparr>fBatteryReadAllTimer := t\<rparr>)"
  "readable_symbols b \<Longrightarrow> readable_symbols (battery_setPollingInterval period b)"
  by (simp_all add: readable_symbols_def symbol_fields_def battery_setPollingInterval_def)

lemma readable_setBatteryBIF:
  assumes "named_package x" "setBatteryBIF E x b = Inr b'"
  shows "readable_symbols b'"
  using assms setBatteryBIF_well_formed by (metis Inr_inject named_package_def)

lemma readable_setBatteryBST:
  "readable_symbols b \<Longrightarrow> setBatteryBST E x b = Inr b' \<Longrightarrow> readable_symbols b'"
  using readable_frame setBatteryBST_frame(4) by blast

interpretation readable: battery_invariant A named_package readable_symbols for A
  by unfold_locales
    (blast intro: readable_setBatterySTA readable_setBatteryBIF readable_setBatteryBST readable_clear
      readable_setFullyCharged readable_logReadError readable_timers)+

lemma well_formed_gives: "well_formed_firmware A \<Longrightarrow> firmware_gives A named_package"
  unfolding well_formed_firmware_def firmware_gives_def named_package_def
  by (metis array_of.simps(1) well_formed_bif_def)

definition sound_battery :: "battery \<Rightarrow> bool" where
  "sound_battery b \<longleftrightarrow> battery_ready b \<and> readable_symbols b"

lemma sound_on_battery:
  "on_battery sound_battery m \<longleftrightarrow> on_battery battery_ready m \<and> on_battery readable_symbols m"
  by (auto simp: on_battery_def sound_battery_def)

lemma with_battery_Some [simp]:
  "fBattery m = Some b \<Longrightarrow> with_battery f m = and_then (f b) (\<lambda>b. Inr (m\<lparr>fBattery := Some b\<rparr>))"
  by (simp add: with_battery_def)

lemma getBatterySTA_returns:
  assumes "fBattery m = Some b"
  obtains r m' b' where "getBatterySTA A m = Inr (r, m')" "fBattery m' = Some b'"
  using assms by (cases "evaluate_STA A (acpi_state m)"; cases "fst (evaluate_STA A (acpi_state m))")
    (auto simp: getBatterySTA_def with_battery_def)

lemma getBatteryBIF_returns:
  assumes "well_formed_firmware A" "fBattery m = Some b"
  obtains r m' b' where "getBatteryBIF A m = Inr (r, m')" "fBattery m' = Some b'"
proof (cases "evaluate_BIF A (acpi_state m)")
  case (Pair x h)
  show thesis
  proof (cases x)
    case None
    then show thesis using that [of False "m\<lparr>acpi_state := h\<rparr>" b] Pair assms(2)
      by (simp add: getBatteryBIF_def)
  next
    case (Some y)
    then have "well_formed_bif y" using assms(1) Pair by (auto simp: well_formed_firmware_def)
    then obtain xs where y: "y = OSArray xs" "well_formed_bif (OSArray xs)"
      by (auto simp: well_formed_bif_def)
    obtain b' where "setBatteryBIF (source A) (Some xs) b = Inr b'"
      by (rule setBatteryBIF_well_formed [OF y(2)])
    then show thesis using that Some y Pair assms(2) by (simp add: getBatteryBIF_def with_battery_def)
  qed
qed

lemma getBatteryBST_returns:
  assumes "well_formed_firmware A" "fBattery m = Some b" "sound_battery b"
  obtains r m' b' where "getBatteryBST A m = Inr (r, m')" "fBattery m' = Some b'"
proof (cases "evaluate_BST A (acpi_state m)")
  case (Pair x h)
  show thesis
  proof (cases x)
    case None
    then show thesis using that [of False "m\<lparr>acpi_state := h\<rparr>" b] Pair assms(2)
      by (simp add: getBatteryBST_def)
  next
    case (Some y)
    then have "well_formed_bst y" using assms(1) Pair unfolding well_formed_firmware_def by blast
    then obtain xs where y: "y = OSArray xs" "well_formed_bst (OSArray xs)"
      by (auto simp: well_formed_bst_def)
    have "readable_symbols b" "fBatteryReadAllTimer b \<noteq> None"
      using assms(3) by (auto simp: sound_battery_def battery_ready_def)
    then obtain b' where "setBatteryBST (source A) (Some xs) b = Inr b'"
      by (rule setBatteryBST_well_formed [OF y(2)])
    then show thesis using that Some y Pair assms(2) by (simp add: getBatteryBST_def with_battery_def)
  qed
qed

lemma restart_polling_returns:
  assumes "battery_ready b"
  obtains b' where "restart_polling b = Inr b'"
proof -
  have "\<exists>b'. restart_polling b = Inr b'"
    using assms by (auto simp: battery_ready_def restart_polling_def set_poll_timer_def
        polling_table_ok_def kDefaultPollInterval_def kQuickPollInterval_def)
  then show thesis using that by blast
qed

lemma read_packages_returns:
  assumes A: "well_formed_firmware A" and m: "fBattery m = Some b" "on_battery sound_battery m"
  obtains m' b' where "read_packages A m = Inr m'" "fBattery m' = Some b'"
proof (cases "fBatteryPresent b")
  case False
  then show thesis using that m by (simp add: read_packages_def)
next
  case True
  obtain r1 m1 b1 where bif: "getBatteryBIF A m = Inr (r1, m1)" "fBattery m1 = Some b1"
    by (rule getBatteryBIF_returns [OF A m(1)])
  have "on_battery sound_battery m1"
    using m(2) ready.getBatteryBIF_keeps readable.getBatteryBIF_keeps bif(1) well_formed_gives [OF A]
    by (metis firmware_gives_def sound_on_battery)
  then have "sound_battery b1" using bif(2) by (simp add: on_battery_def)
  then obtain r2 m2 b2 where "getBatteryBST A m1 = Inr (r2, m2)" "fBattery m2 = Some b2"
    by (rule getBatteryBST_returns [OF A bif(2)])
  then show thesis using that bif True m(1) by (simp add: read_packages_def)
qed

lemma pollExistingBattery_returns:
  assumes A: "well_formed_firmware A" and m: "fBattery m = Some b" "on_battery sound_battery m"
  obtains m' where "pollExistingBattery A m = Inr m'"
proof -
  obtain r1 m1 b1 where sta: "getBatterySTA A m = Inr (r1, m1)" "fBattery m1 = Some b1"
    by (rule getBatterySTA_returns [OF m(1)])
  have sound1: "on_battery sound_battery m1"
    using m(2) ready.getBatterySTA_keeps readable.getBatterySTA_keeps sta(1)
    by (metis sound_on_battery)
  obtain m2 b2 where packages: "read_packages A m1 = Inr m2" "fBattery m2 = Some b2"
    by (rule read_packages_returns [OF A sta(2) sound1])
  have "on_battery battery_ready m2"
    using sound1 ready.read_packages_keeps packages(1) by (metis firmware_gives_def sound_on_battery)
  then obtain b3 where "restart_polling b2 = Inr b3"
    using packages(2) restart_polling_returns by (auto simp: on_battery_def)
  then show thesis using that sta packages by (simp add: pollExistingBattery_def)
qed

lemma start_new_poll_returns:
  assumes "battery_ready b"
  obtains b' where "start_new_poll b = Inr b'"
  using assms that
  by (auto simp: battery_ready_def start_new_poll_def cancel_poll_timer_def cancel_read_timer_def
      set_read_timer_def)

lemma started_battery_readable: "readable_symbols (started_battery E out)"
proof -
  have "symbol_fields (started_battery E out) = [None, None, None, None]"
    by (simp add: started_battery_def publish_start_def frame_simps Let_def)
      (simp add: symbol_fields_def prepare_battery_def new_battery_def split: option.split)
  then show ?thesis by (simp add: readable_symbols_def)
qed

lemma manager_start_readable:
  assumes "complete_start out" "firmware_gives A named_package"
    "manager_start A out (new_manager h) = Inr (r, m)"
  shows "on_battery readable_symbols m"
  using assms(1,3)
proof (rule manager_start_cases)
  fix m0 assume populate: "populateBattery A out m0 = Inr (r, m)"
  let ?b = "started_battery (source A) out"
  have b: "on_battery readable_symbols (m0\<lparr>fBattery := Some ?b\<rparr>)"
    by (simp add: started_battery_readable)
  obtain m1 where "pollBatteryState A kNewBatteryPath (m0\<lparr>fBattery := Some ?b\<rparr>) = Inr m1"
    and "m = m1\<lparr>fManagerGate := True, fBatteryGate := True\<rparr>"
    by (rule populateBattery_polls [OF assms(1) populate])
  then show ?thesis using readable.pollBatteryState_keeps [OF b assms(2)] by simp
qed (simp add: on_battery_def)

lemma pollBatteryState_returns:
  assumes A: "well_formed_firmware A" and m: "fBattery m = Some b" "on_battery sound_battery m"
  obtains m' where "pollBatteryState A path m = Inr m'"
proof (cases "kNewBatteryPath = path")
  case False
  then show thesis using that pollExistingBattery_returns [OF assms] by (metis pollBatteryState_def)
next
  case True
  have "battery_ready b" "readable_symbols b" using m by (simp_all add: on_battery_def sound_battery_def)
  then obtain b1 where new: "start_new_poll b = Inr b1" and "sound_battery b1"
    by (metis ready.start_new_poll_keeps readable.start_new_poll_keeps sound_battery_def
        start_new_poll_returns)
  then obtain m2 where "pollExistingBattery A (m\<lparr>fBattery := Some b1\<rparr>) = Inr m2"
    using pollExistingBattery_returns [OF A, of "m\<lparr>fBattery := Some b1\<rparr>" b1] by auto
  then show thesis using that True new m(1) by (simp add: pollBatteryState_def)
qed

text \<open>C16. With a firmware whose packages are well formed, no poll in a state the extension reaches
  ends in an error: neither a null pointer nor a stale symbol is followed, and the table of
  periods is read inside its bounds, whichever path the poll takes.\<close>

theorem reachable_poll_returns:
  assumes "complete_start out" "manager_start A out (new_manager h) = Inr (r, m0)"
    "(battery_step A)\<^sup>*\<^sup>* m0 m" "fBattery m = Some b" "well_formed_firmware A"
  shows "\<exists>m'. pollBatteryState A path m = Inr m'"
proof -
  have start: "on_battery battery_ready m0" "on_battery poll_armed m0"
    using manager_start_ready [OF assms(1,2)] by simp_all
  note firmware = well_formed_gives [OF assms(5)]
  have "on_battery readable_symbols m0"
    using manager_start_readable [OF assms(1) firmware assms(2)] .
  then have "on_battery readable_symbols m"
    using readable.steps_keep assms(3) firmware by blast
  moreover have "on_battery battery_ready m"
    using battery_steps_arm assms(3) start by blast
  ultimately show ?thesis
    using pollBatteryState_returns [OF assms(5,4)] by (metis sound_on_battery)
qed

end
