(* ===== verification/BatteryReport.thy ===== *)
theory BatteryReport
  imports BatteryRuns
begin

text \<open>
  What the battery publishes after a status read, against a specification over the natural
  numbers; the dictionary for older programs; what a removal leaves.
\<close>

section \<open>Specification\<close>

datatype power_supply = SupplyFailing | SupplyDischarging | SupplyCharging | SupplyCharged

definition supply_of :: "u32 \<Rightarrow> power_supply" where
  "supply_of status =
     (if bit status 0 then if bit status 1 then SupplyFailing else SupplyDischarging
      else if bit status 1 then SupplyCharging else SupplyCharged)"

record power_report =
  on_mains :: bool
  charge_capable :: bool
  is_charging :: bool
  fully_charged :: bool
  capacity_mAh :: nat
  current_mA :: int
  minutes_left :: nat
  minutes_to_empty :: nat
  minutes_to_full :: nat

definition exact_minutes :: "nat \<Rightarrow> nat \<Rightarrow> nat" where
  "exact_minutes charge rate = (if rate = 0 then 65535 else 60 * charge div rate)"

fun report :: "power_supply \<Rightarrow> nat \<Rightarrow> nat \<Rightarrow> nat \<Rightarrow> power_report" where
  "report SupplyFailing full_charge charge rate =
     \<lparr>on_mains = True, charge_capable = False, is_charging = False, fully_charged = False,
      capacity_mAh = charge, current_mA = 0, minutes_left = 0, minutes_to_empty = 0,
      minutes_to_full = 0\<rparr>"
| "report SupplyDischarging full_charge charge rate =
     \<lparr>on_mains = False, charge_capable = False, is_charging = False, fully_charged = False,
      capacity_mAh = charge, current_mA = - int rate, minutes_left = exact_minutes charge rate,
      minutes_to_empty = exact_minutes charge rate, minutes_to_full = 65535\<rparr>"
| "report SupplyCharging full_charge charge rate =
     \<lparr>on_mains = True, charge_capable = True, is_charging = True, fully_charged = False,
      capacity_mAh = charge, current_mA = int rate,
      minutes_left = exact_minutes (full_charge - charge) rate, minutes_to_empty = 65535,
      minutes_to_full = exact_minutes (full_charge - charge) rate\<rparr>"
| "report SupplyCharged full_charge charge rate =
     \<lparr>on_mains = True, charge_capable = True, is_charging = False, fully_charged = True,
      capacity_mAh = full_charge, current_mA = 0, minutes_left = 65535, minutes_to_empty = 65535,
      minutes_to_full = 65535\<rparr>"

text \<open>The same read from the published properties.\<close>

definition published_word :: "source_key \<Rightarrow> source_properties \<Rightarrow> u32" where
  "published_word key p = (case number_of (p key) of Some n \<Rightarrow> ucast n | None \<Rightarrow> 0)"

definition published_flag :: "source_key \<Rightarrow> source_properties \<Rightarrow> bool" where
  "published_flag key p \<longleftrightarrow> p key = Some (OSBoolean True)"

definition published_report :: "source_properties \<Rightarrow> power_report" where
  "published_report p =
     \<lparr>on_mains = published_flag SourceExternalConnected p,
      charge_capable = published_flag SourceExternalChargeCapable p,
      is_charging = published_flag SourceIsCharging p,
      fully_charged = published_flag SourceFullyCharged p,
      capacity_mAh = unat (published_word SourceCurrentCapacity p),
      current_mA = sint (published_word SourceAmperage p),
      minutes_left = unat (published_word SourceTimeRemaining p),
      minutes_to_empty = unat (published_word SourceAvgTimeToEmpty p),
      minutes_to_full = unat (published_word SourceAvgTimeToFull p)\<rparr>"

section \<open>Arithmetic of the driver\<close>

lemma minutes_exact:
  assumes "60 * unat charge < 2 ^ 32"
  shows "unat (minutes charge rate) = exact_minutes (unat charge) (unat rate)"
proof -
  have "unat (60 * charge) = 60 * unat charge"
    using assms by (simp add: unat_word_ariths)
  then show ?thesis
    by (simp add: minutes_def exact_minutes_def unat_div_distrib unat_eq_0)
qed

lemma any_bit_low:
  "any_bit w BATTERY_DISCHARGING \<longleftrightarrow> bit w 0" "any_bit w BATTERY_CHARGING \<longleftrightarrow> bit w 1"
  using any_bit_push [of w 0] any_bit_push [of w 1]
  by (simp_all add: BATTERY_DISCHARGING_def BATTERY_CHARGING_def)

text \<open>The rate after the sign of a discharge is taken off, and its average.\<close>

definition exact_rate :: "nat \<Rightarrow> nat \<Rightarrow> nat" where
  "exact_rate full_charge rate =
     (let magnitude = (if rate < 32768 then rate else 65535 - rate)
      in if magnitude = 0 then full_charge div 2 else magnitude)"

definition exact_average :: "bool \<Rightarrow> nat \<Rightarrow> nat \<Rightarrow> nat" where
  "exact_average changed average rate =
     (if changed then 0 else if average = 0 then rate else (average + rate) div 2)"

lemma any_bit_15: "unat (w :: u32) < 65536 \<Longrightarrow> any_bit w 0x8000 \<longleftrightarrow> 32768 \<le> unat w"
proof -
  assume w: "unat w < 65536"
  have power: "(2 :: nat) ^ 15 = 32768" by simp
  have "any_bit w 0x8000 \<longleftrightarrow> bit w 15"
    using any_bit_push [of w 15] by simp
  also have "\<dots> \<longleftrightarrow> bit (unat w) 15"
    by (simp add: bit_simps)
  also have "\<dots> \<longleftrightarrow> odd (unat w div 32768)"
    by (simp only: bit_iff_odd power)
  also have "\<dots> \<longleftrightarrow> 32768 \<le> unat w"
  proof (cases "32768 \<le> unat w")
    case True
    then have "unat w div 32768 = 1" using w by (intro div_nat_eqI) simp_all
    then show ?thesis using True by simp
  qed simp
  finally show ?thesis .
qed

lemma normal_rate_exact:
  assumes "unat rate < 65536"
  shows "unat (normal_rate full_charge rate) = exact_rate (unat full_charge) (unat rate)"
proof -
  have diff: "unat (0xFFFF - rate) = 65535 - unat rate"
    using assms by (subst unat_sub) (simp_all add: word_le_nat_alt)
  show ?thesis
    using assms any_bit_15 [OF assms] diff
    by (auto simp: normal_rate_def exact_rate_def unat_div_distrib unat_eq_0 Let_def not_le)
qed

lemma average_exact:
  assumes "unat a < 2 ^ 31" "unat r < 2 ^ 31"
  shows "unat ((a + r) div 2 :: u32) = (unat a + unat r) div 2"
  using assms by (simp add: unat_div_distrib unat_word_ariths)

section \<open>What a status read publishes\<close>

lemma word_xor_zero: "(v :: 'a::len word) XOR w = 0 \<longleftrightarrow> v = w"
  by (auto simp: bit_eq_iff bit_xor_iff)

lemma ucast_up_down: "ucast (ucast (w :: u32) :: 64 word) = w"
  by (rule bit_word_eqI) (simp add: bit_ucast_iff)

lemma law_set: "power_source_law E \<Longrightarrow> power_set E key value p = p(key \<mapsto> value)"
  and law_flag: "power_source_law E \<Longrightarrow> power_flag E key p \<longleftrightarrow> published_flag key p"
  by (simp_all add: power_source_law_def published_flag_def)

lemma properties_choose_polling [simp]: "properties (choose_polling b) = properties b"
  by (simp add: choose_polling_def setProperty_def)

lemma properties_publish_cells [simp]: "properties (publish_cells b) = properties b"
  by (simp add: publish_cells_def setProperty_def Let_def)

lemma properties_average_rate [simp]: "properties (average_rate v b) = properties b"
  by (simp add: average_rate_def Let_def)

text \<open>A status read is its branch of the source, then the serial number and the legacy dictionary.\<close>

lemma setBatteryBST_properties:
  assumes "setBatteryBST E (Some bst) b = Inr b'" "power_source_law E"
  obtains v b0 b1 where "read_bst E bst b = Inr (v, b0)"
    "\<forall>key. key \<noteq> SourceSoftwareSerial \<longrightarrow>
       properties b1 key = properties (publish_status E v (average_rate v b0)) key"
    "properties b' = properties (rebuildLegacyIOBatteryInfo E b1)"
proof -
  obtain v b0 b1 b2 where
    read: "read_bst E bst b = Inr (v, b0)" and
    serial: "constructAppleSerialNumber
       (publish_cells (choose_polling (publish_status E v (average_rate v b0)))) = Inr b1" and
    timer: "cancel_read_timer b1 = Inr b2" and
    b': "b' = updateStatus (rebuildLegacyIOBatteryInfo E b2)"
    using assms(1) by (auto simp: setBatteryBST_def Let_def)
  have "properties b1 key = properties (publish_status E v (average_rate v b0)) key"
    if "key \<noteq> SourceSoftwareSerial" for key
    using serial that by (auto simp: constructAppleSerialNumber_def set_property_def Let_def)
  moreover have "properties b2 = properties b1"
    using timer by (auto simp: cancel_read_timer_def)
  then have "properties b' = properties (rebuildLegacyIOBatteryInfo E b1)"
    by (simp add: b' updateStatus_def rebuildLegacyIOBatteryInfo_def power_object_def)
  ultimately show ?thesis using that read by blast
qed

lemma read_bst_Inr:
  assumes "read_bst E bst b = Inr (v, b0)" "power_source_law E"
  obtains rate voltage capacity where
    "number_in bst BST_STATUS = Inr v" "number_in bst BST_RATE = Inr rate"
    "number_in bst BST_VOLTAGE = Inr voltage" "number_in bst BST_CAPACITY = Inr capacity"
    "b0 = b\<lparr>fCurrentRate := rate, fCurrentVoltage := voltage, fCurrentCapacity := capacity,
            properties := (properties b)(SourceCurrentCapacity \<mapsto> number32 capacity,
                                         SourceVoltage \<mapsto> number32 voltage)\<rparr>"
  using assms by (auto simp: read_bst_def power_number_def law_set Let_def)

lemma average_rate_fields:
  assumes "average_rate v b = b'"
  shows "fCurrentRate b' = normal_rate (fMaxCapacity b) (fCurrentRate b)"
    "fMaxCapacity b' = fMaxCapacity b" "fCurrentCapacity b' = fCurrentCapacity b"
    "fAverageRate b' =
       (if v \<noteq> fStatus b then 0
        else if fAverageRate b \<noteq> 0
          then (fAverageRate b + normal_rate (fMaxCapacity b) (fCurrentRate b)) div 2
        else normal_rate (fMaxCapacity b) (fCurrentRate b))"
  using assms by (auto simp: average_rate_def word_xor_zero Let_def)

lemma published_number32 [simp]:
  "published_word key (p(key \<mapsto> number32 w)) = w"
  "key \<noteq> key' \<Longrightarrow> published_word key (p(key' \<mapsto> x)) = published_word key p"
  by (simp_all add: published_word_def number32_def ucast_up_down)

lemma published_flag_upd [simp]:
  "published_flag key (p(key \<mapsto> OSBoolean t)) = t"
  "key \<noteq> key' \<Longrightarrow> published_flag key (p(key' \<mapsto> x)) = published_flag key p"
  by (simp_all add: published_flag_def)

lemma publish_failure_report:
  "power_source_law E \<Longrightarrow> published_report (properties (publish_failure E b)) =
    report SupplyFailing m (unat (published_word SourceCurrentCapacity (properties b))) a"
  by (simp add: published_report_def publish_failure_def external_power_def own_setters
      power_number_def power_bool_def power_object_def set_property_def logReadError_def
      setProperty_def law_set Let_def)

lemma publish_charged_report:
  "power_source_law E \<Longrightarrow> published_report (properties (publish_charged E b)) =
    report SupplyCharged (unat (fMaxCapacity b)) c a"
  by (simp add: published_report_def publish_charged_def external_power_def own_setters
      power_number_def power_bool_def set_property_def law_set Let_def)

lemma publish_discharging_report:
  assumes "power_source_law E" "unat (fAverageRate b) < 2 ^ 31" "60 * unat (fCurrentCapacity b) < 2 ^ 32"
    "published_word SourceCurrentCapacity (properties b) = fCurrentCapacity b"
  shows "published_report (properties (publish_discharging E b)) =
    report SupplyDischarging m (unat (fCurrentCapacity b)) (unat (fAverageRate b))"
  using assms
  by (simp add: published_report_def publish_discharging_def external_power_def own_setters
      power_number_def power_bool_def set_property_def law_set Let_def minutes_exact sint_minus_small)

lemma publish_charging_report:
  assumes "power_source_law E" "unat (fAverageRate b) < 2 ^ 31" "60 * unat (fMaxCapacity b) < 2 ^ 32"
    "fCurrentCapacity b \<le> fMaxCapacity b"
    "published_word SourceCurrentCapacity (properties b) = fCurrentCapacity b"
  shows "published_report (properties (publish_charging E b)) =
    report SupplyCharging (unat (fMaxCapacity b)) (unat (fCurrentCapacity b)) (unat (fAverageRate b))"
proof -
  have missing: "unat (fMaxCapacity b - fCurrentCapacity b) = unat (fMaxCapacity b) - unat (fCurrentCapacity b)"
    using assms(4) by (rule unat_sub)
  then have "60 * unat (fMaxCapacity b - fCurrentCapacity b) < 2 ^ 32" using assms(3) by simp
  then show ?thesis
    using assms(1,2,5) missing
    by (simp add: published_report_def publish_charging_def external_power_def own_setters
        power_number_def power_bool_def set_property_def law_set Let_def minutes_exact sint_of_small)
qed

lemma published_report_cong:
  "(\<And>key. key \<noteq> SourceSoftwareSerial \<Longrightarrow> key \<noteq> SourceBatteryInfo \<Longrightarrow> p key = q key)
    \<Longrightarrow> published_report p = published_report q"
  by (simp add: published_report_def published_word_def published_flag_def)

lemma publish_status_report:
  assumes law: "power_source_law E" and small: "unat (fAverageRate b) < 2 ^ 31"
    "60 * unat (fMaxCapacity b) < 2 ^ 32" "fCurrentCapacity b \<le> fMaxCapacity b"
    and capacity: "published_word SourceCurrentCapacity (properties b) = fCurrentCapacity b"
  shows "published_report (properties (publish_status E v b)) =
    report (supply_of v) (unat (fMaxCapacity b)) (unat (fCurrentCapacity b)) (unat (fAverageRate b))"
proof -
  have "60 * unat (fCurrentCapacity b) < 2 ^ 32"
    using small(2,3) by (simp add: word_le_nat_alt)
  then show ?thesis
    using publish_failure_report [OF law, of b "unat (fMaxCapacity b)" "unat (fAverageRate b)"]
      publish_charged_report [OF law, of b "unat (fCurrentCapacity b)" "unat (fAverageRate b)"]
      publish_discharging_report [OF law small(1) _ capacity, of "unat (fMaxCapacity b)"]
      publish_charging_report [OF law small capacity] capacity
    by (simp only: publish_status_def supply_of_def any_bit_low split: if_splits) simp
qed

text \<open>C14. A status read publishes what the specification over the natural numbers says of the
  battery's state, charge and rate: mains, charging and full flags, the signed current, and the
  exact minutes left. Rates of 16 bits, a charge within the capacity and a capacity below
  71582788 mAh keep every intermediate value of the 32-bit computation from wrapping.\<close>

theorem status_read_publishes:
  assumes "power_source_law E" "setBatteryBST E (Some bst) b = Inr b'"
    "number_in bst BST_STATUS = Inr status" "number_in bst BST_RATE = Inr rate"
    "number_in bst BST_CAPACITY = Inr charge"
    "unat rate < 65536" "unat (fAverageRate b) < 65536"
    "60 * unat (fMaxCapacity b) < 2 ^ 32" "charge \<le> fMaxCapacity b"
  shows "published_report (properties b') =
    report (supply_of status) (unat (fMaxCapacity b)) (unat charge)
      (exact_average (status \<noteq> fStatus b) (unat (fAverageRate b))
         (exact_rate (unat (fMaxCapacity b)) (unat rate)))"
proof -
  obtain v b0 b1 where read: "read_bst E bst b = Inr (v, b0)"
    and b1: "\<forall>key. key \<noteq> SourceSoftwareSerial \<longrightarrow>
       properties b1 key = properties (publish_status E v (average_rate v b0)) key"
    and b': "properties b' = properties (rebuildLegacyIOBatteryInfo E b1)"
    by (rule setBatteryBST_properties [OF assms(2,1)])
  obtain voltage where v: "v = status" and b0: "b0 = b\<lparr>fCurrentRate := rate,
      fCurrentVoltage := voltage, fCurrentCapacity := charge,
      properties := (properties b)(SourceCurrentCapacity \<mapsto> number32 charge,
                                   SourceVoltage \<mapsto> number32 voltage)\<rparr>"
    using read_bst_Inr [OF read assms(1)] assms(3-5) by auto
  let ?b = "average_rate v b0"
  let ?r = "normal_rate (fMaxCapacity b) rate"
  note fields = average_rate_fields [of v b0, OF refl]
  have rate: "unat ?r = exact_rate (unat (fMaxCapacity b)) (unat rate)"
    by (rule normal_rate_exact [OF assms(6)])
  have small_rate: "unat ?r < 2 ^ 31"
    using assms(6,8) unfolding rate by (auto simp: exact_rate_def Let_def)
  have average: "unat (fAverageRate ?b) = exact_average (status \<noteq> fStatus b) (unat (fAverageRate b)) (unat ?r)"
    using fields(4) v small_rate assms(7)
    by (simp add: b0 exact_average_def average_exact unat_eq_0)
  have small: "unat (fAverageRate ?b) < 2 ^ 31"
    using small_rate assms(7) unfolding average by (auto simp: exact_average_def)
  have "published_report (properties (publish_status E v ?b)) =
      report (supply_of v) (unat (fMaxCapacity ?b)) (unat (fCurrentCapacity ?b)) (unat (fAverageRate ?b))"
    using small assms(8,9) fields(2,3) by (intro publish_status_report [OF assms(1)]) (simp_all add: b0)
  moreover have "published_report (properties b') = published_report (properties (publish_status E v ?b))"
    by (rule published_report_cong)
      (simp add: b' b1 rebuildLegacyIOBatteryInfo_def power_object_def law_set assms(1))
  moreover have "fMaxCapacity ?b = fMaxCapacity b" "fCurrentCapacity ?b = charge"
    using fields(2,3) by (simp_all add: b0)
  ultimately show ?thesis using average by (simp only: rate v)
qed

end
