(* ===== verification/BatteryProps.thy ===== *)
theory BatteryProps
  imports BatteryReport
begin

text \<open>
  The dictionary for older programs, the removal of a battery, malformed packages, the serial
  number, and concrete runs that satisfy the hypotheses of the battery's properties.
\<close>

section \<open>The dictionary for older programs\<close>

fun entries_of :: "os_object option \<Rightarrow> (legacy_key \<times> os_object) list" where
  "entries_of (Some (OSDictionary entries)) = entries"
| "entries_of _ = []"

definition legacy_entry :: "legacy_key \<Rightarrow> source_properties \<Rightarrow> os_object option" where
  "legacy_entry key p = map_of (entries_of (p SourceBatteryInfo)) key"

lemma map_of_dictionary:
  "distinct (map fst entries) \<Longrightarrow>
    map_of (List.map_filter (\<lambda>(key, value). map_option (Pair key) value) entries) key =
    Option.bind (map_of entries key) id"
proof (induction entries)
  case (Cons e entries)
  then show ?case
    by (cases e; cases "snd e")
      (auto simp: map_filter_simps map_of_eq_None_iff [THEN iffD2] split: option.split)
qed (simp add: map_filter_simps)

lemma entries_dictionary [simp]:
  "distinct (map fst entries) \<Longrightarrow>
    map_of (entries_of (Some (dictionary_of entries))) key = Option.bind (map_of entries key) id"
  by (simp add: dictionary_of_def map_of_dictionary)

lemma any_bit_if_or:
  "any_bit (if c then flags OR w else flags) m \<longleftrightarrow> any_bit flags m \<or> c \<and> any_bit w m"
  by (auto simp: any_bit_or)

lemma legacy_flag_word_bits:
  assumes "distinct_flags_law E"
  shows "any_bit (legacy_flag_word E p) (kIOPMACInstalled E) \<longleftrightarrow> power_flag E SourceExternalConnected p"
    "any_bit (legacy_flag_word E p) (kIOPMBatteryInstalled E) \<longleftrightarrow> power_flag E SourceBatteryInstalled p"
    "any_bit (legacy_flag_word E p) (kIOPMBatteryCharging E) \<longleftrightarrow> power_flag E SourceIsCharging p"
  using assms
  by (simp_all add: legacy_flag_word_def Let_def any_bit_if_or distinct_flags_law_def)
    (simp_all add: any_bit_def and.commute)

text \<open>Whenever the dictionary for older programs is rebuilt, its flag word holds exactly the
  published mains, presence and charging flags, and its other entries are the published
  capacities, voltage, amperage and cycle count.\<close>

theorem legacy_dictionary_agrees:
  assumes "power_source_law E" "distinct_flags_law E" "p = properties (rebuildLegacyIOBatteryInfo E b)"
  shows "(\<exists>flags. legacy_entry LegacyFlags p = Some (number32 flags) \<and>
      any_bit flags (kIOPMACInstalled E) = published_flag SourceExternalConnected p \<and>
      any_bit flags (kIOPMBatteryInstalled E) = published_flag SourceBatteryInstalled p \<and>
      any_bit flags (kIOPMBatteryCharging E) = published_flag SourceIsCharging p) \<and>
    legacy_entry LegacyCurrentCharge p = p SourceCurrentCapacity \<and>
    legacy_entry LegacyCapacity p = p SourceMaxCapacity \<and>
    legacy_entry LegacyVoltage p = p SourceVoltage \<and>
    legacy_entry LegacyAmperage p = p SourceAmperage \<and>
    legacy_entry LegacyCycleCount p = p SourceCycleCount"
proof -
  have p: "p = (properties b)(SourceBatteryInfo \<mapsto> dictionary_of
          [(LegacyFlags, Some (number32 (legacy_flag_word E (properties b)))),
           (LegacyCurrentCharge, properties b SourceCurrentCapacity),
           (LegacyCapacity, properties b SourceMaxCapacity),
           (LegacyVoltage, properties b SourceVoltage),
           (LegacyAmperage, properties b SourceAmperage),
           (LegacyCycleCount, properties b SourceCycleCount)])"
    by (simp add: assms(3) rebuildLegacyIOBatteryInfo_def power_object_def law_set [OF assms(1)])
  show ?thesis
    using legacy_flag_word_bits [OF assms(2), of "properties b"] law_flag [OF assms(1)]
    by (auto simp: p legacy_entry_def)
qed

section \<open>Removal\<close>

lemma fold_remove_properties:
  "properties (fold remove_property ks b) = (\<lambda>key. if key \<in> set ks then None else properties b key)"
  "registry (fold remove_property ks b) = (\<lambda>key. if key \<in> set ks then None else registry b key)"
  by (induction ks arbitrary: b) (auto simp: remove_property_def)

text \<open>C18. Removing the battery publishes it as absent and not charging, its charge, current and time
  as zero, takes its names, serial number and rates out of both dictionaries and announces the
  update. The flag that it is fully charged is not touched.\<close>

theorem removal_clears:
  assumes "power_source_law E" "b' = clearBatteryState E True b"
  shows "\<not> published_flag SourceBatteryInstalled (properties b') \<and>
    \<not> published_flag SourceIsCharging (properties b') \<and>
    (\<forall>key \<in> {SourceCurrentCapacity, SourceMaxCapacity, SourceTimeRemaining, SourceAmperage,
       SourceVoltage, SourceCycleCount}. properties b' key = Some (number32 0)) \<and>
    (\<forall>key \<in> {SourceManufacturer, SourceSerial, SourceErrorCondition, SourceDesignCapacity,
       SourceDeviceName, SourceType, SourceMaxErr, SourceManufactureDate, SourceSerialNumber,
       SourceManufacturerData, SourceAvgTimeToEmpty, SourceAvgTimeToFull, SourceInstantTimeToEmpty,
       SourceInstantTimeToFull, SourceInstantAmperage, SourceQuickPoll, SourceCellVoltage,
       SourceTemperature, SourceSoftwareSerial}. properties b' key = None \<and> registry b' key = None) \<and>
    last (battery_events b') = UpdateStatus \<and>
    properties b' SourceFullyCharged = properties b SourceFullyCharged"
proof -
  note law = law_set [OF assms(1)]
  let ?z = "fold remove_property cleared_keys (zero_state E b)"
  have "properties b' key = properties ?z key" if "key \<noteq> SourceBatteryInfo" for key
    using that by (simp add: assms(2) clearBatteryState_def rebuildLegacyIOBatteryInfo_def
        power_object_def updateStatus_def law Let_def)
  then have p: "properties b' key =
      (if key \<in> set cleared_keys then None else properties (zero_state E b) key)"
    if "key \<noteq> SourceBatteryInfo" for key
    using that by (simp add: fold_remove_properties)
  have "registry b' = registry ?z" and last: "last (battery_events b') = UpdateStatus"
    by (simp_all add: assms(2) clearBatteryState_def rebuildLegacyIOBatteryInfo_def
        power_object_def updateStatus_def Let_def)
  then have r: "registry b' key = None" if "key \<in> set cleared_keys" for key
    using that by (simp add: fold_remove_properties)
  have z: "properties (zero_state E b) key =
      (if key \<in> {SourceBatteryInstalled, SourceIsCharging} then Some (OSBoolean False)
       else if key \<in> {SourceCurrentCapacity, SourceMaxCapacity, SourceTimeRemaining, SourceAmperage,
         SourceVoltage, SourceCycleCount, SourceAdapterInfo, SourceLocation} then Some (number32 0)
       else properties b key)" for key
    by (simp add: zero_state_def power_bool_def power_number_def law Let_def)
  have kept: "SourceFullyCharged \<notin> set cleared_keys" "SourceBatteryInstalled \<notin> set cleared_keys" "SourceIsCharging \<notin> set cleared_keys"
    "\<forall>key \<in> {SourceCurrentCapacity, SourceMaxCapacity, SourceTimeRemaining, SourceAmperage,
       SourceVoltage, SourceCycleCount}. key \<notin> set cleared_keys"
    by (simp_all add: cleared_keys_def)
  have gone: "\<forall>key \<in> {SourceManufacturer, SourceSerial, SourceErrorCondition, SourceDesignCapacity,
       SourceDeviceName, SourceType, SourceMaxErr, SourceManufactureDate, SourceSerialNumber,
       SourceManufacturerData, SourceAvgTimeToEmpty, SourceAvgTimeToFull, SourceInstantTimeToEmpty,
       SourceInstantTimeToFull, SourceInstantAmperage, SourceQuickPoll, SourceCellVoltage,
       SourceTemperature, SourceSoftwareSerial}. key \<in> set cleared_keys"
    by (simp add: cleared_keys_def)
  show ?thesis
    using kept gone last r by (simp add: p z published_flag_def)
qed

section \<open>Malformed status packages\<close>

lemma number_in_cases:
  obtains (number) v where "number_in xs i = Inr v" "number_of (getObject xs i) \<noteq> None"
    | (other) "number_in xs i = Inl NullDereference" "number_of (getObject xs i) = None"
  by (cases "number_of (getObject xs i)") (auto simp: number_in_def)

lemma read_bst_error:
  "read_bst E bst b = Inl e \<longleftrightarrow> e = NullDereference \<and> (\<exists>i < 4. number_of (getObject bst i) = None)"
proof -
  have four: "(\<exists>i < 4. P i) \<longleftrightarrow> P BST_STATUS \<or> P BST_RATE \<or> P BST_VOLTAGE \<or> P BST_CAPACITY" for P
    by (auto simp: bst_indices eval_nat_numeral less_Suc_eq)
  show ?thesis
    unfolding four
    by (cases rule: number_in_cases [of bst BST_STATUS]; cases rule: number_in_cases [of bst BST_RATE];
        cases rule: number_in_cases [of bst BST_VOLTAGE]; cases rule: number_in_cases [of bst BST_CAPACITY])
      (auto simp: read_bst_def Let_def)
qed

text \<open>C21. On a battery whose names are readable and whose timers exist, a status read fails exactly
  when the package is no array or one of its first four entries is missing or no number; it then
  follows a null pointer.\<close>

theorem setBatteryBST_error:
  assumes "readable_symbols b" "fBatteryReadAllTimer b \<noteq> None"
  shows "setBatteryBST E x b = Inl e \<longleftrightarrow> e = NullDereference \<and>
    (\<forall>bst. x = Some bst \<longrightarrow> (\<exists>i < 4. number_of (getObject bst i) = None))"
proof (cases x)
  case None
  then show ?thesis by (auto simp: setBatteryBST_def)
next
  case (Some bst)
  show ?thesis
  proof (cases "\<exists>i < 4. number_of (getObject bst i) = None")
    case True
    then have "read_bst E bst b = Inl NullDereference" by (simp add: read_bst_error)
    then show ?thesis using True Some by (auto simp: setBatteryBST_def)
  next
    case False
    then obtain v b0 where read: "read_bst E bst b = Inr (v, b0)"
      by (cases "read_bst E bst b") (auto simp: read_bst_error)
    obtain b' where "setBatteryBST E (Some bst) b = Inr b'"
      by (rule setBatteryBST_after_read [OF read assms])
    then show ?thesis using False Some by auto
  qed
qed

section \<open>Charges above the capacity\<close>

text \<open>
  A charge above the last full capacity, which firmware reports for a battery just filled, makes
  the missing charge wrap: the time left is that of almost \<open>2\<^sup>32\<close> units.
\<close>

lemma overfull_charge_wraps:
  assumes "fMaxCapacity b < charge"
  shows "unat (fMaxCapacity b - charge) = 2 ^ 32 - (unat charge - unat (fMaxCapacity b))"
  using assms by (simp add: unat_sub_if_size word_less_nat_alt word_size)

section \<open>A concrete battery\<close>

definition plain_power_source :: power_source where
  "plain_power_source = \<lparr>power_set = (\<lambda>key value p. p(key \<mapsto> value)),
     power_flag = (\<lambda>key p. p key = Some (OSBoolean True)), interned = (\<lambda>_. False),
     null_text = ''(null)'', kIOPMACInstalled = 1, kIOPMBatteryInstalled = 4, kIOPMBatteryCharging = 2\<rparr>"

definition sample_bif :: "os_object list" where
  "sample_bif = map OSNumber [1, 4400, 4000, 1, 11100, 250, 150, 10, 10] @
     map OSString [''DELL'', ''17'', ''LION'', ''SMP'']"

text \<open>Discharging at 1000 mA, which the firmware reports as \<open>0xFC17\<close>.\<close>

definition sample_bst :: "os_object list" where
  "sample_bst = map OSNumber [1, 0xFC17, 1500, 11100]"

definition sample_firmware :: "unit acpi_env" where
  "sample_firmware = \<lparr>source = plain_power_source, evaluate_STA = (\<lambda>h. (Some 0x1F, h)),
     evaluate_BIF = (\<lambda>h. (Some (OSArray sample_bif), h)),
     evaluate_BST = (\<lambda>h. (Some (OSArray sample_bst), h))\<rparr>"

definition sample_outcome :: start_outcome where
  "sample_outcome = \<lparr>provider_is_acpi = True, manager_super_starts = True,
     manager_has_workloop = True, numBatteriesSupported = 1, battery_allocated = True,
     battery_super_starts = True, polling_override = None, battery_has_workloop = True,
     poll_timer_made = True, read_timer_made = True, poll_timer_added = True,
     manager_gate_made = True, battery_gate_made = True\<rparr>"

lemma plain_power_source_laws: "power_source_law plain_power_source" "distinct_flags_law plain_power_source"
  by (simp_all add: power_source_law_def distinct_flags_law_def plain_power_source_def)

lemma sample_well_formed: "well_formed_firmware sample_firmware"
  by (auto simp: well_formed_firmware_def sample_firmware_def well_formed_bif_def well_formed_bst_def
      sample_bif_def sample_bst_def bif_indices eval_nat_numeral less_Suc_eq)

lemma sample_complete: "complete_start sample_outcome"
  by (simp add: complete_start_def sample_outcome_def)

lemma with_battery_result: "with_battery f m = Inr m' \<Longrightarrow> \<exists>b. fBattery m' = Some b"
  by (auto simp: with_battery_def)

lemma manager_start_returns:
  assumes "complete_start out" "well_formed_firmware A" "numBatteriesSupported out \<le> 1"
  obtains m b where "manager_start A out (new_manager h) = Inr (True, m)" "fBattery m = Some b"
proof -
  let ?m = "new_manager h\<lparr>fBattery := Some (started_battery (source A) out)\<rparr>"
  have "sound_battery (started_battery (source A) out)"
    using publish_start_ready [OF assms(1)] started_battery_readable
    by (simp add: sound_battery_def started_battery_def)
  then obtain m1 where poll: "pollBatteryState A kNewBatteryPath ?m = Inr m1"
    using pollBatteryState_returns [OF assms(2), of ?m] by auto
  then obtain m2 where "with_battery restart_polling m2 = Inr m1"
    by (auto simp: pollBatteryState_def pollExistingBattery_def)
  then obtain b where "fBattery m1 = Some b" by (blast dest: with_battery_result)
  moreover have "manager_start A out (new_manager h) =
      Inr (True, m1\<lparr>fManagerGate := True, fBatteryGate := True\<rparr>)"
    using assms(1,3) poll
    by (simp add: manager_start_def populateBattery_def battery_start_def complete_start_def
        with_battery_def started_battery_def)
  ultimately show ?thesis using that by simp
qed

text \<open>
  The manager does not look at the result of the battery's start: when its timer cannot be made
  the manager still starts and opens the gate, and the first insertion follows a null pointer.
\<close>

lemma failed_battery_start_ignored:
  assumes "provider_is_acpi out" "manager_super_starts out" "manager_has_workloop out"
    "numBatteriesSupported out \<le> 1" "battery_allocated out" "battery_super_starts out"
    "\<not> poll_timer_made out" "manager_gate_made out" "battery_gate_made out"
  shows "\<exists>m. manager_start A out (new_manager h) = Inr (True, m) \<and> fBatteryGate m \<and>
    handleBatteryInserted A m = Inl NullDereference"
  using assms
  by (auto simp: manager_start_def populateBattery_def battery_start_def prepare_battery_def
      handleBatteryInserted_def pollBatteryState_def start_new_poll_def cancel_poll_timer_def
      with_battery_def)

text \<open>Witnesses of the battery's properties.\<close>

theorem battery_keeps_polling_witness:
  "\<exists>m b. manager_start sample_firmware sample_outcome (new_manager ()) = Inr (True, m) \<and>
     fBattery m = Some b \<and> may_expire (fPollTimer b) \<and> \<not> may_expire (fBatteryReadAllTimer b)"
proof -
  obtain m b where start: "manager_start sample_firmware sample_outcome (new_manager ()) = Inr (True, m)"
    and b: "fBattery m = Some b"
    by (rule manager_start_returns [OF sample_complete sample_well_formed])
      (simp add: sample_outcome_def)
  from battery_keeps_polling [OF sample_complete start rtranclp.rtrancl_refl b] start b
  show ?thesis by blast
qed

theorem reachable_poll_returns_witness:
  "\<exists>m m'. manager_start sample_firmware sample_outcome (new_manager ()) = Inr (True, m) \<and>
     pollBatteryState sample_firmware kNewBatteryPath m = Inr m'"
proof -
  obtain m b where start: "manager_start sample_firmware sample_outcome (new_manager ()) = Inr (True, m)"
    and b: "fBattery m = Some b"
    by (rule manager_start_returns [OF sample_complete sample_well_formed])
      (simp add: sample_outcome_def)
  from reachable_poll_returns [OF sample_complete start rtranclp.rtrancl_refl b sample_well_formed] start
  show ?thesis by blast
qed

text \<open>A battery of 4000 mAh that has been discharging at 600 mA on average.\<close>

definition sample_battery :: battery where
  "sample_battery = (new_battery initial_milliSecPollingTable)
     \<lparr>fBatteryReadAllTimer := Some \<lparr>onWorkLoop = False, timeoutMS = None\<rparr>, fMaxCapacity := 4000,
       fAverageRate := 600, fStatus := 1\<rparr>"

lemma sample_battery_readable: "readable_symbols sample_battery" "fBatteryReadAllTimer sample_battery \<noteq> None"
  by (simp_all add: sample_battery_def readable_symbols_def symbol_fields_def new_battery_def)

lemma sample_numbers:
  "number_in sample_bst BST_STATUS = Inr 1" "number_in sample_bst BST_RATE = Inr 0xFC17"
  "number_in sample_bst BST_CAPACITY = Inr 1500" "number_in sample_bst BST_VOLTAGE = Inr 11100"
  by (simp_all add: number_in_def getObject_def sample_bst_def bst_indices)

theorem status_read_publishes_witness:
  "\<exists>b'. setBatteryBST plain_power_source (Some sample_bst) sample_battery = Inr b' \<and>
     published_report (properties b') = report SupplyDischarging 4000 1500 800"
proof -
  have "\<exists>v b0. read_bst plain_power_source sample_bst sample_battery = Inr (v, b0)"
    by (simp add: read_bst_def sample_numbers Let_def)
  then obtain b' where b': "setBatteryBST plain_power_source (Some sample_bst) sample_battery = Inr b'"
    using setBatteryBST_after_read sample_battery_readable by metis
  have fields: "fMaxCapacity sample_battery = 4000" "fAverageRate sample_battery = 600"
    "fStatus sample_battery = 1"
    by (simp_all add: sample_battery_def)
  have "published_report (properties b') = report SupplyDischarging 4000 1500 800"
    using status_read_publishes [OF plain_power_source_laws(1) b' sample_numbers(1,2,3)]
    by (simp add: fields supply_of_def exact_average_def exact_rate_def Let_def)
  with b' show ?thesis by blast
qed

theorem legacy_dictionary_agrees_witness:
  "legacy_entry LegacyCapacity (properties (rebuildLegacyIOBatteryInfo plain_power_source
     (power_number plain_power_source SourceMaxCapacity 4000 sample_battery))) = Some (number32 4000)"
proof -
  let ?p = "properties (rebuildLegacyIOBatteryInfo plain_power_source
     (power_number plain_power_source SourceMaxCapacity 4000 sample_battery))"
  have "?p SourceMaxCapacity = Some (number32 4000)"
    by (simp add: rebuildLegacyIOBatteryInfo_def power_object_def power_number_def
        law_set [OF plain_power_source_laws(1)])
  with legacy_dictionary_agrees [OF plain_power_source_laws refl, of
      "power_number plain_power_source SourceMaxCapacity 4000 sample_battery"]
  show ?thesis by simp
qed

theorem removal_clears_witness:
  "\<not> published_flag SourceBatteryInstalled
     (properties (clearBatteryState plain_power_source True sample_battery))"
  using removal_clears [OF plain_power_source_laws(1) refl, of sample_battery] by simp

theorem setBatteryBST_error_witness:
  "setBatteryBST plain_power_source (Some [OSNumber 1, OSString ''x'']) sample_battery = Inl NullDereference"
proof -
  have "number_of (getObject [OSNumber 1, OSString ''x''] 2) = None" by (simp add: getObject_def)
  then have "\<exists>i < 4. number_of (getObject [OSNumber 1, OSString ''x''] i) = None"
    by (intro exI [of _ "2 :: nat"]) simp
  then show ?thesis
    using setBatteryBST_error [OF sample_battery_readable, of plain_power_source
        "Some [OSNumber 1, OSString ''x'']" NullDereference] by blast
qed

end
