(* ===== verification/BatteryTypes.thy ===== *)
theory BatteryTypes
  imports BatteryProps
begin

text \<open>
  Every property of the power source has its type, in every state the extension reaches. The three
  names that the firmware gives are symbols or strings: a string is stored as it is, although the
  accessors are declared to return symbols.
\<close>

datatype property_kind = NumberKind | BooleanKind | SymbolKind | NameKind | DataKind | DictionaryKind

fun kind_of :: "source_key \<Rightarrow> property_kind" where
  "kind_of SourceExternalConnected = BooleanKind"
| "kind_of SourceExternalChargeCapable = BooleanKind"
| "kind_of SourceBatteryInstalled = BooleanKind"
| "kind_of SourceIsCharging = BooleanKind"
| "kind_of SourceFullyCharged = BooleanKind"
| "kind_of SourceManufacturer = NameKind"
| "kind_of SourceErrorCondition = SymbolKind"
| "kind_of SourceDeviceName = NameKind"
| "kind_of SourceType = NameKind"
| "kind_of SourceSoftwareSerial = SymbolKind"
| "kind_of SourceManufacturerData = DataKind"
| "kind_of SourceBatteryInfo = DictionaryKind"
| "kind_of _ = NumberKind"

fun has_kind :: "property_kind \<Rightarrow> os_object \<Rightarrow> bool" where
  "has_kind NumberKind x \<longleftrightarrow> (\<exists>v. x = number32 v)"
| "has_kind BooleanKind x \<longleftrightarrow> (\<exists>t. x = OSBoolean t)"
| "has_kind SymbolKind x \<longleftrightarrow> (\<exists>s. x = OSSymbol s)"
| "has_kind NameKind x \<longleftrightarrow> (\<exists>s. x = OSSymbol s) \<or> (\<exists>text. x = OSString text)"
| "has_kind DataKind x \<longleftrightarrow> (\<exists>bytes. x = OSData bytes)"
| "has_kind DictionaryKind x \<longleftrightarrow> (\<exists>entries. x = OSDictionary entries)"

definition well_typed :: "source_properties \<Rightarrow> bool" where
  "well_typed p \<longleftrightarrow> (\<forall>key x. p key = Some x \<longrightarrow> has_kind (kind_of key) x)"

lemma well_typed_upd: "well_typed p \<Longrightarrow> has_kind (kind_of key) x \<Longrightarrow> well_typed (p(key \<mapsto> x))"
  by (simp add: well_typed_def)

lemma well_typed_del: "well_typed p \<Longrightarrow> well_typed (p(key := None))"
  by (simp add: well_typed_def)

lemma has_kind_object_of [simp]:
  "(\<exists>s'. object_of s = OSSymbol s') \<or> (\<exists>text. object_of s = OSString text)"
  by (cases s) simp_all

lemma has_kind_numbers [simp]: "has_kind NumberKind (number32 v)"
  by auto

text \<open>The setters, as rules that lead back from the state after to the state before.\<close>

lemma typed_setters:
  assumes "power_source_law E" "well_typed (properties b)"
  shows "kind_of key = NumberKind \<Longrightarrow> well_typed (properties (power_number E key v b))"
    "kind_of key = BooleanKind \<Longrightarrow> well_typed (properties (power_bool E key t b))"
    "has_kind (kind_of key) x \<Longrightarrow> well_typed (properties (power_object E key x b))"
  using assms
  by (simp_all add: power_number_def power_bool_def power_object_def law_set well_typed_upd
      del: has_kind.simps(1))

lemma typed_own_setters:
  assumes "well_typed (properties b)"
  shows "has_kind (kind_of key) x \<Longrightarrow> well_typed (properties (set_property key x b))"
    "well_typed (properties (remove_property key b))"
    "well_typed (properties (setProperty key x b))"
    "well_typed (properties (logReadError e n b))"
    "well_typed (properties (updateStatus b))"
    "well_typed (properties (b\<lparr>fBatteryPresent := t\<rparr>))"
    "well_typed (properties (b\<lparr>fACConnected := t\<rparr>))"
    "well_typed (properties (b\<lparr>fACChargeCapable := t\<rparr>))"
    "well_typed (properties (b\<lparr>fCurrentCapacity := v\<rparr>))"
    "well_typed (properties (b\<lparr>fManufacturerData := d\<rparr>))"
  using assms
  by (simp_all add: set_property_def remove_property_def setProperty_def logReadError_def
      updateStatus_def well_typed_upd well_typed_del)

lemmas typed_rules = typed_setters typed_own_setters

lemma typed_fold_remove: "well_typed (properties b) \<Longrightarrow> well_typed (properties (fold remove_property ks b))"
  by (induction ks arbitrary: b) (simp_all add: typed_rules)

lemma typed_let:
  "well_typed (properties x) \<Longrightarrow> (\<And>y. well_typed (properties y) \<Longrightarrow> well_typed (properties (f y)))
    \<Longrightarrow> well_typed (properties (let y = x in f y))"
  by (simp add: Let_def)

lemma typed_accessors:
  assumes "well_typed (properties b)"
  shows "well_typed (properties (setMaxErr v b))" "well_typed (properties (setDeviceName s b))"
    "well_typed (properties (setFullyCharged t b))" "well_typed (properties (setInstantaneousTimeToEmpty v b))"
    "well_typed (properties (setInstantaneousTimeToFull v b))" "well_typed (properties (setInstantAmperage v b))"
    "well_typed (properties (setAverageTimeToEmpty v b))" "well_typed (properties (setAverageTimeToFull v b))"
    "well_typed (properties (setManufactureDate v b))" "well_typed (properties (setSerialNumber v b))"
    "well_typed (properties (setManufacturerData bytes b))" "well_typed (properties (setDesignCapacity v b))"
    "well_typed (properties (setType s b))"
  using assms
  by (simp_all add: own_setters typed_own_setters(1) del: has_kind.simps(1) split: option.split)

lemma typed_if:
  "well_typed (properties x) \<Longrightarrow> well_typed (properties y) \<Longrightarrow> well_typed (properties (if c then x else y))"
  by simp

lemma typed_let_word:
  "(\<And>y :: u32. well_typed (properties (f y))) \<Longrightarrow> well_typed (properties (let y = x in f y))"
  by (simp add: Let_def)

lemma typed_publish:
  assumes law: "power_source_law E" and b: "well_typed (properties b)"
  shows "well_typed (properties (publish_failure E b))"
    "well_typed (properties (publish_discharging E b))"
    "well_typed (properties (publish_charging E b))"
    "well_typed (properties (publish_charged E b))"
    "well_typed (properties (zero_state E b))"
  unfolding publish_failure_def publish_discharging_def publish_charging_def publish_charged_def
    zero_state_def external_power_def
  by (intro typed_let typed_let_word typed_setters [OF law] typed_own_setters typed_accessors;
      (rule b | assumption | simp))+

lemma typed_manufacturer:
  assumes "power_source_law E" "well_typed (properties b)"
  shows "well_typed (properties (case m of Some s \<Rightarrow> power_object E SourceManufacturer (object_of s) b | None \<Rightarrow> b))"
  using assms typed_setters(3) by (simp split: option.split)

lemma typed_publish_bif:
  assumes law: "power_source_law E" and b: "well_typed (properties b)"
  shows "well_typed (properties (publish_bif E b))"
  unfolding publish_bif_def
  by (intro typed_let typed_if typed_manufacturer [OF law] typed_setters [OF law] typed_own_setters
      typed_accessors; (rule b | assumption | simp))+

lemma typed_rebuild:
  "power_source_law E \<Longrightarrow> well_typed (properties b) \<Longrightarrow> well_typed (properties (rebuildLegacyIOBatteryInfo E b))"
  by (simp add: rebuildLegacyIOBatteryInfo_def dictionary_of_def typed_setters)

lemma typed_clear:
  "power_source_law E \<Longrightarrow> well_typed (properties b) \<Longrightarrow> well_typed (properties (clearBatteryState E d b))"
  by (simp add: clearBatteryState_def typed_publish typed_fold_remove typed_rebuild typed_own_setters Let_def)

lemma typed_setBatterySTA:
  "power_source_law E \<Longrightarrow> well_typed (properties b) \<Longrightarrow> well_typed (properties (setBatterySTA E v b))"
  by (simp add: setBatterySTA_def typed_setters)

lemma typed_setBatteryBIF:
  assumes "power_source_law E" "well_typed (properties b)" "setBatteryBIF E x b = Inr b'"
  shows "well_typed (properties b')"
proof -
  obtain bif b0 where "read_bif E bif b = Inr b0" and b': "b' = publish_bif E b0"
    using assms(3) by (auto simp: setBatteryBIF_def)
  then have "properties b0 = properties b" by (auto simp: read_bif_def Let_def)
  then show ?thesis using assms(1,2) b' by (simp add: typed_publish_bif)
qed

lemma typed_setBatteryBST:
  assumes law: "power_source_law E" and b: "well_typed (properties b)" and run: "setBatteryBST E x b = Inr b'"
  shows "well_typed (properties b')"
proof -
  obtain bst where x: "x = Some bst" using run by (auto simp: setBatteryBST_def)
  obtain v b0 b1 b2 where
    read: "read_bst E bst b = Inr (v, b0)" and
    serial: "constructAppleSerialNumber
       (publish_cells (choose_polling (publish_status E v (average_rate v b0)))) = Inr b1" and
    timer: "cancel_read_timer b1 = Inr b2" and
    b': "b' = updateStatus (rebuildLegacyIOBatteryInfo E b2)"
    using run by (auto simp: x setBatteryBST_def Let_def)
  have "well_typed (properties b0)"
    using read b by (auto simp: read_bst_def Let_def intro!: typed_setters [OF law])
  then have "well_typed (properties (average_rate v b0))" by simp
  then have "well_typed (properties (publish_status E v (average_rate v b0)))"
    by (simp add: publish_status_def typed_publish law)
  then have "well_typed (properties b1)"
    using serial by (auto simp: constructAppleSerialNumber_def Let_def intro!: typed_own_setters)
  moreover have "properties b2 = properties b1" using timer by (auto simp: cancel_read_timer_def)
  ultimately show ?thesis by (simp add: b' typed_rebuild law typed_own_setters)
qed

interpretation typed: battery_invariant A "\<lambda>_. True"
    "\<lambda>b. power_source_law (source A) \<longrightarrow> well_typed (properties b)" for A
  by unfold_locales
    (auto intro: typed_setBatterySTA typed_setBatteryBIF typed_setBatteryBST typed_clear
      typed_accessors typed_own_setters simp: battery_setPollingInterval_def)

lemma started_battery_typed:
  assumes "power_source_law E"
  shows "well_typed (properties (started_battery E out))"
proof -
  have new: "properties (prepare_battery out (new_battery table)) = (\<lambda>_. None)" for table
    by (simp add: prepare_battery_def new_battery_def Let_def split: option.split)
  show ?thesis
    unfolding started_battery_def publish_start_def Let_def
    by (intro typed_clear [OF assms] typed_own_setters) (simp add: new well_typed_def)
qed

text \<open>
  A device name that the firmware gives as a string is published, but the accessor, which casts it to a
  symbol with a check, does not find it.
\<close>

theorem cast_name_not_read:
  assumes "GetSymbolFromArray E bif BIF_MODEL_NUMBER = Inr s" "getObject bif BIF_MODEL_NUMBER = Some (OSString text)"
  shows "properties (setDeviceName (Some s) b) SourceDeviceName = Some (OSString text) \<and>
    deviceName (setDeviceName (Some s) b) = None"
  using assms by (auto simp: GetSymbolFromArray_def setDeviceName_def deviceName_def set_property_def)

text \<open>C17. In every state the extension reaches, each published property holds an object of the type its
  key has: numbers of 32 bits, booleans, symbols, data or a dictionary. Only the device name, the
  battery type and the manufacturer have two: each is a symbol or a string, because the driver stores
  a string of the firmware's package without making a symbol of it.\<close>

theorem published_properties_typed:
  assumes "complete_start out" "manager_start A out (new_manager h) = Inr (r, m0)"
    "(battery_step A)\<^sup>*\<^sup>* m0 m" "fBattery m = Some b" "power_source_law (source A)"
  shows "well_typed (properties b)"
proof -
  let ?Inv = "\<lambda>b. power_source_law (source A) \<longrightarrow> well_typed (properties b)"
  have all: "firmware_gives A (\<lambda>_. True)" by (simp add: firmware_gives_def)
  have "on_battery ?Inv m0"
    using assms(1,2)
  proof (rule manager_start_cases)
    fix m1 assume populate: "populateBattery A out m1 = Inr (r, m0)"
    obtain m2 where
      poll: "pollBatteryState A kNewBatteryPath (m1\<lparr>fBattery := Some (started_battery (source A) out)\<rparr>) = Inr m2"
      and m0: "m0 = m2\<lparr>fManagerGate := True, fBatteryGate := True\<rparr>"
      by (rule populateBattery_polls [OF assms(1) populate])
    have "on_battery ?Inv (m1\<lparr>fBattery := Some (started_battery (source A) out)\<rparr>)"
      by (simp add: started_battery_typed)
    then have "on_battery ?Inv m2" using all poll by (rule typed.pollBatteryState_keeps)
    then show ?thesis by (simp add: m0)
  qed (simp add: on_battery_def)
  then have "on_battery ?Inv m" by (rule typed.steps_keep [OF assms(3) _ all])
  then show ?thesis using assms(4,5) by (simp add: on_battery_def)
qed

theorem published_properties_typed_witness:
  "\<exists>m b. manager_start sample_firmware sample_outcome (new_manager ()) = Inr (True, m) \<and>
     fBattery m = Some b \<and> well_typed (properties b)"
proof -
  obtain m b where start: "manager_start sample_firmware sample_outcome (new_manager ()) = Inr (True, m)"
    and b: "fBattery m = Some b"
    by (rule manager_start_returns [OF sample_complete sample_well_formed])
      (simp add: sample_outcome_def)
  have "power_source_law (source sample_firmware)"
    by (simp add: sample_firmware_def plain_power_source_laws)
  from published_properties_typed [OF sample_complete start rtranclp.rtrancl_refl b this] start b
  show ?thesis by blast
qed

end
