(* ===== verification/SmbiosResolver.thy ===== *)
theory SmbiosResolver
  imports KernelObjects
begin

text \<open>
  \<open>SMBIOSResolver\<close> runs once at start: it copies identification strings of its \<open>Override\<close> dictionary
  into the registry, works out the bus and processor frequencies, and cleans the memory
  descriptions of the device tree.

  Registry nodes are maps from names to objects; a node that does not exist is \<open>None\<close>. The
  processor is a parameter (\<open>processor\<close>): what \<open>cpuid_info\<close> and \<open>rdmsr64\<close> return, and the value an
  uninitialised local variable happens to have. The kernel's clock record has 32-bit rates and
  64-bit frequencies, as in the i386 build.
\<close>

section \<open>State\<close>

type_synonym node = "string \<Rightarrow> os_object option"
type_synonym u64 = "64 word"

record clock_info =
  bus_clock_rate_hz :: u32
  cpu_clock_rate_hz :: u32
  bus_to_cpu_rate_num :: u32
  bus_frequency_hz :: u64
  bus_frequency_min_hz :: u64
  bus_frequency_max_hz :: u64
  cpu_frequency_hz :: u64
  cpu_frequency_min_hz :: u64
  cpu_frequency_max_hz :: u64

record resolver =
  resources :: "string \<Rightarrow> os_object option option"
  root_node :: node
  root_name :: string
  rom_node :: "node option"
  memory_node :: "node option"
  efi_node :: "node option"
  options_node :: "node option"
  clock :: clock_info
  timebase_callbacks :: nat

datatype model_register =
    MSR_IA32_PERF_STS | K8_FIDVID_STATUS | K10_COFVID_STATUS | MSR_EBC_FREQUENCY_ID | MSR_FSB_FREQ

record processor =
  cpuid_vendor :: string
  cpuid_family :: nat
  cpuid_model :: nat
  cpuid_extfamily :: nat
  has_SSE2 :: bool
  rdmsr64 :: "model_register \<Rightarrow> u64"
  stack_word :: u32

definition is_intel :: "processor \<Rightarrow> bool" where
  "is_intel cpu \<longleftrightarrow> cpuid_vendor cpu = ''GenuineIntel''"

definition is_amd :: "processor \<Rightarrow> bool" where
  "is_amd cpu \<longleftrightarrow> cpuid_vendor cpu = ''AuthenticAMD''"

definition set_root :: "string \<Rightarrow> os_object \<Rightarrow> resolver \<Rightarrow> resolver" where
  "set_root key x m = m\<lparr>root_node := (root_node m)(key \<mapsto> x)\<rparr>"

definition publishResource :: "string \<Rightarrow> os_object option \<Rightarrow> resolver \<Rightarrow> resolver" where
  "publishResource key x m = m\<lparr>resources := (resources m)(key \<mapsto> x)\<rparr>"

section \<open>Strings\<close>

definition string_bytes :: "string \<Rightarrow> u8 list" where
  "string_bytes text = map (\<lambda>c. of_nat (of_char c)) text"

definition c_bytes :: "string \<Rightarrow> u8 list" where
  "c_bytes text = string_bytes text @ [0]"

text \<open>
  The entries of the dictionary that are copied to the root as data. An entry that is no string is
  a null pointer after \<open>OSDynamicCast\<close>, and its length is asked for.
\<close>

definition copy_root_string :: "string \<Rightarrow> node \<Rightarrow> resolver \<Rightarrow> kernel_error + resolver" where
  "copy_root_string key hw m =
     (if hw key = None then Inr m
      else and_then (non_null (string_of (hw key))) (\<lambda>text.
        Inr (if length text > 1 then set_root key (OSData (c_bytes text)) m else m)))"

definition copy_system_type :: "node \<Rightarrow> resolver \<Rightarrow> resolver" where
  "copy_system_type hw m =
     (case data_of (hw ''system-type'') of
        Some bytes \<Rightarrow> set_root ''system-type'' (OSData bytes) m
      | None \<Rightarrow> m)"

definition copy_model :: "node \<Rightarrow> resolver \<Rightarrow> kernel_error + resolver" where
  "copy_model hw m =
     (if hw ''model'' = None then Inr m
      else and_then (non_null (string_of (hw ''model''))) (\<lambda>text.
        Inr (if length text > 1
             then (set_root ''model'' (OSData (c_bytes text)) m)\<lparr>root_name := text\<rparr> else m)))"

definition copy_rom_version :: "node option \<Rightarrow> resolver \<Rightarrow> kernel_error + resolver" where
  "copy_rom_version hwDict m =
     and_then (non_null hwDict) (\<lambda>hw.
     and_then (non_null (string_of (hw ''rom-version''))) (\<lambda>text.
       Inr (if length text > 0
            then m\<lparr>rom_node := map_option (\<lambda>n. n(''version'' \<mapsto> OSData (c_bytes text))) (rom_node m)\<rparr>
            else m)))"

text \<open>
  The serial number. Its length is kept in a \<open>UInt8\<close>; the three bytes of its end are read at
  \<open>length - 3\<close> and the padding appended is \<open>43 - length - 10 - 3\<close> bytes, which as an unsigned
  number is too large to append when the length is above 30.
\<close>

definition serial_data :: "string \<Rightarrow> kernel_error + u8 list" where
  "serial_data text =
     (let n = length text mod 256; bytes = string_bytes text
      in if n < 3 then Inl OutOfBoundsRead
         else if n > 30 then Inl OutOfBoundsWrite
         else Inr (take 3 (drop (n - 3) (bytes @ [0])) @ replicate 10 0 @ take n bytes @
                   replicate (30 - n) 0))"

definition copy_serial_number :: "bool \<Rightarrow> node \<Rightarrow> resolver \<Rightarrow> kernel_error + resolver" where
  "copy_serial_number data_made hw m =
     (if hw ''serial-number'' = None then Inr m
      else and_then (non_null (string_of (hw ''serial-number''))) (\<lambda>text.
        if length text > 1 then
          and_then (if data_made
                    then and_then (serial_data text) (\<lambda>bytes. Inr (set_root ''serial-number'' (OSData bytes) m))
                    else Inr m)
            (\<lambda>m. Inr (set_root ''IOPlatformSerialNumber'' (OSString text) m))
        else Inr m))"

definition copy_uuid :: "node \<Rightarrow> resolver \<Rightarrow> resolver" where
  "copy_uuid hw m =
     (if hw ''UUID-key'' = None then m
      else case string_of (hw ''UUID-key'') of
        Some text \<Rightarrow> publishResource ''IOPlatformUUID'' (Some (OSString text))
                      (set_root ''IOPlatformUUID'' (OSString text) m)
      | None \<Rightarrow> publishResource ''IOPlatformUUID'' None m)"

definition copy_root_entries :: "bool \<Rightarrow> node \<Rightarrow> resolver \<Rightarrow> kernel_error + resolver" where
  "copy_root_entries data_made hw m =
     and_then (copy_root_string ''manufacturer'' hw m) (\<lambda>m.
     and_then (copy_root_string ''compatible'' hw (copy_system_type hw m)) (\<lambda>m.
     and_then (copy_root_string ''product-name'' hw m) (\<lambda>m.
     and_then (copy_model hw m) (\<lambda>m.
     and_then (copy_root_string ''version'' hw m) (\<lambda>m.
     and_then (copy_root_string ''board-id'' hw m) (\<lambda>m.
     and_then (copy_serial_number data_made hw m) (\<lambda>m.
       Inr (copy_uuid hw m))))))))"

section \<open>Frequencies\<close>

fun little_endian :: "u8 list \<Rightarrow> u64" where
  "little_endian [] = 0"
| "little_endian (b # bs) = ucast b + 256 * little_endian bs"

definition quad_pumped :: "processor \<Rightarrow> bool" where
  "quad_pumped cpu \<longleftrightarrow> is_intel cpu \<and> has_SSE2 cpu"

definition known_fsb :: "processor \<Rightarrow> node \<Rightarrow> resolver \<Rightarrow> kernel_error + u64" where
  "known_fsb cpu hw m =
     and_then (if hw ''use-efi-bus'' = None then Inr False else non_null (boolean_of (hw ''use-efi-bus'')))
       (\<lambda>useEfiBus.
          case efi_node m of
            Some efi \<Rightarrow>
              if useEfiBus then
                and_then (non_null (data_of (efi ''FSBFrequency''))) (\<lambda>bytes.
                  if length bytes > 8 then Inl OutOfBoundsWrite else Inr (little_endian bytes))
              else Inr (if quad_pumped cpu then bus_frequency_hz (clock m) div 4
                        else bus_frequency_hz (clock m))
          | None \<Rightarrow> Inr (if quad_pumped cpu then bus_frequency_hz (clock m) div 4
                        else bus_frequency_hz (clock m)))"

text \<open>The frequencies the two model-specific registers stand for, \<open>None\<close> where the switch has no case.\<close>

definition netburst_fsb :: "nat \<Rightarrow> u64 \<Rightarrow> u64 option" where
  "netburst_fsb model msr =
     (let c = drop_bit 16 msr AND 7
      in if c = 0 then Some (if model = 2 then 100000000 else 266666667)
         else if c = 1 then Some 133333333
         else if c = 2 then Some 200000000
         else if c = 3 then Some 166666667
         else if c = 4 then Some 333333333
         else None)"

definition core_fsb :: "u64 \<Rightarrow> u64 option" where
  "core_fsb msr =
     (let c = msr AND 7
      in if c = 0 then Some 266666667
         else if c = 1 then Some 133333333
         else if c = 2 then Some 200000000
         else if c = 3 then Some 166666667
         else if c = 4 then Some 333333333
         else if c = 5 then Some 100000000
         else if c = 6 then Some 400000000
         else if c = 7 then Some 466666667
         else None)"

definition or_else :: "'a option \<Rightarrow> 'a \<Rightarrow> 'a" where
  "or_else x a = (case x of Some b \<Rightarrow> b | None \<Rightarrow> a)"

definition measured_fsb :: "processor \<Rightarrow> u64" where
  "measured_fsb cpu =
     (if is_intel cpu then
        let fsb = (if cpuid_family cpu = 0x0f \<and> cpuid_model cpu \<ge> 2
                   then or_else (netburst_fsb (cpuid_model cpu) (rdmsr64 cpu MSR_EBC_FREQUENCY_ID)) 0
                   else 100000000)
        in if cpuid_family cpu = 0x06 then or_else (core_fsb (rdmsr64 cpu MSR_FSB_FREQ)) fsb else fsb
      else 0)"

definition hardcoded_fsb :: "processor \<Rightarrow> node \<Rightarrow> u64 \<Rightarrow> kernel_error + u64" where
  "hardcoded_fsb cpu hw fsb =
     (if hw ''hardcode-bus'' = None then Inr fsb
      else and_then (non_null (number_of (hw ''hardcode-bus''))) (\<lambda>n.
        Inr (if n \<noteq> 0 then if n \<le> 10000 then n * 1000000 else n else measured_fsb cpu)))"

text \<open>\<open>calcCPU\<close>: the multiplier and, where the ratio is not whole, its denominator.\<close>

definition bus_ratio :: "processor \<Rightarrow> u32 \<times> u16" where
  "bus_ratio cpu =
     (if is_intel cpu then
        if cpuid_family cpu = 0x06 \<and> cpuid_model cpu > 0x0d \<or>
           cpuid_family cpu = 0x0f \<and> cpuid_model cpu > 0x02
        then let msr = rdmsr64 cpu MSR_IA32_PERF_STS
             in (ucast (drop_bit 40 msr AND 0x1f), ucast ((drop_bit 46 msr AND 1) * 2))
        else (stack_word cpu, 0)
      else if is_amd cpu \<and> cpuid_family cpu = 0x0f then
        if cpuid_extfamily cpu = 0x00
        then (ucast ((rdmsr64 cpu K8_FIDVID_STATUS AND 0x3f) div 2 + 4), 0)
        else if cpuid_extfamily cpu = 0x01
        then let msr = rdmsr64 cpu K10_COFVID_STATUS
             in (ucast ((msr AND 0x3f) + 0x10), push_bit (unat (drop_bit 6 msr AND 7)) 2)
        else (stack_word cpu, 0)
      else (stack_word cpu, 0))"

definition cpu_frequency :: "u64 \<Rightarrow> u32 \<Rightarrow> u16 \<Rightarrow> u64" where
  "cpu_frequency fsb coef n2 =
     (if n2 \<noteq> 0 then fsb * scast (coef * ucast n2 + 1) div ucast n2
      else fsb * scast coef)"

definition calcCPU :: "processor \<Rightarrow> u64 \<Rightarrow> resolver \<Rightarrow> u64 \<times> resolver" where
  "calcCPU cpu fsb m =
     (let (coef, n2) = bus_ratio cpu
      in (cpu_frequency fsb coef n2, m\<lparr>clock := (clock m)\<lparr>bus_to_cpu_rate_num := coef\<rparr>\<rparr>))"

definition set_clock :: "u64 \<Rightarrow> u64 \<Rightarrow> clock_info \<Rightarrow> clock_info" where
  "set_clock fsb cpu_hz c =
     (let c = (if bus_frequency_hz c = bus_frequency_min_hz c then c\<lparr>bus_frequency_min_hz := fsb\<rparr> else c);
          c = (if bus_frequency_hz c = bus_frequency_max_hz c then c\<lparr>bus_frequency_max_hz := fsb\<rparr> else c);
          c = c\<lparr>bus_clock_rate_hz := ucast fsb, bus_frequency_hz := fsb, cpu_clock_rate_hz := ucast cpu_hz\<rparr>;
          c = (if cpu_frequency_hz c = cpu_frequency_min_hz c then c\<lparr>cpu_frequency_min_hz := cpu_hz\<rparr> else c);
          c = (if cpu_frequency_hz c = cpu_frequency_max_hz c then c\<lparr>cpu_frequency_max_hz := cpu_hz\<rparr> else c)
      in c\<lparr>cpu_frequency_hz := cpu_hz\<rparr>)"

definition set_frequencies :: "processor \<Rightarrow> node \<Rightarrow> resolver \<Rightarrow> kernel_error + resolver" where
  "set_frequencies cpu hw m =
     and_then (known_fsb cpu hw m) (\<lambda>fsb.
     and_then (hardcoded_fsb cpu hw fsb) (\<lambda>fsb.
       let (cpu_hz, m) = calcCPU cpu fsb m
       in Inr (if fsb > 0
               then m\<lparr>clock := set_clock (if quad_pumped cpu then fsb * 4 else fsb) cpu_hz (clock m),
                      timebase_callbacks := timebase_callbacks m + 1\<rparr>
               else m)))"

section \<open>Memory descriptions\<close>

text \<open>
  One pass over a list of zero-terminated strings: \<open>dimmZero\<close> says that nothing has been written
  since the last terminator. The number of bytes is kept in a \<open>UInt8\<close>.
\<close>

fun clean_bytes :: "bool \<Rightarrow> u8 list \<Rightarrow> u8 list" where
  "clean_bytes dimmZero [] = []"
| "clean_bytes dimmZero (dimmData # bytes) =
     (if dimmData = 0
      then (if dimmZero then c_bytes ''Unknown'' else [0]) @ clean_bytes True bytes
      else (if dimmData = 0x20 then 0 else dimmData) # clean_bytes False bytes)"

definition dimm_bytes :: "u8 list \<Rightarrow> u8 list" where
  "dimm_bytes bytes = take (length bytes mod 256) bytes"

definition clean_dimm :: "string \<Rightarrow> node \<Rightarrow> kernel_error + node" where
  "clean_dimm key memory =
     and_then (non_null (data_of (memory key))) (\<lambda>bytes.
       Inr (memory(key \<mapsto> OSData (clean_bytes True (dimm_bytes bytes)))))"

definition speed_bytes :: "string \<Rightarrow> u8 list \<Rightarrow> u8 list" where
  "speed_bytes text bytes = concat (map (\<lambda>byte. if byte = 0 then c_bytes text else []) bytes)"

definition set_dimm_speed :: "node \<Rightarrow> node \<Rightarrow> kernel_error + node" where
  "set_dimm_speed hw memory =
     (if hw ''dimm-speed'' = None then Inr memory
      else and_then (non_null (string_of (hw ''dimm-speed''))) (\<lambda>text.
        if length text > 1 then
          and_then (non_null (data_of (memory ''dimm-speeds''))) (\<lambda>bytes.
            Inr (memory(''dimm-speeds'' \<mapsto> OSData (speed_bytes text (dimm_bytes bytes)))))
        else Inr memory))"

definition clean_memory :: "node \<Rightarrow> node \<Rightarrow> kernel_error + node" where
  "clean_memory hw memory =
     and_then (clean_dimm ''dimm-manufacturer'' memory) (\<lambda>memory.
     and_then (clean_dimm ''dimm-serial-number'' memory) (\<lambda>memory.
     and_then (clean_dimm ''dimm-part-number'' memory) (\<lambda>memory.
     set_dimm_speed hw memory)))"

section \<open>Start\<close>

record resolver_outcome =
  super_starts :: bool
  has_root :: bool
  serial_data_made :: bool
  options_allocated :: bool
  options_init :: bool

definition options_properties :: node where
  "options_properties = [''resolver'' \<mapsto> OSString '''']"

definition finish_start :: "resolver_outcome \<Rightarrow> resolver \<Rightarrow> bool \<times> resolver" where
  "finish_start out m =
     (if options_allocated out \<and> \<not> options_init out then (False, m)
      else let m = (if options_allocated out then m\<lparr>options_node := Some options_properties\<rparr> else m)
           in (True, publishResource ''SMBIOS-Resolver'' None m))"

definition resolve :: "processor \<Rightarrow> resolver_outcome \<Rightarrow> node option \<Rightarrow> resolver \<Rightarrow> kernel_error + bool \<times> resolver" where
  "resolve cpu out hwDict m =
     and_then (copy_rom_version hwDict m) (\<lambda>m.
     and_then (non_null hwDict) (\<lambda>hw.
     and_then (copy_root_entries (serial_data_made out) hw m) (\<lambda>m.
     and_then (set_frequencies cpu hw m) (\<lambda>m.
       case memory_node m of
         None \<Rightarrow> Inr (False, m)
       | Some memory \<Rightarrow>
           and_then (clean_memory hw memory) (\<lambda>memory.
             Inr (finish_start out (m\<lparr>memory_node := Some memory\<rparr>)))))))"

definition resolver_start ::
  "processor \<Rightarrow> resolver_outcome \<Rightarrow> node option \<Rightarrow> resolver \<Rightarrow> kernel_error + bool \<times> resolver" where
  "resolver_start cpu out hwDict m =
     (if \<not> super_starts out then Inr (False, m)
      else if resources m ''SMBIOS-Resolver'' \<noteq> None then Inr (False, m)
      else if resources m ''SMBIOS'' = None then Inr (False, m)
      else if \<not> has_root out then Inr (False, m)
      else if rom_node m = None then Inr (False, m)
      else resolve cpu out hwDict m)"

end
