(* ===== verification/SmbiosProps.thy ===== *)
theory SmbiosProps
  imports SmbiosResolver
begin

text \<open>
  What the SMBIOS resolver does: the cleaned memory descriptions as lists of strings, the layout of
  the serial number, the frequencies of a hard-coded bus, and that it runs once.
\<close>

section \<open>Memory descriptions\<close>

text \<open>A description is a list of strings, each ended by a zero byte.\<close>

definition encode_strings :: "u8 list list \<Rightarrow> u8 list" where
  "encode_strings ss = concat (map (\<lambda>s. s @ [0]) ss)"

definition shown_string :: "u8 list \<Rightarrow> u8 list" where
  "shown_string s = (if s = [] then string_bytes ''Unknown'' else map (\<lambda>c. if c = 0x20 then 0 else c) s)"

lemma clean_bytes_inside:
  "0 \<notin> set s \<Longrightarrow> clean_bytes False (s @ 0 # bytes) =
    map (\<lambda>c. if c = 0x20 then 0 else c) s @ 0 # clean_bytes True bytes"
  by (induction s) auto

lemma clean_bytes_string:
  "0 \<notin> set s \<Longrightarrow> clean_bytes True (s @ 0 # bytes) = shown_string s @ 0 # clean_bytes True bytes"
  by (cases s) (simp_all add: shown_string_def c_bytes_def clean_bytes_inside)

lemma clean_bytes_strings:
  "\<forall>s \<in> set ss. 0 \<notin> set s \<Longrightarrow>
    clean_bytes True (encode_strings ss) = encode_strings (map shown_string ss)"
  by (induction ss) (simp_all add: encode_strings_def clean_bytes_string)

text \<open>C19. Cleaning a memory description of fewer than 256 bytes replaces each empty string by
  \<open>Unknown\<close> and leaves every other string as it is but for its spaces, which become zero bytes; the
  order of the strings is kept.\<close>

theorem clean_dimm_strings:
  assumes "memory key = Some (OSData (encode_strings ss))" "\<forall>s \<in> set ss. 0 \<notin> set s"
    "length (encode_strings ss) < 256"
  shows "clean_dimm key memory =
    Inr (memory(key \<mapsto> OSData (encode_strings (map shown_string ss))))"
  using assms by (simp add: clean_dimm_def dimm_bytes_def clean_bytes_strings)

text \<open>A description of exactly 256 bytes is lost: its length, kept in eight bits, is zero.\<close>

lemma clean_dimm_256:
  "memory key = Some (OSData bytes) \<Longrightarrow> length bytes = 256
    \<Longrightarrow> clean_dimm key memory = Inr (memory(key \<mapsto> OSData []))"
  by (simp add: clean_dimm_def dimm_bytes_def)

section \<open>The root of the device tree\<close>

lemma length_string_bytes [simp]: "length (string_bytes text) = length text"
  by (simp add: string_bytes_def)


















section \<open>Frequencies\<close>

lemma scast_of_small: "unat (w :: u32) < 2 ^ 31 \<Longrightarrow> (scast w :: u64) = of_nat (unat w)"
  by (simp only: scast_eq sint_of_small of_int_of_nat_eq)

lemma unat_times_small:
  assumes "unat fsb \<le> 10 ^ 12" "k < 1000"
  shows "unat (fsb * of_nat k :: u64) = unat fsb * k"
proof -
  have "unat fsb * k \<le> 10 ^ 12 * 1000"
    using assms by (intro mult_mono) simp_all
  moreover have "unat (of_nat k :: u64) = k" using assms(2) by (simp add: unat_of_nat)
  ultimately show ?thesis by (simp add: unat_mult_lem [THEN iffD1])
qed

lemma cpu_frequency_exact:
  assumes "unat fsb \<le> 10 ^ 12" "unat coef < 32" "n2 = 0 \<or> n2 = 2"
  shows "unat (cpu_frequency fsb coef n2) =
    (if n2 = 0 then unat fsb * unat coef else unat fsb * (2 * unat coef + 1) div 2)"
proof -
  have ratio: "unat (coef * 2 + 1) = 2 * unat coef + 1"
    using assms(2) by (simp add: unat_word_ariths)
  have scast: "(scast coef :: u64) = of_nat (unat coef)"
    "(scast (coef * 2 + 1) :: u64) = of_nat (2 * unat coef + 1)"
    using assms(2) scast_of_small [of coef] scast_of_small [of "coef * 2 + 1"] ratio by simp_all
  have "unat (fsb * scast coef) = unat fsb * unat coef"
    unfolding scast using assms(1,2) by (intro unat_times_small) simp_all
  moreover have "unat (fsb * scast (coef * 2 + 1)) = unat fsb * (2 * unat coef + 1)"
    unfolding scast using assms(1,2) by (intro unat_times_small) simp_all
  ultimately show ?thesis
    using assms(3) by (auto simp: cpu_frequency_def unat_div_distrib)
qed


text \<open>
  A bus given in megahertz by the dictionary, on an Intel processor whose status register holds the
  multiplier.
\<close>

definition core_processor :: "processor \<Rightarrow> bool" where
  "core_processor cpu \<longleftrightarrow> is_intel cpu \<and> has_SSE2 cpu \<and> cpuid_family cpu = 6 \<and> cpuid_model cpu > 13"

definition ratio_coef :: "processor \<Rightarrow> nat" where
  "ratio_coef cpu = unat (drop_bit 40 (rdmsr64 cpu MSR_IA32_PERF_STS) AND 0x1f)"

definition half_ratio :: "processor \<Rightarrow> bool" where
  "half_ratio cpu \<longleftrightarrow> bit (rdmsr64 cpu MSR_IA32_PERF_STS) 46"

lemma bus_ratio_core:
  assumes "core_processor cpu"
  shows "bus_ratio cpu = (of_nat (ratio_coef cpu), if half_ratio cpu then 2 else 0)"
    and "ratio_coef cpu < 32"
proof -
  let ?msr = "rdmsr64 cpu MSR_IA32_PERF_STS"
  have bit: "drop_bit 46 ?msr AND 1 = of_bool (half_ratio cpu)"
    by (simp only: half_ratio_def and_one_eq bit_iff_odd_drop_bit mod_2_eq_odd)
  show "bus_ratio cpu = (of_nat (ratio_coef cpu), if half_ratio cpu then 2 else 0)"
    using assms by (simp add: bus_ratio_def core_processor_def Let_def bit ratio_coef_def)
  have "drop_bit 40 ?msr AND 0x1f = take_bit 5 (drop_bit 40 ?msr)"
    by (simp add: take_bit_eq_mask mask_eq_exp_minus_1)
  then show "ratio_coef cpu < 32"
    using take_bit_nat_less_exp [of 5 "unat (drop_bit 40 ?msr)"]
    by (simp add: ratio_coef_def unsigned_take_bit_eq)
qed

text \<open>With a bus of \<open>n\<close> megahertz hard coded, 1 to 10000, on such a processor and an efi platform
  that is not asked, the published bus frequency is four times \<open>n\<close> megahertz and the processor's
  frequency is the multiplier, or the multiplier and a half, times \<open>n\<close> megahertz, exactly.\<close>

theorem hardcoded_bus_frequencies:
  assumes "core_processor cpu" "hw ''hardcode-bus'' = Some (OSNumber n)" "0 < n" "n \<le> 10000"
    "hw ''use-efi-bus'' = None" "set_frequencies cpu hw m = Inr m'"
  shows "unat (bus_frequency_hz (clock m')) = 4 * (unat n * 1000000) \<and>
    unat (cpu_frequency_hz (clock m')) =
      (if half_ratio cpu then unat n * 1000000 * (2 * ratio_coef cpu + 1) div 2
       else unat n * 1000000 * ratio_coef cpu)"
proof -
  have megahertz: "unat (n * 1000000) = unat n * 1000000"
    using assms(4) by (simp add: unat_word_ariths word_le_nat_alt)
  obtain fsb0 where "known_fsb cpu hw m = Inr fsb0"
    using assms(6) by (auto simp: set_frequencies_def)
  moreover have "hardcoded_fsb cpu hw fsb0 = Inr (n * 1000000)"
    using assms(2-4) by (auto simp: hardcoded_fsb_def)
  moreover have "n * 1000000 > 0"
    using megahertz assms(3) by (simp add: word_gt_0_no word_less_nat_alt)
  ultimately have m': "clock m' = set_clock (n * 1000000 * 4)
      (cpu_frequency (n * 1000000) (of_nat (ratio_coef cpu)) (if half_ratio cpu then 2 else 0))
      ((clock m)\<lparr>bus_to_cpu_rate_num := of_nat (ratio_coef cpu)\<rparr>)"
    using assms(1,6) bus_ratio_core(1) [OF assms(1)]
    by (auto simp: set_frequencies_def calcCPU_def quad_pumped_def core_processor_def)
  have coef: "unat (of_nat (ratio_coef cpu) :: u32) = ratio_coef cpu"
    using bus_ratio_core(2) [OF assms(1)] by (simp add: unat_of_nat)
  have small: "unat (n * 1000000) \<le> 10 ^ 12"
    using megahertz assms(4) by (simp add: word_le_nat_alt)
  have "unat (n * 1000000 * 4) = 4 * (unat n * 1000000)"
    using unat_times_small [OF small, of 4] megahertz by simp
  moreover have "unat (cpu_frequency (n * 1000000) (of_nat (ratio_coef cpu)) (if half_ratio cpu then 2 else 0)) =
      (if half_ratio cpu then unat n * 1000000 * (2 * ratio_coef cpu + 1) div 2
       else unat n * 1000000 * ratio_coef cpu)"
    using cpu_frequency_exact [OF small, of "of_nat (ratio_coef cpu)" "if half_ratio cpu then 2 else 0"]
      bus_ratio_core(2) [OF assms(1)]
    by (simp add: coef megahertz)
  ultimately show ?thesis by (simp add: m' set_clock_def Let_def)
qed

section \<open>Running once\<close>

text \<open>A start that succeeds publishes its resource, after which every further start fails and
  changes nothing.\<close>

theorem resolver_runs_once:
  assumes "resolver_start cpu out hw m = Inr (True, m')"
  shows "resolver_start cpu' out' hw' m' = Inr (False, m')"
proof -
  obtain m1 where "finish_start out m1 = (True, m')"
    using assms by (auto simp: resolver_start_def resolve_def split: if_splits option.splits)
  then have "resources m' ''SMBIOS-Resolver'' \<noteq> None"
    by (auto simp: finish_start_def publishResource_def Let_def split: if_splits)
  then show ?thesis by (simp add: resolver_start_def)
qed

text \<open>
  Without a memory node the start fails, but the root entries and the clock have been changed
  already: a start that fails is not without effect.
\<close>

lemma failed_start_has_effects:
  assumes "super_starts out" "has_root out" "resources m ''SMBIOS-Resolver'' = None"
    "resources m ''SMBIOS'' \<noteq> None" "rom_node m \<noteq> None"
    "copy_rom_version (Some hw) m = Inr m1" "copy_root_entries (serial_data_made out) hw m1 = Inr m2"
    "set_frequencies cpu hw m2 = Inr m3" "memory_node m3 = None"
  shows "resolver_start cpu out (Some hw) m = Inr (False, m3)"
  using assms by (auto simp: resolver_start_def resolve_def)

section \<open>Witnesses\<close>

theorem clean_dimm_strings_witness:
  "clean_dimm ''dimm-part-number'' [''dimm-part-number'' \<mapsto> OSData (encode_strings [[], [0x41, 0x20, 0x42]])] =
    Inr [''dimm-part-number'' \<mapsto> OSData (encode_strings [string_bytes ''Unknown'', [0x41, 0, 0x42]])]"
  using clean_dimm_strings [of "[''dimm-part-number'' \<mapsto> OSData (encode_strings [[], [0x41, 0x20, 0x42]])]"
      "''dimm-part-number''" "[[], [0x41, 0x20, 0x42]]"]
  by (simp add: encode_strings_def shown_string_def)


definition sample_core :: processor where
  "sample_core = \<lparr>cpuid_vendor = ''GenuineIntel'', cpuid_family = 6, cpuid_model = 28, cpuid_extfamily = 0,
     has_SSE2 = True, rdmsr64 = (\<lambda>_. push_bit 40 12), stack_word = 0\<rparr>"

definition sample_override :: node where
  "sample_override = [''rom-version'' \<mapsto> OSString ''A04'', ''hardcode-bus'' \<mapsto> OSNumber 133]"

definition sample_description :: node where
  "sample_description = [''dimm-manufacturer'' \<mapsto> OSData [0], ''dimm-serial-number'' \<mapsto> OSData [0],
     ''dimm-part-number'' \<mapsto> OSData [0]]"

definition sample_resolver :: resolver where
  "sample_resolver = \<lparr>resources = [''SMBIOS'' \<mapsto> None], root_node = Map.empty, root_name = ''Root'',
     rom_node = Some Map.empty, memory_node = Some sample_description, efi_node = None, options_node = None,
     clock = \<lparr>bus_clock_rate_hz = 0, cpu_clock_rate_hz = 0, bus_to_cpu_rate_num = 0, bus_frequency_hz = 0,
       bus_frequency_min_hz = 0, bus_frequency_max_hz = 0, cpu_frequency_hz = 0,
       cpu_frequency_min_hz = 0, cpu_frequency_max_hz = 0\<rparr>, timebase_callbacks = 0\<rparr>"


definition sample_resolver_outcome :: resolver_outcome where
  "sample_resolver_outcome = \<lparr>super_starts = True, has_root = True, serial_data_made = True,
     options_allocated = True, options_init = True\<rparr>"

lemma sample_core_ratio: "core_processor sample_core" "ratio_coef sample_core = 12" "\<not> half_ratio sample_core"
  by (simp_all add: core_processor_def is_intel_def ratio_coef_def half_ratio_def sample_core_def
      push_bit_eq_mult drop_bit_eq_div bit_iff_odd_drop_bit)

lemma set_frequencies_returns:
  "hw ''use-efi-bus'' = None \<Longrightarrow> hw ''hardcode-bus'' = Some (OSNumber n) \<Longrightarrow> efi_node m = None
    \<Longrightarrow> \<exists>m'. set_frequencies cpu hw m = Inr m' \<and> memory_node m' = memory_node m"
  by (auto simp: set_frequencies_def known_fsb_def hardcoded_fsb_def calcCPU_def split: prod.split)

theorem hardcoded_bus_frequencies_witness:
  "\<exists>m'. set_frequencies sample_core sample_override sample_resolver = Inr m' \<and>
     unat (bus_frequency_hz (clock m')) = 532000000 \<and> unat (cpu_frequency_hz (clock m')) = 1596000000"
proof -
  have hw: "sample_override ''hardcode-bus'' = Some (OSNumber 133)" "sample_override ''use-efi-bus'' = None"
    by (simp_all add: sample_override_def)
  obtain m' where m': "set_frequencies sample_core sample_override sample_resolver = Inr m'"
    using set_frequencies_returns [OF hw(2,1), of sample_resolver sample_core]
    by (auto simp: sample_resolver_def)
  have "unat (bus_frequency_hz (clock m')) = 532000000 \<and> unat (cpu_frequency_hz (clock m')) = 1596000000"
    using hardcoded_bus_frequencies [OF sample_core_ratio(1) hw(1) _ _ hw(2) m']
    by (simp add: sample_core_ratio)
  with m' show ?thesis by blast
qed

theorem resolver_runs_once_witness:
  "\<exists>m'. resolver_start sample_core sample_resolver_outcome (Some sample_override) sample_resolver = Inr (True, m') \<and>
     resolver_start sample_core sample_resolver_outcome (Some sample_override) m' = Inr (False, m')"
proof -
  have hw: "sample_override ''hardcode-bus'' = Some (OSNumber 133)" "sample_override ''use-efi-bus'' = None"
    by (simp_all add: sample_override_def)
  obtain m1 where m1: "copy_rom_version (Some sample_override) sample_resolver = Inr m1"
    "efi_node m1 = None" "memory_node m1 = Some sample_description"
    by (simp add: copy_rom_version_def sample_override_def sample_resolver_def)
  have "copy_root_entries True sample_override m1 = Inr m1"
    by (simp add: copy_root_entries_def copy_root_string_def copy_system_type_def copy_model_def
        copy_serial_number_def copy_uuid_def sample_override_def)
  moreover obtain m2 where "set_frequencies sample_core sample_override m1 = Inr m2"
    "memory_node m2 = Some sample_description"
    using set_frequencies_returns [OF hw(2,1) m1(2), of sample_core] m1(3) by auto
  moreover have "\<exists>memory. clean_memory sample_override sample_description = Inr memory"
    by (simp add: clean_memory_def clean_dimm_def set_dimm_speed_def sample_description_def sample_override_def)
  ultimately have "\<exists>m'. resolver_start sample_core sample_resolver_outcome (Some sample_override) sample_resolver = Inr (True, m')"
    using m1(1)
    by (auto simp: resolver_start_def resolve_def sample_resolver_outcome_def finish_start_def)
      (simp_all add: sample_resolver_def)
  then show ?thesis using resolver_runs_once by blast
qed

end
