(* ===== verification/AtaHardware.thy ===== *)
theory AtaHardware
  imports KernelObjects
begin

text \<open>
  What \<open>AppleIntelPIIXATAHW.h\<close> and \<open>AppleIntelPIIXATATiming.h\<close> say of the controller: register
  offsets, masks, channel modes and the timing tables; and the device the drivers talk to, as a
  parameter.
\<close>

section \<open>Registers\<close>

definition kPIIX_PCI_PI :: u8 where [simp]: "kPIIX_PCI_PI = 0x09"
definition kPIIX_PCI_BMIBA :: u8 where [simp]: "kPIIX_PCI_BMIBA = 0x20"
definition kPIIX_PCI_IDETIM :: u8 where [simp]: "kPIIX_PCI_IDETIM = 0x40"
definition kPIIX_PCI_IDETIM_S :: u8 where [simp]: "kPIIX_PCI_IDETIM_S = 0x42"
definition kPIIX_PCI_SIDETIM :: u8 where [simp]: "kPIIX_PCI_SIDETIM = 0x44"
definition kPIIX_PCI_UDMACTL :: u8 where [simp]: "kPIIX_PCI_UDMACTL = 0x48"
definition kPIIX_PCI_UDMATIM :: u8 where [simp]: "kPIIX_PCI_UDMATIM = 0x4a"
definition kPIIX_PCI_IDECONFIG :: u8 where [simp]: "kPIIX_PCI_IDECONFIG = 0x54"
definition kPIIX_PCI_MAP :: u8 where [simp]: "kPIIX_PCI_MAP = 0x90"
definition kPIIX_PCI_PCS :: u8 where [simp]: "kPIIX_PCI_PCS = 0x92"

definition kPIIX_PCI_IDETIM_IDE :: u32 where "kPIIX_PCI_IDETIM_IDE = 0x8000"
definition kPIIX_PCI_IDETIM_DTE1 :: u16 where "kPIIX_PCI_IDETIM_DTE1 = 0x0080"
definition kPIIX_PCI_IDETIM_DTE0 :: u16 where "kPIIX_PCI_IDETIM_DTE0 = 0x0008"
definition kPIIX_PCI_UDMATIM_PCT0_MASK :: u16 where "kPIIX_PCI_UDMATIM_PCT0_MASK = 0x0003"
definition kPIIX_PCI_IDECONFIG_PCB0 :: u16 where "kPIIX_PCI_IDECONFIG_PCB0 = 0x0001"
definition kPIIX_PCI_IDECONFIG_PCR0 :: u16 where "kPIIX_PCI_IDECONFIG_PCR0 = 0x0010"
definition kPIIX_PCI_IDECONFIG_WR_PP_EN :: u16 where "kPIIX_PCI_IDECONFIG_WR_PP_EN = 0x0400"
definition kPIIX_PCI_IDECONFIG_FAST_PCB0 :: u16 where "kPIIX_PCI_IDECONFIG_FAST_PCB0 = 0x1000"
definition kPIIX_PCI_PRI_NATIVE_MASK :: u8 where "kPIIX_PCI_PRI_NATIVE_MASK = 0x01 OR 0x02"
definition kPIIX_PCI_SEC_NATIVE_MASK :: u8 where "kPIIX_PCI_SEC_NATIVE_MASK = 0x04 OR 0x08"
definition kPIIX_IO_BMISX_IDEINTS :: u8 where "kPIIX_IO_BMISX_IDEINTS = 0x04"

definition kPIIX_CHANNEL_PRIMARY :: u32 where [simp]: "kPIIX_CHANNEL_PRIMARY = 0"
definition kPIIX_CHANNEL_SECONDARY :: u32 where [simp]: "kPIIX_CHANNEL_SECONDARY = 1"

definition kPIIX_P_CMD_ADDR :: u16 where "kPIIX_P_CMD_ADDR = 0x1f0"
definition kPIIX_P_CTL_ADDR :: u16 where "kPIIX_P_CTL_ADDR = 0x3f4"
definition kPIIX_S_CMD_ADDR :: u16 where "kPIIX_S_CMD_ADDR = 0x170"
definition kPIIX_S_CTL_ADDR :: u16 where "kPIIX_S_CTL_ADDR = 0x374"
definition kPIIX_P_IRQ :: u8 where "kPIIX_P_IRQ = 14"
definition kPIIX_S_IRQ :: u8 where "kPIIX_S_IRQ = 15"

section \<open>Channel modes and serial ports\<close>

text \<open>The two enumerations; a mode travels through the registry as its number.\<close>

datatype channel_mode =
    ChannelModeDisabled | ChannelModePATA | ChannelModeSATAPort0 | ChannelModeSATAPort1
  | ChannelModeSATAPort01 | ChannelModeSATAPort10 | ChannelModeSATAPort02 | ChannelModeSATAPort13

definition channel_modes :: "channel_mode list" where
  "channel_modes =
     [ChannelModeDisabled, ChannelModePATA, ChannelModeSATAPort0, ChannelModeSATAPort1,
      ChannelModeSATAPort01, ChannelModeSATAPort10, ChannelModeSATAPort02, ChannelModeSATAPort13]"

fun mode_number :: "channel_mode \<Rightarrow> u32" where
  "mode_number ChannelModeDisabled = 0"
| "mode_number ChannelModePATA = 1"
| "mode_number ChannelModeSATAPort0 = 2"
| "mode_number ChannelModeSATAPort1 = 3"
| "mode_number ChannelModeSATAPort01 = 4"
| "mode_number ChannelModeSATAPort10 = 5"
| "mode_number ChannelModeSATAPort02 = 6"
| "mode_number ChannelModeSATAPort13 = 7"

definition kChannelModeCount :: u32 where "kChannelModeCount = 8"

definition kChannelModePATA :: u32 where "kChannelModePATA = mode_number ChannelModePATA"

datatype sata_port = SerialATAPort0 | SerialATAPort1 | SerialATAPort2 | SerialATAPort3 | SerialATAPortX

lemma mode_number_bound: "mode_number m < kChannelModeCount"
  by (cases m) (simp_all add: kChannelModeCount_def)

lemma nth_channel_modes: "channel_modes ! unat (mode_number m) = m"
  by (cases m) (simp_all add: channel_modes_def)

section \<open>Timing tables\<close>

record PIIXTiming =
  timingMode :: u8
  registerIndex :: u8
  cycleTime :: u16

record PIIXUDMATiming =
  udmaMode :: u8
  udmaCT :: u8
  udmaRP :: u8
  udmatimBits :: u16
  udmaCycle :: u16
  udmaClock :: u16

definition PIIX_timing :: "u8 \<times> u8 \<times> u16 \<Rightarrow> PIIXTiming" where
  "PIIX_timing row = (case row of (m, i, c) \<Rightarrow> \<lparr>timingMode = m, registerIndex = i, cycleTime = c\<rparr>)"

definition piixDMATiming :: "PIIXTiming list" where
  "piixDMATiming = map PIIX_timing [(0, 1, 480), (1, 3, 180), (2, 4, 120)]"

definition piixPIOTiming :: "PIIXTiming list" where
  "piixPIOTiming = map PIIX_timing [(0, 1, 600), (1, 1, 383), (2, 2, 240), (3, 3, 180), (4, 4, 120)]"

definition PIIX_UDMA_timing :: "u8 \<times> u8 \<times> u8 \<times> u16 \<times> u16 \<times> u16 \<Rightarrow> PIIXUDMATiming" where
  "PIIX_UDMA_timing row = (case row of (m, ct, rp, b, c, clock) \<Rightarrow>
     \<lparr>udmaMode = m, udmaCT = ct, udmaRP = rp, udmatimBits = b, udmaCycle = c, udmaClock = clock\<rparr>)"

definition piixUDMATiming :: "PIIXUDMATiming list" where
  "piixUDMATiming = map PIIX_UDMA_timing
     [(0, 4, 6, 0, 120, 0), (1, 3, 5, 1, 90, 0), (2, 2, 4, 2, 60, 0),
      (3, 3, 8, 1, 45, kPIIX_PCI_IDECONFIG_PCB0), (4, 2, 8, 2, 30, kPIIX_PCI_IDECONFIG_PCB0),
      (5, 1, 16, 1, 20, kPIIX_PCI_IDECONFIG_FAST_PCB0)]"

text \<open>The register programs: row 0 holds the masks, the columns are the units (or channels).\<close>

definition piixIDETIM :: "(u16 \<times> u16) list" where
  "piixIDETIM = [(0xb30f, 0xf3f0), (0x8000, 0x8000), (0x9007, 0x9007), (0xa107, 0xa107), (0xa307, 0xa307)]"

definition piix3IDETIM :: "(u16 \<times> u16) list" where
  "piix3IDETIM = [(0xb30f, 0xc0f0), (0x8000, 0xc000), (0x9007, 0xc070), (0xa107, 0xc070), (0xa307, 0xc070)]"

definition piix3SIDETIM :: "(u8 \<times> u8) list" where
  "piix3SIDETIM = [(0x0f, 0xf0), (0x00, 0x00), (0x04, 0x40), (0x09, 0x90), (0x0b, 0xb0)]"

fun column :: "'a \<times> 'a \<Rightarrow> nat \<Rightarrow> 'a" where
  "column (a, b) i = (if i = 0 then a else b)"

lemma timing_table_lengths [simp]:
  "length piixPIOTiming = 5" "length piixDMATiming = 3" "length piixUDMATiming = 6"
  by (simp_all add: piixPIOTiming_def piixDMATiming_def piixUDMATiming_def)

lemmas timing_tables = piixPIOTiming_def piixDMATiming_def PIIX_timing_def

lemma pio_timing_nth:
  assumes "n < 5"
  shows "timingMode (piixPIOTiming ! n) = of_nat n"
    and "registerIndex (piixPIOTiming ! n) \<in> {1, 2, 3, 4}"
proof -
  have "n \<in> {0, 1, 2, 3, 4}" using assms by auto
  then show "timingMode (piixPIOTiming ! n) = of_nat n"
    and "registerIndex (piixPIOTiming ! n) \<in> {1, 2, 3, 4}"
    by (auto simp: timing_tables)
qed

lemma dma_timing_nth:
  assumes "n < 3"
  shows "timingMode (piixDMATiming ! n) = of_nat n"
    and "registerIndex (piixDMATiming ! n) \<in> {1, 2, 3, 4}"
proof -
  have "n \<in> {0, 1, 2}" using assms by auto
  then show "timingMode (piixDMATiming ! n) = of_nat n"
    and "registerIndex (piixDMATiming ! n) \<in> {1, 2, 3, 4}"
    by (auto simp: timing_tables)
qed

lemma udma_timing_nth:
  assumes "n < 6"
  shows "udmaMode (piixUDMATiming ! n) = of_nat n"
proof -
  have "n \<in> {0, 1, 2, 3, 4, 5}" using assms by auto
  then show ?thesis
    by (auto simp: piixUDMATiming_def PIIX_UDMA_timing_def)
qed

section \<open>The device\<close>

text \<open>
  The configuration space and the I/O ports of the controller belong to the kernel's
  \<open>IOPCIDevice\<close> and to the hardware; \<open>'p\<close> is the hardware's state. \<open>timing_law\<close> is what the driver
  relies on: a timing register holds what was written to it last, and writing one leaves the others.
\<close>

record 'p ata_device =
  configRead8 :: "u8 \<Rightarrow> 'p \<Rightarrow> u8"
  configRead16 :: "u8 \<Rightarrow> 'p \<Rightarrow> u16"
  configRead32 :: "u8 \<Rightarrow> 'p \<Rightarrow> u32"
  configWrite8 :: "u8 \<Rightarrow> u8 \<Rightarrow> 'p \<Rightarrow> 'p"
  configWrite16 :: "u8 \<Rightarrow> u16 \<Rightarrow> 'p \<Rightarrow> 'p"
  configWrite32 :: "u8 \<Rightarrow> u32 \<Rightarrow> 'p \<Rightarrow> 'p"
  setBusMasterEnable :: "bool \<Rightarrow> 'p \<Rightarrow> 'p"
  ioRead8 :: "u16 \<Rightarrow> 'p \<Rightarrow> u8 \<times> 'p"
  ioWrite8 :: "u16 \<Rightarrow> u8 \<Rightarrow> 'p \<Rightarrow> 'p"

definition timing16 :: "u8 set" where
  "timing16 = {kPIIX_PCI_IDETIM, kPIIX_PCI_IDETIM_S, kPIIX_PCI_UDMATIM, kPIIX_PCI_IDECONFIG}"

definition timing8 :: "u8 set" where
  "timing8 = {kPIIX_PCI_SIDETIM, kPIIX_PCI_UDMACTL}"

definition reg16 :: "'p ata_device \<Rightarrow> 'p \<Rightarrow> u8 \<Rightarrow> u16" where
  "reg16 D p r = (if r \<in> timing16 then configRead16 D r p else 0)"

definition reg8 :: "'p ata_device \<Rightarrow> 'p \<Rightarrow> u8 \<Rightarrow> u8" where
  "reg8 D p r = (if r \<in> timing8 then configRead8 D r p else 0)"

definition same_timings :: "'p ata_device \<Rightarrow> 'p \<Rightarrow> 'p \<Rightarrow> bool" where
  "same_timings D p q \<longleftrightarrow> reg16 D q = reg16 D p \<and> reg8 D q = reg8 D p"

definition timing_law :: "'p ata_device \<Rightarrow> bool" where
  "timing_law D \<longleftrightarrow>
     (\<forall>r \<in> timing16. \<forall>v p. reg16 D (configWrite16 D r v p) = (reg16 D p)(r := v)
                       \<and> reg8 D (configWrite16 D r v p) = reg8 D p) \<and>
     (\<forall>r \<in> timing8. \<forall>v p. reg8 D (configWrite8 D r v p) = (reg8 D p)(r := v)
                      \<and> reg16 D (configWrite8 D r v p) = reg16 D p) \<and>
     (\<forall>r v p. r < 0x40 \<or> 0x58 \<le> r \<longrightarrow> same_timings D p (configWrite8 D r v p)) \<and>
     (\<forall>v p. reg16 D (configWrite32 D kPIIX_PCI_IDECONFIG v p) = (reg16 D p)(kPIIX_PCI_IDECONFIG := ucast v)
            \<and> reg8 D (configWrite32 D kPIIX_PCI_IDECONFIG v p) = reg8 D p) \<and>
     (\<forall>p. configRead16 D kPIIX_PCI_IDECONFIG p = ucast (configRead32 D kPIIX_PCI_IDECONFIG p)) \<and>
     (\<forall>a v p. same_timings D p (snd (ioRead8 D a p)) \<and> same_timings D p (ioWrite8 D a v p)) \<and>
     (\<forall>t p. same_timings D p (setBusMasterEnable D t p))"

lemma timing_lawD:
  assumes "timing_law D"
  shows "r \<in> timing16 \<Longrightarrow> reg16 D (configWrite16 D r v p) = (reg16 D p)(r := v)"
    and "r \<in> timing16 \<Longrightarrow> reg8 D (configWrite16 D r v p) = reg8 D p"
    and "r \<in> timing8 \<Longrightarrow> reg8 D (configWrite8 D r w p) = (reg8 D p)(r := w)"
    and "r \<in> timing8 \<Longrightarrow> reg16 D (configWrite8 D r w p) = reg16 D p"
    and "r < 0x40 \<or> 0x58 \<le> r \<Longrightarrow> same_timings D p (configWrite8 D r w p)"
    and "reg16 D (configWrite32 D kPIIX_PCI_IDECONFIG x p) = (reg16 D p)(kPIIX_PCI_IDECONFIG := ucast x)"
    and "reg8 D (configWrite32 D kPIIX_PCI_IDECONFIG x p) = reg8 D p"
    and "configRead16 D kPIIX_PCI_IDECONFIG p = ucast (configRead32 D kPIIX_PCI_IDECONFIG p)"
    and "same_timings D p (snd (ioRead8 D a p))" and "same_timings D p (ioWrite8 D a w p)"
    and "same_timings D p (setBusMasterEnable D t p)"
  using assms unfolding timing_law_def by auto

lemma same_timings_refl [simp]: "same_timings D p p"
  by (simp add: same_timings_def)

lemma same_timings_trans: "same_timings D p q \<Longrightarrow> same_timings D q r \<Longrightarrow> same_timings D p r"
  by (simp add: same_timings_def)

text \<open>A device whose configuration space is 256 bytes of storage and whose ports read as zero.\<close>

definition read16_bytes :: "(u8 \<Rightarrow> u8) \<Rightarrow> u8 \<Rightarrow> u16" where
  "read16_bytes m r = push_bit 8 (ucast (m (r + 1))) OR ucast (m r)"

definition write16_bytes :: "u8 \<Rightarrow> u16 \<Rightarrow> (u8 \<Rightarrow> u8) \<Rightarrow> u8 \<Rightarrow> u8" where
  "write16_bytes r v m = m(r := ucast v, r + 1 := ucast (drop_bit 8 v))"

definition plain_device :: "(u8 \<Rightarrow> u8) ata_device" where
  "plain_device = \<lparr>
     configRead8 = (\<lambda>r m. m r),
     configRead16 = (\<lambda>r m. read16_bytes m r),
     configRead32 = (\<lambda>r m. push_bit 16 (ucast (read16_bytes m (r + 2))) OR ucast (read16_bytes m r)),
     configWrite8 = (\<lambda>r v m. m(r := v)),
     configWrite16 = write16_bytes,
     configWrite32 = (\<lambda>r v m. write16_bytes (r + 2) (ucast (drop_bit 16 v)) (write16_bytes r (ucast v) m)),
     setBusMasterEnable = (\<lambda>_ m. m),
     ioRead8 = (\<lambda>_ m. (0, m)),
     ioWrite8 = (\<lambda>_ _ m. m)\<rparr>"

lemma read16_write16 [simp]: "read16_bytes (write16_bytes r v m) r = v"
proof -
  have "read16_bytes (write16_bytes r v m) r = push_bit 8 (ucast (ucast (drop_bit 8 v) :: u8)) OR ucast (ucast v :: u8)"
    by (simp add: read16_bytes_def write16_bytes_def)
  also have "\<dots> = v"
    by (rule bit_word_eqI)
      (auto simp: bit_or_iff bit_push_bit_iff bit_ucast_iff bit_drop_bit_eq)
  finally show ?thesis .
qed

lemma read16_bytes_update:
  "read16_bytes (m(r := w)) q = read16_bytes m q" if "q \<noteq> r" "q + 1 \<noteq> r"
  using that by (simp add: read16_bytes_def)

lemma ucast_halves: "ucast (push_bit 16 (ucast (h :: u16)) OR ucast (l :: u16) :: u32) = l"
  by (rule bit_word_eqI) (auto simp: bit_or_iff bit_push_bit_iff bit_ucast_iff)

lemma timing_law_plain: "timing_law plain_device"
proof -
  have far: "q \<noteq> r \<and> q + 1 \<noteq> r" if "r < 0x40 \<or> 0x58 \<le> r" "q \<in> timing16 \<union> timing8" for q r :: u8
    using that by (auto simp: timing16_def timing8_def)
  have "same_timings plain_device m (m(r := w))" if "r < 0x40 \<or> 0x58 \<le> r" for r w and m :: "u8 \<Rightarrow> u8"
    using far [OF that]
    by (auto simp: same_timings_def reg16_def reg8_def plain_device_def read16_bytes_update fun_eq_iff)
  moreover have "reg16 plain_device (write16_bytes r v m) = (reg16 plain_device m)(r := v) \<and>
      reg8 plain_device (write16_bytes r v m) = reg8 plain_device m" if "r \<in> timing16" for r v m
    using that by (auto simp: reg16_def reg8_def plain_device_def timing16_def timing8_def fun_eq_iff)
      (simp_all add: read16_bytes_def write16_bytes_def)
  moreover have "reg8 plain_device (m(r := w)) = (reg8 plain_device m)(r := w) \<and>
      reg16 plain_device (m(r := w)) = reg16 plain_device m" if "r \<in> timing8" for r w m
    using that by (auto simp: reg16_def reg8_def plain_device_def timing16_def timing8_def fun_eq_iff)
      (simp_all add: read16_bytes_def)
  moreover have "reg16 plain_device (write16_bytes 0x56 v m) = reg16 plain_device m \<and>
      reg8 plain_device (write16_bytes 0x56 v m) = reg8 plain_device m" for v m
    by (auto simp: reg16_def reg8_def plain_device_def timing16_def timing8_def fun_eq_iff)
      (simp_all add: read16_bytes_def write16_bytes_def)
  ultimately show ?thesis
    by (simp add: timing_law_def plain_device_def timing16_def ucast_halves)
qed

end
