(* ===== verification/AtaChannel.thy ===== *)
theory AtaChannel
  imports AtaHardware
begin

text \<open>
  \<open>AppleIntelPIIXATARoot\<close>, which finds the channels of the controller, and
  \<open>AppleIntelPIIXATAChannel\<close>, the object that stands for one channel: how they are made, what they
  say of the channel, opening and closing, and the writes to the shared configuration space.
\<close>

section \<open>Numbers in strings\<close>

text \<open>\<open>strtoul\<close> with base 16 and \<open>strtol\<close> with base 10.\<close>

definition digit_value :: "char \<Rightarrow> nat" where
  "digit_value c =
     (let n = of_char c
      in if 48 \<le> n \<and> n \<le> 57 then n - 48
         else if 97 \<le> n \<and> n \<le> 122 then n - 87
         else if 65 \<le> n \<and> n \<le> 90 then n - 55 else 36)"

fun number_prefix :: "nat \<Rightarrow> nat \<Rightarrow> string \<Rightarrow> nat" where
  "number_prefix base acc [] = acc"
| "number_prefix base acc (c # cs) =
     (if digit_value c < base then number_prefix base (acc * base + digit_value c) cs else acc)"

definition is_space :: "char \<Rightarrow> bool" where
  "is_space c \<longleftrightarrow> (let n = (of_char c :: nat) in n = 32 \<or> (9 \<le> n \<and> n \<le> 13))"

fun sign_of :: "string \<Rightarrow> bool \<times> string" where
  "sign_of (c # cs) = (if c = CHR ''-'' then (True, cs) else if c = CHR ''+'' then (False, cs) else (False, c # cs))"
| "sign_of [] = (False, [])"

fun skip_0x :: "string \<Rightarrow> string" where
  "skip_0x (a # b # cs) = (if a = CHR ''0'' \<and> b \<in> {CHR ''x'', CHR ''X''} then cs else a # b # cs)"
| "skip_0x cs = cs"

definition strtoul16 :: "string \<Rightarrow> u32" where
  "strtoul16 text =
     (let (neg, rest) = sign_of (dropWhile is_space text);
          n = min (number_prefix 16 0 (skip_0x rest)) (2 ^ 32 - 1)
      in if neg \<and> n < 2 ^ 32 - 1 then - of_nat n else of_nat n)"

definition strtol10 :: "string \<Rightarrow> int" where
  "strtol10 text =
     (let (neg, rest) = sign_of (dropWhile is_space text);
          n = int (number_prefix 10 0 rest)
      in if neg then max (- n) (- (2 ^ 31)) else min n (2 ^ 31 - 1))"

section \<open>A channel\<close>

text \<open>
  \<open>_provider\<close> is the root driver, which makes the channels with itself as provider; it is not null.
  Registry properties are maps.
\<close>

type_synonym ata_properties = "string \<Rightarrow> os_object option"

record ata_channel =
  cmdBlock :: u16
  ctrBlock :: u16
  interruptVector :: u8
  pioModeMask :: u8
  dmaModeMask :: u8
  udmaModeMask :: u8
  channelNum :: u32
  channelMode :: u32
  controllerName :: "string option"
  hasSharedDriveTimings :: bool

definition gChannelModeTable :: "(nat \<times> sata_port \<times> sata_port) list" where
  "gChannelModeTable =
     [(0, SerialATAPortX, SerialATAPortX),
      (2, SerialATAPortX, SerialATAPortX),
      (1, SerialATAPort0, SerialATAPortX),
      (1, SerialATAPort1, SerialATAPortX),
      (2, SerialATAPort0, SerialATAPort1),
      (2, SerialATAPort1, SerialATAPort0),
      (2, SerialATAPort0, SerialATAPort2),
      (2, SerialATAPort1, SerialATAPort3)]"

definition getNumberValue :: "ata_properties \<Rightarrow> string \<Rightarrow> 'a::len itself \<Rightarrow> 'a word option" where
  "getNumberValue p key _ = map_option ucast (number_of (p key))"

definition mode_masks :: "ata_properties \<Rightarrow> ata_channel \<Rightarrow> ata_channel" where
  "mode_masks provider ch =
     (case string_of (provider ''Supported Transfer Modes'') of
        Some text \<Rightarrow> (let mask = strtoul16 text
                      in ch\<lparr>pioModeMask := ucast mask, dmaModeMask := ucast (drop_bit 8 mask),
                             udmaModeMask := ucast (drop_bit 16 mask)\<rparr>)
      | None \<Rightarrow> ch)"

text \<open>
  \<open>init\<close>: \<open>dtEntry\<close> are the properties of the device tree entry, \<open>superInit\<close> what the superclass
  returns, \<open>interruptSet\<close> whether the platform accepts the interrupt. \<open>None\<close> is the result false.
\<close>

definition decode_channel :: "ata_properties \<Rightarrow> ata_channel option" where
  "decode_channel p =
     Option.bind (getNumberValue p ''Command Block Address'' TYPE(16)) (\<lambda>cmd.
     Option.bind (getNumberValue p ''Control Block Address'' TYPE(16)) (\<lambda>ctr.
     Option.bind (getNumberValue p ''Interrupt Vector'' TYPE(8)) (\<lambda>irq.
     Option.bind (getNumberValue p ''Channel Number'' TYPE(32)) (\<lambda>num.
     Option.bind (getNumberValue p ''Channel Mode'' TYPE(32)) (\<lambda>mode.
       if mode \<ge> kChannelModeCount then None
       else Some \<lparr>cmdBlock = cmd, ctrBlock = ctr, interruptVector = irq, pioModeMask = 0,
                  dmaModeMask = 0, udmaModeMask = 0, channelNum = num, channelMode = mode,
                  controllerName = None, hasSharedDriveTimings = False\<rparr>)))))"

definition channel_init ::
  "bool \<Rightarrow> bool \<Rightarrow> ata_properties \<Rightarrow> ata_properties \<Rightarrow> ata_properties option \<Rightarrow> ata_channel option" where
  "channel_init superInit interruptSet provider info dtEntry =
     (if \<not> superInit then None
      else let p = (case dtEntry of Some entry \<Rightarrow> entry ++ info | None \<Rightarrow> info)
           in Option.bind (decode_channel p) (\<lambda>ch.
                let ch = mode_masks provider ch;
                    ch = (case string_of (provider ''Controller Name'') of
                            Some text \<Rightarrow> ch\<lparr>controllerName := Some text\<rparr> | None \<Rightarrow> ch);
                    ch = ch\<lparr>hasSharedDriveTimings :=
                              (boolean_of (provider ''Shared Drive Timings'') = Some True)\<rparr>
                in if interruptSet then Some ch else None))"

definition matchPropertyTable :: "ata_properties \<Rightarrow> ata_channel \<Rightarrow> bool" where
  "matchPropertyTable table ch =
     (let drvSATA = (boolean_of (table ''Serial ATA'') = Some True)
      in (channelMode ch \<noteq> kChannelModePATA \<and> drvSATA) \<or> (channelMode ch = kChannelModePATA \<and> \<not> drvSATA))"

definition getControllerName :: "ata_channel \<Rightarrow> string" where
  "getControllerName ch = (case controllerName ch of Some n \<Rightarrow> n | None \<Rightarrow> ''Unknown Controller'')"

definition getMaxDriveUnits :: "ata_channel \<Rightarrow> nat" where
  "getMaxDriveUnits ch = fst (gChannelModeTable ! unat (channelMode ch))"

definition getSerialATAPortForDrive :: "nat \<Rightarrow> ata_channel \<Rightarrow> sata_port" where
  "getSerialATAPortForDrive u ch =
     (if u < 2 then column (snd (gChannelModeTable ! unat (channelMode ch))) u else SerialATAPortX)"

section \<open>Finding the channels\<close>

definition gICH5ChannelModeMap :: "(channel_mode \<times> channel_mode) list" where
  "gICH5ChannelModeMap =
     [(ChannelModeSATAPort0, ChannelModeSATAPort1), (ChannelModeSATAPort1, ChannelModeSATAPort0),
      (ChannelModeDisabled, ChannelModeDisabled), (ChannelModeDisabled, ChannelModeDisabled),
      (ChannelModeSATAPort01, ChannelModePATA), (ChannelModeSATAPort10, ChannelModePATA),
      (ChannelModePATA, ChannelModeSATAPort01), (ChannelModePATA, ChannelModeSATAPort10)]"

definition gICH6ChannelModeMap :: "(channel_mode \<times> channel_mode) list" where
  "gICH6ChannelModeMap =
     [(ChannelModeSATAPort02, ChannelModeSATAPort13), (ChannelModePATA, ChannelModeSATAPort13),
      (ChannelModeSATAPort02, ChannelModePATA), (ChannelModeDisabled, ChannelModeDisabled)]"

definition gICH6MChannelModeMap :: "(channel_mode \<times> channel_mode) list" where
  "gICH6MChannelModeMap =
     [(ChannelModeSATAPort02, ChannelModeDisabled), (ChannelModePATA, ChannelModeDisabled),
      (ChannelModeSATAPort02, ChannelModePATA), (ChannelModeDisabled, ChannelModeDisabled)]"

definition gICH7ChannelModeMap :: "(channel_mode \<times> channel_mode) list" where
  "gICH7ChannelModeMap =
     [(ChannelModeSATAPort02, ChannelModeSATAPort13), (ChannelModePATA, ChannelModeSATAPort13),
      (ChannelModeSATAPort02, ChannelModePATA), (ChannelModeDisabled, ChannelModeDisabled)]"

definition gICH7MChannelModeMap :: "(channel_mode \<times> channel_mode) list" where
  "gICH7MChannelModeMap =
     [(ChannelModeSATAPort02, ChannelModeDisabled), (ChannelModePATA, ChannelModeDisabled),
      (ChannelModeSATAPort02, ChannelModePATA), (ChannelModeDisabled, ChannelModeDisabled)]"

definition mapped_modes :: "string option \<Rightarrow> u8 \<Rightarrow> channel_mode \<times> channel_mode" where
  "mapped_modes hwName mapValue =
     (case hwName of
        None \<Rightarrow> (ChannelModeDisabled, ChannelModeDisabled)
      | Some name \<Rightarrow>
          if name = ''ICH7-M SATA'' then gICH7MChannelModeMap ! unat (mapValue AND 0x3)
          else if name = ''ICH6 SATA'' \<or> name = ''ESB2 SATA'' then gICH6ChannelModeMap ! unat (mapValue AND 0x3)
          else if name = ''ICH6-M SATA'' then gICH6MChannelModeMap ! unat (mapValue AND 0x3)
          else if name = ''ICH5 SATA'' then gICH5ChannelModeMap ! unat (mapValue AND 0x7)
          else gICH7ChannelModeMap ! unat (mapValue AND 0x3))"

definition ata_number :: "'a::len word \<Rightarrow> os_object" where
  "ata_number n = OSNumber (ucast n)"

definition createChannelInfo :: "u32 \<Rightarrow> u32 \<Rightarrow> u16 \<Rightarrow> u16 \<Rightarrow> u8 \<Rightarrow> ata_properties option" where
  "createChannelInfo ataChannel mode commandPort controlPort vector =
     (if commandPort = 0 \<or> controlPort = 0 \<or> vector = 0 \<or> vector = 0xFF then None
      else Some [''Channel Number'' \<mapsto> ata_number ataChannel,
                 ''Command Block Address'' \<mapsto> ata_number commandPort,
                 ''Control Block Address'' \<mapsto> ata_number controlPort,
                 ''Interrupt Vector'' \<mapsto> ata_number vector,
                 ''Channel Mode'' \<mapsto> ata_number mode])"

text \<open>The base address registers are 16 bits apart by 4 in the standard configuration header.\<close>

definition native_ports :: "'p ata_device \<Rightarrow> 'p \<Rightarrow> u32 \<Rightarrow> u16 \<times> u16" where
  "native_ports D p ataChannel =
     (let pi = configRead8 D kPIIX_PCI_PI p
      in if ataChannel = kPIIX_CHANNEL_PRIMARY then
           (if pi AND kPIIX_PCI_PRI_NATIVE_MASK = kPIIX_PCI_PRI_NATIVE_MASK
            then let cmdPort = configRead16 D 0x10 p AND NOT 1; ctrPort = configRead16 D 0x14 p AND NOT 1
                 in if cmdPort = kPIIX_P_CMD_ADDR \<and> ctrPort = kPIIX_P_CTL_ADDR then (0, 0) else (cmdPort, ctrPort)
            else (0, 0))
         else if ataChannel = kPIIX_CHANNEL_SECONDARY then
           (if pi AND kPIIX_PCI_SEC_NATIVE_MASK = kPIIX_PCI_SEC_NATIVE_MASK
            then let cmdPort = configRead16 D 0x18 p AND NOT 1; ctrPort = configRead16 D 0x1c p AND NOT 1
                 in if cmdPort = kPIIX_S_CMD_ADDR \<and> ctrPort = kPIIX_S_CTL_ADDR then (0, 0) else (cmdPort, ctrPort)
            else (0, 0))
         else (0, 0))"

definition createNativeModeChannelInfo ::
  "'p ata_device \<Rightarrow> 'p \<Rightarrow> u32 \<Rightarrow> u32 \<Rightarrow> ata_properties option" where
  "createNativeModeChannelInfo D p ataChannel mode =
     (let (cmdPort, ctrPort) = native_ports D p ataChannel
      in if cmdPort \<noteq> 0 \<and> ctrPort \<noteq> 0
         then createChannelInfo ataChannel mode cmdPort ctrPort (configRead8 D 0x3c p)
         else None)"

definition createLegacyModeChannelInfo :: "u32 \<Rightarrow> u32 \<Rightarrow> ata_properties option" where
  "createLegacyModeChannelInfo ataChannel mode =
     (if ataChannel = kPIIX_CHANNEL_PRIMARY
      then createChannelInfo ataChannel mode kPIIX_P_CMD_ADDR kPIIX_P_CTL_ADDR kPIIX_P_IRQ
      else if ataChannel = kPIIX_CHANNEL_SECONDARY
      then createChannelInfo ataChannel mode kPIIX_S_CMD_ADDR kPIIX_S_CTL_ADDR kPIIX_S_IRQ
      else createChannelInfo ataChannel mode 0 0 0)"

text \<open>
  What the root driver finds outside itself: its personality's properties, the children of the
  device in the device tree with their locations, and whether the calls to the kernel succeed.
\<close>

record root_env =
  rootProperties :: ata_properties
  treeChildren :: "(string option \<times> ata_properties) list"
  setAllocated :: bool
  deviceGrantsOpen :: bool
  superInits :: "nat \<Rightarrow> bool"
  interruptAccepted :: "nat \<Rightarrow> bool"
  nubAttaches :: "nat \<Rightarrow> bool"

definition getDTChannelEntry :: "root_env \<Rightarrow> nat \<Rightarrow> ata_properties option" where
  "getDTChannelEntry R channelID =
     map_option snd
       (find (\<lambda>(location, _). case location of Some text \<Rightarrow> strtol10 text = int channelID | None \<Rightarrow> False)
          (treeChildren R))"

definition channel_modes_of :: "'p ata_device \<Rightarrow> 'p \<Rightarrow> root_env \<Rightarrow> channel_mode \<times> channel_mode" where
  "channel_modes_of D p R =
     (if boolean_of (rootProperties R ''Serial ATA'') = Some True
      then mapped_modes (string_of (rootProperties R ''Controller Name'')) (configRead8 D kPIIX_PCI_MAP p)
      else (ChannelModePATA, ChannelModePATA))"

definition make_nub ::
  "'p ata_device \<Rightarrow> 'p \<Rightarrow> root_env \<Rightarrow> channel_mode \<times> channel_mode \<Rightarrow> nat \<Rightarrow> (nat \<times> ata_channel) option" where
  "make_nub D p R modes channelID =
     (let mode = mode_number (column modes channelID);
          info = (case createNativeModeChannelInfo D p (of_nat channelID) mode of
                    Some i \<Rightarrow> Some i | None \<Rightarrow> createLegacyModeChannelInfo (of_nat channelID) mode)
      in Option.bind info (\<lambda>i.
         Option.bind (channel_init (superInits R channelID) (interruptAccepted R channelID)
                        (rootProperties R) i (getDTChannelEntry R channelID)) (\<lambda>ch.
           if nubAttaches R channelID then Some (channelID, ch) else None)))"

definition createATAChannelNubs :: "'p ata_device \<Rightarrow> 'p \<Rightarrow> root_env \<Rightarrow> (nat \<times> ata_channel) list" where
  "createATAChannelNubs D p R =
     (if \<not> setAllocated R \<or> \<not> deviceGrantsOpen R then []
      else let modes = channel_modes_of D p R
           in if modes = (ChannelModeDisabled, ChannelModeDisabled) then []
              else List.map_filter (make_nub D p R modes) [0, 1])"

section \<open>The root driver\<close>

text \<open>
  A client is a nub, named by its channel. \<open>pciOpen\<close> says whether the driver holds the PCI device
  open. An empty set of nubs is the null pointer that \<open>createATAChannelNubs\<close> returns.
\<close>

record ata_root =
  nubs :: "(nat \<times> ata_channel) list"
  openNubs :: "nat set"
  pciOpen :: bool

definition root_probe :: "'p ata_device \<Rightarrow> bool \<Rightarrow> bool \<Rightarrow> 'p \<Rightarrow> bool" where
  "root_probe D superProbes isPCI p \<longleftrightarrow> superProbes \<and> isPCI \<and> any_bit (configRead16 D 0x04 p) 1"

definition root_start ::
  "'p ata_device \<Rightarrow> root_env \<Rightarrow> bool \<Rightarrow> bool \<Rightarrow> bool \<Rightarrow> bool \<Rightarrow> 'p \<Rightarrow> ata_root option" where
  "root_start D R superStarts lockAllocated isPCI openSetAllocated p =
     (if \<not> superStarts \<or> \<not> lockAllocated \<or> \<not> isPCI then None
      else let found = createATAChannelNubs D p R
           in if found = [] \<or> \<not> openSetAllocated then None
              else Some \<lparr>nubs = found, openNubs = {}, pciOpen = False\<rparr>)"

definition root_handleOpen :: "bool \<Rightarrow> nat \<Rightarrow> ata_root \<Rightarrow> bool \<times> ata_root" where
  "root_handleOpen grants client s =
     (if client \<notin> fst ` set (nubs s) \<or> client \<in> openNubs s then (False, s)
      else let (ret, s) = (if openNubs s = {} then (grants, s\<lparr>pciOpen := grants\<rparr>) else (True, s))
           in if ret then (True, s\<lparr>openNubs := insert client (openNubs s)\<rparr>) else (False, s))"

definition root_handleClose :: "nat \<Rightarrow> ata_root \<Rightarrow> ata_root" where
  "root_handleClose client s =
     (if client \<notin> openNubs s then s
      else let s = s\<lparr>openNubs := openNubs s - {client}\<rparr>
           in if openNubs s = {} then s\<lparr>pciOpen := False\<rparr> else s)"

definition root_handleIsOpen :: "nat option \<Rightarrow> ata_root \<Rightarrow> bool" where
  "root_handleIsOpen client s =
     (case client of Some c \<Rightarrow> c \<in> openNubs s | None \<Rightarrow> openNubs s \<noteq> {})"

text \<open>
  A channel opens and closes its provider in turn; \<open>accepts\<close> is what the superclass says to the
  client. The provider's two handlers are arguments.
\<close>

definition channel_handleOpen ::
  "(nat \<Rightarrow> 's \<Rightarrow> bool \<times> 's) \<Rightarrow> (nat \<Rightarrow> 's \<Rightarrow> 's) \<Rightarrow> bool \<Rightarrow> nat \<Rightarrow> 's \<Rightarrow> bool \<times> 's" where
  "channel_handleOpen provider_open provider_close accepts self s =
     (let (opened, s) = provider_open self s
      in if opened then (if accepts then (True, s) else (False, provider_close self s)) else (False, s))"

definition channel_handleClose :: "(nat \<Rightarrow> 's \<Rightarrow> 's) \<Rightarrow> nat \<Rightarrow> 's \<Rightarrow> 's" where
  "channel_handleClose provider_close self s = provider_close self s"

section \<open>Writes to the shared configuration space\<close>

definition pciConfigWrite8 :: "'p ata_device \<Rightarrow> u8 \<Rightarrow> u8 \<Rightarrow> u8 \<Rightarrow> 'p \<Rightarrow> 'p" where
  "pciConfigWrite8 D offset data m p =
     (let v = configRead8 D offset p; v = v AND NOT m; v = v OR (m AND data)
      in configWrite8 D offset v p)"

definition pciConfigWrite16 :: "'p ata_device \<Rightarrow> u8 \<Rightarrow> u16 \<Rightarrow> u16 \<Rightarrow> 'p \<Rightarrow> 'p" where
  "pciConfigWrite16 D offset data m p =
     (let v = configRead16 D offset p; v = v AND NOT m; v = v OR (m AND data)
      in configWrite16 D offset v p)"

section \<open>Serial ports\<close>

record PCSPortMap =
  enableOffset :: u8
  enableMask :: u8
  presenceOffset :: u8
  presenceMask :: u8

definition PCS_row :: "u8 \<times> u8 \<times> u8 \<times> u8 \<Rightarrow> PCSPortMap" where
  "PCS_row row = (case row of (eo, em, po, pm) \<Rightarrow>
     \<lparr>enableOffset = eo, enableMask = em, presenceOffset = po, presenceMask = pm\<rparr>)"

definition gDefaultPortMap :: "PCSPortMap list" where
  "gDefaultPortMap = map PCS_row
     [(kPIIX_PCI_PCS, 0x01, kPIIX_PCI_PCS, 0x10), (kPIIX_PCI_PCS, 0x02, kPIIX_PCI_PCS, 0x20),
      (kPIIX_PCI_PCS, 0x04, kPIIX_PCI_PCS, 0x40), (kPIIX_PCI_PCS, 0x08, kPIIX_PCI_PCS, 0x80)]"

fun port_number :: "sata_port \<Rightarrow> nat" where
  "port_number SerialATAPort0 = 0"
| "port_number SerialATAPort1 = 1"
| "port_number SerialATAPort2 = 2"
| "port_number SerialATAPort3 = 3"
| "port_number SerialATAPortX = 4"

definition getPCSPortMapping :: "ata_properties \<Rightarrow> nat \<Rightarrow> PCSPortMap option" where
  "getPCSPortMapping root portNum =
     (if portNum > 3 \<or> boolean_of (root ''Serial ATA'') \<noteq> Some True then None
      else case data_of (root ''PCS Port Map'') of
             Some bytes \<Rightarrow>
               if length bytes = 16
               then Some (PCS_row (bytes ! (4 * portNum), bytes ! (4 * portNum + 1),
                                   bytes ! (4 * portNum + 2), bytes ! (4 * portNum + 3)))
               else Some (gDefaultPortMap ! portNum)
           | None \<Rightarrow> Some (gDefaultPortMap ! portNum))"

definition setSerialATAPortEnable ::
  "'p ata_device \<Rightarrow> ata_properties \<Rightarrow> sata_port \<Rightarrow> bool \<Rightarrow> 'p \<Rightarrow> 'p" where
  "setSerialATAPortEnable D root port enable p =
     (case getPCSPortMapping root (port_number port) of
        Some m \<Rightarrow> pciConfigWrite8 D (enableOffset m) (if enable then enableMask m else 0) (enableMask m) p
      | None \<Rightarrow> p)"

definition getSerialATAPortPresentStatus ::
  "'p ata_device \<Rightarrow> ata_properties \<Rightarrow> sata_port \<Rightarrow> 'p \<Rightarrow> bool" where
  "getSerialATAPortPresentStatus D root port p =
     (case getPCSPortMapping root (port_number port) of
        Some m \<Rightarrow> any_bit (configRead8 D (presenceOffset m) p) (presenceMask m)
      | None \<Rightarrow> False)"

definition setSerialATAPortEnableForDrive ::
  "'p ata_device \<Rightarrow> ata_properties \<Rightarrow> ata_channel \<Rightarrow> nat \<Rightarrow> bool \<Rightarrow> 'p \<Rightarrow> 'p" where
  "setSerialATAPortEnableForDrive D root ch u enable p =
     setSerialATAPortEnable D root (getSerialATAPortForDrive u ch) enable p"

definition getSerialATAPortPresentStatusForDrive ::
  "'p ata_device \<Rightarrow> ata_properties \<Rightarrow> ata_channel \<Rightarrow> nat \<Rightarrow> 'p \<Rightarrow> bool" where
  "getSerialATAPortPresentStatusForDrive D root ch u p =
     getSerialATAPortPresentStatus D root (getSerialATAPortForDrive u ch) p"

end
