(* ===== verification/AtaTiming.thy ===== *)
theory AtaTiming
  imports AtaChannel
begin

text \<open>
  The state of \<open>AppleIntelPIIXPATA\<close> and the part of it that selects the timings of the two drives of
  a channel, computes the register values and writes them.
\<close>

section \<open>State\<close>

text \<open>
  Values of \<open>IOReturn\<close>, and the device types and modes of the superclass, by name.
\<close>

datatype ata_return =
    kATANoErr | kATABadArgument | kATAModeNotSupported | kATADeviceError | kIOReturnNotAligned
  | kIOReturnSuccess | kIOReturnUnsupported | kIOReturnError | SuperReturn u32

datatype ata_device_type = UnknownATADevice | ATADevice | ATAPIDevice | OtherATADevice

datatype queue_state = QueueOpen | QueueLocked | OtherQueueState nat
datatype bus_state = BusFree | OtherBusState nat
datatype immediate_gate = ImmediateOK | OtherGate nat
datatype dma_state = DMAInactive | DMAStatus | DMAError | OtherDMAState nat

text \<open>
  An entry of the descriptor table is what \<open>setPRD\<close> of the superclass was given for it: an address,
  a count of 16 bits in which 0 stands for 65536, and whether it is the last one.
\<close>

datatype prd = PRD (prdAddress: u32) (prdCount: u16) (prdLast: bool)

record ata_command =
  commandFlags :: u32
  commandState :: nat
  byteCount :: u32
  position :: u32

datatype ata_call =
    DisableInterrupts | EnableInterrupts | HandleDeviceInterrupt
  | EvaluateObject string | ExecuteCallouts | StartTimer u32 | StopTimer | CommandFailed ata_command
  | RestoreDeviceState | CloseProvider | SuperStop | JoinPowerTree | RegisterNub nat
  | NubLimits nat nat nat | NubNotifies nat | StopDMA | FreeTable

text \<open>
  The fields the driver declares, those it uses of its superclasses, and the calls it makes on
  other objects. Pointers into the timing tables are the entries they point to. \<open>polled\<close> is the
  polled adapter with its flag (\<open>polledSATA\<close> that of the subclass), \<open>hasACPI\<close> says whether \<open>_pciACPIDevice\<close> is set.
\<close>

record 'p pata =
  piix :: 'p
  pataCmd :: u16
  pataCtr :: u16
  ioBMOffset :: u16
  channel :: u32
  pioTiming :: "nat \<Rightarrow> PIIXTiming option"
  dmaTiming :: "nat \<Rightarrow> PIIXTiming option"
  udmaTiming :: "nat \<Rightarrow> PIIXUDMATiming option"
  idetim :: "nat \<Rightarrow> u16"
  sidetim :: u8
  udmactl :: u8
  udmatim :: u16
  ideConfig :: u16
  initTimingRegisters :: bool
  initPortEnable :: bool
  hasACPI :: bool
  drivePowerOn :: bool
  intSrc :: bool
  polled :: "bool option"
  polledSATA :: "bool option"
  deviceType :: "nat \<Rightarrow> ata_device_type"
  packetSend :: "nat \<Rightarrow> u32"
  nubMade :: "nat \<Rightarrow> bool"
  currentCommand :: "ata_command option"
  commandQueue :: "ata_command list"
  queueState :: queue_state
  busState :: bus_state
  immediateGate :: immediate_gate
  selectedUnit :: "nat option"
  dmaState :: dma_state
  prdTable :: "prd list option"
  driveProperties :: "string \<Rightarrow> u32 option"
  ataCalls :: "ata_call list"

text \<open>The object as the kernel hands it out, all zero, with the hardware as it is found.\<close>

definition new_pata :: "'p \<Rightarrow> 'p pata" where
  "new_pata p = \<lparr>piix = p, pataCmd = 0, pataCtr = 0, ioBMOffset = 0, channel = 0,
     pioTiming = (\<lambda>_. None), dmaTiming = (\<lambda>_. None), udmaTiming = (\<lambda>_. None),
     idetim = (\<lambda>_. 0), sidetim = 0, udmactl = 0, udmatim = 0, ideConfig = 0,
     initTimingRegisters = False, initPortEnable = False, hasACPI = False, drivePowerOn = False,
     intSrc = False, polled = None, polledSATA = None, deviceType = (\<lambda>_. UnknownATADevice), packetSend = (\<lambda>_. 0),
     nubMade = (\<lambda>_. False), currentCommand = None, commandQueue = [],
     queueState = OtherQueueState 0, busState = OtherBusState 0, immediateGate = OtherGate 0,
     selectedUnit = None, dmaState = DMAInactive, prdTable = None, driveProperties = (\<lambda>_. None),
     ataCalls = []\<rparr>"

definition record_call :: "ata_call \<Rightarrow> 'p pata \<Rightarrow> 'p pata" where
  "record_call c s = s\<lparr>ataCalls := ataCalls s @ [c]\<rparr>"

definition on_device :: "('p \<Rightarrow> 'p) \<Rightarrow> 'p pata \<Rightarrow> 'p pata" where
  "on_device f s = s\<lparr>piix := f (piix s)\<rparr>"

section \<open>Configuration\<close>

definition configurePCIDevice :: "'p ata_device \<Rightarrow> 'p pata \<Rightarrow> bool \<times> 'p pata" where
  "configurePCIDevice D s =
     (let reg = configRead32 D kPIIX_PCI_IDETIM (piix s);
          reg = (if channel s = kPIIX_CHANNEL_SECONDARY then drop_bit 16 reg else reg)
      in if reg AND kPIIX_PCI_IDETIM_IDE = 0 then (False, s)
         else let s = on_device (setBusMasterEnable D True) s
              in (True, s\<lparr>ideConfig := configRead16 D kPIIX_PCI_IDECONFIG (piix s)\<rparr>))"

definition getBMBaseAddress :: "'p ata_device \<Rightarrow> u32 \<Rightarrow> 'p \<Rightarrow> u16 option" where
  "getBMBaseAddress D ch p =
     (let bmiba = configRead32 D kPIIX_PCI_BMIBA p
      in if bmiba AND 0x01 = 0 then None
         else let bmiba = bmiba AND 0xfff0
              in if bmiba = 0 then None
                 else Some (ucast (if ch = kPIIX_CHANNEL_SECONDARY then bmiba + 0x08 else bmiba)))"

section \<open>Register values\<close>

text \<open>Units are 0 and 1, \<open>kATADevice0DeviceID\<close> and \<open>kATADevice1DeviceID\<close>.\<close>

definition table_entry :: "'a list \<Rightarrow> nat \<Rightarrow> kernel_error + 'a" where
  "table_entry table n = (if n < length table then Inr (table ! n) else Inl OutOfBoundsRead)"

definition idetim_program :: "ata_channel \<Rightarrow> (u16 \<times> u16) list" where
  "idetim_program ch = (if hasSharedDriveTimings ch then piixIDETIM else piix3IDETIM)"

definition slow_pio :: "nat \<Rightarrow> 'p pata \<Rightarrow> 'p pata" where
  "slow_pio u s = s\<lparr>idetim := (idetim s)(u := idetim s u AND
     NOT (if u = 1 then kPIIX_PCI_IDETIM_DTE1 else kPIIX_PCI_IDETIM_DTE0))\<rparr>"

definition program_drive :: "ata_channel \<Rightarrow> nat \<Rightarrow> nat \<Rightarrow> 'p pata \<Rightarrow> kernel_error + 'p pata" where
  "program_drive ch u index s =
     and_then (table_entry (idetim_program ch) index) (\<lambda>row.
       let s = s\<lparr>idetim := (idetim s)(u := column row u)\<rparr>
       in if hasSharedDriveTimings ch then Inr s
          else and_then (table_entry piix3SIDETIM index) (\<lambda>side.
                 let c = unat (channel s);
                     s = (if u = 1
                          then s\<lparr>sidetim := (sidetim s AND NOT (column (piix3SIDETIM ! 0) c)) OR column side c\<rparr>
                          else s)
                 in Inr (s\<lparr>ideConfig := ideConfig s OR kPIIX_PCI_IDECONFIG_WR_PP_EN\<rparr>)))"

definition computeTimingRegisters :: "ata_channel \<Rightarrow> nat \<Rightarrow> 'p pata \<Rightarrow> kernel_error + 'p pata" where
  "computeTimingRegisters ch u s =
     and_then (non_null (pioTiming s u)) (\<lambda>pio.
       let timing = (case dmaTiming s u of Some dma \<Rightarrow> dma | None \<Rightarrow> pio);
           slowPIO = (cycleTime timing \<noteq> cycleTime pio)
       in and_then (program_drive ch u (unat (registerIndex timing)) s) (\<lambda>s.
            Inr (if slowPIO then slow_pio u s else s)))"

definition udma_enable_bit :: "u32 \<Rightarrow> nat \<Rightarrow> u8" where
  "udma_enable_bit c u =
     (let b = 0x01; b = (if c = kPIIX_CHANNEL_SECONDARY then push_bit 2 b else b)
      in if u = 1 then push_bit 1 b else b)"

definition udmatim_shifts :: "u32 \<Rightarrow> nat \<Rightarrow> nat" where
  "udmatim_shifts c u = (if c = kPIIX_CHANNEL_SECONDARY then 8 else 0) + (if u = 1 then 4 else 0)"

definition udma_clock_shifts :: "u32 \<Rightarrow> nat \<Rightarrow> nat" where
  "udma_clock_shifts c u = (if c = kPIIX_CHANNEL_SECONDARY then 2 else 0) + (if u = 1 then 1 else 0)"

definition computeUDMATimingRegisters :: "nat \<Rightarrow> 'p pata \<Rightarrow> 'p pata" where
  "computeUDMATimingRegisters u s =
     (let enable = udma_enable_bit (channel s) u;
          shifts = udmatim_shifts (channel s) u;
          clock = udma_clock_shifts (channel s) u;
          s = s\<lparr>udmactl := udmactl s AND NOT enable\<rparr>
      in case udmaTiming s u of
           None \<Rightarrow> s
         | Some t \<Rightarrow>
             let field = push_bit shifts kPIIX_PCI_UDMATIM_PCT0_MASK;
                 s = s\<lparr>udmatim := (udmatim s AND NOT field) OR (push_bit shifts (udmatimBits t) AND field)\<rparr>;
                 s = s\<lparr>ideConfig := (ideConfig s AND
                          NOT (push_bit clock (kPIIX_PCI_IDECONFIG_PCB0 OR kPIIX_PCI_IDECONFIG_FAST_PCB0)))
                        OR push_bit clock (udmaClock t)\<rparr>
             in s\<lparr>udmactl := udmactl s OR enable\<rparr>)"

section \<open>Writing the registers\<close>

text \<open>The masks of the bits that belong to the driver's channel.\<close>

definition idetim_offset :: "u32 \<Rightarrow> u8" where
  "idetim_offset c = (if c = kPIIX_CHANNEL_PRIMARY then kPIIX_PCI_IDETIM else kPIIX_PCI_IDETIM_S)"

definition sidetim_mask :: "u32 \<Rightarrow> u8" where
  "sidetim_mask c = (if c = kPIIX_CHANNEL_PRIMARY then 0x03 OR 0x0c else 0x30 OR 0xc0)"

definition udmactl_mask :: "u32 \<Rightarrow> u8" where
  "udmactl_mask c = (if c = kPIIX_CHANNEL_PRIMARY then 0x01 OR 0x02 else 0x04 OR 0x08)"

definition udmatim_mask :: "u32 \<Rightarrow> u16" where
  "udmatim_mask c = (if c = kPIIX_CHANNEL_PRIMARY then 0x0003 OR 0x0030 else 0x0300 OR 0x3000)"

definition ideConfig_mask :: "u32 \<Rightarrow> u16" where
  "ideConfig_mask c =
     (if c = kPIIX_CHANNEL_PRIMARY then 0x0001 OR 0x0002 OR 0x1000 OR 0x2000 OR kPIIX_PCI_IDECONFIG_WR_PP_EN
      else 0x0004 OR 0x0008 OR 0x4000 OR 0x8000 OR kPIIX_PCI_IDECONFIG_WR_PP_EN)"

definition write_timings :: "'p ata_device \<Rightarrow> ata_channel \<Rightarrow> nat \<Rightarrow> 'p pata \<Rightarrow> 'p \<Rightarrow> 'p" where
  "write_timings D ch u s p =
     (let c = channel s
      in if hasSharedDriveTimings ch
         then pciConfigWrite16 D (idetim_offset c) (idetim s u) 0xffff p
         else let p = pciConfigWrite16 D (idetim_offset c) (idetim s 0 OR idetim s 1) 0xffff p;
                  p = pciConfigWrite8 D kPIIX_PCI_SIDETIM (sidetim s) (sidetim_mask c) p;
                  p = pciConfigWrite8 D kPIIX_PCI_UDMACTL (udmactl s) (udmactl_mask c) p;
                  p = pciConfigWrite16 D kPIIX_PCI_UDMATIM (udmatim s) (udmatim_mask c) p
              in pciConfigWrite16 D kPIIX_PCI_IDECONFIG (ideConfig s) (ideConfig_mask c) p)"

definition writeTimingRegisters :: "'p ata_device \<Rightarrow> ata_channel \<Rightarrow> nat \<Rightarrow> 'p pata \<Rightarrow> 'p pata" where
  "writeTimingRegisters D ch u s = on_device (write_timings D ch u s) s"

definition selectIOTiming :: "'p ata_device \<Rightarrow> ata_channel \<Rightarrow> nat \<Rightarrow> 'p pata \<Rightarrow> 'p pata" where
  "selectIOTiming D ch u s =
     (if hasSharedDriveTimings ch then writeTimingRegisters D ch u s else s)"

text \<open>The tail that \<open>resetTimingsForDevice\<close> and \<open>selectConfig\<close> share.\<close>

definition apply_timings ::
  "'p ata_device \<Rightarrow> ata_channel \<Rightarrow> nat \<Rightarrow> PIIXTiming \<Rightarrow> PIIXTiming option \<Rightarrow> PIIXUDMATiming option \<Rightarrow>
   'p pata \<Rightarrow> kernel_error + 'p pata" where
  "apply_timings D ch u pio dma udma s =
     (let s = s\<lparr>pioTiming := (pioTiming s)(u := Some pio), dmaTiming := (dmaTiming s)(u := dma),
                udmaTiming := (udmaTiming s)(u := udma)\<rparr>
      in and_then (computeTimingRegisters ch u s) (\<lambda>s.
           Inr (writeTimingRegisters D ch 0 (computeUDMATimingRegisters u s))))"

definition resetTimingsForDevice ::
  "'p ata_device \<Rightarrow> ata_channel \<Rightarrow> nat \<Rightarrow> 'p pata \<Rightarrow> kernel_error + 'p pata" where
  "resetTimingsForDevice D ch u s = apply_timings D ch u (piixPIOTiming ! 0) None None s"

section \<open>Modes\<close>

definition PIOModes :: "ata_channel \<Rightarrow> u8" where
  "PIOModes ch = pioModeMask ch AND (push_bit (length piixPIOTiming) 1 - 1)"

definition DMAModes :: "ata_channel \<Rightarrow> u8" where
  "DMAModes ch = dmaModeMask ch AND (push_bit (length piixDMATiming) 1 - 1)"

definition UDMAModes :: "ata_channel \<Rightarrow> u8" where
  "UDMAModes ch = udmaModeMask ch AND (push_bit (length piixUDMATiming) 1 - 1)"

text \<open>What the accessors of the superclass's two argument classes store.\<close>

record IOATADevConfig =
  PIOMode :: u8
  PIOCycleTime :: u16
  DMAMode :: u8
  DMACycleTime :: u16
  UltraMode :: u8
  PacketConfig :: u32

datatype socket_type = InternalATASocket | InternalSATA

record IOATABusInfo =
  socketType :: socket_type
  infoPIOModes :: u8
  infoDMAModes :: u8
  infoUltraModes :: u8
  extendedLBA :: bool
  maxBlocksExtended :: u32
  infoUnits :: nat

definition provideBusInfo :: "ata_channel \<Rightarrow> 'p pata \<Rightarrow> IOATABusInfo" where
  "provideBusInfo ch s =
     \<lparr>socketType = InternalATASocket, infoPIOModes = PIOModes ch, infoDMAModes = DMAModes ch,
      infoUltraModes = UDMAModes ch, extendedLBA = True, maxBlocksExtended = 0x0800,
      infoUnits = (if deviceType s 0 \<noteq> UnknownATADevice then 1 else 0)
                + (if deviceType s 1 \<noteq> UnknownATADevice then 1 else 0)\<rparr>"

definition sata_provideBusInfo :: "ata_channel \<Rightarrow> 'p pata \<Rightarrow> IOATABusInfo" where
  "sata_provideBusInfo ch s = (provideBusInfo ch s)\<lparr>socketType := InternalSATA\<rparr>"

definition current_config :: "nat \<Rightarrow> 'p pata \<Rightarrow> IOATADevConfig \<Rightarrow> IOATADevConfig" where
  "current_config u s config =
     (let config = config\<lparr>PIOMode := 0, DMAMode := 0, UltraMode := 0\<rparr>;
          config = (case pioTiming s u of
                      Some t \<Rightarrow> config\<lparr>PIOMode := push_bit (unat (timingMode t)) 1, PIOCycleTime := cycleTime t\<rparr>
                    | None \<Rightarrow> config);
          config = (case dmaTiming s u of
                      Some t \<Rightarrow> config\<lparr>DMAMode := push_bit (unat (timingMode t)) 1, DMACycleTime := cycleTime t\<rparr>
                    | None \<Rightarrow> config);
          config = (case udmaTiming s u of
                      Some t \<Rightarrow> config\<lparr>UltraMode := push_bit (unat (udmaMode t)) 1\<rparr>
                    | None \<Rightarrow> config)
      in config\<lparr>PacketConfig := packetSend s u\<rparr>)"

definition getConfig :: "IOATADevConfig option \<Rightarrow> nat \<Rightarrow> 'p pata \<Rightarrow> ata_return \<times> IOATADevConfig option" where
  "getConfig configOut u s =
     (case configOut of
        None \<Rightarrow> (kATABadArgument, None)
      | Some config \<Rightarrow> if u > 1 then (kATABadArgument, Some config)
                        else (kATANoErr, Some (current_config u s config)))"

definition drive_key :: "nat \<Rightarrow> string \<Rightarrow> string" where
  "drive_key u key = snprintf_text 40 (''Drive '' @ decimal u @ '' '' @ key)"

definition setDriveProperty :: "nat \<Rightarrow> string \<Rightarrow> u32 \<Rightarrow> 'p pata \<Rightarrow> 'p pata" where
  "setDriveProperty u key v s = s\<lparr>driveProperties := (driveProperties s)(drive_key u key \<mapsto> v)\<rparr>"

definition remove_ata_property :: "string \<Rightarrow> 'p pata \<Rightarrow> 'p pata" where
  "remove_ata_property key s = s\<lparr>driveProperties := (driveProperties s)(key := None)\<rparr>"

section \<open>Selecting the timings of a drive\<close>

text \<open>The loops that lower a mode number until the controller and the drive can do the mode.\<close>

fun downgrade :: "(nat \<Rightarrow> bool) \<Rightarrow> nat \<Rightarrow> nat" where
  "downgrade ok 0 = 0"
| "downgrade ok (Suc n) = (if ok (Suc n) then Suc n else downgrade ok n)"

definition mode_fits :: "u8 \<Rightarrow> u16 \<Rightarrow> PIIXTiming list \<Rightarrow> nat \<Rightarrow> bool" where
  "mode_fits modes cycle table n \<longleftrightarrow> bit modes n \<and> cycle \<le> cycleTime (table ! n)"

definition select_pio ::
  "(u8 \<Rightarrow> u8) \<Rightarrow> ata_channel \<Rightarrow> IOATADevConfig \<Rightarrow> nat \<Rightarrow> 'p pata \<Rightarrow> kernel_error + (PIIXTiming \<times> 'p pata)" where
  "select_pio bitSigToNumeric ch config u s =
     (if PIOMode config AND PIOModes ch = 0 then Inr (piixPIOTiming ! 0, s)
      else let n = downgrade (mode_fits (PIOModes ch) (PIOCycleTime config) piixPIOTiming)
                     (unat (bitSigToNumeric (PIOMode config)));
               s = setDriveProperty u ''PIO Mode'' (of_nat n) s
           in and_then (table_entry piixPIOTiming n) (\<lambda>t. Inr (t, s)))"

text \<open>\<open>Inr None\<close>: the function returns \<open>kATAModeNotSupported\<close>.\<close>

definition select_dma ::
  "(u8 \<Rightarrow> u8) \<Rightarrow> ata_channel \<Rightarrow> IOATADevConfig \<Rightarrow> nat \<Rightarrow> 'p pata \<Rightarrow> (PIIXTiming option \<times> 'p pata) option" where
  "select_dma bitSigToNumeric ch config u s =
     (if DMAMode config = 0 then Some (None, s)
      else if DMAMode config AND DMAModes ch = 0 then None
      else let n = downgrade (mode_fits (DMAModes ch) (DMACycleTime config) piixDMATiming)
                     (unat (bitSigToNumeric (DMAMode config)))
           in if bit (DMAModes ch) n
              then Some (Some (piixDMATiming ! n), setDriveProperty u ''DMA Mode'' (of_nat n) s)
              else Some (None, s))"

definition cable_mask :: "u32 \<Rightarrow> nat \<Rightarrow> u16" where
  "cable_mask c u =
     (let m = kPIIX_PCI_IDECONFIG_PCR0;
          m = (if u = 1 then push_bit 1 m else m)
      in if c = kPIIX_CHANNEL_SECONDARY then push_bit 2 m else m)"

definition udma_limit :: "ata_channel \<Rightarrow> nat \<Rightarrow> 'p pata \<Rightarrow> nat \<Rightarrow> nat" where
  "udma_limit ch u s n =
     (if n > 2 \<and> channelMode ch = kChannelModePATA \<and> cable_mask (channel s) u AND ideConfig s = 0
      then 2 else n)"

definition select_udma ::
  "(u8 \<Rightarrow> u8) \<Rightarrow> ata_channel \<Rightarrow> IOATADevConfig \<Rightarrow> nat \<Rightarrow> 'p pata \<Rightarrow>
   kernel_error + (PIIXUDMATiming option \<times> 'p pata) option" where
  "select_udma bitSigToNumeric ch config u s =
     (if UltraMode config = 0 then Inr (Some (None, s))
      else if UltraMode config AND UDMAModes ch = 0 then Inr None
      else let n = udma_limit ch u s (unat (bitSigToNumeric (UltraMode config)));
               s = setDriveProperty u ''Ultra DMA Mode'' (of_nat n) s
           in and_then (table_entry piixUDMATiming n) (\<lambda>t. Inr (Some (Some t, s))))"

definition compatible_pio :: "PIIXTiming \<Rightarrow> PIIXTiming option \<Rightarrow> PIIXTiming" where
  "compatible_pio pio dma =
     (case dma of
        Some t \<Rightarrow> if cycleTime pio \<noteq> cycleTime t then piixPIOTiming ! 0 else pio
      | None \<Rightarrow> pio)"

definition selectConfig ::
  "'p ata_device \<Rightarrow> (u8 \<Rightarrow> u8) \<Rightarrow> ata_channel \<Rightarrow> IOATADevConfig option \<Rightarrow> nat \<Rightarrow> 'p pata \<Rightarrow>
   kernel_error + (ata_return \<times> IOATADevConfig option \<times> 'p pata)" where
  "selectConfig D bitSigToNumeric ch configIn u s =
     (case configIn of
        None \<Rightarrow> Inr (kATABadArgument, None, s)
      | Some config \<Rightarrow>
          if u > 1 then Inr (kATABadArgument, Some config, s)
          else
            let s = remove_ata_property ''PIO Mode'' s;
                s = remove_ata_property ''DMA Mode'' s;
                s = remove_ata_property ''Ultra DMA Mode'' s
            in and_then (select_pio bitSigToNumeric ch config u s) (\<lambda>(pio, s).
               case select_dma bitSigToNumeric ch config u s of
                 None \<Rightarrow> Inr (kATAModeNotSupported, Some config, s)
               | Some (dma, s) \<Rightarrow>
                   and_then (select_udma bitSigToNumeric ch config u s) (\<lambda>udma.
                   case udma of
                     None \<Rightarrow> Inr (kATAModeNotSupported, Some config, s)
                   | Some (udma, s) \<Rightarrow>
                       and_then (apply_timings D ch u (compatible_pio pio dma) dma udma s) (\<lambda>s.
                       let s = s\<lparr>packetSend := (packetSend s)(u := PacketConfig config)\<rparr>;
                           (ret, config) = getConfig (Some config) u s
                       in Inr (ret, config, s)))))"

end
