(* ===== verification/AtaTimingProps.thy ===== *)
theory AtaTimingProps
  imports AtaTiming
begin

text \<open>
  What the timing routines achieve: the registers hold, for both drives, the programs of the timings
  that were selected, the other channel's bits are left alone, and the modes selected are the
  fastest ones both sides can do.
\<close>

section \<open>Fields of words\<close>

lemma bit_of_field:
  fixes m :: "'a::len word"
  assumes "drop_bit k (push_bit k m) = m" "bit m n"
  shows "bit (push_bit k m) (k + n)" and "k + n < LENGTH('a)"
proof -
  have "bit (drop_bit k (push_bit k m)) n" by (simp only: assms)
  then show "bit (push_bit k m) (k + n)" by (simp only: bit_drop_bit_eq comp_def)
  then show "k + n < LENGTH('a)" by (rule bit_imp_le_length)
qed

lemma field_update:
  fixes w b m :: "'a::len word"
  assumes "drop_bit k (push_bit k m) = m"
  shows "drop_bit k ((w AND NOT (push_bit k m)) OR (push_bit k b AND push_bit k m)) AND m = b AND m"
  using bit_of_field [OF assms]
  by (intro bit_word_eqI) (auto simp: bit_and_iff bit_or_iff bit_not_iff bit_push_bit_iff bit_drop_bit_eq)

lemma field_keep:
  fixes w b m m' :: "'a::len word"
  assumes "push_bit k m AND push_bit k' m' = 0" "drop_bit k' (push_bit k' m') = m'"
  shows "drop_bit k' ((w AND NOT (push_bit k m)) OR (b AND push_bit k m)) AND m' = drop_bit k' w AND m'"
proof (rule bit_word_eqI)
  fix n
  have "\<not> (bit (push_bit k m) (k' + n) \<and> bit (push_bit k' m') (k' + n))"
    using assms(1) by (metis bit_and_iff bit_0_eq bot_apply bot_bool_def)
  then show "bit (drop_bit k' ((w AND NOT (push_bit k m)) OR (b AND push_bit k m)) AND m') n =
      bit (drop_bit k' w AND m') n"
    using bit_of_field [OF assms(2)] by (auto simp: bit_and_iff bit_or_iff bit_not_iff bit_drop_bit_eq)
qed

lemma masked_write_field:
  fixes w v m M :: "'a::len word"
  assumes "push_bit k m AND M = push_bit k m" "drop_bit k (push_bit k m) = m"
  shows "drop_bit k ((w AND NOT M) OR (M AND v)) AND m = drop_bit k v AND m"
proof (rule bit_word_eqI)
  fix n
  have "bit M (k + n)" if "bit m n"
  proof -
    have "bit (push_bit k m AND M) (k + n)"
      using bit_of_field(1) [OF assms(2) that] by (simp only: assms(1))
    then show ?thesis by (simp only: bit_and_iff)
  qed
  then show "bit (drop_bit k ((w AND NOT M) OR (M AND v)) AND m) n = bit (drop_bit k v AND m) n"
    using bit_of_field(2) [OF assms(2)] by (auto simp: bit_and_iff bit_or_iff bit_not_iff bit_drop_bit_eq)
qed

section \<open>The registers\<close>

lemma pciConfigWrite16_regs:
  assumes "timing_law D" "r \<in> timing16"
  shows "reg16 D (pciConfigWrite16 D r v m p) = (reg16 D p)(r := (reg16 D p r AND NOT m) OR (m AND v))"
    and "reg8 D (pciConfigWrite16 D r v m p) = reg8 D p"
  using timing_lawD(1,2) [OF assms] assms(2) by (simp_all add: pciConfigWrite16_def reg16_def)

lemma pciConfigWrite8_regs:
  assumes "timing_law D" "r \<in> timing8"
  shows "reg8 D (pciConfigWrite8 D r v m p) = (reg8 D p)(r := (reg8 D p r AND NOT m) OR (m AND v))"
    and "reg16 D (pciConfigWrite8 D r v m p) = reg16 D p"
  using timing_lawD(3,4) [OF assms] assms(2) by (simp_all add: pciConfigWrite8_def reg8_def)

lemma timing_sets [simp]:
  "idetim_offset c \<in> timing16" "0x4a \<in> timing16" "0x54 \<in> timing16"
  "0x44 \<in> timing8" "0x48 \<in> timing8"
  by (simp_all add: idetim_offset_def timing16_def timing8_def)

lemma idetim_offset_neq [simp]: "idetim_offset c \<noteq> 0x4a" "idetim_offset c \<noteq> 0x54"
  by (simp_all add: idetim_offset_def)

lemma write_timings_regs:
  assumes "timing_law D" "\<not> hasSharedDriveTimings ch"
  shows "reg16 D (write_timings D ch u s p) = (reg16 D p)
           (idetim_offset (channel s) := idetim s 0 OR idetim s 1,
            kPIIX_PCI_UDMATIM := (reg16 D p kPIIX_PCI_UDMATIM AND NOT (udmatim_mask (channel s)))
              OR (udmatim_mask (channel s) AND udmatim s),
            kPIIX_PCI_IDECONFIG := (reg16 D p kPIIX_PCI_IDECONFIG AND NOT (ideConfig_mask (channel s)))
              OR (ideConfig_mask (channel s) AND ideConfig s))" (is ?R16)
    and "reg8 D (write_timings D ch u s p) = (reg8 D p)
           (kPIIX_PCI_SIDETIM := (reg8 D p kPIIX_PCI_SIDETIM AND NOT (sidetim_mask (channel s)))
              OR (sidetim_mask (channel s) AND sidetim s),
            kPIIX_PCI_UDMACTL := (reg8 D p kPIIX_PCI_UDMACTL AND NOT (udmactl_mask (channel s)))
              OR (udmactl_mask (channel s) AND udmactl s))" (is ?R8)
proof -
  have "(0xffff :: u16) = - 1" "(- 0x10000 :: u16) = 0" by simp_all
  then have all: "(w AND - 0x10000) OR (0xffff AND v) = v" for w v :: u16
    by (simp only: and.left_neutral and_zero_eq or.left_neutral)
  show ?R16 ?R8
    using assms by (auto simp: write_timings_def Let_def pciConfigWrite16_regs pciConfigWrite8_regs fun_eq_iff all)
qed

section \<open>What the registers should hold\<close>

text \<open>
  The fields of one drive, given the timings selected for it: \<open>T16\<close> and \<open>T8\<close> are the registers,
  \<open>c\<close> is the channel and \<open>u\<close> the unit. The row of the register programs is that of the DMA timing,
  or of the PIO timing if there is none.
\<close>

definition program_row :: "PIIXTiming \<Rightarrow> PIIXTiming option \<Rightarrow> nat" where
  "program_row pio dma = unat (registerIndex (case dma of Some t \<Rightarrow> t | None \<Rightarrow> pio))"

definition udma_runs :: "u8 \<Rightarrow> u16 \<Rightarrow> u16 \<Rightarrow> nat \<Rightarrow> nat \<Rightarrow> PIIXUDMATiming option \<Rightarrow> bool" where
  "udma_runs ctl tim clock c u udma \<longleftrightarrow>
     drop_bit (2 * c + u) ctl AND 1 = (if udma = None then 0 else 1) \<and>
     (case udma of
        None \<Rightarrow> True
      | Some t \<Rightarrow> drop_bit (8 * c + 4 * u) tim AND 3 = udmatimBits t \<and>
                 drop_bit (2 * c + u) clock AND 0x1001 = udmaClock t)"

definition drive_runs ::
  "(u8 \<Rightarrow> u16) \<Rightarrow> (u8 \<Rightarrow> u8) \<Rightarrow> nat \<Rightarrow> nat \<Rightarrow>
   PIIXTiming \<Rightarrow> PIIXTiming option \<Rightarrow> PIIXUDMATiming option \<Rightarrow> bool" where
  "drive_runs T16 T8 c u pio dma udma \<longleftrightarrow>
     (let row = program_row pio dma
      in T16 (if c = 0 then 0x40 else 0x42) AND column (piix3IDETIM ! 0) u = column (piix3IDETIM ! row) u \<and>
         (u = 1 \<longrightarrow> T8 0x44 AND column (piix3SIDETIM ! 0) c = column (piix3SIDETIM ! row) c) \<and>
         udma_runs (T8 0x48) (T16 0x4a) (T16 0x54) c u udma)"

text \<open>The timings of a drive come from the tables, and the driver's copies hold what they need.\<close>

definition drive_cached :: "nat \<Rightarrow> 'p pata \<Rightarrow> bool" where
  "drive_cached u s \<longleftrightarrow>
     (\<exists>pio \<in> set piixPIOTiming.
        pioTiming s u = Some pio \<and>
        set_option (dmaTiming s u) \<subseteq> set piixDMATiming \<and>
        set_option (udmaTiming s u) \<subseteq> set piixUDMATiming \<and>
        (let row = program_row pio (dmaTiming s u); c = unat (channel s)
         in idetim s u = column (piix3IDETIM ! row) u \<and>
            (u = 1 \<longrightarrow> sidetim s AND column (piix3SIDETIM ! 0) c = column (piix3SIDETIM ! row) c) \<and>
            udma_runs (udmactl s) (udmatim s) (ideConfig s) c u (udmaTiming s u)))"

definition drive_programmed :: "'p ata_device \<Rightarrow> nat \<Rightarrow> 'p pata \<Rightarrow> bool" where
  "drive_programmed D u s \<longleftrightarrow>
     (\<exists>pio. pioTiming s u = Some pio \<and>
        drive_runs (reg16 D (piix s)) (reg8 D (piix s)) (unat (channel s)) u pio (dmaTiming s u) (udmaTiming s u))"

lemma program_row_cases:
  assumes "pio \<in> set piixPIOTiming" "set_option dma \<subseteq> set piixDMATiming"
  shows "program_row pio dma \<in> {1, 2, 3, 4}"
  using assms by (cases dma) (auto simp: program_row_def timing_tables)

lemma channel_cases: "c \<le> (1 :: u32) \<Longrightarrow> c = 0 \<or> c = 1"
  by (simp add: word_le_nat_alt unat_arith_simps) arith

section \<open>Writing makes the hardware run what is cached\<close>

lemma udma_runs_masked:
  assumes "udma_runs ctl tim clock c u udma" "c < 2" "u < 2" "ch = of_nat c"
  shows "udma_runs ((w8 AND NOT (udmactl_mask ch)) OR (udmactl_mask ch AND ctl))
           ((w16 AND NOT (udmatim_mask ch)) OR (udmatim_mask ch AND tim))
           ((x16 AND NOT (ideConfig_mask ch)) OR (ideConfig_mask ch AND clock)) c u udma"
proof -
  have "c = 0 \<or> c = 1" "u = 0 \<or> u = 1" using assms(2,3) by auto
  then have m: "push_bit (2 * c + u) 1 AND udmactl_mask ch = push_bit (2 * c + u) 1"
    "push_bit (8 * c + 4 * u) 3 AND udmatim_mask ch = push_bit (8 * c + 4 * u) 3"
    "push_bit (2 * c + u) 0x1001 AND ideConfig_mask ch = push_bit (2 * c + u) 0x1001"
    "drop_bit (2 * c + u) (push_bit (2 * c + u) 1) = (1 :: u8)"
    "drop_bit (8 * c + 4 * u) (push_bit (8 * c + 4 * u) 3) = (3 :: u16)"
    "drop_bit (2 * c + u) (push_bit (2 * c + u) 0x1001) = (0x1001 :: u16)"
    by (auto simp: assms(4) udmactl_mask_def udmatim_mask_def ideConfig_mask_def kPIIX_PCI_IDECONFIG_WR_PP_EN_def)
  show ?thesis
    using assms(1)
    by (simp only: udma_runs_def masked_write_field [OF m(1,4)] masked_write_field [OF m(2,5)]
        masked_write_field [OF m(3,6)])
qed

lemma masked_write_same:
  fixes w v M :: "'a::len word"
  shows "((w AND NOT M) OR (M AND v)) AND M = v AND M"
  by (rule bit_word_eqI) (auto simp: bit_and_iff bit_or_iff bit_not_iff)

lemma idetim_both_units:
  assumes "r \<in> {1, 2, 3, 4}" "q \<in> {1, 2, 3, 4}" "u < 2"
  shows "(column (piix3IDETIM ! r) 0 OR column (piix3IDETIM ! q) 1) AND column (piix3IDETIM ! 0) u
    = column (piix3IDETIM ! (if u = 0 then r else q)) u"
proof -
  have "u = 0 \<or> u = 1" using assms(3) by auto
  then show ?thesis using assms(1,2) by (auto simp: piix3IDETIM_def)
qed

lemma drive_cachedE:
  assumes "drive_cached u s"
  obtains pio where "pioTiming s u = Some pio" "program_row pio (dmaTiming s u) \<in> {1, 2, 3, 4}"
    "idetim s u = column (piix3IDETIM ! program_row pio (dmaTiming s u)) u"
    "u = 1 \<Longrightarrow> sidetim s AND column (piix3SIDETIM ! 0) (unat (channel s))
       = column (piix3SIDETIM ! program_row pio (dmaTiming s u)) (unat (channel s))"
    "udma_runs (udmactl s) (udmatim s) (ideConfig s) (unat (channel s)) u (udmaTiming s u)"
proof -
  from assms obtain pio where pio: "pio \<in> set piixPIOTiming" "pioTiming s u = Some pio"
    "set_option (dmaTiming s u) \<subseteq> set piixDMATiming"
    and rest: "idetim s u = column (piix3IDETIM ! program_row pio (dmaTiming s u)) u"
    "u = 1 \<longrightarrow> sidetim s AND column (piix3SIDETIM ! 0) (unat (channel s))
       = column (piix3SIDETIM ! program_row pio (dmaTiming s u)) (unat (channel s))"
    "udma_runs (udmactl s) (udmatim s) (ideConfig s) (unat (channel s)) u (udmaTiming s u)"
    unfolding drive_cached_def Let_def by (elim bexE conjE) (rule that)
  show ?thesis
    by (rule that [OF pio(2) program_row_cases [OF pio(1,3)] rest(1) mp [OF rest(2)] rest(3)])
qed

lemma writeTimingRegisters_fields [simp]:
  "channel (writeTimingRegisters D ch v s) = channel s"
  "pioTiming (writeTimingRegisters D ch v s) = pioTiming s"
  "dmaTiming (writeTimingRegisters D ch v s) = dmaTiming s"
  "udmaTiming (writeTimingRegisters D ch v s) = udmaTiming s"
  "idetim (writeTimingRegisters D ch v s) = idetim s"
  "sidetim (writeTimingRegisters D ch v s) = sidetim s"
  "udmactl (writeTimingRegisters D ch v s) = udmactl s"
  "udmatim (writeTimingRegisters D ch v s) = udmatim s"
  "ideConfig (writeTimingRegisters D ch v s) = ideConfig s"
  "piix (writeTimingRegisters D ch v s) = write_timings D ch v s (piix s)"
  by (simp_all add: writeTimingRegisters_def on_device_def)

lemma write_programs:
  assumes "timing_law D" "\<not> hasSharedDriveTimings ch" "channel s \<le> 1"
    and "drive_cached 0 s" "drive_cached 1 s" "u < 2"
  shows "drive_programmed D u (writeTimingRegisters D ch v s)"
proof -
  obtain p where p: "pioTiming s 0 = Some p" "program_row p (dmaTiming s 0) \<in> {1, 2, 3, 4}"
    "idetim s 0 = column (piix3IDETIM ! program_row p (dmaTiming s 0)) 0"
    "udma_runs (udmactl s) (udmatim s) (ideConfig s) (unat (channel s)) 0 (udmaTiming s 0)"
    using assms(4) by (rule drive_cachedE)
  obtain q where q: "pioTiming s 1 = Some q" "program_row q (dmaTiming s 1) \<in> {1, 2, 3, 4}"
    "idetim s 1 = column (piix3IDETIM ! program_row q (dmaTiming s 1)) 1"
    "sidetim s AND column (piix3SIDETIM ! 0) (unat (channel s))
       = column (piix3SIDETIM ! program_row q (dmaTiming s 1)) (unat (channel s))"
    "udma_runs (udmactl s) (udmatim s) (ideConfig s) (unat (channel s)) 1 (udmaTiming s 1)"
    using assms(5) by (rule drive_cachedE) auto
  have c: "unat (channel s) < 2" "channel s = of_nat (unat (channel s))"
    "idetim_offset (channel s) = (if unat (channel s) = 0 then 0x40 else 0x42)"
    "sidetim_mask (channel s) = column (piix3SIDETIM ! 0) (unat (channel s))"
    using channel_cases [OF assms(3)]
    by (auto simp: idetim_offset_def sidetim_mask_def piix3SIDETIM_def)
  have u: "u = 0 \<or> u = 1" using assms(6) by auto
  show ?thesis
    using u idetim_both_units [OF p(2) q(2)] p(1,3) q(1,3,4) c(3,4)
      udma_runs_masked [OF p(4) c(1) _ c(2)] udma_runs_masked [OF q(5) c(1) _ c(2)]
    by (auto simp: drive_programmed_def drive_runs_def Let_def write_timings_regs [OF assms(1,2)]
        masked_write_same simp del: column.simps split: if_splits)
qed

section \<open>Selecting timings fills the cache\<close>

lemma unit_fields:
  assumes "c < 2" "u < 2"
  shows "drop_bit (2 * c + u) (push_bit (2 * c + u) 1) = (1 :: u8)"
    and "drop_bit (8 * c + 4 * u) (push_bit (8 * c + 4 * u) 3) = (3 :: u16)"
    and "drop_bit (2 * c + u) (push_bit (2 * c + u) 0x1001) = (0x1001 :: u16)"
proof -
  have "c = 0 \<or> c = 1" "u = 0 \<or> u = 1" using assms by auto
  then show "drop_bit (2 * c + u) (push_bit (2 * c + u) 1) = (1 :: u8)"
    and "drop_bit (8 * c + 4 * u) (push_bit (8 * c + 4 * u) 3) = (3 :: u16)"
    and "drop_bit (2 * c + u) (push_bit (2 * c + u) 0x1001) = (0x1001 :: u16)"
    by auto
qed

lemma unit_fields_disjoint:
  assumes "c < 2" "u < 2" "u' < 2" "u' \<noteq> u"
  shows "push_bit (2 * c + u) 1 AND push_bit (2 * c + u') 1 = (0 :: u8)"
    and "push_bit (8 * c + 4 * u) 3 AND push_bit (8 * c + 4 * u') 3 = (0 :: u16)"
    and "push_bit (2 * c + u) 0x1001 AND push_bit (2 * c + u') 0x1001 = (0 :: u16)"
proof -
  have "c = 0 \<or> c = 1" "u = 0 \<and> u' = 1 \<or> u = 1 \<and> u' = 0" using assms by auto
  then show "push_bit (2 * c + u) 1 AND push_bit (2 * c + u') 1 = (0 :: u8)"
    and "push_bit (8 * c + 4 * u) 3 AND push_bit (8 * c + 4 * u') 3 = (0 :: u16)"
    and "push_bit (2 * c + u) 0x1001 AND push_bit (2 * c + u') 0x1001 = (0 :: u16)"
    by auto
qed

lemma unit_shifts:
  assumes "channel s \<le> 1" "u < 2"
  shows "udma_enable_bit (channel s) u = push_bit (2 * unat (channel s) + u) 1"
    and "udmatim_shifts (channel s) u = 8 * unat (channel s) + 4 * u"
    and "udma_clock_shifts (channel s) u = 2 * unat (channel s) + u"
proof -
  have "u = 0 \<or> u = 1" using assms(2) by auto
  then show "udma_enable_bit (channel s) u = push_bit (2 * unat (channel s) + u) 1"
    and "udmatim_shifts (channel s) u = 8 * unat (channel s) + 4 * u"
    and "udma_clock_shifts (channel s) u = 2 * unat (channel s) + u"
    using channel_cases [OF assms(1)]
    by (auto simp: udma_enable_bit_def udmatim_shifts_def udma_clock_shifts_def)
qed

lemma udma_table_fields:
  assumes "t \<in> set piixUDMATiming"
  shows "udmatimBits t AND 3 = udmatimBits t" and "udmaClock t AND 0x1001 = udmaClock t"
  using assms
  by (auto simp: piixUDMATiming_def PIIX_UDMA_timing_def kPIIX_PCI_IDECONFIG_PCB0_def
      kPIIX_PCI_IDECONFIG_FAST_PCB0_def)

lemma set_bits_as_update: "w OR m = (w AND NOT m) OR ((- 1 :: 'a::len word) AND m)"
  by (rule bit_word_eqI) (auto simp: bit_and_iff bit_or_iff bit_not_iff)

lemma push_as_field: "b AND m = b \<Longrightarrow> push_bit k b = push_bit k b AND push_bit k (m :: 'a::len word)"
  by (metis push_bit_and)

text \<open>The values \<open>computeUDMATimingRegisters\<close> leaves, written as updates of the drive's fields.\<close>

lemma compute_udma_values:
  assumes "channel s \<le> 1" "u < 2" "set_option (udmaTiming s u) \<subseteq> set piixUDMATiming"
  defines "k \<equiv> 2 * unat (channel s) + u" and "j \<equiv> 8 * unat (channel s) + 4 * u"
  shows "udmactl (computeUDMATimingRegisters u s) =
      (udmactl s AND NOT (push_bit k 1)) OR
      (push_bit k (if udmaTiming s u = None then 0 else 1) AND push_bit k 1)"
    and "udmatim (computeUDMATimingRegisters u s) = (case udmaTiming s u of None \<Rightarrow> udmatim s
      | Some t \<Rightarrow> (udmatim s AND NOT (push_bit j 3)) OR (push_bit j (udmatimBits t) AND push_bit j 3))"
    and "ideConfig (computeUDMATimingRegisters u s) = (case udmaTiming s u of None \<Rightarrow> ideConfig s
      | Some t \<Rightarrow> (ideConfig s AND NOT (push_bit k 0x1001)) OR (push_bit k (udmaClock t) AND push_bit k 0x1001))"
proof -
  show "udmactl (computeUDMATimingRegisters u s) =
      (udmactl s AND NOT (push_bit k 1)) OR
      (push_bit k (if udmaTiming s u = None then 0 else 1) AND push_bit k 1)"
    by (simp add: computeUDMATimingRegisters_def Let_def unit_shifts [OF assms(1,2)] k_def split: option.split)
  show "udmatim (computeUDMATimingRegisters u s) = (case udmaTiming s u of None \<Rightarrow> udmatim s
      | Some t \<Rightarrow> (udmatim s AND NOT (push_bit j 3)) OR (push_bit j (udmatimBits t) AND push_bit j 3))"
    by (simp add: computeUDMATimingRegisters_def Let_def unit_shifts [OF assms(1,2)] j_def
        kPIIX_PCI_UDMATIM_PCT0_MASK_def split: option.split)
  have "push_bit k (udmaClock t) = push_bit k (udmaClock t) AND push_bit k 0x1001"
    if "udmaTiming s u = Some t" for t
    using assms(3) that by (intro push_as_field udma_table_fields(2)) simp
  moreover have "kPIIX_PCI_IDECONFIG_PCB0 OR kPIIX_PCI_IDECONFIG_FAST_PCB0 = 0x1001"
    by (simp add: kPIIX_PCI_IDECONFIG_PCB0_def kPIIX_PCI_IDECONFIG_FAST_PCB0_def)
  ultimately show "ideConfig (computeUDMATimingRegisters u s) = (case udmaTiming s u of None \<Rightarrow> ideConfig s
      | Some t \<Rightarrow> (ideConfig s AND NOT (push_bit k 0x1001)) OR (push_bit k (udmaClock t) AND push_bit k 0x1001))"
    by (simp add: computeUDMATimingRegisters_def Let_def unit_shifts [OF assms(1,2)] k_def split: option.split)
qed

lemma compute_udma_runs:
  assumes "channel s \<le> 1" "u < 2" "set_option (udmaTiming s u) \<subseteq> set piixUDMATiming"
  defines "s' \<equiv> computeUDMATimingRegisters u s"
  shows "udma_runs (udmactl s') (udmatim s') (ideConfig s') (unat (channel s)) u (udmaTiming s u)"
    and "u' < 2 \<Longrightarrow> u' \<noteq> u \<Longrightarrow> udma_runs (udmactl s) (udmatim s) (ideConfig s) (unat (channel s)) u' x \<Longrightarrow>
         udma_runs (udmactl s') (udmatim s') (ideConfig s') (unat (channel s)) u' x"
proof -
  have c: "unat (channel s) < 2" using channel_cases [OF assms(1)] by auto
  note vals = compute_udma_values [OF assms(1-3)] and f = unit_fields [OF c assms(2)]
  have one: "(0 :: u8) AND 1 = 0" "(1 :: u8) AND 1 = 1" by simp_all
  show "udma_runs (udmactl s') (udmatim s') (ideConfig s') (unat (channel s)) u (udmaTiming s u)"
    using assms(3)
    by (cases "udmaTiming s u")
      (simp_all only: udma_runs_def s'_def vals field_update [OF f(1)] field_update [OF f(2)]
        field_update [OF f(3)] udma_table_fields option.case simp_thms one option.set insert_subset if_True
        if_False option.distinct)
  assume u': "u' < 2" "u' \<noteq> u" "udma_runs (udmactl s) (udmatim s) (ideConfig s) (unat (channel s)) u' x"
  note g = unit_fields [OF c u'(1)] and d = unit_fields_disjoint [OF c assms(2) u'(1,2)]
  have "drop_bit (8 * unat (channel s) + 4 * u') (udmatim s') AND 3
      = drop_bit (8 * unat (channel s) + 4 * u') (udmatim s) AND 3"
    by (cases "udmaTiming s u") (simp_all only: s'_def vals option.case field_keep [OF d(2) g(2)])
  moreover have "drop_bit (2 * unat (channel s) + u') (ideConfig s') AND 0x1001
      = drop_bit (2 * unat (channel s) + u') (ideConfig s) AND 0x1001"
    by (cases "udmaTiming s u") (simp_all only: s'_def vals option.case field_keep [OF d(3) g(3)])
  moreover have "drop_bit (2 * unat (channel s) + u') (udmactl s') AND 1
      = drop_bit (2 * unat (channel s) + u') (udmactl s) AND 1"
    by (simp only: s'_def vals field_keep [OF d(1) g(1)])
  ultimately show "udma_runs (udmactl s') (udmatim s') (ideConfig s') (unat (channel s)) u' x"
    using u'(3) by (simp only: udma_runs_def)
qed

lemma udma_runs_prefetch:
  assumes "c < 2" "u < 2"
  shows "udma_runs ctl tim (clock OR kPIIX_PCI_IDECONFIG_WR_PP_EN) c u x = udma_runs ctl tim clock c u x"
proof -
  have "c = 0 \<or> c = 1" "u = 0 \<or> u = 1" using assms by auto
  then have "push_bit 10 1 AND push_bit (2 * c + u) 0x1001 = (0 :: u16)" by auto
  moreover have "kPIIX_PCI_IDECONFIG_WR_PP_EN = push_bit 10 1"
    by (simp add: kPIIX_PCI_IDECONFIG_WR_PP_EN_def)
  ultimately have "drop_bit (2 * c + u) (clock OR kPIIX_PCI_IDECONFIG_WR_PP_EN) AND 0x1001
      = drop_bit (2 * c + u) clock AND 0x1001"
    using field_keep [OF _ unit_fields(3) [OF assms]] set_bits_as_update by metis
  then show ?thesis by (simp only: udma_runs_def)
qed

lemma dte_not_in_programs:
  assumes "r \<in> {1, 2, 3, 4}" "u < 2"
  shows "column (piix3IDETIM ! r) u AND NOT (if u = 1 then kPIIX_PCI_IDETIM_DTE1 else kPIIX_PCI_IDETIM_DTE0)
    = column (piix3IDETIM ! r) u"
proof -
  have "u = 0 \<or> u = 1" using assms(2) by auto
  then show ?thesis
    using assms(1) by (auto simp: piix3IDETIM_def kPIIX_PCI_IDETIM_DTE1_def kPIIX_PCI_IDETIM_DTE0_def)
qed

lemma sidetim_row_in_mask:
  assumes "r \<in> {1, 2, 3, 4}"
  shows "((w AND NOT (column (piix3SIDETIM ! 0) c)) OR column (piix3SIDETIM ! r) c) AND column (piix3SIDETIM ! 0) c
    = column (piix3SIDETIM ! r) c"
proof -
  have "column (piix3SIDETIM ! r) c AND column (piix3SIDETIM ! 0) c = column (piix3SIDETIM ! r) c"
    using assms by (auto simp: piix3SIDETIM_def)
  moreover have "((w AND NOT m) OR b) AND m = b AND m" for w b m :: u8
    by (rule bit_word_eqI) (auto simp: bit_and_iff bit_or_iff bit_not_iff)
  ultimately show ?thesis by simp
qed

lemma slow_pio_same:
  assumes "w AND NOT (if u = 1 then kPIIX_PCI_IDETIM_DTE1 else kPIIX_PCI_IDETIM_DTE0) = w"
  shows "idetim s u = w \<Longrightarrow> slow_pio u s = s"
  using assms by (auto simp: slow_pio_def)

text \<open>With the drive's own registers, clearing the DMA-only bit changes nothing: no program sets it.\<close>

lemma computeTimingRegisters_value:
  assumes "\<not> hasSharedDriveTimings ch" "pioTiming s u = Some pio" "u < 2"
    and "program_row pio (dmaTiming s u) \<in> {1, 2, 3, 4}"
  shows "computeTimingRegisters ch u s = Inr (s
      \<lparr>idetim := (idetim s)(u := column (piix3IDETIM ! program_row pio (dmaTiming s u)) u),
       sidetim := (if u = 1 then (sidetim s AND NOT (column (piix3SIDETIM ! 0) (unat (channel s)))) OR
                     column (piix3SIDETIM ! program_row pio (dmaTiming s u)) (unat (channel s))
                   else sidetim s),
       ideConfig := ideConfig s OR kPIIX_PCI_IDECONFIG_WR_PP_EN\<rparr>)"
proof -
  have len: "program_row pio (dmaTiming s u) < length piix3IDETIM"
    "program_row pio (dmaTiming s u) < length piix3SIDETIM"
    using assms(4) by (auto simp: piix3IDETIM_def piix3SIDETIM_def)
  have row: "unat (registerIndex (case dmaTiming s u of Some dma \<Rightarrow> dma | None \<Rightarrow> pio))
    = program_row pio (dmaTiming s u)"
    by (simp add: program_row_def)
  show ?thesis
    using assms(1,2) len
    by (simp add: computeTimingRegisters_def program_drive_def idetim_program_def table_entry_def row
        slow_pio_same [OF dte_not_in_programs [OF assms(4,3)]] Let_def)
qed

lemma compute_udma_cables:
  assumes "channel s \<le> 1" "u < 2" "set_option (udmaTiming s u) \<subseteq> set piixUDMATiming"
  shows "drop_bit 4 (ideConfig (computeUDMATimingRegisters u s)) AND 0xf = drop_bit 4 (ideConfig s) AND 0xf"
proof -
  have "unat (channel s) = 0 \<or> unat (channel s) = 1" "u = 0 \<or> u = 1"
    using channel_cases [OF assms(1)] assms(2) by auto
  then have "push_bit (2 * unat (channel s) + u) 0x1001 AND push_bit 4 0xf = (0 :: u16)" by auto
  then show ?thesis
    by (cases "udmaTiming s u") (simp_all only: compute_udma_values [OF assms] option.case, rule field_keep, simp_all)
qed

lemma prefetch_cables: "drop_bit 4 (w OR kPIIX_PCI_IDECONFIG_WR_PP_EN) AND 0xf = drop_bit 4 w AND 0xf"
  by (simp add: kPIIX_PCI_IDECONFIG_WR_PP_EN_def drop_bit_or bit.conj_disj_distrib2)

lemma computeUDMA_fields [simp]:
  "channel (computeUDMATimingRegisters u s) = channel s"
  "pioTiming (computeUDMATimingRegisters u s) = pioTiming s"
  "dmaTiming (computeUDMATimingRegisters u s) = dmaTiming s"
  "udmaTiming (computeUDMATimingRegisters u s) = udmaTiming s"
  "idetim (computeUDMATimingRegisters u s) = idetim s"
  "sidetim (computeUDMATimingRegisters u s) = sidetim s"
  "piix (computeUDMATimingRegisters u s) = piix s"
  "initTimingRegisters (computeUDMATimingRegisters u s) = initTimingRegisters s"
  "packetSend (computeUDMATimingRegisters u s) = packetSend s"
  by (simp_all add: computeUDMATimingRegisters_def Let_def split: option.splits)

lemma drive_cached_write [simp]: "drive_cached u (writeTimingRegisters D ch v s) = drive_cached u s"
  by (simp add: drive_cached_def)

text \<open>Timings of the tables are always applied, to the drive in question only.\<close>

lemma apply_timings_cached:
  assumes "\<not> hasSharedDriveTimings ch" "channel s \<le> 1" "u < 2"
    and "pio \<in> set piixPIOTiming" "set_option dma \<subseteq> set piixDMATiming" "set_option udma \<subseteq> set piixUDMATiming"
  obtains s1 where "apply_timings D ch u pio dma udma s = Inr (writeTimingRegisters D ch 0 s1)"
    and "channel s1 = channel s" "piix s1 = piix s" "initTimingRegisters s1 = initTimingRegisters s"
    and "pioTiming s1 = (pioTiming s)(u := Some pio)" "dmaTiming s1 = (dmaTiming s)(u := dma)"
    and "udmaTiming s1 = (udmaTiming s)(u := udma)"
    and "drop_bit 4 (ideConfig s1) AND 0xf = drop_bit 4 (ideConfig s) AND 0xf"
    and "drive_cached u s1"
    and "\<And>u'. u' < 2 \<Longrightarrow> u' \<noteq> u \<Longrightarrow> drive_cached u' s \<Longrightarrow> drive_cached u' s1"
proof -
  define s0 where "s0 = s\<lparr>pioTiming := (pioTiming s)(u := Some pio), dmaTiming := (dmaTiming s)(u := dma),
                udmaTiming := (udmaTiming s)(u := udma)\<rparr>"
  define row where "row = program_row pio dma"
  define s2 where "s2 = s0\<lparr>idetim := (idetim s)(u := column (piix3IDETIM ! row) u),
       sidetim := (if u = 1 then (sidetim s AND NOT (column (piix3SIDETIM ! 0) (unat (channel s)))) OR
                     column (piix3SIDETIM ! row) (unat (channel s)) else sidetim s),
       ideConfig := ideConfig s OR kPIIX_PCI_IDECONFIG_WR_PP_EN\<rparr>"
  define s1 where "s1 = computeUDMATimingRegisters u s2"
  have row: "row \<in> {1, 2, 3, 4}" unfolding row_def by (rule program_row_cases [OF assms(4,5)])
  have c: "unat (channel s) < 2" using channel_cases [OF assms(2)] by auto
  have "computeTimingRegisters ch u s0 = Inr s2"
    using row computeTimingRegisters_value [OF assms(1), of s0 u pio] assms(3)
    by (simp add: s0_def s2_def row_def)
  then have "apply_timings D ch u pio dma udma s = Inr (writeTimingRegisters D ch 0 s1)"
    by (simp add: apply_timings_def s0_def [symmetric] s1_def)
  moreover have "channel s2 = channel s" "udmaTiming s2 u = udma" by (simp_all add: s2_def s0_def)
  note udma = compute_udma_runs [of s2 u, folded s1_def, unfolded this, OF assms(2,3,6)]
  have "drive_cached u s1"
    unfolding drive_cached_def Let_def
    by (rule bexI [of _ pio])
      (use assms udma(1) sidetim_row_in_mask [OF row] in \<open>simp_all add: s1_def s2_def s0_def row_def\<close>)
  moreover have "drive_cached u' s1" if "u' < 2" "u' \<noteq> u" "drive_cached u' s" for u'
  proof -
    have "udma_runs (udmactl s2) (udmatim s2) (ideConfig s2) (unat (channel s)) u' x
        = udma_runs (udmactl s) (udmatim s) (ideConfig s) (unat (channel s)) u' x" for x
      by (simp add: s2_def s0_def udma_runs_prefetch [OF c that(1)])
    then show ?thesis
      using that assms(3) udma(2) [OF that(1,2)]
      by (auto simp: drive_cached_def Let_def s1_def s2_def s0_def)
  qed
  moreover have "drop_bit 4 (ideConfig s1) AND 0xf = drop_bit 4 (ideConfig s) AND 0xf"
    using compute_udma_cables [of s2 u] assms(2,3,6) prefetch_cables [of "ideConfig s"]
    by (simp add: s1_def) (simp add: s2_def s0_def)
  ultimately show ?thesis
    by (intro that [of s1]) (simp_all add: s1_def s2_def s0_def)
qed

end
