(* ===== verification/AtaSelect.thy ===== *)
theory AtaSelect
  imports AtaTimingProps
begin

text \<open>
  Which modes \<open>selectConfig\<close> selects, what it does when a mode is not supported, and that its answer
  can be given back to it.
\<close>

section \<open>Mode numbers\<close>

text \<open>
  \<open>bitSigToNumeric\<close> of the superclass gives the number of the bit that is set. Its argument has one
  bit set in the requests considered here.
\<close>

definition bit_number_law :: "(u8 \<Rightarrow> u8) \<Rightarrow> bool" where
  "bit_number_law bitSigToNumeric \<longleftrightarrow> (\<forall>n < 8. bitSigToNumeric (push_bit n 1) = of_nat n)"

definition requested :: "nat option \<Rightarrow> u8" where
  "requested n = (case n of None \<Rightarrow> 0 | Some n \<Rightarrow> push_bit n 1)"

text \<open>\<open>k\<close> is the greatest mode up to \<open>n\<close> that will do, or 0.\<close>

definition fastest :: "(nat \<Rightarrow> bool) \<Rightarrow> nat \<Rightarrow> nat \<Rightarrow> bool" where
  "fastest ok n k \<longleftrightarrow> k \<le> n \<and> (k = 0 \<or> ok k) \<and> (\<forall>j. k < j \<and> j \<le> n \<longrightarrow> \<not> ok j)"

lemma fastest_downgrade: "fastest ok n (downgrade ok n)"
proof (induction n)
  case (Suc n)
  then show ?case
    by (auto simp: fastest_def le_Suc_eq)
qed (simp add: fastest_def)

lemma downgrade_top: "n = 0 \<or> ok n \<Longrightarrow> downgrade ok n = n"
  by (cases n) auto

lemma below_table: "bit (w AND (push_bit k 1 - 1) :: u8) n \<Longrightarrow> n < k"
proof -
  assume "bit (w AND (push_bit k 1 - 1)) n"
  then have "bit (mask k :: u8) n" by (simp add: bit_and_iff mask_eq_exp_minus_1 push_bit_of_1)
  then show "n < k" by (simp add: bit_mask_iff)
qed

lemma modes_in_tables:
  "bit (PIOModes ch) n \<Longrightarrow> n < length piixPIOTiming"
  "bit (DMAModes ch) n \<Longrightarrow> n < length piixDMATiming"
  "bit (UDMAModes ch) n \<Longrightarrow> n < length piixUDMATiming"
  unfolding PIOModes_def DMAModes_def UDMAModes_def by (rule below_table, assumption)+

lemma requested_None [simp]: "requested None = 0"
  by (simp add: requested_def)

lemma requested_and: "requested (Some n) AND w = 0 \<longleftrightarrow> \<not> bit w n"
  unfolding requested_def option.case by (metis and.commute any_bit_def any_bit_push)

lemma requested_nonzero: "n < 8 \<Longrightarrow> requested (Some n) \<noteq> 0"
  by (simp add: requested_def push_bit_eq_0_iff)

lemma requested_number:
  assumes "bit_number_law B" "n < 8"
  shows "unat (B (requested (Some n))) = n"
  using assms unfolding bit_number_law_def requested_def option.case by (simp add: unat_of_nat)

lemmas requested_rules = requested_and requested_nonzero requested_number

section \<open>The three selections\<close>

definition pio_choice :: "ata_channel \<Rightarrow> IOATADevConfig \<Rightarrow> nat \<Rightarrow> nat" where
  "pio_choice ch config p =
     (if bit (PIOModes ch) p then downgrade (mode_fits (PIOModes ch) (PIOCycleTime config) piixPIOTiming) p else 0)"

definition dma_choice :: "ata_channel \<Rightarrow> IOATADevConfig \<Rightarrow> nat option \<Rightarrow> PIIXTiming option" where
  "dma_choice ch config d =
     (case d of
        None \<Rightarrow> None
      | Some d \<Rightarrow>
          let k = downgrade (mode_fits (DMAModes ch) (DMACycleTime config) piixDMATiming) d
          in if bit (DMAModes ch) k then Some (piixDMATiming ! k) else None)"

definition udma_choice :: "ata_channel \<Rightarrow> nat \<Rightarrow> 'p pata \<Rightarrow> nat option \<Rightarrow> PIIXUDMATiming option" where
  "udma_choice ch u s n = map_option (\<lambda>n. piixUDMATiming ! udma_limit ch u s n) n"

lemma fits_in_table:
  assumes "\<And>n. bit modes n \<Longrightarrow> n < length table" "0 < length table"
  shows "downgrade (mode_fits modes cycle table) n < length table"
  using fastest_downgrade [of "mode_fits modes cycle table" n] assms
  by (auto simp: fastest_def mode_fits_def)

lemma pio_bound: "downgrade (mode_fits (PIOModes ch) cycle piixPIOTiming) n < length piixPIOTiming"
  by (rule fits_in_table) (simp_all add: modes_in_tables [simplified])

lemma pio_choice_bound: "pio_choice ch config p < length piixPIOTiming"
  using pio_bound by (simp add: pio_choice_def)

lemma pio_choice_in_table: "piixPIOTiming ! pio_choice ch config p \<in> set piixPIOTiming"
  by (rule nth_mem [OF pio_choice_bound])

lemma dma_choice_in_table: "set_option (dma_choice ch config d) \<subseteq> set piixDMATiming"
  using modes_in_tables(2) [of ch] by (auto simp: dma_choice_def Let_def intro!: nth_mem split: option.splits if_splits)

lemma udma_limit_in_table:
  "n < length piixUDMATiming \<Longrightarrow> udma_limit ch u s n < length piixUDMATiming"
  by (simp add: udma_limit_def)

lemma udma_choice_in_table:
  "\<forall>m \<in> set_option n. bit (UDMAModes ch) m \<Longrightarrow> set_option (udma_choice ch u s n) \<subseteq> set piixUDMATiming"
  using modes_in_tables(3) [of ch]
  by (auto simp: udma_choice_def intro!: nth_mem udma_limit_in_table simp del: timing_table_lengths)

lemma properties_only:
  "\<exists>r. s = s\<lparr>driveProperties := r\<rparr>" "\<exists>r. setDriveProperty u key v s = s\<lparr>driveProperties := r\<rparr>"
  "\<exists>r. s\<lparr>driveProperties := q\<rparr> = s\<lparr>driveProperties := r\<rparr>"
  by (rule exI [of _ "driveProperties s"], simp) (auto simp: setDriveProperty_def)

lemma select_pio_value:
  assumes "bit_number_law B" "PIOMode config = requested (Some p)" "p < 8"
  shows "\<exists>r. select_pio B ch config u s = Inr (piixPIOTiming ! pio_choice ch config p, s\<lparr>driveProperties := r\<rparr>)"
proof (cases "bit (PIOModes ch) p")
  case True
  then show ?thesis
    using pio_choice_bound [of ch config p] assms
    by (simp only: select_pio_def requested_rules pio_choice_def table_entry_def Let_def properties_only
        if_True if_False not_True_eq_False and_then_simps simp_thms ex_simps prod.inject sum.inject)
next
  case False
  then show ?thesis
    using assms by (simp add: select_pio_def requested_rules pio_choice_def properties_only)
qed

lemma select_dma_value:
  assumes "bit_number_law B" "DMAMode config = requested d" "\<forall>m \<in> set_option d. m < 8 \<and> bit (DMAModes ch) m"
  shows "\<exists>r. select_dma B ch config u s = Some (dma_choice ch config d, s\<lparr>driveProperties := r\<rparr>)"
proof (cases d)
  case None
  then show ?thesis using assms(2) by (simp add: select_dma_def dma_choice_def properties_only)
next
  case (Some m)
  define k where "k = downgrade (mode_fits (DMAModes ch) (DMACycleTime config) piixDMATiming) m"
  have m: "m < 8" "bit (DMAModes ch) m" using Some assms(3) by auto
  have "select_dma B ch config u s = (if bit (DMAModes ch) k
      then Some (Some (piixDMATiming ! k), setDriveProperty u ''DMA Mode'' (of_nat k) s) else Some (None, s))"
    using m assms(1,2) by (simp add: select_dma_def Some requested_rules Let_def k_def)
  then show ?thesis
    by (simp add: dma_choice_def Some Let_def k_def [symmetric] properties_only)
qed

lemma select_udma_value:
  assumes "bit_number_law B" "UltraMode config = requested n" "\<forall>m \<in> set_option n. m < 8 \<and> bit (UDMAModes ch) m"
  shows "\<exists>r. select_udma B ch config u s = Inr (Some (udma_choice ch u s n, s\<lparr>driveProperties := r\<rparr>))"
proof (cases n)
  case None
  then show ?thesis using assms(2) by (simp add: select_udma_def udma_choice_def properties_only)
next
  case (Some m)
  then have m: "m < 8" "bit (UDMAModes ch) m" using assms(3) by auto
  then have "udma_limit ch u s m < length piixUDMATiming"
    using modes_in_tables(3) udma_limit_in_table by blast
  then show ?thesis
    using Some m assms(1,2)
    by (simp add: select_udma_def requested_rules udma_choice_def Let_def table_entry_def properties_only)
qed

section \<open>The result of a supported request\<close>

lemma cable_mask_bit:
  assumes "channel s \<le> 1" "u < 2"
  shows "cable_mask (channel s) u AND w = 0 \<longleftrightarrow> \<not> bit w (4 + 2 * unat (channel s) + u)"
proof -
  have "u = 0 \<or> u = 1" using assms(2) by auto
  then have "cable_mask (channel s) u = push_bit (4 + 2 * unat (channel s) + u) 1"
    using channel_cases [OF assms(1)] by (auto simp: cable_mask_def kPIIX_PCI_IDECONFIG_PCR0_def)
  then show ?thesis by (metis and.commute any_bit_def any_bit_push)
qed

definition request_ok ::
  "ata_channel \<Rightarrow> IOATADevConfig \<Rightarrow> nat \<Rightarrow> nat option \<Rightarrow> nat option \<Rightarrow> bool" where
  "request_ok ch config p d n \<longleftrightarrow>
     PIOMode config = requested (Some p) \<and> p < 8 \<and>
     DMAMode config = requested d \<and> (\<forall>m \<in> set_option d. m < 8 \<and> bit (DMAModes ch) m) \<and>
     UltraMode config = requested n \<and> (\<forall>m \<in> set_option n. m < 8 \<and> bit (UDMAModes ch) m)"

lemma udma_choice_properties [simp]:
  "udma_choice ch u (s\<lparr>driveProperties := r\<rparr>) n = udma_choice ch u s n"
  by (simp add: udma_choice_def udma_limit_def)

lemma compatible_in_table: "pio \<in> set piixPIOTiming \<Longrightarrow> compatible_pio pio dma \<in> set piixPIOTiming"
  using nth_mem [of 0 piixPIOTiming] by (auto simp: compatible_pio_def split: option.split)

lemma selectConfig_value:
  assumes "bit_number_law B" "\<not> hasSharedDriveTimings ch" "channel s \<le> 1" "u < 2"
    and "request_ok ch config p d n"
  defines "dma \<equiv> dma_choice ch config d" and "udma \<equiv> udma_choice ch u s n"
  defines "pio \<equiv> compatible_pio (piixPIOTiming ! pio_choice ch config p) dma"
  obtains s' where "selectConfig D B ch (Some config) u s = Inr (kATANoErr, Some (current_config u s' config), s')"
    and "channel s' = channel s"
    and "pioTiming s' = (pioTiming s)(u := Some pio)" "dmaTiming s' = (dmaTiming s)(u := dma)"
    and "udmaTiming s' = (udmaTiming s)(u := udma)" "packetSend s' u = PacketConfig config"
    and "drop_bit 4 (ideConfig s') AND 0xf = drop_bit 4 (ideConfig s) AND 0xf"
proof -
  note req = assms(5) [unfolded request_ok_def]
  define s0 where "s0 = remove_ata_property ''Ultra DMA Mode''
    (remove_ata_property ''DMA Mode'' (remove_ata_property ''PIO Mode'' s))"
  obtain r0 where s0: "s0 = s\<lparr>driveProperties := r0\<rparr>" by (simp add: s0_def remove_ata_property_def)
  obtain r1 where r1: "select_pio B ch config u s0 =
      Inr (piixPIOTiming ! pio_choice ch config p, s\<lparr>driveProperties := r1\<rparr>)"
    using select_pio_value [OF assms(1), of config p ch u s0] req by (auto simp: s0)
  obtain r2 where r2: "select_dma B ch config u (s\<lparr>driveProperties := r1\<rparr>) =
      Some (dma, s\<lparr>driveProperties := r2\<rparr>)"
    using select_dma_value [OF assms(1), of config d ch u "s\<lparr>driveProperties := r1\<rparr>"] req
    by (auto simp: dma_def)
  obtain r3 where r3: "select_udma B ch config u (s\<lparr>driveProperties := r2\<rparr>) =
      Inr (Some (udma, s\<lparr>driveProperties := r3\<rparr>))"
    using select_udma_value [OF assms(1), of config n ch u "s\<lparr>driveProperties := r2\<rparr>"] req
    by (auto simp: udma_def)
  have tables: "pio \<in> set piixPIOTiming" "set_option dma \<subseteq> set piixDMATiming"
    unfolding pio_def dma_def
    by (rule compatible_in_table, rule pio_choice_in_table) (rule dma_choice_in_table)
  have udma_table: "set_option udma \<subseteq> set piixUDMATiming"
    unfolding udma_def by (rule udma_choice_in_table) (use req in auto)
  obtain s1 where s1: "apply_timings D ch u pio dma udma (s\<lparr>driveProperties := r3\<rparr>) = Inr (writeTimingRegisters D ch 0 s1)"
    and facts: "channel s1 = channel s" "pioTiming s1 = (pioTiming s)(u := Some pio)"
    "dmaTiming s1 = (dmaTiming s)(u := dma)" "udmaTiming s1 = (udmaTiming s)(u := udma)"
    "drop_bit 4 (ideConfig s1) AND 0xf = drop_bit 4 (ideConfig s) AND 0xf"
    using assms(3) by (rule_tac apply_timings_cached [OF assms(2) _ assms(4) tables udma_table, of "s\<lparr>driveProperties := r3\<rparr>" D]) auto
  define s2 where "s2 = writeTimingRegisters D ch 0 s1"
  define s' where "s' = s2\<lparr>packetSend := (packetSend s2)(u := PacketConfig config)\<rparr>"
  have "selectConfig D B ch (Some config) u s = Inr (kATANoErr, Some (current_config u s' config), s')"
    using assms(4) r1 r2 r3 s1
    by (simp add: selectConfig_def s0_def [symmetric] pio_def [symmetric] s2_def [symmetric]
        s'_def [symmetric] getConfig_def)
  then show ?thesis
    by (rule that) (simp_all add: s'_def s2_def facts)
qed

text \<open>C1. A supported request is carried out: each of the three modes is the fastest one, up to the
  mode asked for, that controller and drive can do (an Ultra DMA mode above 2 needs the
  80-conductor cable), PIO falls back to compatible timing where it would run at another
  speed than DMA, the answer is the configuration selected, and the other drive keeps its own.\<close>

theorem selectConfig_selects:
  assumes "bit_number_law B" "\<not> hasSharedDriveTimings ch" "channel s \<le> 1" "u < 2"
    and "request_ok ch config p d n"
  shows "\<exists>config' s' k.
    selectConfig D B ch (Some config) u s = Inr (kATANoErr, Some config', s') \<and>
    config' = current_config u s' config \<and>
    (if bit (PIOModes ch) p
     then fastest (mode_fits (PIOModes ch) (PIOCycleTime config) piixPIOTiming) p k else k = 0) \<and>
    (case d of
       None \<Rightarrow> dmaTiming s' u = None
     | Some d \<Rightarrow> \<exists>j. fastest (mode_fits (DMAModes ch) (DMACycleTime config) piixDMATiming) d j \<and>
                      dmaTiming s' u = (if bit (DMAModes ch) j then Some (piixDMATiming ! j) else None)) \<and>
    pioTiming s' u = Some (case dmaTiming s' u of
       None \<Rightarrow> piixPIOTiming ! k
     | Some t \<Rightarrow> if cycleTime (piixPIOTiming ! k) = cycleTime t then piixPIOTiming ! k else piixPIOTiming ! 0) \<and>
    udmaTiming s' u = (case n of
       None \<Rightarrow> None
     | Some n \<Rightarrow> Some (piixUDMATiming !
         (if n > 2 \<and> channelMode ch = kChannelModePATA \<and> \<not> bit (ideConfig s) (4 + 2 * unat (channel s) + u)
          then 2 else n))) \<and>
    (\<forall>u'. u' \<noteq> u \<longrightarrow> pioTiming s' u' = pioTiming s u' \<and> dmaTiming s' u' = dmaTiming s u' \<and>
                      udmaTiming s' u' = udmaTiming s u')"
proof -
  obtain s' where s': "selectConfig D B ch (Some config) u s = Inr (kATANoErr, Some (current_config u s' config), s')"
    "pioTiming s' = (pioTiming s)(u := Some (compatible_pio (piixPIOTiming ! pio_choice ch config p) (dma_choice ch config d)))"
    "dmaTiming s' = (dmaTiming s)(u := dma_choice ch config d)"
    "udmaTiming s' = (udmaTiming s)(u := udma_choice ch u s n)"
    by (rule selectConfig_value [OF assms, of D])
  have "if bit (PIOModes ch) p
     then fastest (mode_fits (PIOModes ch) (PIOCycleTime config) piixPIOTiming) p (pio_choice ch config p)
     else pio_choice ch config p = 0"
    by (simp add: pio_choice_def fastest_downgrade)
  moreover have "case d of
       None \<Rightarrow> dma_choice ch config d = None
     | Some d' \<Rightarrow> \<exists>j. fastest (mode_fits (DMAModes ch) (DMACycleTime config) piixDMATiming) d' j \<and>
                      dma_choice ch config d = (if bit (DMAModes ch) j then Some (piixDMATiming ! j) else None)"
    by (cases d) (auto simp: dma_choice_def Let_def intro: fastest_downgrade)
  moreover have "udma_choice ch u s n = (case n of
       None \<Rightarrow> None
     | Some n \<Rightarrow> Some (piixUDMATiming !
         (if n > 2 \<and> channelMode ch = kChannelModePATA \<and> \<not> bit (ideConfig s) (4 + 2 * unat (channel s) + u)
          then 2 else n)))"
    by (cases n) (simp_all add: udma_choice_def udma_limit_def cable_mask_bit [OF assms(3,4)])
  ultimately show ?thesis
    by (intro exI [of _ "current_config u s' config"] exI [of _ s'] exI [of _ "pio_choice ch config p"])
      (auto simp: s' compatible_pio_def split: option.splits)
qed

section \<open>Unsupported requests\<close>

lemma select_pio_returns:
  "\<exists>t r. select_pio B ch config u s = Inr (t, s\<lparr>driveProperties := r\<rparr>)"
  by (simp add: select_pio_def Let_def table_entry_def properties_only pio_bound
      del: timing_table_lengths)

lemma select_dma_None:
  "select_dma B ch config u s = None \<longleftrightarrow> DMAMode config \<noteq> 0 \<and> DMAMode config AND DMAModes ch = 0"
  by (simp add: select_dma_def Let_def)

lemma select_dma_Some:
  assumes "select_dma B ch config u s = Some (t, s')"
  shows "\<exists>r. s' = s\<lparr>driveProperties := r\<rparr>"
proof -
  have "s' = s \<or> (\<exists>v. s' = setDriveProperty u ''DMA Mode'' v s)"
    using assms by (auto simp: select_dma_def Let_def split: if_splits)
  then show ?thesis using properties_only by metis
qed

text \<open>C2. A request for a DMA or Ultra DMA mode the controller does not have is refused with
  \<open>kATAModeNotSupported\<close>, whatever else it asks for; no timing, no register value and nothing in
  the hardware changes, only the published properties.\<close>

theorem selectConfig_unsupported:
  assumes "u < 2"
    and "DMAMode config \<noteq> 0 \<and> DMAMode config AND DMAModes ch = 0 \<or>
         UltraMode config \<noteq> 0 \<and> UltraMode config AND UDMAModes ch = 0"
  shows "\<exists>r. selectConfig D B ch (Some config) u s =
           Inr (kATAModeNotSupported, Some config, s\<lparr>driveProperties := r\<rparr>)"
proof -
  define s0 where "s0 = remove_ata_property ''Ultra DMA Mode''
    (remove_ata_property ''DMA Mode'' (remove_ata_property ''PIO Mode'' s))"
  obtain r0 where s0: "s0 = s\<lparr>driveProperties := r0\<rparr>" by (simp add: s0_def remove_ata_property_def)
  obtain t r1 where r1: "select_pio B ch config u s0 = Inr (t, s\<lparr>driveProperties := r1\<rparr>)"
    using select_pio_returns [of B ch config u s0] by (auto simp: s0)
  show ?thesis
  proof (cases "select_dma B ch config u (s\<lparr>driveProperties := r1\<rparr>)")
    case None
    then show ?thesis
      using assms(1) r1 by (simp add: selectConfig_def s0_def [symmetric] properties_only)
  next
    case (Some q)
    obtain dma s2 where q: "q = (dma, s2)" by (cases q)
    from select_dma_Some [OF Some [unfolded q]] obtain r2 where r2: "s2 = s\<lparr>driveProperties := r2\<rparr>" by auto
    have "UltraMode config \<noteq> 0 \<and> UltraMode config AND UDMAModes ch = 0"
      using assms(2) Some select_dma_None [of B ch config u "s\<lparr>driveProperties := r1\<rparr>"] by auto
    then have "select_udma B ch config u (s\<lparr>driveProperties := r2\<rparr>) = Inr None"
      by (simp add: select_udma_def)
    then show ?thesis
      using assms(1) r1 Some by (simp add: selectConfig_def s0_def [symmetric] q r2 properties_only)
  qed
qed

section \<open>The answer, given back\<close>

lemma pio_mode_requested:
  assumes "j < 5"
  shows "2 ^ unat (timingMode (piixPIOTiming ! j)) = requested (Some j)"
  using assms pio_timing_nth(1) [of j] by (simp add: requested_def unat_of_nat)

lemma dma_mode_requested:
  assumes "j < 3"
  shows "2 ^ unat (timingMode (piixDMATiming ! j)) = requested (Some j)"
  using assms dma_timing_nth(1) [of j] by (simp add: requested_def unat_of_nat)

lemma udma_mode_requested:
  assumes "j < 6"
  shows "2 ^ unat (udmaMode (piixUDMATiming ! j)) = requested (Some j)"
  using assms udma_timing_nth [of j] by (simp add: requested_def unat_of_nat)

lemma pio_choice_fits: "pio_choice ch config p = 0 \<or> bit (PIOModes ch) (pio_choice ch config p)"
  using fastest_downgrade [of "mode_fits (PIOModes ch) (PIOCycleTime config) piixPIOTiming" p]
  by (auto simp: pio_choice_def fastest_def mode_fits_def)

lemma dma_choice_index:
  "\<exists>k. dma_choice ch config d = map_option (\<lambda>k. piixDMATiming ! k) k \<and> (\<forall>i \<in> set_option k. bit (DMAModes ch) i)"
proof (cases d)
  case (Some m)
  define i where "i = downgrade (mode_fits (DMAModes ch) (DMACycleTime config) piixDMATiming) m"
  show ?thesis
    by (rule exI [of _ "if bit (DMAModes ch) i then Some i else None"])
      (simp add: dma_choice_def Some Let_def i_def [symmetric])
qed (simp add: dma_choice_def)

lemma compatible_cases: "compatible_pio t dma = t \<or> compatible_pio t dma = piixPIOTiming ! 0"
  by (simp add: compatible_pio_def split: option.split)

lemma compatible_again: "compatible_pio (compatible_pio t dma) dma = compatible_pio t dma"
  by (simp add: compatible_pio_def split: option.split)

text \<open>What the driver reports as the configuration of a drive is a request that selects it again.\<close>

lemma choices_again:
  assumes "j < length piixPIOTiming" "j = 0 \<or> bit (PIOModes ch) j" "pioTiming s u = Some (piixPIOTiming ! j)"
    and "dmaTiming s u = map_option (\<lambda>k. piixDMATiming ! k) k" "\<forall>i \<in> set_option k. bit (DMAModes ch) i"
    and "udmaTiming s u = map_option (\<lambda>m. piixUDMATiming ! m) m" "\<forall>i \<in> set_option m. bit (UDMAModes ch) i"
  shows "request_ok ch (current_config u s config) j k m"
    and "pio_choice ch (current_config u s config) j = j"
    and "dma_choice ch (current_config u s config) k = dmaTiming s u"
proof -
  have k: "\<forall>i \<in> set_option k. i < length piixDMATiming" using assms(5) modes_in_tables(2) by blast
  have m: "\<forall>i \<in> set_option m. i < length piixUDMATiming" using assms(7) modes_in_tables(3) by blast
  show "request_ok ch (current_config u s config) j k m"
    unfolding request_ok_def current_config_def Let_def
    using assms k m
    by (cases k; cases m)
      (auto simp: pio_mode_requested dma_mode_requested udma_mode_requested)
  have "PIOCycleTime (current_config u s config) = cycleTime (piixPIOTiming ! j)"
    using assms(3) by (cases k; cases m) (simp_all add: current_config_def assms(4,6))
  then show "pio_choice ch (current_config u s config) j = j"
    using assms(2) by (auto simp: pio_choice_def mode_fits_def intro!: downgrade_top)
  have "DMACycleTime (current_config u s config) = cycleTime (piixDMATiming ! i)" if "k = Some i" for i
    using assms(3) that by (cases m) (simp_all add: current_config_def assms(4,6))
  then show "dma_choice ch (current_config u s config) k = dmaTiming s u"
    using assms(4,5) by (cases k) (simp_all add: dma_choice_def mode_fits_def downgrade_top)
qed

lemma current_config_again:
  assumes "pioTiming s'' u = pioTiming s' u" "dmaTiming s'' u = dmaTiming s' u"
    "udmaTiming s'' u = udmaTiming s' u" "packetSend s'' u = packetSend s' u"
  shows "current_config u s'' (current_config u s' config) = current_config u s' config"
  using assms
  by (cases "pioTiming s' u"; cases "dmaTiming s' u"; cases "udmaTiming s' u")
    (simp_all add: current_config_def)

lemma cable_bit_kept:
  fixes w w' :: u16
  assumes "drop_bit 4 w' AND 0xf = drop_bit 4 w AND 0xf" "i < 4"
  shows "bit w' (4 + i) = bit w (4 + i)"
proof -
  have "bit (drop_bit 4 w' AND mask 4) i = bit (drop_bit 4 w AND mask 4) i"
    using assms(1) by (simp add: mask_eq_exp_minus_1)
  then show ?thesis using assms(2) by (simp add: bit_and_iff bit_mask_iff bit_drop_bit_eq)
qed

lemma udma_choice_again:
  assumes "channel s \<le> 1" "u < 2" "channel s' = channel s"
    and "drop_bit 4 (ideConfig s') AND 0xf = drop_bit 4 (ideConfig s) AND 0xf"
  shows "udma_choice ch u s' (map_option (udma_limit ch u s) n) = udma_choice ch u s n"
proof -
  have "2 * unat (channel s) + u < 4" using channel_cases [OF assms(1)] assms(2) by auto
  then have "bit (ideConfig s') (4 + (2 * unat (channel s) + u)) = bit (ideConfig s) (4 + (2 * unat (channel s) + u))"
    by (rule cable_bit_kept [OF assms(4)])
  then have "udma_limit ch u s' m = udma_limit ch u s m" for m
    using cable_mask_bit [OF assms(1,2)] by (simp add: udma_limit_def assms(3) add.assoc)
  then show ?thesis
    by (cases n) (simp_all add: udma_choice_def, simp add: udma_limit_def)
qed

text \<open>C3. The configuration that \<open>selectConfig\<close> answers with can be given back to it: it is accepted,
  answered with unchanged, and the drive's timings stay as they are. (If the cable limits Ultra DMA,
  mode 2 must be one of the controller's modes.)\<close>

theorem selectConfig_again:
  assumes "bit_number_law B" "\<not> hasSharedDriveTimings ch" "channel s \<le> 1" "u < 2"
    and "request_ok ch config p d n" "\<forall>m \<in> set_option n. 2 < m \<longrightarrow> bit (UDMAModes ch) 2"
    and "selectConfig D B ch (Some config) u s = Inr (kATANoErr, Some config', s')"
  shows "\<exists>s''. selectConfig D B ch (Some config') u s' = Inr (kATANoErr, Some config', s'') \<and>
           pioTiming s'' = pioTiming s' \<and> dmaTiming s'' = dmaTiming s' \<and> udmaTiming s'' = udmaTiming s'"
proof -
  define dma where "dma = dma_choice ch config d"
  define m where "m = map_option (udma_limit ch u s) n"
  obtain t where t: "selectConfig D B ch (Some config) u s = Inr (kATANoErr, Some (current_config u t config), t)"
    "channel t = channel s"
    "pioTiming t = (pioTiming s)(u := Some (compatible_pio (piixPIOTiming ! pio_choice ch config p) dma))"
    "dmaTiming t = (dmaTiming s)(u := dma)" "udmaTiming t = (udmaTiming s)(u := udma_choice ch u s n)"
    "drop_bit 4 (ideConfig t) AND 0xf = drop_bit 4 (ideConfig s) AND 0xf"
    unfolding dma_def by (rule selectConfig_value [OF assms(1-5), of D])
  then have "t = s'" "config' = current_config u s' config" using assms(7) by auto
  note s' = this(2) t(2-6) [unfolded this(1)]
  have s'u: "pioTiming s' u = Some (compatible_pio (piixPIOTiming ! pio_choice ch config p) dma)"
    "dmaTiming s' u = dma" "udmaTiming s' u = udma_choice ch u s n"
    by (simp_all add: s'(3-5))
  obtain j where j: "j < length piixPIOTiming" "j = 0 \<or> bit (PIOModes ch) j"
    "compatible_pio (piixPIOTiming ! pio_choice ch config p) dma = piixPIOTiming ! j"
  proof (cases "compatible_pio (piixPIOTiming ! pio_choice ch config p) dma = piixPIOTiming ! pio_choice ch config p")
    case True
    then show ?thesis by (rule that [OF pio_choice_bound pio_choice_fits])
  next
    case False
    then show ?thesis using compatible_cases by (intro that [of 0]) auto
  qed
  obtain k where k: "dma = map_option (\<lambda>k. piixDMATiming ! k) k" "\<forall>i \<in> set_option k. bit (DMAModes ch) i"
    using dma_choice_index [of ch config d] unfolding dma_def by metis
  have udma: "udma_choice ch u s n = map_option (\<lambda>m. piixUDMATiming ! m) m" "\<forall>i \<in> set_option m. bit (UDMAModes ch) i"
    using assms(5,6) unfolding m_def udma_choice_def request_ok_def
    by (cases n; auto simp: udma_limit_def)+
  note again = choices_again [OF j(1,2) s'u(1) [unfolded j(3)] s'u(2) [unfolded k(1)] k(2) s'u(3) [unfolded udma(1)] udma(2),
      of config, folded s'(1)]
  obtain s'' where s'': "selectConfig D B ch (Some config') u s' = Inr (kATANoErr, Some (current_config u s'' config'), s'')"
    "pioTiming s'' = (pioTiming s')(u := Some (compatible_pio (piixPIOTiming ! pio_choice ch config' j) (dma_choice ch config' k)))"
    "dmaTiming s'' = (dmaTiming s')(u := dma_choice ch config' k)"
    "udmaTiming s'' = (udmaTiming s')(u := udma_choice ch u s' m)" "packetSend s'' u = PacketConfig config'"
    by (rule selectConfig_value [OF assms(1,2) _ assms(4) again(1), of s' D]) (use assms(3) s'(2) in simp_all)
  have same: "pioTiming s'' = pioTiming s'" "dmaTiming s'' = dmaTiming s'" "udmaTiming s'' = udmaTiming s'"
    using s'u udma_choice_again [OF assms(3,4) s'(2,6), of ch n] again(2,3)
    by (auto simp: s''(2,3,4) j(3) [symmetric] compatible_again m_def fun_upd_idem)
  have "packetSend s'' u = packetSend s' u"
    by (simp add: s''(5) s'(1) current_config_def Let_def)
  then have "current_config u s'' config' = config'"
    unfolding s'(1) by (rule current_config_again [rotated 3]) (simp_all add: same)
  then show ?thesis using s''(1) same by auto
qed

section \<open>Witnesses\<close>

text \<open>
  A primary parallel channel with the modes of the ICH controllers' personalities, and requests of a
  drive that can do Ultra DMA 5 behind a 40-conductor cable.
\<close>

definition first_bit :: "u8 \<Rightarrow> u8" where
  "first_bit w = (case map_of [(1, 0), (2, 1), (4, 2), (8, 3), (16, 4), (32, 5), (64, 6), (128, 7)] w of
     Some n \<Rightarrow> n | None \<Rightarrow> 0)"

definition sample_channel :: ata_channel where
  "sample_channel = \<lparr>cmdBlock = 0x1f0, ctrBlock = 0x3f4, interruptVector = 14, pioModeMask = 0x1d,
     dmaModeMask = 0x06, udmaModeMask = 0x3f, channelNum = 0, channelMode = kChannelModePATA,
     controllerName = None, hasSharedDriveTimings = False\<rparr>"

definition sample_config :: IOATADevConfig where
  "sample_config = \<lparr>PIOMode = 0x10, PIOCycleTime = 120, DMAMode = 0x04, DMACycleTime = 150,
     UltraMode = 0x20, PacketConfig = 7\<rparr>"

abbreviation sample_pata :: "(u8 \<Rightarrow> u8) pata" where
  "sample_pata \<equiv> new_pata (\<lambda>_. 0)"

lemma first_bit_law: "bit_number_law first_bit"
proof -
  have "first_bit (push_bit n 1) = of_nat n" if "n < 8" for n
  proof -
    have "n \<in> {0, 1, 2, 3, 4, 5, 6, 7}" using that by auto
    then show ?thesis by (elim insertE emptyE; simp add: first_bit_def)
  qed
  then show ?thesis by (simp add: bit_number_law_def)
qed

lemma sample_request: "request_ok sample_channel sample_config 4 (Some 2) (Some 5)"
  by (simp add: request_ok_def sample_config_def sample_channel_def requested_def DMAModes_def UDMAModes_def)

lemma sample_pata_fields:
  "channel sample_pata \<le> 1" "\<not> hasSharedDriveTimings sample_channel"
  "PIOModes sample_channel = 0x1d" "DMAModes sample_channel = 0x06" "UDMAModes sample_channel = 0x3f"
  by (simp_all add: new_pata_def sample_channel_def PIOModes_def DMAModes_def UDMAModes_def)

theorem selectConfig_selects_witness:
  "\<exists>config' s'. selectConfig plain_device first_bit sample_channel (Some sample_config) 1 sample_pata
      = Inr (kATANoErr, Some config', s') \<and> udmaTiming s' 1 = Some (piixUDMATiming ! 2)"
  using selectConfig_selects [OF first_bit_law sample_pata_fields(2,1) _ sample_request, of 1 plain_device]
  by (auto simp: sample_channel_def new_pata_def)

theorem selectConfig_unsupported_witness:
  "\<exists>r. selectConfig plain_device first_bit sample_channel (Some (sample_config\<lparr>DMAMode := 1\<rparr>)) 0 sample_pata
      = Inr (kATAModeNotSupported, Some (sample_config\<lparr>DMAMode := 1\<rparr>), sample_pata\<lparr>driveProperties := r\<rparr>)"
  by (rule selectConfig_unsupported) (simp_all add: sample_pata_fields)

theorem selectConfig_again_witness:
  "\<exists>config' s' s''. selectConfig plain_device first_bit sample_channel (Some sample_config) 1 sample_pata
      = Inr (kATANoErr, Some config', s') \<and>
    selectConfig plain_device first_bit sample_channel (Some config') 1 s' = Inr (kATANoErr, Some config', s'') \<and>
    udmaTiming s'' = udmaTiming s'"
proof -
  obtain s' where s': "selectConfig plain_device first_bit sample_channel (Some sample_config) 1 sample_pata
      = Inr (kATANoErr, Some (current_config 1 s' sample_config), s')"
    by (rule selectConfig_value [OF first_bit_law sample_pata_fields(2,1) _ sample_request, of 1 plain_device]) auto
  show ?thesis
    using selectConfig_again [OF first_bit_law sample_pata_fields(2,1) _ sample_request _ s'] s'
    by (auto simp: sample_pata_fields)
qed

end
