(* ===== verification/AtaDriver.thy ===== *)
theory AtaDriver
  imports AtaTiming
begin

text \<open>
  The rest of \<open>AppleIntelPIIXPATA\<close> and its subclass \<open>AppleIntelICHxSATA\<close>: start, interrupts, the
  power of the controller and of the drive, polling, scanning for drives. What an operation asks of
  its superclass is an argument: a function on the driver's state.
\<close>

type_synonym 'p super = "'p pata \<Rightarrow> 'p pata"

section \<open>Registers of the channel\<close>

definition io_write :: "'p ata_device \<Rightarrow> u16 \<Rightarrow> u8 \<Rightarrow> 'p pata \<Rightarrow> 'p pata" where
  "io_write D a v s = on_device (ioWrite8 D a v) s"

definition io_read :: "'p ata_device \<Rightarrow> u16 \<Rightarrow> 'p pata \<Rightarrow> u8 \<times> 'p pata" where
  "io_read D a s = (let (v, p) = ioRead8 D a (piix s) in (v, s\<lparr>piix := p\<rparr>))"

definition bmStatusReg :: "'p pata \<Rightarrow> u16" where "bmStatusReg s = ioBMOffset s + 0x02"
definition tfSDHReg :: "'p pata \<Rightarrow> u16" where "tfSDHReg s = pataCmd s + 6"
definition tfStatusCmdReg :: "'p pata \<Rightarrow> u16" where "tfStatusCmdReg s = pataCmd s + 7"
definition tfAltSDevCReg :: "'p pata \<Rightarrow> u16" where "tfAltSDevCReg s = pataCtr s + 2"

definition mATABusy :: u8 where "mATABusy = 0x80"
definition mATADataRequest :: u8 where "mATADataRequest = 0x08"
definition mATADCRReset :: u8 where "mATADCRReset = 0x04"

definition clear_interrupt :: "'p ata_device \<Rightarrow> 'p pata \<Rightarrow> 'p pata" where
  "clear_interrupt D s = io_write D (bmStatusReg s) kPIIX_IO_BMISX_IDEINTS s"

definition disable_interrupts :: "'p pata \<Rightarrow> 'p pata" where
  "disable_interrupts s = (if intSrc s then record_call DisableInterrupts s else s)"

definition enable_interrupts :: "'p pata \<Rightarrow> 'p pata" where
  "enable_interrupts s = (if intSrc s then record_call EnableInterrupts s else s)"

section \<open>Interrupts\<close>

definition interruptFilter :: "'p ata_device \<Rightarrow> 'p pata \<Rightarrow> bool \<times> 'p pata" where
  "interruptFilter D s =
     (let (status, s) = io_read D (bmStatusReg s) s
      in if any_bit status kPIIX_IO_BMISX_IDEINTS then (True, clear_interrupt D s) else (False, s))"

definition pata_interruptOccurred :: "'p super \<Rightarrow> 'p pata \<Rightarrow> 'p pata" where
  "pata_interruptOccurred handleDeviceInterrupt s = handleDeviceInterrupt (record_call HandleDeviceInterrupt s)"

definition pata_synchronousIO :: "'p ata_device \<Rightarrow> ('p pata \<Rightarrow> u32 \<times> 'p pata) \<Rightarrow> 'p pata \<Rightarrow> u32 \<times> 'p pata" where
  "pata_synchronousIO D super s =
     (let (ret, s) = super (disable_interrupts s)
      in (ret, enable_interrupts (clear_interrupt D s)))"

definition pata_selectDevice ::
  "'p ata_device \<Rightarrow> (nat \<Rightarrow> 'p pata \<Rightarrow> u32 \<times> 'p pata) \<Rightarrow> nat \<Rightarrow> 'p pata \<Rightarrow> u32 \<times> 'p pata" where
  "pata_selectDevice D super u s =
     (let (result, s) = super u (disable_interrupts s)
      in (result, enable_interrupts (clear_interrupt D s)))"

definition sata_selectDevice ::
  "'p ata_device \<Rightarrow> (nat \<Rightarrow> 'p pata \<Rightarrow> u32 \<times> 'p pata) \<Rightarrow> nat \<Rightarrow> 'p pata \<Rightarrow> u32 \<times> 'p pata" where
  "sata_selectDevice D super u s =
     (let s = (if selectedUnit s \<noteq> Some 1 \<and> deviceType s 0 = UnknownATADevice
                  \<and> deviceType s 1 \<noteq> UnknownATADevice
               then io_write D (tfSDHReg s) (push_bit 4 1) s else s)
      in pata_selectDevice D super u s)"

text \<open>\<open>_currentCommand\<close> is read without a check.\<close>

definition determineATAPIState :: "nat \<Rightarrow> nat \<Rightarrow> 'p pata \<Rightarrow> kernel_error + nat" where
  "determineATAPIState ataStarted drivePhase s =
     and_then (non_null (currentCommand s)) (\<lambda>c.
       Inr (if commandState c > drivePhase \<or> commandState c = ataStarted then commandState c else drivePhase))"

definition handleQueueFlush :: "'p pata \<Rightarrow> 'p pata" where
  "handleQueueFlush s =
     (let savedQstate = queueState s;
          s = s\<lparr>queueState := QueueLocked\<rparr>;
          s = fold (\<lambda>c. record_call (CommandFailed c)) (commandQueue s) (s\<lparr>commandQueue := []\<rparr>)
      in s\<lparr>queueState := savedQstate\<rparr>)"

section \<open>Polling\<close>

definition isPolling :: "'p pata \<Rightarrow> bool" where
  "isPolling s \<longleftrightarrow> polled s = Some True"

definition executeEventCallouts :: "'p super \<Rightarrow> 'p pata \<Rightarrow> 'p pata" where
  "executeEventCallouts super s = (if isPolling s then s else super (record_call ExecuteCallouts s))"

definition startTimer :: "'p super \<Rightarrow> u32 \<Rightarrow> 'p pata \<Rightarrow> 'p pata" where
  "startTimer super ms s = (if isPolling s then s else super (record_call (StartTimer ms) s))"

definition stopTimer :: "'p super \<Rightarrow> 'p pata \<Rightarrow> 'p pata" where
  "stopTimer super s = (if isPolling s then s else super (record_call StopTimer s))"

definition pollEntry :: "'p ata_device \<Rightarrow> 'p super \<Rightarrow> 'p pata \<Rightarrow> 'p pata" where
  "pollEntry D handleDeviceInterrupt s =
     (if currentCommand s = None then s
      else let (status, s) = io_read D (bmStatusReg s) s
           in if any_bit status kPIIX_IO_BMISX_IDEINTS
              then handleDeviceInterrupt (record_call HandleDeviceInterrupt (clear_interrupt D s))
              else s)"

definition transitionFixup :: "'p pata \<Rightarrow> 'p pata" where
  "transitionFixup s =
     record_call RestoreDeviceState
       (s\<lparr>queueState := QueueOpen, busState := BusFree, currentCommand := None, selectedUnit := None,
          immediateGate := ImmediateOK\<rparr>)"

text \<open>The polled adapter; its methods run only while the driver has one.\<close>

datatype polled_state = PolledPreflight | PolledBeforeSleep | PolledAfterSleep | PolledPostflight | OtherPolledState

definition set_polling :: "bool \<Rightarrow> 'p pata \<Rightarrow> 'p pata" where
  "set_polling b s = s\<lparr>polled := Some b\<rparr>"

definition polled_open :: "polled_state \<Rightarrow> 'p pata \<Rightarrow> 'p pata" where
  "polled_open st s =
     (case st of
        PolledBeforeSleep \<Rightarrow> set_polling True s
      | PolledAfterSleep \<Rightarrow> set_polling True (transitionFixup s)
      | _ \<Rightarrow> s)"

definition polled_close :: "polled_state \<Rightarrow> 'p pata \<Rightarrow> 'p pata" where
  "polled_close st s = set_polling False s"

definition polled_probe :: "'p pata \<Rightarrow> 'p pata" where
  "polled_probe s = set_polling False s"

definition polled_checkForWork :: "'p ata_device \<Rightarrow> 'p super \<Rightarrow> 'p pata \<Rightarrow> 'p pata" where
  "polled_checkForWork D handleDeviceInterrupt s = pollEntry D handleDeviceInterrupt s"

definition polled_startIO :: "ata_return" where
  "polled_startIO = kIOReturnUnsupported"

text \<open>The serial driver and its adapter repeat these, with a flag of their own.\<close>

definition sata_isPolling :: "'p pata \<Rightarrow> bool" where
  "sata_isPolling s \<longleftrightarrow> polledSATA s = Some True"

definition sata_executeEventCallouts :: "'p super \<Rightarrow> 'p pata \<Rightarrow> 'p pata" where
  "sata_executeEventCallouts super s = (if sata_isPolling s then s else executeEventCallouts super s)"

definition sata_startTimer :: "'p super \<Rightarrow> u32 \<Rightarrow> 'p pata \<Rightarrow> 'p pata" where
  "sata_startTimer super ms s = (if sata_isPolling s then s else startTimer super ms s)"

definition sata_stopTimer :: "'p super \<Rightarrow> 'p pata \<Rightarrow> 'p pata" where
  "sata_stopTimer super s = (if sata_isPolling s then s else stopTimer super s)"

definition sata_polled_open :: "polled_state \<Rightarrow> 'p pata \<Rightarrow> 'p pata" where
  "sata_polled_open st s =
     (case st of
        PolledBeforeSleep \<Rightarrow> s\<lparr>polledSATA := Some True\<rparr>
      | PolledAfterSleep \<Rightarrow> (transitionFixup s)\<lparr>polledSATA := Some True\<rparr>
      | _ \<Rightarrow> s)"

definition sata_polled_close :: "polled_state \<Rightarrow> 'p pata \<Rightarrow> 'p pata" where
  "sata_polled_close st s = s\<lparr>polledSATA := Some False\<rparr>"

section \<open>The drive's power\<close>

definition turnOffDrive :: "'p ata_device \<Rightarrow> 'p pata \<Rightarrow> 'p pata" where
  "turnOffDrive D s =
     (let s = disable_interrupts s;
          bits = configRead32 D kPIIX_PCI_IDECONFIG (piix s) AND NOT (push_bit 16 0x3);
          s = on_device (configWrite32 D kPIIX_PCI_IDECONFIG (push_bit 16 0x02 OR bits)) s;
          s = record_call (EvaluateObject ''_PS3'') s;
          s = s\<lparr>drivePowerOn := False\<rparr>
      in enable_interrupts (clear_interrupt D s))"

text \<open>Reading the status register up to \<open>n\<close> times until none of the bits \<open>m\<close> is set.\<close>

fun wait_status :: "'p ata_device \<Rightarrow> u8 \<Rightarrow> nat \<Rightarrow> 'p pata \<Rightarrow> 'p pata" where
  "wait_status D m 0 s = s"
| "wait_status D m (Suc n) s =
     (let (status, s) = io_read D (tfStatusCmdReg s) s
      in if any_bit status m then wait_status D m n s else s)"

definition turnOnDrive :: "'p ata_device \<Rightarrow> 'p super \<Rightarrow> 'p pata \<Rightarrow> 'p pata" where
  "turnOnDrive D superCallouts s =
     (let s = disable_interrupts s;
          s = s\<lparr>drivePowerOn := True\<rparr>;
          s = record_call (EvaluateObject ''_PS0'') s;
          bits = configRead32 D kPIIX_PCI_IDECONFIG (piix s);
          s = on_device (configWrite32 D kPIIX_PCI_IDECONFIG (NOT (push_bit 16 0x3) AND bits)) s;
          s = wait_status D 0x80 3100 s;
          s = enable_interrupts (clear_interrupt D s)
      in executeEventCallouts superCallouts s)"

definition pata_completeIO ::
  "'p ata_device \<Rightarrow> u32 \<Rightarrow> 'p super \<Rightarrow> 'p pata \<Rightarrow> kernel_error + 'p pata" where
  "pata_completeIO D mATAFlagQuiesce super s =
     and_then (non_null (currentCommand s)) (\<lambda>c.
       let quiescePower = any_bit (commandFlags c) mATAFlagQuiesce;
           s = super s
       in if quiescePower
          then (if hasACPI s then Inr (turnOffDrive D s) else Inl NullDereference)
          else Inr s)"

definition with_drive_power :: "'p ata_device \<Rightarrow> 'p super \<Rightarrow> 'p pata \<Rightarrow> kernel_error + 'p pata" where
  "with_drive_power D superCallouts s =
     (if drivePowerOn s then Inr s
      else if hasACPI s then Inr (turnOnDrive D superCallouts s) else Inl NullDereference)"

definition pata_dispatchNext ::
  "'p ata_device \<Rightarrow> 'p super \<Rightarrow> ('p pata \<Rightarrow> u32 \<times> 'p pata) \<Rightarrow> 'p pata \<Rightarrow> kernel_error + (u32 \<times> 'p pata)" where
  "pata_dispatchNext D superCallouts super s =
     and_then (with_drive_power D superCallouts s) (\<lambda>s. Inr (super s))"

definition handleInsert :: "'p ata_device \<Rightarrow> 'p super \<Rightarrow> 'p pata \<Rightarrow> kernel_error + 'p pata" where
  "handleInsert D superCallouts s = with_drive_power D superCallouts s"

definition mediaInterestHandler ::
  "'p ata_device \<Rightarrow> 'p super \<Rightarrow> bool \<Rightarrow> u32 \<Rightarrow> 'p pata \<Rightarrow> kernel_error + 'p pata" where
  "mediaInterestHandler D superCallouts isDeviceNotification messageVal s =
     (if isDeviceNotification \<and> messageVal = 0x81 then handleInsert D superCallouts s else Inr s)"

section \<open>The controller's power\<close>

text \<open>States 0, 1 and 2 are off, doze and on.\<close>

definition reset_drive :: "'p ata_device \<Rightarrow> 'p pata \<Rightarrow> 'p pata" where
  "reset_drive D s =
     (let s = wait_status D (mATABusy OR mATADataRequest) 100000 s;
          s = io_write D (tfSDHReg s) 0 s;
          s = wait_status D mATABusy 100000 s;
          s = io_write D (tfStatusCmdReg s) 0x08 s
      in wait_status D mATABusy 100000 s)"

definition pata_setPowerState :: "'p ata_device \<Rightarrow> ata_channel \<Rightarrow> nat \<Rightarrow> 'p pata \<Rightarrow> 'p pata" where
  "pata_setPowerState D ch stateIndex s =
     (if stateIndex = 0 then s\<lparr>initTimingRegisters := True\<rparr>
      else if initTimingRegisters s
      then (writeTimingRegisters D ch 0 (reset_drive D s))\<lparr>initTimingRegisters := False\<rparr>
      else s)"

definition enable_ports :: "'p ata_device \<Rightarrow> ata_properties \<Rightarrow> ata_channel \<Rightarrow> (nat \<Rightarrow> bool) \<Rightarrow> 'p pata \<Rightarrow> 'p pata" where
  "enable_ports D root ch on s =
     fold (\<lambda>u. on_device (setSerialATAPortEnableForDrive D root ch u (on u))) [0..<getMaxDriveUnits ch] s"

definition sata_setPowerState ::
  "'p ata_device \<Rightarrow> ata_properties \<Rightarrow> ata_channel \<Rightarrow> nat \<Rightarrow> 'p pata \<Rightarrow> 'p pata" where
  "sata_setPowerState D root ch stateIndex s =
     (let s = (if stateIndex = 0 then s\<lparr>initPortEnable := True\<rparr>
               else if initPortEnable s
               then (enable_ports D root ch (\<lambda>u. deviceType s u \<noteq> UnknownATADevice) s)\<lparr>initPortEnable := False\<rparr>
               else s)
      in pata_setPowerState D ch stateIndex s)"

section \<open>Scanning for drives\<close>

definition pata_scanForDrives ::
  "'p ata_device \<Rightarrow> ('p pata \<Rightarrow> nat \<times> 'p pata) \<Rightarrow> 'p pata \<Rightarrow> nat \<times> 'p pata" where
  "pata_scanForDrives D super s =
     (let s = io_write D (tfAltSDevCReg s) mATADCRReset s;
          s = io_write D (tfAltSDevCReg s) 0 s;
          (unitsFound, s) = super s
      in (unitsFound, io_write D (tfSDHReg s) 0 s))"

definition reset_ports :: "'p ata_device \<Rightarrow> ata_properties \<Rightarrow> ata_channel \<Rightarrow> 'p pata \<Rightarrow> 'p pata" where
  "reset_ports D root ch s =
     (let s = enable_ports D root ch (\<lambda>_. False) s;
          s = enable_ports D root ch (\<lambda>_. True) s;
          s = io_write D (tfAltSDevCReg s) mATADCRReset s
      in io_write D (tfAltSDevCReg s) 0 s)"

text \<open>The loop of \<open>scanForDrives\<close>: \<open>n\<close> rounds are left, 301 in all; every 100 rounds the ports are reset.\<close>

fun reset_loop :: "'p ata_device \<Rightarrow> ata_properties \<Rightarrow> ata_channel \<Rightarrow> nat \<Rightarrow> 'p pata \<Rightarrow> 'p pata" where
  "reset_loop D root ch 0 s = s"
| "reset_loop D root ch (Suc n) s =
     (let loopMs = (300 - n) * 10;
          s = (if loopMs mod 1000 = 0 then reset_ports D root ch s else s);
          (status, s) = io_read D (tfStatusCmdReg s) s
      in if any_bit status mATABusy then reset_loop D root ch n s else s)"

definition forget_absent :: "'p ata_device \<Rightarrow> ata_properties \<Rightarrow> ata_channel \<Rightarrow> 'p pata \<Rightarrow> 'p pata" where
  "forget_absent D root ch s =
     fold (\<lambda>u s. if deviceType s u \<noteq> UnknownATADevice \<and>
                     (u \<ge> getMaxDriveUnits ch \<or> \<not> getSerialATAPortPresentStatusForDrive D root ch u (piix s))
                  then s\<lparr>deviceType := (deviceType s)(u := UnknownATADevice)\<rparr> else s) [0, 1] s"

definition disable_unused :: "'p ata_device \<Rightarrow> ata_properties \<Rightarrow> ata_channel \<Rightarrow> 'p pata \<Rightarrow> 'p pata" where
  "disable_unused D root ch s =
     fold (\<lambda>u s. if deviceType s u = UnknownATADevice
                  then on_device (setSerialATAPortEnableForDrive D root ch u False) s else s)
       [0..<getMaxDriveUnits ch] s"

definition sata_scanForDrives ::
  "'p ata_device \<Rightarrow> ata_properties \<Rightarrow> ata_channel \<Rightarrow> ('p pata \<Rightarrow> nat \<times> 'p pata) \<Rightarrow> 'p pata \<Rightarrow> nat \<times> 'p pata" where
  "sata_scanForDrives D root ch super s =
     (let (unitsFound, s) = super (reset_loop D root ch 301 s)
      in (unitsFound, disable_unused D root ch (forget_absent D root ch s)))"

section \<open>The ACPI parent\<close>

text \<open>
  \<open>path\<close> is the property \<open>acpi-path\<close> of the controller's provider; the registry maps a path to an
  entry, of which the model keeps whether it is an ACPI device and its property \<open>compatible\<close>.
\<close>

definition getACPIParent ::
  "(string \<Rightarrow> (bool \<times> os_object option) option) \<Rightarrow> os_object option \<Rightarrow> os_object option option" where
  "getACPIParent registry path =
     Option.bind (string_of path) (\<lambda>p.
     Option.bind (registry p) (\<lambda>(isACPI, compatible). if isACPI then Some compatible else None))"

definition hasMediaNotify :: "os_object option \<Rightarrow> bool" where
  "hasMediaNotify compatible =
     (data_of compatible = Some (map (\<lambda>c. of_nat (of_char c)) ''media-notify''))"

section \<open>Start\<close>

text \<open>
  What \<open>start\<close> depends on: the channel (\<open>None\<close> if the provider is something else), whether each call
  to the kernel succeeds, and the superclass's \<open>start\<close>, which scans for drives.
\<close>

record 'p pata_env =
  providerChannel :: "ata_channel option"
  channelOpens :: bool
  superStart :: "'p pata \<Rightarrow> bool \<times> 'p pata"
  sourceCreated :: bool
  sourceAdded :: bool
  acpiRegistry :: "string \<Rightarrow> (bool \<times> os_object option) option"
  acpiPath :: "os_object option"
  hasSafeSleep :: bool
  nubCreated :: "nat \<Rightarrow> bool"
  nubAttached :: "nat \<Rightarrow> bool"
  adapterCreated :: bool

definition start_fails :: "'p pata_env \<Rightarrow> bool \<Rightarrow> 'p pata \<Rightarrow> bool \<times> 'p pata" where
  "start_fails E superStarted s =
     (let s = (if providerChannel E \<noteq> None then record_call CloseProvider s else s)
      in (False, if superStarted then record_call SuperStop s else s))"

definition find_acpi :: "'p pata_env \<Rightarrow> 'p pata \<Rightarrow> 'p pata" where
  "find_acpi E s =
     (case getACPIParent (acpiRegistry E) (acpiPath E) of
        Some compatible \<Rightarrow> s\<lparr>hasACPI := hasMediaNotify compatible\<rparr>
      | None \<Rightarrow> s)"

definition make_drive_nub :: "'p pata_env \<Rightarrow> bool \<Rightarrow> nat \<Rightarrow> 'p pata \<Rightarrow> 'p pata" where
  "make_drive_nub E safeSleep u s =
     (if deviceType s u = UnknownATADevice \<or> \<not> nubCreated E u then s
      else
        let s = (if deviceType s u = ATAPIDevice
                 then let s = record_call (NubLimits u (512 div 2) (512 * 256)) s
                      in if hasACPI s then record_call (NubNotifies u) s else s
                 else if deviceType s u = ATADevice \<and> safeSleep
                 then s\<lparr>polled := (if adapterCreated E then Some False else None)\<rparr>
                 else s)
        in if nubAttached E u
           then record_call (RegisterNub u) (s\<lparr>nubMade := (nubMade s)(u := True)\<rparr>) else s)"

definition start_services :: "'p ata_device \<Rightarrow> 'p pata_env \<Rightarrow> 'p pata \<Rightarrow> bool \<times> 'p pata" where
  "start_services D E s =
     (let s = s\<lparr>intSrc := sourceCreated E\<rparr>
      in if \<not> sourceCreated E \<or> \<not> sourceAdded E then start_fails E True s
         else
           let s = enable_interrupts (clear_interrupt D s);
               s = record_call JoinPowerTree s;
               s = find_acpi E s;
               safeSleep = (\<not> hasACPI s \<and> hasSafeSleep E)
           in (True, fold (make_drive_nub E safeSleep) [0, 1] s))"

definition start_channel ::
  "'p ata_device \<Rightarrow> 'p pata_env \<Rightarrow> ata_channel \<Rightarrow> 'p pata \<Rightarrow> kernel_error + (bool \<times> 'p pata)" where
  "start_channel D E ch s =
     (if channel s > kPIIX_CHANNEL_SECONDARY then Inr (start_fails E False s)
      else
        let (ok, s) = configurePCIDevice D s
        in if \<not> ok then Inr (start_fails E False s)
           else
             case getBMBaseAddress D (channel s) (piix s) of
               None \<Rightarrow> Inr (start_fails E False s)
             | Some base \<Rightarrow>
                 and_then (resetTimingsForDevice D ch 0 (s\<lparr>ioBMOffset := base\<rparr>)) (\<lambda>s.
                 and_then (resetTimingsForDevice D ch 1 s) (\<lambda>s.
                   let (started, s) = superStart E s
                   in Inr (if started then start_services D E s else start_fails E False s))))"

definition pata_start ::
  "'p ata_device \<Rightarrow> 'p pata_env \<Rightarrow> 'p pata \<Rightarrow> kernel_error + (bool \<times> 'p pata)" where
  "pata_start D E s =
     (let s = s\<lparr>drivePowerOn := True, polled := None\<rparr>
      in case providerChannel E of
           None \<Rightarrow> Inr (start_fails E False s)
         | Some ch \<Rightarrow>
             if \<not> channelOpens E then Inr (start_fails E False s)
             else start_channel D E ch
                    (s\<lparr>pataCmd := cmdBlock ch, pataCtr := ctrBlock ch, channel := channelNum ch\<rparr>))"

text \<open>The serial driver makes its polled adapter before it starts like the other one.\<close>

definition sata_start ::
  "'p ata_device \<Rightarrow> 'p pata_env \<Rightarrow> 'p pata \<Rightarrow> kernel_error + (bool \<times> 'p pata)" where
  "sata_start D E s = pata_start D E (s\<lparr>polledSATA := (if adapterCreated E then Some False else None)\<rparr>)"

definition pata_message :: "bool \<Rightarrow> bool \<Rightarrow> 'p super \<Rightarrow> 'p pata \<Rightarrow> 'p pata" where
  "pata_message fromProvider isTerminated super s =
     (if fromProvider \<and> isTerminated then record_call CloseProvider s else super s)"

end
