(* ===== verification/AtaTransfer.thy ===== *)
theory AtaTransfer
  imports AtaTiming
begin

text \<open>
  The descriptor table of a DMA transfer: its allocation, and \<open>createChannelCommands\<close>, which cuts the
  segments of the buffer at the boundaries of 64K that no descriptor may cross.
\<close>

section \<open>The table\<close>

definition kATAMaxDMADesc :: nat where "kATAMaxDMADesc = 512"

definition initATADMAChains :: "prd list" where
  "initATADMAChains = replicate kATAMaxDMADesc (PRD 0 1 True)"

text \<open>
  \<open>memory\<close> is the block the kernel gives out, of 512 entries, if it does. Freeing leaves the pointer as
  it is.
\<close>

definition freeDMAChannel :: "'p pata \<Rightarrow> bool \<times> 'p pata" where
  "freeDMAChannel s =
     (True, if prdTable s \<noteq> None then record_call FreeTable (record_call StopDMA s) else s)"

definition allocDMAChannel :: "prd list option \<Rightarrow> bool \<Rightarrow> 'p pata \<Rightarrow> bool \<times> 'p pata" where
  "allocDMAChannel memory cursorAllocated s =
     (let s = s\<lparr>prdTable := memory\<rparr>
      in if memory = None then (False, s)
         else if \<not> cursorAllocated then (False, snd (freeDMAChannel s))
         else (True, s\<lparr>prdTable := Some initATADMAChains\<rparr>))"

section \<open>Cutting a segment\<close>

text \<open>
  The inner loop: \<open>data\<close>, \<open>count\<close> and \<open>next_block\<close> are \<open>xferDataPtr\<close>, \<open>xferCount\<close> and \<open>next64KBlock\<close>,
  \<open>end_data\<close> is \<open>ptr2EndData\<close>; \<open>final\<close> says that no bytes remain after this segment. Addresses and counts
  are words and wrap. \<open>Inl\<close>: the table is exhausted. Each round fills an entry, so there are at most 512.
\<close>

function (sequential) cut_segment ::
  "bool \<Rightarrow> u32 \<Rightarrow> u32 \<Rightarrow> u32 \<Rightarrow> u32 \<Rightarrow> nat \<Rightarrow> prd list \<Rightarrow> prd list + (nat \<times> prd list)" where
  "cut_segment final end_data data count next_block index table =
     (if count = 0 then Inr (index, table)
      else if index \<ge> kATAMaxDMADesc then Inl table
      else if end_data > next_block
      then let count2Next64KBlock = next_block - data
           in cut_segment final end_data next_block (count - count2Next64KBlock) (next_block + 0x10000)
                (index + 1) (table[index := PRD data (ucast count2Next64KBlock) False])
      else Inr (index + 1, table[index := PRD data (ucast count) final]))"
  by pat_completeness auto

termination
  by (relation "measure (\<lambda>(_, _, _, _, _, index, _). kATAMaxDMADesc - index)") auto

declare cut_segment.simps [simp del]

section \<open>All segments\<close>

text \<open>
  \<open>gen32IOVMSegments\<close> of the transfer's DMA command is \<open>gen\<close>: for an offset into the buffer it returns
  a status (0 for success), the offset behind the segment, its address and length, and how many
  segments it made. The results keep what was written to the table.
\<close>

type_synonym segment_gen = "64 word \<Rightarrow> u32 \<times> 64 word \<times> u32 \<times> u32 \<times> u32"

datatype channel_result = Panic | NotAligned "prd list" | TableExhausted "prd list" | Filled nat "prd list"

lemma rest_decreases: "len \<noteq> 0 \<Longrightarrow> n \<noteq> 0 \<Longrightarrow> n - (if len > n then n else len) < (n :: u32)"
  by (auto simp: word_less_nat_alt unat_sub word_le_nat_alt not_less unat_gt_0)

function (sequential) fill_table ::
  "segment_gen \<Rightarrow> 64 word \<Rightarrow> u32 \<Rightarrow> nat \<Rightarrow> prd list \<Rightarrow> channel_result" where
  "fill_table gen transferSize bytesRemaining index table =
     (if bytesRemaining = 0 then Filled index table
      else let (status, transferSize, addr, len, numSegments) = gen transferSize
           in if status \<noteq> 0 \<or> numSegments \<noteq> 1 \<or> len = 0 then Panic
              else if any_bit addr 0x01 then NotAligned table
              else let xferCount = (if len > bytesRemaining then bytesRemaining else len);
                       bytesRemaining = bytesRemaining - xferCount
                   in case cut_segment (bytesRemaining = 0) (addr + xferCount) addr xferCount
                             ((addr AND 0xffff0000) + 0x10000) index table of
                        Inl table \<Rightarrow> TableExhausted table
                      | Inr (index, table) \<Rightarrow> fill_table gen transferSize bytesRemaining index table)"
  by pat_completeness auto

termination
  by (relation "measure (\<lambda>(_, _, bytesRemaining, _, _). unat bytesRemaining)")
    (auto simp: rest_decreases unat_mono)

declare fill_table.simps [simp del]

text \<open>
  \<open>dma\<close> is the DMA command of the current ATA command, if it has one with a memory descriptor.
  A kernel panic is \<open>None\<close>. The table must have been allocated.
\<close>

definition createChannelCommands ::
  "segment_gen option \<Rightarrow> 'p pata \<Rightarrow> kernel_error + (ata_return \<times> 'p pata) option" where
  "createChannelCommands dma s =
     and_then (non_null (currentCommand s)) (\<lambda>c.
     case dma of
       None \<Rightarrow> Inr (Some (kATABadArgument, s))
     | Some gen \<Rightarrow>
         if byteCount c = 0 then Inr (Some (kATADeviceError, s))
         else and_then (non_null (prdTable s)) (\<lambda>table.
         case fill_table gen (ucast (position c)) (byteCount c) 0 table of
           Panic \<Rightarrow> Inr None
         | NotAligned table \<Rightarrow> Inr (Some (kIOReturnNotAligned, s\<lparr>prdTable := Some table\<rparr>))
         | TableExhausted table \<Rightarrow>
             Inr (Some (kATABadArgument, s\<lparr>prdTable := Some table, dmaState := DMAError\<rparr>))
         | Filled index table \<Rightarrow>
             if index = 0 then Inr (Some (kATADeviceError, s\<lparr>prdTable := Some table\<rparr>))
             else Inr (Some (kATANoErr, s\<lparr>prdTable := Some table, dmaState := DMAStatus\<rparr>))))"

end
