(* ===== verification/AtaTransferProps.thy ===== *)
theory AtaTransferProps
  imports AtaTransfer
begin

text \<open>
  The descriptor table describes the buffer: against the pieces of a range of natural numbers cut at
  the multiples of 65536.
\<close>

section \<open>Pieces of a range\<close>

function cuts :: "nat \<Rightarrow> nat \<Rightarrow> (nat \<times> nat) list" where
  "cuts a n = (if n = 0 then []
               else let m = min n (65536 - a mod 65536) in (a, m) # cuts (a + m) (n - m))"
  by pat_completeness auto

termination
proof (relation "measure (\<lambda>(_, n). n)")
  fix a n m :: nat
  assume "n \<noteq> 0" "m = min n (65536 - a mod 65536)"
  moreover have "a mod 65536 < 65536" by simp
  ultimately show "((a + m, n - m), a, n) \<in> measure (\<lambda>(_, n). n)" by auto
qed simp

declare cuts.simps [simp del]

fun piece_bytes :: "nat \<times> nat \<Rightarrow> nat list" where
  "piece_bytes (a, m) = [a..<a + m]"

lemma cuts_0 [simp]: "cuts a 0 = []"
  by (simp add: cuts.simps)

lemma cuts_nonempty [simp]: "cuts a n = [] \<longleftrightarrow> n = 0"
  by (cases "n = 0") (simp_all add: cuts.simps [of a n] Let_def)

lemma cuts_cover: "concat (map piece_bytes (cuts a n)) = [a..<a + n]"
proof (induction a n rule: cuts.induct)
  case (1 a n)
  show ?case
  proof (cases "n = 0")
    case False
    define m where "m = min n (65536 - a mod 65536)"
    have "m \<le> n" by (simp add: m_def)
    then have "[a..<a + n] = [a..<a + m] @ [a + m..<a + m + (n - m)]"
      using upt_add_eq_append [of a "a + m" "n - m"] by simp
    then show ?thesis
      using 1 [OF False m_def] False by (simp add: cuts.simps [of a n] m_def [symmetric] Let_def)
  qed simp
qed

lemma cuts_in_block:
  "(b, m) \<in> set (cuts a n) \<Longrightarrow> 0 < m \<and> m \<le> 65536 \<and> b div 65536 = (b + m - 1) div 65536"
proof (induction a n rule: cuts.induct)
  case (1 a n)
  have n: "n \<noteq> 0" using 1(2) by (intro notI) simp
  define k where "k = min n (65536 - a mod 65536)"
  have r: "a mod 65536 < 65536" "a = 65536 * (a div 65536) + a mod 65536" by simp_all
  then have k: "0 < k" "k \<le> 65536" "a mod 65536 + k \<le> 65536" using n by (auto simp: k_def)
  have "a + k - 1 = 65536 * (a div 65536) + (a mod 65536 + k - 1)" using r(2) k(1) by linarith
  moreover have "a mod 65536 + k - 1 < 65536" using k by linarith
  ultimately have "(a + k - 1) div 65536 = a div 65536" by simp
  then show ?case
    using 1 n k by (auto simp: cuts.simps [of a n] k_def [symmetric] Let_def)
qed

section \<open>The inner loop\<close>

fun descriptors :: "bool \<Rightarrow> (nat \<times> nat) list \<Rightarrow> prd list" where
  "descriptors final [] = []"
| "descriptors final [(a, m)] = [PRD (of_nat a) (of_nat m) final]"
| "descriptors final ((a, m) # p # ps) = PRD (of_nat a) (of_nat m) False # descriptors final (p # ps)"

lemma length_descriptors [simp]: "length (descriptors final ps) = length ps"
  by (induction final ps rule: descriptors.induct) simp_all

lemma descriptors_append:
  "qs \<noteq> [] \<Longrightarrow> descriptors True (ps @ qs) = descriptors False ps @ descriptors True qs"
  by (induction "False" ps rule: descriptors.induct) (auto simp: neq_Nil_conv)

definition overwrite :: "nat \<Rightarrow> 'a list \<Rightarrow> 'a list \<Rightarrow> 'a list" where
  "overwrite i xs table = take i table @ xs @ drop (i + length xs) table"

lemma overwrite_Nil [simp]: "overwrite i [] table = table"
  by (simp add: overwrite_def)

lemma length_overwrite: "i + length xs \<le> length table \<Longrightarrow> length (overwrite i xs table) = length table"
  by (simp add: overwrite_def)

lemma overwrite_one: "i < length table \<Longrightarrow> table[i := x] = overwrite i [x] table"
  by (simp add: overwrite_def upd_conv_take_nth_drop)

lemma overwrite_overwrite:
  "i + length xs + length ys \<le> length table \<Longrightarrow>
   overwrite (i + length xs) ys (overwrite i xs table) = overwrite i (xs @ ys) table"
  by (simp add: overwrite_def add.commute add.left_commute)

lemma take_overwrite: "length xs \<le> length table \<Longrightarrow> take (length xs) (overwrite 0 xs table) = xs"
  by (simp add: overwrite_def)

lemma next_block_nat: "65536 * (a div 65536 + 1) = a + (65536 - a mod 65536)" for a :: nat
proof -
  have split: "65536 * (q + 1) = (65536 * q + r) + (65536 - r)" if "r < 65536" for q r :: nat
    using that by simp
  have "a mod 65536 < 65536" by simp
  from split [OF this, of "a div 65536"] show ?thesis by (simp only: mult_div_mod_eq)
qed

lemma u32_less_nat: "a < 2 ^ 32 \<Longrightarrow> b < 2 ^ 32 \<Longrightarrow> (of_nat a < (of_nat b :: u32)) \<longleftrightarrow> a < b"
  by (simp add: word_less_nat_alt unat_of_nat)

lemma u32_zero_nat: "a < 2 ^ 32 \<Longrightarrow> (of_nat a = (0 :: u32)) \<longleftrightarrow> a = 0"
  by (simp add: word_unat_eq_iff unat_of_nat)

lemma ucast_of_nat_u16: "(ucast (of_nat m :: u32) :: u16) = of_nat m"
  by (rule bit_word_eqI) (auto simp: bit_ucast_iff bit_of_nat_iff)

lemma cut_segment_cuts:
  assumes "a + n \<le> 0xffff0000" "length table = 512" "index \<le> 512"
  shows "cut_segment final (of_nat (a + n)) (of_nat a) (of_nat n) (of_nat (65536 * (a div 65536 + 1))) index table =
     (if index + length (cuts a n) \<le> 512
      then Inr (index + length (cuts a n), overwrite index (descriptors final (cuts a n)) table)
      else Inl (overwrite index (take (512 - index) (descriptors final (cuts a n))) table))"
  using assms
proof (induction a n arbitrary: index table rule: cuts.induct)
  case (1 a n)
  have small: "a < 2 ^ 32" "n < 2 ^ 32" "a + n < 2 ^ 32" using 1(2) by simp_all
  define k where "k = 65536 - a mod 65536"
  define b where "b = 65536 * (a div 65536 + 1)"
  have kb: "b = a + k" "0 < k" unfolding b_def k_def by (rule next_block_nat) simp
  have step: "cut_segment final (of_nat (a + n)) (of_nat a) (of_nat n) (of_nat b) index table =
      (if index \<ge> 512 then Inl table
       else if b < a + n
       then cut_segment final (of_nat (b + (n - k))) (of_nat b) (of_nat (n - k)) (of_nat (65536 * (b div 65536 + 1)))
              (index + 1) (overwrite index [PRD (of_nat a) (of_nat k) False] table)
       else Inr (index + 1, overwrite index [PRD (of_nat a) (of_nat n) final] table))"
    if n: "n \<noteq> 0"
  proof -
    have "b \<le> a + 65536" by (simp add: kb k_def)
    then have b32: "b < 2 ^ 32" using 1(2) n by simp
    have words: "(of_nat n = (0 :: u32)) = False" "(of_nat b < (of_nat (a + n) :: u32)) = (b < a + n)"
      using u32_zero_nat [OF small(2)] n u32_less_nat [OF b32 small(3)] by simp_all
    have "b + 65536 = 65536 * (b div 65536 + 1)" by (simp add: b_def)
    then have after: "of_nat b + 0x10000 = (of_nat (65536 * (b div 65536 + 1)) :: u32)"
      by (metis of_nat_add of_nat_numeral)
    have "(of_nat b - of_nat a :: u32) = of_nat k" by (simp add: kb)
    moreover have "b < a + n \<Longrightarrow> (of_nat n - of_nat k :: u32) = of_nat (n - k)" "b < a + n \<Longrightarrow> b + (n - k) = a + n"
      using kb by (simp_all add: of_nat_diff)
    ultimately show ?thesis
      using 1(3)
      by (subst cut_segment.simps)
        (simp only: words after ucast_of_nat_u16 kATAMaxDMADesc_def Let_def if_False overwrite_one
          split: if_split, simp add: not_le overwrite_one)
  qed
  show ?case
    unfolding b_def [symmetric]
  proof (cases "n = 0")
    case True
    then show "cut_segment final (of_nat (a + n)) (of_nat a) (of_nat n) (of_nat b) index table =
     (if index + length (cuts a n) \<le> 512
      then Inr (index + length (cuts a n), overwrite index (descriptors final (cuts a n)) table)
      else Inl (overwrite index (take (512 - index) (descriptors final (cuts a n))) table))"
      using 1(4) by (simp add: cut_segment.simps)
  next
    case n: False
    show "cut_segment final (of_nat (a + n)) (of_nat a) (of_nat n) (of_nat b) index table =
     (if index + length (cuts a n) \<le> 512
      then Inr (index + length (cuts a n), overwrite index (descriptors final (cuts a n)) table)
      else Inl (overwrite index (take (512 - index) (descriptors final (cuts a n))) table))"
    proof (cases "index = 512")
      case True
      then show ?thesis using step [OF n] n by simp
    next
      case index: False
      show ?thesis
      proof (cases "b < a + n")
        case True
        then have m: "min n k = k" "k < n" "a + k = b" using kb by auto
        have c: "cuts a n = (a, k) # cuts b (n - k)"
          using n m by (simp add: cuts.simps [of a n] k_def [symmetric])
        obtain p ps where p: "cuts b (n - k) = p # ps" using m by (cases "cuts b (n - k)") auto
        have IH: "cut_segment final (of_nat (b + (n - k))) (of_nat b) (of_nat (n - k)) (of_nat (65536 * (b div 65536 + 1)))
              (index + 1) (overwrite index [PRD (of_nat a) (of_nat k) False] table) =
          (if index + 1 + length (cuts b (n - k)) \<le> 512
           then Inr (index + 1 + length (cuts b (n - k)), overwrite (index + 1) (descriptors final (cuts b (n - k)))
                  (overwrite index [PRD (of_nat a) (of_nat k) False] table))
           else Inl (overwrite (index + 1) (take (512 - (index + 1)) (descriptors final (cuts b (n - k))))
                  (overwrite index [PRD (of_nat a) (of_nat k) False] table)))"
          using 1(1) [OF n, of k "overwrite index [PRD (of_nat a) (of_nat k) False] table" "index + 1"]
            1(2,3,4) index m by (simp add: k_def [symmetric] length_overwrite)
        define d where "d = PRD (of_nat a) (of_nat k) False"
        have D: "descriptors final (cuts a n) = d # descriptors final (cuts b (n - k))"
          by (simp add: c p d_def)
        have join: "overwrite (Suc index) ys (overwrite index [d] table) = overwrite index (d # ys) table"
          if "index + length ys \<le> 511" for ys
          using overwrite_overwrite [of index "[d]" ys table] that 1(3) by simp
        have cut: "take (512 - index) (d # ys) = d # take (511 - index) ys" for ys
        proof -
          have "512 - index = Suc (511 - index)" using index 1(4) by arith
          then show ?thesis by simp
        qed
        show ?thesis
          using True index 1(4) step [OF n, folded d_def] IH [folded d_def] by (simp add: D cut) (simp add: c join)
      next
        case False
        then have c: "cuts a n = [(a, n)]"
          using n kb by (simp add: cuts.simps [of a n] k_def [symmetric] Let_def)
        then show ?thesis using step [OF n] False index 1(4) by simp
      qed
    qed
  qed
qed

text \<open>
  A segment that ends in the last 64K of the address space: there the next boundary wraps to 0, so the
  end is always beyond it and the loop writes one descriptor after the other until the table is full.
\<close>

lemma boundary_below: "push_bit 16 w \<le> (0xffff0000 :: u32)"
proof -
  have "push_bit 16 w = push_bit 16 w AND (0xffff0000 :: u32)"
  proof (rule bit_word_eqI)
    fix n assume n: "n < LENGTH(32)"
    have high: "(0xffff0000 :: u32) = push_bit 16 (mask 16)" by (simp add: mask_eq_exp_minus_1)
    show "bit (push_bit 16 w) n = bit (push_bit 16 w AND (0xffff0000 :: u32)) n"
      using n by (simp only: high bit_and_iff bit_push_bit_iff bit_mask_iff possible_bit_word) auto
  qed
  then show ?thesis by (metis word_and_le1)
qed

lemma cut_segment_last_block:
  assumes "0xffff0000 < last_byte" "count = last_byte - data" "count \<noteq> 0"
  shows "\<exists>t. cut_segment final last_byte data count (push_bit 16 w) index table = Inl t"
  using assms(2,3)
proof (induction "kATAMaxDMADesc - index" arbitrary: data count w index table)
  case 0
  then show ?case by (subst cut_segment.simps) simp
next
  case (Suc n)
  have beyond: "push_bit 16 v < last_byte" for v
    using assms(1) boundary_below by (rule le_less_trans [rotated])
  have carry: "push_bit 16 w + 0x10000 = (push_bit 16 (w + 1) :: u32)" by (simp add: push_bit_eq_mult algebra_simps)
  have left: "count - (push_bit 16 w - data) = last_byte - push_bit 16 w" using Suc.prems(1) by simp
  have more: "last_byte - push_bit 16 w \<noteq> 0" using beyond [of w] by auto
  have n: "n = kATAMaxDMADesc - (index + 1)" using Suc.hyps(2) by simp
  from Suc.hyps(1) [where index = "index + 1" and w = "w + 1" and data = "push_bit 16 w" and
      table = "table[index := PRD data (ucast (push_bit 16 w - data)) False]", OF n refl more]
  obtain t where t: "cut_segment final last_byte (push_bit 16 w) (last_byte - push_bit 16 w)
      (push_bit 16 (w + 1)) (index + 1) (table[index := PRD data (ucast (push_bit 16 w - data)) False]) = Inl t"
    by blast
  have "\<not> kATAMaxDMADesc \<le> index" using Suc.hyps(2) by simp
  then show ?case
    using Suc.prems(2) beyond [of w] t
    by (subst cut_segment.simps) (simp only: Let_def carry left if_False if_True, blast)
qed

section \<open>All segments\<close>

text \<open>
  The kernel's segment generator for a buffer of \<open>bufsize\<close> bytes: byte \<open>k\<close> is at the physical address
  \<open>phys k\<close>, and asked for the offset \<open>k\<close> the generator returns one segment, of \<open>seg k\<close> bytes that lie
  one behind the other in the 32-bit address space, and moves the offset behind it.
\<close>

definition segment_law :: "segment_gen \<Rightarrow> (nat \<Rightarrow> nat) \<Rightarrow> (nat \<Rightarrow> nat) \<Rightarrow> nat \<Rightarrow> bool" where
  "segment_law gen phys seg bufsize \<longleftrightarrow> bufsize < 2 ^ 32 \<and>
     (\<forall>k < bufsize.
        gen (of_nat k) = (0, of_nat (k + seg k), of_nat (phys k), of_nat (seg k), 1) \<and>
        0 < seg k \<and> seg k < 2 ^ 32 \<and> phys k + seg k \<le> 2 ^ 32 \<and> (\<forall>i < seg k. phys (k + i) = phys k + i))"

text \<open>The segments that \<open>n\<close> bytes from offset \<open>k\<close> on use, by offset and length, and their pieces.\<close>

function used_segments :: "(nat \<Rightarrow> nat) \<Rightarrow> nat \<Rightarrow> nat \<Rightarrow> (nat \<times> nat) list" where
  "used_segments seg k n =
     (if n = 0 \<or> seg k = 0 then [] else (k, min n (seg k)) # used_segments seg (k + seg k) (n - seg k))"
  by pat_completeness auto

termination
  by (relation "measure (\<lambda>(_, _, n). n)") auto

declare used_segments.simps [simp del]

definition transfer_pieces :: "(nat \<Rightarrow> nat) \<Rightarrow> (nat \<Rightarrow> nat) \<Rightarrow> nat \<Rightarrow> nat \<Rightarrow> (nat \<times> nat) list" where
  "transfer_pieces phys seg k n = concat (map (\<lambda>(j, m). cuts (phys j) m) (used_segments seg k n))"

lemma used_segments_0 [simp]: "used_segments seg k 0 = []"
  by (simp add: used_segments.simps)

lemma used_segments_Cons:
  "0 < n \<Longrightarrow> 0 < seg k \<Longrightarrow> used_segments seg k n = (k, min n (seg k)) # used_segments seg (k + seg k) (n - seg k)"
  by (subst used_segments.simps) simp

lemma transfer_pieces_0 [simp]: "transfer_pieces phys seg k 0 = []"
  by (simp add: transfer_pieces_def)

lemma transfer_pieces_Cons:
  "0 < n \<Longrightarrow> 0 < seg k \<Longrightarrow>
   transfer_pieces phys seg k n = cuts (phys k) (min n (seg k)) @ transfer_pieces phys seg (k + seg k) (n - seg k)"
  by (simp add: transfer_pieces_def used_segments_Cons)

text \<open>What the controller can transfer: words at even addresses, below the last 64K.\<close>

definition transferable :: "(nat \<Rightarrow> nat) \<Rightarrow> nat \<times> nat \<Rightarrow> bool" where
  "transferable phys p \<longleftrightarrow> (case p of (j, m) \<Rightarrow> even (phys j) \<and> phys j + m \<le> 0xffff0000)"

lemma block_start: "(of_nat a AND 0xffff0000 :: u32) + 0x10000 = of_nat (65536 * (a div 65536 + 1))"
  if "a < 2 ^ 32"
proof -
  have "(of_nat a AND 0xffff0000 :: u32) = push_bit 16 (drop_bit 16 (of_nat a))"
  proof (rule bit_word_eqI)
    fix n assume "n < LENGTH(32)"
    have high: "(0xffff0000 :: u32) = push_bit 16 (mask 16)" by (simp add: mask_eq_exp_minus_1)
    have "bit (0xffff0000 :: u32) n \<longleftrightarrow> 16 \<le> n" using \<open>n < LENGTH(32)\<close>
      by (simp only: high bit_push_bit_iff bit_mask_iff possible_bit_word) auto
    then show "bit (of_nat a AND 0xffff0000 :: u32) n = bit (push_bit 16 (drop_bit 16 (of_nat a :: u32))) n"
      using \<open>n < LENGTH(32)\<close> by (auto simp: bit_and_iff bit_push_bit_iff bit_drop_bit_eq)
  qed
  also have "drop_bit 16 (of_nat a :: u32) = of_nat (a div 65536)"
  proof -
    have "a div 65536 < 2 ^ 32" using that by (simp add: less_mult_imp_div_less)
    then show ?thesis
      using that by (simp add: word_unat_eq_iff unat_div unat_of_nat drop_bit_eq_div)
  qed
  finally show ?thesis by (simp add: push_bit_eq_mult algebra_simps)
qed

lemma transfer_pieces_nonempty:
  assumes "segment_law gen phys seg bufsize" "k < bufsize" "0 < n"
  shows "transfer_pieces phys seg k n \<noteq> []"
proof -
  have "0 < seg k" using assms(1,2) by (auto simp: segment_law_def)
  then show ?thesis using assms(3) by (simp add: transfer_pieces_Cons)
qed

lemma fill_table_0 [simp]: "fill_table gen k 0 index table = Filled index table"
  by (subst fill_table.simps) simp

text \<open>One round, whatever the segment's place.\<close>

lemma odd_address: "any_bit (of_nat a :: u32) 0x01 \<longleftrightarrow> odd a"
  using any_bit_push [of "of_nat a :: u32" 0] by (simp add: bit_0)

lemma fill_table_round:
  assumes "segment_law gen phys seg bufsize" "k < bufsize" "0 < n" "n < 2 ^ 32"
    and "phys k + min n (seg k) < 2 ^ 32"
  defines "m \<equiv> min n (seg k)" and "rest \<equiv> n - seg k"
  shows "fill_table gen (of_nat k) (of_nat n) index table =
    (if odd (phys k) then NotAligned table
     else case cut_segment (rest = 0) (of_nat (phys k + m)) (of_nat (phys k)) (of_nat m)
         (of_nat (65536 * (phys k div 65536 + 1))) index table of
       Inl t \<Rightarrow> TableExhausted t
     | Inr (i, t) \<Rightarrow> fill_table gen (of_nat (k + seg k)) (of_nat rest) i t)"
proof -
  have law: "gen (of_nat k) = (0, of_nat (k + seg k), of_nat (phys k), of_nat (seg k), 1)"
    "0 < seg k" "seg k < 2 ^ 32"
    using assms(1,2) unfolding segment_law_def by blast+
  have m: "0 < m" "m \<le> n" "m \<le> seg k" "rest = n - m" "rest < 2 ^ 32" "phys k < 2 ^ 32"
    using law(2,3) assms(3-5) by (auto simp: m_def rest_def)
  have small: "(of_nat n = (0 :: u32)) = False" "(of_nat (seg k) = (0 :: u32)) = False"
    "(if of_nat (seg k) > (of_nat n :: u32) then of_nat n else of_nat (seg k)) = (of_nat m :: u32)"
    "of_nat n - of_nat m = (of_nat rest :: u32)" "(of_nat rest = (0 :: u32)) = (rest = 0)"
  proof -
    show "(of_nat n = (0 :: u32)) = False" "(of_nat (seg k) = (0 :: u32)) = False"
      "(of_nat rest = (0 :: u32)) = (rest = 0)"
      using assms(3,4) law(2,3) m(5) by (simp_all add: u32_zero_nat)
    show "of_nat n - of_nat m = (of_nat rest :: u32)" using m(2,4) by (simp add: of_nat_diff)
    show "(if of_nat (seg k) > (of_nat n :: u32) then of_nat n else of_nat (seg k)) = (of_nat m :: u32)"
      using u32_less_nat [OF assms(4) law(3)] by (simp add: m_def min_def)
  qed
  show ?thesis
    by (subst fill_table.simps) (simp only: law(1) prod.case Let_def, simp only: small odd_address
        block_start [OF m(6), symmetric] of_nat_add, simp only: if_False simp_thms)
qed

lemma fill_table_segment:
  assumes "segment_law gen phys seg bufsize" "k < bufsize" "0 < n" "n < 2 ^ 32"
    and "transferable phys (k, min n (seg k))" and "length table = 512" "index \<le> 512"
  defines "ps \<equiv> cuts (phys k) (min n (seg k))" and "rest \<equiv> n - seg k"
  shows "fill_table gen (of_nat k) (of_nat n) index table =
    (if index + length ps \<le> 512
     then fill_table gen (of_nat (k + seg k)) (of_nat rest) (index + length ps)
            (overwrite index (descriptors (rest = 0) ps) table)
     else TableExhausted (overwrite index (take (512 - index) (descriptors (rest = 0) ps)) table))"
proof -
  have t: "even (phys k)" "phys k + min n (seg k) \<le> 0xffff0000" using assms(5) by (simp_all add: transferable_def)
  then have "phys k + min n (seg k) < 2 ^ 32" by simp
  note round = fill_table_round [OF assms(1-4) this, of index table]
  show ?thesis
    unfolding round cut_segment_cuts [OF t(2) assms(6,7)] using t(1)
    by (cases "index + length ps \<le> 512") (simp_all add: ps_def rest_def)
qed

lemma fill_table_stuck:
  assumes "segment_law gen phys seg bufsize" "k < bufsize" "0 < n" "n < 2 ^ 32"
    and "phys k + min n (seg k) < 2 ^ 32" and "\<not> transferable phys (k, min n (seg k))"
  shows "\<exists>t. fill_table gen (of_nat k) (of_nat n) index table \<in> {NotAligned t, TableExhausted t}"
proof (cases "odd (phys k)")
  case True
  then show ?thesis unfolding fill_table_round [OF assms(1-5)] by auto
next
  case False
  define m where "m = min n (seg k)"
  have "0 < seg k" using assms(1,2) by (auto simp: segment_law_def)
  then have m: "0 < m" "m < 2 ^ 32" "phys k + m < 2 ^ 32" "0xffff0000 < phys k + m" "phys k < 2 ^ 32"
    using assms(3-6) False by (auto simp: m_def transferable_def)
  have "(0xffff0000 :: u32) < of_nat (phys k + m)"
    using u32_less_nat [of "0xffff0000" "phys k + m"] m(3,4) by simp
  moreover have "(of_nat m :: u32) \<noteq> 0" using u32_zero_nat [OF m(2)] m(1) by simp
  moreover have "(of_nat (65536 * (phys k div 65536 + 1)) :: u32) = push_bit 16 (of_nat (phys k div 65536 + 1))"
    by (simp add: push_bit_eq_mult algebra_simps)
  ultimately obtain t where "cut_segment (n - seg k = 0) (of_nat (phys k + m)) (of_nat (phys k)) (of_nat m)
         (of_nat (65536 * (phys k div 65536 + 1))) index table = Inl t"
    using cut_segment_last_block [where last_byte = "of_nat (phys k + m)" and count = "of_nat m" and
        data = "of_nat (phys k)"] by (metis add_diff_cancel_left' of_nat_add)
  then show ?thesis
    unfolding fill_table_round [OF assms(1-5)] m_def [symmetric] using False by auto
qed

lemma used_rest:
  assumes "segment_law gen phys seg bufsize" "k < bufsize" "0 < n"
  shows "set (used_segments seg k n) = insert (k, min n (seg k)) (set (used_segments seg (k + seg k) (n - seg k)))"
proof -
  have "0 < seg k" using assms(1,2) by (auto simp: segment_law_def)
  then show ?thesis using assms(3) by (simp add: used_segments_Cons)
qed

lemma fill_table_pieces:
  assumes law: "segment_law gen phys seg bufsize"
  shows "k + n \<le> bufsize \<Longrightarrow> \<forall>p \<in> set (used_segments seg k n). transferable phys p \<Longrightarrow>
   length table = 512 \<Longrightarrow> index \<le> 512 \<Longrightarrow>
   \<exists>t. fill_table gen (of_nat k) (of_nat n) index table =
     (if index + length (transfer_pieces phys seg k n) \<le> 512
      then Filled (index + length (transfer_pieces phys seg k n))
             (overwrite index (descriptors True (transfer_pieces phys seg k n)) table)
      else TableExhausted t)"
proof (induction n arbitrary: k index table rule: less_induct)
  case (less n)
  show ?case
  proof (cases "n = 0")
    case True
    then show ?thesis using less.prems by simp
  next
    case False
    then have k: "k < bufsize" "n < 2 ^ 32" "0 < n" using less.prems(1) law by (auto simp: segment_law_def)
    then have seg: "0 < seg k" using law by (auto simp: segment_law_def)
    define r where "r = n - seg k"
    define ps where "ps = cuts (phys k) (min n (seg k))"
    define qs where "qs = transfer_pieces phys seg (k + seg k) r"
    have first: "transferable phys (k, min n (seg k))"
      and others: "\<forall>p \<in> set (used_segments seg (k + seg k) r). transferable phys p"
      using less.prems(2) unfolding used_rest [OF law k(1,3)] r_def by auto
    have pieces: "transfer_pieces phys seg k n = ps @ qs"
      using k(3) seg by (simp add: transfer_pieces_Cons ps_def qs_def r_def)
    have rest: "0 < r \<Longrightarrow> k + seg k + r \<le> bufsize" "r < n"
      using less.prems(1) seg k(3) by (auto simp: r_def)
    have qs: "qs = [] \<longleftrightarrow> r = 0"
    proof (cases "r = 0")
      case False
      then have "k + seg k < bufsize" "0 < r" using rest(1) by auto
      from transfer_pieces_nonempty [OF law this] False show ?thesis by (simp add: qs_def)
    qed (simp add: qs_def)
    then have descr: "descriptors True (ps @ qs) = descriptors (r = 0) ps @ descriptors True qs"
      using descriptors_append [of qs ps] by (cases "qs = []") auto
    define table' where "table' = overwrite index (descriptors (r = 0) ps) table"
    have step: "fill_table gen (of_nat k) (of_nat n) index table =
      (if index + length ps \<le> 512 then fill_table gen (of_nat (k + seg k)) (of_nat r) (index + length ps) table'
       else TableExhausted (overwrite index (take (512 - index) (descriptors (r = 0) ps)) table))"
      unfolding table'_def ps_def r_def
      by (rule fill_table_segment [OF law k(1) k(3) k(2) first less.prems(3,4)])
    show ?thesis
    proof (cases "index + length ps \<le> 512")
      case True
      have len: "length table' = 512" using True less.prems(3) by (simp add: table'_def length_overwrite)
      have "\<exists>t. fill_table gen (of_nat (k + seg k)) (of_nat r) (index + length ps) table' =
         (if index + length ps + length qs \<le> 512
          then Filled (index + length ps + length qs) (overwrite (index + length ps) (descriptors True qs) table')
          else TableExhausted t)"
      proof (cases "r = 0")
        case True
        then show ?thesis using \<open>index + length ps \<le> 512\<close> by (simp add: qs_def)
      next
        case False
        then show ?thesis
          unfolding qs_def using rest others by (intro less.IH len True) auto
      qed
      then obtain t where t: "fill_table gen (of_nat (k + seg k)) (of_nat r) (index + length ps) table' =
         (if index + length ps + length qs \<le> 512
          then Filled (index + length ps + length qs) (overwrite (index + length ps) (descriptors True qs) table')
          else TableExhausted t)" ..
      have join: "overwrite (index + length ps) (descriptors True qs) table'
          = overwrite index (descriptors True (ps @ qs)) table" if "index + length ps + length qs \<le> 512"
        using overwrite_overwrite [of index "descriptors (r = 0) ps" "descriptors True qs" table] that less.prems(3)
        by (simp add: descr table'_def)
      have sum: "index + length (ps @ qs) = index + length ps + length qs" by simp
      show ?thesis
        unfolding pieces sum step t using True join by (intro exI [of _ t]) (simp only: if_True split: if_split, simp)
    next
      case False
      then have "\<not> index + length (ps @ qs) \<le> 512" by simp
      then show ?thesis unfolding pieces step using False by (simp only: if_False) blast
    qed
  qed
qed

lemma fill_table_refused:
  assumes law: "segment_law gen phys seg bufsize"
  shows "k + n \<le> bufsize \<Longrightarrow> \<exists>p \<in> set (used_segments seg k n). \<not> transferable phys p \<Longrightarrow>
   \<forall>(j, m) \<in> set (used_segments seg k n). phys j + m < 2 ^ 32 \<Longrightarrow> length table = 512 \<Longrightarrow> index \<le> 512 \<Longrightarrow>
   \<exists>t. fill_table gen (of_nat k) (of_nat n) index table \<in> {NotAligned t, TableExhausted t}"
proof (induction n arbitrary: k index table rule: less_induct)
  case (less n)
  from less.prems(2) have "n \<noteq> 0" by (intro notI) simp
  then have k: "k < bufsize" "n < 2 ^ 32" "0 < n" using less.prems(1) law by (auto simp: segment_law_def)
  have seg: "0 < seg k" using law k(1) by (auto simp: segment_law_def)
  have room: "phys k + min n (seg k) < 2 ^ 32" using less.prems(3) unfolding used_rest [OF law k(1,3)] by simp
  show ?case
  proof (cases "transferable phys (k, min n (seg k))")
    case False
    then show ?thesis by (rule fill_table_stuck [OF law k(1,3,2) room])
  next
    case True
    define ps where "ps = cuts (phys k) (min n (seg k))"
    show ?thesis
    proof (cases "index + length ps \<le> 512")
      case False
      then show ?thesis
        unfolding fill_table_segment [OF law k(1,3,2) True less.prems(4,5)] ps_def [symmetric] by auto
    next
      case fits: True
      have later: "\<exists>p \<in> set (used_segments seg (k + seg k) (n - seg k)). \<not> transferable phys p"
        using less.prems(2) True unfolding used_rest [OF law k(1,3)] by auto
      then have "n - seg k \<noteq> 0" by (intro notI) simp
      moreover have "\<forall>(j, m) \<in> set (used_segments seg (k + seg k) (n - seg k)). phys j + m < 2 ^ 32"
        using less.prems(3) unfolding used_rest [OF law k(1,3)] by auto
      ultimately show ?thesis
        unfolding fill_table_segment [OF law k(1,3,2) True less.prems(4,5)] ps_def [symmetric]
        using fits less.IH [of "n - seg k" "k + seg k" "overwrite index (descriptors (n - seg k = 0) ps) table"
            "index + length ps"] later seg less.prems(1,4)
        by (simp add: length_overwrite)
    qed
  qed
qed

lemma transfer_pieces_cover:
  assumes law: "segment_law gen phys seg bufsize"
  shows "k + n \<le> bufsize \<Longrightarrow>
    concat (map piece_bytes (transfer_pieces phys seg k n)) = map phys [k..<k + n]"
proof (induction n arbitrary: k rule: less_induct)
  case (less n)
  show ?case
  proof (cases "n = 0")
    case False
    then have k: "k < bufsize" using less.prems by simp
    then have seg: "0 < seg k" "\<And>i. i < seg k \<Longrightarrow> phys (k + i) = phys k + i"
      using law by (auto simp: segment_law_def)
    define m where "m = min n (seg k)"
    have "map phys [k..<k + m] = [phys k..<phys k + m]"
      by (rule nth_equalityI) (simp_all add: seg(2) m_def)
    then have head: "concat (map piece_bytes (cuts (phys k) m)) = map phys [k..<k + m]"
      by (simp add: cuts_cover)
    have tail: "concat (map piece_bytes (transfer_pieces phys seg (k + seg k) (n - seg k)))
        = map phys [k + m..<k + n]"
    proof (cases "n \<le> seg k")
      case False
      then show ?thesis
        using less.IH [of "n - seg k" "k + seg k"] seg(1) less.prems \<open>n \<noteq> 0\<close> by (simp add: m_def)
    qed (simp add: m_def)
    have "k + n = k + m + (n - m)" by (simp add: m_def)
    then have "[k..<k + n] = [k..<k + m] @ [k + m..<k + n]"
      using upt_add_eq_append [of k "k + m" "n - m"] by simp
    then show ?thesis
      using False seg(1) head tail by (simp add: transfer_pieces_Cons m_def [symmetric])
  qed simp
qed

lemma transfer_pieces_in_block:
  "(b, m) \<in> set (transfer_pieces phys seg k n) \<Longrightarrow> 0 < m \<and> m \<le> 65536 \<and> b div 65536 = (b + m - 1) div 65536"
  unfolding transfer_pieces_def by (auto dest: cuts_in_block)

section \<open>The whole table\<close>

text \<open>C9. When the table has been allocated and the kernel makes one contiguous segment after the other, the
  descriptors of a transfer describe exactly the bytes of the buffer from its position on, in order:
  no descriptor is empty, is longer than 64K or crosses a boundary of 64K, a length of 64K is written
  as 0, and the flag that ends the list is on the last one only. If there are more pieces than the 512
  entries of the table, the command is refused with a bad argument and the channel is in the error state.
  This needs all segments of the transfer to start at even addresses and to end below the last 64K of
  the 32-bit address space; with any other segment the command is refused, as not aligned or as a bad
  argument (with a segment in the last 64K the table runs full). Not covered is a segment that ends
  with the very last byte of the address space, where the end wraps to 0.\<close>
theorem createChannelCommands_describes:
  fixes s :: "'p pata"
  assumes "segment_law gen phys seg bufsize" and "currentCommand s = Some c" and "prdTable s = Some table"
    and "length table = kATAMaxDMADesc" and "0 < unat (byteCount c)"
    and "unat (position c) + unat (byteCount c) \<le> bufsize"
    and "\<forall>(j, m) \<in> set (used_segments seg (unat (position c)) (unat (byteCount c))). phys j + m < 2 ^ 32"
  shows "if \<forall>(j, m) \<in> set (used_segments seg (unat (position c)) (unat (byteCount c))).
           even (phys j) \<and> phys j + m \<le> 0xffff0000
     then \<exists>pieces. concat (map piece_bytes pieces)
        = map phys [unat (position c)..<unat (position c) + unat (byteCount c)] \<and>
      (\<forall>(b, m) \<in> set pieces. 0 < m \<and> m \<le> 65536 \<and> b div 65536 = (b + m - 1) div 65536) \<and>
      (if length pieces \<le> kATAMaxDMADesc
       then \<exists>table'. createChannelCommands (Some gen) s
                = Inr (Some (kATANoErr, s\<lparr>prdTable := Some table', dmaState := DMAStatus\<rparr>)) \<and>
              length table' = kATAMaxDMADesc \<and> take (length pieces) table' = descriptors True pieces
       else \<exists>table'. createChannelCommands (Some gen) s
                = Inr (Some (kATABadArgument, s\<lparr>prdTable := Some table', dmaState := DMAError\<rparr>)))
     else \<exists>table'. createChannelCommands (Some gen) s
                \<in> {Inr (Some (kIOReturnNotAligned, s\<lparr>prdTable := Some table'\<rparr>)),
                   Inr (Some (kATABadArgument, s\<lparr>prdTable := Some table', dmaState := DMAError\<rparr>))}"
proof -
  define k where "k = unat (position c)"
  define n where "n = unat (byteCount c)"
  define pieces where "pieces = transfer_pieces phys seg k n"
  have range: "k + n \<le> bufsize" "0 < n" "k < bufsize" using assms(5,6) by (simp_all add: k_def n_def)
  have words: "(ucast (position c) :: 64 word) = of_nat k" "byteCount c = of_nat n"
    by (simp_all add: k_def n_def unsigned_ucast_eq word_unat_eq_iff unat_of_nat)
  have pos: "byteCount c \<noteq> 0" using assms(5) by (simp add: unat_gt_0)
  have tab: "length table = 512" "0 \<le> (512 :: nat)" using assms(4) by (simp_all add: kATAMaxDMADesc_def)
  have ok: "(\<forall>(j, m) \<in> set (used_segments seg k n). even (phys j) \<and> phys j + m \<le> 0xffff0000) \<longleftrightarrow>
      (\<forall>p \<in> set (used_segments seg k n). transferable phys p)"
    by (rule ball_cong) (auto simp: transferable_def split: prod.splits)
  show ?thesis
    unfolding k_def [symmetric] n_def [symmetric] ok
  proof (split if_split, intro conjI impI)
    assume "\<not> (\<forall>p \<in> set (used_segments seg k n). transferable phys p)"
    then obtain t where "fill_table gen (of_nat k) (of_nat n) 0 table \<in> {NotAligned t, TableExhausted t}"
      using fill_table_refused [OF assms(1) range(1) _ _ tab] assms(7) by (auto simp: k_def n_def)
    then show "\<exists>table'. createChannelCommands (Some gen) s
                \<in> {Inr (Some (kIOReturnNotAligned, s\<lparr>prdTable := Some table'\<rparr>)),
                   Inr (Some (kATABadArgument, s\<lparr>prdTable := Some table', dmaState := DMAError\<rparr>))}"
      using assms(2,3) pos words by (intro exI [of _ t]) (auto simp: createChannelCommands_def)
  next
    assume good: "\<forall>p \<in> set (used_segments seg k n). transferable phys p"
    have "pieces \<noteq> []"
      unfolding pieces_def by (rule transfer_pieces_nonempty [OF assms(1) range(3,2)])
    then have some: "length pieces \<noteq> 0" by simp
    obtain t where t: "fill_table gen (of_nat k) (of_nat n) 0 table =
        (if length pieces \<le> 512 then Filled (length pieces) (overwrite 0 (descriptors True pieces) table)
         else TableExhausted t)"
      using fill_table_pieces [OF assms(1) range(1) good tab] unfolding pieces_def add_0 by blast
    have "(if length pieces \<le> kATAMaxDMADesc
       then \<exists>table'. createChannelCommands (Some gen) s
                = Inr (Some (kATANoErr, s\<lparr>prdTable := Some table', dmaState := DMAStatus\<rparr>)) \<and>
              length table' = kATAMaxDMADesc \<and> take (length pieces) table' = descriptors True pieces
       else \<exists>table'. createChannelCommands (Some gen) s
                = Inr (Some (kATABadArgument, s\<lparr>prdTable := Some table', dmaState := DMAError\<rparr>)))"
    proof (cases "length pieces \<le> 512")
      case True
      then have "length (overwrite 0 (descriptors True pieces) table) = 512"
        "take (length pieces) (overwrite 0 (descriptors True pieces) table) = descriptors True pieces"
        using assms(4) take_overwrite [of "descriptors True pieces" table]
        by (simp_all add: kATAMaxDMADesc_def length_overwrite)
      then show ?thesis
        using True assms(2,3) pos some t by (simp add: createChannelCommands_def words(1) kATAMaxDMADesc_def)
          (auto simp: words(2) [symmetric])
    next
      case False
      then show ?thesis
        using assms(2,3) pos t by (simp add: createChannelCommands_def words(1) kATAMaxDMADesc_def)
          (auto simp: words(2) [symmetric])
    qed
    moreover have "concat (map piece_bytes pieces) = map phys [k..<k + n]"
      unfolding pieces_def by (rule transfer_pieces_cover [OF assms(1) range(1)])
    moreover have "\<forall>(b, m) \<in> set pieces. 0 < m \<and> m \<le> 65536 \<and> b div 65536 = (b + m - 1) div 65536"
      using transfer_pieces_in_block [of _ _ phys seg k n] by (auto simp: pieces_def)
    ultimately show "\<exists>pieces. concat (map piece_bytes pieces) = map phys [k..<k + n] \<and>
      (\<forall>(b, m) \<in> set pieces. 0 < m \<and> m \<le> 65536 \<and> b div 65536 = (b + m - 1) div 65536) \<and>
      (if length pieces \<le> kATAMaxDMADesc
       then \<exists>table'. createChannelCommands (Some gen) s
                = Inr (Some (kATANoErr, s\<lparr>prdTable := Some table', dmaState := DMAStatus\<rparr>)) \<and>
              length table' = kATAMaxDMADesc \<and> take (length pieces) table' = descriptors True pieces
       else \<exists>table'. createChannelCommands (Some gen) s
                = Inr (Some (kATABadArgument, s\<lparr>prdTable := Some table', dmaState := DMAError\<rparr>)))"
      by blast
  qed
qed

text \<open>A buffer of 20 bytes at 0xfff8, in one segment: it crosses a boundary of 64K.\<close>

definition sample_gen :: segment_gen where
  "sample_gen off = (0, 20, 0xfff8 + ucast off, 20 - ucast off, 1)"

lemma sample_gen_law: "segment_law sample_gen (\<lambda>k. 0xfff8 + k) (\<lambda>k. 20 - k) 20"
proof -
  have "(ucast (of_nat k :: 64 word) :: u32) = of_nat k" if "k < 20" for k
    using that by (simp add: word_unat_eq_iff unat_of_nat unsigned_ucast_eq take_bit_eq_mod)
  then show ?thesis
    by (auto simp: segment_law_def sample_gen_def of_nat_diff)
qed

definition sample_transfer :: "unit pata" where
  "sample_transfer = (new_pata ())\<lparr>
     currentCommand := Some \<lparr>commandFlags = 0, commandState = 0, byteCount = 18, position = 2\<rparr>,
     prdTable := Some initATADMAChains\<rparr>"

theorem createChannelCommands_describes_witness:
  "\<exists>pieces. concat (map piece_bytes pieces) = map (\<lambda>k. 0xfff8 + k) [2..<20] \<and>
      (\<forall>(b, m) \<in> set pieces. 0 < m \<and> m \<le> 65536 \<and> b div 65536 = (b + m - 1) div 65536) \<and>
      (length pieces \<le> 512 \<longrightarrow>
         (\<exists>table'. createChannelCommands (Some sample_gen) sample_transfer
             = Inr (Some (kATANoErr, sample_transfer\<lparr>prdTable := Some table', dmaState := DMAStatus\<rparr>)) \<and>
           take (length pieces) table' = descriptors True pieces))"
proof -
  have s: "currentCommand sample_transfer = Some \<lparr>commandFlags = 0, commandState = 0, byteCount = 18, position = 2\<rparr>"
    "prdTable sample_transfer = Some initATADMAChains" "length initATADMAChains = kATAMaxDMADesc"
    by (simp_all add: sample_transfer_def initATADMAChains_def)
  have u: "used_segments (\<lambda>k. 20 - k) 2 18 = [(2, 18)]"
    by (subst used_segments.simps) simp
  from createChannelCommands_describes [OF sample_gen_law s] obtain pieces
    where pieces: "concat (map piece_bytes pieces) = map (\<lambda>k. 0xfff8 + k) [2..<2 + 18]"
      "\<forall>(b, m) \<in> set pieces. 0 < m \<and> m \<le> 65536 \<and> b div 65536 = (b + m - 1) div 65536"
      "length pieces \<le> kATAMaxDMADesc \<longrightarrow>
         (\<exists>table'. createChannelCommands (Some sample_gen) sample_transfer
             = Inr (Some (kATANoErr, sample_transfer\<lparr>prdTable := Some table', dmaState := DMAStatus\<rparr>)) \<and>
           take (length pieces) table' = descriptors True pieces)"
    by (auto simp: u split: if_splits)
  show ?thesis
    by (rule exI [of _ pieces], intro conjI)
      (use pieces in \<open>simp only: kATAMaxDMADesc_def add_2_eq_Suc numeral_plus_numeral arith_simps\<close>)+
qed

end
