(* ===== verification/AtaPower.thy ===== *)
theory AtaPower
  imports AtaSelect AtaDriver AtaTransferProps
begin

text \<open>
  The timing registers over the life of the driver: in whichever order drives are configured, the
  controller loses and regains its power, drives are turned off and on and the other channel's driver
  writes its own bits, the hardware runs both drives at the timings selected for them.
\<close>

section \<open>What leaves the timings alone\<close>

definition keeps_timings :: "'p ata_device \<Rightarrow> 'p pata \<Rightarrow> 'p pata \<Rightarrow> bool" where
  "keeps_timings D s s' \<longleftrightarrow>
     channel s' = channel s \<and> pioTiming s' = pioTiming s \<and> dmaTiming s' = dmaTiming s \<and>
     udmaTiming s' = udmaTiming s \<and> idetim s' = idetim s \<and> sidetim s' = sidetim s \<and>
     udmactl s' = udmactl s \<and> udmatim s' = udmatim s \<and> ideConfig s' = ideConfig s \<and>
     initTimingRegisters s' = initTimingRegisters s \<and> same_timings D (piix s) (piix s')"

lemma keeps_refl [simp]: "keeps_timings D s s"
  by (simp add: keeps_timings_def)

lemma keeps_trans: "keeps_timings D s t \<Longrightarrow> keeps_timings D t r \<Longrightarrow> keeps_timings D s r"
  unfolding keeps_timings_def by (metis same_timings_trans)

lemma keeps_device: "same_timings D (piix s) (f (piix s)) \<Longrightarrow> keeps_timings D s (on_device f s)"
  by (simp add: keeps_timings_def on_device_def)

lemma keeps_record [simp]: "keeps_timings D s (record_call c s)"
  by (simp add: keeps_timings_def record_call_def)

lemma keeps_switches [simp]:
  "keeps_timings D s (disable_interrupts s)" "keeps_timings D s (enable_interrupts s)"
  by (simp_all add: disable_interrupts_def enable_interrupts_def)

interpretation timings: state_frame "keeps_timings D" for D
  by unfold_locales (simp, rule keeps_trans)

lemmas keeps_fold = timings.keeps_fold

text \<open>
  Where the calls to a superclass appear, they are to keep the timings: the superclass has no
  access to the registers concerned. \<open>ports_apart\<close>: the port map of the personality does not name
  the timing registers as those that enable ports.
\<close>

definition ports_apart :: "ata_properties \<Rightarrow> bool" where
  "ports_apart root \<longleftrightarrow> (\<forall>n m. getPCSPortMapping root n = Some m \<longrightarrow> 0x58 \<le> enableOffset m)"

lemma default_ports_apart: "data_of (root ''PCS Port Map'') = None \<Longrightarrow> ports_apart root"
proof -
  have "0x58 \<le> enableOffset (gDefaultPortMap ! n)" if "\<not> n > 3" for n
  proof -
    have "n \<in> {0, 1, 2, 3}" using that by auto
    then show ?thesis by (auto simp: gDefaultPortMap_def PCS_row_def)
  qed
  then show "data_of (root ''PCS Port Map'') = None \<Longrightarrow> ports_apart root"
    by (auto simp: ports_apart_def getPCSPortMapping_def split: if_splits)
qed

lemma keeps_io:
  assumes "timing_law D"
  shows "keeps_timings D s (io_write D a v s)" and "keeps_timings D s (snd (io_read D a s))"
    and "keeps_timings D s (clear_interrupt D s)"
proof -
  show io: "keeps_timings D s (io_write D a v s)" for a v
    using timing_lawD(10) [OF assms] by (simp add: io_write_def keeps_device)
  show "keeps_timings D s (clear_interrupt D s)" by (simp add: clear_interrupt_def io)
  show "keeps_timings D s (snd (io_read D a s))"
    using timing_lawD(9) [OF assms, of "piix s" a]
    by (cases "ioRead8 D a (piix s)") (simp add: io_read_def keeps_timings_def)
qed

lemma io_read_pair: "io_read D a s = (v, s') \<Longrightarrow> timing_law D \<Longrightarrow> keeps_timings D s s'"
  using keeps_io(2) [of D s a] by simp

lemma keeps_wait: "timing_law D \<Longrightarrow> keeps_timings D s (wait_status D m n s)"
proof (induction n arbitrary: s)
  case (Suc n)
  obtain v s' where r: "io_read D (tfStatusCmdReg s) s = (v, s')" by (cases "io_read D (tfStatusCmdReg s) s")
  show ?case
    using Suc.IH [OF Suc.prems, of s'] keeps_trans [OF io_read_pair [OF r Suc.prems]] io_read_pair [OF r Suc.prems]
    by (simp add: r Let_def)
qed simp

lemma keeps_ports:
  assumes "timing_law D" "ports_apart root"
  shows "keeps_timings D s (enable_ports D root ch on s)"
    and "keeps_timings D s (on_device (setSerialATAPortEnableForDrive D root ch u b) s)"
proof -
  have "same_timings D p (setSerialATAPortEnable D root port b p)" for port b p
    using timing_lawD(5) [OF assms(1)] assms(2)
    by (simp add: setSerialATAPortEnable_def pciConfigWrite8_def ports_apart_def Let_def split: option.split)
  then have one: "keeps_timings D s (on_device (setSerialATAPortEnableForDrive D root ch u b) s)" for u b s
    by (simp add: keeps_device setSerialATAPortEnableForDrive_def)
  then show "keeps_timings D s (on_device (setSerialATAPortEnableForDrive D root ch u b) s)" .
  show "keeps_timings D s (enable_ports D root ch on s)"
    unfolding enable_ports_def by (rule keeps_fold) (rule one)
qed

section \<open>The operations\<close>

text \<open>The lemmas above as introduction rules for a chain of operations.\<close>

named_theorems keeping \<open>an operation keeps the timings if what ran before it does\<close>

lemma keeping_basic [keeping]:
  "keeps_timings D s t \<Longrightarrow> keeps_timings D s (record_call c t)"
  "keeps_timings D s t \<Longrightarrow> keeps_timings D s (disable_interrupts t)"
  "keeps_timings D s t \<Longrightarrow> keeps_timings D s (enable_interrupts t)"
  "timing_law D \<Longrightarrow> keeps_timings D s t \<Longrightarrow> keeps_timings D s (io_write D a v t)"
  "timing_law D \<Longrightarrow> keeps_timings D s t \<Longrightarrow> keeps_timings D s (clear_interrupt D t)"
  "timing_law D \<Longrightarrow> keeps_timings D s t \<Longrightarrow> keeps_timings D s (wait_status D m n t)"
  "timing_law D \<Longrightarrow> ports_apart root \<Longrightarrow> keeps_timings D s t \<Longrightarrow> keeps_timings D s (enable_ports D root ch on t)"
  by (blast intro: keeps_trans keeps_record keeps_switches keeps_io keeps_wait keeps_ports)+

lemma keeping_fields [keeping]:
  "keeps_timings D s t \<Longrightarrow> keeps_timings D s (t\<lparr>drivePowerOn := b\<rparr>)"
  "keeps_timings D s t \<Longrightarrow> keeps_timings D s (t\<lparr>initPortEnable := b\<rparr>)"
  "keeps_timings D s t \<Longrightarrow> keeps_timings D s (t\<lparr>polled := x\<rparr>)"
  "keeps_timings D s t \<Longrightarrow> keeps_timings D s (t\<lparr>polledSATA := x\<rparr>)"
  "keeps_timings D s t \<Longrightarrow> keeps_timings D s (t\<lparr>queueState := q\<rparr>)"
  "keeps_timings D s t \<Longrightarrow> keeps_timings D s (t\<lparr>commandQueue := cs\<rparr>)"
  "keeps_timings D s t \<Longrightarrow> keeps_timings D s (t\<lparr>prdTable := p\<rparr>)"
  "keeps_timings D s t \<Longrightarrow> keeps_timings D s (t\<lparr>dmaState := d\<rparr>)"
  "keeps_timings D s t \<Longrightarrow> keeps_timings D s (t\<lparr>intSrc := b\<rparr>)"
  "keeps_timings D s t \<Longrightarrow> keeps_timings D s (t\<lparr>hasACPI := b\<rparr>)"
  "keeps_timings D s t \<Longrightarrow> keeps_timings D s (t\<lparr>nubMade := nm\<rparr>)"
  "keeps_timings D s t \<Longrightarrow> keeps_timings D s (t\<lparr>deviceType := dt\<rparr>)"
  "keeps_timings D s t \<Longrightarrow> keeps_timings D s (t\<lparr>driveProperties := r\<rparr>)"
  "keeps_timings D s t \<Longrightarrow> keeps_timings D s (t\<lparr>packetSend := ps\<rparr>)"
  "keeps_timings D s t \<Longrightarrow> keeps_timings D s (t\<lparr>queueState := q, busState := bs, currentCommand := c,
     selectedUnit := u, immediateGate := g\<rparr>)"
  by (simp_all add: keeps_timings_def)

definition keeping_super :: "'p ata_device \<Rightarrow> ('p pata \<Rightarrow> 'p pata) \<Rightarrow> bool" where
  "keeping_super D f \<longleftrightarrow> (\<forall>s. keeps_timings D s (f s))"

lemma keeping_superD: "keeping_super D f \<Longrightarrow> keeps_timings D s t \<Longrightarrow> keeps_timings D s (f t)"
  by (auto simp: keeping_super_def intro: keeps_trans)

lemma keeping_result:
  "keeping_super D (\<lambda>s. snd (f s)) \<Longrightarrow> f t = (r, t') \<Longrightarrow> keeps_timings D s t \<Longrightarrow> keeps_timings D s t'"
  by (rule timings.keeps_result [where f = f and t = t and r = r]) (auto simp: keeping_super_def)

text \<open>Rewriting the drive's power bits leaves the half of the register that holds the timings.\<close>

lemma keeps_ideconfig:
  assumes "timing_law D" "(ucast x :: u16) = ucast (configRead32 D kPIIX_PCI_IDECONFIG (piix t))"
    and "keeps_timings D s t"
  shows "keeps_timings D s (on_device (configWrite32 D kPIIX_PCI_IDECONFIG x) t)"
proof -
  have "reg16 D (piix t) kPIIX_PCI_IDECONFIG = ucast x"
    using timing_lawD(8) [OF assms(1), of "piix t"] assms(2) by (simp add: reg16_def)
  then have "same_timings D (piix t) (configWrite32 D kPIIX_PCI_IDECONFIG x (piix t))"
    using timing_lawD(6,7) [OF assms(1), of x "piix t"] by (auto simp: same_timings_def fun_eq_iff)
  then show ?thesis by (rule keeps_trans [OF assms(3) keeps_device])
qed

lemma low_half:
  "(ucast (push_bit 16 a OR (w AND NOT (push_bit 16 b)) :: u32) :: u16) = ucast w"
  "(ucast (NOT (push_bit 16 b) AND w :: u32) :: u16) = ucast w"
  by (rule bit_word_eqI, auto simp: bit_ucast_iff bit_and_iff bit_or_iff bit_not_iff bit_push_bit_iff)+

lemma keeps_callouts [keeping]:
  "keeping_super D f \<Longrightarrow> keeps_timings D s t \<Longrightarrow> keeps_timings D s (executeEventCallouts f t)"
  by (simp add: executeEventCallouts_def keeping keeping_superD)

lemma keeps_turn [keeping]:
  assumes "timing_law D" "keeps_timings D s t"
  shows "keeps_timings D s (turnOffDrive D t)"
    and "keeping_super D f \<Longrightarrow> keeps_timings D s (turnOnDrive D f t)"
proof -
  show "keeps_timings D s (turnOffDrive D t)"
    unfolding turnOffDrive_def Let_def
    by (intro keeping keeps_ideconfig assms low_half)
  assume "keeping_super D f"
  then show "keeps_timings D s (turnOnDrive D f t)"
    unfolding turnOnDrive_def Let_def
    by (intro keeping keeps_ideconfig assms low_half)
qed

text \<open>Operations with a result: what they return besides the state does not matter here.\<close>

lemma keeps_interrupt:
  assumes "timing_law D" and "keeping_super D f"
  shows "keeps_timings D s (snd (interruptFilter D s))"
    and "keeps_timings D s (pata_interruptOccurred f s)"
    and "keeps_timings D s (pollEntry D f s)"
    and "keeps_timings D s (polled_open st s)"
    and "keeps_timings D s (handleQueueFlush s)"
proof -
  obtain v t where r: "io_read D (bmStatusReg s) s = (v, t)" by (cases "io_read D (bmStatusReg s) s")
  note t = io_read_pair [OF r assms(1)]
  show "keeps_timings D s (snd (interruptFilter D s))"
    using t by (simp add: interruptFilter_def r keeping assms(1))
  show "keeps_timings D s (pata_interruptOccurred f s)"
    by (simp add: pata_interruptOccurred_def keeping keeping_superD assms(2))
  show "keeps_timings D s (pollEntry D f s)"
    using t by (simp add: pollEntry_def r keeping keeping_superD assms)
  show "keeps_timings D s (polled_open st s)"
    by (cases st) (simp_all add: polled_open_def set_polling_def transitionFixup_def keeping)
  have "keeps_timings D s (fold (\<lambda>c. record_call (CommandFailed c)) cs t)" if "keeps_timings D s t" for cs t
    using that by (rule keeps_trans) (rule keeps_fold, simp)
  then show "keeps_timings D s (handleQueueFlush s)"
    by (simp add: handleQueueFlush_def Let_def keeping)
qed

lemma keeps_device_calls:
  assumes "timing_law D" and "keeping_super D (\<lambda>s. snd (f s))" and "\<And>u. keeping_super D (\<lambda>s. snd (g u s))"
    and "keeping_super D (\<lambda>s. snd (h s))"
  shows "keeps_timings D s (snd (pata_synchronousIO D f s))"
    and "keeps_timings D s (snd (pata_selectDevice D g u s))"
    and "keeps_timings D s (snd (sata_selectDevice D g u s))"
    and "keeps_timings D s (snd (pata_scanForDrives D h s))"
proof -
  show "keeps_timings D s (snd (pata_synchronousIO D f s))"
    using assms(1) by (auto simp: pata_synchronousIO_def split: prod.split intro!: keeping elim!: keeping_result [OF assms(2)])
  have select: "keeps_timings D s (snd (pata_selectDevice D g u t))" if "keeps_timings D s t" for t
    using assms(1) that
    by (auto simp: pata_selectDevice_def split: prod.split intro!: keeping elim!: keeping_result [OF assms(3)])
  then show "keeps_timings D s (snd (pata_selectDevice D g u s))" by simp
  show "keeps_timings D s (snd (sata_selectDevice D g u s))"
    unfolding sata_selectDevice_def Let_def using assms(1) by (intro select) (simp add: keeping)
  show "keeps_timings D s (snd (pata_scanForDrives D h s))"
    using assms(1)
    by (auto simp: pata_scanForDrives_def Let_def split: prod.split intro!: keeping elim!: keeping_result [OF assms(4)])
qed

lemma keeps_completion:
  assumes "timing_law D" "keeping_super D f"
  shows "pata_completeIO D m f s = Inr s' \<Longrightarrow> keeps_timings D s s'"
    and "with_drive_power D f s = Inr s' \<Longrightarrow> keeps_timings D s s'"
    and "keeping_super D (\<lambda>s. snd (g s)) \<Longrightarrow> pata_dispatchNext D f g s = Inr (r, s') \<Longrightarrow> keeps_timings D s s'"
    and "mediaInterestHandler D f b msg s = Inr s' \<Longrightarrow> keeps_timings D s s'"
proof -
  show "pata_completeIO D m f s = Inr s' \<Longrightarrow> keeps_timings D s s'"
    using assms by (auto simp: pata_completeIO_def Let_def keeping keeping_superD split: if_splits)
  show power: "with_drive_power D f s = Inr s' \<Longrightarrow> keeps_timings D s s'" for s'
    using assms by (auto simp: with_drive_power_def keeping split: if_splits)
  then show "mediaInterestHandler D f b msg s = Inr s' \<Longrightarrow> keeps_timings D s s'"
    by (auto simp: mediaInterestHandler_def handleInsert_def split: if_splits)
  assume g: "keeping_super D (\<lambda>s. snd (g s))" and "pata_dispatchNext D f g s = Inr (r, s')"
  then obtain t where t: "with_drive_power D f s = Inr t" "g t = (r, s')"
    by (auto simp: pata_dispatchNext_def)
  show "keeps_timings D s s'" by (rule keeping_result [OF g t(2) power [OF t(1)]])
qed

lemma keeps_serial:
  assumes "timing_law D" "ports_apart root" "keeping_super D (\<lambda>s. snd (f s))"
  shows "keeps_timings D s (snd (sata_scanForDrives D root ch f s))"
proof -
  have reset: "keeps_timings D s (reset_loop D root ch n s)" for n s
  proof (induction n arbitrary: s)
    case (Suc n)
    define s1 where "s1 = (if (300 - n) * 10 mod 1000 = 0 then reset_ports D root ch s else s)"
    have s1: "keeps_timings D s s1"
      using assms(1,2) by (simp add: s1_def reset_ports_def Let_def keeping)
    obtain v s2 where r: "io_read D (tfStatusCmdReg s1) s1 = (v, s2)" by (cases "io_read D (tfStatusCmdReg s1) s1")
    have s2: "keeps_timings D s s2" by (rule keeps_trans [OF s1 io_read_pair [OF r assms(1)]])
    show ?case
      using s2 keeps_trans [OF s2 Suc.IH] by (simp add: Let_def s1_def [symmetric] r)
  qed simp
  obtain n t where t: "f (reset_loop D root ch 301 s) = (n, t)" by (cases "f (reset_loop D root ch 301 s)")
  have st: "keeps_timings D s t" by (rule keeping_result [OF assms(3) t reset])
  moreover have "keeps_timings D t (forget_absent D root ch t)"
    unfolding forget_absent_def by (rule keeps_fold) (simp add: keeping)
  moreover have "keeps_timings D r (disable_unused D root ch r)" for r
    unfolding disable_unused_def by (rule keeps_fold) (simp add: keeps_ports [OF assms(1,2)])
  ultimately have "keeps_timings D s (disable_unused D root ch (forget_absent D root ch t))"
    by (blast intro: keeps_trans)
  then show ?thesis unfolding sata_scanForDrives_def t by simp
qed

lemma keeps_transfer:
  assumes "createChannelCommands gen s = Inr (Some (r, s'))"
  shows "keeps_timings D s s'"
proof -
  obtain c where c: "currentCommand s = Some c"
    using assms by (cases "currentCommand s") (simp_all add: createChannelCommands_def)
  show ?thesis
  proof (cases gen)
    case None
    then show ?thesis using assms c by (simp add: createChannelCommands_def)
  next
    case (Some g)
    show ?thesis
    proof (cases "byteCount c = 0")
      case True
      then show ?thesis using assms c Some by (simp add: createChannelCommands_def)
    next
      case False
      then obtain table where table: "prdTable s = Some table"
        using assms c Some by (cases "prdTable s") (simp_all add: createChannelCommands_def)
      show ?thesis
        using assms c Some False table
        by (cases "fill_table g (ucast (position c)) (byteCount c) 0 table")
          (auto simp: createChannelCommands_def keeping split: if_split_asm)
    qed
  qed
qed

lemma keeps_services:
  assumes "timing_law D" "keeps_timings D s t"
  shows "keeps_timings D s (snd (start_services D E t))"
proof -
  have "keeps_timings D s (make_drive_nub E b u t)" if "keeps_timings D s t" for b u t
    using that by (simp add: make_drive_nub_def Let_def keeping)
  moreover have "keeps_timings D s (find_acpi E t)" if "keeps_timings D s t" for t
    using that by (simp add: find_acpi_def keeping split: option.split)
  ultimately show ?thesis
    using assms by (simp add: start_services_def start_fails_def Let_def keeping)
qed

section \<open>The invariant\<close>

text \<open>
  The driver's copies of the registers always hold the programs of the selected timings, and
  unless the controller has been without power since, the hardware does too.
\<close>

definition timings_in_force :: "'p ata_device \<Rightarrow> 'p pata \<Rightarrow> bool" where
  "timings_in_force D s \<longleftrightarrow> channel s \<le> 1 \<and> drive_cached 0 s \<and> drive_cached 1 s \<and>
     (\<not> initTimingRegisters s \<longrightarrow> drive_programmed D 0 s \<and> drive_programmed D 1 s)"

lemma in_force_keeps: "timings_in_force D s \<Longrightarrow> keeps_timings D s s' \<Longrightarrow> timings_in_force D s'"
  by (simp add: timings_in_force_def keeps_timings_def drive_cached_def drive_programmed_def same_timings_def)

lemma in_force_written:
  assumes "timing_law D" "\<not> hasSharedDriveTimings ch" "channel s \<le> 1" "drive_cached 0 s" "drive_cached 1 s"
  shows "timings_in_force D (writeTimingRegisters D ch v s)"
  using assms write_programs [OF assms(1-5)] by (simp add: timings_in_force_def)

lemma in_force_apply:
  assumes "timing_law D" "\<not> hasSharedDriveTimings ch" "timings_in_force D s" "u < 2"
    and "pio \<in> set piixPIOTiming" "set_option dma \<subseteq> set piixDMATiming" "set_option udma \<subseteq> set piixUDMATiming"
    and "apply_timings D ch u pio dma udma s = Inr s'"
  shows "timings_in_force D s'"
proof -
  have s: "channel s \<le> 1" "drive_cached 0 s" "drive_cached 1 s" using assms(3) by (auto simp: timings_in_force_def)
  obtain s1 where s1: "s' = writeTimingRegisters D ch 0 s1" "channel s1 = channel s" "drive_cached u s1"
    "\<And>u'. u' < 2 \<Longrightarrow> u' \<noteq> u \<Longrightarrow> drive_cached u' s \<Longrightarrow> drive_cached u' s1"
    using assms(8) by (rule_tac apply_timings_cached [OF assms(2) s(1) assms(4-7), of D]) auto
  have "u = 0 \<or> u = 1" using assms(4) by auto
  then have "drive_cached 0 s1" "drive_cached 1 s1" using s s1(3,4) by auto
  then show ?thesis using in_force_written [OF assms(1,2)] s(1) by (simp add: s1(1,2))
qed

lemma in_force_select:
  assumes "timing_law D" "\<not> hasSharedDriveTimings ch" "timings_in_force D s"
    and "selectConfig D B ch configIn u s = Inr (r, c, s')"
  shows "timings_in_force D s'"
proof -
  define s0 where "s0 = remove_ata_property ''Ultra DMA Mode''
    (remove_ata_property ''DMA Mode'' (remove_ata_property ''PIO Mode'' s))"
  show ?thesis
  proof (cases "configIn = None \<or> u > 1")
    case True
    then show ?thesis using assms(3,4) by (auto simp: selectConfig_def split: option.splits)
  next
    case False
    then obtain config where config: "configIn = Some config" "u \<le> 1" by auto
    from assms(4) obtain pio s1 where pio: "select_pio B ch config u s0 = Inr (pio, s1)"
      and rest: "(case select_dma B ch config u s1 of
                 None \<Rightarrow> Inr (kATAModeNotSupported, Some config, s1)
               | Some (dma, s) \<Rightarrow>
                   and_then (select_udma B ch config u s) (\<lambda>udma.
                   case udma of
                     None \<Rightarrow> Inr (kATAModeNotSupported, Some config, s)
                   | Some (udma, s) \<Rightarrow>
                       and_then (apply_timings D ch u (compatible_pio pio dma) dma udma s) (\<lambda>s.
                       let s = s\<lparr>packetSend := (packetSend s)(u := PacketConfig config)\<rparr>;
                           (ret, config) = getConfig (Some config) u s
                       in Inr (ret, config, s)))) = Inr (r, c, s')"
      using config by (auto simp: selectConfig_def s0_def [symmetric])
    have "piixPIOTiming ! 0 \<in> set piixPIOTiming" by (rule nth_mem) simp
    then have s1: "pio \<in> set piixPIOTiming" "keeps_timings D s s1"
      using pio
      by (auto simp: select_pio_def Let_def table_entry_def s0_def remove_ata_property_def
          setDriveProperty_def keeping simp del: timing_table_lengths split: if_split_asm)
    show ?thesis
    proof (cases "select_dma B ch config u s1")
      case None
      then show ?thesis using rest in_force_keeps [OF assms(3) s1(2)] by simp
    next
      case (Some q)
      obtain dma s2 where q: "q = (dma, s2)" by (cases q)
      have s2: "set_option dma \<subseteq> set piixDMATiming" "keeps_timings D s s2"
        using Some s1(2) modes_in_tables(2)
        by (auto simp: q select_dma_def Let_def setDriveProperty_def keeping simp del: timing_table_lengths
            split: if_split_asm)
      obtain udma where udma: "select_udma B ch config u s2 = Inr udma"
        using rest Some q by auto
      show ?thesis
      proof (cases udma)
        case None
        then show ?thesis using rest Some q udma in_force_keeps [OF assms(3) s2(2)] by simp
      next
        case (Some w)
        obtain t s3 where w: "w = (t, s3)" by (cases w)
        have s3: "set_option t \<subseteq> set piixUDMATiming" "keeps_timings D s s3"
          using udma s2(2) Some
          by (auto simp: w select_udma_def Let_def table_entry_def setDriveProperty_def keeping
              simp del: timing_table_lengths split: if_split_asm)
        have "compatible_pio pio dma \<in> set piixPIOTiming" by (rule compatible_in_table [OF s1(1)])
        obtain s4 where s4: "apply_timings D ch u (compatible_pio pio dma) dma t s3 = Inr s4"
            "s' = s4\<lparr>packetSend := (packetSend s4)(u := PacketConfig config)\<rparr>"
          using rest \<open>select_dma B ch config u s1 = Some q\<close> q udma Some w config(2)
          by (auto simp: getConfig_def Let_def split: if_split_asm)
        have "timings_in_force D s4"
          using config(2) by (intro in_force_apply [OF assms(1,2) in_force_keeps [OF assms(3) s3(2)] _ 
             \<open>compatible_pio pio dma \<in> set piixPIOTiming\<close> s2(1) s3(1) s4(1)]) simp
        then show ?thesis unfolding s4(2) by (rule in_force_keeps) (simp add: keeping)
      qed
    qed
  qed
qed

text \<open>The driver of the other channel writes the registers the two share through its own masks.\<close>

lemma drop_bits_kept:
  fixes w v M m :: "'a::len word"
  assumes "push_bit k m AND M = 0" "drop_bit k (push_bit k m) = m"
  shows "drop_bit k ((w AND NOT M) OR (M AND v)) AND m = drop_bit k w AND m"
proof (rule bit_word_eqI)
  fix n
  have "\<not> bit M (k + n)" if "bit m n"
    using assms(1) bit_of_field(1) [OF assms(2) that] by (metis bit_and_iff bit_0_eq bot_apply bot_bool_def)
  then show "bit (drop_bit k ((w AND NOT M) OR (M AND v)) AND m) n = bit (drop_bit k w AND m) n"
    using bit_of_field(2) [OF assms(2)] by (auto simp: bit_and_iff bit_or_iff bit_not_iff bit_drop_bit_eq)
qed

lemma other_channel_runs:
  fixes p :: 'p and v :: nat
  assumes "timing_law D" "\<not> hasSharedDriveTimings ch" "channel t \<le> 1" "c < 2" "unat (channel t) \<noteq> c" "u < 2"
  defines "q \<equiv> write_timings D ch v t p"
  shows "drive_runs (reg16 D q) (reg8 D q) c u pio dma udma = drive_runs (reg16 D p) (reg8 D p) c u pio dma udma"
proof -
  have c: "c = 0 \<and> channel t = 1 \<or> c = 1 \<and> channel t = 0"
    using channel_cases [OF assms(3)] assms(4,5) by auto
  have u: "u = 0 \<or> u = 1" using assms(6) by auto
  have m: "push_bit (2 * c + u) 1 AND udmactl_mask (channel t) = 0"
    "push_bit (8 * c + 4 * u) 3 AND udmatim_mask (channel t) = 0"
    "push_bit (2 * c + u) 0x1001 AND ideConfig_mask (channel t) = 0"
    "push_bit 0 (column (piix3SIDETIM ! 0) c) AND sidetim_mask (channel t) = 0"
    "(if c = 0 then 0x40 else 0x42) \<noteq> idetim_offset (channel t)"
    using c u by (auto simp: udmactl_mask_def udmatim_mask_def ideConfig_mask_def kPIIX_PCI_IDECONFIG_WR_PP_EN_def
        sidetim_mask_def piix3SIDETIM_def idetim_offset_def)
  note f = unit_fields [OF assms(4,6)]
  have "drop_bit 0 ((w AND NOT (sidetim_mask (channel t))) OR (sidetim_mask (channel t) AND x))
        AND column (piix3SIDETIM ! 0) c = drop_bit 0 w AND column (piix3SIDETIM ! 0) c" for w x
    by (rule drop_bits_kept [OF m(4)]) simp
  then have side: "((w AND NOT (sidetim_mask (channel t))) OR (sidetim_mask (channel t) AND x))
        AND column (piix3SIDETIM ! 0) c = w AND column (piix3SIDETIM ! 0) c" for w x by simp
  have regs: "reg16 D q (if c = 0 then 0x40 else 0x42) = reg16 D p (if c = 0 then 0x40 else 0x42)"
    using m(5) by (auto simp: q_def write_timings_regs [OF assms(1,2)] split: if_splits)
  have vals: "reg8 D q 0x44 = (reg8 D p 0x44 AND NOT (sidetim_mask (channel t))) OR (sidetim_mask (channel t) AND sidetim t)"
    "reg8 D q 0x48 = (reg8 D p 0x48 AND NOT (udmactl_mask (channel t))) OR (udmactl_mask (channel t) AND udmactl t)"
    "reg16 D q 0x4a = (reg16 D p 0x4a AND NOT (udmatim_mask (channel t))) OR (udmatim_mask (channel t) AND udmatim t)"
    "reg16 D q 0x54 = (reg16 D p 0x54 AND NOT (ideConfig_mask (channel t))) OR (ideConfig_mask (channel t) AND ideConfig t)"
    by (simp_all add: q_def write_timings_regs [OF assms(1,2)])
  show ?thesis
    by (simp only: drive_runs_def Let_def udma_runs_def regs vals side drop_bits_kept [OF m(1) f(1)]
        drop_bits_kept [OF m(2) f(2)] drop_bits_kept [OF m(3) f(3)])
qed

lemma in_force_other:
  assumes "timing_law D" "\<not> hasSharedDriveTimings ch" "channel t \<le> 1" "channel t \<noteq> channel s"
    and "timings_in_force D s"
  shows "timings_in_force D (on_device (write_timings D ch v t) s)"
proof -
  have c: "unat (channel s) < 2" "unat (channel t) \<noteq> unat (channel s)"
    using assms(4,5) channel_cases [of "channel s"] by (auto simp: timings_in_force_def word_unat_eq_iff)
  note same = other_channel_runs [OF assms(1-3) c]
  show ?thesis
    using assms(5)
    by (auto simp: timings_in_force_def drive_cached_def drive_programmed_def on_device_def same)
qed

section \<open>The driver's life\<close>

lemma in_force_power:
  assumes "timing_law D" "\<not> hasSharedDriveTimings ch" "timings_in_force D s"
  shows "timings_in_force D (pata_setPowerState D ch i s)"
proof -
  have reset: "keeps_timings D s (reset_drive D s)"
    using assms(1) by (simp add: reset_drive_def Let_def keeping)
  define r where "r = reset_drive D s"
  have r: "timings_in_force D r" unfolding r_def by (rule in_force_keeps [OF assms(3) reset])
  then have "timings_in_force D (writeTimingRegisters D ch 0 r)"
    using in_force_written [OF assms(1,2)] by (simp add: timings_in_force_def)
  then have w: "timings_in_force D ((writeTimingRegisters D ch 0 r)\<lparr>initTimingRegisters := False\<rparr>)"
    using r write_programs [OF assms(1,2), of r]
    by (simp add: timings_in_force_def drive_cached_def drive_programmed_def)
  have "timings_in_force D (s\<lparr>initTimingRegisters := True\<rparr>)"
    using assms(3) by (simp add: timings_in_force_def drive_cached_def)
  then show ?thesis
    using assms(3) w by (simp add: pata_setPowerState_def r_def)
qed

lemma in_force_started:
  assumes "timing_law D" "\<not> hasSharedDriveTimings ch" "providerChannel E = Some ch" "keeping_super D (\<lambda>s. snd (superStart E s))"
    and "pata_start D E s = Inr (True, s')"
  shows "timings_in_force D s'"
proof -
  define s0 where "s0 = s\<lparr>drivePowerOn := True, polled := None, pataCmd := cmdBlock ch, pataCtr := ctrBlock ch,
      channel := channelNum ch\<rparr>"
  have "start_channel D E ch s0 = Inr (True, s')"
    using assms(3,5) by (simp add: pata_start_def start_fails_def s0_def Let_def split: if_split_asm)
  moreover obtain ok t0 where conf: "configurePCIDevice D s0 = (ok, t0)" by (cases "configurePCIDevice D s0")
  ultimately obtain base s1 s2 where c: "channelNum ch \<le> 1"
    and s1: "resetTimingsForDevice D ch 0 (t0\<lparr>ioBMOffset := base\<rparr>) = Inr s1"
    and s2: "resetTimingsForDevice D ch 1 s1 = Inr s2"
    and rest: "(case superStart E s2 of (started, s) \<Rightarrow> Inr (if started then start_services D E s else start_fails E False s))
      = (Inr (True, s') :: kernel_error + bool \<times> 'a pata)"
    by (auto simp: start_channel_def start_fails_def s0_def not_less split: if_split_asm option.split_asm)
  obtain b s3 where s3: "superStart E s2 = (b, s3)" by (cases "superStart E s2")
  then have s': "start_services D E s3 = (True, s')" using rest by (simp add: start_fails_def split: if_split_asm)
  define t where "t = t0\<lparr>ioBMOffset := base\<rparr>"
  have t: "channel t \<le> 1"
    using c conf by (auto simp: t_def configurePCIDevice_def s0_def on_device_def Let_def split: if_split_asm)
  have tables: "piixPIOTiming ! 0 \<in> set piixPIOTiming" by (rule nth_mem) simp
  have none: "set_option (None :: PIIXTiming option) \<subseteq> set piixDMATiming"
    "set_option (None :: PIIXUDMATiming option) \<subseteq> set piixUDMATiming" by simp_all
  obtain t1 where t1: "s1 = writeTimingRegisters D ch 0 t1" "channel t1 = channel t" "drive_cached 0 t1"
    by (rule apply_timings_cached [OF assms(2) t _ tables none, of 0 D])
      (use s1 in \<open>auto simp: resetTimingsForDevice_def t_def\<close>)
  have c1: "channel s1 \<le> 1" "drive_cached 0 s1" using t1 t by simp_all
  obtain t2 where t2: "s2 = writeTimingRegisters D ch 0 t2" "channel t2 = channel s1" "drive_cached 1 t2" "drive_cached 0 t2"
    by (rule apply_timings_cached [OF assms(2) c1(1) _ tables none, of 1 D])
      (use s2 c1(2) in \<open>auto simp: resetTimingsForDevice_def\<close>)
  have "timings_in_force D s2"
    unfolding t2(1) using c1(1) t2 by (intro in_force_written [OF assms(1,2)]) simp_all
  then have "timings_in_force D s3" by (rule in_force_keeps) (rule keeping_result [OF assms(4) s3], simp)
  then show ?thesis
    using keeps_services [OF assms(1) keeps_refl, of s3 E] s' by (auto intro: in_force_keeps)
qed

text \<open>
  The states of the driver of channel \<open>ch\<close>: after a start, every call the driver answers, in any
  order. The superclasses' parts keep the timings; \<open>lost\<close> is the loss of the controller's power after
  the driver was told, \<open>other_writes\<close> the other channel's driver writing its timings.
\<close>

inductive driver_reaches ::
  "'p ata_device \<Rightarrow> (u8 \<Rightarrow> u8) \<Rightarrow> ata_properties \<Rightarrow> ata_channel \<Rightarrow> 'p pata \<Rightarrow> bool"
  for D B root ch where
  started: "providerChannel E = Some ch \<Longrightarrow> keeping_super D (\<lambda>s. snd (superStart E s)) \<Longrightarrow>
    pata_start D E s = Inr (True, s') \<Longrightarrow> driver_reaches D B root ch s'"
| serial_started: "providerChannel E = Some ch \<Longrightarrow> keeping_super D (\<lambda>s. snd (superStart E s)) \<Longrightarrow>
    sata_start D E s = Inr (True, s') \<Longrightarrow> driver_reaches D B root ch s'"
| configured: "driver_reaches D B root ch s \<Longrightarrow> selectConfig D B ch config u s = Inr (r, c, s') \<Longrightarrow>
    driver_reaches D B root ch s'"
| power: "driver_reaches D B root ch s \<Longrightarrow> driver_reaches D B root ch (pata_setPowerState D ch i s)"
| serial_power: "driver_reaches D B root ch s \<Longrightarrow> driver_reaches D B root ch (sata_setPowerState D root ch i s)"
| lost: "driver_reaches D B root ch s \<Longrightarrow> initTimingRegisters s \<Longrightarrow> driver_reaches D B root ch (s\<lparr>piix := p\<rparr>)"
| other_writes: "driver_reaches D B root ch s \<Longrightarrow> channel t \<le> 1 \<Longrightarrow> channel t \<noteq> channel s \<Longrightarrow>
    \<not> hasSharedDriveTimings ch' \<Longrightarrow> driver_reaches D B root ch (on_device (write_timings D ch' v t) s)"
| interrupt: "driver_reaches D B root ch s \<Longrightarrow> driver_reaches D B root ch (snd (interruptFilter D s))"
| interrupt_handled: "driver_reaches D B root ch s \<Longrightarrow> keeping_super D f \<Longrightarrow>
    driver_reaches D B root ch (pata_interruptOccurred f s)"
| selected: "driver_reaches D B root ch s \<Longrightarrow> (\<And>u. keeping_super D (\<lambda>s. snd (g u s))) \<Longrightarrow>
    driver_reaches D B root ch (snd (pata_selectDevice D g u s))"
| serial_selected: "driver_reaches D B root ch s \<Longrightarrow> (\<And>u. keeping_super D (\<lambda>s. snd (g u s))) \<Longrightarrow>
    driver_reaches D B root ch (snd (sata_selectDevice D g u s))"
| synchronous: "driver_reaches D B root ch s \<Longrightarrow> keeping_super D (\<lambda>s. snd (h s)) \<Longrightarrow>
    driver_reaches D B root ch (snd (pata_synchronousIO D h s))"
| scanned: "driver_reaches D B root ch s \<Longrightarrow> keeping_super D (\<lambda>s. snd (n s)) \<Longrightarrow>
    driver_reaches D B root ch (snd (pata_scanForDrives D n s))"
| serial_scanned: "driver_reaches D B root ch s \<Longrightarrow> keeping_super D (\<lambda>s. snd (n s)) \<Longrightarrow>
    driver_reaches D B root ch (snd (sata_scanForDrives D root ch n s))"
| polled: "driver_reaches D B root ch s \<Longrightarrow> keeping_super D f \<Longrightarrow> driver_reaches D B root ch (pollEntry D f s)"
| polled_opened: "driver_reaches D B root ch s \<Longrightarrow> driver_reaches D B root ch (polled_open st s)"
| flushed: "driver_reaches D B root ch s \<Longrightarrow> driver_reaches D B root ch (handleQueueFlush s)"
| completed: "driver_reaches D B root ch s \<Longrightarrow> keeping_super D f \<Longrightarrow> pata_completeIO D m f s = Inr s' \<Longrightarrow>
    driver_reaches D B root ch s'"
| dispatched: "driver_reaches D B root ch s \<Longrightarrow> keeping_super D f \<Longrightarrow> keeping_super D (\<lambda>s. snd (h s)) \<Longrightarrow>
    pata_dispatchNext D f h s = Inr (r, s') \<Longrightarrow> driver_reaches D B root ch s'"
| inserted: "driver_reaches D B root ch s \<Longrightarrow> keeping_super D f \<Longrightarrow> mediaInterestHandler D f b msg s = Inr s' \<Longrightarrow>
    driver_reaches D B root ch s'"
| transferred: "driver_reaches D B root ch s \<Longrightarrow> createChannelCommands gen s = Inr (Some (r, s')) \<Longrightarrow>
    driver_reaches D B root ch s'"

lemma driver_reaches_in_force:
  assumes "driver_reaches D B root ch s" "timing_law D" "ports_apart root" "\<not> hasSharedDriveTimings ch"
  shows "timings_in_force D s"
  using assms
proof (induction rule: driver_reaches.induct)
  case (started E s s')
  then show ?case by (blast intro: in_force_started)
next
  case (serial_started E s s')
  then show ?case unfolding sata_start_def by (blast intro: in_force_started)
next
  case (configured s config u r c s')
  then show ?case by (blast intro: in_force_select)
next
  case (power s i)
  then show ?case by (blast intro: in_force_power)
next
  case (serial_power s i)
  have "keeps_timings D s (if i = 0 then s\<lparr>initPortEnable := True\<rparr>
               else if initPortEnable s
               then (enable_ports D root ch (\<lambda>u. deviceType s u \<noteq> UnknownATADevice) s)\<lparr>initPortEnable := False\<rparr>
               else s)"
    using serial_power.prems by (simp add: keeping)
  then show ?case
    using serial_power unfolding sata_setPowerState_def Let_def by (blast intro: in_force_power in_force_keeps)
next
  case (lost s p)
  then show ?case by (auto simp: timings_in_force_def drive_cached_def)
next
  case (other_writes s t ch' v)
  then show ?case by (blast intro: in_force_other)
next
  case (synchronous s h)
  then show ?case
    by (auto intro!: in_force_keeps [of D s] keeps_device_calls(1) [where g = "\<lambda>_ s. (0, s)" and h = "\<lambda>s. (0, s)"]
        simp: keeping_super_def)
next
  case (selected s g u)
  then show ?case
    by (auto intro!: in_force_keeps [of D s] keeps_device_calls(2) [where f = "\<lambda>s. (0, s)" and h = "\<lambda>s. (0, s)"]
        simp: keeping_super_def)
next
  case (serial_selected s g u)
  then show ?case
    by (auto intro!: in_force_keeps [of D s] keeps_device_calls(3) [where f = "\<lambda>s. (0, s)" and h = "\<lambda>s. (0, s)"]
        simp: keeping_super_def)
next
  case (scanned s n)
  then show ?case
    by (auto intro!: in_force_keeps [of D s] keeps_device_calls(4) [where f = "\<lambda>s. (0, s)" and g = "\<lambda>_ s. (0, s)"]
        simp: keeping_super_def)
next
  case (interrupt s)
  then show ?case
    by (blast intro: in_force_keeps keeps_interrupt(1) [where f = "\<lambda>s. s"] keeping_super_def [THEN iffD2] keeps_refl)
next
  case (polled_opened s st)
  then show ?case
    by (blast intro: in_force_keeps keeps_interrupt(4) [where f = "\<lambda>s. s"] keeping_super_def [THEN iffD2] keeps_refl)
next
  case (flushed s)
  then show ?case
    by (blast intro: in_force_keeps keeps_interrupt(5) [where f = "\<lambda>s. s"] keeping_super_def [THEN iffD2] keeps_refl)
qed (blast intro: in_force_keeps keeps_interrupt keeps_completion keeps_serial keeps_transfer)+

text \<open>C4. Whatever happens after a start - drives are configured with any request, the controller loses
  its power and regains it, drives are turned off and on, commands run, the other channel's driver
  writes its timings - the controller's registers hold, whenever it has power, the program of the
  timings selected for each of the two drives: its PIO or DMA row with the right masks and, where
  Ultra DMA is selected, the enable bit, the cycle time and the clock.\<close>
theorem hardware_runs_selection:
  assumes "timing_law D" "ports_apart root" "\<not> hasSharedDriveTimings ch"
    and "driver_reaches D B root ch s" "\<not> initTimingRegisters s" "u < 2"
  shows "\<exists>pio. pioTiming s u = Some pio \<and>
     drive_runs (reg16 D (piix s)) (reg8 D (piix s)) (unat (channel s)) u pio (dmaTiming s u) (udmaTiming s u)"
proof -
  have "u = 0 \<or> u = 1" using assms(6) by auto
  then have "drive_programmed D u s"
    using driver_reaches_in_force [OF assms(4,1,2,3)] assms(5) by (auto simp: timings_in_force_def)
  then show ?thesis by (simp add: drive_programmed_def)
qed

section \<open>A witness\<close>

text \<open>The controller with its registers decoded and a bus master block at 0xff00.\<close>

definition sample_hardware :: "u8 \<Rightarrow> u8" where
  "sample_hardware = (\<lambda>_. 0)(0x20 := 0x01, 0x21 := 0xff, 0x41 := 0x80)"

definition sample_start :: "(u8 \<Rightarrow> u8) pata_env" where
  "sample_start = \<lparr>providerChannel = Some sample_channel, channelOpens = True, superStart = (\<lambda>s. (True, s)),
     sourceCreated = True, sourceAdded = True, acpiRegistry = (\<lambda>_. None), acpiPath = None,
     hasSafeSleep = False, nubCreated = (\<lambda>_. True), nubAttached = (\<lambda>_. True), adapterCreated = True\<rparr>"

lemma sample_started: "\<exists>s. pata_start plain_device sample_start (new_pata sample_hardware) = Inr (True, s)"
proof -
  define s0 where "s0 = (new_pata sample_hardware)\<lparr>drivePowerOn := True, polled := None,
     pataCmd := cmdBlock sample_channel, pataCtr := ctrBlock sample_channel, channel := channelNum sample_channel\<rparr>"
  have ch: "\<not> hasSharedDriveTimings sample_channel" "channelNum sample_channel = 0"
    by (simp_all add: sample_channel_def)
  have regs: "configRead32 plain_device 0x40 sample_hardware = 0x8000" "configRead32 plain_device 0x20 sample_hardware = 0xff01"
    by (simp_all add: plain_device_def sample_hardware_def read16_bytes_def)
  obtain t0 where conf: "configurePCIDevice plain_device s0 = (True, t0)" "piix t0 = sample_hardware" "channel t0 = 0"
    by (simp add: configurePCIDevice_def s0_def new_pata_def ch regs kPIIX_PCI_IDETIM_IDE_def on_device_def Let_def)
      (simp add: plain_device_def)
  have base: "getBMBaseAddress plain_device (channel t0) (piix t0) = Some 0xff00"
    by (simp add: getBMBaseAddress_def conf regs Let_def)
  have tables: "piixPIOTiming ! 0 \<in> set piixPIOTiming" "set_option (None :: PIIXTiming option) \<subseteq> set piixDMATiming"
    "set_option (None :: PIIXUDMATiming option) \<subseteq> set piixUDMATiming" by (auto intro: nth_mem)
  have reset: "\<exists>s'. resetTimingsForDevice plain_device sample_channel u s = Inr s' \<and> channel s' = channel s"
    if "channel s \<le> 1" "u < 2" for s u
    unfolding resetTimingsForDevice_def
    by (rule apply_timings_cached [OF ch(1) that tables, of plain_device]) simp
  obtain s1 where s1: "resetTimingsForDevice plain_device sample_channel 0 (t0\<lparr>ioBMOffset := 0xff00\<rparr>) = Inr s1" "channel s1 = 0"
    using reset [of "t0\<lparr>ioBMOffset := 0xff00\<rparr>" 0] conf(3) by auto
  obtain s2 where s2: "resetTimingsForDevice plain_device sample_channel 1 s1 = Inr s2"
    using reset [of s1 1] s1(2) by auto
  have "fst (start_services plain_device sample_start s2)"
    by (simp add: start_services_def sample_start_def Let_def)
  then obtain s3 where s3: "start_services plain_device sample_start s2 = (True, s3)"
    by (cases "start_services plain_device sample_start s2") auto
  have env: "superStart sample_start s2 = (True, s2)" by (simp add: sample_start_def)
  have "start_channel plain_device sample_start sample_channel s0 = Inr (True, s3)"
    unfolding start_channel_def conf(1) using base s1(1) s2 s3 env
    by (simp add: s0_def ch)
  then show ?thesis
    by (simp add: pata_start_def s0_def [symmetric] Let_def) (simp add: sample_start_def s0_def)
qed

theorem hardware_runs_selection_witness:
  "\<exists>s pio. driver_reaches plain_device first_bit (\<lambda>_. None) sample_channel s \<and> pioTiming s 1 = Some pio \<and>
     drive_runs (reg16 plain_device (piix s)) (reg8 plain_device (piix s)) (unat (channel s)) 1 pio
       (dmaTiming s 1) (udmaTiming s 1)"
proof -
  obtain s0 where s0: "pata_start plain_device sample_start (new_pata sample_hardware) = Inr (True, s0)"
    using sample_started by auto
  have "providerChannel sample_start = Some sample_channel" "keeping_super plain_device (\<lambda>s. snd (superStart sample_start s))"
    by (simp_all add: sample_start_def keeping_super_def)
  note reached = driver_reaches.started [OF this s0]
  define s where "s = pata_setPowerState plain_device sample_channel 2 (pata_setPowerState plain_device sample_channel 0 s0)"
  have s: "driver_reaches plain_device first_bit (\<lambda>_. None) sample_channel s" "\<not> initTimingRegisters s"
    using reached by (auto simp: s_def intro: driver_reaches.power) (simp add: pata_setPowerState_def)
  have "ports_apart (\<lambda>_. None)" by (rule default_ports_apart) simp
  from hardware_runs_selection [OF timing_law_plain this sample_pata_fields(2) s, of 1] s(1) show ?thesis by auto
qed

end
