(* ===== verification/AtaSharing.thy ===== *)
theory AtaSharing
  imports AtaChannel
begin

text \<open>
  Two channels share one controller: who holds it open, and which serial ports belong to whom.
\<close>

section \<open>Opening the provider\<close>

text \<open>
  What a channel relies on when it opens the driver below it: a client is let in once, and the
  provider itself holds the hardware while it has clients.
\<close>

locale shared_provider =
  fixes open_for :: "nat \<Rightarrow> 's \<Rightarrow> bool \<times> 's"
    and close_for :: "nat \<Rightarrow> 's \<Rightarrow> 's"
    and clients :: "'s \<Rightarrow> nat set"
    and holds_hardware :: "'s \<Rightarrow> bool"
  assumes opened: "open_for c s = (True, s') \<Longrightarrow> c \<notin> clients s \<and> clients s' = insert c (clients s)"
    and refused: "open_for c s = (False, s') \<Longrightarrow> clients s' = clients s"
    and closed: "clients (close_for c s) = clients s - {c}"
    and open_holds: "holds_hardware s = (clients s \<noteq> {}) \<Longrightarrow>
           holds_hardware (snd (open_for c s)) = (clients (snd (open_for c s)) \<noteq> {})"
    and close_holds: "holds_hardware s = (clients s \<noteq> {}) \<Longrightarrow>
           holds_hardware (close_for c s) = (clients (close_for c s) \<noteq> {})"
begin

lemma channel_opened:
  assumes "channel_handleOpen open_for close_for accepts c s = (True, s')"
  shows "accepts" and "c \<notin> clients s" and "clients s' = insert c (clients s)"
proof -
  obtain b t where t: "open_for c s = (b, t)" by (cases "open_for c s")
  have b: "b" "accepts" "t = s'" using assms by (auto simp: channel_handleOpen_def t split: if_split_asm)
  then show "accepts" "c \<notin> clients s" "clients s' = insert c (clients s)" using opened [of c s s'] t by auto
qed

text \<open>A channel whose own superclass turns the client away gives the provider back.\<close>

lemma channel_refused:
  assumes "channel_handleOpen open_for close_for accepts c s = (False, s')"
  shows "clients s' = clients s"
proof -
  obtain b t where t: "open_for c s = (b, t)" by (cases "open_for c s")
  show ?thesis
  proof (cases b)
    case True
    then have "s' = close_for c t" using assms by (auto simp: channel_handleOpen_def t split: if_split_asm)
    then show ?thesis using opened [of c s t] t True by (auto simp: closed)
  next
    case False
    then show ?thesis using assms refused t by (simp add: channel_handleOpen_def)
  qed
qed

lemma channel_holds:
  assumes "holds_hardware s = (clients s \<noteq> {})"
  shows "holds_hardware (snd (channel_handleOpen open_for close_for accepts c s))
      = (clients (snd (channel_handleOpen open_for close_for accepts c s)) \<noteq> {})"
proof -
  obtain b t where t: "open_for c s = (b, t)" by (cases "open_for c s")
  have "holds_hardware t = (clients t \<noteq> {})" using open_holds [OF assms, of c] t by simp
  from this close_holds [OF this, of c] show ?thesis by (simp add: channel_handleOpen_def t)
qed

end

lemma root_open_cases:
  assumes "root_handleOpen grants c s = (b, s')"
  shows "nubs s' = nubs s"
    and "b \<longleftrightarrow> c \<in> fst ` set (nubs s) \<and> c \<notin> openNubs s \<and> (openNubs s = {} \<longrightarrow> grants)"
    and "openNubs s' = (if b then insert c (openNubs s) else openNubs s)"
    and "pciOpen s' = (if openNubs s = {} \<and> c \<in> fst ` set (nubs s) then grants else pciOpen s)"
  using assms by (auto simp: root_handleOpen_def split: if_split_asm)

interpretation root: shared_provider "root_handleOpen grants" root_handleClose openNubs pciOpen for grants
proof (unfold_locales, goal_cases)
  case (1 c s s')
  then show ?case using root_open_cases [OF 1] by auto
next
  case (2 c s s')
  then show ?case using root_open_cases [OF 2] by auto
next
  case (3 c s)
  then show ?case by (simp add: root_handleClose_def Let_def)
next
  case (4 s c)
  obtain b t where t: "root_handleOpen grants c s = (b, t)" by (cases "root_handleOpen grants c s")
  show ?case using root_open_cases [OF t] 4 by (auto simp: t)
next
  case (5 s c)
  then show ?case by (auto simp: root_handleClose_def Let_def)
qed

text \<open>
  The root driver after its start, with its channels opened and closed by their drivers;
  \<open>grants\<close> is what the PCI device answers when it is opened.
\<close>

inductive root_reaches :: "'p ata_device \<Rightarrow> root_env \<Rightarrow> ata_root \<Rightarrow> bool" for D R where
  started: "root_start D R superStarts lockAllocated isPCI openSetAllocated p = Some s \<Longrightarrow> root_reaches D R s"
| channel_opens: "root_reaches D R s \<Longrightarrow>
    root_reaches D R (snd (channel_handleOpen (root_handleOpen grants) root_handleClose accepts c s))"
| channel_closes: "root_reaches D R s \<Longrightarrow> root_reaches D R (channel_handleClose root_handleClose c s)"

lemma root_clients:
  "openNubs (snd (channel_handleOpen (root_handleOpen grants) root_handleClose accepts c s)) \<subseteq> insert c (openNubs s)"
  "nubs (snd (channel_handleOpen (root_handleOpen grants) root_handleClose accepts c s)) = nubs s"
  "nubs (root_handleClose c s) = nubs s"
proof -
  obtain b t where t: "root_handleOpen grants c s = (b, t)" by (cases "root_handleOpen grants c s")
  show close: "nubs (root_handleClose c s) = nubs s" for c s by (simp add: root_handleClose_def Let_def)
  show "openNubs (snd (channel_handleOpen (root_handleOpen grants) root_handleClose accepts c s)) \<subseteq> insert c (openNubs s)"
    "nubs (snd (channel_handleOpen (root_handleOpen grants) root_handleClose accepts c s)) = nubs s"
    using root_open_cases [OF t] by (auto simp: channel_handleOpen_def t close root.closed)
qed

lemma root_holds: "root_reaches D R s \<Longrightarrow> pciOpen s = (openNubs s \<noteq> {})"
proof (induction rule: root_reaches.induct)
  case (started superStarts lockAllocated isPCI openSetAllocated p s)
  then show ?case by (auto simp: root_start_def Let_def split: if_split_asm)
next
  case (channel_opens s grants accepts c)
  then show ?case by (intro root.channel_holds)
next
  case (channel_closes s c)
  then show ?case unfolding channel_handleClose_def by (intro root.close_holds)
qed

text \<open>C10. The controller is open exactly while a channel is: in every state that channels opening and
  closing it reach, whatever the controller and the superclasses answer, the root driver holds the
  PCI device open if and only if some channel is registered as open; a channel that is open is
  not opened again, and an attempt that fails leaves the others' registrations as they were.\<close>
theorem controller_open_while_used:
  assumes "root_reaches D R s"
  shows "pciOpen s = (openNubs s \<noteq> {}) \<and>
    (\<forall>c \<in> openNubs s. channel_handleOpen (root_handleOpen grants) root_handleClose accepts c s = (False, s)) \<and>
    (\<forall>c s'. channel_handleOpen (root_handleOpen grants) root_handleClose accepts c s = (False, s') \<longrightarrow>
           openNubs s' = openNubs s \<and> pciOpen s' = pciOpen s)"
proof (intro conjI ballI allI impI)
  show held: "pciOpen s = (openNubs s \<noteq> {})" by (rule root_holds [OF assms])
  show "channel_handleOpen (root_handleOpen grants) root_handleClose accepts c s = (False, s)" if "c \<in> openNubs s" for c
    using that by (simp add: channel_handleOpen_def root_handleOpen_def)
  fix c s'
  assume f: "channel_handleOpen (root_handleOpen grants) root_handleClose accepts c s = (False, s')"
  show same: "openNubs s' = openNubs s" by (rule root.channel_refused [OF f])
  have "root_reaches D R s'" using root_reaches.channel_opens [OF assms, of grants accepts c] f by simp
  from root_holds [OF this] show "pciOpen s' = pciOpen s" by (simp add: held same)
qed

section \<open>Serial ports\<close>

definition ports_of :: "channel_mode \<Rightarrow> sata_port list" where
  "ports_of m = (let row = gChannelModeTable ! unat (mode_number m) in map (column (snd row)) [0..<fst row])"

lemma getSerialATAPort_ports_of:
  assumes "channelMode ch = mode_number m"
  shows "map (\<lambda>u. getSerialATAPortForDrive u ch) [0..<getMaxDriveUnits ch] = ports_of m"
  by (cases m) (simp_all add: assms getSerialATAPortForDrive_def getMaxDriveUnits_def ports_of_def gChannelModeTable_def upt_rec)

definition ports_ok :: "channel_mode \<times> channel_mode \<Rightarrow> bool" where
  "ports_ok m \<longleftrightarrow> (case m of (m0, m1) \<Rightarrow>
     let serial = (\<lambda>m. if m = ChannelModePATA then [] else ports_of m) in
       distinct (serial m0 @ serial m1) \<and> SerialATAPortX \<notin> set (serial m0 @ serial m1))"

lemma maps_ok:
  "list_all ports_ok (gICH5ChannelModeMap @ gICH6ChannelModeMap @ gICH6MChannelModeMap @ gICH7ChannelModeMap @
     gICH7MChannelModeMap)"
  by (simp add: gICH5ChannelModeMap_def gICH6ChannelModeMap_def gICH6MChannelModeMap_def gICH7ChannelModeMap_def
      gICH7MChannelModeMap_def ports_ok_def ports_of_def gChannelModeTable_def upt_rec)

lemma mapped_modes_ok: "ports_ok (mapped_modes hwName v)"
proof -
  have three: "unat (v AND 3) < 4" and seven: "unat (v AND 7) < 8"
    using word_and_le1 [of v 3] word_and_le1 [of v 7] by (simp_all add: word_le_nat_alt)
  have ok: "ports_ok (table ! i)"
    if "i < length table" "table \<in> {gICH5ChannelModeMap, gICH6ChannelModeMap, gICH6MChannelModeMap, gICH7ChannelModeMap,
     gICH7MChannelModeMap}" for table i
    using maps_ok that by (auto simp: list_all_iff)
  have "ports_ok (ChannelModeDisabled, ChannelModeDisabled)"
    by (simp add: ports_ok_def ports_of_def gChannelModeTable_def)
  moreover have "length gICH5ChannelModeMap = 8" "length gICH6ChannelModeMap = 4" "length gICH6MChannelModeMap = 4"
    "length gICH7ChannelModeMap = 4" "length gICH7MChannelModeMap = 4"
    by (simp_all add: gICH5ChannelModeMap_def gICH6ChannelModeMap_def gICH6MChannelModeMap_def gICH7ChannelModeMap_def
      gICH7MChannelModeMap_def)
  moreover have either: "ports_ok a \<Longrightarrow> ports_ok b \<Longrightarrow> ports_ok (if c then a else b)" for a b c by simp
  ultimately show ?thesis
    unfolding mapped_modes_def using three seven
    by (cases hwName) (simp_all only: option.case, intro either ok, simp_all)
qed

lemma parallel_ports: "set (ports_of ChannelModePATA) = {SerialATAPortX}"
  by (simp add: ports_of_def gChannelModeTable_def upt_rec)

text \<open>C11. No serial port is used twice: for every controller and every value of its map register, in
  the modes where both channels are serial and in the combined ones where one of them is parallel, all
  drives of the serial channels have a port, and different drives of either channel have different
  ones; the drives of a parallel channel have none.\<close>
theorem serial_ports_distinct:
  assumes "mapped_modes hwName v = (m0, m1)" "channelMode ch0 = mode_number m0" "channelMode ch1 = mode_number m1"
  defines "ports \<equiv> \<lambda>ch. map (\<lambda>u. getSerialATAPortForDrive u ch) [0..<getMaxDriveUnits ch]"
  defines "serial \<equiv> \<lambda>m ch. if m = ChannelModePATA then [] else ports ch"
  shows "distinct (serial m0 ch0 @ serial m1 ch1) \<and> SerialATAPortX \<notin> set (serial m0 ch0 @ serial m1 ch1) \<and>
    (m0 = ChannelModePATA \<longrightarrow> set (ports ch0) = {SerialATAPortX}) \<and>
    (m1 = ChannelModePATA \<longrightarrow> set (ports ch1) = {SerialATAPortX})"
proof -
  have "ports ch0 = ports_of m0" "ports ch1 = ports_of m1"
    by (simp_all add: ports_def getSerialATAPort_ports_of [OF assms(2)] getSerialATAPort_ports_of [OF assms(3)]
        del: map_eq_conv)
  then show ?thesis
    using mapped_modes_ok [of hwName v] parallel_ports unfolding assms(1) ports_ok_def Let_def serial_def
    by (auto split: if_splits)
qed

section \<open>Witnesses\<close>

text \<open>A controller in legacy mode with both channels parallel.\<close>

definition sample_root :: root_env where
  "sample_root = \<lparr>rootProperties = (\<lambda>_. None), treeChildren = [], setAllocated = True, deviceGrantsOpen = True,
     superInits = (\<lambda>_. True), interruptAccepted = (\<lambda>_. True), nubAttaches = (\<lambda>_. True)\<rparr>"

definition sample_nub :: "nat \<Rightarrow> ata_channel" where
  "sample_nub n = \<lparr>cmdBlock = (if n = 0 then 0x1f0 else 0x170), ctrBlock = (if n = 0 then 0x3f4 else 0x374),
     interruptVector = (if n = 0 then 14 else 15), pioModeMask = 0, dmaModeMask = 0, udmaModeMask = 0,
     channelNum = of_nat n, channelMode = 1, controllerName = None, hasSharedDriveTimings = False\<rparr>"

lemma mode_in_range: "\<not> (8 :: u32) \<le> 1"
  by (simp add: word_le_nat_alt)

lemma sample_nubs: "n \<in> {0, 1} \<Longrightarrow>
   make_nub plain_device (\<lambda>_. 0) sample_root (ChannelModePATA, ChannelModePATA) n = Some (n, sample_nub n)"
  by (auto simp: make_nub_def sample_root_def createNativeModeChannelInfo_def native_ports_def plain_device_def
      kPIIX_PCI_PRI_NATIVE_MASK_def kPIIX_PCI_SEC_NATIVE_MASK_def createLegacyModeChannelInfo_def createChannelInfo_def
      kPIIX_P_CMD_ADDR_def kPIIX_P_CTL_ADDR_def kPIIX_P_IRQ_def kPIIX_S_CMD_ADDR_def kPIIX_S_CTL_ADDR_def kPIIX_S_IRQ_def
      channel_init_def getDTChannelEntry_def decode_channel_def getNumberValue_def ata_number_def
      kChannelModeCount_def mode_masks_def sample_nub_def Let_def
      mode_in_range)

lemma sample_root_started:
  "root_start plain_device sample_root True True True True (\<lambda>_. 0)
     = Some \<lparr>nubs = [(0, sample_nub 0), (1, sample_nub 1)], openNubs = {}, pciOpen = False\<rparr>"
proof -
  have "channel_modes_of plain_device (\<lambda>_. 0) sample_root = (ChannelModePATA, ChannelModePATA)"
    by (simp add: channel_modes_of_def sample_root_def)
  then have "createATAChannelNubs plain_device (\<lambda>_. 0) sample_root = [(0, sample_nub 0), (1, sample_nub 1)]"
    by (simp add: createATAChannelNubs_def map_filter_simps sample_nubs) (simp add: sample_root_def)
  then show ?thesis by (simp add: root_start_def)
qed

theorem controller_open_while_used_witness:
  "\<exists>s. root_reaches plain_device sample_root s \<and> openNubs s = {1} \<and> pciOpen s \<and>
     channel_handleOpen (root_handleOpen True) root_handleClose True 1 s = (False, s)"
proof -
  define s where "s = snd (channel_handleOpen (root_handleOpen True) root_handleClose True 1
      \<lparr>nubs = [(0, sample_nub 0), (1, sample_nub 1)], openNubs = {}, pciOpen = False\<rparr>)"
  have reached: "root_reaches plain_device sample_root s"
    unfolding s_def by (rule root_reaches.channel_opens [OF root_reaches.started [OF sample_root_started]])
  moreover have "openNubs s = {1}"
    by (simp add: s_def channel_handleOpen_def root_handleOpen_def)
  ultimately show ?thesis
    using controller_open_while_used [OF reached, of True True] by auto
qed

theorem serial_ports_distinct_witness:
  "\<exists>m1. mapped_modes (Some ''ICH6 SATA'') 1 = (ChannelModePATA, m1) \<and>
     SerialATAPortX \<notin> set (map (\<lambda>u. getSerialATAPortForDrive u ((sample_nub 1)\<lparr>channelMode := mode_number m1\<rparr>))
       [0..<getMaxDriveUnits ((sample_nub 1)\<lparr>channelMode := mode_number m1\<rparr>)]) \<and>
     set (map (\<lambda>u. getSerialATAPortForDrive u (sample_nub 0)) [0..<getMaxDriveUnits (sample_nub 0)]) = {SerialATAPortX}"
proof -
  have m: "mapped_modes (Some ''ICH6 SATA'') 1 = (ChannelModePATA, ChannelModeSATAPort13)"
    by (simp add: mapped_modes_def gICH6ChannelModeMap_def)
  have "channelMode (sample_nub 0) = mode_number ChannelModePATA" by (simp add: sample_nub_def)
  from serial_ports_distinct [OF m this, of "(sample_nub 1)\<lparr>channelMode := mode_number ChannelModeSATAPort13\<rparr>"]
  show ?thesis using m by simp
qed

end
