(* ===== verification/NetHardware.thy ===== *)
theory NetHardware
  imports KernelObjects
begin

text \<open>
  The chips of \<open>RealtekR1000\<close>: register offsets and bits from \<open>R1000Regs.h\<close>, the table of chips, the
  device as a parameter, the state of the driver, and its access to registers and to the PHY.
\<close>

section \<open>Registers\<close>

definition MAC0 :: u16 where "MAC0 = 0x0"
definition MAR0 :: u16 where "MAR0 = 0x8"
definition TxDescStartAddr :: u16 where "TxDescStartAddr = 0x20"
definition ChipCmd :: u16 where "ChipCmd = 0x37"
definition TxPoll :: u16 where "TxPoll = 0x38"
definition IntrMask :: u16 where "IntrMask = 0x3C"
definition IntrStatus :: u16 where "IntrStatus = 0x3E"
definition TxConfig :: u16 where "TxConfig = 0x40"
definition RxConfig :: u16 where "RxConfig = 0x44"
definition RxMissed :: u16 where "RxMissed = 0x4C"
definition Cfg9346 :: u16 where "Cfg9346 = 0x50"
definition Config1 :: u16 where "Config1 = 0x52"
definition Config2 :: u16 where "Config2 = 0x53"
definition Config5 :: u16 where "Config5 = 0x56"
definition MultiIntr :: u16 where "MultiIntr = 0x5C"
definition PHYAR :: u16 where "PHYAR = 0x60"
definition PHYstatus :: u16 where "PHYstatus = 0x6C"
definition Off7Ch :: u16 where "Off7Ch = 0x7C"
definition RxMaxSize :: u16 where "RxMaxSize = 0xDA"
definition CPlusCmd :: u16 where "CPlusCmd = 0xE0"
definition RxDescStartAddr :: u16 where "RxDescStartAddr = 0xE4"
definition ETThReg :: u16 where "ETThReg = 0xEC"

definition TxDescUnavail :: u16 where "TxDescUnavail = 0x80"
definition RxFIFOOver :: u16 where "RxFIFOOver = 0x40"
definition LinkChg :: u16 where "LinkChg = 0x20"
definition RxOverflow :: u16 where "RxOverflow = 0x10"
definition RxDescUnavail :: u16 where "RxDescUnavail = 0x10"
definition TxErr :: u16 where "TxErr = 0x08"
definition TxOK :: u16 where "TxOK = 0x04"
definition RxErr :: u16 where "RxErr = 0x02"
definition RxOK :: u16 where "RxOK = 0x01"

definition RxRES :: u32 where "RxRES = 0x00200000"

definition CmdReset :: u8 where "CmdReset = 0x10"
definition CmdRxEnb :: u8 where "CmdRxEnb = 0x08"
definition CmdTxEnb :: u8 where "CmdTxEnb = 0x04"
definition Cfg9346_Lock :: u8 where "Cfg9346_Lock = 0x00"
definition Cfg9346_Unlock :: u8 where "Cfg9346_Unlock = 0xC0"

definition AcceptBroadcast :: u32 where "AcceptBroadcast = 0x08"
definition AcceptMulticast :: u32 where "AcceptMulticast = 0x04"
definition AcceptMyPhys :: u32 where "AcceptMyPhys = 0x02"
definition AcceptAllPhys :: u32 where "AcceptAllPhys = 0x01"

definition TBI_Enable :: u8 where "TBI_Enable = 0x80"
definition Link100Mbps :: u8 where "Link100Mbps = 0x08"
definition Link10Mbps :: u8 where "Link10Mbps = 0x04"
definition LinkStatus :: u8 where "LinkStatus = 0x02"

definition PHY_CTRL_REG :: u32 where "PHY_CTRL_REG = 0"
definition PHY_STAT_REG :: u32 where "PHY_STAT_REG = 1"
definition PHY_AUTO_NEGO_REG :: u32 where "PHY_AUTO_NEGO_REG = 4"
definition PHY_1000_CTRL_REG :: u32 where "PHY_1000_CTRL_REG = 9"
definition PHY_Restart_Auto_Nego :: u32 where "PHY_Restart_Auto_Nego = 0x0200"
definition PHY_Enable_Auto_Nego :: u32 where "PHY_Enable_Auto_Nego = 0x1000"
definition PHY_Auto_Neco_Comp :: u32 where "PHY_Auto_Neco_Comp = 0x0020"
definition PHY_Cap_10_Half :: u32 where "PHY_Cap_10_Half = 0x0020"
definition PHY_Cap_10_Full :: u32 where "PHY_Cap_10_Full = 0x0040"
definition PHY_Cap_100_Half :: u32 where "PHY_Cap_100_Half = 0x0080"
definition PHY_Cap_100_Full :: u32 where "PHY_Cap_100_Full = 0x0100"
definition PHY_Cap_1000_Full :: u32 where "PHY_Cap_1000_Full = 0x0200"
definition PHY_Cap_1000_Half :: u32 where "PHY_Cap_1000_Half = 0x0100"
definition PHY_Cap_PAUSE :: u32 where "PHY_Cap_PAUSE = 0x0400"
definition PHY_Cap_ASYM_PAUSE :: u32 where "PHY_Cap_ASYM_PAUSE = 0x0800"
definition PHY_Cap_Null :: u32 where "PHY_Cap_Null = 0"

definition PMEnable :: u8 where "PMEnable = 0x01"
definition PMEStatus :: u8 where "PMEStatus = 0x01"

definition OWNbit :: u32 where "OWNbit = 0x80000000"
definition EORbit :: u32 where "EORbit = 0x40000000"
definition FSbit :: u32 where "FSbit = 0x20000000"
definition LSbit :: u32 where "LSbit = 0x10000000"

definition r1000_intr_mask :: u16 where
  "r1000_intr_mask = LinkChg OR RxOverflow OR RxFIFOOver OR TxErr OR TxOK OR RxErr OR RxOK"

definition RX_FIFO_THRESH :: u32 where "RX_FIFO_THRESH = 7"
definition RX_DMA_BURST :: u32 where "RX_DMA_BURST = 7"
definition TX_DMA_BURST :: u32 where "TX_DMA_BURST = 7"
definition ETTh :: u8 where "ETTh = 0x3F"
definition InterFrameGap :: u32 where "InterFrameGap = 0x03"

definition r1000_rx_config :: u32 where
  "r1000_rx_config = push_bit 13 RX_FIFO_THRESH OR push_bit 8 RX_DMA_BURST OR 0x0000000E"

definition r1000_tx_config :: u32 where
  "r1000_tx_config = push_bit 8 TX_DMA_BURST OR push_bit 24 InterFrameGap"

definition ETH_HDR_LEN :: nat where "ETH_HDR_LEN = 14"
definition DEFAULT_MTU :: nat where "DEFAULT_MTU = 1500"
definition MAX_RX_SKBDATA_SIZE :: nat where "MAX_RX_SKBDATA_SIZE = 1608"
definition MAX_TX_SKBDATA_SIZE :: nat where "MAX_TX_SKBDATA_SIZE = 1608"
definition NUM_TX_DESC :: nat where "NUM_TX_DESC = 1024"
definition NUM_RX_DESC :: nat where "NUM_RX_DESC = 1024"
definition MAC_ADDR_LEN :: nat where "MAC_ADDR_LEN = 6"
definition kTransmitQueueCapacity :: nat where "kTransmitQueueCapacity = 384"
definition TX_TIMEOUT :: nat where "TX_TIMEOUT = 10000"
definition max_interrupt_work :: nat where "max_interrupt_work = 20"
definition multicast_filter_limit :: u32 where "multicast_filter_limit = 32"
definition ethernet_polynomial :: u32 where "ethernet_polynomial = 0x04c11db7"

section \<open>Chips\<close>

text \<open>The last row is the terminator, whose name is a null pointer.\<close>

definition rtl_chip_info :: "(string option \<times> nat \<times> u32) list" where
  "rtl_chip_info =
     [(Some ''RTL8169'', 1, 0xff7e1880),
      (Some ''RTL8169S/8110S'', 2, 0xff7e1880),
      (Some ''RTL8169S/8110S'', 3, 0xff7e1880),
      (Some ''RTL8169SB/8110SB'', 4, 0xff7e1880),
      (Some ''RTL8169SC/8110SC'', 5, 0xff7e1880),
      (Some ''RTL8168B/8111B'', 11, 0xff7e1880),
      (Some ''RTL8168B/8111B'', 12, 0xff7e1880),
      (Some ''RTL8101E'', 13, 0xff7e1880),
      (Some ''RTL8100E'', 14, 0xff7e1880),
      (Some ''RTL8100E'', 15, 0xff7e1880),
      (None, 0, 0)]"

definition RxConfigMask :: "nat \<Rightarrow> u32" where
  "RxConfigMask chip = snd (snd (rtl_chip_info ! chip))"

section \<open>The device\<close>

text \<open>
  Registers are reached through I/O ports or through mapped memory. \<open>'p\<close> is the state of the device;
  reading a register may change it.
\<close>

record 'p register_bus =
  busRead8 :: "u16 \<Rightarrow> 'p \<Rightarrow> u8 \<times> 'p"
  busRead16 :: "u16 \<Rightarrow> 'p \<Rightarrow> u16 \<times> 'p"
  busRead32 :: "u16 \<Rightarrow> 'p \<Rightarrow> u32 \<times> 'p"
  busWrite8 :: "u16 \<Rightarrow> u8 \<Rightarrow> 'p \<Rightarrow> 'p"
  busWrite16 :: "u16 \<Rightarrow> u16 \<Rightarrow> 'p \<Rightarrow> 'p"
  busWrite32 :: "u16 \<Rightarrow> u32 \<Rightarrow> 'p \<Rightarrow> 'p"

record 'p net_device =
  ports :: "'p register_bus"
  memory :: "'p register_bus"
  pciRead16 :: "u8 \<Rightarrow> 'p \<Rightarrow> u16"
  pciWrite8 :: "u8 \<Rightarrow> u8 \<Rightarrow> 'p \<Rightarrow> 'p"
  pciWrite16 :: "u8 \<Rightarrow> u16 \<Rightarrow> 'p \<Rightarrow> 'p"
  pciEnable :: "bool \<Rightarrow> bool \<Rightarrow> bool \<Rightarrow> 'p \<Rightarrow> 'p"

section \<open>Packets\<close>

text \<open>
  A packet of the kernel is a chain of buffers, of which one may have no data pointer but a length. The
  header's length is a field of its own.
\<close>

datatype mbuf = Mbuf "u8 list" | NoData u32

fun mbuf_len :: "mbuf \<Rightarrow> u32" where
  "mbuf_len (Mbuf bytes) = of_nat (length bytes)"
| "mbuf_len (NoData n) = n"

record packet =
  packetId :: nat
  pkthdr_len :: u32
  firstBuf :: mbuf
  moreBufs :: "mbuf list"

section \<open>The driver's state\<close>

record TxDesc =
  status :: u32
  vlan_tag :: u32
  buf_addr :: u32
  buf_Haddr :: u32

datatype net_event =
    FreePacket nat | InputPacket "u8 list" | QueueStart | QueueStop | QueueCapacity nat | QueueFlush
  | OpenDevice | CloseDevice | SetTimer nat | CancelTimer | LinkDown | LinkUp nat | LinkUpNoMedium
  | SetCurrentMedium nat | AttachInterface | DetachInterface | RegisterInterface

text \<open>
  Indices into the rings are \<open>unsigned long\<close> words. A descriptor array is a null pointer until it is
  allocated; the device changes it, as it changes \<open>Rx_dbuff\<close>, the bytes of the receive buffers (by
  their offset; each has \<open>MAX_RX_SKBDATA_SIZE\<close> of them).
  A buffer's own address is in \<open>Tx_skbuff_Dma\<close> and \<open>Rx_skbuff_Dma\<close>. \<open>netCalls\<close> are the calls to other
  objects in their order. Byte order conversions do nothing on the processors the driver is built for.
\<close>

record 'p r1000 =
  hardware :: 'p
  pioBase :: u16
  forcedPio :: bool
  isInitialized :: bool
  enabled :: bool
  pciFound :: bool
  pciOpened :: bool
  activationLevel :: u32
  enabledForBSD :: bool
  enabledForKDP :: bool
  mcfg :: nat
  pcfg :: nat
  chipset :: nat
  mc_filter0 :: u32
  mc_filter1 :: u32
  cur_rx :: u32
  cur_tx :: u32
  dirty_tx :: u32
  Tx_skbuff :: "nat \<Rightarrow> packet option"
  Tx_dbuff :: "nat \<Rightarrow> nat \<Rightarrow> u8"
  Tx_skbuff_Dma :: "nat \<Rightarrow> u32"
  Tx_skbuff_Md :: "nat \<Rightarrow> bool"
  Rx_dbuff :: "nat \<Rightarrow> nat \<Rightarrow> u8"
  Rx_skbuff_Dma :: "nat \<Rightarrow> u32"
  Rx_skbuff_Md :: "nat \<Rightarrow> bool"
  TxDescArray :: "TxDesc list option"
  tx_descMd :: bool
  txdesc_phy_dma_addr :: u32
  RxDescArray :: "TxDesc list option"
  rx_descMd :: bool
  rxdesc_phy_dma_addr :: u32
  curr_mtu_size :: nat
  tx_pkt_len :: nat
  rx_pkt_len :: nat
  hw_rx_pkt_len :: nat
  speed :: nat
  duplex :: nat
  autoneg :: nat
  transmitQueue :: bool
  queueRunning :: bool
  timerSource :: bool
  netif :: bool
  mediumTable :: "nat \<Rightarrow> bool"
  netCalls :: "net_event list"

definition net_call :: "net_event \<Rightarrow> 'p r1000 \<Rightarrow> 'p r1000" where
  "net_call c s = s\<lparr>netCalls := netCalls s @ [c]\<rparr>"

section \<open>Access to registers\<close>

definition bus_of :: "'p net_device \<Rightarrow> 'p r1000 \<Rightarrow> 'p register_bus" where
  "bus_of D s = (if forcedPio s then ports D else memory D)"

definition bus_address :: "u16 \<Rightarrow> 'p r1000 \<Rightarrow> u16" where
  "bus_address offset s = (if forcedPio s then pioBase s + offset else offset)"

definition WriteMMIO8 :: "'p net_device \<Rightarrow> u16 \<Rightarrow> u8 \<Rightarrow> 'p r1000 \<Rightarrow> 'p r1000" where
  "WriteMMIO8 D offset v s = s\<lparr>hardware := busWrite8 (bus_of D s) (bus_address offset s) v (hardware s)\<rparr>"

definition WriteMMIO16 :: "'p net_device \<Rightarrow> u16 \<Rightarrow> u16 \<Rightarrow> 'p r1000 \<Rightarrow> 'p r1000" where
  "WriteMMIO16 D offset v s = s\<lparr>hardware := busWrite16 (bus_of D s) (bus_address offset s) v (hardware s)\<rparr>"

definition WriteMMIO32 :: "'p net_device \<Rightarrow> u16 \<Rightarrow> u32 \<Rightarrow> 'p r1000 \<Rightarrow> 'p r1000" where
  "WriteMMIO32 D offset v s = s\<lparr>hardware := busWrite32 (bus_of D s) (bus_address offset s) v (hardware s)\<rparr>"

definition ReadMMIO8 :: "'p net_device \<Rightarrow> u16 \<Rightarrow> 'p r1000 \<Rightarrow> u8 \<times> 'p r1000" where
  "ReadMMIO8 D offset s =
     (let (v, p) = busRead8 (bus_of D s) (bus_address offset s) (hardware s) in (v, s\<lparr>hardware := p\<rparr>))"

definition ReadMMIO16 :: "'p net_device \<Rightarrow> u16 \<Rightarrow> 'p r1000 \<Rightarrow> u16 \<times> 'p r1000" where
  "ReadMMIO16 D offset s =
     (let (v, p) = busRead16 (bus_of D s) (bus_address offset s) (hardware s) in (v, s\<lparr>hardware := p\<rparr>))"

definition ReadMMIO32 :: "'p net_device \<Rightarrow> u16 \<Rightarrow> 'p r1000 \<Rightarrow> u32 \<times> 'p r1000" where
  "ReadMMIO32 D offset s =
     (let (v, p) = busRead32 (bus_of D s) (bus_address offset s) (hardware s) in (v, s\<lparr>hardware := p\<rparr>))"

text \<open>Reading up to \<open>n\<close> times until a flag has the value waited for; the last value read is returned.\<close>

fun wait_flag32 :: "'p net_device \<Rightarrow> u16 \<Rightarrow> (u32 \<Rightarrow> bool) \<Rightarrow> nat \<Rightarrow> 'p r1000 \<Rightarrow> bool \<times> 'p r1000" where
  "wait_flag32 D offset ready 0 s = (False, s)"
| "wait_flag32 D offset ready (Suc n) s =
     (let (v, s) = ReadMMIO32 D offset s
      in if ready v then (True, s) else wait_flag32 D offset ready n s)"

fun wait_flag8 :: "'p net_device \<Rightarrow> u16 \<Rightarrow> (u8 \<Rightarrow> bool) \<Rightarrow> nat \<Rightarrow> 'p r1000 \<Rightarrow> bool \<times> 'p r1000" where
  "wait_flag8 D offset ready 0 s = (False, s)"
| "wait_flag8 D offset ready (Suc n) s =
     (let (v, s) = ReadMMIO8 D offset s
      in if ready v then (True, s) else wait_flag8 D offset ready n s)"

section \<open>The PHY\<close>

text \<open>
  The register number and the value are \<open>int\<close>s, the command word is built from them unmasked. A read
  that times out gives -1.
\<close>

definition WriteGMII32 :: "'p net_device \<Rightarrow> u32 \<Rightarrow> u32 \<Rightarrow> 'p r1000 \<Rightarrow> 'p r1000" where
  "WriteGMII32 D RegAddr v s =
     (let s = WriteMMIO32 D PHYAR (0x80000000 OR push_bit 16 (RegAddr AND 0xFF) OR v) s
      in snd (wait_flag32 D PHYAR (\<lambda>w. \<not> any_bit w 0x80000000) 2000 s))"

definition ReadGMII32 :: "'p net_device \<Rightarrow> u32 \<Rightarrow> 'p r1000 \<Rightarrow> u32 \<times> 'p r1000" where
  "ReadGMII32 D RegAddr s =
     (let s = WriteMMIO32 D PHYAR (push_bit 16 (RegAddr AND 0xFF)) s;
          (ready, s) = wait_flag32 D PHYAR (\<lambda>w. any_bit w 0x80000000) 2000 s
      in if ready then let (v, s) = ReadMMIO32 D PHYAR s in (v AND 0xFFFF, s) else (- 1, s))"

fun write_phy :: "'p net_device \<Rightarrow> (u32 \<times> u32) list \<Rightarrow> 'p r1000 \<Rightarrow> 'p r1000" where
  "write_phy D [] s = s"
| "write_phy D ((r, v) # rest) s = write_phy D rest (WriteGMII32 D r v s)"

end
