(* ===== verification/NetBoard.thy ===== *)
theory NetBoard
  imports NetHardware
begin

text \<open>
  Bringing the chip up: identification, PHY set-up, speed and duplex mode, start and stop of the
  transmitter and receiver.
\<close>

section \<open>Read, modify, write\<close>

definition modify8 :: "'p net_device \<Rightarrow> u16 \<Rightarrow> (u8 \<Rightarrow> u8) \<Rightarrow> 'p r1000 \<Rightarrow> 'p r1000" where
  "modify8 D offset f s = (let (v, s) = ReadMMIO8 D offset s in WriteMMIO8 D offset (f v) s)"

definition modify16 :: "'p net_device \<Rightarrow> u16 \<Rightarrow> (u16 \<Rightarrow> u16) \<Rightarrow> 'p r1000 \<Rightarrow> 'p r1000" where
  "modify16 D offset f s = (let (v, s) = ReadMMIO16 D offset s in WriteMMIO16 D offset (f v) s)"

definition on_pci :: "('p \<Rightarrow> 'p) \<Rightarrow> 'p r1000 \<Rightarrow> 'p r1000" where
  "on_pci f s = s\<lparr>hardware := f (hardware s)\<rparr>"

definition soft_reset :: "'p net_device \<Rightarrow> 'p r1000 \<Rightarrow> 'p r1000" where
  "soft_reset D s =
     snd (wait_flag8 D ChipCmd (\<lambda>v. v AND CmdReset = 0) 1000 (WriteMMIO8 D ChipCmd CmdReset s))"

section \<open>Identification\<close>

definition config_method :: "u32 \<Rightarrow> nat" where
  "config_method txConfig =
     (let val32 = txConfig AND 0x7c800000
      in if val32 = 0x38800000 then 15
         else if val32 = 0x30800000 then 14
         else if val32 = 0x34000000 then 13
         else if val32 = 0x38000000 then 12
         else if val32 = 0x30000000 then 11
         else if val32 = 0x18000000 then 5
         else if val32 = 0x10000000 then 4
         else if val32 = 0x04000000 then 3
         else if val32 = 0x00800000 then 2
         else if val32 = 0x00000000 then 1
         else 1)"

definition phy_method :: "u32 \<Rightarrow> nat" where
  "phy_method reg3 =
     (let val8 = (ucast (reg3 AND 0x000f) :: u8)
      in if val8 = 0 then 1 else if val8 = 1 then 2 else if val8 = 2 then 3 else 3)"

definition find_chipset :: "nat \<Rightarrow> nat \<Rightarrow> nat" where
  "find_chipset method found =
     fold (\<lambda>i found. if fst (snd (rtl_chip_info ! i)) = method then i else found)
       (rev [0..<length rtl_chip_info]) found"

text \<open>\<open>mapped\<close>: the kernel can map the registers. The vendor and device numbers are never used.\<close>

definition R1000InitBoard :: "'p net_device \<Rightarrow> bool \<Rightarrow> 'p r1000 \<Rightarrow> bool \<times> 'p r1000" where
  "R1000InitBoard D mapped s =
     (let s = on_pci (pciEnable D True True True) s;
          s = s\<lparr>pioBase := pciRead16 D 0x10 (hardware s) AND 0xFFFC\<rparr>;
          s = (if mapped then s else (on_pci (pciEnable D True True False) s)\<lparr>forcedPio := True\<rparr>);
          s = soft_reset D s;
          (txConfig, s) = ReadMMIO32 D TxConfig s;
          s = s\<lparr>mcfg := config_method txConfig\<rparr>;
          (reg3, s) = ReadGMII32 D 3 s;
          s = s\<lparr>pcfg := phy_method reg3\<rparr>
      in (True, s\<lparr>chipset := find_chipset (mcfg s) (chipset s)\<rparr>))"

section \<open>Speed and duplex mode\<close>

definition AUTONEG_ENABLE :: nat where "AUTONEG_ENABLE = 1"
definition AUTONEG_DISABLE :: nat where "AUTONEG_DISABLE = 2"
definition DUPLEX_HALF :: nat where "DUPLEX_HALF = 1"
definition DUPLEX_FULL :: nat where "DUPLEX_FULL = 2"
definition SPEED_10 :: nat where "SPEED_10 = 1"
definition SPEED_100 :: nat where "SPEED_100 = 2"

fun wait_negotiated :: "'p net_device \<Rightarrow> nat \<Rightarrow> 'p r1000 \<Rightarrow> bool \<times> 'p r1000" where
  "wait_negotiated D 0 s = (False, s)"
| "wait_negotiated D (Suc n) s =
     (let (bmsr, s) = ReadGMII32 D PHY_STAT_REG s
      in if any_bit bmsr PHY_Auto_Neco_Comp then (True, s) else wait_negotiated D n s)"

definition R1000SetSpeedDuplex :: "'p net_device \<Rightarrow> u32 \<Rightarrow> u32 \<Rightarrow> u32 \<Rightarrow> 'p r1000 \<Rightarrow> bool \<times> 'p r1000" where
  "R1000SetSpeedDuplex D anar gbcr bmcr s =
     (let s = WriteGMII32 D PHY_AUTO_NEGO_REG anar s;
          s = WriteGMII32 D PHY_1000_CTRL_REG gbcr s;
          s = WriteGMII32 D PHY_CTRL_REG bmcr s
      in wait_negotiated D 10000 s)"

definition all_capabilities :: u32 where
  "all_capabilities = PHY_Cap_10_Half OR PHY_Cap_10_Full OR PHY_Cap_100_Half OR PHY_Cap_100_Full"

text \<open>The values for the two capability registers and the fields of the driver that record the mode.\<close>

definition medium_capabilities :: "nat \<Rightarrow> nat \<Rightarrow> nat \<Rightarrow> 'p r1000 \<Rightarrow> u32 \<times> u32 \<times> 'p r1000" where
  "medium_capabilities spd dpx neg s =
     (if neg = AUTONEG_ENABLE
      then (all_capabilities, PHY_Cap_1000_Half OR PHY_Cap_1000_Full, s\<lparr>autoneg := AUTONEG_ENABLE\<rparr>)
      else
        let s = s\<lparr>autoneg := AUTONEG_DISABLE\<rparr>
        in if spd = SPEED_100 \<and> dpx = DUPLEX_FULL
           then (all_capabilities, PHY_Cap_Null, s\<lparr>speed := SPEED_100, duplex := DUPLEX_FULL\<rparr>)
           else if spd = SPEED_100 \<and> dpx = DUPLEX_HALF
           then (PHY_Cap_10_Half OR PHY_Cap_10_Full OR PHY_Cap_100_Half, PHY_Cap_Null,
                 s\<lparr>speed := SPEED_100, duplex := DUPLEX_HALF\<rparr>)
           else if spd = SPEED_10 \<and> dpx = DUPLEX_FULL
           then (PHY_Cap_10_Half OR PHY_Cap_10_Full, PHY_Cap_Null,
                 s\<lparr>speed := SPEED_10, duplex := DUPLEX_FULL\<rparr>)
           else if spd = SPEED_10 \<and> dpx = DUPLEX_HALF
           then (PHY_Cap_10_Half, PHY_Cap_Null, s\<lparr>speed := SPEED_10, duplex := DUPLEX_HALF\<rparr>)
           else (all_capabilities, PHY_Cap_Null, s\<lparr>speed := SPEED_100, duplex := DUPLEX_FULL\<rparr>))"

definition R1000SetMedium :: "'p net_device \<Rightarrow> nat \<Rightarrow> nat \<Rightarrow> nat \<Rightarrow> 'p r1000 \<Rightarrow> bool \<times> 'p r1000" where
  "R1000SetMedium D spd dpx neg s =
     (let (val, s) = ReadGMII32 D PHY_AUTO_NEGO_REG s;
          val = val OR (PHY_Cap_PAUSE OR PHY_Cap_ASYM_PAUSE);
          bmcr = PHY_Restart_Auto_Nego OR PHY_Enable_Auto_Nego;
          (anar, gbcr, s) = medium_capabilities spd dpx neg s
      in R1000SetSpeedDuplex D (anar OR (val AND 0xC1F)) gbcr bmcr s)"

section \<open>The PHY\<close>

fun wait_phy_reset :: "'p net_device \<Rightarrow> nat \<Rightarrow> 'p r1000 \<Rightarrow> 'p r1000" where
  "wait_phy_reset D 0 s = s"
| "wait_phy_reset D (Suc n) s =
     (let (v, s) = ReadGMII32 D 0 s in if any_bit v 0x8000 then wait_phy_reset D n s else s)"

definition R1000HwPhyReset :: "'p net_device \<Rightarrow> 'p r1000 \<Rightarrow> 'p r1000" where
  "R1000HwPhyReset D s =
     (let (v, s) = ReadGMII32 D 0 s
      in wait_phy_reset D 51 (WriteGMII32 D 0 ((v OR 0x8000) AND 0xffff) s))"

definition phy_program_4 :: "(u32 \<times> u32) list" where
  "phy_program_4 = [(0x1F, 0x0002), (0x01, 0x90D0), (0x1F, 0x0000)]"

definition phy_program_2 :: "(u32 \<times> u32) list" where
  "phy_program_2 =
     [(0x1f, 0x0001), (0x06, 0x006e), (0x08, 0x0708), (0x15, 0x4000), (0x18, 0x65c7),
      (0x1f, 0x0001), (0x03, 0x00a1), (0x02, 0x0008), (0x01, 0x0120), (0x00, 0x1000), (0x04, 0x0800), (0x04, 0x0000),
      (0x03, 0xff41), (0x02, 0xdf60), (0x01, 0x0140), (0x00, 0x0077), (0x04, 0x7800), (0x04, 0x7000),
      (0x03, 0x802f), (0x02, 0x4f02), (0x01, 0x0409), (0x00, 0xf0f9), (0x04, 0x9800), (0x04, 0x9000),
      (0x03, 0xdf01), (0x02, 0xdf20), (0x01, 0xff95), (0x00, 0xba00), (0x04, 0xa800), (0x04, 0xa000),
      (0x03, 0xff41), (0x02, 0xdf20), (0x01, 0x0140), (0x00, 0x00bb), (0x04, 0xb800), (0x04, 0xb000),
      (0x03, 0xdf41), (0x02, 0xdc60), (0x01, 0x6340), (0x00, 0x007d), (0x04, 0xd800), (0x04, 0xd000),
      (0x03, 0xdf01), (0x02, 0xdf20), (0x01, 0x100a), (0x00, 0xa0ff), (0x04, 0xf800), (0x04, 0xf000),
      (0x1f, 0x0000), (0x0b, 0x0000), (0x00, 0x9200)]"

definition R1000HwPhyConfig :: "'p net_device \<Rightarrow> 'p r1000 \<Rightarrow> 'p r1000" where
  "R1000HwPhyConfig D s =
     (let s = (if mcfg s = 4 then write_phy D phy_program_4 s
               else if mcfg s = 2 \<or> mcfg s = 3 then write_phy D phy_program_2 s
               else s);
          s = modify8 D Config1 (\<lambda>v. v OR PMEnable) s
      in modify8 D Config5 (\<lambda>v. v AND PMEStatus) s)"

definition R1000ProbeAndStartBoard :: "'p net_device \<Rightarrow> bool \<Rightarrow> 'p r1000 \<Rightarrow> bool \<times> 'p r1000" where
  "R1000ProbeAndStartBoard D mapped s =
     (let (ok, s) = R1000InitBoard D mapped s
      in if \<not> ok then (False, s)
         else
           let s = s\<lparr>curr_mtu_size := DEFAULT_MTU, tx_pkt_len := DEFAULT_MTU + ETH_HDR_LEN,
                      rx_pkt_len := DEFAULT_MTU + ETH_HDR_LEN\<rparr>;
               s = s\<lparr>hw_rx_pkt_len := rx_pkt_len s + 8\<rparr>;
               s = R1000HwPhyConfig D s;
               s = WriteMMIO8 D 0x82 0x01 s;
               s = (if mcfg s < 3 then on_pci (pciWrite8 D 0x0D 0x40) s else s);
               s = (if mcfg s = 2 then WriteGMII32 D 0x0b 0x0000 (WriteMMIO8 D 0x82 0x01 s) else s);
               (phy, s) = ReadMMIO8 D PHYstatus s
           in if phy AND TBI_Enable = 0
              then let (_, s) = ReadGMII32 D PHY_AUTO_NEGO_REG s
                   in (True, snd (R1000SetMedium D SPEED_100 DUPLEX_FULL AUTONEG_ENABLE s))
              else (True, s))"

section \<open>Start and stop\<close>

definition receive_config :: "'p net_device \<Rightarrow> (u32 \<Rightarrow> u32) \<Rightarrow> 'p r1000 \<Rightarrow> 'p r1000" where
  "receive_config D mode s =
     (let (v, s) = ReadMMIO32 D RxConfig s
      in WriteMMIO32 D RxConfig (mode (v AND RxConfigMask (chipset s))) s)"

definition set_cplus :: "'p net_device \<Rightarrow> 'p r1000 \<Rightarrow> 'p r1000" where
  "set_cplus D s =
     (let s = modify16 D CPlusCmd (\<lambda>v. v) s;
          s = (if mcfg s = 2 \<or> mcfg s = 3
               then modify16 D CPlusCmd (\<lambda>v. v OR (push_bit 14 1 OR push_bit 3 1)) s
               else modify16 D CPlusCmd (\<lambda>v. v OR push_bit 3 1) s)
      in WriteMMIO16 D 0xE2 0x0000 s)"

definition set_rings :: "'p net_device \<Rightarrow> 'p r1000 \<Rightarrow> 'p r1000" where
  "set_rings D s =
     (let s = s\<lparr>cur_rx := 0\<rparr>;
          s = WriteMMIO32 D TxDescStartAddr (txdesc_phy_dma_addr s) s;
          s = WriteMMIO32 D (TxDescStartAddr + 4) 0x00 s;
          s = WriteMMIO32 D RxDescStartAddr (rxdesc_phy_dma_addr s) s
      in WriteMMIO32 D (RxDescStartAddr + 4) 0x00 s)"

definition finish_hw_start :: "'p net_device \<Rightarrow> 'p r1000 \<Rightarrow> 'p r1000" where
  "finish_hw_start D s =
     (let s = WriteMMIO8 D Cfg9346 Cfg9346_Lock s;
          s = WriteMMIO32 D RxMissed 0 s;
          s = modify16 D MultiIntr (\<lambda>v. v AND 0xF000) s
      in WriteMMIO16 D IntrMask r1000_intr_mask s)"

text \<open>The first branch of \<open>R1000HwStart\<close>, for the older chips.\<close>

definition start_old_chip :: "'p net_device \<Rightarrow> 'p r1000 \<Rightarrow> 'p r1000" where
  "start_old_chip D s =
     (let s = soft_reset D s;
          s = WriteMMIO8 D Cfg9346 Cfg9346_Unlock s;
          s = WriteMMIO8 D ChipCmd (CmdTxEnb OR CmdRxEnb) s;
          s = WriteMMIO8 D ETThReg ETTh s;
          s = WriteMMIO16 D RxMaxSize (of_nat (hw_rx_pkt_len s)) s;
          s = receive_config D (\<lambda>v. r1000_rx_config OR v) s;
          s = WriteMMIO32 D TxConfig r1000_tx_config s;
          s = set_cplus D s;
          s = set_rings D s
      in finish_hw_start D s)"

text \<open>The second branch. The test of the revision is a logical and: it asks whether any of the bits is set.\<close>

definition start_new_chip :: "'p net_device \<Rightarrow> 'p r1000 \<Rightarrow> 'p r1000" where
  "start_new_chip D s =
     (let s = soft_reset D s;
          s = (if mcfg s = 13
               then on_pci (pciWrite16 D 0x69 0x08) (on_pci (pciWrite16 D 0x68 0x00) s) else s);
          s = (if mcfg s = 5
               then let (i8, s) = ReadMMIO8 D Config2 s;
                        s = (if i8 AND 0x07 \<noteq> 0 then WriteMMIO32 D Off7Ch 0x0007FFFF s else s);
                        s = WriteMMIO32 D Off7Ch 0x0007FF00 s
                    in on_pci (pciWrite16 D 0x04 (pciRead16 D 0x04 (hardware s) AND 0xEF)) s
               else s);
          s = WriteMMIO8 D Cfg9346 Cfg9346_Unlock s;
          s = WriteMMIO8 D ETThReg ETTh s;
          s = WriteMMIO16 D RxMaxSize (of_nat (hw_rx_pkt_len s)) s;
          s = set_cplus D s;
          s = set_rings D s;
          s = WriteMMIO8 D ChipCmd (CmdTxEnb OR CmdRxEnb) s;
          s = receive_config D (\<lambda>v. r1000_rx_config OR v) s;
          s = WriteMMIO32 D TxConfig r1000_tx_config s
      in finish_hw_start D s)"

definition R1000HwStart :: "'p net_device \<Rightarrow> 'p r1000 \<Rightarrow> 'p r1000" where
  "R1000HwStart D s =
     (if mcfg s \<noteq> 5 \<and> mcfg s \<noteq> 11 \<and> mcfg s \<noteq> 12 \<and> mcfg s \<noteq> 13 \<and> mcfg s \<noteq> 14 \<and> mcfg s \<noteq> 15
      then start_old_chip D s else start_new_chip D s)"

definition R1000OpenAdapter :: "'p net_device \<Rightarrow> 'p r1000 \<Rightarrow> bool \<times> 'p r1000" where
  "R1000OpenAdapter D s = (True, R1000HwStart D s)"

definition R1000CloseAdapter :: "'p net_device \<Rightarrow> 'p r1000 \<Rightarrow> 'p r1000" where
  "R1000CloseAdapter D s =
     (let s = WriteMMIO8 D ChipCmd 0x00 s;
          s = WriteMMIO16 D IntrMask 0x0000 s
      in WriteMMIO32 D RxMissed 0 s)"

end
