(* ===== verification/NetRings.thy ===== *)
theory NetRings
  imports NetBoard
begin

text \<open>
  The rings of descriptors: their memory, handing a packet to the device, taking received packets
  from it, reclaiming what has been sent, the interrupt handler and the watchdog.
\<close>

section \<open>Descriptors\<close>

text \<open>
  An access behind the 1024 descriptors is an error (the memory is 256 bytes longer than the array, so
  the first 16 places behind it would still be the driver's, with nothing in them).
\<close>

definition desc_at :: "TxDesc list option \<Rightarrow> nat \<Rightarrow> kernel_error + TxDesc" where
  "desc_at ring i =
     and_then (non_null ring) (\<lambda>ds. if i < length ds then Inr (ds ! i) else Inl OutOfBoundsRead)"

definition owned :: "TxDesc \<Rightarrow> bool" where
  "owned d \<longleftrightarrow> status d AND OWNbit \<noteq> 0"

definition update_desc :: "nat \<Rightarrow> (TxDesc \<Rightarrow> TxDesc) \<Rightarrow> TxDesc list option \<Rightarrow> TxDesc list option" where
  "update_desc i f ring = map_option (\<lambda>ds. ds[i := f (ds ! i)]) ring"

definition end_of_ring :: "nat \<Rightarrow> nat \<Rightarrow> u32" where
  "end_of_ring count i = (if i = count - 1 then EORbit else 0)"

section \<open>Memory\<close>

text \<open>
  What the kernel answers to a request for memory: nothing, memory that cannot be prepared, memory
  without an address in the kernel, or memory with its physical address.
\<close>

datatype buffer_memory = NoMemory | NotPrepared | NoBytes u32 | Memory u32

record ring_memory =
  txSpace :: buffer_memory
  rxSpace :: buffer_memory
  txBuffer :: "nat \<Rightarrow> buffer_memory"
  rxBuffer :: "nat \<Rightarrow> buffer_memory"
  initialTx :: "TxDesc list"
  initialRx :: "TxDesc list"

fun alloc_rx :: "ring_memory \<Rightarrow> nat list \<Rightarrow> 'p r1000 \<Rightarrow> kernel_error + (bool \<times> 'p r1000)" where
  "alloc_rx M [] s = Inr (True, s)"
| "alloc_rx M (i # is) s =
     (let s = s\<lparr>Rx_skbuff_Md := (Rx_skbuff_Md s)(i := rxBuffer M i \<noteq> NoMemory)\<rparr>
      in case rxBuffer M i of
           Memory a \<Rightarrow>
             and_then (non_null (RxDescArray s)) (\<lambda>_.
               alloc_rx M is (s\<lparr>Rx_skbuff_Dma := (Rx_skbuff_Dma s)(i := a),
                 RxDescArray := update_desc i (\<lambda>d. d\<lparr>status := 0, vlan_tag := 0\<rparr>) (RxDescArray s)\<rparr>))
         | _ \<Rightarrow> Inr (False, s))"

fun alloc_tx :: "ring_memory \<Rightarrow> nat list \<Rightarrow> 'p r1000 \<Rightarrow> kernel_error + (bool \<times> 'p r1000)" where
  "alloc_tx M [] s = Inr (True, s)"
| "alloc_tx M (i # is) s =
     (let s = s\<lparr>Tx_skbuff_Md := (Tx_skbuff_Md s)(i := txBuffer M i \<noteq> NoMemory)\<rparr>
      in case txBuffer M i of
           Memory a \<Rightarrow>
             and_then (non_null (TxDescArray s)) (\<lambda>_.
               alloc_tx M is (s\<lparr>Tx_skbuff_Dma := (Tx_skbuff_Dma s)(i := a),
                 TxDescArray := update_desc i
                   (\<lambda>d. d\<lparr>status := 0, vlan_tag := 0, buf_addr := a, buf_Haddr := 0\<rparr>) (TxDescArray s)\<rparr>))
         | _ \<Rightarrow> Inr (False, s))"

definition arm_rx :: "nat \<Rightarrow> 'p r1000 \<Rightarrow> 'p r1000" where
  "arm_rx i s =
     s\<lparr>RxDescArray := update_desc i
         (\<lambda>d. d\<lparr>status := OWNbit OR end_of_ring NUM_RX_DESC i OR of_nat (hw_rx_pkt_len s),
               buf_addr := Rx_skbuff_Dma s i, buf_Haddr := 0\<rparr>) (RxDescArray s)\<rparr>"

definition space_of :: "buffer_memory \<Rightarrow> TxDesc list \<Rightarrow> TxDesc list option" where
  "space_of m ds = (case m of Memory _ \<Rightarrow> Some ds | _ \<Rightarrow> None)"

definition address_of :: "buffer_memory \<Rightarrow> u32" where
  "address_of m = (case m of Memory a \<Rightarrow> a | NoBytes a \<Rightarrow> a | _ \<Rightarrow> 0)"

definition AllocateDescriptorsMemory :: "ring_memory \<Rightarrow> 'p r1000 \<Rightarrow> kernel_error + (bool \<times> 'p r1000)" where
  "AllocateDescriptorsMemory M s =
     (let s = s\<lparr>tx_descMd := txSpace M \<noteq> NoMemory\<rparr>
      in if txSpace M = NoMemory \<or> txSpace M = NotPrepared then Inr (False, s)
         else
           let s = s\<lparr>txdesc_phy_dma_addr := address_of (txSpace M), rx_descMd := rxSpace M \<noteq> NoMemory\<rparr>
           in if rxSpace M = NoMemory \<or> rxSpace M = NotPrepared then Inr (False, s)
              else
                let s = s\<lparr>rxdesc_phy_dma_addr := address_of (rxSpace M),
                           TxDescArray := space_of (txSpace M) (initialTx M),
                           RxDescArray := space_of (rxSpace M) (initialRx M)\<rparr>
                in and_then (alloc_rx M [0..<NUM_RX_DESC] s) (\<lambda>(ok, s).
                   if \<not> ok then Inr (False, s)
                   else and_then (alloc_tx M [0..<NUM_TX_DESC] s) (\<lambda>(ok, s).
                        if \<not> ok then Inr (False, s)
                        else Inr (True, fold arm_rx [0..<NUM_RX_DESC] s))))"

definition clear_tx :: "nat \<Rightarrow> 'p r1000 \<Rightarrow> 'p r1000" where
  "clear_tx i s =
     (let s = s\<lparr>TxDescArray := update_desc i (\<lambda>d. d\<lparr>status := 0\<rparr>) (TxDescArray s)\<rparr>
      in case Tx_skbuff s i of
           Some m \<Rightarrow> (net_call (FreePacket (packetId m)) s)\<lparr>Tx_skbuff := (Tx_skbuff s)(i := None)\<rparr>
         | None \<Rightarrow> s)"

definition R1000TxClear :: "'p r1000 \<Rightarrow> kernel_error + 'p r1000" where
  "R1000TxClear s =
     and_then (non_null (TxDescArray s)) (\<lambda>_.
       Inr (fold clear_tx [0..<NUM_TX_DESC] (s\<lparr>cur_tx := 0, dirty_tx := 0\<rparr>)))"

text \<open>The array pointers keep their values when the memory is released.\<close>

definition FreeDescriptorsMemory :: "'p r1000 \<Rightarrow> kernel_error + 'p r1000" where
  "FreeDescriptorsMemory s =
     and_then (R1000TxClear s) (\<lambda>s.
       Inr (s\<lparr>tx_descMd := False, rx_descMd := False, Rx_skbuff_Md := (\<lambda>_. False), Tx_skbuff_Md := (\<lambda>_. False)\<rparr>))"

section \<open>Sending\<close>

definition store_bytes :: "u8 list \<Rightarrow> nat \<Rightarrow> (nat \<Rightarrow> u8) \<Rightarrow> kernel_error + (nat \<Rightarrow> u8)" where
  "store_bytes bytes offset buf =
     (if offset + length bytes \<le> MAX_TX_SKBDATA_SIZE
      then Inr (\<lambda>j. if offset \<le> j \<and> j < offset + length bytes then bytes ! (j - offset) else buf j)
      else Inl OutOfBoundsWrite)"

fun copy_buffer :: "mbuf \<Rightarrow> nat \<Rightarrow> (nat \<Rightarrow> u8) \<Rightarrow> kernel_error + (nat \<Rightarrow> u8)" where
  "copy_buffer (Mbuf bytes) offset buf = store_bytes bytes offset buf"
| "copy_buffer (NoData n) offset buf = Inr buf"

text \<open>The loop copies a buffer and then asks whether there is another one that still fits.\<close>

fun copy_chain :: "u32 \<Rightarrow> mbuf \<Rightarrow> mbuf list \<Rightarrow> u32 \<Rightarrow> (nat \<Rightarrow> u8) \<Rightarrow> kernel_error + (u32 \<times> (nat \<Rightarrow> u8))" where
  "copy_chain buf_len b [] sent buf =
     and_then (copy_buffer b (unat sent) buf) (\<lambda>buf. Inr (sent + mbuf_len b, buf))"
| "copy_chain buf_len b (n # ns) sent buf =
     and_then (copy_buffer b (unat sent) buf) (\<lambda>buf.
       let sent = sent + mbuf_len b
       in if sent + mbuf_len n \<le> buf_len then copy_chain buf_len n ns sent buf else Inr (sent, buf))"

datatype output_result = OutputSuccess | OutputDropped | OutputStall

definition outputPacket ::
  "'p net_device \<Rightarrow> packet \<Rightarrow> 'p r1000 \<Rightarrow> kernel_error + (output_result \<times> 'p r1000)" where
  "outputPacket D m s =
     (let entry = unat (cur_tx s) mod NUM_TX_DESC
      in and_then (desc_at (TxDescArray s) entry) (\<lambda>d.
         if owned d then Inr (OutputStall, s)
         else if unat (pkthdr_len m) > tx_pkt_len s
         then Inr (OutputDropped, net_call (FreePacket (packetId m)) s)
         else
           let s = s\<lparr>Tx_skbuff := (Tx_skbuff s)(entry := Some m),
                      TxDescArray := update_desc entry (\<lambda>d. d\<lparr>buf_addr := Tx_skbuff_Dma s entry\<rparr>) (TxDescArray s)\<rparr>
           in and_then (copy_chain (pkthdr_len m) (firstBuf m) (moreBufs m) 0 (Tx_dbuff s entry)) (\<lambda>(buf_len, buf).
                let s = s\<lparr>Tx_dbuff := (Tx_dbuff s)(entry := buf)\<rparr>;
                    s = s\<lparr>TxDescArray := update_desc entry
                          (\<lambda>d. d\<lparr>status := OWNbit OR end_of_ring NUM_TX_DESC entry OR FSbit OR LSbit OR buf_len\<rparr>)
                          (TxDescArray s)\<rparr>;
                    s = WriteMMIO8 D TxPoll 0x40 s
                in Inr (OutputSuccess, s\<lparr>cur_tx := cur_tx s + 1\<rparr>))))"

section \<open>Receiving\<close>

definition load_bytes :: "int \<Rightarrow> (nat \<Rightarrow> u8) \<Rightarrow> kernel_error + u8 list" where
  "load_bytes n buf =
     (if 0 \<le> n \<and> n \<le> int MAX_RX_SKBDATA_SIZE then Inr (map buf [0..<nat n]) else Inl OutOfBoundsRead)"

definition rx_size :: "'p r1000 \<Rightarrow> u32 \<Rightarrow> int" where
  "rx_size s w = (let pkt_size = int (unat (w AND 0x00001FFF)) - 4
                  in if pkt_size > int (rx_pkt_len s) then int (rx_pkt_len s) else pkt_size)"

definition return_rx :: "nat \<Rightarrow> 'p r1000 \<Rightarrow> 'p r1000" where
  "return_rx i s =
     s\<lparr>RxDescArray := update_desc i
         (\<lambda>d. d\<lparr>status := OWNbit OR end_of_ring NUM_RX_DESC i OR of_nat (hw_rx_pkt_len s)\<rparr>) (RxDescArray s)\<rparr>"

definition deliver_rx :: "nat \<Rightarrow> TxDesc \<Rightarrow> 'p r1000 \<Rightarrow> kernel_error + 'p r1000" where
  "deliver_rx i d s =
     and_then (load_bytes (rx_size s (status d)) (Rx_dbuff s i)) (\<lambda>bytes.
       if netif s then Inr (return_rx i (net_call (InputPacket bytes) s)) else Inl NullDereference)"

text \<open>
  \<open>n\<close> rounds are left. \<open>granted n\<close>: the kernel has a buffer for the packet of that round; if not, the
  same descriptor is looked at again. A descriptor with the error bit is passed over as it is.
\<close>

fun rx_loop :: "(nat \<Rightarrow> bool) \<Rightarrow> nat \<Rightarrow> nat \<Rightarrow> 'p r1000 \<Rightarrow> kernel_error + (nat \<times> 'p r1000)" where
  "rx_loop granted 0 i s = Inr (i, s)"
| "rx_loop granted (Suc n) i s =
     and_then (desc_at (RxDescArray s) i) (\<lambda>d.
       if owned d then Inr (i, s)
       else if any_bit (status d) RxRES then rx_loop granted n ((i + 1) mod NUM_RX_DESC) s
       else if \<not> granted n then rx_loop granted n i s
       else and_then (deliver_rx i d s) (\<lambda>s. rx_loop granted n ((i + 1) mod NUM_RX_DESC) s))"

definition R1000RxInterrupt :: "(nat \<Rightarrow> bool) \<Rightarrow> 'p r1000 \<Rightarrow> kernel_error + 'p r1000" where
  "R1000RxInterrupt granted s =
     and_then (rx_loop granted max_interrupt_work (unat (cur_rx s)) s) (\<lambda>(i, s).
       Inr (s\<lparr>cur_rx := of_nat i\<rparr>))"

section \<open>Reclaiming\<close>

text \<open>\<open>entry\<close> starts at the place of the next packet to send and is never taken modulo the ring.\<close>

fun tx_loop :: "nat \<Rightarrow> nat \<Rightarrow> u32 \<Rightarrow> u32 \<Rightarrow> 'p r1000 \<Rightarrow> kernel_error + (u32 \<times> 'p r1000)" where
  "tx_loop 0 entry ldirty left s = Inr (ldirty, s)"
| "tx_loop (Suc n) entry ldirty left s =
     (if left = 0 then Inr (ldirty, s)
      else and_then (desc_at (TxDescArray s) entry) (\<lambda>d.
        if owned d then tx_loop n entry ldirty left s
        else
          let i = unat ldirty mod NUM_TX_DESC;
              s = (case Tx_skbuff s i of
                     Some m \<Rightarrow> (net_call (FreePacket (packetId m)) s)\<lparr>Tx_skbuff := (Tx_skbuff s)(i := None)\<rparr>
                   | None \<Rightarrow> s)
          in tx_loop n (entry + 1) (ldirty + 1) (left - 1) s))"

definition start_queue :: "'p r1000 \<Rightarrow> kernel_error + 'p r1000" where
  "start_queue s =
     (if transmitQueue s then Inr ((net_call QueueStart s)\<lparr>queueRunning := True\<rparr>) else Inl NullDereference)"

definition R1000TxInterrupt :: "'p r1000 \<Rightarrow> kernel_error + 'p r1000" where
  "R1000TxInterrupt s =
     and_then (tx_loop max_interrupt_work (unat (cur_tx s) mod NUM_TX_DESC) (dirty_tx s) (cur_tx s - dirty_tx s) s)
       (\<lambda>(ldirty, s).
          if dirty_tx s \<noteq> ldirty then start_queue (s\<lparr>dirty_tx := ldirty\<rparr>) else Inr s)"

section \<open>Interrupts and the watchdog\<close>

definition link_changed :: "'p net_device \<Rightarrow> 'p r1000 \<Rightarrow> 'p r1000" where
  "link_changed D s =
     (let (phy_status, s) = ReadMMIO8 D PHYstatus s
      in if any_bit phy_status LinkStatus
         then net_call LinkUpNoMedium (write_phy D [(0x1f, 0x0001), (0x10, 0xf01b), (0x1f, 0x0000)] s)
         else net_call LinkDown (write_phy D [(0x1f, 0x0001), (0x10, 0xf41b), (0x1f, 0x0000)] s))"

text \<open>What one round does when its status has work for the driver.\<close>

definition interrupt_work :: "'p net_device \<Rightarrow> (nat \<Rightarrow> bool) \<Rightarrow> u16 \<Rightarrow> 'p r1000 \<Rightarrow> kernel_error + 'p r1000" where
  "interrupt_work D granted st s =
     (let s = (if any_bit st TxOK \<and> any_bit st TxDescUnavail
               then WriteMMIO16 D IntrStatus TxDescUnavail (WriteMMIO8 D TxPoll 0x40 s) else s)
      in and_then (if any_bit st (RxOK OR RxDescUnavail OR RxFIFOOver) then R1000RxInterrupt granted s else Inr s)
           (\<lambda>s. if any_bit st (TxOK OR TxErr) then R1000TxInterrupt s else Inr s))"

text \<open>
  \<open>dma n\<close> is what the device does to the rings and the buffers before round \<open>n\<close>. The result tells
  whether the rounds were used up.
\<close>

fun interrupt_loop ::
  "'p net_device \<Rightarrow> (nat \<Rightarrow> nat \<Rightarrow> bool) \<Rightarrow> (nat \<Rightarrow> 'p r1000 \<Rightarrow> 'p r1000) \<Rightarrow> nat \<Rightarrow> 'p r1000 \<Rightarrow>
   kernel_error + (bool \<times> 'p r1000)" where
  "interrupt_loop D granted dma 0 s = Inr (True, s)"
| "interrupt_loop D granted dma (Suc n) s =
     (let (st, s) = ReadMMIO16 D IntrStatus (dma n s)
      in if st = 0xFFFF then Inr (False, s)
         else
           let s = WriteMMIO16 D IntrStatus st s;
               s = (if any_bit st LinkChg then link_changed D s else s)
           in if \<not> any_bit st r1000_intr_mask then Inr (False, s)
              else and_then (interrupt_work D (granted n) st s) (\<lambda>s. interrupt_loop D granted dma n s))"

definition R1000Interrupt ::
  "'p net_device \<Rightarrow> (nat \<Rightarrow> nat \<Rightarrow> bool) \<Rightarrow> (nat \<Rightarrow> 'p r1000 \<Rightarrow> 'p r1000) \<Rightarrow> 'p r1000 \<Rightarrow> kernel_error + 'p r1000" where
  "R1000Interrupt D granted dma s =
     (if \<not> isInitialized s \<or> \<not> enabled s then Inr s
      else and_then (interrupt_loop D granted dma max_interrupt_work (WriteMMIO16 D IntrMask 0x0000 s)) (\<lambda>(used_up, s).
           let s = (if used_up then WriteMMIO16 D IntrStatus 0xffff s else s)
           in Inr (WriteMMIO16 D IntrMask r1000_intr_mask s)))"

definition R1000TxTimeout :: "'p net_device \<Rightarrow> 'p r1000 \<Rightarrow> kernel_error + 'p r1000" where
  "R1000TxTimeout D s =
     (let (tmp8, s) = ReadMMIO8 D ChipCmd s;
          s = (if any_bit tmp8 CmdTxEnb then WriteMMIO8 D ChipCmd (tmp8 AND NOT CmdTxEnb) s else s);
          s = WriteMMIO16 D IntrMask 0x0000 s
      in and_then (R1000TxClear s) (\<lambda>s. start_queue (R1000HwStart D s)))"

end
