(* ===== verification/NetDriver.thy ===== *)
theory NetDriver
  imports NetRings
begin

text \<open>
  \<open>RealtekR1000\<close> as the network family sees it: start and stop, activation levels, media, packet
  filters, power.
\<close>

section \<open>Media\<close>

definition MBit :: nat where "MBit = 1000000"

definition MEDIUM_INDEX_10HD :: nat where "MEDIUM_INDEX_10HD = 0"
definition MEDIUM_INDEX_10FD :: nat where "MEDIUM_INDEX_10FD = 1"
definition MEDIUM_INDEX_100HD :: nat where "MEDIUM_INDEX_100HD = 2"
definition MEDIUM_INDEX_100FD :: nat where "MEDIUM_INDEX_100FD = 3"
definition MEDIUM_INDEX_AUTO :: nat where "MEDIUM_INDEX_AUTO = 6"

definition medium_setting :: "nat \<Rightarrow> (nat \<times> nat \<times> nat) option" where
  "medium_setting index =
     (if index = MEDIUM_INDEX_AUTO then Some (SPEED_100, DUPLEX_FULL, AUTONEG_ENABLE)
      else if index = MEDIUM_INDEX_10HD then Some (SPEED_10, DUPLEX_HALF, AUTONEG_DISABLE)
      else if index = MEDIUM_INDEX_10FD then Some (SPEED_10, DUPLEX_FULL, AUTONEG_DISABLE)
      else if index = MEDIUM_INDEX_100HD then Some (SPEED_100, DUPLEX_HALF, AUTONEG_DISABLE)
      else if index = MEDIUM_INDEX_100FD then Some (SPEED_100, DUPLEX_FULL, AUTONEG_DISABLE)
      else None)"

definition report_link :: "'p net_device \<Rightarrow> 'p r1000 \<Rightarrow> 'p r1000" where
  "report_link D s =
     (let (st, s) = ReadMMIO8 D PHYstatus s
      in if any_bit st LinkStatus
         then let (st, s) = ReadMMIO8 D PHYstatus s
              in if any_bit st Link100Mbps then net_call (LinkUp (100 * MBit)) s
                 else let (st, s) = ReadMMIO8 D PHYstatus s
                      in if any_bit st Link10Mbps then net_call (LinkUp (10 * MBit)) s else s
         else net_call LinkDown s)"

text \<open>\<open>None\<close> is the null pointer. The function always succeeds.\<close>

definition selectMedium :: "'p net_device \<Rightarrow> nat option \<Rightarrow> 'p r1000 \<Rightarrow> 'p r1000" where
  "selectMedium D medium s =
     report_link D
       (case medium of
          Some index \<Rightarrow>
            net_call (SetCurrentMedium index)
              (case medium_setting index of
                 Some (spd, dpx, neg) \<Rightarrow> snd (R1000SetMedium D spd dpx neg s)
               | None \<Rightarrow> s)
        | None \<Rightarrow> s)"

section \<open>Activation levels\<close>

definition kActivationLevelNone :: u32 where "kActivationLevelNone = 0"
definition kActivationLevelKDP :: u32 where "kActivationLevelKDP = 1"
definition kActivationLevelBSD :: u32 where "kActivationLevelBSD = 2"

text \<open>
  \<open>opens\<close> is what the PCI device answers when it is opened, which the code does not look at;
  \<open>selected\<close> the medium the network family has selected.
\<close>

definition increaseActivationLevel ::
  "'p net_device \<Rightarrow> bool \<Rightarrow> nat option \<Rightarrow> u32 \<Rightarrow> 'p r1000 \<Rightarrow> kernel_error + (bool \<times> 'p r1000)" where
  "increaseActivationLevel D opens selected level s =
     (if level = kActivationLevelKDP then
        (if \<not> pciFound s then Inr (False, s)
         else
           let s = net_call OpenDevice (s\<lparr>pciOpened := opens\<rparr>);
               medium = (case selected of
                           Some index \<Rightarrow> Some index
                         | None \<Rightarrow> if mediumTable s MEDIUM_INDEX_AUTO then Some MEDIUM_INDEX_AUTO else None);
               s = selectMedium D medium s
           in if timerSource s then Inr (True, net_call (SetTimer TX_TIMEOUT) s) else Inl NullDereference)
      else if level = kActivationLevelBSD then
        let (ok, s) = R1000OpenAdapter D s
        in if \<not> ok then Inr (False, s)
           else if \<not> transmitQueue s then Inl NullDereference
           else and_then (start_queue (net_call (QueueCapacity kTransmitQueueCapacity) s)) (\<lambda>s. Inr (True, s))
      else Inr (False, s))"

definition decreaseActivationLevel :: "'p net_device \<Rightarrow> u32 \<Rightarrow> 'p r1000 \<Rightarrow> kernel_error + (bool \<times> 'p r1000)" where
  "decreaseActivationLevel D level s =
     (if level = kActivationLevelKDP then
        (if \<not> timerSource s then Inl NullDereference
         else let s = net_call CancelTimer s
              in Inr (True, if pciFound s then net_call CloseDevice (s\<lparr>pciOpened := False\<rparr>) else s))
      else if level = kActivationLevelBSD then
        (if \<not> transmitQueue s then Inl NullDereference
         else
           let s = (net_call QueueStop s)\<lparr>queueRunning := False\<rparr>;
               s = net_call QueueFlush (net_call (QueueCapacity 0) s)
           in Inr (True, R1000CloseAdapter D s))
      else Inr (True, s))"

text \<open>The two loops, with the number of levels to go.\<close>

fun lower_levels :: "'p net_device \<Rightarrow> nat \<Rightarrow> bool \<Rightarrow> 'p r1000 \<Rightarrow> kernel_error + (bool \<times> 'p r1000)" where
  "lower_levels D 0 success s = Inr (success, s)"
| "lower_levels D (Suc k) success s =
     and_then (decreaseActivationLevel D (activationLevel s) s) (\<lambda>(success, s).
       if success then lower_levels D k success (s\<lparr>activationLevel := activationLevel s - 1\<rparr>)
       else Inr (success, s))"

fun raise_levels ::
  "'p net_device \<Rightarrow> bool \<Rightarrow> nat option \<Rightarrow> nat \<Rightarrow> bool \<Rightarrow> 'p r1000 \<Rightarrow> kernel_error + (bool \<times> 'p r1000)" where
  "raise_levels D opens selected 0 success s = Inr (success, s)"
| "raise_levels D opens selected (Suc k) success s =
     and_then (increaseActivationLevel D opens selected (activationLevel s + 1) s) (\<lambda>(success, s).
       if success then raise_levels D opens selected k success (s\<lparr>activationLevel := activationLevel s + 1\<rparr>)
       else Inr (success, s))"

definition setActivationLevel ::
  "'p net_device \<Rightarrow> bool \<Rightarrow> nat option \<Rightarrow> u32 \<Rightarrow> 'p r1000 \<Rightarrow> kernel_error + (bool \<times> 'p r1000)" where
  "setActivationLevel D opens selected level s =
     (if activationLevel s = level then Inr (True, s)
      else and_then (lower_levels D (unat (activationLevel s) - unat level) False s) (\<lambda>(success, s).
           raise_levels D opens selected (unat level - unat (activationLevel s)) success s))"

definition r1000_enable ::
  "'p net_device \<Rightarrow> bool \<Rightarrow> nat option \<Rightarrow> 'p r1000 \<Rightarrow> kernel_error + (bool \<times> 'p r1000)" where
  "r1000_enable D opens selected s =
     (if enabledForBSD s then Inr (True, s)
      else and_then (setActivationLevel D opens selected kActivationLevelBSD s) (\<lambda>(ok, s).
           let s = s\<lparr>enabledForBSD := ok\<rparr>
           in if ok then Inr (True, s\<lparr>enabled := True\<rparr>) else Inr (False, s)))"

definition r1000_disable ::
  "'p net_device \<Rightarrow> bool \<Rightarrow> nat option \<Rightarrow> 'p r1000 \<Rightarrow> kernel_error + 'p r1000" where
  "r1000_disable D opens selected s =
     (let s = s\<lparr>enabledForBSD := False\<rparr>
      in and_then (setActivationLevel D opens selected
                     (if enabledForKDP s then kActivationLevelKDP else kActivationLevelNone) s) (\<lambda>(_, s).
           Inr (s\<lparr>enabled := False\<rparr>)))"

section \<open>Packet filters\<close>

definition filters_all :: "'p r1000 \<Rightarrow> bool" where
  "filters_all s \<longleftrightarrow> mcfg s = 11 \<or> mcfg s = 12 \<or> mcfg s = 13 \<or> mcfg s = 14 \<or> mcfg s = 15"

definition write_filter :: "'p net_device \<Rightarrow> u32 \<Rightarrow> u32 \<Rightarrow> 'p r1000 \<Rightarrow> 'p r1000" where
  "write_filter D f0 f1 s =
     (if filters_all s
      then WriteMMIO32 D (MAR0 + 4) 0xffffffff (WriteMMIO32 D (MAR0 + 0) 0xffffffff s)
      else WriteMMIO32 D (MAR0 + 4) f1 (WriteMMIO32 D (MAR0 + 0) f0 s))"

definition setPromiscuousMode :: "'p net_device \<Rightarrow> bool \<Rightarrow> 'p r1000 \<Rightarrow> 'p r1000" where
  "setPromiscuousMode D on s =
     (let (f0, f1) = (if on then (0xffffffff, 0xffffffff) else (mc_filter0 s, mc_filter1 s));
          s = receive_config D (\<lambda>v. r1000_rx_config OR AcceptBroadcast OR AcceptMulticast OR AcceptMyPhys OR
                (if on then AcceptAllPhys else 0) OR v) s
      in write_filter D f0 f1 s)"

definition setMulticastMode :: "'p net_device \<Rightarrow> bool \<Rightarrow> 'p r1000 \<Rightarrow> 'p r1000" where
  "setMulticastMode D on s =
     receive_config D
       (\<lambda>v. if on then r1000_rx_config OR AcceptBroadcast OR AcceptMulticast OR AcceptMyPhys OR v
            else (r1000_rx_config OR v) AND NOT AcceptMulticast) s"

fun crc_bits :: "nat \<Rightarrow> u8 \<Rightarrow> u32 \<Rightarrow> u32" where
  "crc_bits 0 octet crc = crc"
| "crc_bits (Suc n) octet crc =
     crc_bits n (drop_bit 1 octet)
       (push_bit 1 crc XOR (if bit crc 31 \<noteq> bit octet 0 then ethernet_polynomial else 0))"

definition ether_crc :: "u8 list \<Rightarrow> u32" where
  "ether_crc bytes = fold (crc_bits 8) bytes (- 1)"

definition multicast_hash :: "u8 list \<Rightarrow> nat" where
  "multicast_hash addr = unat (drop_bit 26 (ether_crc addr))"

definition add_hash :: "u8 list \<Rightarrow> u32 \<times> u32 \<Rightarrow> u32 \<times> u32" where
  "add_hash addr f =
     (let n = multicast_hash addr
      in if n < 32 then (fst f OR push_bit n 1, snd f) else (fst f, snd f OR push_bit (n - 32) 1))"

text \<open>
  \<open>stack\<close> is what the two words of the local filter hold before they are used: they are not
  initialised. The number of addresses is the length of the list.
\<close>

definition setMulticastList :: "'p net_device \<Rightarrow> u32 \<times> u32 \<Rightarrow> u8 list list \<Rightarrow> 'p r1000 \<Rightarrow> 'p r1000" where
  "setMulticastList D stack addrs s =
     (let (f0, f1) = (if of_nat (length addrs) > multicast_filter_limit then (0xffffffff, 0xffffffff)
                      else fold add_hash addrs stack)
      in write_filter D f0 f1 s)"

fun read_address :: "'p net_device \<Rightarrow> nat list \<Rightarrow> 'p r1000 \<Rightarrow> u8 list \<times> 'p r1000" where
  "read_address D [] s = ([], s)"
| "read_address D (i # is) s =
     (let (b, s) = ReadMMIO8 D (MAC0 + of_nat i) s; (bs, s) = read_address D is s in (b # bs, s))"

definition getHardwareAddress :: "'p net_device \<Rightarrow> 'p r1000 \<Rightarrow> u8 list \<times> 'p r1000" where
  "getHardwareAddress D s = read_address D [0..<MAC_ADDR_LEN] s"

definition newModelString :: "'p r1000 \<Rightarrow> kernel_error + string" where
  "newModelString s =
     (if chipset s < length rtl_chip_info then non_null (fst (rtl_chip_info ! chipset s)) else Inl OutOfBoundsRead)"

definition r1000_setPowerState :: "nat \<Rightarrow> 'p r1000 \<Rightarrow> 'p r1000" where
  "r1000_setPowerState powerStateOrdinal s =
     (if powerStateOrdinal = 0 then net_call LinkDown s else net_call LinkUpNoMedium s)"

section \<open>Start and stop\<close>

text \<open>What \<open>start\<close> depends on: the answers of the kernel to its calls.\<close>

record net_env =
  isPCIDevice :: bool
  netSuperStarts :: bool
  pciDeviceOpens :: bool
  mediumMade :: "nat \<Rightarrow> bool"
  mediumAdded :: "nat \<Rightarrow> bool"
  mediaPublished :: bool
  registersMapped :: bool
  ringMemory :: ring_memory
  workLoopMade :: bool
  queueMade :: bool
  interruptSourceAdded :: bool
  timerMade :: bool
  timerAdded :: bool
  interfaceAttached :: bool

text \<open>An object is all zero when it is made; \<open>init\<close> clears some of the fields again.\<close>

definition new_r1000 :: "'p \<Rightarrow> 'p r1000" where
  "new_r1000 p = \<lparr>hardware = p, pioBase = 0, forcedPio = False, isInitialized = False, enabled = False,
     pciFound = False, pciOpened = False, activationLevel = 0, enabledForBSD = False, enabledForKDP = False,
     mcfg = 0, pcfg = 0, chipset = 0, mc_filter0 = 0, mc_filter1 = 0, cur_rx = 0, cur_tx = 0, dirty_tx = 0,
     Tx_skbuff = (\<lambda>_. None), Tx_dbuff = (\<lambda>_ _. 0), Tx_skbuff_Dma = (\<lambda>_. 0), Tx_skbuff_Md = (\<lambda>_. False),
     Rx_dbuff = (\<lambda>_ _. 0), Rx_skbuff_Dma = (\<lambda>_. 0), Rx_skbuff_Md = (\<lambda>_. False),
     TxDescArray = None, tx_descMd = False, txdesc_phy_dma_addr = 0,
     RxDescArray = None, rx_descMd = False, rxdesc_phy_dma_addr = 0,
     curr_mtu_size = 0, tx_pkt_len = 0, rx_pkt_len = 0, hw_rx_pkt_len = 0, speed = 0, duplex = 0, autoneg = 0,
     transmitQueue = False, queueRunning = False, timerSource = False, netif = False,
     mediumTable = (\<lambda>_. False), netCalls = []\<rparr>"

definition r1000_init :: "bool \<Rightarrow> 'p r1000 \<Rightarrow> bool \<times> 'p r1000" where
  "r1000_init superInits s =
     (if \<not> superInits then (False, s)
      else (True, s\<lparr>pciFound := False, timerSource := False, transmitQueue := False, netif := False,
                    enabled := False, forcedPio := False, isInitialized := False,
                    enabledForKDP := False, enabledForBSD := False\<rparr>))"

definition r1000_free :: "'p r1000 \<Rightarrow> kernel_error + 'p r1000" where
  "r1000_free s = FreeDescriptorsMemory (s\<lparr>netif := False, timerSource := False, pciFound := False\<rparr>)"

definition OSAddNetworkMedium :: "net_env \<Rightarrow> nat \<Rightarrow> 'p r1000 \<Rightarrow> bool \<times> 'p r1000" where
  "OSAddNetworkMedium E index s =
     (if \<not> mediumMade E index then (False, s)
      else if \<not> mediumAdded E index then (False, s)
      else (True, s\<lparr>mediumTable := (mediumTable s)(index := True)\<rparr>))"

definition R1000InitEventSources :: "net_env \<Rightarrow> 'p r1000 \<Rightarrow> bool \<times> 'p r1000" where
  "R1000InitEventSources E s =
     (if \<not> workLoopMade E then (False, s)
      else
        let s = s\<lparr>transmitQueue := queueMade E\<rparr>
        in if \<not> queueMade E then (False, s)
           else if \<not> interruptSourceAdded E then (False, s)
           else let s = s\<lparr>timerSource := timerMade E\<rparr> in (timerMade E \<and> timerAdded E, s))"

definition add_media :: "net_env \<Rightarrow> 'p r1000 \<Rightarrow> 'p r1000" where
  "add_media E s =
     fold (\<lambda>i s. snd (OSAddNetworkMedium E i s))
       [MEDIUM_INDEX_AUTO, MEDIUM_INDEX_10HD, MEDIUM_INDEX_10FD, MEDIUM_INDEX_100HD, MEDIUM_INDEX_100FD] s"

text \<open>The first block of \<open>start\<close>, each of whose steps leaves it on failure.\<close>

definition start_board ::
  "'p net_device \<Rightarrow> net_env \<Rightarrow> 'p r1000 \<Rightarrow> kernel_error + (bool \<times> 'p r1000)" where
  "start_board D E s =
     (if \<not> isPCIDevice E \<or> \<not> netSuperStarts E \<or> \<not> pciDeviceOpens E then Inr (False, s)
      else
        let s = net_call OpenDevice (s\<lparr>pciOpened := True, chipset := 5\<rparr>);
            s = add_media E s
        in if \<not> mediaPublished E then Inr (False, s)
           else
             let (ok, s) = R1000ProbeAndStartBoard D (registersMapped E) s
             in if \<not> ok then Inr (False, s)
                else and_then (AllocateDescriptorsMemory (ringMemory E) s) (\<lambda>(ok, s).
                     if \<not> ok then Inr (False, s) else Inr (R1000InitEventSources E s)))"

text \<open>A failure to attach the interface does not change the result.\<close>

definition r1000_start ::
  "'p net_device \<Rightarrow> net_env \<Rightarrow> 'p r1000 \<Rightarrow> kernel_error + (bool \<times> 'p r1000)" where
  "r1000_start D E s =
     (let s = s\<lparr>pciFound := isPCIDevice E\<rparr>
      in and_then (start_board D E s) (\<lambda>(success, s).
           let s = (if pciFound s then net_call CloseDevice (s\<lparr>pciOpened := False\<rparr>) else s);
               s = (if success \<and> interfaceAttached E
                    then net_call RegisterInterface (net_call AttachInterface (s\<lparr>netif := True\<rparr>)) else s)
           in Inr (success, s\<lparr>isInitialized := True\<rparr>)))"

definition R1000StopBoard :: bool where
  "R1000StopBoard = True"

definition r1000_stop :: "'p r1000 \<Rightarrow> 'p r1000" where
  "r1000_stop s = net_call DetachInterface s"

definition configureInterface :: "bool \<Rightarrow> bool \<Rightarrow> bool \<Rightarrow> bool" where
  "configureInterface superConfigures netStats etherStats \<longleftrightarrow> superConfigures \<and> netStats \<and> etherStats"

end
