(* ===== verification/NetFrame.thy ===== *)
theory NetFrame
  imports NetDriver
begin

text \<open>
  What access to the registers leaves alone: the rings, the packets that are held and released, and
  the bookkeeping of activation. Bringing the chip up and choosing a medium are such accesses.
\<close>

definition released :: "net_event list \<Rightarrow> nat list" where
  "released cs = List.map_filter (\<lambda>c. case c of FreePacket i \<Rightarrow> Some i | _ \<Rightarrow> None) cs"

abbreviation freed :: "'p r1000 \<Rightarrow> nat list" where
  "freed s \<equiv> released (netCalls s)"

lemma released_simps [simp]:
  "released [] = []"
  "released (FreePacket i # cs) = i # released cs"
  "(\<And>i. c \<noteq> FreePacket i) \<Longrightarrow> released (c # cs) = released cs"
  "released (cs @ ds) = released cs @ released ds"
  by (simp_all add: released_def List.map_filter_def split: net_event.split)

definition chip_frame :: "'p r1000 \<Rightarrow> 'p r1000 \<Rightarrow> bool" where
  "chip_frame s s' \<longleftrightarrow>
     TxDescArray s' = TxDescArray s \<and> RxDescArray s' = RxDescArray s \<and> Tx_skbuff s' = Tx_skbuff s \<and>
     Tx_skbuff_Dma s' = Tx_skbuff_Dma s \<and> Rx_skbuff_Dma s' = Rx_skbuff_Dma s \<and>
     tx_pkt_len s' = tx_pkt_len s \<and> rx_pkt_len s' = rx_pkt_len s \<and> hw_rx_pkt_len s' = hw_rx_pkt_len s \<and>
     freed s' = freed s \<and> activationLevel s' = activationLevel s \<and> enabled s' = enabled s \<and>
     enabledForBSD s' = enabledForBSD s \<and> enabledForKDP s' = enabledForKDP s \<and>
     pciFound s' = pciFound s \<and> pciOpened s' = pciOpened s \<and> timerSource s' = timerSource s \<and>
     transmitQueue s' = transmitQueue s \<and> netif s' = netif s"

interpretation chip: state_frame chip_frame
  by unfold_locales (simp_all add: chip_frame_def)

named_theorems chip_frames \<open>an operation keeps the frame if what ran before it does\<close>

lemma chip_fields [chip_frames]:
  "chip_frame s t \<Longrightarrow> chip_frame s (t\<lparr>hardware := p\<rparr>)"
  "chip_frame s t \<Longrightarrow> chip_frame s (t\<lparr>cur_rx := w\<rparr>)"
  "chip_frame s t \<Longrightarrow> chip_frame s (t\<lparr>autoneg := n\<rparr>)"
  "chip_frame s t \<Longrightarrow> chip_frame s (t\<lparr>speed := n, duplex := m\<rparr>)"
  "(\<And>i. c \<noteq> FreePacket i) \<Longrightarrow> chip_frame s t \<Longrightarrow> chip_frame s (net_call c t)"
  by (simp_all add: chip_frame_def net_call_def)

lemma chip_write [chip_frames]:
  "chip_frame s t \<Longrightarrow> chip_frame s (WriteMMIO8 D a v8 t)"
  "chip_frame s t \<Longrightarrow> chip_frame s (WriteMMIO16 D a v16 t)"
  "chip_frame s t \<Longrightarrow> chip_frame s (WriteMMIO32 D a v32 t)"
  "chip_frame s t \<Longrightarrow> chip_frame s (on_pci f t)"
  by (simp_all add: WriteMMIO8_def WriteMMIO16_def WriteMMIO32_def on_pci_def chip_frames)

lemma chip_read:
  "chip_frame s (snd (ReadMMIO8 D a s))" "chip_frame s (snd (ReadMMIO16 D a s))" "chip_frame s (snd (ReadMMIO32 D a s))"
  by (simp_all add: ReadMMIO8_def ReadMMIO16_def ReadMMIO32_def chip_frames chip.keeps_refl split: prod.split)

lemma chip_read_pair:
  "ReadMMIO8 D a t = (b, t') \<Longrightarrow> chip_frame s t \<Longrightarrow> chip_frame s t'"
  "ReadMMIO16 D a t = (w, t') \<Longrightarrow> chip_frame s t \<Longrightarrow> chip_frame s t'"
  "ReadMMIO32 D a t = (l, t') \<Longrightarrow> chip_frame s t \<Longrightarrow> chip_frame s t'"
  by (rule chip.keeps_result [of "ReadMMIO8 D a"], rule chip_read, assumption+)
    (rule chip.keeps_result [of "ReadMMIO16 D a"], rule chip_read, assumption+,
     rule chip.keeps_result [of "ReadMMIO32 D a"], rule chip_read, assumption+)

lemma chip_wait:
  "chip_frame s (snd (wait_flag32 D a ready32 n s))" "chip_frame s (snd (wait_flag8 D a ready8 n s))"
proof (induction n arbitrary: s)
  case (Suc n)
  {
    case 1
    obtain v t where r: "ReadMMIO32 D a s = (v, t)" by (cases "ReadMMIO32 D a s")
    from chip_read_pair(3) [OF r chip.keeps_refl] have t: "chip_frame s t" .
    show ?case using t Suc.IH(1) [of t] by (auto simp: r intro: chip.keeps_trans)
  next
    case 2
    obtain v t where r: "ReadMMIO8 D a s = (v, t)" by (cases "ReadMMIO8 D a s")
    from chip_read_pair(1) [OF r chip.keeps_refl] have t: "chip_frame s t" .
    show ?case using t Suc.IH(2) [of t] by (auto simp: r intro: chip.keeps_trans)
  }
qed (simp_all add: chip.keeps_refl)

lemma chip_phy [chip_frames]:
  "chip_frame s t \<Longrightarrow> chip_frame s (snd (wait_flag8 D a ready n t))"
  "chip_frame s t \<Longrightarrow> chip_frame s (WriteGMII32 D r v t)"
  "chip_frame s t \<Longrightarrow> chip_frame s (snd (ReadGMII32 D r t))"
proof -
  show wait: "chip_frame s (snd (wait_flag8 D a ready n t))" if "chip_frame s t" for t
    using that chip_wait(2) by (rule chip.keeps_trans)
  have wait32: "chip_frame s (snd (wait_flag32 D a ready n t))" if "chip_frame s t" for a ready n t
    using that chip_wait(1) by (rule chip.keeps_trans)
  show "chip_frame s t \<Longrightarrow> chip_frame s (WriteGMII32 D r v t)"
    unfolding WriteGMII32_def Let_def by (intro wait32 chip_frames)
  assume t: "chip_frame s t"
  obtain ok t1 where t1: "wait_flag32 D PHYAR (\<lambda>w. any_bit w 0x80000000) 2000
      (WriteMMIO32 D PHYAR (push_bit 16 (r AND 0xFF)) t) = (ok, t1)"
    by (cases "wait_flag32 D PHYAR (\<lambda>w. any_bit w 0x80000000) 2000 (WriteMMIO32 D PHYAR (push_bit 16 (r AND 0xFF)) t)")
  have "chip_frame s t1"
    using wait32 [OF chip_write(3) [OF t], of PHYAR "\<lambda>w. any_bit w 0x80000000" 2000 D PHYAR "push_bit 16 (r AND 0xFF)"]
    unfolding t1 snd_conv .
  moreover obtain v t2 where t2: "ReadMMIO32 D PHYAR t1 = (v, t2)" by (cases "ReadMMIO32 D PHYAR t1")
  ultimately have "chip_frame s t1" "chip_frame s t2" by (auto dest: chip_read_pair)
  then show "chip_frame s (snd (ReadGMII32 D r t))"
    unfolding ReadGMII32_def Let_def t1 prod.case t2 by simp
qed

lemma chip_read_phy: "ReadGMII32 D r t = (v, t') \<Longrightarrow> chip_frame s t \<Longrightarrow> chip_frame s t'"
  using chip_phy(3) [of s t D r] by simp

lemma chip_modify [chip_frames]:
  "chip_frame s t \<Longrightarrow> chip_frame s (modify8 D a f t)"
  "chip_frame s t \<Longrightarrow> chip_frame s (modify16 D a g t)"
  "chip_frame s t \<Longrightarrow> chip_frame s (receive_config D h t)"
  "chip_frame s t \<Longrightarrow> chip_frame s (write_filter D f0 f1 t)"
  by (auto simp: modify8_def modify16_def receive_config_def write_filter_def chip_frames
      split: prod.split dest!: chip_read_pair)

lemma chip_write_phy [chip_frames]: "chip_frame s t \<Longrightarrow> chip_frame s (write_phy D program t)"
  by (induction D program t rule: write_phy.induct) (simp_all add: chip_frames)

lemma chip_negotiated: "chip_frame s t \<Longrightarrow> chip_frame s (snd (wait_negotiated D n t))"
proof (induction n arbitrary: t)
  case (Suc n)
  obtain v t1 where r: "ReadGMII32 D PHY_STAT_REG t = (v, t1)" by (cases "ReadGMII32 D PHY_STAT_REG t")
  show ?case using Suc.IH [of t1] chip_read_phy [OF r Suc.prems] by (simp add: r)
qed simp

lemma chip_medium [chip_frames]: "chip_frame s t \<Longrightarrow> chip_frame s (snd (R1000SetMedium D spd dpx neg t))"
proof -
  assume t: "chip_frame s t"
  obtain v t1 where r: "ReadGMII32 D PHY_AUTO_NEGO_REG t = (v, t1)" by (cases "ReadGMII32 D PHY_AUTO_NEGO_REG t")
  obtain an gb t2 where m: "medium_capabilities spd dpx neg t1 = (an, gb, t2)" by (cases "medium_capabilities spd dpx neg t1")
  have "chip_frame s t2"
    using m chip_read_phy [OF r t] by (auto simp: medium_capabilities_def Let_def chip_frames split: if_split_asm)
  then show ?thesis
    by (simp add: R1000SetMedium_def r m R1000SetSpeedDuplex_def Let_def chip_negotiated chip_frames)
qed

lemma chip_start [chip_frames]: "chip_frame s t \<Longrightarrow> chip_frame s (R1000HwStart D t)"
proof -
  assume t: "chip_frame s t"
  have rings: "chip_frame s (set_rings D t)" if "chip_frame s t" for t
    using that by (simp add: set_rings_def Let_def chip_frames)
  have cplus: "chip_frame s (set_cplus D t)" if "chip_frame s t" for t
    using that by (simp add: set_cplus_def Let_def chip_frames)
  have finish: "chip_frame s (finish_hw_start D t)" if "chip_frame s t" for t
    using that by (simp add: finish_hw_start_def Let_def chip_frames)
  have reset: "chip_frame s (soft_reset D t)" if "chip_frame s t" for t
    using that by (simp add: soft_reset_def chip_frames)
  have "chip_frame s (start_old_chip D t)"
    unfolding start_old_chip_def Let_def by (intro rings cplus finish reset chip_frames t)
  moreover have "chip_frame s (start_new_chip D t)"
    unfolding start_new_chip_def Let_def
    by (intro rings cplus finish reset chip_frames)
      (auto simp: t reset intro!: chip_frames split: prod.split dest!: chip_read_pair)
  ultimately show ?thesis by (simp add: R1000HwStart_def)
qed

lemma chip_close [chip_frames]: "chip_frame s t \<Longrightarrow> chip_frame s (R1000CloseAdapter D t)"
  by (simp add: R1000CloseAdapter_def Let_def chip_frames)

lemma chip_select [chip_frames]: "chip_frame s t \<Longrightarrow> chip_frame s (selectMedium D medium t)"
proof -
  assume t: "chip_frame s t"
  have "chip_frame s (report_link D t)" if "chip_frame s t" for t
    using that by (auto simp: report_link_def Let_def chip_frames split: prod.split dest!: chip_read_pair)
  then show ?thesis
    using t by (simp add: selectMedium_def chip_frames split: option.split prod.split)
qed

lemma chip_filters [chip_frames]:
  "chip_frame s t \<Longrightarrow> chip_frame s (setPromiscuousMode D on t)"
  "chip_frame s t \<Longrightarrow> chip_frame s (setMulticastMode D on t)"
  "chip_frame s t \<Longrightarrow> chip_frame s (setMulticastList D stack addrs t)"
  "chip_frame s t \<Longrightarrow> chip_frame s (r1000_setPowerState n t)"
  by (simp_all add: setPromiscuousMode_def setMulticastMode_def setMulticastList_def r1000_setPowerState_def
      Let_def chip_frames split: prod.split)

lemma chip_address: "chip_frame s t \<Longrightarrow> chip_frame s (snd (read_address D is t))"
proof (induction "is" arbitrary: t)
  case (Cons i "is")
  obtain b t1 where r: "ReadMMIO8 D (MAC0 + of_nat i) t = (b, t1)" by (cases "ReadMMIO8 D (MAC0 + of_nat i) t")
  obtain bs t2 where q: "read_address D is t1 = (bs, t2)" by (cases "read_address D is t1")
  have "chip_frame s t2" using Cons.IH [OF chip_read_pair(1) [OF r Cons.prems]] q by simp
  then show ?case by (simp add: r q)
qed simp

lemma chip_link [chip_frames]: "chip_frame s t \<Longrightarrow> chip_frame s (link_changed D t)"
  by (auto simp: link_changed_def Let_def chip_frames split: prod.split dest!: chip_read_pair)

end
