(* ===== verification/NetReach.thy ===== *)
theory NetReach
  imports NetFrame
begin

text \<open>
  The states of the network driver: what the device may do to the rings, the calls the driver
  answers, and the scheme by which an invariant of all of them is proved.
\<close>

section \<open>The device's part\<close>

text \<open>
  The chip may give a descriptor back that it owns, writing its status and tag but not its
  address; what is not its own it does not touch. The bytes of the receive buffers are its.
\<close>

definition desc_moves :: "TxDesc \<Rightarrow> TxDesc \<Rightarrow> bool" where
  "desc_moves d d' \<longleftrightarrow> d' = d \<or> owned d \<and> \<not> owned d' \<and> buf_addr d' = buf_addr d"

definition device_moves :: "'p r1000 \<Rightarrow> 'p r1000 \<Rightarrow> bool" where
  "device_moves s s' \<longleftrightarrow>
     (\<exists>p bufs tx rx. s' = s\<lparr>hardware := p, Rx_dbuff := bufs, TxDescArray := tx, RxDescArray := rx\<rparr> \<and>
        rel_option (list_all2 desc_moves) (TxDescArray s) tx \<and>
        rel_option (list_all2 desc_moves) (RxDescArray s) rx)"

lemma device_moves_refl [simp]: "device_moves s s"
proof -
  have "list_all2 desc_moves ds ds" for ds
    by (rule list.rel_refl) (simp add: desc_moves_def)
  then have "rel_option (list_all2 desc_moves) r r" for r
    by (rule option.rel_refl)
  moreover have "s = s\<lparr>hardware := hardware s, Rx_dbuff := Rx_dbuff s, TxDescArray := TxDescArray s,
      RxDescArray := RxDescArray s\<rparr>" by simp
  ultimately show ?thesis unfolding device_moves_def by blast
qed

section \<open>Reachable states\<close>

text \<open>
  The packets that were handed over and those whose place was taken by a later packet while the
  driver still held them are recorded with the state. A packet's number is used once; its first buffer
  is not longer than the packet.
\<close>

definition overwritten :: "'p r1000 \<Rightarrow> nat set" where
  "overwritten s = packetId ` set_option (Tx_skbuff s (unat (cur_tx s) mod NUM_TX_DESC))"

inductive net_reaches :: "'p net_device \<Rightarrow> nat set \<Rightarrow> nat set \<Rightarrow> 'p r1000 \<Rightarrow> bool" for D where
  started: "r1000_start D E (snd (r1000_init True (new_r1000 p))) = Inr (True, s) \<Longrightarrow>
    length (initialTx (ringMemory E)) = NUM_TX_DESC \<Longrightarrow> length (initialRx (ringMemory E)) = NUM_RX_DESC \<Longrightarrow>
    net_reaches D {} {} s"
| device: "net_reaches D G L s \<Longrightarrow> device_moves s s' \<Longrightarrow> net_reaches D G L s'"
| sent: "net_reaches D G L s \<Longrightarrow> packetId m \<notin> G \<Longrightarrow> mbuf_len (firstBuf m) \<le> pkthdr_len m \<Longrightarrow>
    outputPacket D m s = Inr (OutputSuccess, s') \<Longrightarrow>
    net_reaches D (insert (packetId m) G) (L \<union> overwritten s) s'"
| dropped: "net_reaches D G L s \<Longrightarrow> packetId m \<notin> G \<Longrightarrow> outputPacket D m s = Inr (OutputDropped, s') \<Longrightarrow>
    net_reaches D (insert (packetId m) G) L s'"
| stalled: "net_reaches D G L s \<Longrightarrow> outputPacket D m s = Inr (OutputStall, s') \<Longrightarrow> net_reaches D G L s'"
| interrupt: "net_reaches D G L s \<Longrightarrow> (\<And>n t. device_moves t (dma n t)) \<Longrightarrow>
    R1000Interrupt D granted dma s = Inr s' \<Longrightarrow> net_reaches D G L s'"
| watchdog: "net_reaches D G L s \<Longrightarrow> R1000TxTimeout D s = Inr s' \<Longrightarrow> net_reaches D G L s'"
| enabled: "net_reaches D G L s \<Longrightarrow> r1000_enable D opens selected s = Inr (ok, s') \<Longrightarrow> net_reaches D G L s'"
| disabled: "net_reaches D G L s \<Longrightarrow> r1000_disable D opens selected s = Inr s' \<Longrightarrow> net_reaches D G L s'"
| medium: "net_reaches D G L s \<Longrightarrow> net_reaches D G L (selectMedium D chosen s)"
| promiscuous: "net_reaches D G L s \<Longrightarrow> net_reaches D G L (setPromiscuousMode D on s)"
| multicast: "net_reaches D G L s \<Longrightarrow> net_reaches D G L (setMulticastMode D on s)"
| multicast_list: "net_reaches D G L s \<Longrightarrow> net_reaches D G L (setMulticastList D stack addrs s)"
| address: "net_reaches D G L s \<Longrightarrow> net_reaches D G L (snd (getHardwareAddress D s))"
| power: "net_reaches D G L s \<Longrightarrow> net_reaches D G L (r1000_setPowerState n s)"
| stopped: "net_reaches D G L s \<Longrightarrow> net_reaches D G L (r1000_stop s)"

text \<open>A chip whose registers read zero, for examples.\<close>

definition silent_bus :: "unit register_bus" where
  "silent_bus = \<lparr>busRead8 = (\<lambda>_ p. (0, p)), busRead16 = (\<lambda>_ p. (0, p)), busRead32 = (\<lambda>_ p. (0, p)),
     busWrite8 = (\<lambda>_ _ p. p), busWrite16 = (\<lambda>_ _ p. p), busWrite32 = (\<lambda>_ _ p. p)\<rparr>"

definition silent_chip :: "unit net_device" where
  "silent_chip = \<lparr>ports = silent_bus, memory = silent_bus, pciRead16 = (\<lambda>_ _. 0), pciWrite8 = (\<lambda>_ _ p. p),
     pciWrite16 = (\<lambda>_ _ p. p), pciEnable = (\<lambda>_ _ _ p. p)\<rparr>"

section \<open>Invariants\<close>

text \<open>
  What an invariant has to keep so that the interrupt handler and the watchdog keep it: register
  accesses, moves of the device, and the three routines that work on the rings.
\<close>

locale ring_invariant =
  fixes I :: "'p r1000 \<Rightarrow> bool"
  assumes frame: "I s \<Longrightarrow> chip_frame s s' \<Longrightarrow> I s'"
    and moves: "I s \<Longrightarrow> device_moves s s' \<Longrightarrow> I s'"
    and receive: "I s \<Longrightarrow> R1000RxInterrupt granted s = Inr s' \<Longrightarrow> I s'"
    and reclaim: "I s \<Longrightarrow> R1000TxInterrupt s = Inr s' \<Longrightarrow> I s'"
    and clear: "I s \<Longrightarrow> R1000TxClear s = Inr s' \<Longrightarrow> I s'"
begin

lemma queue: "I s \<Longrightarrow> start_queue s = Inr s' \<Longrightarrow> I s'"
  by (rule frame, assumption)
    (auto simp: start_queue_def chip_frame_def net_call_def split: if_split_asm)

lemma work: "I s \<Longrightarrow> interrupt_work D granted st s = Inr s' \<Longrightarrow> I s'"
proof -
  assume s: "I s" and w: "interrupt_work D granted st s = Inr s'"
  define t where "t = (if any_bit st TxOK \<and> any_bit st TxDescUnavail
               then WriteMMIO16 D IntrStatus TxDescUnavail (WriteMMIO8 D TxPoll 0x40 s) else s)"
  have "chip_frame s t" by (simp add: t_def chip_frames chip.keeps_refl)
  then have "I t" by (rule frame [OF s])
  moreover obtain r where "(if any_bit st (RxOK OR RxDescUnavail OR RxFIFOOver) then R1000RxInterrupt granted t else Inr t) = Inr r"
    "(if any_bit st (TxOK OR TxErr) then R1000TxInterrupt r else Inr r) = Inr s'"
    using w unfolding interrupt_work_def t_def [symmetric] Let_def and_then_Inr_iff by blast
  ultimately show ?thesis by (auto split: if_split_asm dest: receive reclaim)
qed

lemma rounds:
  assumes "\<And>n t. device_moves t (dma n t)"
  shows "I s \<Longrightarrow> interrupt_loop D granted dma n s = Inr (b, s') \<Longrightarrow> I s'"
proof (induction n arbitrary: s)
  case (Suc n)
  obtain st t where r: "ReadMMIO16 D IntrStatus (dma n s) = (st, t)" by (cases "ReadMMIO16 D IntrStatus (dma n s)")
  have "chip_frame (dma n s) t" by (rule chip_read_pair(2) [OF r chip.keeps_refl])
  then have t: "I t" by (rule frame [OF moves [OF Suc.prems(1) assms]])
  define w where "w = (if any_bit st LinkChg then link_changed D (WriteMMIO16 D IntrStatus st t)
      else WriteMMIO16 D IntrStatus st t)"
  have w: "I w" by (rule frame [OF t]) (simp add: w_def chip_frames chip.keeps_refl)
  show ?case
  proof (cases "st = 0xFFFF \<or> \<not> any_bit st r1000_intr_mask")
    case True
    then show ?thesis using Suc.prems(2) t w by (auto simp: r Let_def w_def [symmetric] split: if_split_asm)
  next
    case False
    then obtain u where "interrupt_work D (granted n) st w = Inr u" "interrupt_loop D granted dma n u = Inr (b, s')"
      using Suc.prems(2) by (auto simp: r Let_def w_def [symmetric])
    then show ?thesis using Suc.IH [OF work [OF w]] by blast
  qed
qed simp

lemma interrupt_keeps:
  assumes "I s" "\<And>n t. device_moves t (dma n t)" "R1000Interrupt D granted dma s = Inr s'"
  shows "I s'"
proof (cases "isInitialized s \<and> enabled s")
  case True
  then obtain b t where t: "interrupt_loop D granted dma max_interrupt_work (WriteMMIO16 D IntrMask 0x0000 s) = Inr (b, t)"
    "s' = WriteMMIO16 D IntrMask r1000_intr_mask (if b then WriteMMIO16 D IntrStatus 0xffff t else t)"
    using assms(3) by (auto simp: R1000Interrupt_def Let_def)
  have "I (WriteMMIO16 D IntrMask 0x0000 s)" by (rule frame [OF assms(1)]) (simp add: chip_frames chip.keeps_refl)
  from rounds [OF assms(2) this t(1)] have "I t" .
  then show ?thesis by (rule frame) (simp add: t(2) chip_frames chip.keeps_refl)
next
  case False
  then show ?thesis using assms(1,3) by (auto simp: R1000Interrupt_def)
qed

lemma watchdog_keeps:
  assumes "I s" "R1000TxTimeout D s = Inr s'"
  shows "I s'"
proof -
  obtain v t where r: "ReadMMIO8 D ChipCmd s = (v, t)" by (cases "ReadMMIO8 D ChipCmd s")
  define w where "w = WriteMMIO16 D IntrMask 0x0000
      (if any_bit v CmdTxEnb then WriteMMIO8 D ChipCmd (v AND NOT CmdTxEnb) t else t)"
  obtain c where c: "R1000TxClear w = Inr c" "start_queue (R1000HwStart D c) = Inr s'"
    using assms(2) by (auto simp: R1000TxTimeout_def Let_def r w_def)
  have "chip_frame s w"
    using chip_read_pair(1) [OF r chip.keeps_refl] by (simp add: w_def chip_frames)
  then have "I c" using frame [OF assms(1)] clear c(1) by blast
  then have "I (R1000HwStart D c)" by (rule frame) (simp add: chip_frames chip.keeps_refl)
  then show ?thesis using queue c(2) by blast
qed

end

section \<open>Loops over the rings\<close>

text \<open>A round of the receive loop changes one descriptor and hands one packet on.\<close>

lemma deliver_rx_result:
  "deliver_rx i d s = Inr s' \<Longrightarrow>
   \<exists>bytes. load_bytes (rx_size s (status d)) (Rx_dbuff s i) = Inr bytes \<and> netif s \<and>
     s' = s\<lparr>netCalls := netCalls s @ [InputPacket bytes],
            RxDescArray := update_desc i (\<lambda>d. d\<lparr>status := OWNbit OR end_of_ring NUM_RX_DESC i OR of_nat (hw_rx_pkt_len s)\<rparr>)
                             (RxDescArray s)\<rparr>"
  by (auto simp: deliver_rx_def return_rx_def net_call_def split: if_split_asm)

lemma rx_loop_rule:
  assumes step: "\<And>i d s s'. I s \<Longrightarrow> desc_at (RxDescArray s) i = Inr d \<Longrightarrow> \<not> owned d \<Longrightarrow> deliver_rx i d s = Inr s' \<Longrightarrow> I s'"
  shows "I s \<Longrightarrow> rx_loop granted n i s = Inr (j, s') \<Longrightarrow> I s'"
proof (induction granted n i s rule: rx_loop.induct)
  case (2 granted n i s)
  obtain d where d: "desc_at (RxDescArray s) i = Inr d" using "2.prems"(2) by auto
  consider "owned d" | "\<not> owned d" "any_bit (status d) RxRES" | "\<not> owned d" "\<not> any_bit (status d) RxRES" "\<not> granted n"
    | t where "\<not> owned d" "\<not> any_bit (status d) RxRES" "granted n" "deliver_rx i d s = Inr t"
    using "2.prems"(2) d by (auto split: if_split_asm)
  then show ?case
  proof cases
    case 1
    then show ?thesis using "2.prems" d by auto
  next
    case 2
    then show ?thesis using "2.IH"(1) [of d] "2.prems" d by simp
  next
    case 3
    then show ?thesis using "2.IH"(2) [of d] "2.prems" d by simp
  next
    case (4 t)
    then show ?thesis using "2.IH"(3) [of d] "2.prems" d step [OF "2.prems"(1) d] by simp
  qed
qed simp

definition release_at :: "nat \<Rightarrow> 'p r1000 \<Rightarrow> 'p r1000" where
  "release_at i s = (case Tx_skbuff s i of
     Some m \<Rightarrow> (net_call (FreePacket (packetId m)) s)\<lparr>Tx_skbuff := (Tx_skbuff s)(i := None)\<rparr>
   | None \<Rightarrow> s)"

lemma tx_loop_rule:
  assumes step: "\<And>i s. I s \<Longrightarrow> I (release_at i s)"
  shows "I s \<Longrightarrow> tx_loop n entry ldirty left s = Inr (l, s') \<Longrightarrow> I s'"
proof (induction n entry ldirty left s rule: tx_loop.induct)
  case (2 n entry ldirty left s)
  show ?case
  proof (cases "left = 0")
    case True
    then show ?thesis using "2.prems" by simp
  next
    case False
    then obtain d where d: "desc_at (TxDescArray s) entry = Inr d" using "2.prems"(2) by auto
    show ?thesis
    proof (cases "owned d")
      case True
      then show ?thesis using "2.IH"(1) [OF False, of d] "2.prems" False d by simp
    next
      case own: False
      have "I (release_at (unat ldirty mod NUM_TX_DESC) s)" by (rule step [OF "2.prems"(1)])
      then show ?thesis
        using "2.IH"(2) [OF False own refl refl] "2.prems"(2) False d own
        by (simp add: Let_def release_at_def)
    qed
  qed
qed simp

lemma reclaim_rule:
  assumes release: "\<And>i s. I s \<Longrightarrow> I (release_at i s)"
    and index: "\<And>l s. I s \<Longrightarrow> I (s\<lparr>dirty_tx := l\<rparr>)" and frame: "\<And>s s'. I s \<Longrightarrow> chip_frame s s' \<Longrightarrow> I s'"
  shows "I s \<Longrightarrow> R1000TxInterrupt s = Inr s' \<Longrightarrow> I s'"
proof -
  assume s: "I s" and "R1000TxInterrupt s = Inr s'"
  then obtain l t where t: "tx_loop max_interrupt_work (unat (cur_tx s) mod NUM_TX_DESC) (dirty_tx s) (cur_tx s - dirty_tx s) s
      = Inr (l, t)" "(if dirty_tx t \<noteq> l then start_queue (t\<lparr>dirty_tx := l\<rparr>) else Inr t) = Inr s'"
    by (auto simp: R1000TxInterrupt_def)
  from tx_loop_rule [of I, OF release s t(1)] have "I t" .
  then show "I s'"
    using t(2) index [OF \<open>I t\<close>, of l]
    by (auto simp: start_queue_def chip_frame_def net_call_def split: if_split_asm intro: frame [of "t\<lparr>dirty_tx := l\<rparr>"])
qed

lemma clear_tx_release: "clear_tx i s =
    release_at i (s\<lparr>TxDescArray := update_desc i (\<lambda>d. d\<lparr>status := 0\<rparr>) (TxDescArray s)\<rparr>)"
  by (simp add: clear_tx_def release_at_def net_call_def split: option.split)

lemma fold_rule: "I s \<Longrightarrow> (\<And>x s. x \<in> set xs \<Longrightarrow> I s \<Longrightarrow> I (f x s)) \<Longrightarrow> I (fold f xs s)"
  by (induction xs arbitrary: s) auto

lemma clear_rule:
  assumes release: "\<And>i s. I s \<Longrightarrow> I (release_at i s)"
    and index: "\<And>s. I s \<Longrightarrow> I (s\<lparr>cur_tx := 0, dirty_tx := 0\<rparr>)"
    and reset: "\<And>i s. I s \<Longrightarrow> I (s\<lparr>TxDescArray := update_desc i (\<lambda>d. d\<lparr>status := 0\<rparr>) (TxDescArray s)\<rparr>)"
  shows "I s \<Longrightarrow> R1000TxClear s = Inr s' \<Longrightarrow> I s'"
  by (auto simp: R1000TxClear_def clear_tx_release intro!: fold_rule [of I] index release reset)

end
