(* ===== verification/NetRingProps.thy ===== *)
theory NetRingProps
  imports NetReach
begin

text \<open>
  What the device finds in the rings, in every state the driver reaches; and the packets the driver
  holds.
\<close>

section \<open>Status words\<close>

lemma sum_of_masks: "(a OR w) AND m = (a AND m) OR (w AND (m :: 'a::len word))"
  by (rule bit_word_eqI) (auto simp: bit_and_iff bit_or_iff)

lemma small_word_bits:
  fixes w :: u32
  assumes "unat w < 2 ^ k" "k \<le> n"
  shows "\<not> bit w n"
proof -
  have "take_bit k w = w"
    using assms(1) by (simp add: word_unat_eq_iff unsigned_take_bit_eq take_bit_nat_eq_self)
  then show ?thesis using assms(2) by (metis bit_take_bit_iff not_less)
qed

lemma small_word_mask:
  fixes w :: u32
  assumes "unat w < 2 ^ k"
  shows "w AND mask k = w"
proof (rule bit_word_eqI)
  fix n assume "n < LENGTH(32)"
  then show "bit (w AND mask k) n = bit w n"
    using small_word_bits [OF assms, of n] by (cases "n < k") (auto simp: bit_and_iff bit_mask_iff)
qed

lemma owned_bit: "owned d \<longleftrightarrow> bit (status d) 31"
proof -
  have "OWNbit = push_bit 31 1" by (simp add: OWNbit_def)
  then show ?thesis
    by (simp only: owned_def) (simp only: bit_iff_and_push_bit_not_eq_0)
qed

definition end_marked :: "TxDesc \<Rightarrow> bool" where
  "end_marked d \<longleftrightarrow> status d AND EORbit \<noteq> 0"

lemma end_marked_bit: "end_marked d \<longleftrightarrow> bit (status d) 30"
proof -
  have "EORbit = push_bit 30 1" by (simp add: EORbit_def)
  then show ?thesis
    by (simp only: end_marked_def) (simp only: bit_iff_and_push_bit_not_eq_0)
qed

lemma power_bit: "k < 32 \<Longrightarrow> bit (push_bit k 1 :: u32) n \<longleftrightarrow> n = k"
  by (auto simp: push_bit_eq_mult bit_exp_iff)

lemma flag_bits:
  "bit OWNbit 31" "\<not> bit OWNbit 30" "bit EORbit 30" "\<not> bit EORbit 31"
  "\<not> bit FSbit 31" "\<not> bit FSbit 30" "\<not> bit LSbit 31" "\<not> bit LSbit 30"
proof -
  have flags: "OWNbit = push_bit 31 1" "EORbit = push_bit 30 1" "FSbit = push_bit 29 1" "LSbit = push_bit 28 1"
    by (simp_all add: OWNbit_def EORbit_def FSbit_def LSbit_def)
  have p: "bit (push_bit 31 1 :: u32) n \<longleftrightarrow> n = 31" "bit (push_bit 30 1 :: u32) n \<longleftrightarrow> n = 30"
    "bit (push_bit 29 1 :: u32) n \<longleftrightarrow> n = 29" "bit (push_bit 28 1 :: u32) n \<longleftrightarrow> n = 28" for n
    by (rule power_bit, simp)+
  show "bit OWNbit 31" "\<not> bit OWNbit 30" "bit EORbit 30" "\<not> bit EORbit 31"
    "\<not> bit FSbit 31" "\<not> bit FSbit 30" "\<not> bit LSbit 31" "\<not> bit LSbit 30"
    unfolding flags p by simp_all
qed

text \<open>The two status words the driver writes: ownership, end mark, length.\<close>

lemma tx_status:
  fixes w :: u32 and count i :: nat
  assumes "unat w < 2 ^ 16"
  defines "v \<equiv> OWNbit OR end_of_ring count i OR FSbit OR LSbit OR w"
  shows "bit v 31" and "bit v 30 = (i = count - 1)" and "v AND 0xFFFF = w"
proof -
  have b: "\<not> bit w 31" "\<not> bit w 30" using small_word_bits [OF assms(1)] by simp_all
  then show "bit v 31" "bit v 30 = (i = count - 1)"
    by (auto simp: v_def end_of_ring_def bit_or_iff flag_bits)
  have "OWNbit AND 0xFFFF = 0" "end_of_ring count i AND 0xFFFF = 0" "FSbit AND 0xFFFF = 0" "LSbit AND 0xFFFF = 0"
    by (simp_all add: OWNbit_def end_of_ring_def EORbit_def FSbit_def LSbit_def)
  moreover have "w AND 0xFFFF = w" using small_word_mask [OF assms(1)] by (simp add: mask_eq_exp_minus_1)
  ultimately show "v AND 0xFFFF = w" by (simp only: v_def sum_of_masks or.left_neutral)
qed

lemma rx_status:
  fixes w :: u32 and count i :: nat
  assumes "unat w < 2 ^ 13"
  defines "v \<equiv> OWNbit OR end_of_ring count i OR w"
  shows "bit v 31" and "bit v 30 = (i = count - 1)" and "v AND 0x1FFF = w"
proof -
  have b: "\<not> bit w 31" "\<not> bit w 30" using small_word_bits [OF assms(1)] by simp_all
  then show "bit v 31" "bit v 30 = (i = count - 1)"
    by (auto simp: v_def end_of_ring_def bit_or_iff flag_bits)
  have "OWNbit AND 0x1FFF = 0" "end_of_ring count i AND 0x1FFF = 0"
    by (simp_all add: OWNbit_def end_of_ring_def EORbit_def)
  moreover have "w AND 0x1FFF = w" using small_word_mask [OF assms(1)] by (simp add: mask_eq_exp_minus_1)
  ultimately show "v AND 0x1FFF = w" by (simp only: v_def sum_of_masks or.left_neutral)
qed

section \<open>The descriptors\<close>

definition tx_ok :: "'p r1000 \<Rightarrow> nat \<Rightarrow> TxDesc \<Rightarrow> bool" where
  "tx_ok s i d \<longleftrightarrow> (owned d \<longrightarrow>
     buf_addr d = Tx_skbuff_Dma s i \<and> end_marked d = (i = NUM_TX_DESC - 1) \<and>
     unat (status d AND 0xFFFF) \<le> tx_pkt_len s)"

definition rx_ok :: "'p r1000 \<Rightarrow> nat \<Rightarrow> TxDesc \<Rightarrow> bool" where
  "rx_ok s i d \<longleftrightarrow> buf_addr d = Rx_skbuff_Dma s i \<and> (owned d \<longrightarrow>
     end_marked d = (i = NUM_RX_DESC - 1) \<and> unat (status d AND 0x1FFF) = hw_rx_pkt_len s)"

definition ring_ok :: "nat \<Rightarrow> (nat \<Rightarrow> TxDesc \<Rightarrow> bool) \<Rightarrow> TxDesc list option \<Rightarrow> bool" where
  "ring_ok count ok ring \<longleftrightarrow>
     (\<exists>ds. ring = Some ds \<and> length ds = count \<and> (\<forall>i < count. ok i (ds ! i)))"

definition rings_ok :: "'p r1000 \<Rightarrow> bool" where
  "rings_ok s \<longleftrightarrow>
     ring_ok NUM_TX_DESC (tx_ok s) (TxDescArray s) \<and> ring_ok NUM_RX_DESC (rx_ok s) (RxDescArray s) \<and>
     tx_pkt_len s = 1514 \<and> rx_pkt_len s = 1514 \<and> hw_rx_pkt_len s = 1522"

lemma ring_ok_update:
  "ring_ok count ok ring \<Longrightarrow> (\<And>d. i < count \<Longrightarrow> ok i d \<Longrightarrow> ok i (f d)) \<Longrightarrow> ring_ok count ok (update_desc i f ring)"
  by (cases "i < count") (auto simp: ring_ok_def update_desc_def nth_list_update)

lemma ring_ok_moves:
  assumes "ring_ok count ok ring" "rel_option (list_all2 desc_moves) ring ring'"
    and "\<And>i d d'. ok i d \<Longrightarrow> desc_moves d d' \<Longrightarrow> ok i d'"
  shows "ring_ok count ok ring'"
  using assms by (auto simp: ring_ok_def option_rel_Some1 list_all2_conv_all_nth) blast

text \<open>Only the fields named here matter.\<close>

lemma rings_ok_cong:
  assumes "TxDescArray s' = TxDescArray s" "RxDescArray s' = RxDescArray s" "Tx_skbuff_Dma s' = Tx_skbuff_Dma s"
    "Rx_skbuff_Dma s' = Rx_skbuff_Dma s" "tx_pkt_len s' = tx_pkt_len s" "rx_pkt_len s' = rx_pkt_len s"
    "hw_rx_pkt_len s' = hw_rx_pkt_len s"
  shows "rings_ok s' = rings_ok s"
proof -
  have "tx_ok s' = tx_ok s" "rx_ok s' = rx_ok s" using assms by (simp_all add: fun_eq_iff tx_ok_def rx_ok_def)
  then show ?thesis using assms by (simp add: rings_ok_def)
qed

lemma rings_ok_tx:
  assumes "rings_ok s" "\<And>d. i < NUM_TX_DESC \<Longrightarrow> tx_ok s i d \<Longrightarrow> tx_ok s i (f d)"
  shows "rings_ok (s\<lparr>TxDescArray := update_desc i f (TxDescArray s)\<rparr>)"
proof -
  have "tx_ok (s\<lparr>TxDescArray := r\<rparr>) = tx_ok s" "rx_ok (s\<lparr>TxDescArray := r\<rparr>) = rx_ok s" for r
    by (simp_all add: fun_eq_iff tx_ok_def rx_ok_def)
  then show ?thesis using assms by (simp add: rings_ok_def ring_ok_update)
qed

lemma rings_ok_rx:
  assumes "rings_ok s" "\<And>d. i < NUM_RX_DESC \<Longrightarrow> rx_ok s i d \<Longrightarrow> rx_ok s i (f d)"
  shows "rings_ok (s\<lparr>RxDescArray := update_desc i f (RxDescArray s)\<rparr>)"
proof -
  have "tx_ok (s\<lparr>RxDescArray := r\<rparr>) = tx_ok s" "rx_ok (s\<lparr>RxDescArray := r\<rparr>) = rx_ok s" for r
    by (simp_all add: fun_eq_iff tx_ok_def rx_ok_def)
  then show ?thesis using assms by (simp add: rings_ok_def ring_ok_update)
qed

lemma rx_returned:
  assumes "rings_ok s" "rx_ok s i d"
  shows "rx_ok s i (d\<lparr>status := OWNbit OR end_of_ring NUM_RX_DESC i OR of_nat (hw_rx_pkt_len s)\<rparr>)"
proof -
  have len: "unat (of_nat (hw_rx_pkt_len s) :: u32) = 1522" "hw_rx_pkt_len s = 1522"
    using assms(1) by (simp_all add: rings_ok_def)
  then have "unat (of_nat (hw_rx_pkt_len s) :: u32) < 2 ^ 13" by simp
  note st = rx_status [OF this, of NUM_RX_DESC i]
  show ?thesis
    using assms(2) st len by (simp add: rx_ok_def owned_bit end_marked_bit)
qed

lemma rings_ok_release: "rings_ok s \<Longrightarrow> rings_ok (release_at i s)"
  by (subst rings_ok_cong [of _ s]) (auto simp: release_at_def net_call_def split: option.split)

interpretation rings: ring_invariant rings_ok
proof (unfold_locales, goal_cases)
  case (1 s s')
  then show ?case using rings_ok_cong [of s' s] by (simp add: chip_frame_def)
next
  case (2 s s')
  then obtain p bufs tx rx where s': "s' = s\<lparr>hardware := p, Rx_dbuff := bufs, TxDescArray := tx, RxDescArray := rx\<rparr>"
    "rel_option (list_all2 desc_moves) (TxDescArray s) tx" "rel_option (list_all2 desc_moves) (RxDescArray s) rx"
    by (auto simp: device_moves_def)
  have "tx_ok s' = tx_ok s" "rx_ok s' = rx_ok s" by (simp_all add: s' fun_eq_iff tx_ok_def rx_ok_def)
  moreover have "ring_ok NUM_TX_DESC (tx_ok s) tx"
    by (rule ring_ok_moves [OF _ s'(2)]) (use 2 in \<open>auto simp: rings_ok_def tx_ok_def desc_moves_def\<close>)
  moreover have "ring_ok NUM_RX_DESC (rx_ok s) rx"
    by (rule ring_ok_moves [OF _ s'(3)]) (use 2 in \<open>auto simp: rings_ok_def rx_ok_def desc_moves_def\<close>)
  ultimately show ?case using 2(1) by (simp add: rings_ok_def s'(1))
next
  case (3 s granted s')
  then obtain j t where t: "rx_loop granted max_interrupt_work (unat (cur_rx s)) s = Inr (j, t)" "s' = t\<lparr>cur_rx := of_nat j\<rparr>"
    by (auto simp: R1000RxInterrupt_def)
  have "rings_ok s'" if inv: "rings_ok s" "deliver_rx i d s = Inr s'" for i d and s s' :: "'a r1000"
  proof -
    obtain bytes where bytes: "s' = s\<lparr>netCalls := netCalls s @ [InputPacket bytes],
            RxDescArray := update_desc i (\<lambda>d. d\<lparr>status := OWNbit OR end_of_ring NUM_RX_DESC i OR of_nat (hw_rx_pkt_len s)\<rparr>)
                             (RxDescArray s)\<rparr>"
      using deliver_rx_result [OF inv(2)] by auto
    have "rings_ok (s\<lparr>RxDescArray := update_desc i
        (\<lambda>d. d\<lparr>status := OWNbit OR end_of_ring NUM_RX_DESC i OR of_nat (hw_rx_pkt_len s)\<rparr>) (RxDescArray s)\<rparr>)"
      by (rule rings_ok_rx [OF inv(1)]) (rule rx_returned [OF inv(1)])
    then show ?thesis by (subst rings_ok_cong [rotated -1]) (simp_all add: bytes)
  qed
  from rx_loop_rule [of rings_ok, OF this 3(1) t(1)] have "rings_ok t" .
  then show ?case by (subst rings_ok_cong [of s' t]) (simp_all add: t(2))
next
  case (4 s s')
  show ?case
  proof (rule reclaim_rule [of rings_ok, OF _ _ _ 4])
    show "rings_ok (s\<lparr>dirty_tx := l\<rparr>)" if "rings_ok s" for l and s :: "'a r1000"
      using that by (subst rings_ok_cong [of _ s]) simp_all
    show "rings_ok t" if "rings_ok s" "chip_frame s t" for s t :: "'a r1000"
      using that rings_ok_cong [of t s] by (simp add: chip_frame_def)
  qed (rule rings_ok_release)
next
  case (5 s s')
  show ?case
  proof (rule clear_rule [of rings_ok, OF _ _ _ 5])
    show "rings_ok (s\<lparr>cur_tx := 0, dirty_tx := 0\<rparr>)" if "rings_ok s" for s :: "'a r1000"
      using that by (subst rings_ok_cong [of _ s]) simp_all
    show "rings_ok (s\<lparr>TxDescArray := update_desc i (\<lambda>d. d\<lparr>status := 0\<rparr>) (TxDescArray s)\<rparr>)"
      if "rings_ok s" for i and s :: "'a r1000"
      by (rule rings_ok_tx [OF that]) (simp add: tx_ok_def owned_def)
  qed (rule rings_ok_release)
qed

section \<open>Sending keeps the rings\<close>

lemma copy_chain_length:
  "copy_chain n b bs sent buf = Inr (len, buf') \<Longrightarrow> sent + mbuf_len b \<le> n \<Longrightarrow> len \<le> n"
  by (induction n b bs sent buf rule: copy_chain.induct) (auto simp: Let_def split: if_split_asm)

lemma rings_ok_output:
  assumes "rings_ok s" "mbuf_len (firstBuf m) \<le> pkthdr_len m" "outputPacket D m s = Inr (r, s')"
  shows "rings_ok s'"
proof -
  define e where "e = unat (cur_tx s) mod NUM_TX_DESC"
  obtain d where d: "desc_at (TxDescArray s) e = Inr d"
    using assms(3) by (auto simp: outputPacket_def e_def Let_def)
  consider "owned d" | "\<not> owned d" "unat (pkthdr_len m) > tx_pkt_len s"
    | "\<not> owned d" "unat (pkthdr_len m) \<le> tx_pkt_len s" by linarith
  then show ?thesis
  proof cases
    case 1
    then show ?thesis using assms(1,3) d by (simp add: outputPacket_def e_def [symmetric] Let_def)
  next
    case 2
    then have "s' = net_call (FreePacket (packetId m)) s"
      using assms(3) d by (simp add: outputPacket_def e_def [symmetric] Let_def)
    then show ?thesis using assms(1) by (subst rings_ok_cong [of s' s]) (simp_all add: net_call_def)
  next
    case 3
    then obtain len buf where c: "copy_chain (pkthdr_len m) (firstBuf m) (moreBufs m) 0 (Tx_dbuff s e) = Inr (len, buf)"
      using assms(3) d by (auto simp: outputPacket_def e_def [symmetric] Let_def)
    have len: "unat len \<le> tx_pkt_len s" "unat len < 2 ^ 16"
      using copy_chain_length [OF c] assms(1,2) 3(2) by (auto simp: word_le_nat_alt rings_ok_def)
    define t where "t = s\<lparr>TxDescArray := update_desc e (\<lambda>d. d\<lparr>buf_addr := Tx_skbuff_Dma s e,
      status := OWNbit OR end_of_ring NUM_TX_DESC e OR FSbit OR LSbit OR len\<rparr>) (TxDescArray s)\<rparr>"
    have "tx_ok s e (d\<lparr>buf_addr := Tx_skbuff_Dma s e,
      status := OWNbit OR end_of_ring NUM_TX_DESC e OR FSbit OR LSbit OR len\<rparr>)" for d
      using tx_status [OF len(2), of NUM_TX_DESC e] len(1) by (simp add: tx_ok_def owned_bit end_marked_bit)
    then have "rings_ok t" unfolding t_def by (intro rings_ok_tx [OF assms(1)])
    moreover have "update_desc e f (update_desc e g ring) = update_desc e (f \<circ> g) ring" if "\<And>ds. ring = Some ds \<Longrightarrow> e < length ds" for f g ring
      using that by (cases ring) (simp_all add: update_desc_def)
    moreover have "e < length ds" if "TxDescArray s = Some ds" for ds
      using that assms(1) by (simp add: rings_ok_def ring_ok_def e_def NUM_TX_DESC_def)
    ultimately show ?thesis
      using assms(3) d c 3
      by (subst rings_ok_cong [of s' t])
        (auto simp: outputPacket_def e_def [symmetric] Let_def WriteMMIO8_def t_def comp_def)
  qed
qed

end
