(* ===== verification/NetLife.thy ===== *)
theory NetLife
  imports NetRingProps
begin

text \<open>
  The driver's life: after a start the rings are right, activation is consistent and no packet is
  held; every call keeps it so.
\<close>

section \<open>Allocation\<close>

definition alloc_frame :: "'p r1000 \<Rightarrow> 'p r1000 \<Rightarrow> bool" where
  "alloc_frame s s' \<longleftrightarrow>
     tx_pkt_len s' = tx_pkt_len s \<and> rx_pkt_len s' = rx_pkt_len s \<and> hw_rx_pkt_len s' = hw_rx_pkt_len s \<and>
     Tx_skbuff s' = Tx_skbuff s \<and> netCalls s' = netCalls s \<and> activationLevel s' = activationLevel s \<and>
     enabled s' = enabled s \<and> enabledForBSD s' = enabledForBSD s \<and> enabledForKDP s' = enabledForKDP s \<and>
     pciFound s' = pciFound s \<and> pciOpened s' = pciOpened s \<and> timerSource s' = timerSource s \<and>
     transmitQueue s' = transmitQueue s \<and> netif s' = netif s"

interpretation alloc: state_frame alloc_frame
  by unfold_locales (simp_all add: alloc_frame_def)

lemma length_update_desc [simp]: "map_option length (update_desc i f ring) = map_option length ring"
  by (cases ring) (simp_all add: update_desc_def)

lemma alloc_rx_result:
  "alloc_rx M is s = Inr (ok, s') \<Longrightarrow>
   alloc_frame s s' \<and> TxDescArray s' = TxDescArray s \<and> Tx_skbuff_Dma s' = Tx_skbuff_Dma s \<and>
   map_option length (RxDescArray s') = map_option length (RxDescArray s)"
proof (induction "is" arbitrary: s)
  case (Cons i "is")
  show ?case
  proof (cases "rxBuffer M i")
    case (Memory a)
    define t where "t = s\<lparr>Rx_skbuff_Md := (Rx_skbuff_Md s)(i := True), Rx_skbuff_Dma := (Rx_skbuff_Dma s)(i := a),
      RxDescArray := update_desc i (\<lambda>d. d\<lparr>status := 0, vlan_tag := 0\<rparr>) (RxDescArray s)\<rparr>"
    have "alloc_rx M is t = Inr (ok, s')" using Cons.prems Memory by (auto simp: t_def)
    from Cons.IH [OF this] show ?thesis by (simp add: t_def alloc_frame_def)
  qed (use Cons.prems in \<open>auto simp: alloc_frame_def\<close>)
qed (simp add: alloc.keeps_refl)

definition cleared_at :: "nat set \<Rightarrow> TxDesc list option \<Rightarrow> TxDesc list option \<Rightarrow> bool" where
  "cleared_at is ring ring' \<longleftrightarrow>
     (\<forall>ds ds' j. ring = Some ds \<longrightarrow> ring' = Some ds' \<longrightarrow> j < length ds \<longrightarrow>
        (j \<in> is \<or> status (ds ! j) = 0) \<longrightarrow> status (ds' ! j) = 0)"

lemma alloc_tx_result:
  "alloc_tx M is s = Inr (ok, s') \<Longrightarrow>
   alloc_frame s s' \<and> RxDescArray s' = RxDescArray s \<and> Rx_skbuff_Dma s' = Rx_skbuff_Dma s \<and>
   map_option length (TxDescArray s') = map_option length (TxDescArray s) \<and>
   (ok \<longrightarrow> cleared_at (set is) (TxDescArray s) (TxDescArray s'))"
proof (induction "is" arbitrary: s)
  case (Cons i "is")
  show ?case
  proof (cases "txBuffer M i")
    case (Memory a)
    define f :: "TxDesc \<Rightarrow> TxDesc" where "f = (\<lambda>d. d\<lparr>status := 0, vlan_tag := 0, buf_addr := a, buf_Haddr := 0\<rparr>)"
    define t where "t = s\<lparr>Tx_skbuff_Md := (Tx_skbuff_Md s)(i := True), Tx_skbuff_Dma := (Tx_skbuff_Dma s)(i := a),
      TxDescArray := update_desc i f (TxDescArray s)\<rparr>"
    have "alloc_tx M is t = Inr (ok, s')" using Cons.prems Memory by (auto simp: t_def f_def)
    note IH = Cons.IH [OF this]
    have "cleared_at (set (i # is)) (TxDescArray s) r" if "cleared_at (set is) (TxDescArray t) r" for r
      unfolding cleared_at_def
    proof (intro allI impI)
      fix ds ds' j
      assume j: "TxDescArray s = Some ds" "r = Some ds'" "j < length ds" "j \<in> set (i # is) \<or> status (ds ! j) = 0"
      have "j \<in> set is \<or> status (ds[i := f (ds ! i)] ! j) = 0"
        using j(3,4) by (cases "j = i") (auto simp: f_def)
      moreover have "TxDescArray t = Some (ds[i := f (ds ! i)])" by (simp add: t_def j(1) update_desc_def)
      moreover have "j < length (ds[i := f (ds ! i)])" using j(3) by simp
      ultimately show "status (ds' ! j) = 0" using that j(2) unfolding cleared_at_def by blast
    qed
    then show ?thesis using IH by (simp add: t_def alloc_frame_def)
  qed (use Cons.prems in \<open>auto simp: alloc_frame_def\<close>)
qed (simp add: alloc.keeps_refl cleared_at_def)

lemma arm_rx_result:
  assumes "RxDescArray s = Some ds" "set is \<subseteq> {..< length ds}"
  shows "\<exists>ds'. RxDescArray (fold arm_rx is s) = Some ds' \<and> length ds' = length ds \<and>
     (\<forall>j. j \<in> set is \<longrightarrow> buf_addr (ds' ! j) = Rx_skbuff_Dma s j \<and>
        status (ds' ! j) = OWNbit OR end_of_ring NUM_RX_DESC j OR of_nat (hw_rx_pkt_len s)) \<and>
     (\<forall>j. j \<notin> set is \<longrightarrow> ds' ! j = ds ! j) \<and>
     alloc_frame s (fold arm_rx is s) \<and> TxDescArray (fold arm_rx is s) = TxDescArray s \<and>
     Rx_skbuff_Dma (fold arm_rx is s) = Rx_skbuff_Dma s \<and> Tx_skbuff_Dma (fold arm_rx is s) = Tx_skbuff_Dma s"
  using assms
proof (induction "is" arbitrary: s ds)
  case (Cons i "is")
  define d where "d = (ds ! i)\<lparr>status := OWNbit OR end_of_ring NUM_RX_DESC i OR of_nat (hw_rx_pkt_len s),
      buf_addr := Rx_skbuff_Dma s i, buf_Haddr := 0\<rparr>"
  have arm: "arm_rx i s = s\<lparr>RxDescArray := Some (ds[i := d])\<rparr>"
    using Cons.prems(1) by (simp add: arm_rx_def update_desc_def d_def)
  obtain ds' where ds': "RxDescArray (fold arm_rx is (arm_rx i s)) = Some ds'" "length ds' = length ds"
    "\<And>j. j \<in> set is \<Longrightarrow> buf_addr (ds' ! j) = Rx_skbuff_Dma s j \<and>
        status (ds' ! j) = OWNbit OR end_of_ring NUM_RX_DESC j OR of_nat (hw_rx_pkt_len s)"
    "\<And>j. j \<notin> set is \<Longrightarrow> ds' ! j = ds[i := d] ! j"
    "alloc_frame s (fold arm_rx is (arm_rx i s))" "TxDescArray (fold arm_rx is (arm_rx i s)) = TxDescArray s"
    "Rx_skbuff_Dma (fold arm_rx is (arm_rx i s)) = Rx_skbuff_Dma s"
    "Tx_skbuff_Dma (fold arm_rx is (arm_rx i s)) = Tx_skbuff_Dma s"
    using Cons.IH [of "arm_rx i s" "ds[i := d]"] Cons.prems(2) by (auto simp: arm alloc_frame_def)
  have "i < length ds" using Cons.prems(2) by simp
  then have "buf_addr (ds' ! i) = Rx_skbuff_Dma s i \<and>
        status (ds' ! i) = OWNbit OR end_of_ring NUM_RX_DESC i OR of_nat (hw_rx_pkt_len s)"
    using ds'(3) [of i] ds'(4) [of i] by (cases "i \<in> set is") (simp_all add: d_def)
  then show ?case using ds' by auto
qed (simp add: alloc.keeps_refl)

lemma allocated_parts:
  assumes "AllocateDescriptorsMemory M s = Inr (True, s')"
  obtains s1 s2 where
    "alloc_rx M [0..<NUM_RX_DESC] (s\<lparr>tx_descMd := txSpace M \<noteq> NoMemory, txdesc_phy_dma_addr := address_of (txSpace M),
       rx_descMd := rxSpace M \<noteq> NoMemory, rxdesc_phy_dma_addr := address_of (rxSpace M),
       TxDescArray := space_of (txSpace M) (initialTx M), RxDescArray := space_of (rxSpace M) (initialRx M)\<rparr>) = Inr (True, s1)"
    "alloc_tx M [0..<NUM_TX_DESC] s1 = Inr (True, s2)" "s' = fold arm_rx [0..<NUM_RX_DESC] s2"
proof -
  define t where "t = s\<lparr>tx_descMd := txSpace M \<noteq> NoMemory, txdesc_phy_dma_addr := address_of (txSpace M),
       rx_descMd := rxSpace M \<noteq> NoMemory, rxdesc_phy_dma_addr := address_of (rxSpace M),
       TxDescArray := space_of (txSpace M) (initialTx M), RxDescArray := space_of (rxSpace M) (initialRx M)\<rparr>"
  have tx: "\<not> (txSpace M = NoMemory \<or> txSpace M = NotPrepared)"
  proof
    assume fail: "txSpace M = NoMemory \<or> txSpace M = NotPrepared"
    from assms show False unfolding AllocateDescriptorsMemory_def Let_def if_P [OF fail] by simp
  qed
  have rx: "\<not> (rxSpace M = NoMemory \<or> rxSpace M = NotPrepared)"
  proof
    assume fail: "rxSpace M = NoMemory \<or> rxSpace M = NotPrepared"
    from assms show False
      unfolding AllocateDescriptorsMemory_def Let_def if_not_P [OF tx] if_P [OF fail] by simp
  qed
  have "and_then (alloc_rx M [0..<NUM_RX_DESC] t) (\<lambda>(ok, s).
      if \<not> ok then Inr (False, s)
      else and_then (alloc_tx M [0..<NUM_TX_DESC] s) (\<lambda>(ok, s).
        if \<not> ok then Inr (False, s) else Inr (True, fold arm_rx [0..<NUM_RX_DESC] s))) = Inr (True, s')"
    using assms unfolding AllocateDescriptorsMemory_def Let_def if_not_P [OF tx] if_not_P [OF rx] t_def
    by simp
  then obtain s1 s2 where "alloc_rx M [0..<NUM_RX_DESC] t = Inr (True, s1)"
    "alloc_tx M [0..<NUM_TX_DESC] s1 = Inr (True, s2)" "s' = fold arm_rx [0..<NUM_RX_DESC] s2"
    unfolding and_then_Inr_iff by (auto split: if_split_asm simp del: upt.simps)
  then show thesis using that by (simp add: t_def)
qed

lemma allocated_rings:
  assumes "AllocateDescriptorsMemory M s = Inr (True, s')" "length (initialTx M) = NUM_TX_DESC"
    "length (initialRx M) = NUM_RX_DESC" "tx_pkt_len s = 1514" "rx_pkt_len s = 1514" "hw_rx_pkt_len s = 1522"
  shows "rings_ok s'" and "alloc_frame s s'"
proof -
  define s0 where "s0 = s\<lparr>tx_descMd := txSpace M \<noteq> NoMemory, txdesc_phy_dma_addr := address_of (txSpace M),
     rx_descMd := rxSpace M \<noteq> NoMemory, rxdesc_phy_dma_addr := address_of (rxSpace M),
     TxDescArray := space_of (txSpace M) (initialTx M), RxDescArray := space_of (rxSpace M) (initialRx M)\<rparr>"
  from assms(1) obtain s1 s2 where s12: "alloc_rx M [0..<NUM_RX_DESC] s0 = Inr (True, s1)"
    "alloc_tx M [0..<NUM_TX_DESC] s1 = Inr (True, s2)" "s' = fold arm_rx [0..<NUM_RX_DESC] s2"
    unfolding s0_def by (rule allocated_parts)
  note r1 = alloc_rx_result [OF s12(1)] and r2 = alloc_tx_result [OF s12(2)]
  have "RxDescArray s0 \<noteq> None" "TxDescArray s1 \<noteq> None"
  proof -
    obtain x xs y ys where "[0..<NUM_RX_DESC] = x # xs" "[0..<NUM_TX_DESC] = y # ys"
      by (metis NUM_RX_DESC_def NUM_TX_DESC_def neq_Nil_conv upt_eq_Nil_conv not_numeral_le_zero numeral_neq_zero)
    then show "RxDescArray s0 \<noteq> None" "TxDescArray s1 \<noteq> None"
      using s12(1,2) by (auto simp: Let_def split: buffer_memory.split_asm)
  qed
  then obtain rx tx where rx: "RxDescArray s0 = Some rx" "length rx = NUM_RX_DESC" and
    tx: "TxDescArray s1 = Some tx" "length tx = NUM_TX_DESC"
    using assms(2,3) r1 by (auto simp: s0_def space_of_def split: buffer_memory.split_asm)
  obtain tx2 where tx2: "TxDescArray s2 = Some tx2" "length tx2 = NUM_TX_DESC"
    using r2 tx by (cases "TxDescArray s2") auto
  have zero: "status (tx2 ! j) = 0" if "j < NUM_TX_DESC" for j
    using r2 tx tx2 that by (auto simp: cleared_at_def)
  obtain rx2 where rx2: "RxDescArray s2 = Some rx2" "length rx2 = NUM_RX_DESC"
    using r1 r2 rx by (cases "RxDescArray s2") auto
  have sub: "set [0..<NUM_RX_DESC] \<subseteq> {..< length rx2}" by (auto simp: rx2(2))
  obtain rx3 where rx3: "RxDescArray s' = Some rx3" "length rx3 = NUM_RX_DESC"
    "\<And>j. j < NUM_RX_DESC \<Longrightarrow> buf_addr (rx3 ! j) = Rx_skbuff_Dma s2 j \<and>
        status (rx3 ! j) = OWNbit OR end_of_ring NUM_RX_DESC j OR of_nat (hw_rx_pkt_len s2)"
    and frame: "alloc_frame s2 s'" "TxDescArray s' = TxDescArray s2" "Rx_skbuff_Dma s' = Rx_skbuff_Dma s2"
    using arm_rx_result [OF rx2(1) sub] rx2(2) unfolding s12(3) by (auto simp del: upt.simps)
  have "alloc_frame s s0" by (simp add: s0_def alloc_frame_def)
  then show fr: "alloc_frame s s'"
    using r1 r2 frame(1) by (blast intro: alloc.keeps_trans)
  have len: "hw_rx_pkt_len s2 = 1522" "hw_rx_pkt_len s' = 1522" "tx_pkt_len s' = 1514" "rx_pkt_len s' = 1514"
    using fr frame(1) assms(4-6) by (auto simp: alloc_frame_def)
  have "unat (of_nat (hw_rx_pkt_len s2) :: u32) = 1522" by (simp add: len)
  then have "unat (of_nat (hw_rx_pkt_len s2) :: u32) < 2 ^ 13" by simp
  note st = rx_status [OF this, of NUM_RX_DESC]
  have "tx_ok s' i (tx2 ! i)" if "i < NUM_TX_DESC" for i
    using zero [OF that] by (simp add: tx_ok_def owned_def)
  moreover have "rx_ok s' i (rx3 ! i)" if "i < NUM_RX_DESC" for i
    using rx3(3) [OF that] st len by (simp add: rx_ok_def frame(3) owned_bit end_marked_bit)
  ultimately show "rings_ok s'"
    using tx2 rx3(1,2) len by (simp add: rings_ok_def ring_ok_def frame(2))
qed

section \<open>Start\<close>

lemma chip_init_board:
  assumes "R1000InitBoard D mapped s = (ok, s')"
  shows "chip_frame s s'"
proof -
  define s1 where "s1 = soft_reset D
    (let s = on_pci (pciEnable D True True True) s; s = s\<lparr>pioBase := pciRead16 D 0x10 (hardware s) AND 0xFFFC\<rparr>
     in if mapped then s else (on_pci (pciEnable D True True False) s)\<lparr>forcedPio := True\<rparr>)"
  obtain w s2 where s2: "ReadMMIO32 D TxConfig s1 = (w, s2)" by (cases "ReadMMIO32 D TxConfig s1")
  obtain r s3 where s3: "ReadGMII32 D 3 (s2\<lparr>mcfg := config_method w\<rparr>) = (r, s3)"
    by (cases "ReadGMII32 D 3 (s2\<lparr>mcfg := config_method w\<rparr>)")
  have s': "s' = s3\<lparr>pcfg := phy_method r, chipset := find_chipset (mcfg s3) (chipset s3)\<rparr>"
    using assms by (simp add: R1000InitBoard_def Let_def s1_def [unfolded Let_def, symmetric] s2 s3)
  have "chip_frame s s1"
    unfolding s1_def soft_reset_def Let_def
    by (intro chip_phy chip_write) (simp add: chip_frame_def on_pci_def)
  then have "chip_frame s s2" by (rule chip_read_pair(3) [OF s2])
  then have "chip_frame s (s2\<lparr>mcfg := config_method w\<rparr>)" by (simp add: chip_frame_def)
  then have "chip_frame s s3" by (rule chip_read_phy [OF s3])
  then show ?thesis by (simp add: s' chip_frame_def)
qed

lemma chip_configure [chip_frames]: "chip_frame s t \<Longrightarrow> chip_frame s (R1000HwPhyConfig D t)"
  by (simp add: R1000HwPhyConfig_def Let_def chip_frames)

definition with_lengths :: "'p r1000 \<Rightarrow> 'p r1000" where
  "with_lengths s = s\<lparr>tx_pkt_len := 1514, rx_pkt_len := 1514, hw_rx_pkt_len := 1522\<rparr>"

lemma probed:
  assumes "R1000ProbeAndStartBoard D mapped s = (True, s')"
  shows "chip_frame (with_lengths s) s'"
proof -
  obtain ok b where b: "R1000InitBoard D mapped s = (ok, b)" by (cases "R1000InitBoard D mapped s")
  have ok: "ok" by (rule ccontr) (use assms in \<open>simp add: R1000ProbeAndStartBoard_def b\<close>)
  define s1 where "s1 = WriteMMIO8 D 0x82 0x01 (R1000HwPhyConfig D
    (b\<lparr>curr_mtu_size := DEFAULT_MTU, tx_pkt_len := DEFAULT_MTU + ETH_HDR_LEN, rx_pkt_len := DEFAULT_MTU + ETH_HDR_LEN,
       hw_rx_pkt_len := DEFAULT_MTU + ETH_HDR_LEN + 8\<rparr>))"
  define s2 where "s2 = (if mcfg s1 < 3 then on_pci (pciWrite8 D 0x0D 0x40) s1 else s1)"
  define s3 where "s3 = (if mcfg s2 = 2 then WriteGMII32 D 0x0b 0x0000 (WriteMMIO8 D 0x82 0x01 s2) else s2)"
  obtain phy s4 where s4: "ReadMMIO8 D PHYstatus s3 = (phy, s4)" by (cases "ReadMMIO8 D PHYstatus s3")
  obtain v s5 where s5: "ReadGMII32 D PHY_AUTO_NEGO_REG s4 = (v, s5)" by (cases "ReadGMII32 D PHY_AUTO_NEGO_REG s4")
  have board: "R1000ProbeAndStartBoard D mapped s =
      (if phy AND TBI_Enable = 0 then (True, snd (R1000SetMedium D SPEED_100 DUPLEX_FULL AUTONEG_ENABLE s5)) else (True, s4))"
    using ok by (simp add: R1000ProbeAndStartBoard_def b Let_def s1_def [symmetric] s2_def [symmetric]
        s3_def [symmetric] s4 s5 del: if_split cong: if_cong)
  have s': "s' = (if phy AND TBI_Enable = 0 then snd (R1000SetMedium D SPEED_100 DUPLEX_FULL AUTONEG_ENABLE s5) else s4)"
    using assms board by (simp split: if_split_asm)
  have "chip_frame (with_lengths s)
    (b\<lparr>curr_mtu_size := DEFAULT_MTU, tx_pkt_len := DEFAULT_MTU + ETH_HDR_LEN, rx_pkt_len := DEFAULT_MTU + ETH_HDR_LEN,
       hw_rx_pkt_len := DEFAULT_MTU + ETH_HDR_LEN + 8\<rparr>)"
    using chip_init_board [OF b] by (simp add: chip_frame_def with_lengths_def DEFAULT_MTU_def ETH_HDR_LEN_def)
  then have "chip_frame (with_lengths s) s1" unfolding s1_def by (intro chip_frames)
  then have "chip_frame (with_lengths s) s2" by (simp add: s2_def chip_frames)
  then have "chip_frame (with_lengths s) s3" by (simp add: s3_def chip_frames)
  then have "chip_frame (with_lengths s) s4" by (rule chip_read_pair(1) [OF s4])
  moreover from this have "chip_frame (with_lengths s) s5" by (rule chip_read_phy [OF s5])
  ultimately show ?thesis by (simp add: s' chip_frames)
qed

lemma chip_media: "chip_frame s (add_media E s)"
  unfolding add_media_def
  by (rule chip.keeps_fold) (simp add: OSAddNetworkMedium_def chip_frame_def)

definition at_rest :: "'p r1000 \<Rightarrow> bool" where
  "at_rest s \<longleftrightarrow> activationLevel s = 0 \<and> \<not> enabled s \<and> \<not> enabledForBSD s \<and> \<not> enabledForKDP s \<and>
     pciFound s \<and> \<not> pciOpened s \<and> timerSource s \<and> transmitQueue s"

lemma board_started:
  assumes "start_board D E (s\<lparr>pciFound := isPCIDevice E\<rparr>) = Inr (True, s')" "length (initialTx (ringMemory E)) = NUM_TX_DESC"
    "length (initialRx (ringMemory E)) = NUM_RX_DESC"
  shows "rings_ok s'" and "Tx_skbuff s' = Tx_skbuff s" and "freed s' = freed s" and "isPCIDevice E"
    and "activationLevel s' = activationLevel s" and "enabled s' = enabled s" and "enabledForBSD s' = enabledForBSD s"
    and "enabledForKDP s' = enabledForKDP s" and "pciFound s'" and "timerSource s'" and "transmitQueue s'"
proof -
  define s1 where "s1 = add_media E (net_call OpenDevice (s\<lparr>pciFound := True, pciOpened := True, chipset := 5\<rparr>))"
  have go: "isPCIDevice E" "netSuperStarts E" "pciDeviceOpens E" "mediaPublished E"
    using assms(1) by (auto simp: start_board_def Let_def split: if_split_asm)
  obtain ok s2 where s2: "R1000ProbeAndStartBoard D (registersMapped E) s1 = (ok, s2)"
    by (cases "R1000ProbeAndStartBoard D (registersMapped E) s1")
  have rest: "(if \<not> ok then Inr (False, s2) else and_then (AllocateDescriptorsMemory (ringMemory E) s2) (\<lambda>(ok, s).
                     if \<not> ok then Inr (False, s) else Inr (R1000InitEventSources E s))) = Inr (True, s')"
    using assms(1) go s2 by (simp add: start_board_def Let_def s1_def)
  then obtain s3 where s3: "ok" "AllocateDescriptorsMemory (ringMemory E) s2 = Inr (True, s3)"
    "R1000InitEventSources E s3 = (True, s')"
    by (auto split: if_split_asm)
  have s': "s' = s3\<lparr>transmitQueue := True, timerSource := True\<rparr>"
    using s3(3) by (auto simp: R1000InitEventSources_def Let_def split: if_split_asm)
  have f2: "chip_frame (with_lengths s1) s2" using probed [of D "registersMapped E" s1 s2] s2 s3(1) by simp
  then have "tx_pkt_len s2 = 1514" "rx_pkt_len s2 = 1514" "hw_rx_pkt_len s2 = 1522"
    by (simp_all add: chip_frame_def with_lengths_def)
  note al = allocated_rings [OF s3(2) assms(2,3) this]
  show "rings_ok s'" using al(1) by (subst rings_ok_cong [of s' s3]) (simp_all add: s')
  have "chip_frame (net_call OpenDevice (s\<lparr>pciFound := True, pciOpened := True, chipset := 5\<rparr>)) s1"
    unfolding s1_def by (rule chip_media)
  then show "Tx_skbuff s' = Tx_skbuff s" "freed s' = freed s" "activationLevel s' = activationLevel s"
    "enabled s' = enabled s" "enabledForBSD s' = enabledForBSD s" "enabledForKDP s' = enabledForKDP s" "pciFound s'"
    using f2 al(2) by (simp_all add: s' chip_frame_def alloc_frame_def with_lengths_def net_call_def)
  show "isPCIDevice E" "timerSource s'" "transmitQueue s'" using go by (simp_all add: s')
qed

lemma started_state:
  assumes "r1000_start D E (snd (r1000_init True (new_r1000 p))) = Inr (True, s')"
    "length (initialTx (ringMemory E)) = NUM_TX_DESC" "length (initialRx (ringMemory E)) = NUM_RX_DESC"
  shows "rings_ok s'" and "Tx_skbuff s' = (\<lambda>_. None)" and "freed s' = []" and "at_rest s'"
proof -
  define s where "s = snd (r1000_init True (new_r1000 p))"
  have zero: "Tx_skbuff s = (\<lambda>_. None)" "freed s = []" "activationLevel s = 0" "\<not> enabled s" "\<not> enabledForBSD s"
    "\<not> enabledForKDP s" by (simp_all add: s_def r1000_init_def new_r1000_def released_def)
  obtain b where b: "start_board D E (s\<lparr>pciFound := isPCIDevice E\<rparr>) = Inr (True, b)"
    and s': "s' = (let s = (if pciFound b then net_call CloseDevice (b\<lparr>pciOpened := False\<rparr>) else b);
               s = (if interfaceAttached E
                    then net_call RegisterInterface (net_call AttachInterface (s\<lparr>netif := True\<rparr>)) else s)
           in s\<lparr>isInitialized := True\<rparr>)"
    using assms(1) by (auto simp: r1000_start_def s_def [symmetric] Let_def)
  note st = board_started [OF b assms(2,3)]
  show "rings_ok s'" using st(1) by (subst rings_ok_cong [of s' b]) (simp_all add: s' Let_def net_call_def)
  show "Tx_skbuff s' = (\<lambda>_. None)" "freed s' = []" "at_rest s'"
    using st zero by (simp_all add: s' Let_def net_call_def at_rest_def)
qed

section \<open>Activation\<close>

text \<open>
  The level is none or that of the network, never the debugger's in between, and the two flags say
  which; the PCI device is open only at the network's level.
\<close>

definition life_ok :: "'p r1000 \<Rightarrow> bool" where
  "life_ok s \<longleftrightarrow> (activationLevel s = 0 \<or> activationLevel s = 2) \<and> (enabled s \<longleftrightarrow> activationLevel s = 2) \<and>
     (enabledForBSD s \<longleftrightarrow> activationLevel s = 2) \<and> \<not> enabledForKDP s \<and>
     (pciOpened s \<longrightarrow> activationLevel s = 2) \<and> pciFound s \<and> timerSource s \<and> transmitQueue s"

lemma increase_result:
  assumes "pciFound s" "timerSource s" "transmitQueue s"
  shows "\<exists>s'. increaseActivationLevel D opens selected 1 s = Inr (True, s') \<and> chip_frame (s\<lparr>pciOpened := opens\<rparr>) s'"
    and "\<exists>s'. increaseActivationLevel D opens selected 2 s = Inr (True, s') \<and> chip_frame s s'"
proof -
  define t where "t = net_call OpenDevice (s\<lparr>pciOpened := opens\<rparr>)"
  have "chip_frame (s\<lparr>pciOpened := opens\<rparr>) t" by (simp add: t_def chip_frames chip.keeps_refl)
  then have c: "chip_frame (s\<lparr>pciOpened := opens\<rparr>) (selectMedium D m t)" for m by (rule chip_select)
  then have "timerSource (selectMedium D m t)" for m using assms by (simp add: chip_frame_def)
  moreover have "chip_frame (s\<lparr>pciOpened := opens\<rparr>) (net_call (SetTimer TX_TIMEOUT) (selectMedium D m t))" for m
    by (rule chip_fields(5) [OF _ c]) simp
  ultimately show "\<exists>s'. increaseActivationLevel D opens selected 1 s = Inr (True, s') \<and> chip_frame (s\<lparr>pciOpened := opens\<rparr>) s'"
    using assms by (simp add: increaseActivationLevel_def kActivationLevelKDP_def Let_def t_def)
  have h: "chip_frame s (R1000HwStart D s)" by (simp add: chip_frames chip.keeps_refl)
  then have "transmitQueue (R1000HwStart D s)" using assms by (simp add: chip_frame_def)
  moreover have "chip_frame s ((net_call QueueStart (net_call (QueueCapacity n) (R1000HwStart D s)))\<lparr>queueRunning := True\<rparr>)" for n
    using h by (simp add: chip_frame_def net_call_def)
  ultimately show "\<exists>s'. increaseActivationLevel D opens selected 2 s = Inr (True, s') \<and> chip_frame s s'"
    by (simp add: increaseActivationLevel_def kActivationLevelKDP_def kActivationLevelBSD_def R1000OpenAdapter_def
        start_queue_def) (simp add: net_call_def)
qed

lemma decrease_result:
  assumes "pciFound s" "timerSource s" "transmitQueue s"
  shows "\<exists>s'. decreaseActivationLevel D 1 s = Inr (True, s') \<and> chip_frame (s\<lparr>pciOpened := False\<rparr>) s'"
    and "\<exists>s'. decreaseActivationLevel D 2 s = Inr (True, s') \<and> chip_frame s s'"
proof -
  show "\<exists>s'. decreaseActivationLevel D 1 s = Inr (True, s') \<and> chip_frame (s\<lparr>pciOpened := False\<rparr>) s'"
    using assms by (simp add: decreaseActivationLevel_def kActivationLevelKDP_def chip_frame_def net_call_def)
  have "chip_frame s (R1000CloseAdapter D (net_call QueueFlush (net_call (QueueCapacity 0)
      ((net_call QueueStop s)\<lparr>queueRunning := False\<rparr>))))"
    by (intro chip_frames) (simp_all add: chip_frame_def net_call_def)
  then show "\<exists>s'. decreaseActivationLevel D 2 s = Inr (True, s') \<and> chip_frame s s'"
    using assms by (simp add: decreaseActivationLevel_def kActivationLevelKDP_def kActivationLevelBSD_def)
qed

lemma chip_frame_update:
  assumes "chip_frame s t"
  shows "chip_frame (s\<lparr>activationLevel := l\<rparr>) (t\<lparr>activationLevel := l\<rparr>)"
    and "chip_frame (s\<lparr>enabled := b\<rparr>) (t\<lparr>enabled := b\<rparr>)"
    and "chip_frame (s\<lparr>pciOpened := b\<rparr>) (t\<lparr>pciOpened := b\<rparr>)"
    and "chip_frame (s\<lparr>enabledForBSD := b\<rparr>) (t\<lparr>enabledForBSD := b\<rparr>)"
  using assms by (simp_all add: chip_frame_def)

lemma enable_result:
  assumes "life_ok s"
  shows "\<exists>s'. r1000_enable D opens selected s = Inr (True, s') \<and>
    chip_frame (if enabledForBSD s then s
      else s\<lparr>pciOpened := opens, activationLevel := 2, enabledForBSD := True, enabled := True\<rparr>) s'"
proof (cases "enabledForBSD s")
  case True
  then show ?thesis by (simp add: r1000_enable_def chip.keeps_refl)
next
  case False
  then have level: "activationLevel s = 0" using assms by (auto simp: life_ok_def)
  have ok: "pciFound s" "timerSource s" "transmitQueue s" using assms by (auto simp: life_ok_def)
  obtain s1 where s1: "increaseActivationLevel D opens selected 1 s = Inr (True, s1)" "chip_frame (s\<lparr>pciOpened := opens\<rparr>) s1"
    using increase_result(1) [OF ok] by blast
  define t1 where "t1 = s1\<lparr>activationLevel := 1\<rparr>"
  have "pciFound t1" "timerSource t1" "transmitQueue t1" using ok s1(2) by (simp_all add: t1_def chip_frame_def)
  from increase_result(2) [OF this] obtain s2
    where s2: "increaseActivationLevel D opens selected 2 t1 = Inr (True, s2)" "chip_frame t1 s2" by blast
  have l1: "activationLevel s1 = 0" "activationLevel s2 = 1"
    using level s1(2) s2(2) by (simp_all add: chip_frame_def t1_def)
  have "raise_levels D opens selected 2 False s = Inr (True, s2\<lparr>activationLevel := 2\<rparr>)"
    by (simp add: numeral_2_eq_2 level s1(1) l1 s2(1) [unfolded t1_def] flip: one_plus_numeral) 
  then have "r1000_enable D opens selected s =
      Inr (True, s2\<lparr>activationLevel := 2, enabledForBSD := True, enabled := True\<rparr>)"
    using False level by (simp add: r1000_enable_def setActivationLevel_def kActivationLevelBSD_def Let_def)
  moreover have "chip_frame (s\<lparr>pciOpened := opens, activationLevel := 2, enabledForBSD := True, enabled := True\<rparr>)
      (s2\<lparr>activationLevel := 2, enabledForBSD := True, enabled := True\<rparr>)"
    using s1(2) s2(2) by (simp add: chip_frame_def t1_def)
  ultimately show ?thesis using False by auto
qed

lemma disable_result:
  assumes "life_ok s"
  shows "\<exists>s'. r1000_disable D opens selected s = Inr s' \<and>
    chip_frame (s\<lparr>pciOpened := False, activationLevel := 0, enabledForBSD := False, enabled := False\<rparr>) s'"
proof (cases "activationLevel s = 0")
  case True
  then show ?thesis
    using assms by (simp add: r1000_disable_def setActivationLevel_def kActivationLevelNone_def life_ok_def chip_frame_def)
next
  case False
  then have level: "activationLevel s = 2" using assms by (auto simp: life_ok_def)
  define t where "t = s\<lparr>enabledForBSD := False\<rparr>"
  have ok: "pciFound t" "timerSource t" "transmitQueue t" "activationLevel t = 2" "\<not> enabledForKDP t"
    using assms level by (auto simp: life_ok_def t_def)
  obtain s1 where s1: "decreaseActivationLevel D 2 t = Inr (True, s1)" "chip_frame t s1"
    using decrease_result(2) [OF ok(1-3)] by blast
  define t1 where "t1 = s1\<lparr>activationLevel := 1\<rparr>"
  have "pciFound t1" "timerSource t1" "transmitQueue t1" using ok s1(2) by (simp_all add: t1_def chip_frame_def)
  from decrease_result(1) [OF this] obtain s2
    where s2: "decreaseActivationLevel D 1 t1 = Inr (True, s2)" "chip_frame (t1\<lparr>pciOpened := False\<rparr>) s2" by blast
  have l1: "activationLevel s1 = 2" "activationLevel s2 = 1"
    using ok(4) s1(2) s2(2) by (simp_all add: chip_frame_def t1_def)
  have "lower_levels D 2 False t = Inr (True, s2\<lparr>activationLevel := 0\<rparr>)"
    by (simp add: numeral_2_eq_2 ok(4) s1(1) l1 s2(1) [unfolded t1_def])
  then have "r1000_disable D opens selected s = Inr (s2\<lparr>activationLevel := 0, enabled := False\<rparr>)"
    using ok(4,5) by (simp add: r1000_disable_def setActivationLevel_def kActivationLevelNone_def Let_def t_def [symmetric])
  moreover have "chip_frame (s\<lparr>pciOpened := False, activationLevel := 0, enabledForBSD := False, enabled := False\<rparr>)
      (s2\<lparr>activationLevel := 0, enabled := False\<rparr>)"
    using s1(2) s2(2) by (simp add: chip_frame_def t1_def t_def)
  ultimately show ?thesis by auto
qed

end
