(* ===== verification/NetLifeProps.thy ===== *)
theory NetLifeProps
  imports NetLife
begin

text \<open>
  What holds in every state the network driver reaches: what it is called upon to release, what
  the device finds in the rings, and which activation level it is at.
\<close>

section \<open>Packets\<close>

text \<open>
  Every packet of \<open>G\<close> is in one place: released, held for one descriptor, or in \<open>L\<close>.
\<close>

definition held :: "'p r1000 \<Rightarrow> nat set" where
  "held s = packetId ` ran (Tx_skbuff s)"

definition packets_ok :: "nat set \<Rightarrow> nat set \<Rightarrow> 'p r1000 \<Rightarrow> bool" where
  "packets_ok G L s \<longleftrightarrow>
     distinct (freed s) \<and> set (freed s) \<union> held s \<union> L = G \<and>
     set (freed s) \<inter> held s = {} \<and> set (freed s) \<inter> L = {} \<and> held s \<inter> L = {} \<and>
     (\<forall>i j m n. Tx_skbuff s i = Some m \<longrightarrow> Tx_skbuff s j = Some n \<longrightarrow> packetId m = packetId n \<longrightarrow> i = j)"

lemma packets_ok_cong:
  "Tx_skbuff s' = Tx_skbuff s \<Longrightarrow> freed s' = freed s \<Longrightarrow> packets_ok G L s' = packets_ok G L s"
  by (simp add: packets_ok_def held_def)

lemma held_iff: "n \<in> held s \<longleftrightarrow> (\<exists>i m. Tx_skbuff s i = Some m \<and> packetId m = n)"
  by (auto simp: held_def ran_def)

lemma held_update:
  assumes "packets_ok G L s"
  shows "packetId ` ran ((Tx_skbuff s)(i := None)) = held s - packetId ` set_option (Tx_skbuff s i)"
proof -
  have inj: "k = i" if "Tx_skbuff s k = Some m" "Tx_skbuff s i = Some n" "packetId m = packetId n" for k m n
    using assms that unfolding packets_ok_def by blast
  have "packetId ` ran ((Tx_skbuff s)(i := None)) = {packetId m |k m. k \<noteq> i \<and> Tx_skbuff s k = Some m}"
    by (auto simp: ran_def split: if_split_asm)
  also have "\<dots> = held s - packetId ` set_option (Tx_skbuff s i)"
  proof (rule set_eqI, rule iffI)
    fix n assume "n \<in> {packetId m |k m. k \<noteq> i \<and> Tx_skbuff s k = Some m}"
    then obtain k m where k: "k \<noteq> i" "Tx_skbuff s k = Some m" "n = packetId m" by blast
    then have "n \<notin> packetId ` set_option (Tx_skbuff s i)"
      using inj [OF k(2)] by (cases "Tx_skbuff s i") (simp_all, metis)
    then show "n \<in> held s - packetId ` set_option (Tx_skbuff s i)" using k held_iff by blast
  next
    fix n assume n: "n \<in> held s - packetId ` set_option (Tx_skbuff s i)"
    then obtain k m where k: "Tx_skbuff s k = Some m" "packetId m = n" using held_iff by blast
    then have "k \<noteq> i" using n by auto
    then show "n \<in> {packetId m |k m. k \<noteq> i \<and> Tx_skbuff s k = Some m}" using k by blast
  qed
  finally show ?thesis .
qed

lemma packets_ok_release:
  assumes "packets_ok G L s"
  shows "packets_ok G L (release_at i s)"
proof (cases "Tx_skbuff s i")
  case (Some m)
  have m: "packetId m \<in> held s" using Some by (auto simp: held_def ran_def)
  have "held (release_at i s) = held s - {packetId m}"
    using held_update [OF assms, of i] Some by (simp add: held_def release_at_def)
  moreover have "freed (release_at i s) = freed s @ [packetId m]" by (simp add: release_at_def Some net_call_def)
  moreover have "Tx_skbuff (release_at i s) j = Some n \<Longrightarrow> Tx_skbuff s j = Some n" for j n
    by (simp add: release_at_def Some split: if_split_asm)
  ultimately show ?thesis using assms m unfolding packets_ok_def by auto
qed (simp add: release_at_def assms)

interpretation packets: ring_invariant "packets_ok G L" for G L
proof (unfold_locales, goal_cases)
  case (1 s s')
  then show ?case using packets_ok_cong [of s' s] by (simp add: chip_frame_def)
next
  case (2 s s')
  then have "Tx_skbuff s' = Tx_skbuff s" "freed s' = freed s" by (auto simp: device_moves_def)
  then show ?case using 2(1) packets_ok_cong [of s' s] by simp
next
  case (3 s granted s')
  then obtain j t where t: "rx_loop granted max_interrupt_work (unat (cur_rx s)) s = Inr (j, t)" "s' = t\<lparr>cur_rx := of_nat j\<rparr>"
    by (auto simp: R1000RxInterrupt_def)
  have "packets_ok G L s'" if "packets_ok G L s" "deliver_rx i d s = Inr s'" for i d and s s' :: "'a r1000"
    using deliver_rx_result [OF that(2)] that(1) packets_ok_cong [of s' s] by auto
  from rx_loop_rule [of "packets_ok G L", OF this 3(1) t(1)] have "packets_ok G L t" .
  then show ?case using packets_ok_cong [of s' t] by (simp add: t(2))
next
  case (4 s s')
  show ?case
  proof (rule reclaim_rule [of "packets_ok G L", OF _ _ _ 4])
    show "packets_ok G L (s\<lparr>dirty_tx := l\<rparr>)" if "packets_ok G L s" for l and s :: "'a r1000"
      using that packets_ok_cong [of "s\<lparr>dirty_tx := l\<rparr>" s] by simp
    show "packets_ok G L t" if "packets_ok G L s" "chip_frame s t" for s t :: "'a r1000"
      using that packets_ok_cong [of t s] by (simp add: chip_frame_def)
  qed (rule packets_ok_release)
next
  case (5 s s')
  show ?case
  proof (rule clear_rule [of "packets_ok G L", OF _ _ _ 5])
    show "packets_ok G L (s\<lparr>cur_tx := 0, dirty_tx := 0\<rparr>)" if "packets_ok G L s" for s :: "'a r1000"
      using that packets_ok_cong [of "s\<lparr>cur_tx := 0, dirty_tx := 0\<rparr>" s] by simp
    show "packets_ok G L (s\<lparr>TxDescArray := r\<rparr>)" if "packets_ok G L s" for r and s :: "'a r1000"
      using that packets_ok_cong [of "s\<lparr>TxDescArray := r\<rparr>" s] by simp
  qed (rule packets_ok_release)
qed

text \<open>What \<open>outputPacket\<close> does with the packet, by its answer.\<close>

lemma output_packets:
  assumes "outputPacket D m s = Inr (r, s')"
  shows "r = OutputStall \<Longrightarrow> s' = s"
    and "r = OutputDropped \<Longrightarrow> s' = net_call (FreePacket (packetId m)) s"
    and "r = OutputSuccess \<Longrightarrow> freed s' = freed s \<and>
      Tx_skbuff s' = (Tx_skbuff s)(unat (cur_tx s) mod NUM_TX_DESC := Some m)"
  using assms by (auto simp: outputPacket_def Let_def WriteMMIO8_def split: if_split_asm)

lemma packets_ok_sent:
  assumes "packets_ok G L s" "packetId m \<notin> G" "freed s' = freed s"
    "Tx_skbuff s' = (Tx_skbuff s)(unat (cur_tx s) mod NUM_TX_DESC := Some m)"
  shows "packets_ok (insert (packetId m) G) (L \<union> overwritten s) s'"
proof -
  define e where "e = unat (cur_tx s) mod NUM_TX_DESC"
  have "ran (Tx_skbuff s') = insert m (ran ((Tx_skbuff s)(e := None)))"
    by (auto simp: assms(4) e_def ran_def)
  then have h: "held s' = insert (packetId m) (held s - overwritten s)"
    using held_update [OF assms(1), of e] by (simp add: held_def overwritten_def e_def)
  have sub: "overwritten s \<subseteq> held s" by (auto simp: overwritten_def held_def ran_def)
  have new: "packetId n \<noteq> packetId m" if "Tx_skbuff s i = Some n" for i n
    using assms(1,2) that held_iff [of "packetId n" s] unfolding packets_ok_def by auto
  have "i = j" if "Tx_skbuff s' i = Some x" "Tx_skbuff s' j = Some y" "packetId x = packetId y" for i j x y
    using that assms(1) new by (auto simp: assms(4) packets_ok_def split: if_split_asm)
  then show ?thesis
    using assms(1-3) h sub unfolding packets_ok_def by auto
qed

section \<open>Activation\<close>

definition life_same :: "'p r1000 \<Rightarrow> 'p r1000 \<Rightarrow> bool" where
  "life_same s s' \<longleftrightarrow> activationLevel s' = activationLevel s \<and> enabled s' = enabled s \<and>
     enabledForBSD s' = enabledForBSD s \<and> enabledForKDP s' = enabledForKDP s \<and> pciFound s' = pciFound s \<and>
     pciOpened s' = pciOpened s \<and> timerSource s' = timerSource s \<and> transmitQueue s' = transmitQueue s"

lemma life_ok_same: "life_ok s \<Longrightarrow> life_same s s' \<Longrightarrow> life_ok s'"
  by (simp add: life_ok_def life_same_def)

lemma life_release: "life_same s (release_at i s)"
  by (simp add: life_same_def release_at_def net_call_def split: option.split)

interpretation life: ring_invariant life_ok
proof (unfold_locales, goal_cases)
  case (1 s s')
  from 1(1) show ?case by (rule life_ok_same) (use 1(2) in \<open>simp add: life_same_def chip_frame_def\<close>)
next
  case (2 s s')
  from 2(1) show ?case by (rule life_ok_same) (use 2(2) in \<open>auto simp: life_same_def device_moves_def\<close>)
next
  case (3 s granted s')
  then obtain j t where t: "rx_loop granted max_interrupt_work (unat (cur_rx s)) s = Inr (j, t)" "s' = t\<lparr>cur_rx := of_nat j\<rparr>"
    by (auto simp: R1000RxInterrupt_def)
  have "life_ok s'" if "life_ok s" "deliver_rx i d s = Inr s'" for i d and s s' :: "'a r1000"
    by (rule life_ok_same [OF that(1)]) (use deliver_rx_result [OF that(2)] in \<open>auto simp: life_same_def\<close>)
  from rx_loop_rule [of life_ok, OF this 3(1) t(1)] have "life_ok t" .
  then show ?case by (rule life_ok_same) (simp add: t(2) life_same_def)
next
  case (4 s s')
  show ?case
  proof (rule reclaim_rule [of life_ok, OF _ _ _ 4])
    show "life_ok (s\<lparr>dirty_tx := l\<rparr>)" if "life_ok s" for l and s :: "'a r1000"
      by (rule life_ok_same [OF that]) (simp add: life_same_def)
    show "life_ok t" if "life_ok s" "chip_frame s t" for s t :: "'a r1000"
      by (rule life_ok_same [OF that(1)]) (use that(2) in \<open>simp add: life_same_def chip_frame_def\<close>)
  qed (rule life_ok_same [OF _ life_release])
next
  case (5 s s')
  show ?case
  proof (rule clear_rule [of life_ok, OF _ _ _ 5])
    show "life_ok (s\<lparr>cur_tx := 0, dirty_tx := 0\<rparr>)" if "life_ok s" for s :: "'a r1000"
      by (rule life_ok_same [OF that]) (simp add: life_same_def)
    show "life_ok (s\<lparr>TxDescArray := r\<rparr>)" if "life_ok s" for r and s :: "'a r1000"
      by (rule life_ok_same [OF that]) (simp add: life_same_def)
  qed (rule life_ok_same [OF _ life_release])
qed

section \<open>Every state\<close>

definition net_ok :: "nat set \<Rightarrow> nat set \<Rightarrow> 'p r1000 \<Rightarrow> bool" where
  "net_ok G L s \<longleftrightarrow> rings_ok s \<and> packets_ok G L s \<and> life_ok s"

text \<open>Changing the level is an access to the chip, but for the fields of activation.\<close>

lemma net_ok_level:
  assumes "net_ok G L s" "chip_frame (s\<lparr>pciOpened := op, activationLevel := l, enabledForBSD := b, enabled := b\<rparr>) s'"
    "l = 2 \<and> b \<or> l = 0 \<and> \<not> op \<and> \<not> b"
  shows "net_ok G L s'"
proof -
  have "rings_ok s'"
    using assms(1,2) rings_ok_cong [of s' s] by (simp add: net_ok_def chip_frame_def)
  moreover have "packets_ok G L s'"
    using assms(1,2) packets_ok_cong [of s' s] by (simp add: net_ok_def chip_frame_def)
  moreover have "life_ok s'"
    using assms by (auto simp: net_ok_def life_ok_def chip_frame_def)
  ultimately show ?thesis by (simp add: net_ok_def)
qed

lemma net_ok_frame: "net_ok G L s \<Longrightarrow> chip_frame s s' \<Longrightarrow> net_ok G L s'"
  unfolding net_ok_def by (blast intro: rings.frame packets.frame life.frame)

lemma output_life: "life_ok s \<Longrightarrow> outputPacket D m s = Inr (r, s') \<Longrightarrow> life_ok s'"
  by (erule life_ok_same) (auto simp: outputPacket_def Let_def WriteMMIO8_def net_call_def life_same_def split: if_split_asm)

lemma net_ok_reaches: "net_reaches D G L s \<Longrightarrow> net_ok G L s"
proof (induction rule: net_reaches.induct)
  case (started E p s)
  note st = started_state [OF started]
  then show ?case
    by (simp add: net_ok_def packets_ok_def held_def at_rest_def life_ok_def)
next
  case (device G L s s')
  then show ?case unfolding net_ok_def by (blast intro: rings.moves packets.moves life.moves)
next
  case (sent G L s m s')
  have "packets_ok (insert (packetId m) G) (L \<union> overwritten s) s'"
    by (rule packets_ok_sent) (use sent output_packets(3) [OF sent.hyps(4)] in \<open>auto simp: net_ok_def\<close>)
  then show ?case
    using sent.IH rings_ok_output [OF _ sent.hyps(3,4)] output_life [OF _ sent.hyps(4)] by (simp add: net_ok_def)
next
  case (dropped G L s m s')
  then have s': "s' = net_call (FreePacket (packetId m)) s" using output_packets(2) [OF dropped.hyps(3)] by simp
  have "rings_ok s'" using dropped.IH rings_ok_cong [of s' s] by (simp add: s' net_call_def net_ok_def)
  moreover have "packets_ok (insert (packetId m) G) L s'"
    using dropped.IH dropped.hyps(2) by (auto simp: s' net_call_def net_ok_def packets_ok_def held_def)
  ultimately show ?case using dropped.IH output_life [OF _ dropped.hyps(3)] by (simp add: net_ok_def)
next
  case (stalled G L s m s')
  then show ?case using output_packets(1) [OF stalled.hyps(2)] by simp
next
  case (interrupt G L s dma granted s')
  then show ?case
    unfolding net_ok_def by (blast intro: rings.interrupt_keeps packets.interrupt_keeps life.interrupt_keeps)
next
  case (watchdog G L s s')
  then show ?case unfolding net_ok_def by (blast intro: rings.watchdog_keeps packets.watchdog_keeps life.watchdog_keeps)
next
  case (enabled G L s opens selected ok s')
  have "life_ok s" using enabled.IH by (simp add: net_ok_def)
  from enable_result [OF this, of D opens selected] enabled.hyps(2)
  have "chip_frame (if enabledForBSD s then s
      else s\<lparr>pciOpened := opens, activationLevel := 2, enabledForBSD := True, enabled := True\<rparr>) s'" by auto
  then show ?case
    using net_ok_frame [OF enabled.IH, of s'] net_ok_level [OF enabled.IH, where op = opens and l = 2 and b = True and s' = s']
    by (cases "enabledForBSD s") simp_all
next
  case (disabled G L s opens selected s')
  have "life_ok s" using disabled.IH by (simp add: net_ok_def)
  from disable_result [OF this, of D opens selected] disabled.hyps(2)
  have "chip_frame (s\<lparr>pciOpened := False, activationLevel := 0, enabledForBSD := False, enabled := False\<rparr>) s'" by auto
  then show ?case by (rule net_ok_level [OF disabled.IH]) simp
next
  case (address G L s)
  show ?case
    by (rule net_ok_frame [OF address.IH]) (simp add: getHardwareAddress_def chip_address chip.keeps_refl)
next
  case (stopped G L s)
  show ?case
    by (rule net_ok_frame [OF stopped.IH]) (simp add: r1000_stop_def chip_frames chip.keeps_refl)
qed (simp_all add: net_ok_frame chip_frames chip.keeps_refl)

section \<open>A start that succeeds\<close>

lemma alloc_total:
  assumes "\<And>i. \<exists>a. rxBuffer M i = Memory a" "\<And>i. \<exists>a. txBuffer M i = Memory a"
  shows "RxDescArray s \<noteq> None \<Longrightarrow> \<exists>s'. alloc_rx M is s = Inr (True, s')"
    and "TxDescArray s \<noteq> None \<Longrightarrow> \<exists>s'. alloc_tx M is s = Inr (True, s')"
proof (induction "is" arbitrary: s)
  case (Cons i "is")
  obtain a b where m: "rxBuffer M i = Memory a" "txBuffer M i = Memory b" using assms by metis
  {
    case 1
    then obtain ds where ds: "RxDescArray s = Some ds" by blast
    show ?case
      using Cons.IH(1) [of "s\<lparr>Rx_skbuff_Md := (Rx_skbuff_Md s)(i := True), Rx_skbuff_Dma := (Rx_skbuff_Dma s)(i := a),
         RxDescArray := update_desc i (\<lambda>d. d\<lparr>status := 0, vlan_tag := 0\<rparr>) (RxDescArray s)\<rparr>"]
      by (simp add: m ds update_desc_def)
  next
    case 2
    then obtain ds where ds: "TxDescArray s = Some ds" by blast
    show ?case
      using Cons.IH(2) [of "s\<lparr>Tx_skbuff_Md := (Tx_skbuff_Md s)(i := True), Tx_skbuff_Dma := (Tx_skbuff_Dma s)(i := b),
         TxDescArray := update_desc i (\<lambda>d. d\<lparr>status := 0, vlan_tag := 0, buf_addr := b, buf_Haddr := 0\<rparr>) (TxDescArray s)\<rparr>"]
      by (simp add: m ds update_desc_def)
  }
qed simp_all

lemma allocation_succeeds:
  assumes "\<And>i. \<exists>a. rxBuffer M i = Memory a" "\<And>i. \<exists>a. txBuffer M i = Memory a" "txSpace M = Memory a" "rxSpace M = Memory b"
    "length (initialTx M) = NUM_TX_DESC"
  shows "\<exists>s'. AllocateDescriptorsMemory M s = Inr (True, s')"
proof -
  define t where "t = s\<lparr>tx_descMd := True, txdesc_phy_dma_addr := a, rx_descMd := True, rxdesc_phy_dma_addr := b,
     TxDescArray := Some (initialTx M), RxDescArray := Some (initialRx M)\<rparr>"
  obtain s1 where s1: "alloc_rx M [0..<NUM_RX_DESC] t = Inr (True, s1)"
    using alloc_total(1) [OF assms(1,2), of t "[0..<NUM_RX_DESC]"] by (auto simp: t_def simp del: upt.simps)
  have "TxDescArray s1 \<noteq> None" using alloc_rx_result [OF s1] by (simp add: t_def)
  then obtain s2 where s2: "alloc_tx M [0..<NUM_TX_DESC] s1 = Inr (True, s2)"
    using alloc_total(2) [OF assms(1,2)] by blast
  have "AllocateDescriptorsMemory M s = Inr (True, fold arm_rx [0..<NUM_RX_DESC] s2)"
    using s1 s2 by (simp add: AllocateDescriptorsMemory_def Let_def assms(3,4) address_of_def space_of_def t_def
        del: upt.simps fold_simps)
  then show ?thesis by blast
qed

lemma probe_succeeds: "fst (R1000ProbeAndStartBoard D mapped s)"
proof -
  have "fst (R1000InitBoard D mapped t)" for t
    by (simp add: R1000InitBoard_def Let_def split: prod.split)
  then show ?thesis
    by (simp add: R1000ProbeAndStartBoard_def Let_def split: prod.split) (metis fst_conv)
qed

text \<open>A kernel that grants everything, the memory from one address on.\<close>

definition granting :: net_env where
  "granting = \<lparr>isPCIDevice = True, netSuperStarts = True, pciDeviceOpens = True,
     mediumMade = (\<lambda>_. True), mediumAdded = (\<lambda>_. True), mediaPublished = True, registersMapped = True,
     ringMemory = \<lparr>txSpace = Memory 0x10000000, rxSpace = Memory 0x10010000,
       txBuffer = (\<lambda>i. Memory (0x20000000 + of_nat (i * 2048))), rxBuffer = (\<lambda>i. Memory (0x30000000 + of_nat (i * 2048))),
       initialTx = replicate NUM_TX_DESC \<lparr>status = 0, vlan_tag = 0, buf_addr = 0, buf_Haddr = 0\<rparr>,
       initialRx = replicate NUM_RX_DESC \<lparr>status = 0, vlan_tag = 0, buf_addr = 0, buf_Haddr = 0\<rparr>\<rparr>,
     workLoopMade = True, queueMade = True, interruptSourceAdded = True, timerMade = True, timerAdded = True,
     interfaceAttached = True\<rparr>"

lemma start_succeeds: "\<exists>s. net_reaches D {} {} s \<and> netif s"
proof -
  fix p :: 'a
  define s0 where "s0 = (snd (r1000_init True (new_r1000 p)))\<lparr>pciFound := True\<rparr>"
  define s1 where "s1 = add_media granting (net_call OpenDevice (s0\<lparr>pciOpened := True, chipset := 5\<rparr>))"
  obtain s2 where s2: "R1000ProbeAndStartBoard D True s1 = (True, s2)"
    using probe_succeeds [of D True s1] by (cases "R1000ProbeAndStartBoard D True s1") simp
  have "\<exists>s'. AllocateDescriptorsMemory (ringMemory granting) s2 = Inr (True, s')"
    by (rule allocation_succeeds) (simp_all add: granting_def del: replicate.simps)
  then obtain s3 where s3: "AllocateDescriptorsMemory (ringMemory granting) s2 = Inr (True, s3)" by blast
  obtain s4 where s4: "R1000InitEventSources granting s3 = (True, s4)"
    by (simp add: R1000InitEventSources_def granting_def Let_def)
  have "start_board D granting s0 = Inr (True, s4)"
    using s2 s3 s4 by (simp add: start_board_def s1_def Let_def)
      (simp add: granting_def)
  moreover have "isPCIDevice granting" "interfaceAttached granting" by (simp_all add: granting_def)
  ultimately have "\<exists>s. r1000_start D granting (snd (r1000_init True (new_r1000 p))) = Inr (True, s) \<and> netif s"
    by (auto simp: r1000_start_def s0_def [symmetric] Let_def net_call_def)
  then obtain s where "r1000_start D granting (snd (r1000_init True (new_r1000 p))) = Inr (True, s)" "netif s" by (elim exE conjE)
  moreover have "length (initialTx (ringMemory granting)) = NUM_TX_DESC" "length (initialRx (ringMemory granting)) = NUM_RX_DESC"
    by (simp_all add: granting_def)
  ultimately have "net_reaches D {} {} s" by (intro net_reaches.started)
  then show ?thesis using \<open>netif s\<close> by blast
qed

end
