(* ===== verification/NetProps.thy ===== *)
theory NetProps
  imports NetLifeProps
begin

text \<open>
  The promises of the network driver: what the device is told to do with memory, what becomes of a
  packet, activation, and the order of received packets.
\<close>

section \<open>Sending is possible\<close>

text \<open>When the device has given its descriptors back, a packet of one byte is sent.\<close>

lemma packet_sent:
  assumes "net_reaches D G L s" "n \<notin> G"
  shows "\<exists>t s'. device_moves s t \<and> net_reaches D (insert n G) (L \<union> overwritten t) s' \<and> overwritten t \<subseteq> G"
proof -
  have ok: "rings_ok s" "packets_ok G L s" using net_ok_reaches [OF assms(1)] by (simp_all add: net_ok_def)
  then obtain tx where tx: "TxDescArray s = Some tx" "length tx = NUM_TX_DESC" by (auto simp: rings_ok_def ring_ok_def)
  define given where "given = (\<lambda>d :: TxDesc. if owned d then d\<lparr>status := 0\<rparr> else d)"
  define t where "t = s\<lparr>TxDescArray := Some (map given tx)\<rparr>"
  have given: "\<not> owned (given d)" "desc_moves d (given d)" for d by (simp_all add: given_def owned_def desc_moves_def)
  have "list_all2 desc_moves tx (map given tx)" by (simp add: list_all2_conv_all_nth given)
  moreover have "list_all2 desc_moves ds ds" for ds by (rule list.rel_refl) (simp add: desc_moves_def)
  then have "rel_option (list_all2 desc_moves) (RxDescArray s) (RxDescArray s)" by (rule option.rel_refl)
  moreover have "t = s\<lparr>hardware := hardware s, Rx_dbuff := Rx_dbuff s, TxDescArray := Some (map given tx),
      RxDescArray := RxDescArray s\<rparr>" by (simp add: t_def)
  ultimately have moves: "device_moves s t" unfolding device_moves_def using tx(1) by (metis option.rel_inject(2))
  define m where "m = \<lparr>packetId = n, pkthdr_len = 1, firstBuf = Mbuf [0], moreBufs = []\<rparr>"
  define e where "e = unat (cur_tx t) mod NUM_TX_DESC"
  have e: "e < length tx" using tx(2) by (simp add: e_def NUM_TX_DESC_def)
  have "tx_pkt_len t = 1514" using ok(1) by (simp add: t_def rings_ok_def)
  moreover have "desc_at (TxDescArray t) e = Inr (given (tx ! e))" using e by (simp add: t_def desc_at_def)
  ultimately obtain s' where "outputPacket D m t = Inr (OutputSuccess, s')"
    by (simp add: outputPacket_def e_def [symmetric] Let_def given m_def store_bytes_def MAX_TX_SKBDATA_SIZE_def)
  moreover have "net_reaches D G L t" using assms(1) moves by (rule net_reaches.device)
  ultimately have "net_reaches D (insert (packetId m) G) (L \<union> overwritten t) s'"
    using assms(2) by (intro net_reaches.sent) (simp_all add: m_def)
  moreover have "overwritten t \<subseteq> held s" by (fastforce simp: overwritten_def held_iff t_def)
  then have "overwritten t \<subseteq> G" using ok(2) by (auto simp: packets_ok_def)
  ultimately show ?thesis using moves by (auto simp: m_def)
qed

section \<open>Every reachable state\<close>

text \<open>C5. In every state the driver reaches, whatever the device does with the descriptors that it owns,
  the two rings have their 1024 descriptors; a send descriptor the device owns names the buffer of its
  own place and no more bytes than fit into it, a receive descriptor the device owns likewise; and of
  the descriptors it owns exactly the last of a ring carries the end mark. So the device neither reads
  nor writes memory that was not given to it.
\<close>

theorem dma_descriptors_safe:
  assumes "net_reaches D G L s"
  shows "\<exists>tx rx. TxDescArray s = Some tx \<and> length tx = NUM_TX_DESC \<and>
    RxDescArray s = Some rx \<and> length rx = NUM_RX_DESC \<and>
    (\<forall>i < NUM_TX_DESC. owned (tx ! i) \<longrightarrow>
       buf_addr (tx ! i) = Tx_skbuff_Dma s i \<and> unat (status (tx ! i) AND 0xFFFF) \<le> MAX_TX_SKBDATA_SIZE \<and>
       (status (tx ! i) AND EORbit \<noteq> 0 \<longleftrightarrow> i = NUM_TX_DESC - 1)) \<and>
    (\<forall>i < NUM_RX_DESC. owned (rx ! i) \<longrightarrow>
       buf_addr (rx ! i) = Rx_skbuff_Dma s i \<and> unat (status (rx ! i) AND 0x1FFF) \<le> MAX_RX_SKBDATA_SIZE \<and>
       (status (rx ! i) AND EORbit \<noteq> 0 \<longleftrightarrow> i = NUM_RX_DESC - 1))"
proof -
  have "rings_ok s" using net_ok_reaches [OF assms] by (simp add: net_ok_def)
  then show ?thesis
    by (fastforce simp: rings_ok_def ring_ok_def tx_ok_def rx_ok_def end_marked_def MAX_TX_SKBDATA_SIZE_def
        MAX_RX_SKBDATA_SIZE_def)
qed

theorem dma_descriptors_safe_witness:
  "\<exists>s tx. net_reaches silent_chip {} {} s \<and> TxDescArray s = Some tx \<and> length tx = NUM_TX_DESC"
proof -
  obtain s where s: "net_reaches silent_chip {} {} s" using start_succeeds by blast
  from dma_descriptors_safe [OF s] s show ?thesis by blast
qed

text \<open>C6. No packet is released twice, in any state the driver reaches: every packet it was handed is
  either released, once, or held for exactly one descriptor, or it is one whose place was taken by a
  later packet before it was reclaimed; never two of these.
\<close>

theorem packets_released_once:
  assumes "net_reaches D G L s"
  shows "distinct (freed s) \<and> set (freed s) \<union> packetId ` ran (Tx_skbuff s) \<union> L = G \<and>
    set (freed s) \<inter> packetId ` ran (Tx_skbuff s) = {} \<and> (set (freed s) \<union> packetId ` ran (Tx_skbuff s)) \<inter> L = {} \<and>
    (\<forall>i j m n. Tx_skbuff s i = Some m \<longrightarrow> Tx_skbuff s j = Some n \<longrightarrow> packetId m = packetId n \<longrightarrow> i = j)"
  using net_ok_reaches [OF assms] unfolding net_ok_def packets_ok_def held_def by blast

theorem packets_released_once_witness:
  "\<exists>s. net_reaches silent_chip {7} {} s \<and> 7 \<in> set (freed s) \<union> packetId ` ran (Tx_skbuff s)"
proof -
  obtain s0 :: "unit r1000" where "net_reaches silent_chip {} {} s0" using start_succeeds by blast
  then obtain s where s: "net_reaches silent_chip {7} {} s"
    using packet_sent [of silent_chip "{}" "{}" s0 7] by auto
  from packets_released_once [OF s] s show ?thesis by auto
qed

text \<open>C7. In every state the driver reaches it is either at rest or fully active, and its two flags say
  which; the PCI device is not left open at rest. Enabling it then succeeds, and disabling it brings it
  to rest, with no null pointer on the way.
\<close>

theorem activation_consistent:
  assumes "net_reaches D G L s"
  shows "activationLevel s = (if enabledForBSD s then kActivationLevelBSD else kActivationLevelNone) \<and>
    (enabled s \<longleftrightarrow> enabledForBSD s) \<and> (pciOpened s \<longrightarrow> enabledForBSD s) \<and>
    (\<exists>t. r1000_enable D opens selected s = Inr (True, t) \<and> activationLevel t = kActivationLevelBSD \<and> enabled t) \<and>
    (\<exists>t. r1000_disable D opens selected s = Inr t \<and> activationLevel t = kActivationLevelNone \<and>
       \<not> enabled t \<and> \<not> pciOpened t)"
proof -
  have ok: "life_ok s" using net_ok_reaches [OF assms] by (simp add: net_ok_def)
  show ?thesis
    using ok enable_result [OF ok, of D opens selected] disable_result [OF ok, of D opens selected]
    by (auto simp: life_ok_def chip_frame_def kActivationLevelBSD_def kActivationLevelNone_def split: if_split_asm)
qed

theorem activation_consistent_witness:
  "\<exists>s t. net_reaches silent_chip {} {} s \<and> r1000_enable silent_chip True None s = Inr (True, t) \<and> enabled t"
proof -
  obtain s where s: "net_reaches silent_chip {} {} s" using start_succeeds by blast
  from activation_consistent [OF s, of True None] s show ?thesis by blast
qed

end
