(* ===== verification/NetReceive.thy ===== *)
theory NetReceive
  imports NetProps
begin

text \<open>
  The receive loop against a list of what it delivers, and the reclaim loop at the end of the ring.
\<close>

section \<open>Received packets\<close>

text \<open>A descriptor that the device has finished is passed over when its error bit is set.\<close>

definition errored :: "TxDesc \<Rightarrow> bool" where
  "errored d \<longleftrightarrow> any_bit (status d) RxRES"

definition counts_checksum :: "TxDesc \<Rightarrow> bool" where
  "counts_checksum d \<longleftrightarrow> 4 \<le> unat (status d AND 0x1FFF)"

text \<open>The packet in a buffer: what the status word counts, without the checksum.\<close>

definition packet_bytes :: "(nat \<Rightarrow> u8) \<Rightarrow> u32 \<Rightarrow> u8 list" where
  "packet_bytes buf w = map buf [0..<min 1514 (unat (w AND 0x1FFF) - 4)]"

definition place :: "nat \<Rightarrow> nat \<Rightarrow> nat" where
  "place i j = (i + j) mod NUM_RX_DESC"

text \<open>\<open>k\<close> places from \<open>i\<close> on, across the end of the ring.\<close>

definition visited :: "nat \<Rightarrow> nat \<Rightarrow> nat list" where
  "visited i k = map (place i) [0..<k]"

lemma place_next: "place (place i (Suc 0)) j = place i (Suc j)"
  by (simp add: place_def mod_simps)

lemma place_from_next: "place (place i (Suc 0)) = (\<lambda>j. place i (Suc j))"
  by (rule ext) (rule place_next)

lemma place_apart: "i < NUM_RX_DESC \<Longrightarrow> 0 < j \<Longrightarrow> j < NUM_RX_DESC \<Longrightarrow> place i j \<noteq> i"
  unfolding place_def by (cases "i + j < NUM_RX_DESC") (auto simp: mod_if)

lemma place_bound: "place i j < NUM_RX_DESC"
  by (simp add: place_def NUM_RX_DESC_def)

lemma place_0: "i < NUM_RX_DESC \<Longrightarrow> place i 0 = i"
  by (simp add: place_def)

lemma visited_0 [simp]: "visited i 0 = []"
  by (simp add: visited_def)

lemma visited_Suc: "i < NUM_RX_DESC \<Longrightarrow> visited i (Suc k) = i # visited (place i (Suc 0)) k"
proof -
  assume "i < NUM_RX_DESC"
  have "[0..<Suc k] = 0 # map Suc [0..<k]" by (simp add: upt_conv_Cons map_Suc_upt del: upt.simps)
  then have "visited i (Suc k) = place i 0 # map (\<lambda>j. place i (Suc j)) [0..<k]"
    unfolding visited_def by (simp only: list.map map_map comp_def)
  then show ?thesis using \<open>i < NUM_RX_DESC\<close> by (simp only: place_0 visited_def place_from_next)
qed

lemma visited_fresh: "i < NUM_RX_DESC \<Longrightarrow> k < NUM_RX_DESC \<Longrightarrow> i \<notin> set (visited (place i (Suc 0)) k)"
proof
  assume i: "i < NUM_RX_DESC" "k < NUM_RX_DESC" and "i \<in> set (visited (place i (Suc 0)) k)"
  then obtain j where "j < k" "place i (Suc j) = i" by (auto simp: visited_def place_from_next)
  then show False using place_apart [OF i(1), of "Suc j"] i(2) by simp
qed

definition given_back :: "nat \<Rightarrow> TxDesc \<Rightarrow> TxDesc" where
  "given_back i d = d\<lparr>status := OWNbit OR end_of_ring NUM_RX_DESC i OR 1522\<rparr>"

lemma good_delivered:
  assumes "counts_checksum d" "rx_pkt_len s = 1514" "hw_rx_pkt_len s = 1522" "netif s" "RxDescArray s = Some ds"
  shows "deliver_rx i d s = Inr (s\<lparr>netCalls := netCalls s @ [InputPacket (packet_bytes (Rx_dbuff s i) (status d))],
     RxDescArray := Some (ds[i := given_back i (ds ! i)])\<rparr>)"
proof -
  define n where "n = unat (status d AND 0x1FFF)"
  have "4 \<le> n" using assms(1) by (simp add: counts_checksum_def n_def)
  then have size: "rx_size s (status d) = int (min 1514 (unat (status d AND 0x1FFF) - 4))"
    unfolding rx_size_def Let_def assms(2) n_def [symmetric] by auto
  have "load_bytes (rx_size s (status d)) (Rx_dbuff s i) = Inr (packet_bytes (Rx_dbuff s i) (status d))"
    unfolding size load_bytes_def packet_bytes_def MAX_RX_SKBDATA_SIZE_def nat_int by simp
  then show ?thesis
    using assms by (simp add: deliver_rx_def return_rx_def net_call_def update_desc_def given_back_def)
qed

text \<open>The state after the loop delivered the descriptors at the places \<open>qs\<close>.\<close>

definition after_delivery :: "nat list \<Rightarrow> TxDesc list \<Rightarrow> 'p r1000 \<Rightarrow> 'p r1000" where
  "after_delivery qs ds s =
     s\<lparr>netCalls := netCalls s @ map (\<lambda>q. InputPacket (packet_bytes (Rx_dbuff s q) (status (ds ! q)))) qs,
       RxDescArray := Some (map (\<lambda>q. if q \<in> set qs then given_back q (ds ! q) else ds ! q) [0..<NUM_RX_DESC])\<rparr>"

lemma after_delivery_Nil: "RxDescArray s = Some ds \<Longrightarrow> length ds = NUM_RX_DESC \<Longrightarrow> after_delivery [] ds s = s"
  using map_nth [of ds] by (simp add: after_delivery_def)

lemma after_delivery_Cons:
  assumes "length ds = NUM_RX_DESC" "q < NUM_RX_DESC" "q \<notin> set qs"
  shows "after_delivery qs (ds[q := given_back q (ds ! q)])
      (s\<lparr>netCalls := netCalls s @ [InputPacket (packet_bytes (Rx_dbuff s q) (status (ds ! q)))],
        RxDescArray := Some (ds[q := given_back q (ds ! q)])\<rparr>) = after_delivery (q # qs) ds s"
proof -
  have same: "ds[q := given_back q (ds ! q)] ! p = ds ! p" if "p \<in> set qs" for p
    using that assms(3) by (metis nth_list_update_neq)
  have "map (\<lambda>p. if p \<in> set qs then given_back p (ds[q := given_back q (ds ! q)] ! p)
        else ds[q := given_back q (ds ! q)] ! p) [0..<NUM_RX_DESC] =
      map (\<lambda>p. if p \<in> set (q # qs) then given_back p (ds ! p) else ds ! p) [0..<NUM_RX_DESC]"
    by (rule map_cong [OF refl]) (use assms in \<open>auto simp: nth_list_update\<close>)
  then show ?thesis
    using same by (simp add: after_delivery_def cong: map_cong)
qed

lemma refused_Suc:
  "card {r. r < Suc n \<and> \<not> granted r} = card {r. r < n \<and> \<not> granted r} + (if granted n then 0 else 1)"
proof -
  have "{r. r < Suc n \<and> \<not> granted r} =
      (if granted n then {r. r < n \<and> \<not> granted r} else insert n {r. r < n \<and> \<not> granted r})"
    by (auto simp: less_Suc_eq)
  then show ?thesis by simp
qed

lemma rx_loop_run:
  assumes "RxDescArray s = Some ds" "length ds = NUM_RX_DESC" "i < NUM_RX_DESC" "n < NUM_RX_DESC"
    and "\<And>q. q < NUM_RX_DESC \<Longrightarrow> \<not> owned (ds ! q) \<Longrightarrow> \<not> errored (ds ! q) \<Longrightarrow> counts_checksum (ds ! q)"
    and "rx_pkt_len s = 1514" "hw_rx_pkt_len s = 1522" "netif s"
  shows "\<exists>k \<le> n. (\<forall>q \<in> set (visited i k). \<not> owned (ds ! q)) \<and>
    (owned (ds ! place i k) \<or> n \<le> k + card {r. r < n \<and> \<not> granted r}) \<and>
    rx_loop granted n i s = Inr (place i k, after_delivery (filter (\<lambda>q. \<not> errored (ds ! q)) (visited i k)) ds s)"
  using assms
proof (induction n arbitrary: i s ds)
  case 0
  then show ?case by (simp add: place_0 after_delivery_Nil)
next
  case (Suc n)
  let ?P = "\<lambda>ds q. \<not> errored (ds ! q)"
  have at: "desc_at (Some ds) i = Inr (ds ! i)" using Suc.prems(2,3) by (simp add: desc_at_def)
  note i = place_0 [OF Suc.prems(3)]
  have round: "rx_loop granted (Suc n) i s =
      (if owned (ds ! i) then Inr (i, s)
       else if errored (ds ! i) then rx_loop granted n (place i (Suc 0)) s
       else if \<not> granted n then rx_loop granted n i s
       else and_then (deliver_rx i (ds ! i) s) (\<lambda>s. rx_loop granted n (place i (Suc 0)) s))"
    by (simp add: Suc.prems(1) at errored_def place_def)
  consider (stop) "owned (ds ! i)" | (skip) "\<not> owned (ds ! i)" "errored (ds ! i)"
    | (refused) "\<not> owned (ds ! i)" "\<not> errored (ds ! i)" "\<not> granted n"
    | (deliver) "\<not> owned (ds ! i)" "\<not> errored (ds ! i)" "granted n" by blast
  then show ?case
  proof cases
    case stop
    then show ?thesis
      using Suc.prems(1,2) by (intro exI [of _ 0]) (simp add: round i after_delivery_Nil del: rx_loop.simps)
  next
    case skip
    from Suc.IH [OF Suc.prems(1,2) place_bound _ Suc.prems(5-8), of i "Suc 0"] Suc.prems(4)
    obtain k where k: "k \<le> n" "\<forall>q \<in> set (visited (place i (Suc 0)) k). \<not> owned (ds ! q)"
      "owned (ds ! place (place i (Suc 0)) k) \<or> n \<le> k + card {r. r < n \<and> \<not> granted r}"
      "rx_loop granted n (place i (Suc 0)) s = Inr (place (place i (Suc 0)) k,
        after_delivery (filter (?P ds) (visited (place i (Suc 0)) k)) ds s)" by auto
    then show ?thesis
      using skip by (intro exI [of _ "Suc k"])
        (simp add: visited_Suc [OF Suc.prems(3)] place_next refused_Suc round del: rx_loop.simps, auto)
  next
    case refused
    from Suc.IH [OF Suc.prems(1-3) _ Suc.prems(5-8)] Suc.prems(4)
    obtain k where k: "k \<le> n" "\<forall>q \<in> set (visited i k). \<not> owned (ds ! q)"
      "owned (ds ! place i k) \<or> n \<le> k + card {r. r < n \<and> \<not> granted r}"
      "rx_loop granted n i s = Inr (place i k, after_delivery (filter (?P ds) (visited i k)) ds s)" by auto
    then show ?thesis
      using refused by (intro exI [of _ k]) (simp add: refused_Suc round del: rx_loop.simps)
  next
    case deliver
    define ds' where "ds' = ds[i := given_back i (ds ! i)]"
    define t where "t = s\<lparr>netCalls := netCalls s @ [InputPacket (packet_bytes (Rx_dbuff s i) (status (ds ! i)))],
       RxDescArray := Some ds'\<rparr>"
    have del: "deliver_rx i (ds ! i) s = Inr t"
      unfolding t_def ds'_def
      by (rule good_delivered) (use Suc.prems deliver in auto)
    have given: "owned (given_back i (ds ! i))"
      by (simp add: given_back_def owned_def any_bit_def OWNbit_def bit.conj_disj_distrib2)
    have n: "n < NUM_RX_DESC" using Suc.prems(4) by simp
    have "\<And>q. q < NUM_RX_DESC \<Longrightarrow> \<not> owned (ds' ! q) \<Longrightarrow> \<not> errored (ds' ! q) \<Longrightarrow> counts_checksum (ds' ! q)"
      subgoal for q using Suc.prems(2) Suc.prems(5) [of q] given by (cases "q = i") (simp_all add: ds'_def)
      done
    then obtain k where k: "k \<le> n" "\<forall>q \<in> set (visited (place i (Suc 0)) k). \<not> owned (ds' ! q)"
      "owned (ds' ! place (place i (Suc 0)) k) \<or> n \<le> k + card {r. r < n \<and> \<not> granted r}"
      "rx_loop granted n (place i (Suc 0)) t = Inr (place (place i (Suc 0)) k,
        after_delivery (filter (?P ds') (visited (place i (Suc 0)) k)) ds' t)"
      using Suc.IH [of t ds' "place i (Suc 0)"] Suc.prems(2,6-8) n place_bound by (auto simp: t_def ds'_def)
    have fresh: "i \<notin> set (visited (place i (Suc 0)) k)" by (rule visited_fresh [OF Suc.prems(3)]) (use k(1) n in simp)
    have other: "ds' ! q = ds ! q" if "q \<in> set (visited (place i (Suc 0)) k)" for q
      using that fresh unfolding ds'_def by (metis nth_list_update_neq)
    have "place i (Suc k) \<noteq> i" by (rule place_apart [OF Suc.prems(3)]) (use k(1) Suc.prems(4) in simp_all)
    then have last: "ds' ! place i (Suc k) = ds ! place i (Suc k)" by (simp add: ds'_def)
    have same: "filter (?P ds') (visited (place i (Suc 0)) k) = filter (?P ds) (visited (place i (Suc 0)) k)"
      by (rule filter_cong [OF refl]) (simp add: other)
    have "after_delivery (filter (?P ds) (visited (place i (Suc 0)) k)) ds' t =
        after_delivery (i # filter (?P ds) (visited (place i (Suc 0)) k)) ds s"
      unfolding t_def ds'_def by (rule after_delivery_Cons [OF Suc.prems(2,3)]) (use fresh in simp)
    then show ?thesis
      using deliver k other last
      by (intro exI [of _ "Suc k"])
        (simp add: visited_Suc [OF Suc.prems(3)] place_next refused_Suc round del same del: rx_loop.simps)
  qed
qed

text \<open>C8. With its interface attached and the buffer sizes of \<open>start\<close>, the receive interrupt looks at the
  descriptors from the current one on, in the order of the ring and across its end. It delivers the
  packets of those that have no error, in that order and with the bytes of their buffers less the
  checksum, and gives exactly these descriptors back; one with the error bit is passed over and stays
  with the driver as it is. It stops at the first descriptor the device still owns and goes on there the
  next time, or ends after twenty rounds, each of which took one descriptor or was spent on a packet
  the kernel had no buffer for. The device counts at least the four bytes of the checksum in a
  descriptor without an error.\<close>

theorem received_in_order:
  fixes s :: "'p r1000"
  assumes "RxDescArray s = Some ds" "length ds = NUM_RX_DESC" "unat (cur_rx s) < NUM_RX_DESC"
    "rx_pkt_len s = 1514" "hw_rx_pkt_len s = 1522" "netif s"
    "\<And>q. q < NUM_RX_DESC \<Longrightarrow> \<not> owned (ds ! q) \<Longrightarrow> \<not> errored (ds ! q) \<Longrightarrow> 4 \<le> unat (status (ds ! q) AND 0x1FFF)"
  shows "\<exists>k s'. R1000RxInterrupt granted s = Inr s' \<and> k \<le> max_interrupt_work \<and>
    (\<forall>j < k. \<not> owned (ds ! place (unat (cur_rx s)) j)) \<and>
    (owned (ds ! place (unat (cur_rx s)) k) \<or>
     max_interrupt_work \<le> k + card {r. r < max_interrupt_work \<and> \<not> granted r}) \<and>
    unat (cur_rx s') = place (unat (cur_rx s)) k \<and>
    (\<exists>delivered. delivered = filter (\<lambda>q. \<not> errored (ds ! q)) (map (place (unat (cur_rx s))) [0..<k]) \<and>
       netCalls s' = netCalls s @ map (\<lambda>q. InputPacket (packet_bytes (Rx_dbuff s q) (status (ds ! q)))) delivered \<and>
       RxDescArray s' = Some (map (\<lambda>q. if q \<in> set delivered
         then (ds ! q)\<lparr>status := OWNbit OR end_of_ring NUM_RX_DESC q OR 1522\<rparr> else ds ! q) [0..<NUM_RX_DESC]))"
proof -
  define c where "c = unat (cur_rx s)"
  have "max_interrupt_work < NUM_RX_DESC" by (simp add: max_interrupt_work_def NUM_RX_DESC_def)
  from rx_loop_run [OF assms(1-3) this assms(7) [folded counts_checksum_def] assms(4-6), of granted] obtain k where
    k: "k \<le> max_interrupt_work" "\<forall>q \<in> set (visited c k). \<not> owned (ds ! q)"
      "owned (ds ! place c k) \<or> max_interrupt_work \<le> k + card {r. r < max_interrupt_work \<and> \<not> granted r}"
    and loop: "rx_loop granted max_interrupt_work c s =
      Inr (place c k, after_delivery (filter (\<lambda>q. \<not> errored (ds ! q)) (visited c k)) ds s)"
    unfolding c_def by blast
  define s' where "s' = (after_delivery (filter (\<lambda>q. \<not> errored (ds ! q)) (visited c k)) ds s)\<lparr>cur_rx := of_nat (place c k)\<rparr>"
  have "R1000RxInterrupt granted s = Inr s'"
    by (simp add: R1000RxInterrupt_def c_def [symmetric] loop s'_def)
  moreover have "unat (cur_rx s') = place c k"
    using place_bound [of c k] by (simp add: s'_def unat_of_nat NUM_RX_DESC_def)
  moreover have "\<forall>j < k. \<not> owned (ds ! place c j)" using k(2) by (simp add: visited_def)
  moreover have "netCalls s' = netCalls s @ map (\<lambda>q. InputPacket (packet_bytes (Rx_dbuff s q) (status (ds ! q))))
      (filter (\<lambda>q. \<not> errored (ds ! q)) (visited c k))"
    "RxDescArray s' = Some (map (\<lambda>q. if q \<in> set (filter (\<lambda>q. \<not> errored (ds ! q)) (visited c k))
       then (ds ! q)\<lparr>status := OWNbit OR end_of_ring NUM_RX_DESC q OR 1522\<rparr> else ds ! q) [0..<NUM_RX_DESC])"
    by (simp_all add: s'_def after_delivery_def given_back_def)
  ultimately show ?thesis
    using k(1,3) unfolding c_def [symmetric] visited_def by blast
qed

text \<open>
  Two packets at the end of the ring and behind it a damaged one; the kernel has no buffer for the first
  in the first round.
\<close>

definition wrapping :: "unit r1000" where
  "wrapping = (new_r1000 ())\<lparr>rx_pkt_len := 1514, hw_rx_pkt_len := 1522, netif := True, cur_rx := 1023,
     Rx_dbuff := (\<lambda>i j. of_nat (i + j)),
     RxDescArray := Some (\<lparr>status = RxRES, vlan_tag = 0, buf_addr = 0, buf_Haddr = 0\<rparr> #
       \<lparr>status = 6, vlan_tag = 0, buf_addr = 0, buf_Haddr = 0\<rparr> #
       replicate 1021 \<lparr>status = OWNbit, vlan_tag = 0, buf_addr = 0, buf_Haddr = 0\<rparr> @
       [\<lparr>status = 7, vlan_tag = 0, buf_addr = 0, buf_Haddr = 0\<rparr>])\<rparr>"

theorem received_in_order_witness:
  "\<exists>s'. R1000RxInterrupt (\<lambda>r. r \<noteq> 19) wrapping = Inr s' \<and> unat (cur_rx s') = 2 \<and>
     netCalls s' = [InputPacket [255, 0, 1], InputPacket [1, 2]]"
proof -
  define d where "d w = \<lparr>status = w, vlan_tag = 0, buf_addr = 0, buf_Haddr = (0 :: u32)\<rparr>" for w
  define ds where "ds = d RxRES # d 6 # replicate 1021 (d OWNbit) @ [d 7]"
  have s: "RxDescArray wrapping = Some ds" "length ds = NUM_RX_DESC" "unat (cur_rx wrapping) = 1023"
    "rx_pkt_len wrapping = 1514" "hw_rx_pkt_len wrapping = 1522" "netif wrapping" "netCalls wrapping = []"
    "Rx_dbuff wrapping = (\<lambda>i j. of_nat (i + j))"
    by (simp_all add: wrapping_def ds_def d_def NUM_RX_DESC_def new_r1000_def)
  have p: "place 1023 0 = 1023" "place 1023 1 = 0" "place 1023 2 = 1" "place 1023 3 = 2"
    by (simp_all add: place_def NUM_RX_DESC_def)
  have at: "ds ! 1023 = d 7" "ds ! 0 = d RxRES" "ds ! 1 = d 6" by (simp_all add: ds_def nth_Cons' nth_append)
  have mid: "ds ! q = d OWNbit" if "2 \<le> q" "q < 1023" for q
    using that by (simp add: ds_def nth_Cons' nth_append)
  have r: "\<not> owned (d 7)" "\<not> owned (d 6)" "\<not> owned (d RxRES)" "owned (d OWNbit)"
    "\<not> errored (d 7)" "\<not> errored (d 6)" "errored (d RxRES)"
    by (simp_all add: d_def owned_def errored_def OWNbit_def RxRES_def any_bit_def)
  have long: "4 \<le> unat (status (ds ! q) AND 0x1FFF)"
    if "q < NUM_RX_DESC" "\<not> owned (ds ! q)" "\<not> errored (ds ! q)" for q
  proof -
    have "q = 1023 \<or> q = 0 \<or> q = 1 \<or> 2 \<le> q \<and> q < 1023" using that(1) by (auto simp: NUM_RX_DESC_def)
    then consider "q = 1023" | "q = 0" | "q = 1" | "2 \<le> q" "q < 1023" by blast
    then show ?thesis using that(2,3) at mid r by cases (auto simp: d_def)
  qed
  have len: "unat (cur_rx wrapping) < NUM_RX_DESC" using s(3) by (simp add: NUM_RX_DESC_def)
  from received_in_order [OF s(1,2) len s(4-6) long, of "\<lambda>r. r \<noteq> 19"] obtain k s' where
    k: "R1000RxInterrupt (\<lambda>r. r \<noteq> 19) wrapping = Inr s'" "k \<le> 20" "\<forall>j < k. \<not> owned (ds ! place 1023 j)"
      "owned (ds ! place 1023 k) \<or> 20 \<le> k + card {r. r < (20 :: nat) \<and> r = 19}"
    and s': "unat (cur_rx s') = place 1023 k"
      "netCalls s' = map (\<lambda>q. InputPacket (packet_bytes (Rx_dbuff wrapping q) (status (ds ! q))))
         (filter (\<lambda>q. \<not> errored (ds ! q)) (map (place 1023) [0..<k]))"
    unfolding s(3,7) max_interrupt_work_def by auto
  have own3: "owned (ds ! place 1023 3)" using r(4) mid [of 2] by (simp add: p)
  have "k \<le> 3" using k(3) own3 by (metis not_le)
  moreover have "{r. r < (20 :: nat) \<and> r = 19} = {19}" by auto
  ultimately have "owned (ds ! place 1023 k)" using k(4) by simp
  then have "k = 3" using \<open>k \<le> 3\<close> r at p by (auto simp: le_Suc_eq numeral_3_eq_3 numeral_2_eq_2)
  moreover have "[0..<3] = [0, 1, 2 :: nat]" by (simp add: upt_rec)
  ultimately have "filter (\<lambda>q. \<not> errored (ds ! q)) (map (place 1023) [0..<k]) = [1023, 1]"
    using p at r by (simp only: list.map filter.simps if_True if_False simp_thms)
  moreover have "packet_bytes (\<lambda>j. of_nat (1023 + j)) 7 = [255, 0, 1]" "packet_bytes (\<lambda>j. of_nat (1 + j)) 6 = [1, 2]"
    by (simp_all add: packet_bytes_def upt_rec)
  moreover have "status (d w) = w" for w by (simp add: d_def)
  ultimately show ?thesis
    using k(1) s' at p(4) \<open>k = 3\<close> by (simp only: s(8) list.map) blast
qed

section \<open>Reclaiming at the end of the ring\<close>

text \<open>
  The reclaim loop looks at descriptors from the place of the next packet on and does not go back to
  the first after the last: with two packets outstanding there, it reads behind the ring.
\<close>

lemma reclaim_reads_behind:
  assumes "TxDescArray s = Some ds" "length ds = NUM_TX_DESC" "unat (cur_tx s) mod NUM_TX_DESC = NUM_TX_DESC - 1"
    "\<not> owned (ds ! (NUM_TX_DESC - 1))" "cur_tx s = dirty_tx s + 2"
  shows "R1000TxInterrupt s = Inl OutOfBoundsRead"
proof -
  obtain n where work: "max_interrupt_work = Suc (Suc n)"
    by (metis max_interrupt_work_def numeral_eq_Suc pred_numeral_simps(2) eval_nat_numeral(3))
  have at: "desc_at (Some ds) (NUM_TX_DESC - 1) = Inr (ds ! (NUM_TX_DESC - 1))" "desc_at (Some ds) (Suc (NUM_TX_DESC - 1)) = Inl OutOfBoundsRead"
    using assms(2) by (simp_all add: desc_at_def NUM_TX_DESC_def)
  have same: "TxDescArray (case Tx_skbuff s i of
      Some m \<Rightarrow> (net_call (FreePacket (packetId m)) s)\<lparr>Tx_skbuff := (Tx_skbuff s)(i := None)\<rparr> | None \<Rightarrow> s) = Some ds" for i
    using assms(1) by (simp add: net_call_def split: option.split)
  show ?thesis
    unfolding R1000TxInterrupt_def assms(3) work
    using at assms(4) by (simp add: assms(1,5) same Let_def)
qed

end
