(* ===== verification/NetFilters.thy ===== *)
theory NetFilters
  imports NetRingProps
begin

text \<open>
  The multicast filter against the addresses it is made from, its checksum against the standard one,
  and the identification of the chip.
\<close>

section \<open>The checksum\<close>

text \<open>The standard register runs the other way: its low bit goes out first, its polynomial is reflected.\<close>

definition reflect :: "u32 \<Rightarrow> u32" where
  "reflect w = horner_sum of_bool 2 (map (\<lambda>i. bit w (31 - i)) [0..<32])"

lemma bit_reflect: "bit (reflect w) n \<longleftrightarrow> n < 32 \<and> bit w (31 - n)"
  by (auto simp: reflect_def bit_horner_sum_bit_word_iff simp del: upt.simps)

definition crc32_bit :: "u32 \<Rightarrow> u32" where
  "crc32_bit r = drop_bit 1 r XOR (if bit r 0 then 0xEDB88320 else 0)"

definition crc32_octet :: "u8 \<Rightarrow> u32 \<Rightarrow> u32" where
  "crc32_octet octet r = (crc32_bit ^^ 8) (r XOR ucast octet)"

definition crc32_register :: "u8 list \<Rightarrow> u32" where
  "crc32_register bytes = fold crc32_octet bytes 0xFFFFFFFF"

lemma reflect_step:
  "reflect (push_bit 1 crc XOR (if b then ethernet_polynomial else 0)) = drop_bit 1 (reflect crc) XOR (if b then 0xEDB88320 else 0)"
proof -
  have poly: "reflect ethernet_polynomial = 0xEDB88320" by (simp add: reflect_def ethernet_polynomial_def upt_rec)
  have shift: "reflect (push_bit 1 crc) = drop_bit 1 (reflect crc)"
  proof (rule bit_word_eqI)
    fix n assume "n < LENGTH(32)"
    have double: "bit (push_bit 1 crc) m \<longleftrightarrow> 0 < m \<and> m < 32 \<and> bit crc (m - 1)" for m
      by (simp only: bit_push_bit_iff) auto
    have "bit (reflect (push_bit 1 crc)) n \<longleftrightarrow> n < 32 \<and> 0 < 31 - n \<and> 31 - n < 32 \<and> bit crc (31 - n - 1)"
      by (simp only: bit_reflect double)
    also have "\<dots> \<longleftrightarrow> bit (drop_bit 1 (reflect crc)) n"
      by (simp only: bit_reflect bit_drop_bit_eq comp_apply) auto
    finally show "bit (reflect (push_bit 1 crc)) n \<longleftrightarrow> bit (drop_bit 1 (reflect crc)) n" .
  qed
  have "reflect (v XOR w) = reflect v XOR reflect w" for v w
    by (rule bit_word_eqI) (auto simp: bit_reflect bit_xor_iff)
  moreover have "reflect 0 = 0" by (rule bit_word_eqI) (simp add: bit_reflect)
  ultimately show ?thesis by (cases b) (simp_all only: shift poly if_True if_False)
qed

lemma reflect_bits:
  "reflect (crc_bits n octet crc) XOR ucast (drop_bit n octet) = (crc32_bit ^^ n) (reflect crc XOR ucast octet)"
proof (induction n arbitrary: octet crc)
  case (Suc n)
  define b where "b = (bit crc 31 \<noteq> bit octet 0)"
  have low: "bit (reflect crc XOR ucast octet) 0 = b" by (auto simp: b_def bit_reflect bit_xor_iff bit_ucast_iff)
  have shift: "drop_bit 1 (reflect crc XOR ucast octet) = drop_bit 1 (reflect crc) XOR ucast (drop_bit 1 octet)"
    by (rule bit_word_eqI) (auto simp: bit_reflect bit_xor_iff bit_ucast_iff bit_drop_bit_eq dest: bit_imp_le_length)
  have "crc32_bit (reflect crc XOR ucast octet) =
      reflect (push_bit 1 crc XOR (if b then ethernet_polynomial else 0)) XOR ucast (drop_bit 1 octet)"
    unfolding crc32_bit_def low shift reflect_step by (simp add: ac_simps)
  then show ?case
    using Suc.IH [of "drop_bit 1 octet" "push_bit 1 crc XOR (if b then ethernet_polynomial else 0)"]
    by (simp add: b_def funpow_swap1 drop_bit_drop_bit del: funpow.simps) (simp add: funpow_Suc_right del: funpow.simps)
qed simp

text \<open>C12. The hash function of the multicast filter is the checksum of Ethernet: whatever the bytes, its
  register is the bit reversal of the standard reflected one.
\<close>

theorem ether_crc_is_crc32: "ether_crc bytes = reflect (crc32_register bytes)"
proof -
  have twice: "reflect (reflect w) = w" for w by (rule bit_word_eqI) (auto simp: bit_reflect)
  have octet: "reflect (crc_bits 8 octet crc) = crc32_octet octet (reflect crc)" for octet crc
  proof -
    have "drop_bit 8 octet = 0" by (rule bit_word_eqI) (auto simp: bit_drop_bit_eq dest: bit_imp_le_length)
    then show ?thesis using reflect_bits [of 8 octet crc] by (simp add: crc32_octet_def)
  qed
  have "reflect (fold (crc_bits 8) bytes crc) = fold crc32_octet bytes (reflect crc)" for crc
    by (induction bytes arbitrary: crc) (simp_all add: octet)
  moreover have "reflect (- 1) = 0xFFFFFFFF" by (simp add: reflect_def upt_rec)
  ultimately have "reflect (ether_crc bytes) = crc32_register bytes" by (simp add: ether_crc_def crc32_register_def)
  then show ?thesis using twice by metis
qed

section \<open>The multicast filter\<close>

definition filter_bit :: "u32 \<times> u32 \<Rightarrow> nat \<Rightarrow> bool" where
  "filter_bit f n = (if n < 32 then bit (fst f) n else bit (snd f) (n - 32))"

lemma hash_bound: "multicast_hash a < 64"
proof -
  have "unat (drop_bit 26 (ether_crc a)) = unat (ether_crc a) div 2 ^ 26"
    by (simp only: unat_drop_bit_eq) (simp only: drop_bit_eq_div)
  moreover have "unat (ether_crc a) < 2 ^ 32" using unsigned_less [of "ether_crc a", where ?'a = nat] by simp
  ultimately show ?thesis by (simp add: multicast_hash_def)
qed

lemma add_hash_bit: "n < 64 \<Longrightarrow> filter_bit (add_hash a f) n \<longleftrightarrow> filter_bit f n \<or> multicast_hash a = n"
  using hash_bound [of a]
  by (auto simp: add_hash_def filter_bit_def Let_def bit_or_iff bit_exp_iff split: if_splits)

lemma add_hashes_bit:
  "n < 64 \<Longrightarrow> filter_bit (fold add_hash addrs f) n \<longleftrightarrow> filter_bit f n \<or> n \<in> multicast_hash ` set addrs"
  by (induction addrs arbitrary: f) (auto simp: add_hash_bit)

text \<open>C13. With up to 32 multicast addresses the two words written to the filter are the bits at the
  addresses' hashes, together with the bits that happened to be in the uninitialised words on the
  stack; with more, and with the newer chips, every bit is set. So no address of the list is filtered
  out.
\<close>

theorem multicast_filter_bits:
  assumes "length addrs < 2 ^ 32"
  shows "\<exists>f. setMulticastList D stack addrs s = WriteMMIO32 D (MAR0 + 4) (snd f) (WriteMMIO32 D MAR0 (fst f) s) \<and>
    (\<forall>n < 64. filter_bit f n \<longleftrightarrow>
       filters_all s \<or> length addrs > 32 \<or> filter_bit stack n \<or> n \<in> multicast_hash ` set addrs)"
proof -
  have many: "of_nat (length addrs) > multicast_filter_limit \<longleftrightarrow> length addrs > 32"
    using assms by (simp add: multicast_filter_limit_def word_less_nat_alt unat_of_nat take_bit_nat_eq_self)
  have ones: "filter_bit (0xffffffff, 0xffffffff) n" if "n < 64" for n
  proof -
    have "(0xffffffff :: u32) = - 1" by simp
    then show ?thesis using that by (simp only: filter_bit_def) auto
  qed
  define f where "f = (if filters_all s \<or> length addrs > 32 then (0xffffffff, 0xffffffff) else fold add_hash addrs stack)"
  have "setMulticastList D stack addrs s = WriteMMIO32 D (MAR0 + 4) (snd f) (WriteMMIO32 D MAR0 (fst f) s)"
    by (auto simp: setMulticastList_def write_filter_def many f_def split: prod.split)
  moreover have "\<forall>n < 64. filter_bit f n \<longleftrightarrow>
       filters_all s \<or> length addrs > 32 \<or> filter_bit stack n \<or> n \<in> multicast_hash ` set addrs"
    using ones by (auto simp: f_def add_hashes_bit)
  ultimately show ?thesis by blast
qed

theorem multicast_filter_bits_witness:
  "\<exists>f. setMulticastList silent_chip (0, 0) [[1, 0, 0x5E, 0, 0, 1]] (new_r1000 ()) =
      WriteMMIO32 silent_chip (MAR0 + 4) (snd f) (WriteMMIO32 silent_chip MAR0 (fst f) (new_r1000 ())) \<and>
    filter_bit f (multicast_hash [1, 0, 0x5E, 0, 0, 1])"
  using multicast_filter_bits [of "[[1, 0, 0x5E, 0, 0, 1]]" silent_chip "(0, 0)" "new_r1000 ()"] hash_bound by fastforce

section \<open>The chip\<close>

text \<open>Whatever the register says, the chip found is a row of the table with that method and a name.\<close>

lemma chip_identified:
  "find_chipset (config_method w) c < 10 \<and> fst (snd (rtl_chip_info ! find_chipset (config_method w) c)) = config_method w \<and>
   fst (rtl_chip_info ! find_chipset (config_method w) c) \<noteq> None"
proof -
  have "config_method w \<in> {1, 2, 3, 4, 5, 11, 12, 13, 14, 15}" by (simp add: config_method_def Let_def)
  then show ?thesis by (auto simp: find_chipset_def rtl_chip_info_def upt_rec)
qed

end
