(* ===== verification/Spec2Isabelle.thy ===== *)
theory Spec2Isabelle
  imports Ps2SynapticsStart BatteryTypes SmbiosProps AtaPower AtaSharing NetReceive NetFilters
begin

text \<open>
  Verification of kernel extensions of the netbook installer: the PS/2 driver stack under
  \<open>src/Kext Sources/ApplePS2Controller\<close>, the battery extension under
  \<open>src/Kext Sources/AppleACPIBatteryManager\<close>, \<open>src/Kext Sources/SMBIOSResolver\<close>, the disk driver
  under \<open>src/Kext Sources/AppleIntelPIIXATA\<close> and the network driver under
  \<open>src/Kext Sources/RealtekR1000\<close>.

  \<^bold>\<open>The program.\<close> \<open>ApplePS2Controller\<close> owns the two ports of the keyboard controller. Interrupt
  handlers move scan codes into a small queue; the work loop hands bytes to the registered
  interrupt actions of the drivers and executes the requests the drivers queue or block on;
  a thread call carries power changes. Two nubs (\<open>ApplePS2KeyboardDevice\<close>,
  \<open>ApplePS2MouseDevice\<close>) pass the drivers' calls on. \<open>ApplePS2Keyboard\<close> parses scan codes,
  \<open>ApplePS2Mouse\<close>, \<open>ApplePS2ALPSGlidePoint\<close> and \<open>ApplePS2ElantechTouchpad\<close> assemble packets;
  \<open>ApplePS2SynapticsTouchPad\<close> also turns positions and pressures into movements, scrolling, taps,
  drags and swipes.

  \<open>AppleACPIBatteryManager\<close> evaluates the firmware's battery methods, on messages, on waking and when
  the battery object's timer expires; \<open>AppleACPIBatteryDevice\<close> turns the packages into the published
  properties of a power source. \<open>SMBIOSResolver\<close> runs once at start-up and repairs what the registry
  says of the machine: identification strings, bus and processor frequency, memory descriptions.

  \<open>AppleIntelPIIXATARoot\<close> drives the ATA controller: it finds its two channels, opens the PCI device
  while one of them is open and writes their shares of the configuration space. Each
  \<open>AppleIntelPIIXATAChannel\<close> describes one channel; \<open>AppleIntelPIIXPATA\<close> (or its subclass
  \<open>AppleIntelICHxSATA\<close>) attaches to it, selects the timings of its two drives, fills the descriptor
  table of transfers and handles interrupts, power and polling.

  \<open>RealtekR1000\<close> identifies an Ethernet chip and sets it up, shares two rings of descriptors with it,
  copies packets to and from their buffers, reclaims what was sent in its interrupt handler and
  restarts the chip from a watchdog; the network family turns it on and off, chooses the medium and sets
  the filters of packets.

  \<^bold>\<open>The theories\<close>, each importing the ones before it that it uses:
  \<^item> \<open>Ps2Prelude\<close>: machine integers, lemmas on bytes, lists and options.
  \<^item> \<open>KeyQueue\<close>: the keyboard data queue (\<open>enqueueKeyboardData\<close>, \<open>dequeueKeyboardData\<close>), the locale
    \<open>bounded_fifo\<close> and its interpretation on the queue.
  \<^item> \<open>Ps2Device\<close>: the constants, commands and requests of \<open>ApplePS2Device.h\<close>.
  \<^item> \<open>Ps2Controller\<close>: the controller's state, the port routines and both versions of
    \<open>readDataPort\<close>; \<open>Ps2Reading\<close>: what they return and deliver.
  \<^item> \<open>Ps2Requests\<close>, \<open>Ps2RequestProps\<close>: \<open>allocateRequest\<close> to \<open>processRequestQueue\<close>.
  \<^item> \<open>Ps2Interrupts\<close>, \<open>Ps2InterruptProps\<close>: the interrupt handlers, \<open>doEscape\<close>, \<open>interruptOccurred\<close>;
    \<open>Ps2Registration\<close>: the registered actions as a transition system.
  \<^item> \<open>Ps2Power\<close>, \<open>Ps2PowerProps\<close>, \<open>Ps2Hardware\<close>: power states, hardware start-up, command byte.
  \<^item> \<open>Ps2CommandByte\<close>: the test-and-set loop all drivers copy; \<open>Ps2Link\<close>: conversations with the
    device behind the mouse port.
  \<^item> \<open>Ps2Keyboard\<close>, \<open>Ps2KeyboardProps\<close>: the keyboard driver, with the locale \<open>key_register\<close> for its
    bit vector.
  \<^item> \<open>Ps2Mouse\<close>, \<open>Ps2DriverState\<close>, \<open>Ps2MouseProps\<close>: the mouse driver, what requests leave to the
    drivers, and the machine in which the drivers answer the controller.
  \<^item> \<open>Ps2Lifecycle\<close>: start and stop of the controller, the nubs.
  \<^item> \<open>Ps2GlidePoint\<close>, \<open>Ps2Elantech\<close>, \<open>Ps2PadProps\<close>: the two simple touchpad drivers.
  \<^item> \<open>Ps2SynapticsPad\<close>: the Synaptics driver's tables, state and initial values;
    \<open>Ps2SynapticsGestures\<close>: its packet handlers, one definition per stage of
    \<open>dispatchRelativePointerEventWithAbsolutePacket\<close>, which \<open>dispatchAbsolutePacket\<close> composes;
    \<open>Ps2Synaptics\<close>: queries, probe, interrupt routine, start, stop, power and preferences.
  \<^item> \<open>Ps2SynapticsFields\<close>: the acceleration table and the layout of packets;
    \<open>Ps2SynapticsProps\<close>: the gesture machine; \<open>Ps2SynapticsLink\<close>: the query protocol carried out
    over the controller; \<open>Ps2SynapticsStream\<close>, \<open>Ps2SynapticsStart\<close>: the stream of bytes, start.

  \<^item> \<open>KernelObjects\<close>: the container classes of the kernel.
  \<^item> \<open>BatteryData\<close>: constants, fields and accessors of the battery;
    \<open>BatteryDevice\<close>: reading packages, publishing, clearing; \<open>BatteryManager\<close>: the firmware methods,
    polling, start, messages. \<open>BatteryPolling\<close>: the frame lemmas and the locale \<open>battery_invariant\<close>
    of what every operation keeps, interpreted three times: \<open>BatteryRuns\<close> (timers and polling
    table; readable names), \<open>BatteryTypes\<close> (types of the properties). \<open>BatteryReport\<close>: the published
    report against its specification; \<open>BatteryProps\<close>: legacy dictionary, removal, malformed
    packages, witnesses.
  \<^item> \<open>SmbiosResolver\<close>: \<open>start\<close> of the resolver in its stages and \<open>calcCPU\<close>; \<open>SmbiosProps\<close>: its memory
    descriptions as lists of strings, the published entries of the root, frequencies.

  \<^item> \<open>AtaHardware\<close>: registers, timing tables, the device as a parameter; \<open>AtaChannel\<close>: the root driver
    and the channels; \<open>AtaTiming\<close>: the driver's state, register values, \<open>selectConfig\<close>;
    \<open>AtaTransfer\<close>: the descriptor table; \<open>AtaDriver\<close>: start, interrupts, power, polling, scanning.
  \<^item> \<open>AtaTimingProps\<close>: the fields of one drive in the shared registers; \<open>AtaSelect\<close>: which modes are
    selected; \<open>AtaTransferProps\<close>: the table against the pieces of the buffer; \<open>AtaPower\<close>: the timing
    registers as an invariant of the driver's life; \<open>AtaSharing\<close>: the locale \<open>shared_provider\<close> and its
    interpretation on the root driver, the serial ports.

  \<^item> \<open>NetHardware\<close>: registers, packets, the driver's state, access to registers and PHY;
    \<open>NetBoard\<close>: identification, set-up, media, start of the chip; \<open>NetRings\<close>: the rings, sending, receiving,
    interrupts, watchdog; \<open>NetDriver\<close>: start, activation, filters.
  \<^item> \<open>NetFrame\<close>: what register access leaves alone; \<open>NetReach\<close>: the chip's moves, the reachable states and
    the locale \<open>ring_invariant\<close>, interpreted three times: \<open>NetRingProps\<close> (what the descriptors say),
    \<open>NetLifeProps\<close> (packets; activation); \<open>NetLife\<close>: allocation, start, activation step by step;
    \<open>NetProps\<close>, \<open>NetReceive\<close>, \<open>NetFilters\<close>: the theorems.

  \<^bold>\<open>Correspondence.\<close> A class is a record, its fields named as in the source without the leading
  underscore; an operation keeps its function's name, with the driver's name in front where
  several drivers have it. Object and function pointers are numbers, 0 is null. Operations that
  may fail to return (\<open>while\<close> loops on the status port, requests, driver actions) have an option
  result, \<open>None\<close> meaning that the call does not return; they are partial functions or built from
  them. Calls to other objects are recorded in the order they are made.

  \<^bold>\<open>Parameters and hypotheses.\<close> The port instructions, the functions behind registered pointers
  and the kernel debugger are the fields of \<open>env\<close>. Hypotheses on them are named:
  \<open>output_buffer_law\<close> (the output buffer is a first-in-first-out list of bytes, the status bits
  describe its head), \<open>input_ready_law\<close> (the input buffer empties), \<open>command_byte_law\<close> (the command
  byte is read and written by its two commands), \<open>link_law\<close> (bytes routed to the mouse port reach
  the device and its answers are appended), \<open>passive_actions\<close> (interrupt actions return and do not
  touch the controller), \<open>quiet_power_actions\<close> (power actions return and leave the power fields),
  \<open>transparent_debugger\<close>, \<open>query_law\<close> (a Synaptics device acknowledges each byte, collects the
  arguments of resolution commands and answers a status request by the selector they form).
  The battery's superclass \<open>IOPMPowerSource\<close> is the record \<open>power_source\<close> with \<open>power_source_law\<close> (a
  setter stores its argument under its key, a flag is read back) and \<open>distinct_flags_law\<close>; the
  firmware is \<open>acpi_env\<close>, with \<open>well_formed_firmware\<close> where packages must be well formed.
  The processor of the resolver is the record \<open>processor\<close>. The ATA controller is the record
  \<open>ata_device\<close> with \<open>timing_law\<close> (a timing register holds what was written last);
  \<open>bit_number_law\<close> is the superclass's \<open>bitSigToNumeric\<close>, \<open>segment_law\<close> the kernel's segment generator
  (\<open>gen32IOVMSegments\<close> gives successive contiguous segments of the buffer, of at least one byte each),
  \<open>ports_apart\<close> the personality's port map, \<open>keeping_super\<close> says that a routine of a superclass does not
  touch the timing registers; the routines themselves are arguments. The network chip is the record
  \<open>net_device\<close>, about whose registers nothing is assumed; \<open>device_moves\<close> is what it may do to the rings: give
  back descriptors it owns, between two calls of the driver and before each round of its interrupt handler.
  The floating-point unit is the record \<open>fpu\<close>, about which nothing is assumed; clocks and the
  keyboard driver's fields that the touchpad reads are arguments. Each hypothesis has a concrete instance (\<open>fifo_env\<close>, \<open>sample_env\<close>, \<open>linked_env\<close>,
  \<open>plain_power_source\<close>, \<open>sample_firmware\<close>, \<open>plain_device\<close>, \<open>first_bit\<close>, \<open>sample_gen\<close>, \<open>silent_chip\<close>) used by the witnesses.

  \<^bold>\<open>Bounds.\<close> \<open>readDataPort\<close> polls 10000 times in all, as the source does. \<open>machine_env_of\<close> and, for
  the Synaptics driver, \<open>touch_env_of\<close> bound how deeply driver actions nest: an action that waits for a
  request lets the work loop run the actions again. The theorems that use them hold for every bound.

  \<^bold>\<open>What is shown.\<close> Reading with an expected byte refines an abstract function on the byte stream
  and conserves bytes; request execution returns, in the order of the queue, reports the failing index and
  is the same in and out of the gate; \<open>setCommandByte\<close> is correct and its test-and-set atomic when no keystroke
  waits (with one it need not be: \<open>stale_keystroke_passes_compare\<close>); keystrokes keep
  their order from interrupt to driver; actions and retains are balanced in every reachable
  state; power changes keep the invariant and complete; scan codes and packets are decoded as
  their formats say, and packet buffers are never overrun, also when a reset is re-entered. For
  the Synaptics pad: the answers to its questions are those of the device for the selector
  asked, its probe claims the supported versions, six bytes of a finger's report become the one
  pointer event they describe, the gesture machine keeps its invariant for every sequence of
  events, and taps, drags and lifted fingers send what they should. For the battery: a status
  read publishes what an exact specification says as long as nothing can wrap, the timer is
  always set again, no poll of a well-formed firmware fails, every published property keeps its
  type (names are published as symbols or, by an unconverted cast, as strings), and removal and malformed
  packages do what the theorems say. The resolver's memory descriptions are what their format says, the
  entries it copies to the root of the device tree are published as they should, and it runs once. For the disk
  driver: a request selects the fastest modes that suit controller, drive and cable, an unsupported
  one changes nothing, an answer can be given back; the hardware runs both drives at the selected
  timings in every state the driver reaches, whatever the other channel writes; a transfer's
  descriptors describe exactly its bytes, or it is refused, unless a segment ends with the last byte of the
  32-bit address space; the controller is open while a channel is; no serial port
  is used twice. For the network driver, in every state it reaches: the descriptors the chip owns stay
  within the buffers allocated for them, with one end mark at the end; no packet is released twice; the
  driver is at rest or active and can be enabled and disabled. Received packets are delivered in their
  order (those with the error bit are passed over and their descriptors lost); its checksum is that of Ethernet, and the multicast filter lets every listed address through.

  \<^bold>\<open>Not modelled.\<close> Allocation of requests does not fail in the model (the drivers differ in whether
  they check). Log texts, the default key map and registry properties without effect on the
  code are left out; the Synaptics driver's drag timer is the events that set and cancel it. Where
  kernel code would follow a null pointer or leave an array the model has an error value; what
  happens after it is not modelled. Controllers that share
  the timings of two drives are modelled, but the theorems on timings are about those with registers
  of their own; \<open>serializeProperties\<close> and the work loop class of the disk driver are left out.
  What the network chip does while an operation of the driver runs (other than between the rounds of the
  interrupt handler), the objects of its work loop and queue, registration with power management and the
  empty debugger routines are left out; \<open>IOHIDFamily\<close> and \<open>IOAudioFamily\<close> are vendored Apple code, the installer proper is an
  Objective-C user interface.
\<close>

end
